(* ===== verification/Prelude.thy ===== *)
theory Prelude
  imports Main "HOL-Library.Multiset" "HOL-Library.Char_ord" "HOL-Library.List_Lexorder" "HOL-Library.Word"
begin

text \<open>
  The shared vocabulary of the development: results of fallible Rust code
  (\<open>anyhow::Result\<close> with panics and blocked locks made explicit), actions over a state, the
  rules that compose them, and generic lemmas on lists used by several components.
\<close>

named_theorems run_simps \<open>equations that run an action step by step\<close>
named_theorems safe_intros \<open>rules that derive the safety of an action from its parts\<close>

section \<open>Errors and results\<close>

text \<open>
  \<open>Msg\<close> is an \<open>anyhow\<close> error as \<open>to_string\<close> prints it (with
  \<open>.context(c)\<close> the outermost text \<open>c\<close>); \<open>SqlUnique\<close> is the error of an
  \<open>INSERT\<close> that violates a uniqueness constraint of the named table.
  \<open>Panic\<close> is an unwinding panic, \<open>Deadlock\<close> a thread that blocks for ever on a
  mutex it already holds.
\<close>

datatype error = Msg string | SqlUnique string

datatype 'a res = Ok 'a | Err error | Panic | Deadlock

fun map_res :: "('a \<Rightarrow> 'b) \<Rightarrow> 'a res \<Rightarrow> 'b res" where
  "map_res f (Ok a) = Ok (f a)"
| "map_res f (Err e) = Err e"
| "map_res f Panic = Panic"
| "map_res f Deadlock = Deadlock"

fun bind_res :: "'a res \<Rightarrow> ('a \<Rightarrow> 'b res) \<Rightarrow> 'b res" where
  "bind_res (Ok a) f = f a"
| "bind_res (Err e) f = Err e"
| "bind_res Panic f = Panic"
| "bind_res Deadlock f = Deadlock"

fun traverse_res :: "('a \<Rightarrow> 'b res) \<Rightarrow> 'a list \<Rightarrow> 'b list res" where
  "traverse_res f [] = Ok []"
| "traverse_res f (x # xs) = bind_res (f x) (\<lambda>y. bind_res (traverse_res f xs) (\<lambda>ys. Ok (y # ys)))"

definition of_option :: "error \<Rightarrow> 'a option \<Rightarrow> 'a res" where
  "of_option e x = (case x of None \<Rightarrow> Err e | Some a \<Rightarrow> Ok a)"

lemma of_option_simps [simp]: "of_option e None = Err e" "of_option e (Some a) = Ok a"
  by (simp_all add: of_option_def)

definition is_ok :: "'a res \<Rightarrow> bool" where
  "is_ok r = (case r of Ok _ \<Rightarrow> True | _ \<Rightarrow> False)"

text \<open>A result that is a value or an error: the code neither panicked nor blocked.\<close>

definition returns :: "'a res \<Rightarrow> bool" where
  "returns r = (case r of Ok _ \<Rightarrow> True | Err _ \<Rightarrow> True | Panic \<Rightarrow> False | Deadlock \<Rightarrow> False)"

lemma is_ok_simps [simp]: "is_ok (Ok a)" "\<not> is_ok (Err e)" "\<not> is_ok Panic" "\<not> is_ok Deadlock"
  by (simp_all add: is_ok_def)

lemma returns_simps [simp]:
  "returns (Ok a)" "returns (Err e)" "\<not> returns Panic" "\<not> returns Deadlock"
  by (simp_all add: returns_def)

lemma bind_res_eq_Ok [simp]: "bind_res r f = Ok b \<longleftrightarrow> (\<exists>a. r = Ok a \<and> f a = Ok b)"
  by (cases r) auto

lemma returns_bind_res: "returns r \<Longrightarrow> (\<And>a. r = Ok a \<Longrightarrow> returns (f a)) \<Longrightarrow> returns (bind_res r f)"
  by (cases r) auto

lemma returns_of_option [simp]: "returns (of_option e x)"
  by (cases x) auto

lemma returns_traverse_res: "(\<And>x. x \<in> set xs \<Longrightarrow> returns (f x)) \<Longrightarrow> returns (traverse_res f xs)"
  by (induction xs) (auto intro!: returns_bind_res)

lemma traverse_res_Ok:
  "(\<And>x. x \<in> set xs \<Longrightarrow> f x = Ok (g x)) \<Longrightarrow> traverse_res f xs = Ok (map g xs)"
  by (induction xs) auto

lemma traverse_res_length: "traverse_res f xs = Ok ys \<Longrightarrow> length ys = length xs"
  by (induction xs arbitrary: ys) auto

lemma traverse_res_nth:
  "traverse_res f xs = Ok ys \<Longrightarrow> i < length xs \<Longrightarrow> f (xs ! i) = Ok (ys ! i)"
  by (induction xs arbitrary: ys i) (auto simp: nth_Cons split: nat.splits)

section \<open>Actions\<close>

text \<open>
  An action takes the state and gives a result and the state it leaves, whether it succeeded
  or not: a failing Rust function keeps the side effects it already had.
\<close>

type_synonym ('s, 'a) act = "'s \<Rightarrow> 'a res \<times> 's"

definition ret :: "'a \<Rightarrow> ('s, 'a) act" where
  "ret a = (\<lambda>s. (Ok a, s))"

definition fail :: "error \<Rightarrow> ('s, 'a) act" where
  "fail e = (\<lambda>s. (Err e, s))"

definition lift_res :: "'a res \<Rightarrow> ('s, 'a) act" where
  "lift_res r = (\<lambda>s. (r, s))"

definition andthen :: "('s, 'a) act \<Rightarrow> ('a \<Rightarrow> ('s, 'b) act) \<Rightarrow> ('s, 'b) act" where
  "andthen m f = (\<lambda>s. case m s of
       (Ok a, s') \<Rightarrow> f a s'
     | (Err e, s') \<Rightarrow> (Err e, s')
     | (Panic, s') \<Rightarrow> (Panic, s')
     | (Deadlock, s') \<Rightarrow> (Deadlock, s'))"

text \<open>\<open>let _ = m;\<close> drops an error, but a panic or a block still stops the caller.\<close>

definition ignore_err :: "('s, 'a) act \<Rightarrow> ('s, unit) act" where
  "ignore_err m = (\<lambda>s. case m s of
       (Ok _, s') \<Rightarrow> (Ok (), s')
     | (Err _, s') \<Rightarrow> (Ok (), s')
     | (Panic, s') \<Rightarrow> (Panic, s')
     | (Deadlock, s') \<Rightarrow> (Deadlock, s'))"

text \<open>\<open>m.unwrap_or(d)\<close>, and \<open>match m { Ok \<dots>, Err \<dots> }\<close> as \<open>attempt\<close>.\<close>

definition or_default :: "('s, 'a) act \<Rightarrow> 'a \<Rightarrow> ('s, 'a) act" where
  "or_default m d = (\<lambda>s. case m s of (Err _, s') \<Rightarrow> (Ok d, s') | other \<Rightarrow> other)"

definition attempt :: "('s, 'a) act \<Rightarrow> ('s, error + 'a) act" where
  "attempt m = (\<lambda>s. case m s of
       (Ok a, s') \<Rightarrow> (Ok (Inr a), s')
     | (Err e, s') \<Rightarrow> (Ok (Inl e), s')
     | (Panic, s') \<Rightarrow> (Panic, s')
     | (Deadlock, s') \<Rightarrow> (Deadlock, s'))"

text \<open>A \<open>for\<close> loop whose body may return early with an error.\<close>

fun for_each :: "('a \<Rightarrow> ('s, unit) act) \<Rightarrow> 'a list \<Rightarrow> ('s, unit) act" where
  "for_each f [] = ret ()"
| "for_each f (x # xs) = andthen (f x) (\<lambda>_. for_each f xs)"

fun map_act :: "('a \<Rightarrow> ('s, 'b) act) \<Rightarrow> 'a list \<Rightarrow> ('s, 'b list) act" where
  "map_act f [] = ret []"
| "map_act f (x # xs) = andthen (f x) (\<lambda>y. andthen (map_act f xs) (\<lambda>ys. ret (y # ys)))"

lemma ret_run [run_simps]: "ret a s = (Ok a, s)"
  by (simp add: ret_def)

lemma fail_run [run_simps]: "fail e s = (Err e, s)"
  by (simp add: fail_def)

lemma lift_res_run [run_simps]: "lift_res r s = (r, s)"
  by (simp add: lift_res_def)

lemma andthen_run [run_simps]:
  "andthen m f s = (case m s of
       (Ok a, s') \<Rightarrow> f a s'
     | (Err e, s') \<Rightarrow> (Err e, s')
     | (Panic, s') \<Rightarrow> (Panic, s')
     | (Deadlock, s') \<Rightarrow> (Deadlock, s'))"
  by (simp add: andthen_def)

lemma ignore_err_run [run_simps]:
  "ignore_err m s = (case m s of
       (Ok _, s') \<Rightarrow> (Ok (), s')
     | (Err _, s') \<Rightarrow> (Ok (), s')
     | (Panic, s') \<Rightarrow> (Panic, s')
     | (Deadlock, s') \<Rightarrow> (Deadlock, s'))"
  by (simp add: ignore_err_def)

lemma or_default_run [run_simps]:
  "or_default m d s = (case m s of (Err _, s') \<Rightarrow> (Ok d, s') | other \<Rightarrow> other)"
  by (simp add: or_default_def)

lemma attempt_run [run_simps]:
  "attempt m s = (case m s of
       (Ok a, s') \<Rightarrow> (Ok (Inr a), s')
     | (Err e, s') \<Rightarrow> (Ok (Inl e), s')
     | (Panic, s') \<Rightarrow> (Panic, s')
     | (Deadlock, s') \<Rightarrow> (Deadlock, s'))"
  by (simp add: attempt_def)

text \<open>The monad laws, which the component proofs use to regroup steps.\<close>

lemma andthen_ret [simp]: "andthen m ret = m"
  by (rule ext) (auto simp: run_simps split: prod.splits res.splits)

lemma ret_andthen [simp]: "andthen (ret a) f = f a"
  by (rule ext) (simp add: run_simps)

lemma andthen_assoc: "andthen (andthen m f) g = andthen m (\<lambda>a. andthen (f a) g)"
  by (rule ext) (auto simp: run_simps split: prod.splits res.splits)

lemma andthen_cong_run: "m s = (Ok a, s') \<Longrightarrow> andthen m f s = f a s'"
  by (simp add: run_simps)

text \<open>A sequence that succeeded ran each of its steps to success.\<close>

lemma andthen_OkE:
  assumes "andthen m f s = (Ok b, s')"
  obtains a s1 where "m s = (Ok a, s1)" "f a s1 = (Ok b, s')"
  using assms by (cases "m s"; cases "fst (m s)") (auto simp: run_simps)

lemma lift_res_OkE: "lift_res r s = (Ok a, s') \<Longrightarrow> (r = Ok a \<Longrightarrow> s' = s \<Longrightarrow> thesis) \<Longrightarrow> thesis"
  by (simp add: run_simps)

section \<open>Lists\<close>

lemma length_dropWhile_Suc [termination_simp]: "length (dropWhile p xs) < Suc (length xs)"
  using length_dropWhile_le [of p xs] by simp

definition order_desc :: "('r \<Rightarrow> 'k::linorder) \<Rightarrow> 'r list \<Rightarrow> 'r list" where
  "order_desc k xs = rev (sort_key k (rev xs))"

lemma set_order_desc [simp]: "set (order_desc k xs) = set xs"
  by (simp add: order_desc_def)

lemma length_order_desc [simp]: "length (order_desc k xs) = length xs"
  by (simp add: order_desc_def)

lemma mset_order_desc [simp]: "mset (order_desc k xs) = mset xs"
  by (simp add: order_desc_def)

lemma order_desc_sorted: "sorted_wrt (\<lambda>a b. k b \<le> k a) (order_desc k xs)"
proof -
  have "sorted (map k (sort_key k (rev xs)))" by simp
  then have "sorted_wrt (\<lambda>a b. k a \<le> k b) (sort_key k (rev xs))"
    by (simp add: sorted_wrt_map)
  then show ?thesis
    by (simp add: order_desc_def sorted_wrt_rev)
qed

text \<open>The sort is stable: rows with equal keys keep their order.\<close>

lemma order_desc_stable: "filter (\<lambda>x. k x = v) (order_desc k xs) = filter (\<lambda>x. k x = v) xs"
proof -
  have "filter (\<lambda>x. k x = v) (order_desc k xs) = rev (filter (\<lambda>x. k x = v) (sort_key k (rev xs)))"
    by (simp add: order_desc_def rev_filter)
  also have "filter (\<lambda>x. k x = v) (sort_key k (rev xs)) = filter (\<lambda>x. k x = v) (rev xs)"
    by (rule sort_key_stable)
  finally show ?thesis by (simp add: rev_filter)
qed

fun dedup_adjacent :: "'a list \<Rightarrow> 'a list" where
  "dedup_adjacent [] = []"
| "dedup_adjacent [x] = [x]"
| "dedup_adjacent (x # y # xs) =
     (if x = y then dedup_adjacent (y # xs) else x # dedup_adjacent (y # xs))"

lemma set_dedup_adjacent [simp]: "set (dedup_adjacent xs) = set xs"
  by (induction xs rule: dedup_adjacent.induct) auto

lemma dedup_adjacent_eq_remdups: "sorted xs \<Longrightarrow> sorted (dedup_adjacent xs) \<and> distinct (dedup_adjacent xs)"
  by (induction xs rule: dedup_adjacent.induct) (auto simp: less_le dest: antisym)

lemma dedup_adjacent_distinct: "distinct xs \<Longrightarrow> dedup_adjacent xs = xs"
  by (induction xs rule: dedup_adjacent.induct) auto

lemma sorted_dedup_idem:
  "sorted xs \<Longrightarrow> dedup_adjacent (sort (dedup_adjacent xs)) = dedup_adjacent xs"
  using dedup_adjacent_eq_remdups [of xs]
  by (simp add: sorted_sort_id dedup_adjacent_distinct)

end
