(* ===== verification/Rust_Str.thy ===== *)
theory Rust_Str
  imports Prelude "HOL-Library.Sublist"
begin

text \<open>
  Rust's \<open>str\<close>, as far as the program uses it. A \<open>str\<close> is its list of UTF-8
  bytes (\<open>string\<close>, one \<open>char\<close> per byte), so \<open>length\<close> is \<open>len()\<close>, slicing is by
  byte offset and panics off a character boundary, and \<open>chars\<close> groups the bytes into the
  code points that \<open>chars()\<close> yields, each as its own byte sequence.
\<close>

section \<open>Code points\<close>

definition byte :: "char \<Rightarrow> nat" where
  "byte c = of_char c"

definition is_cont :: "char \<Rightarrow> bool" where
  "is_cont c \<longleftrightarrow> 128 \<le> byte c \<and> byte c < 192"

fun chars :: "string \<Rightarrow> string list" where
  "chars [] = []"
| "chars (b # bs) = (b # takeWhile is_cont bs) # chars (dropWhile is_cont bs)"

definition chars_count :: "string \<Rightarrow> nat" where
  "chars_count s = length (chars s)"

text \<open>A string that does not begin inside a code point, as every valid UTF-8 string.\<close>

definition starts_clean :: "string \<Rightarrow> bool" where
  "starts_clean s \<longleftrightarrow> (case s of [] \<Rightarrow> True | b # _ \<Rightarrow> \<not> is_cont b)"

text \<open>\<open>String::from_utf8\<close> accepts exactly the byte sequences of RFC 3629.\<close>

fun utf8_valid :: "nat list \<Rightarrow> bool" where
  "utf8_valid [] = True"
| "utf8_valid (b # bs) =
     (if b < 128 then utf8_valid bs
      else if 194 \<le> b \<and> b \<le> 223 then
        (case bs of c # r \<Rightarrow> 128 \<le> c \<and> c < 192 \<and> utf8_valid r | _ \<Rightarrow> False)
      else if 224 \<le> b \<and> b \<le> 239 then
        (case bs of c # d # r \<Rightarrow>
           (if b = 224 then 160 \<le> c else 128 \<le> c) \<and> (if b = 237 then c < 160 else c < 192) \<and>
           128 \<le> d \<and> d < 192 \<and> utf8_valid r
         | _ \<Rightarrow> False)
      else if 240 \<le> b \<and> b \<le> 244 then
        (case bs of c # d # e # r \<Rightarrow>
           (if b = 240 then 144 \<le> c else 128 \<le> c) \<and> (if b = 244 then c < 144 else c < 192) \<and>
           128 \<le> d \<and> d < 192 \<and> 128 \<le> e \<and> e < 192 \<and> utf8_valid r
         | _ \<Rightarrow> False)
      else False)"

definition from_utf8 :: "string \<Rightarrow> string option" where
  "from_utf8 s = (if utf8_valid (map byte s) then Some s else None)"

lemma concat_chars [simp]: "concat (chars s) = s"
  by (induction s rule: chars.induct) auto

lemma chars_nonempty: "c \<in> set (chars s) \<Longrightarrow> c \<noteq> []"
  by (induction s rule: chars.induct) auto

lemma chars_count_le_length: "chars_count s \<le> length s"
proof (induction s rule: chars.induct)
  case 1
  then show ?case by (simp add: chars_count_def)
next
  case (2 b bs)
  have "length (dropWhile is_cont bs) \<le> length bs" by (rule length_dropWhile_le)
  with 2 show ?case by (simp add: chars_count_def)
qed

lemma takeWhile_append_stop: "starts_clean t \<Longrightarrow> \<forall>x\<in>set xs. is_cont x \<Longrightarrow> takeWhile is_cont (xs @ t) = xs"
  by (cases t) (auto simp: starts_clean_def takeWhile_append)

lemma dropWhile_append_stop: "starts_clean t \<Longrightarrow> \<forall>x\<in>set xs. is_cont x \<Longrightarrow> dropWhile is_cont (xs @ t) = t"
  by (cases t) (auto simp: starts_clean_def dropWhile_append)

lemma starts_clean_dropWhile: "starts_clean (dropWhile is_cont bs)"
  by (induction bs) (auto simp: starts_clean_def)

lemma starts_clean_takeWhile [simp]: "starts_clean t \<Longrightarrow> takeWhile is_cont t = []"
  by (cases t) (auto simp: starts_clean_def)

lemma starts_clean_dropWhile_id [simp]: "starts_clean t \<Longrightarrow> dropWhile is_cont t = t"
  by (cases t) (auto simp: starts_clean_def)

lemma dropWhile_takeWhile_same [simp]: "dropWhile p (takeWhile p xs) = []"
  by (simp add: dropWhile_eq_Nil_conv) (meson set_takeWhileD)

lemma starts_clean_chars_concat:
  "starts_clean s \<Longrightarrow> starts_clean t \<Longrightarrow> starts_clean (concat (take n (chars s)) @ t)"
  by (cases s; cases n) (auto simp: starts_clean_def)

lemma chars_append_clean: "starts_clean t \<Longrightarrow> chars (s @ t) = chars s @ chars t"
proof (induction s rule: chars.induct)
  case 1
  then show ?case by simp
next
  case (2 b bs)
  have "takeWhile is_cont (bs @ t) = takeWhile is_cont bs"
    using "2.prems" by (simp add: takeWhile_append takeWhile_eq_all_conv [THEN iffD2])
  moreover have "dropWhile is_cont (bs @ t) = dropWhile is_cont bs @ t"
    using "2.prems" by (cases "\<forall>x\<in>set bs. is_cont x")
      (auto simp: dropWhile_append1 dropWhile_append2 dropWhile_eq_Nil_conv)
  ultimately show ?case using "2.IH" "2.prems" by simp
qed

lemma chars_concat_take: "chars (concat (take n (chars s))) = take n (chars s)"
proof (induction s arbitrary: n rule: chars.induct)
  case 1
  then show ?case by simp
next
  case (2 b bs)
  show ?case
  proof (cases n)
    case 0
    then show ?thesis by simp
  next
    case (Suc m)
    let ?rest = "concat (take m (chars (dropWhile is_cont bs)))"
    have clean: "starts_clean ?rest"
      using starts_clean_chars_concat [OF starts_clean_dropWhile, of "[]" m bs]
      by (simp add: starts_clean_def)
    have "takeWhile is_cont (takeWhile is_cont bs) = takeWhile is_cont bs"
      by (metis dropWhile_takeWhile_same append_Nil2 takeWhile_dropWhile_id)
    then have "chars (b # takeWhile is_cont bs) = [b # takeWhile is_cont bs]"
      by simp
    then have "chars ((b # takeWhile is_cont bs) @ ?rest) = (b # takeWhile is_cont bs) # chars ?rest"
      using chars_append_clean [OF clean, of "b # takeWhile is_cont bs"] by simp
    with "2.IH" [of m] Suc show ?thesis by simp
  qed
qed

section \<open>Slicing\<close>

definition is_char_boundary :: "string \<Rightarrow> nat \<Rightarrow> bool" where
  "is_char_boundary s i \<longleftrightarrow> i = 0 \<or> i = length s \<or> (i < length s \<and> \<not> is_cont (s ! i))"

text \<open>\<open>&s[i..]\<close> and \<open>&s[..i]\<close>.\<close>

definition slice_from :: "string \<Rightarrow> nat \<Rightarrow> string res" where
  "slice_from s i = (if is_char_boundary s i then Ok (drop i s) else Panic)"

definition slice_to :: "string \<Rightarrow> nat \<Rightarrow> string res" where
  "slice_to s i = (if is_char_boundary s i then Ok (take i s) else Panic)"

section \<open>ASCII case\<close>

definition ascii_lower :: "char \<Rightarrow> char" where
  "ascii_lower c = (if 65 \<le> byte c \<and> byte c \<le> 90 then char_of (byte c + 32) else c)"

definition to_ascii_lowercase :: "string \<Rightarrow> string" where
  "to_ascii_lowercase s = map ascii_lower s"

lemma byte_ascii_lower:
  "byte (ascii_lower c) = (if 65 \<le> byte c \<and> byte c \<le> 90 then byte c + 32 else byte c)"
  by (auto simp: ascii_lower_def byte_def)

lemma is_cont_ascii_lower [simp]: "is_cont (ascii_lower c) = is_cont c"
  by (auto simp: is_cont_def byte_ascii_lower)

lemma length_to_ascii_lowercase [simp]: "length (to_ascii_lowercase s) = length s"
  by (simp add: to_ascii_lowercase_def)

lemma ascii_lower_idem [simp]: "ascii_lower (ascii_lower c) = ascii_lower c"
  by (auto simp: ascii_lower_def byte_def)

lemma to_ascii_lowercase_idem [simp]:
  "to_ascii_lowercase (to_ascii_lowercase s) = to_ascii_lowercase s"
  by (simp add: to_ascii_lowercase_def)

lemma is_char_boundary_lower: "is_char_boundary (to_ascii_lowercase s) i = is_char_boundary s i"
  by (auto simp: is_char_boundary_def to_ascii_lowercase_def)

lemma chars_lower: "chars (map ascii_lower s) = map (map ascii_lower) (chars s)"
  by (induction s rule: chars.induct) (simp_all add: takeWhile_map dropWhile_map comp_def)

section \<open>Searching\<close>

fun find_str :: "string \<Rightarrow> string \<Rightarrow> nat option" where
  "find_str [] n = (if n = [] then Some 0 else None)"
| "find_str (c # cs) n = (if prefix n (c # cs) then Some 0 else map_option Suc (find_str cs n))"

definition contains :: "string \<Rightarrow> string \<Rightarrow> bool" where
  "contains s n \<longleftrightarrow> find_str s n \<noteq> None"

definition starts_with :: "string \<Rightarrow> string \<Rightarrow> bool" where
  "starts_with s p \<longleftrightarrow> prefix p s"

definition ends_with :: "string \<Rightarrow> string \<Rightarrow> bool" where
  "ends_with s p \<longleftrightarrow> prefix (rev p) (rev s)"

definition strip_prefix :: "string \<Rightarrow> string \<Rightarrow> string option" where
  "strip_prefix s p = (if prefix p s then Some (drop (length p) s) else None)"

definition strip_suffix :: "string \<Rightarrow> string \<Rightarrow> string option" where
  "strip_suffix s p = (if ends_with s p then Some (take (length s - length p) s) else None)"

lemma find_str_Some: "find_str s n = Some i \<Longrightarrow> i \<le> length s \<and> prefix n (drop i s)"
  by (induction s n arbitrary: i rule: find_str.induct) (auto split: if_splits)

lemma find_str_None: "find_str s n = None \<longleftrightarrow> \<not> sublist n s"
proof (induction s n rule: find_str.induct)
  case (1 n)
  then show ?case by simp
next
  case (2 c cs n)
  then show ?case by (auto simp: sublist_Cons_right)
qed

lemma contains_iff: "contains s n \<longleftrightarrow> sublist n s"
  by (simp add: contains_def find_str_None)

text \<open>
  A match of an ASCII marker ends on a character boundary: it begins at its first byte, which
  is not a continuation byte, and what follows a code point is a code point.
\<close>

fun utf8_groups :: "string list \<Rightarrow> bool" where
  "utf8_groups [] = True"
| "utf8_groups (c # cs) =
     ((case c of [] \<Rightarrow> False | b # r \<Rightarrow> (byte b < 128 \<longrightarrow> r = []) \<and> \<not> is_cont b) \<and> utf8_groups cs)"

definition well_formed :: "string \<Rightarrow> bool" where
  "well_formed s \<longleftrightarrow> utf8_groups (chars s)"

text \<open>Equivalently: no continuation byte comes first or right after an ASCII byte.\<close>

lemma well_formed_Cons:
  "well_formed (b # bs) \<longleftrightarrow> \<not> is_cont b \<and> (byte b < 128 \<longrightarrow> starts_clean bs) \<and>
     well_formed (dropWhile is_cont bs)"
  by (cases bs) (auto simp: well_formed_def starts_clean_def)

lemma well_formed_starts_clean: "well_formed s \<Longrightarrow> starts_clean s"
  by (cases s) (auto simp: well_formed_def starts_clean_def)

lemma well_formed_ascii_next:
  "well_formed s \<Longrightarrow> i < length s \<Longrightarrow> byte (s ! i) < 128 \<Longrightarrow> is_char_boundary s (Suc i)"
proof (induction s arbitrary: i rule: chars.induct)
  case 1
  then show ?case by simp
next
  case (2 b bs)
  let ?tw = "takeWhile is_cont bs" and ?dw = "dropWhile is_cont bs"
  have wf: "well_formed ?dw" and hd: "byte b < 128 \<Longrightarrow> starts_clean bs"
    using "2.prems"(1) by (simp_all add: well_formed_Cons)
  have split: "bs = ?tw @ ?dw" by simp
  show ?case
  proof (cases i)
    case 0
    with hd "2.prems" show ?thesis
      by (cases bs) (auto simp: is_char_boundary_def starts_clean_def)
  next
    case (Suc j)
    have j: "j < length bs" "byte (bs ! j) < 128" using "2.prems" Suc by auto
    have "\<not> j < length ?tw"
    proof
      assume "j < length ?tw"
      then have "is_cont (?tw ! j)" and "?tw ! j = bs ! j"
        using set_takeWhileD nth_mem by (fastforce, simp add: takeWhile_nth)
      with j show False by (simp add: is_cont_def)
    qed
    define k where "k = j - length ?tw"
    have jk: "j = length ?tw + k" using \<open>\<not> j < length ?tw\<close> by (simp add: k_def)
    have k: "k < length ?dw" "byte (?dw ! k) < 128"
      using j jk split by (metis length_append nat_add_left_cancel_less,
        metis nth_append_length_plus)
    have "is_char_boundary ?dw (Suc k)" using "2.IH" wf k by blast
    then have b: "Suc k = length ?dw \<or> (Suc k < length ?dw \<and> \<not> is_cont (?dw ! Suc k))"
      by (auto simp: is_char_boundary_def)
    have len: "length bs = length ?tw + length ?dw"
      by (metis length_append takeWhile_dropWhile_id)
    have "Suc k < length ?dw \<Longrightarrow> bs ! Suc j = ?dw ! Suc k"
      using split jk by (metis add_Suc_right nth_append_length_plus)
    with b len jk Suc show ?thesis by (auto simp: is_char_boundary_def)
  qed
qed

lemma well_formed_map_lower: "well_formed s \<Longrightarrow> well_formed (to_ascii_lowercase s)"
proof (induction s rule: chars.induct)
  case 1
  then show ?case by (simp add: to_ascii_lowercase_def)
next
  case (2 b bs)
  then have "well_formed (to_ascii_lowercase (dropWhile is_cont bs))"
    by (simp add: well_formed_Cons)
  then have dw: "well_formed (dropWhile is_cont (map ascii_lower bs))"
    by (simp add: to_ascii_lowercase_def dropWhile_map comp_def)
  have "byte (ascii_lower b) < 128 \<longleftrightarrow> byte b < 128"
    by (auto simp: byte_ascii_lower)
  moreover have "starts_clean (map ascii_lower bs) = starts_clean bs"
    by (cases bs) (auto simp: starts_clean_def)
  ultimately show ?case
    using "2.prems" dw by (simp add: to_ascii_lowercase_def well_formed_Cons)
qed

section \<open>Whitespace\<close>

text \<open>The code points of the Unicode property White_Space.\<close>

definition is_whitespace :: "string \<Rightarrow> bool" where
  "is_whitespace c \<longleftrightarrow>
     (case map byte c of
        [a] \<Rightarrow> (9 \<le> a \<and> a \<le> 13) \<or> a = 32
      | [a, b] \<Rightarrow> a = 194 \<and> (b = 133 \<or> b = 160)
      | [a, b, d] \<Rightarrow>
          (a = 225 \<and> b = 154 \<and> d = 128) \<or>
          (a = 226 \<and> b = 128 \<and> (128 \<le> d \<and> d \<le> 138 \<or> d = 168 \<or> d = 169 \<or> d = 175)) \<or>
          (a = 226 \<and> b = 129 \<and> d = 159) \<or> (a = 227 \<and> b = 128 \<and> d = 128)
      | _ \<Rightarrow> False)"

definition trim_both :: "('a \<Rightarrow> bool) \<Rightarrow> 'a list \<Rightarrow> 'a list" where
  "trim_both p xs = rev (dropWhile p (rev (dropWhile p xs)))"

definition trim_matches :: "(string \<Rightarrow> bool) \<Rightarrow> string \<Rightarrow> string" where
  "trim_matches p s = concat (trim_both p (chars s))"

definition trim :: "string \<Rightarrow> string" where
  "trim s = trim_matches is_whitespace s"

text \<open>The non-empty runs between separators: \<open>split(p).filter(|t| !t.is_empty())\<close>.\<close>

fun split_runs :: "('a \<Rightarrow> bool) \<Rightarrow> 'a list \<Rightarrow> 'a list list" where
  "split_runs p [] = []"
| "split_runs p (c # cs) =
     (if p c then split_runs p cs
      else (c # takeWhile (\<lambda>x. \<not> p x) cs) # split_runs p (dropWhile (\<lambda>x. \<not> p x) cs))"

definition split_whitespace :: "string \<Rightarrow> string list" where
  "split_whitespace s = map concat (split_runs is_whitespace (chars s))"

fun join :: "string \<Rightarrow> string list \<Rightarrow> string" where
  "join sep [] = []"
| "join sep [x] = x"
| "join sep (x # y # xs) = x @ sep @ join sep (y # xs)"

lemma split_runs_elems: "r \<in> set (split_runs p xs) \<Longrightarrow> r \<noteq> [] \<and> (\<forall>x\<in>set r. \<not> p x \<and> x \<in> set xs)"
proof (induction xs rule: length_induct)
  case (1 xs)
  show ?case
  proof (cases xs)
    case Nil
    with "1.prems" show ?thesis by simp
  next
    case (Cons c cs)
    let ?dw = "dropWhile (\<lambda>x. \<not> p x) cs"
    have len: "length cs < length xs" "length ?dw < length xs"
      using Cons length_dropWhile_Suc by simp_all
    show ?thesis
    proof (cases "p c")
      case True
      with "1.prems" Cons have "r \<in> set (split_runs p cs)" by simp
      with "1.IH" len(1) have "r \<noteq> [] \<and> (\<forall>x\<in>set r. \<not> p x \<and> x \<in> set cs)" by blast
      with Cons show ?thesis by simp
    next
      case False
      with "1.prems" Cons
      have "r = c # takeWhile (\<lambda>x. \<not> p x) cs \<or> r \<in> set (split_runs p ?dw)" by simp
      then show ?thesis
      proof
        assume "r = c # takeWhile (\<lambda>x. \<not> p x) cs"
        with Cons False show ?thesis using set_takeWhileD by fastforce
      next
        assume "r \<in> set (split_runs p ?dw)"
        with "1.IH" len(2) have "r \<noteq> [] \<and> (\<forall>x\<in>set r. \<not> p x \<and> x \<in> set ?dw)" by blast
        with Cons show ?thesis using set_dropWhileD by fastforce
      qed
    qed
  qed
qed

text \<open>Splitting a joined list of separator-free runs gives the runs back.\<close>

lemma split_runs_single: "r \<noteq> [] \<Longrightarrow> \<forall>x\<in>set r. \<not> p x \<Longrightarrow> split_runs p r = [r]"
  by (cases r) (simp_all add: takeWhile_eq_all_conv [THEN iffD2] dropWhile_eq_Nil_conv [THEN iffD2])

lemma split_runs_append:
  "r \<noteq> [] \<Longrightarrow> \<forall>x\<in>set r. \<not> p x \<Longrightarrow> p s \<Longrightarrow> split_runs p (r @ s # rest) = r # split_runs p rest"
  by (cases r) (auto simp: takeWhile_append2 dropWhile_append2)

section \<open>Decimal numbers and hexadecimal digests\<close>

fun dec :: "nat \<Rightarrow> string" where
  "dec n = (if n < 10 then [char_of (48 + n)] else dec (n div 10) @ [char_of (48 + n mod 10)])"

declare dec.simps [simp del]

definition hex_digit :: "nat \<Rightarrow> char" where
  "hex_digit n = (if n < 10 then char_of (48 + n) else char_of (87 + n))"

definition hex :: "string \<Rightarrow> string" where
  "hex s = concat (map (\<lambda>c. [hex_digit (byte c div 16), hex_digit (byte c mod 16)]) s)"

lemma hex_length: "length (hex s) = 2 * length s"
  by (induction s) (auto simp: hex_def)

end
