(* ===== verification/Types.thy ===== *)
theory Types
  imports Complex_Main Rust_Str BTree_Map
begin

text \<open>
  The shared data types of \<open>core/crates/common/src/types.rs\<close> and the JSON values of
  \<open>serde_json\<close>. A \<open>DateTime<Utc>\<close> is its number of nanoseconds (\<open>instant\<close>), an
  \<open>f64\<close> a rational number, an enum stored as text keeps its text.
\<close>

type_synonym instant = int
type_synonym f64 = rat

section \<open>JSON values\<close>

datatype json =
    JNull
  | JBool bool
  | JNum rat
  | JStr string
  | JArr "json list"
  | JObj "(string \<times> json) list"

text \<open>\<open>json!({ \<dots> })\<close> builds a \<open>BTreeMap\<close>, so the entries are in key order.\<close>

definition json_obj :: "(string \<times> json) list \<Rightarrow> json" where
  "json_obj kvs = JObj (bt_of_list kvs)"

fun json_as_str :: "json \<Rightarrow> string option" where
  "json_as_str (JStr s) = Some s"
| "json_as_str _ = None"

fun json_as_bool :: "json \<Rightarrow> bool option" where
  "json_as_bool (JBool b) = Some b"
| "json_as_bool _ = None"

fun json_as_array :: "json \<Rightarrow> json list option" where
  "json_as_array (JArr xs) = Some xs"
| "json_as_array _ = None"

fun json_as_object :: "json \<Rightarrow> (string \<times> json) list option" where
  "json_as_object (JObj m) = Some m"
| "json_as_object _ = None"

definition json_get :: "json \<Rightarrow> string \<Rightarrow> json option" where
  "json_get v k = (case json_as_object v of None \<Rightarrow> None | Some m \<Rightarrow> bt_get m k)"

definition json_get_str :: "json \<Rightarrow> string \<Rightarrow> string option" where
  "json_get_str v k = Option.bind (json_get v k) json_as_str"

lemma json_get_obj: "json_get (json_obj kvs) k = map_of (rev kvs) k"
  by (simp add: json_get_def json_obj_def bt_get_of_list)

section \<open>Queue priorities\<close>

datatype queue_priority = Interactive | Connector | Autonomy | Background

fun priority_as_str :: "queue_priority \<Rightarrow> string" where
  "priority_as_str Interactive = ''interactive''"
| "priority_as_str Connector = ''connector''"
| "priority_as_str Autonomy = ''autonomy''"
| "priority_as_str Background = ''background''"

fun priority_level :: "queue_priority \<Rightarrow> 32 word" where
  "priority_level Interactive = 100"
| "priority_level Connector = 80"
| "priority_level Autonomy = 40"
| "priority_level Background = 20"

definition priority_from_str :: "string \<Rightarrow> error + queue_priority" where
  "priority_from_str value =
     (if value = ''interactive'' then Inr Interactive
      else if value = ''connector'' then Inr Connector
      else if value = ''autonomy'' then Inr Autonomy
      else if value = ''background'' then Inr Background
      else Inl (Msg (''unsupported queue priority '' @ value)))"

text \<open>\<open>raw.parse().unwrap_or_default()\<close>: anything unknown is interactive.\<close>

definition parse_priority :: "string \<Rightarrow> queue_priority" where
  "parse_priority raw = (case priority_from_str raw of Inl _ \<Rightarrow> Interactive | Inr p \<Rightarrow> p)"

instantiation queue_priority :: linorder
begin

definition less_eq_queue_priority :: "queue_priority \<Rightarrow> queue_priority \<Rightarrow> bool" where
  "less_eq_queue_priority p q \<longleftrightarrow> priority_level q \<le> priority_level p"

definition less_queue_priority :: "queue_priority \<Rightarrow> queue_priority \<Rightarrow> bool" where
  "less_queue_priority p q \<longleftrightarrow> priority_level q < priority_level p"

instance
proof
  fix p q r :: queue_priority
  show "p < q \<longleftrightarrow> p \<le> q \<and> \<not> q \<le> p"
    by (auto simp: less_eq_queue_priority_def less_queue_priority_def)
  show "p \<le> p" by (simp add: less_eq_queue_priority_def)
  show "p \<le> q \<Longrightarrow> q \<le> r \<Longrightarrow> p \<le> r" by (auto simp: less_eq_queue_priority_def)
  show "p \<le> q \<Longrightarrow> q \<le> p \<Longrightarrow> p = q"
    by (cases p; cases q) (simp_all add: less_eq_queue_priority_def)
  show "p \<le> q \<or> q \<le> p" by (auto simp: less_eq_queue_priority_def)
qed

end

section \<open>Tools, messages, audit\<close>

record tool_call =
  tc_target :: string
  tc_arguments_json :: string
  tc_allow_network :: bool
  tc_priority :: queue_priority

record tool_outcome =
  to_success :: bool
  to_summary :: string
  to_data_json :: string
  to_error :: string
  to_logs :: "string list"

record message_envelope =
  me_connector :: string
  me_channel_id :: string
  me_sender :: string
  me_body :: string
  me_metadata_json :: string

record schedule_request =
  sc_job_id :: string
  sc_cron :: string
  sc_tool :: string
  sc_arguments_json :: string

record attestation_report =
  ar_subject :: string
  ar_status :: string
  ar_platform :: string
  ar_hardware_backed :: bool
  ar_nonce :: string
  ar_public_key :: string
  ar_measurements :: "(string, string) btree"

record audit_event =
  ae_id :: string
  ae_category :: string
  ae_severity :: string
  ae_summary :: string
  ae_anomaly_score :: f64
  ae_payload_json :: string
  ae_created_at :: instant

record memory_record =
  mr_key :: string
  mr_namespace :: string
  mr_content :: string
  mr_metadata_json :: string
  mr_score :: f64
  mr_created_at :: instant

record memory_query =
  mq_namespace :: string
  mq_query :: string
  mq_limit :: nat
  mq_filter_json :: string

section \<open>Sessions and pairings\<close>

record session_record =
  s_id :: string
  s_connector :: string
  s_channel_id :: string
  s_participant :: string
  s_session_type :: string
  s_title :: string
  s_status :: string
  s_reply_mode :: string
  s_queue_mode :: string
  s_model_profile :: string
  s_mention_only :: bool
  s_pending_pairing :: bool
  s_last_message_preview :: string
  s_message_count :: "32 word"
  s_created_at :: instant
  s_updated_at :: instant

record session_message_record =
  sm_id :: string
  sm_session_id :: string
  sm_connector :: string
  sm_role :: string
  sm_sender :: string
  sm_body :: string
  sm_metadata_json :: string
  sm_created_at :: instant

record session_list_query =
  slq_connector :: "string option"
  slq_status :: "string option"
  slq_include_archived :: bool
  slq_limit :: nat

record session_detail_query =
  sdq_session_id :: string
  sdq_limit :: nat

record session_detail =
  sd_session :: session_record
  sd_messages :: "session_message_record list"

record session_prune_request =
  sp_older_than_hours :: "32 word"
  sp_archive_only :: bool

record pairing_record =
  p_id :: string
  p_connector :: string
  p_channel_id :: string
  p_sender :: string
  p_session_id :: string
  p_status :: string
  p_reason :: string
  p_created_at :: instant
  p_updated_at :: instant

record pairing_list_query =
  plq_status :: "string option"
  plq_connector :: "string option"
  plq_limit :: nat

record pairing_update =
  pu_pairing_id :: string
  pu_action :: string
  pu_note :: string

record outbound_message =
  om_connector :: string
  om_channel_id :: string
  om_sender :: string
  om_body :: string
  om_metadata_json :: string
  om_session_id :: string

record outbound_message_result =
  omr_accepted :: bool
  omr_message_id :: string
  omr_session_id :: string
  omr_status :: string
  omr_detail :: string

section \<open>Protocol runs, policy reports, queue tasks\<close>

record agent_envelope =
  ag_sender :: string
  ag_recipient :: string
  ag_body :: string
  ag_metadata_json :: string
  ag_encrypted_body :: "string option"

record protocol_run_request =
  prq_protocol_id :: string
  prq_initiator :: string
  prq_messages :: "agent_envelope list"
  prq_policy_scope :: string

record protocol_run_result =
  prr_accepted :: bool
  prr_protocol_id :: string
  prr_transcript_json :: string
  prr_findings :: "string list"

record policy_report =
  por_subject :: string
  por_allowed_capabilities :: "string list"
  por_denied_capabilities :: "string list"
  por_source :: string

record queue_task =
  qt_task_id :: string
  qt_task_type :: string
  qt_target :: string
  qt_arguments_json :: string
  qt_priority :: queue_priority

record queue_receipt =
  qr_accepted :: bool
  qr_task_id :: string
  qr_queue :: string
  qr_message :: string

section \<open>The brain's requests and records\<close>

record brain_remember =
  br_kind :: string
  br_subtype :: string
  br_title :: string
  br_content :: string
  br_importance :: f64
  br_scope_json :: string
  br_links_json :: string
  br_source_ref :: string

record brain_recall_query =
  brq_query :: string
  brq_scope_json :: string
  brq_limit :: nat
  brq_include_archived :: bool

record brain_suggest_query =
  bsq_scope_json :: string
  bsq_limit :: nat

record brain_task_list_query =
  btq_scope_json :: string
  btq_statuses :: "string list"
  btq_priorities :: "string list"
  btq_due_before :: "instant option"
  btq_limit :: nat

record brain_task_update =
  btu_task_id :: string
  btu_status :: string
  btu_priority :: string
  btu_due_at :: "instant option"
  btu_summary :: string
  btu_links_json :: string
  btu_source_ref :: string

record brain_forget =
  bf_target_kind :: string
  bf_target_id :: string
  bf_mode :: string
  bf_reason :: string

record brain_entity_record =
  be_id :: string
  be_kind :: string
  be_subtype :: string
  be_title :: string
  be_content :: string
  be_scope_json :: string
  be_links_json :: string
  be_salience :: f64
  be_confidence :: f64
  be_archived :: bool
  be_created_at :: instant
  be_updated_at :: instant

record brain_fact_record =
  bfa_id :: string
  bfa_entity_id :: string
  bfa_content :: string
  bfa_scope_json :: string
  bfa_salience :: f64
  bfa_confidence :: f64
  bfa_archived :: bool
  bfa_created_at :: instant
  bfa_updated_at :: instant

record brain_relation_record =
  brl_id :: string
  brl_kind :: string
  brl_from_id :: string
  brl_to_id :: string
  brl_metadata_json :: string
  brl_confidence :: f64
  brl_created_at :: instant
  brl_updated_at :: instant

record brain_task_record =
  tk_id :: string
  tk_title :: string
  tk_summary :: string
  tk_status :: string
  tk_priority :: string
  tk_due_at :: "instant option"
  tk_scope_json :: string
  tk_links_json :: string
  tk_salience :: f64
  tk_confidence :: f64
  tk_archived :: bool
  tk_created_at :: instant
  tk_updated_at :: instant

record brain_suggestion_record =
  bs_id :: string
  bs_task_id :: string
  bs_summary :: string
  bs_reason :: string
  bs_score :: f64
  bs_context_json :: string

record brain_recall_result =
  brr_summary :: string
  brr_entities :: "brain_entity_record list"
  brr_facts :: "brain_fact_record list"
  brr_relations :: "brain_relation_record list"
  brr_tasks :: "brain_task_record list"

record brain_suggest_result =
  bsr_summary :: string
  bsr_suggestions :: "brain_suggestion_record list"

record brain_task_list_result =
  btr_summary :: string
  btr_tasks :: "brain_task_record list"

record brain_remember_result =
  bre_stored :: bool
  bre_entity :: "brain_entity_record option"
  bre_task :: "brain_task_record option"
  bre_digest :: string

record brain_forget_result =
  bfr_forgotten :: bool
  bfr_mode :: string
  bfr_target_id :: string

text \<open>Two types the Rust crates declare and do not use; the gateway has its own.\<close>

record described_connector =
  dcn_name :: string
  dcn_enabled :: bool
  dcn_implemented :: bool
  dcn_mode :: string
  dcn_health :: string
  dcn_allowlist :: "string list"
  dcn_details :: "(string, string) btree"

record desktop_event_record =
  der_id :: string
  der_event_type :: string
  der_payload_json :: string
  der_created_at :: instant

section \<open>Facts about priorities and JSON objects\<close>

lemma priority_roundtrip: "priority_from_str (priority_as_str p) = Inr p"
  by (cases p) (simp_all add: priority_from_str_def)

lemma priority_from_str_inv: "priority_from_str s = Inr p \<Longrightarrow> s = priority_as_str p"
  by (auto simp: priority_from_str_def split: if_splits)

end
