(* ===== verification/Config.thy ===== *)
theory Config
  imports Types
begin

text \<open>
  The configuration of \<open>core/crates/common/src/config.rs\<close>: its sections with their defaults,
  \<open>set\<close> on dotted keys, the filling of missing defaults and the migration of the legacy keys.
  An action over \<open>app_config\<close> is a \<open>&mut self\<close> method: a failing \<open>set\<close> may already have
  changed the configuration.
\<close>

section \<open>Sections\<close>

record gateway_tls_config =
  gt_enabled :: bool
  gt_cert_file :: string
  gt_key_file :: string
  gt_client_ca_file :: string
  gt_rotate_on_start :: bool

record gateway_local_http_config =
  gl_enabled :: bool
  gl_listen_address :: string

record gateway_config =
  g_listen_address :: string
  g_binary :: string
  g_engine_endpoint :: string
  g_telegram_bot_token :: string
  g_telegram_poll_interval_seconds :: nat
  g_tls :: gateway_tls_config
  g_local_http :: gateway_local_http_config
  g_allowlists :: "(string, string list) btree"

record logging_config =
  lo_level :: string
  lo_json :: bool

record sandbox_capabilities_config =
  sc_matrix_path :: string
  sc_default_deny :: bool

record linux_sandbox_config =
  ls_firecracker_enabled :: bool
  ls_containerd_in_guest :: bool
  ls_tap_interface :: string

record macos_sandbox_config =
  ms_virtualization_enabled :: bool
  ms_seatbelt_profile :: string

record windows_sandbox_config =
  ws_hyperv_enabled :: bool
  ws_job_object_restrictions :: bool

record sandbox_config =
  sb_firecracker_path :: string
  sb_jailer_path :: string
  sb_containerd_path :: string
  sb_kernel_image :: string
  sb_rootfs_image :: string
  sb_seccomp_profile :: string
  sb_host_network_cidr :: string
  sb_capabilities :: sandbox_capabilities_config
  sb_linux :: linux_sandbox_config
  sb_macos :: macos_sandbox_config
  sb_windows :: windows_sandbox_config

record skills_config =
  sk_registry_index :: string
  sk_registry_signature :: string
  sk_trust_root :: string
  sk_registry_backend :: string
  sk_decentralized_mirrors :: "string list"

record orchestration_config =
  oc_provider_order :: "string list"
  oc_exact_cache_capacity :: nat
  oc_prefix_cache_capacity :: nat
  oc_semantic_cache_capacity :: nat
  oc_semantic_cache_enabled :: bool
  oc_prefix_cache_enabled :: bool
  oc_exact_cache_enabled :: bool
  oc_speculative_enabled :: bool
  oc_max_inflight :: nat
  oc_default_priority :: string

record queue_runtime_config =
  qc_interactive_weight :: nat
  qc_connector_weight :: nat
  qc_autonomy_weight :: nat
  qc_background_weight :: nat
  qc_cpu_budget_percent :: nat
  qc_memory_budget_mb :: nat
  qc_token_budget_per_minute :: nat

record encryption_config =
  ec_enabled :: bool
  ec_key_file :: string
  ec_encrypt_memory :: bool
  ec_encrypt_agent_channels :: bool

record attestation_config =
  ac_enabled :: bool
  ac_require_hardware :: bool
  ac_tpm_device :: string

record audit_config =
  auc_enabled :: bool
  auc_mode :: string
  auc_ebpf_enabled :: bool
  auc_anomaly_threshold :: f64

record security_config =
  sec_encryption :: encryption_config
  sec_attestation :: attestation_config
  sec_audit :: audit_config

record agents_config =
  agc_enabled :: bool
  agc_max_agents :: nat
  agc_protocol_dir :: string

record brain_config =
  bc_enabled :: bool
  bc_auto_ingest_messages :: bool
  bc_auto_ingest_tool_results :: bool
  bc_auto_ingest_assistant_commitments :: bool
  bc_inline_suggestions_in_replies :: bool
  bc_max_inline_suggestions :: nat
  bc_context_budget_chars :: nat
  bc_archive_decay_days :: int
  bc_stale_task_hours :: int

record sessions_config =
  ses_enabled :: bool
  ses_default_reply_mode :: string
  ses_default_queue_mode :: string
  ses_prune_after_hours :: nat

record routing_config =
  rc_auto_pair_dm :: bool
  rc_mention_only_in_groups :: bool
  rc_mention_names :: "string list"

record presence_config =
  pc_enabled :: bool
  pc_typing_events :: bool

record usage_config =
  uc_enabled :: bool

record media_config =
  mc_enabled :: bool
  mc_max_upload_bytes :: nat
  mc_temp_dir :: string

record browser_config =
  brc_enabled :: bool
  brc_profile_dir :: string

record desktop_config =
  dc_launch_at_login :: bool
  dc_enable_tray :: bool
  dc_enable_notifications :: bool
  dc_start_hidden :: bool
  dc_profile_name :: string
  dc_bundled_runtime :: bool

record vector_memory_config =
  vc_requested_backend :: string
  vc_default_namespace :: string
  vc_lancedb_uri :: string
  vc_embedding_dimensions :: nat

record rbac_config =
  rb_default_role :: string
  rb_role_bindings :: "(string, string list) btree"

record siem_config =
  si_enabled :: bool
  si_ocsf_file :: string
  si_syslog_endpoint :: string
  si_https_batch_endpoint :: string

record operator_config =
  op_enabled :: bool
  op_namespace :: string

record connector_config =
  cc_enabled :: bool
  cc_mode :: string
  cc_endpoint :: string
  cc_allowlist :: "string list"
  cc_api_first :: bool
  cc_deferred :: bool
  cc_auth_mode :: string
  cc_pair_dm :: bool
  cc_chunk_limit :: nat
  cc_mention_only :: bool

record model_provider_config =
  mp_kind :: string
  mp_endpoint :: string
  mp_model :: string
  mp_draft_model :: string
  mp_quantization :: string
  mp_context_window :: nat
  mp_max_concurrency :: nat
  mp_gpu_layers :: nat
  mp_speculative_enabled :: bool
  mp_cache_policy :: string
  mp_enabled :: bool

record model_profile_config =
  pf_provider_order :: "string list"
  pf_mode :: string
  pf_timeout_seconds :: nat
  pf_retry_budget :: nat
  pf_hosted :: bool
  pf_auth_mode :: string

record model_failover_config =
  mf_default_profile :: string
  mf_fallback_profile :: string

record app_config =
  cfg_gateway :: gateway_config
  cfg_logging :: logging_config
  cfg_sandbox :: sandbox_config
  cfg_skills :: skills_config
  cfg_orchestration :: orchestration_config
  cfg_runtime_queues :: queue_runtime_config
  cfg_security :: security_config
  cfg_agents :: agents_config
  cfg_brain :: brain_config
  cfg_sessions :: sessions_config
  cfg_routing :: routing_config
  cfg_presence :: presence_config
  cfg_usage :: usage_config
  cfg_media :: media_config
  cfg_browser :: browser_config
  cfg_desktop :: desktop_config
  cfg_vector_memory :: vector_memory_config
  cfg_model_profiles :: "(string, model_profile_config) btree"
  cfg_model_failover :: model_failover_config
  cfg_rbac :: rbac_config
  cfg_siem :: siem_config
  cfg_operator :: operator_config
  cfg_connectors :: "(string, connector_config) btree"
  cfg_models :: "(string, model_provider_config) btree"

section \<open>Defaults\<close>

definition default_gateway_tls :: gateway_tls_config where
  "default_gateway_tls = \<lparr>gt_enabled = False, gt_cert_file = [], gt_key_file = [],
     gt_client_ca_file = [], gt_rotate_on_start = False\<rparr>"

definition default_gateway_local_http :: gateway_local_http_config where
  "default_gateway_local_http = \<lparr>gl_enabled = False, gl_listen_address = ''127.0.0.1:8088''\<rparr>"

definition default_gateway :: gateway_config where
  "default_gateway = \<lparr>g_listen_address = ''127.0.0.1:50051'', g_binary = ''./bin/openpinch-gateway'',
     g_engine_endpoint = [], g_telegram_bot_token = [], g_telegram_poll_interval_seconds = 5,
     g_tls = default_gateway_tls, g_local_http = default_gateway_local_http,
     g_allowlists = bt_of_list [(''telegram'', []), (''webhook-outbound'', [])]\<rparr>"

definition default_logging :: logging_config where
  "default_logging = \<lparr>lo_level = ''info'', lo_json = False\<rparr>"

definition default_sandbox_capabilities :: sandbox_capabilities_config where
  "default_sandbox_capabilities =
     \<lparr>sc_matrix_path = ''skills/policies/default.yaml'', sc_default_deny = True\<rparr>"

definition default_linux_sandbox :: linux_sandbox_config where
  "default_linux_sandbox =
     \<lparr>ls_firecracker_enabled = True, ls_containerd_in_guest = True, ls_tap_interface = []\<rparr>"

definition default_macos_sandbox :: macos_sandbox_config where
  "default_macos_sandbox = \<lparr>ms_virtualization_enabled = True, ms_seatbelt_profile = []\<rparr>"

definition default_windows_sandbox :: windows_sandbox_config where
  "default_windows_sandbox = \<lparr>ws_hyperv_enabled = True, ws_job_object_restrictions = True\<rparr>"

definition default_sandbox :: sandbox_config where
  "default_sandbox = \<lparr>sb_firecracker_path = ''firecracker'', sb_jailer_path = ''jailer'',
     sb_containerd_path = ''containerd'', sb_kernel_image = [], sb_rootfs_image = [],
     sb_seccomp_profile = [], sb_host_network_cidr = ''172.16.0.0/30'',
     sb_capabilities = default_sandbox_capabilities, sb_linux = default_linux_sandbox,
     sb_macos = default_macos_sandbox, sb_windows = default_windows_sandbox\<rparr>"

definition default_skills :: skills_config where
  "default_skills = \<lparr>sk_registry_index = ''skills/registry/index.json'',
     sk_registry_signature = ''skills/registry/index.sig.json'',
     sk_trust_root = ''skills/trust/root.json'', sk_registry_backend = ''git+ipfs'',
     sk_decentralized_mirrors = [''ipfs://openpinch-skill-registry'']\<rparr>"

definition default_provider_order :: "string list" where
  "default_provider_order = [''llamacpp'', ''ollama'', ''localai'']"

definition default_orchestration :: orchestration_config where
  "default_orchestration = \<lparr>oc_provider_order = default_provider_order,
     oc_exact_cache_capacity = 2048, oc_prefix_cache_capacity = 1024,
     oc_semantic_cache_capacity = 4096, oc_semantic_cache_enabled = True,
     oc_prefix_cache_enabled = True, oc_exact_cache_enabled = True, oc_speculative_enabled = True,
     oc_max_inflight = 8, oc_default_priority = ''interactive''\<rparr>"

definition default_queue_runtime :: queue_runtime_config where
  "default_queue_runtime = \<lparr>qc_interactive_weight = 100, qc_connector_weight = 80,
     qc_autonomy_weight = 40, qc_background_weight = 20, qc_cpu_budget_percent = 60,
     qc_memory_budget_mb = 4096, qc_token_budget_per_minute = 200000\<rparr>"

definition default_encryption :: encryption_config where
  "default_encryption = \<lparr>ec_enabled = True, ec_key_file = [], ec_encrypt_memory = True,
     ec_encrypt_agent_channels = True\<rparr>"

definition default_attestation :: attestation_config where
  "default_attestation =
     \<lparr>ac_enabled = False, ac_require_hardware = False, ac_tpm_device = ''/dev/tpmrm0''\<rparr>"

definition default_audit :: audit_config where
  "default_audit = \<lparr>auc_enabled = True, auc_mode = ''local-buffered'', auc_ebpf_enabled = False,
     auc_anomaly_threshold = 85 / 100\<rparr>"

definition default_security :: security_config where
  "default_security = \<lparr>sec_encryption = default_encryption, sec_attestation = default_attestation,
     sec_audit = default_audit\<rparr>"

definition default_agents :: agents_config where
  "default_agents = \<lparr>agc_enabled = True, agc_max_agents = 8, agc_protocol_dir = ''docs/formal''\<rparr>"

definition default_brain :: brain_config where
  "default_brain = \<lparr>bc_enabled = True, bc_auto_ingest_messages = True,
     bc_auto_ingest_tool_results = True, bc_auto_ingest_assistant_commitments = True,
     bc_inline_suggestions_in_replies = True, bc_max_inline_suggestions = 2,
     bc_context_budget_chars = 2000, bc_archive_decay_days = 30, bc_stale_task_hours = 24\<rparr>"

definition default_sessions :: sessions_config where
  "default_sessions = \<lparr>ses_enabled = True, ses_default_reply_mode = ''reply-back'',
     ses_default_queue_mode = ''connector'', ses_prune_after_hours = 24 * 14\<rparr>"

definition default_routing :: routing_config where
  "default_routing = \<lparr>rc_auto_pair_dm = True, rc_mention_only_in_groups = True,
     rc_mention_names = [''openpinch'']\<rparr>"

definition default_presence :: presence_config where
  "default_presence = \<lparr>pc_enabled = True, pc_typing_events = True\<rparr>"

definition default_usage :: usage_config where
  "default_usage = \<lparr>uc_enabled = True\<rparr>"

definition default_media :: media_config where
  "default_media = \<lparr>mc_enabled = True, mc_max_upload_bytes = 20 * 1024 * 1024, mc_temp_dir = []\<rparr>"

definition default_browser :: browser_config where
  "default_browser = \<lparr>brc_enabled = True, brc_profile_dir = []\<rparr>"

definition default_desktop :: desktop_config where
  "default_desktop = \<lparr>dc_launch_at_login = False, dc_enable_tray = True,
     dc_enable_notifications = True, dc_start_hidden = False, dc_profile_name = ''default'',
     dc_bundled_runtime = True\<rparr>"

definition default_vector_memory :: vector_memory_config where
  "default_vector_memory = \<lparr>vc_requested_backend = ''lancedb'', vc_default_namespace = ''default'',
     vc_lancedb_uri = [], vc_embedding_dimensions = 128\<rparr>"

definition default_rbac :: rbac_config where
  "default_rbac = \<lparr>rb_default_role = ''admin'',
     rb_role_bindings = bt_of_list [(''local-user'', [''admin''])]\<rparr>"

definition default_siem :: siem_config where
  "default_siem = \<lparr>si_enabled = False, si_ocsf_file = [], si_syslog_endpoint = [],
     si_https_batch_endpoint = []\<rparr>"

definition default_operator :: operator_config where
  "default_operator = \<lparr>op_enabled = False, op_namespace = ''openpinch-system''\<rparr>"

definition derived_connector :: connector_config where
  \<comment> \<open>\<open>#[derive(Default)]\<close>: every flag false, whatever the serde defaults say.\<close>
  "derived_connector = \<lparr>cc_enabled = False, cc_mode = [], cc_endpoint = [], cc_allowlist = [],
     cc_api_first = False, cc_deferred = False, cc_auth_mode = [], cc_pair_dm = False,
     cc_chunk_limit = 0, cc_mention_only = False\<rparr>"

definition serde_connector :: connector_config where
  \<comment> \<open>The same struct read from an empty table of the configuration file.\<close>
  "serde_connector = \<lparr>cc_enabled = False, cc_mode = [], cc_endpoint = [], cc_allowlist = [],
     cc_api_first = True, cc_deferred = False, cc_auth_mode = [], cc_pair_dm = True,
     cc_chunk_limit = 1800, cc_mention_only = False\<rparr>"

definition derived_model_provider :: model_provider_config where
  "derived_model_provider = \<lparr>mp_kind = [], mp_endpoint = [], mp_model = [], mp_draft_model = [],
     mp_quantization = [], mp_context_window = 0, mp_max_concurrency = 0, mp_gpu_layers = 0,
     mp_speculative_enabled = False, mp_cache_policy = [], mp_enabled = False\<rparr>"

definition connector_names :: "string list" where
  "connector_names = [''telegram'', ''desktop'', ''discord'', ''slack'', ''whatsapp'', ''signal'',
     ''matrix'', ''xmpp'', ''irc'', ''mattermost'', ''microsoft-teams'', ''rocketchat'', ''zulip'',
     ''google-chat'', ''webex'', ''line'', ''viber'', ''smtp'', ''imap'', ''twilio-sms'',
     ''twilio-mms'', ''webhook-inbound'', ''webhook-outbound'']"

definition default_connector :: "string \<Rightarrow> connector_config" where
  "default_connector name = \<lparr>cc_enabled = (name = ''telegram'' \<or> name = ''desktop''),
     cc_mode = (if name = ''telegram'' then ''polling''
                else if name = ''desktop'' then ''native'' else ''disabled''),
     cc_endpoint = [], cc_allowlist = [], cc_api_first = True,
     cc_deferred = (name \<noteq> ''telegram'' \<and> name \<noteq> ''desktop''),
     cc_auth_mode = (if name = ''desktop'' then ''local-process'' else ''token''),
     cc_pair_dm = (name \<noteq> ''desktop''), cc_chunk_limit = 1800,
     cc_mention_only = (name \<noteq> ''telegram'' \<and> name \<noteq> ''desktop'')\<rparr>"

definition default_connectors :: "(string, connector_config) btree" where
  "default_connectors = bt_of_list (map (\<lambda>name. (name, default_connector name)) connector_names)"

definition default_models :: "(string, model_provider_config) btree" where
  "default_models = bt_of_list
    [(''ollama'', \<lparr>mp_kind = ''ollama'', mp_endpoint = ''http://127.0.0.1:11434'',
       mp_model = ''qwen2.5:7b'', mp_draft_model = ''qwen2.5:3b'', mp_quantization = ''Q4_K_M'',
       mp_context_window = 8192, mp_max_concurrency = 2, mp_gpu_layers = 0,
       mp_speculative_enabled = True, mp_cache_policy = ''exact+prefix+semantic'', mp_enabled = True\<rparr>),
     (''llamacpp'', \<lparr>mp_kind = ''llamacpp'', mp_endpoint = ''http://127.0.0.1:8080'',
       mp_model = ''local'', mp_draft_model = ''local-draft'', mp_quantization = ''Q5_K_M'',
       mp_context_window = 16384, mp_max_concurrency = 4, mp_gpu_layers = 32,
       mp_speculative_enabled = True, mp_cache_policy = ''exact+prefix+semantic'', mp_enabled = False\<rparr>),
     (''localai'', \<lparr>mp_kind = ''openai-compatible'', mp_endpoint = ''http://127.0.0.1:1234/v1'',
       mp_model = ''local-model'', mp_draft_model = [], mp_quantization = ''auto'',
       mp_context_window = 8192, mp_max_concurrency = 2, mp_gpu_layers = 0,
       mp_speculative_enabled = False, mp_cache_policy = ''exact'', mp_enabled = False\<rparr>)]"

definition default_model_profiles :: "(string, model_profile_config) btree" where
  "default_model_profiles = bt_of_list
    [(''default'', \<lparr>pf_provider_order = default_provider_order, pf_mode = ''local-first'',
       pf_timeout_seconds = 20, pf_retry_budget = 2, pf_hosted = False, pf_auth_mode = []\<rparr>),
     (''hosted-fallback'', \<lparr>pf_provider_order = default_provider_order,
       pf_mode = ''hybrid-failover'', pf_timeout_seconds = 30, pf_retry_budget = 3,
       pf_hosted = True, pf_auth_mode = ''api-key''\<rparr>)]"

definition default_model_failover :: model_failover_config where
  "default_model_failover =
     \<lparr>mf_default_profile = ''default'', mf_fallback_profile = ''hosted-fallback''\<rparr>"

definition default_config :: app_config where
  "default_config = \<lparr>cfg_gateway = default_gateway, cfg_logging = default_logging,
     cfg_sandbox = default_sandbox, cfg_skills = default_skills, cfg_orchestration = default_orchestration,
     cfg_runtime_queues = default_queue_runtime, cfg_security = default_security, cfg_agents = default_agents,
     cfg_brain = default_brain, cfg_sessions = default_sessions, cfg_routing = default_routing,
     cfg_presence = default_presence, cfg_usage = default_usage, cfg_media = default_media,
     cfg_browser = default_browser, cfg_desktop = default_desktop, cfg_vector_memory = default_vector_memory,
     cfg_model_profiles = default_model_profiles, cfg_model_failover = default_model_failover,
     cfg_rbac = default_rbac, cfg_siem = default_siem, cfg_operator = default_operator,
     cfg_connectors = default_connectors, cfg_models = default_models\<rparr>"

end
