(* ===== verification/Config_Ops.thy ===== *)
theory Config_Ops
  imports Config
begin

text \<open>
  The operations of \<open>AppConfig\<close>: \<open>set\<close>, \<open>merge_missing_defaults\<close>,
  \<open>migrate_legacy_config\<close> and \<open>load_or_init\<close>.
\<close>

section \<open>Parsing values\<close>

fun digits_value :: "nat \<Rightarrow> string \<Rightarrow> nat option" where
  "digits_value acc [] = Some acc"
| "digits_value acc (c # cs) =
     (if 48 \<le> byte c \<and> byte c \<le> 57 then digits_value (acc * 10 + (byte c - 48)) cs else None)"

definition parse_digits :: "string \<Rightarrow> nat option" where
  "parse_digits s = (if s = [] then None else digits_value 0 s)"

text \<open>\<open>str::parse\<close> of an unsigned integer of the given width, of an \<open>i64\<close> and of a \<open>bool\<close>.\<close>

definition parse_uint :: "nat \<Rightarrow> string \<Rightarrow> nat option" where
  "parse_uint width s =
     (case parse_digits (case s of CHR 0x2B # r \<Rightarrow> r | _ \<Rightarrow> s) of
        None \<Rightarrow> None
      | Some n \<Rightarrow> (if n < 2 ^ width then Some n else None))"

definition parse_i64 :: "string \<Rightarrow> int option" where
  "parse_i64 s =
     (case s of
        CHR 0x2D # r \<Rightarrow> (case parse_digits r of None \<Rightarrow> None
          | Some n \<Rightarrow> (if n \<le> 2 ^ 63 then Some (- int n) else None))
      | _ \<Rightarrow> (case parse_digits (case s of CHR 0x2B # r \<Rightarrow> r | _ \<Rightarrow> s) of None \<Rightarrow> None
          | Some n \<Rightarrow> (if n < 2 ^ 63 then Some (int n) else None)))"

definition parse_bool :: "string \<Rightarrow> bool option" where
  "parse_bool s = (if s = ''true'' then Some True else if s = ''false'' then Some False else None)"

section \<open>Setting a key\<close>

type_synonym config_io = "(app_config, unit) act"

definition modify :: "(app_config \<Rightarrow> app_config) \<Rightarrow> config_io" where
  "modify f = (\<lambda>c. (Ok (), f c))"

definition assign_bool :: "string \<Rightarrow> string \<Rightarrow> (bool \<Rightarrow> app_config \<Rightarrow> app_config) \<Rightarrow> config_io" where
  "assign_bool key value f =
     (case parse_bool value of None \<Rightarrow> fail (Msg (''expected bool for '' @ key)) | Some b \<Rightarrow> modify (f b))"

definition assign_uint :: "nat \<Rightarrow> string \<Rightarrow> string \<Rightarrow> (nat \<Rightarrow> app_config \<Rightarrow> app_config) \<Rightarrow> config_io" where
  "assign_uint width key value f =
     (case parse_uint width value of
        None \<Rightarrow> fail (Msg (''expected integer for '' @ key)) | Some n \<Rightarrow> modify (f n))"

definition assign_i64 :: "string \<Rightarrow> string \<Rightarrow> (int \<Rightarrow> app_config \<Rightarrow> app_config) \<Rightarrow> config_io" where
  "assign_i64 key value f =
     (case parse_i64 value of
        None \<Rightarrow> fail (Msg (''expected integer for '' @ key)) | Some n \<Rightarrow> modify (f n))"

fun split_on :: "char \<Rightarrow> string \<Rightarrow> string list" where
  "split_on d [] = [[]]"
| "split_on d (c # cs) =
     (if c = d then [] # split_on d cs
      else (case split_on d cs of [] \<Rightarrow> [[c]] | p # ps \<Rightarrow> (c # p) # ps))"

definition set_model_field :: "string \<Rightarrow> string \<Rightarrow> model_provider_config \<Rightarrow> error + model_provider_config" where
  "set_model_field field value p =
     (if field = ''kind'' then Inr (p\<lparr>mp_kind := value\<rparr>)
      else if field = ''endpoint'' then Inr (p\<lparr>mp_endpoint := value\<rparr>)
      else if field = ''model'' then Inr (p\<lparr>mp_model := value\<rparr>)
      else if field = ''draft_model'' then Inr (p\<lparr>mp_draft_model := value\<rparr>)
      else if field = ''quantization'' then Inr (p\<lparr>mp_quantization := value\<rparr>)
      else if field = ''cache_policy'' then Inr (p\<lparr>mp_cache_policy := value\<rparr>)
      else if field = ''enabled'' then
        (case parse_bool value of None \<Rightarrow> Inl (Msg ''expected bool for enabled'')
         | Some b \<Rightarrow> Inr (p\<lparr>mp_enabled := b\<rparr>))
      else if field = ''speculative_enabled'' then
        (case parse_bool value of None \<Rightarrow> Inl (Msg ''expected bool for speculative_enabled'')
         | Some b \<Rightarrow> Inr (p\<lparr>mp_speculative_enabled := b\<rparr>))
      else Inl (Msg (''unsupported model field '' @ field)))"

definition set_connector_field :: "string \<Rightarrow> string \<Rightarrow> connector_config \<Rightarrow> error + connector_config" where
  "set_connector_field field value c =
     (if field = ''enabled'' then
        (case parse_bool value of None \<Rightarrow> Inl (Msg ''expected bool for enabled'')
         | Some b \<Rightarrow> Inr (c\<lparr>cc_enabled := b\<rparr>))
      else if field = ''mode'' then Inr (c\<lparr>cc_mode := value\<rparr>)
      else if field = ''endpoint'' then Inr (c\<lparr>cc_endpoint := value\<rparr>)
      else Inl (Msg (''unsupported connector field '' @ field)))"

text \<open>
  \<open>self.models.entry(name).or_default()\<close> adds the entry before the field is looked at, so a
  failing assignment leaves it there.
\<close>

definition set_model :: "string \<Rightarrow> string \<Rightarrow> config_io" where
  "set_model key value =
     (case split_on CHR ''.'' key of
        [_, name, field] \<Rightarrow>
          andthen (modify (\<lambda>c. c\<lparr>cfg_models := bt_or_insert name derived_model_provider (cfg_models c)\<rparr>)) (\<lambda>_ c.
            case set_model_field field value (case bt_get (cfg_models c) name of
                Some p \<Rightarrow> p | None \<Rightarrow> derived_model_provider) of
              Inl e \<Rightarrow> (Err e, c)
            | Inr p \<Rightarrow> (Ok (), c\<lparr>cfg_models := bt_insert name p (cfg_models c)\<rparr>))
      | _ \<Rightarrow> fail (Msg ''model keys must use models.<provider>.<field>''))"

definition set_connector :: "string \<Rightarrow> string \<Rightarrow> config_io" where
  "set_connector key value =
     (case split_on CHR ''.'' key of
        [_, name, field] \<Rightarrow>
          andthen (modify (\<lambda>c. c\<lparr>cfg_connectors := bt_or_insert name derived_connector (cfg_connectors c)\<rparr>)) (\<lambda>_ c.
            case set_connector_field field value (case bt_get (cfg_connectors c) name of
                Some p \<Rightarrow> p | None \<Rightarrow> derived_connector) of
              Inl e \<Rightarrow> (Err e, c)
            | Inr p \<Rightarrow> (Ok (), c\<lparr>cfg_connectors := bt_insert name p (cfg_connectors c)\<rparr>))
      | _ \<Rightarrow> fail (Msg ''connector keys must use connectors.<name>.<field>''))"

text \<open>The arms of the match on plain keys, in the order of the source.\<close>

definition set_table :: "string \<Rightarrow> string \<Rightarrow> (string \<times> config_io) list" where
  "set_table key value =
    [(''gateway.listen_address'', modify (cfg_gateway_update (g_listen_address_update (\<lambda>_. value)))),
     (''gateway.binary'', modify (cfg_gateway_update (g_binary_update (\<lambda>_. value)))),
     (''gateway.engine_endpoint'', modify (cfg_gateway_update (g_engine_endpoint_update (\<lambda>_. value)))),
     (''gateway.telegram_bot_token'', modify (cfg_gateway_update (g_telegram_bot_token_update (\<lambda>_. value)))),
     (''gateway.local_http.enabled'', assign_bool ''gateway.local_http.enabled'' value
        (\<lambda>b. cfg_gateway_update (g_local_http_update (gl_enabled_update (\<lambda>_. b))))),
     (''gateway.web.enabled'', assign_bool ''gateway.local_http.enabled'' value
        (\<lambda>b. cfg_gateway_update (g_local_http_update (gl_enabled_update (\<lambda>_. b))))),
     (''gateway.local_http.listen_address'',
        modify (cfg_gateway_update (g_local_http_update (gl_listen_address_update (\<lambda>_. value))))),
     (''gateway.web.listen_address'',
        modify (cfg_gateway_update (g_local_http_update (gl_listen_address_update (\<lambda>_. value))))),
     (''desktop.launch_at_login'', assign_bool key value
        (\<lambda>b. cfg_desktop_update (dc_launch_at_login_update (\<lambda>_. b)))),
     (''desktop.enable_tray'', assign_bool key value
        (\<lambda>b. cfg_desktop_update (dc_enable_tray_update (\<lambda>_. b)))),
     (''desktop.enable_notifications'', assign_bool key value
        (\<lambda>b. cfg_desktop_update (dc_enable_notifications_update (\<lambda>_. b)))),
     (''desktop.start_hidden'', assign_bool key value
        (\<lambda>b. cfg_desktop_update (dc_start_hidden_update (\<lambda>_. b)))),
     (''desktop.profile_name'', modify (cfg_desktop_update (dc_profile_name_update (\<lambda>_. value)))),
     (''desktop.bundled_runtime'', assign_bool key value
        (\<lambda>b. cfg_desktop_update (dc_bundled_runtime_update (\<lambda>_. b)))),
     (''gateway.tls.enabled'', assign_bool key value
        (\<lambda>b. cfg_gateway_update (g_tls_update (gt_enabled_update (\<lambda>_. b))))),
     (''logging.level'', modify (cfg_logging_update (lo_level_update (\<lambda>_. value)))),
     (''logging.json'', assign_bool key value (\<lambda>b. cfg_logging_update (lo_json_update (\<lambda>_. b)))),
     (''sandbox.firecracker_path'', modify (cfg_sandbox_update (sb_firecracker_path_update (\<lambda>_. value)))),
     (''sandbox.jailer_path'', modify (cfg_sandbox_update (sb_jailer_path_update (\<lambda>_. value)))),
     (''sandbox.kernel_image'', modify (cfg_sandbox_update (sb_kernel_image_update (\<lambda>_. value)))),
     (''sandbox.rootfs_image'', modify (cfg_sandbox_update (sb_rootfs_image_update (\<lambda>_. value)))),
     (''sandbox.capabilities.matrix_path'',
        modify (cfg_sandbox_update (sb_capabilities_update (sc_matrix_path_update (\<lambda>_. value))))),
     (''sandbox.capabilities.default_deny'', assign_bool key value
        (\<lambda>b. cfg_sandbox_update (sb_capabilities_update (sc_default_deny_update (\<lambda>_. b))))),
     (''skills.registry_index'', modify (cfg_skills_update (sk_registry_index_update (\<lambda>_. value)))),
     (''skills.registry_signature'', modify (cfg_skills_update (sk_registry_signature_update (\<lambda>_. value)))),
     (''orchestration.default_priority'',
        modify (cfg_orchestration_update (oc_default_priority_update (\<lambda>_. value)))),
     (''orchestration.max_inflight'', assign_uint 64 key value
        (\<lambda>n. cfg_orchestration_update (oc_max_inflight_update (\<lambda>_. n)))),
     (''security.audit.enabled'', assign_bool key value
        (\<lambda>b. cfg_security_update (sec_audit_update (auc_enabled_update (\<lambda>_. b))))),
     (''security.encryption.enabled'', assign_bool key value
        (\<lambda>b. cfg_security_update (sec_encryption_update (ec_enabled_update (\<lambda>_. b))))),
     (''brain.enabled'', assign_bool key value (\<lambda>b. cfg_brain_update (bc_enabled_update (\<lambda>_. b)))),
     (''brain.auto_ingest_messages'', assign_bool key value
        (\<lambda>b. cfg_brain_update (bc_auto_ingest_messages_update (\<lambda>_. b)))),
     (''brain.auto_ingest_tool_results'', assign_bool key value
        (\<lambda>b. cfg_brain_update (bc_auto_ingest_tool_results_update (\<lambda>_. b)))),
     (''brain.auto_ingest_assistant_commitments'', assign_bool key value
        (\<lambda>b. cfg_brain_update (bc_auto_ingest_assistant_commitments_update (\<lambda>_. b)))),
     (''brain.inline_suggestions_in_replies'', assign_bool key value
        (\<lambda>b. cfg_brain_update (bc_inline_suggestions_in_replies_update (\<lambda>_. b)))),
     (''brain.max_inline_suggestions'', assign_uint 64 key value
        (\<lambda>n. cfg_brain_update (bc_max_inline_suggestions_update (\<lambda>_. n)))),
     (''brain.context_budget_chars'', assign_uint 64 key value
        (\<lambda>n. cfg_brain_update (bc_context_budget_chars_update (\<lambda>_. n)))),
     (''brain.archive_decay_days'', assign_i64 key value
        (\<lambda>n. cfg_brain_update (bc_archive_decay_days_update (\<lambda>_. n)))),
     (''brain.stale_task_hours'', assign_i64 key value
        (\<lambda>n. cfg_brain_update (bc_stale_task_hours_update (\<lambda>_. n)))),
     (''sessions.prune_after_hours'', assign_uint 32 key value
        (\<lambda>n. cfg_sessions_update (ses_prune_after_hours_update (\<lambda>_. n)))),
     (''routing.auto_pair_dm'', assign_bool key value
        (\<lambda>b. cfg_routing_update (rc_auto_pair_dm_update (\<lambda>_. b)))),
     (''presence.enabled'', assign_bool key value (\<lambda>b. cfg_presence_update (pc_enabled_update (\<lambda>_. b)))),
     (''usage.enabled'', assign_bool key value (\<lambda>b. cfg_usage_update (uc_enabled_update (\<lambda>_. b)))),
     (''media.max_upload_bytes'', assign_uint 64 key value
        (\<lambda>n. cfg_media_update (mc_max_upload_bytes_update (\<lambda>_. n)))),
     (''browser.enabled'', assign_bool key value (\<lambda>b. cfg_browser_update (brc_enabled_update (\<lambda>_. b)))),
     (''model_failover.default_profile'',
        modify (cfg_model_failover_update (mf_default_profile_update (\<lambda>_. value)))),
     (''vector_memory.default_namespace'',
        modify (cfg_vector_memory_update (vc_default_namespace_update (\<lambda>_. value)))),
     (''operator.enabled'', assign_bool key value (\<lambda>b. cfg_operator_update (op_enabled_update (\<lambda>_. b))))]"

definition config_set :: "string \<Rightarrow> string \<Rightarrow> config_io" where
  "config_set key value =
     (case map_of (set_table key value) key of
        Some action \<Rightarrow> action
      | None \<Rightarrow>
          if starts_with key ''models.'' then set_model key value
          else if starts_with key ''connectors.'' then set_connector key value
          else fail (Msg (''unsupported config key '' @ key)))"

section \<open>Filling defaults, migrating legacy keys, loading\<close>

definition merge_missing_defaults :: "app_config \<Rightarrow> app_config" where
  "merge_missing_defaults c =
     (let c1 = c\<lparr>cfg_connectors := fold (\<lambda>(name, v). bt_or_insert name v) default_connectors (cfg_connectors c)\<rparr>
      in c1\<lparr>cfg_model_profiles :=
           fold (\<lambda>(name, v). bt_or_insert name v) default_model_profiles (cfg_model_profiles c1)\<rparr>)"

text \<open>
  What the migration reads of the raw file: the table \<open>connectors.webchat\<close> (absent, or present
  and decodable or not), and the two fields of \<open>gateway.web\<close>.
\<close>

record legacy_view =
  lv_webchat :: "connector_config option option"
  lv_web_enabled :: "bool option"
  lv_web_listen :: "string option"

definition migrate_webchat :: "connector_config \<Rightarrow> connector_config" where
  "migrate_webchat legacy =
     (let c1 = (if cc_mode legacy = [] \<or> cc_mode legacy = ''web''
                then legacy\<lparr>cc_mode := ''native''\<rparr> else legacy);
          c2 = (if cc_auth_mode c1 = [] \<or> cc_auth_mode c1 = ''local-session''
                then c1\<lparr>cc_auth_mode := ''local-process''\<rparr> else c1)
      in c2\<lparr>cc_deferred := False, cc_pair_dm := False, cc_mention_only := False\<rparr>)"

definition migrate_legacy_config :: "legacy_view \<Rightarrow> app_config \<Rightarrow> bool \<times> app_config" where
  "migrate_legacy_config raw c =
     (let (ch1, c1) = (case lv_webchat raw of
            None \<Rightarrow> (False, c)
          | Some decoded \<Rightarrow>
              (True, c\<lparr>cfg_connectors := bt_remove ''webchat'' (bt_insert ''desktop''
                 (migrate_webchat (case decoded of None \<Rightarrow> derived_connector | Some l \<Rightarrow> l))
                 (cfg_connectors c))\<rparr>));
          (ch2, c2) = (case lv_web_enabled raw of
            None \<Rightarrow> (ch1, c1)
          | Some b \<Rightarrow> (True, cfg_gateway_update (g_local_http_update (gl_enabled_update (\<lambda>_. b))) c1));
          (ch3, c3) = (case lv_web_listen raw of
            None \<Rightarrow> (ch2, c2)
          | Some a \<Rightarrow> (True, cfg_gateway_update (g_local_http_update (gl_listen_address_update (\<lambda>_. a))) c2))
      in (ch3, c3))"

text \<open>
  \<open>load_or_init\<close>: the file's text if it exists, the decoders of the \<open>toml\<close> crate as
  arguments; the second component is what is written back, if anything.
\<close>

definition load_or_init ::
    "(string \<Rightarrow> app_config option) \<Rightarrow> (string \<Rightarrow> legacy_view option) \<Rightarrow> string option \<Rightarrow>
     (app_config \<times> app_config option) res" where
  "load_or_init decode decode_raw file =
     (case file of
        None \<Rightarrow> Ok (default_config, Some default_config)
      | Some raw \<Rightarrow>
          (case decode raw of
             None \<Rightarrow> Err (Msg ''failed to parse config.toml'')
           | Some parsed \<Rightarrow>
               (case decode_raw raw of
                  None \<Rightarrow> Err (Msg ''failed to parse raw config'')
                | Some legacy \<Rightarrow>
                    let (changed, c) = migrate_legacy_config legacy (merge_missing_defaults parsed)
                    in Ok (c, if changed then Some c else None))))"

end
