(* ===== verification/Config_Facts.thy ===== *)
theory Config_Facts
  imports Config_Ops
begin

text \<open>
  What the operations of \<open>AppConfig\<close> guarantee: a failing \<open>set\<close> changes nothing but may leave a
  defaulted entry, integers are stored exactly where they fit, the maps stay sorted, and a
  configuration that was loaded and written is loaded again as it is.
\<close>

section \<open>Setting a key\<close>

text \<open>An action on the configuration that fails without a change, and never touches the maps.\<close>

definition plain_setting :: "config_io \<Rightarrow> bool" where
  "plain_setting m \<longleftrightarrow> (\<forall>c. (\<exists>e. m c = (Err e, c)) \<or>
     (\<exists>c'. m c = (Ok (), c') \<and> cfg_models c' = cfg_models c \<and> cfg_connectors c' = cfg_connectors c \<and>
        cfg_model_profiles c' = cfg_model_profiles c))"

named_theorems plain_intros \<open>rules that derive that a setting is plain\<close>

lemma plain_modify [plain_intros]:
  assumes "\<And>c. cfg_models (f c) = cfg_models c" "\<And>c. cfg_connectors (f c) = cfg_connectors c"
    "\<And>c. cfg_model_profiles (f c) = cfg_model_profiles c"
  shows "plain_setting (modify f)"
  using assms by (simp add: plain_setting_def modify_def)

lemma plain_fail: "plain_setting (fail e)"
  by (simp add: plain_setting_def fail_def)

lemma plain_assign_bool [plain_intros]:
  assumes "\<And>b. plain_setting (modify (f b))"
  shows "plain_setting (assign_bool key value f)"
  using assms by (auto simp: assign_bool_def plain_fail split: option.split)

lemma plain_assign_uint [plain_intros]:
  assumes "\<And>n. plain_setting (modify (f n))"
  shows "plain_setting (assign_uint width key value f)"
  using assms by (auto simp: assign_uint_def plain_fail split: option.split)

lemma plain_assign_i64 [plain_intros]:
  assumes "\<And>n. plain_setting (modify (f n))"
  shows "plain_setting (assign_i64 key value f)"
  using assms by (auto simp: assign_i64_def plain_fail split: option.split)

lemma set_table_plain: "list_all plain_setting (map snd (set_table key value))"
  unfolding set_table_def list.map list.pred_inject snd_conv
  by (intro conjI plain_intros TrueI) simp_all

lemma set_table_entry: "map_of (set_table key value) k = Some m \<Longrightarrow> plain_setting m"
  using set_table_plain [of key "value"] map_of_SomeD [of "set_table key value" k m]
  by (auto simp: list_all_iff)

text \<open>The outcome of \<open>set\<close>: nothing, or a defaulted entry, is left behind by a failure.\<close>

definition defaulted_entry :: "app_config \<Rightarrow> app_config \<Rightarrow> bool" where
  "defaulted_entry c c' \<longleftrightarrow>
     (\<exists>name. c' = c\<lparr>cfg_models := bt_or_insert name derived_model_provider (cfg_models c)\<rparr>)
   \<or> (\<exists>name. c' = c\<lparr>cfg_connectors := bt_or_insert name derived_connector (cfg_connectors c)\<rparr>)"

lemma set_model_outcome:
  "(\<exists>c'. set_model key value c = (Ok (), c')) \<or>
   (\<exists>e c'. set_model key value c = (Err e, c') \<and> (c' = c \<or> defaulted_entry c c'))"
  unfolding set_model_def
  by (auto simp: fail_def andthen_def modify_def defaulted_entry_def split: list.splits sum.splits)

lemma set_connector_outcome:
  "(\<exists>c'. set_connector key value c = (Ok (), c')) \<or>
   (\<exists>e c'. set_connector key value c = (Err e, c') \<and> (c' = c \<or> defaulted_entry c c'))"
  unfolding set_connector_def
  by (auto simp: fail_def andthen_def modify_def defaulted_entry_def split: list.splits sum.splits)

lemma config_set_outcome:
  "(\<exists>c'. config_set key value c = (Ok (), c')) \<or>
   (\<exists>e c'. config_set key value c = (Err e, c') \<and> (c' = c \<or> defaulted_entry c c'))"
proof (cases "map_of (set_table key value) key")
  case (Some m)
  then have "config_set key value = m" by (simp add: config_set_def)
  then show ?thesis using set_table_entry [OF Some] unfolding plain_setting_def by metis
next
  case None
  then show ?thesis using set_model_outcome [of key "value" c] set_connector_outcome [of key "value" c]
    by (auto simp: config_set_def fail_def)
qed

text \<open>C38.
  \<open>set\<close> always returns, whatever the key and the value. If it fails the configuration is unchanged,
  except that a key under \<open>models.\<close> or \<open>connectors.\<close> may have left a default entry of its name.
\<close>

theorem failed_set_changes_nothing:
  "(\<exists>c'. config_set key value c = (Ok (), c')) \<or>
   (\<exists>e c'. config_set key value c = (Err e, c') \<and> (c' = c \<or> defaulted_entry c c'))"
  by (rule config_set_outcome)

section \<open>The maps\<close>

text \<open>A configuration is well-formed if its maps are: sorted, one entry per key.\<close>

definition config_wf :: "app_config \<Rightarrow> bool" where
  "config_wf c \<longleftrightarrow> bt_wf (cfg_models c) \<and> bt_wf (cfg_connectors c) \<and> bt_wf (cfg_model_profiles c)"

text \<open>Filling a map with defaults keeps what is there; what is filled in once is complete.\<close>

lemma bt_wf_fill: "bt_wf m \<Longrightarrow> bt_wf (fold (\<lambda>(k, v). bt_or_insert k v) kvs m)"
  by (induction kvs arbitrary: m) (auto simp: bt_wf_or_insert)

lemma bt_get_fill:
  "bt_wf m \<Longrightarrow> bt_get (fold (\<lambda>(k, v). bt_or_insert k v) kvs m) k' =
     (case bt_get m k' of None \<Rightarrow> map_of kvs k' | Some w \<Rightarrow> Some w)"
  by (induction kvs arbitrary: m) (auto simp: bt_wf_or_insert bt_get_or_insert split: option.splits)

lemma bt_fill_complete:
  "\<forall>k\<in>fst ` set kvs. bt_get m k \<noteq> None \<Longrightarrow> fold (\<lambda>(k, v). bt_or_insert k v) kvs m = m"
  by (induction kvs) (auto simp: bt_or_insert_alt)

lemma bt_fill_present:
  "bt_wf m \<Longrightarrow> k \<in> fst ` set kvs \<Longrightarrow> bt_get (fold (\<lambda>(k, v). bt_or_insert k v) kvs m) k \<noteq> None"
  by (cases "map_of kvs k") (auto simp: bt_get_fill map_of_eq_None_iff split: option.split)

lemma default_config_wf: "config_wf default_config"
  by (simp add: config_wf_def default_config_def default_connectors_def default_model_profiles_def default_models_def
      bt_wf_of_list)

lemma config_wf_merge: "config_wf c \<Longrightarrow> config_wf (merge_missing_defaults c)"
  by (simp add: config_wf_def merge_missing_defaults_def Let_def bt_wf_fill)

lemma config_wf_migrate: "config_wf c \<Longrightarrow> config_wf (snd (migrate_legacy_config v c))"
  by (simp add: config_wf_def migrate_legacy_config_def Let_def bt_wf_insert bt_wf_remove split: option.split)

text \<open>The defaults are complete: a configuration to which they were merged is left alone by merging.\<close>

definition complete :: "app_config \<Rightarrow> bool" where
  "complete c \<longleftrightarrow> (\<forall>k\<in>fst ` set default_connectors. bt_get (cfg_connectors c) k \<noteq> None) \<and>
     (\<forall>k\<in>fst ` set default_model_profiles. bt_get (cfg_model_profiles c) k \<noteq> None)"

lemma merge_complete: "complete c \<Longrightarrow> merge_missing_defaults c = c"
  by (simp add: complete_def merge_missing_defaults_def Let_def bt_fill_complete)

lemma complete_merge: "config_wf c \<Longrightarrow> complete (merge_missing_defaults c)"
  by (simp add: complete_def merge_missing_defaults_def Let_def config_wf_def bt_fill_present)

lemma webchat_no_default: "bt_get default_connectors ''webchat'' = None"
  by (simp add: default_connectors_def bt_get_of_list connector_names_def)

lemma connectors_migrate:
  "config_wf c \<Longrightarrow> k \<noteq> ''webchat'' \<Longrightarrow> bt_get (cfg_connectors c) k \<noteq> None \<Longrightarrow>
     bt_get (cfg_connectors (snd (migrate_legacy_config v c))) k \<noteq> None"
  by (simp add: migrate_legacy_config_def Let_def config_wf_def bt_get_remove bt_get_insert split: option.split)

lemma profiles_migrate: "cfg_model_profiles (snd (migrate_legacy_config v c)) = cfg_model_profiles c"
  by (simp add: migrate_legacy_config_def Let_def split: option.split)

lemma complete_migrate: "config_wf c \<Longrightarrow> complete c \<Longrightarrow> complete (snd (migrate_legacy_config v c))"
  using webchat_no_default connectors_migrate unfolding complete_def profiles_migrate
  by (metis (no_types, lifting) bt_get_def map_of_eq_None_iff)

section \<open>Loading\<close>

text \<open>
  What the \<open>toml\<close> crate does: a decoded configuration has well-formed maps, the raw table
  has \<open>connectors.webchat\<close> exactly if the decoded one has, and what \<open>to_string_pretty\<close> wrote, when it
  could, is read back, without the legacy table \<open>gateway.web\<close>, which no field is written to.
\<close>

definition toml_law ::
    "(string \<Rightarrow> app_config option) \<Rightarrow> (string \<Rightarrow> legacy_view option) \<Rightarrow> (app_config \<Rightarrow> string option) \<Rightarrow> bool" where
  "toml_law decode decode_raw encode \<longleftrightarrow>
     (\<forall>s c. decode s = Some c \<longrightarrow> config_wf c \<and> (\<exists>v. decode_raw s = Some v \<and>
        (lv_webchat v = None \<longleftrightarrow> bt_get (cfg_connectors c) ''webchat'' = None)))
   \<and> (\<forall>s c. encode c = Some s \<longrightarrow> decode s = Some c \<and>
        (\<forall>v. decode_raw s = Some v \<longrightarrow> lv_web_enabled v = None \<and> lv_web_listen v = None))"

lemma toml_decode:
  assumes "toml_law decode decode_raw encode" and "decode s = Some c"
  obtains v where "config_wf c" "decode_raw s = Some v" "lv_webchat v = None \<longleftrightarrow> bt_get (cfg_connectors c) ''webchat'' = None"
proof -
  have "config_wf c \<and> (\<exists>v. decode_raw s = Some v \<and> (lv_webchat v = None \<longleftrightarrow> bt_get (cfg_connectors c) ''webchat'' = None))"
    using assms by (simp add: toml_law_def)
  then show ?thesis using that by (elim conjE exE)
qed

lemma toml_encode:
  assumes "toml_law decode decode_raw encode" and "encode c = Some s"
  shows "decode s = Some c" and "decode_raw s = Some v \<Longrightarrow> lv_web_enabled v = None \<and> lv_web_listen v = None"
  using assms by (simp_all add: toml_law_def)

text \<open>A loaded configuration is well-formed, complete, and has no legacy connector.\<close>

definition settled :: "app_config \<Rightarrow> bool" where
  "settled c \<longleftrightarrow> config_wf c \<and> complete c \<and> bt_get (cfg_connectors c) ''webchat'' = None"

lemma webchat_merge: "config_wf c \<Longrightarrow>
    bt_get (cfg_connectors (merge_missing_defaults c)) ''webchat'' = bt_get (cfg_connectors c) ''webchat''"
  using webchat_no_default
  unfolding bt_get_def [of default_connectors]
  by (simp add: merge_missing_defaults_def Let_def config_wf_def bt_get_fill split: option.split)

lemma webchat_migrate:
  "bt_get (cfg_connectors (snd (migrate_legacy_config v c))) ''webchat'' =
     (if lv_webchat v = None then bt_get (cfg_connectors c) ''webchat'' else None)"
  by (simp add: migrate_legacy_config_def Let_def bt_get_remove split: option.split)

lemma settled_default: "settled default_config"
proof -
  have "complete default_config"
    by (auto simp: complete_def default_config_def bt_get_def map_of_eq_None_iff)
  then show ?thesis using webchat_no_default by (simp add: settled_def default_config_wf) (simp add: default_config_def)
qed

lemma loaded_settled:
  assumes "toml_law decode decode_raw encode" and "load_or_init decode decode_raw src = Ok (c, w)"
  shows "settled c"
proof (cases src)
  case None
  then show ?thesis using assms(2) by (simp add: load_or_init_def settled_default)
next
  case (Some raw)
  with assms(2) obtain p where p: "decode raw = Some p" by (auto simp: load_or_init_def split: option.splits)
  obtain v where v: "decode_raw raw = Some v" "config_wf p"
      "lv_webchat v = None \<longleftrightarrow> bt_get (cfg_connectors p) ''webchat'' = None"
    by (rule toml_decode [OF assms(1) p])
  have c: "c = snd (migrate_legacy_config v (merge_missing_defaults p))"
    using assms(2) Some p v(1) by (auto simp: load_or_init_def Let_def split: prod.splits)
  have wf: "config_wf (merge_missing_defaults p)" by (rule config_wf_merge [OF v(2)])
  show ?thesis unfolding settled_def c
    using config_wf_migrate [OF wf] complete_migrate [OF wf complete_merge [OF v(2)]] v(3) webchat_merge [OF v(2)]
    by (simp add: webchat_migrate)
qed

text \<open>A configuration in the form loading gives it is loaded as it is.\<close>

lemma settled_reloads:
  assumes "toml_law decode decode_raw encode" and "settled c" and "encode c = Some s"
  shows "load_or_init decode decode_raw (Some s) = Ok (c, None)"
proof -
  have settled: "config_wf c" "complete c" "bt_get (cfg_connectors c) ''webchat'' = None"
    using assms(2) by (simp_all add: settled_def)
  have decoded: "decode s = Some c" by (rule toml_encode(1) [OF assms(1,3)])
  obtain v where "decode_raw s = Some v" "lv_webchat v = None"
    by (rule toml_decode [OF assms(1) decoded]) (use settled(3) in simp)
  then show ?thesis using decoded toml_encode(2) [OF assms(1,3)]
    by (simp add: load_or_init_def merge_complete [OF settled(2)] migrate_legacy_config_def)
qed

text \<open>
  Loading is stable: a configuration that was loaded - from any file, with defaults merged and legacy keys
  migrated - and written is loaded again as it is, and the second load writes nothing.
\<close>

theorem loaded_config_reloads:
  assumes "toml_law decode decode_raw encode" and "load_or_init decode decode_raw src = Ok (c, w)"
    and "encode c = Some s"
  shows "load_or_init decode decode_raw (Some s) = Ok (c, None)"
  by (rule settled_reloads [OF assms(1) loaded_settled [OF assms(1,2)] assms(3)])

text \<open>A file with the legacy connector, the configuration it is migrated to, and a codec for the two.\<close>

definition legacy_config :: app_config where
  "legacy_config = default_config\<lparr>cfg_connectors := bt_insert ''webchat'' derived_connector default_connectors\<rparr>"

definition legacy_raw :: legacy_view where
  "legacy_raw = \<lparr>lv_webchat = Some (Some derived_connector), lv_web_enabled = Some True, lv_web_listen = None\<rparr>"

definition migrated_config :: app_config where
  "migrated_config = snd (migrate_legacy_config legacy_raw (merge_missing_defaults legacy_config))"

definition two_file_decode :: "string \<Rightarrow> app_config option" where
  "two_file_decode s = (if s = ''old'' then Some legacy_config else if s = ''new'' then Some migrated_config else None)"

definition two_file_raw :: "string \<Rightarrow> legacy_view option" where
  "two_file_raw s = (if s = ''old'' then Some legacy_raw
     else if s = ''new'' then Some \<lparr>lv_webchat = None, lv_web_enabled = None, lv_web_listen = None\<rparr> else None)"

definition two_file_encode :: "app_config \<Rightarrow> string option" where
  "two_file_encode c = (if c = migrated_config then Some ''new'' else None)"

lemma two_file_law: "toml_law two_file_decode two_file_raw two_file_encode"
proof -
  have legacy: "config_wf legacy_config" "bt_get (cfg_connectors legacy_config) ''webchat'' \<noteq> None"
    using default_config_wf by (simp_all add: legacy_config_def config_wf_def default_config_def bt_wf_insert bt_get_insert)
  have "config_wf migrated_config" "bt_get (cfg_connectors migrated_config) ''webchat'' = None"
    by (simp_all add: migrated_config_def config_wf_migrate config_wf_merge legacy(1) webchat_migrate legacy_raw_def)
  with legacy show ?thesis
    by (auto simp: toml_law_def two_file_decode_def two_file_raw_def two_file_encode_def legacy_raw_def)
qed

theorem loaded_config_reloads_witness:
  "\<exists>c. load_or_init two_file_decode two_file_raw (Some ''old'') = Ok (c, Some c) \<and>
     load_or_init two_file_decode two_file_raw (Some ''new'') = Ok (c, None)"
proof -
  have old: "load_or_init two_file_decode two_file_raw (Some ''old'') = Ok (migrated_config, Some migrated_config)"
    by (simp add: load_or_init_def two_file_decode_def two_file_raw_def migrated_config_def)
      (simp add: legacy_raw_def migrate_legacy_config_def)
  show ?thesis
    using old loaded_config_reloads [OF two_file_law old, of "''new''"] by (simp add: two_file_encode_def)
qed

end
