(* ===== verification/Sql_Table.thy ===== *)
theory Sql_Table
  imports Prelude
begin

text \<open>
  The SQL statements of the program over one table. A table is the list of its rows in insertion
  order; \<open>order by \<dots> desc\<close> is a stable sort (rows with equal keys stay in insertion
  order; SQL leaves their order open, and no property rests on it). \<open>insert \<dots> on conflict(key) do
  update\<close> is \<open>upsert_row\<close>; its contract is the locale \<open>upsert_table\<close>.
\<close>

definition insert_row :: "'r \<Rightarrow> 'r list \<Rightarrow> 'r list" where
  "insert_row r t = t @ [r]"

definition has_key :: "('r \<Rightarrow> 'k) \<Rightarrow> 'k \<Rightarrow> 'r list \<Rightarrow> bool" where
  "has_key key k t \<longleftrightarrow> list_ex (\<lambda>r. key r = k) t"

definition update_where :: "('r \<Rightarrow> bool) \<Rightarrow> ('r \<Rightarrow> 'r) \<Rightarrow> 'r list \<Rightarrow> 'r list" where
  "update_where p f t = map (\<lambda>r. if p r then f r else r) t"

definition delete_where :: "('r \<Rightarrow> bool) \<Rightarrow> 'r list \<Rightarrow> 'r list" where
  "delete_where p t = filter (\<lambda>r. \<not> p r) t"

definition count_where :: "('r \<Rightarrow> bool) \<Rightarrow> 'r list \<Rightarrow> nat" where
  "count_where p t = length (filter p t)"

definition upsert_row :: "('r \<Rightarrow> 'k) \<Rightarrow> ('r \<Rightarrow> 'r \<Rightarrow> 'r) \<Rightarrow> 'r \<Rightarrow> 'r list \<Rightarrow> 'r list" where
  "upsert_row key merge new t =
     (if has_key key (key new) t
      then update_where (\<lambda>r. key r = key new) (\<lambda>r. merge r new) t
      else insert_row new t)"

definition lookup_row :: "('r \<Rightarrow> 'k) \<Rightarrow> 'k \<Rightarrow> 'r list \<Rightarrow> 'r option" where
  "lookup_row key k t = List.find (\<lambda>r. key r = k) t"

text \<open>\<open>limit ?\<close> with an \<open>i64\<close> argument: a negative limit is no limit.\<close>

definition usize_as_i64 :: "nat \<Rightarrow> int" where
  "usize_as_i64 n = sint (of_nat n :: 64 word)"

definition sql_limit :: "int \<Rightarrow> 'r list \<Rightarrow> 'r list" where
  "sql_limit n rows = (if n < 0 then rows else take (nat n) rows)"

definition distinct_keys :: "('r \<Rightarrow> 'k) \<Rightarrow> 'r list \<Rightarrow> bool" where
  "distinct_keys key t \<longleftrightarrow> distinct (map key t)"

lemma has_key_iff: "has_key key k t \<longleftrightarrow> k \<in> key ` set t"
  by (auto simp: has_key_def list_ex_iff)

lemma lookup_row_None: "lookup_row key k t = None \<longleftrightarrow> \<not> has_key key k t"
  by (auto simp: lookup_row_def find_None_iff has_key_iff)

lemma lookup_row_Some: "lookup_row key k t = Some r \<Longrightarrow> r \<in> set t \<and> key r = k"
  by (auto simp: lookup_row_def find_Some_iff)

lemma lookup_row_unique:
  "distinct_keys key t \<Longrightarrow> r \<in> set t \<Longrightarrow> lookup_row key (key r) t = Some r"
  by (induction t) (auto simp: lookup_row_def distinct_keys_def)

lemma set_update_where: "set (update_where p f t) = (\<lambda>r. if p r then f r else r) ` set t"
  by (simp add: update_where_def)

lemma set_delete_where: "set (delete_where p t) = {r \<in> set t. \<not> p r}"
  by (auto simp: delete_where_def)

lemma set_insert_row [simp]: "set (insert_row r t) = insert r (set t)"
  by (simp add: insert_row_def)

lemma length_update_where [simp]: "length (update_where p f t) = length t"
  by (simp add: update_where_def)

lemma map_update_where:
  "(\<And>r. p r \<Longrightarrow> key (f r) = key r) \<Longrightarrow> map key (update_where p f t) = map key t"
  by (simp add: update_where_def comp_def if_distrib cong: if_cong)

lemma distinct_keys_update_where:
  "(\<And>r. p r \<Longrightarrow> key (f r) = key r) \<Longrightarrow> distinct_keys key (update_where p f t) = distinct_keys key t"
  by (simp add: distinct_keys_def map_update_where)

lemma distinct_keys_delete_where: "distinct_keys key t \<Longrightarrow> distinct_keys key (delete_where p t)"
  by (simp add: distinct_keys_def delete_where_def distinct_map_filter)

lemma distinct_keys_insert_row:
  "distinct_keys key (insert_row r t) \<longleftrightarrow> distinct_keys key t \<and> \<not> has_key key (key r) t"
  by (auto simp: distinct_keys_def insert_row_def has_key_iff)

lemma lookup_row_update_same:
  "(\<And>r. key r = k \<Longrightarrow> key (f r) = k) \<Longrightarrow>
     lookup_row key k (update_where (\<lambda>r. key r = k) f t) = map_option f (lookup_row key k t)"
  by (induction t) (auto simp: lookup_row_def update_where_def)

lemma lookup_row_update_other:
  "(\<And>r. p r \<Longrightarrow> key (f r) \<noteq> k \<and> key r \<noteq> k) \<Longrightarrow>
     lookup_row key k (update_where p f t) = lookup_row key k t"
  by (induction t) (auto simp: lookup_row_def update_where_def)

lemma lookup_row_insert_new:
  "\<not> has_key key (key r) t \<Longrightarrow> lookup_row key k (insert_row r t) =
     (if k = key r then Some r else lookup_row key k t)"
  by (induction t) (auto simp: lookup_row_def insert_row_def has_key_iff)

lemma sql_limit_subset: "set (sql_limit n rows) \<subseteq> set rows"
  by (auto simp: sql_limit_def dest: in_set_takeD)

lemma usize_as_i64_small: "n < 2 ^ 63 \<Longrightarrow> usize_as_i64 n = int n"
  unfolding usize_as_i64_def
  by (simp add: sint_uint unsigned_of_nat take_bit_nat_eq_self signed_take_bit_int_eq_self
      flip: of_nat_take_bit)

section \<open>Upsert tables\<close>

text \<open>
  What a caller of an upsert relies on: the merge keeps the key of the row it updates. From that,
  the table stays free of duplicate keys, the written key reads back merged, and no other key
  changes.
\<close>

locale upsert_table =
  fixes key :: "'r \<Rightarrow> 'k" and merge :: "'r \<Rightarrow> 'r \<Rightarrow> 'r"
  assumes key_merge: "key old = key new \<Longrightarrow> key (merge old new) = key new"
begin

lemma merge_keys:
  "map key (update_where (\<lambda>r. key r = key new) (\<lambda>r. merge r new) t) = map key t"
  by (rule map_update_where) (simp add: key_merge)

lemma upsert_distinct: "distinct_keys key t \<Longrightarrow> distinct_keys key (upsert_row key merge new t)"
  by (cases "has_key key (key new) t")
     (simp_all add: upsert_row_def distinct_keys_insert_row, simp add: distinct_keys_def merge_keys)

lemma upsert_has_key: "has_key key k (upsert_row key merge new t) \<longleftrightarrow> k = key new \<or> has_key key k t"
proof (cases "has_key key (key new) t")
  case True
  have "key ` set (update_where (\<lambda>r. key r = key new) (\<lambda>r. merge r new) t) = key ` set t"
    using arg_cong [OF merge_keys, of set new t] by simp
  with True show ?thesis by (auto simp: upsert_row_def has_key_iff)
next
  case False
  then show ?thesis by (auto simp: upsert_row_def has_key_iff)
qed

lemma upsert_lookup_same:
  "lookup_row key (key new) (upsert_row key merge new t) =
     Some (case lookup_row key (key new) t of None \<Rightarrow> new | Some old \<Rightarrow> merge old new)"
proof (cases "lookup_row key (key new) t")
  case None
  then have "\<not> has_key key (key new) t" by (simp add: lookup_row_None)
  with None show ?thesis by (simp add: upsert_row_def lookup_row_insert_new)
next
  case (Some old)
  then have "has_key key (key new) t" by (metis lookup_row_None option.distinct(1))
  with Some show ?thesis by (simp add: upsert_row_def lookup_row_update_same key_merge)
qed

lemma upsert_lookup_other:
  "k \<noteq> key new \<Longrightarrow> lookup_row key k (upsert_row key merge new t) = lookup_row key k t"
  by (auto simp: upsert_row_def lookup_row_insert_new key_merge intro!: lookup_row_update_other)

text \<open>Rows of other keys stay, and only rows of the written key are new.\<close>

lemma upsert_other_rows: "r \<in> set t \<Longrightarrow> key r \<noteq> key new \<Longrightarrow> r \<in> set (upsert_row key merge new t)"
  by (auto simp: upsert_row_def set_update_where image_iff)

lemma upsert_rows_from:
  "r \<in> set (upsert_row key merge new t) \<Longrightarrow>
     r \<in> set t \<or> r = new \<or> (\<exists>old\<in>set t. key old = key new \<and> r = merge old new)"
  by (auto simp: upsert_row_def set_update_where split: if_splits)

lemma upsert_all:
  assumes "\<forall>r\<in>set t. P r" "P new" "\<And>old. P old \<Longrightarrow> key old = key new \<Longrightarrow> P (merge old new)"
  shows "\<forall>r\<in>set (upsert_row key merge new t). P r"
proof
  fix r
  assume "r \<in> set (upsert_row key merge new t)"
  from upsert_rows_from [OF this] show "P r" using assms by blast
qed

lemma upsert_length: "length (upsert_row key merge new t) \<le> Suc (length t)"
  by (simp add: upsert_row_def insert_row_def)

end

end
