(* ===== verification/World.thy ===== *)
theory World
  imports Types Sql_Table
begin

text \<open>
  The world the engine runs in: the parameters that stand for code outside the repository
  (\<open>env\<close>), the tables of the SQLite store, the mutex around its connection, and the
  actions every component is built from. \<open>safe_at\<close> is the lock discipline: an action that
  neither panics nor blocks and leaves the connection mutex as it found it.
\<close>

section \<open>What is outside the repository\<close>

record sandbox_command =
  sbc_subject :: string
  sbc_capabilities :: "string list"
  sbc_program :: string
  sbc_args :: "string list"
  sbc_env :: "(string \<times> string) list"
  sbc_allow_network :: bool
  sbc_workspace_archive_b64 :: "string option"

record sandbox_output =
  sbo_success :: bool
  sbo_exit_code :: int
  sbo_stdout :: string
  sbo_stderr :: string
  sbo_logs :: "string list"

text \<open>
  \<open>E_sha256\<close> gives the 32 digest bytes; \<open>E_seal\<close>/\<open>E_open\<close> are XChaCha20-Poly1305 with
  key, nonce and text; \<open>E_lower\<close> and \<open>E_alnum\<close> the Unicode tables behind
  \<open>to_lowercase\<close> and \<open>is_alphanumeric\<close> (of a non-ASCII code point). The n-th reading
  of the clock, the n-th UUID and the n-th random draw of k bytes are \<open>E_time\<close>,
  \<open>E_uuid\<close>, \<open>E_random\<close>; the answer of a model provider (its name, how many calls were made
  before, the prompt) is \<open>E_generate\<close>, that of the sandbox backend \<open>E_sandbox\<close>.
  X25519, Ed25519, the tar+zstd codec and the YAML parser are further parameters; \<open>E_cwd\<close>
  is the current directory when the operating system can tell it; \<open>E_parse_time\<close> reads RFC 3339.
\<close>

record env =
  E_sha256 :: "string \<Rightarrow> string"
  E_b64_encode :: "string \<Rightarrow> string"
  E_b64_decode :: "string \<Rightarrow> string option"
  E_seal :: "string \<Rightarrow> string \<Rightarrow> string \<Rightarrow> string option"
  E_open :: "string \<Rightarrow> string \<Rightarrow> string \<Rightarrow> string option"
  E_json_parse :: "string \<Rightarrow> json option"
  E_json_print :: "json \<Rightarrow> string"
  E_json_pretty :: "json \<Rightarrow> string"
  E_lower :: "string \<Rightarrow> string"
  E_alnum :: "string \<Rightarrow> bool"
  E_time :: "nat \<Rightarrow> instant"
  E_rfc3339 :: "instant \<Rightarrow> string"
  E_parse_time :: "string \<Rightarrow> instant option"
  E_debug_due :: "instant option \<Rightarrow> string"
  E_uuid :: "nat \<Rightarrow> string"
  E_random :: "nat \<Rightarrow> nat \<Rightarrow> string"
  E_generate :: "string \<Rightarrow> nat \<Rightarrow> string \<Rightarrow> error + string"
  E_sandbox :: "nat \<Rightarrow> sandbox_command \<Rightarrow> error + sandbox_output"
  E_x25519_public :: "string \<Rightarrow> string"
  E_x25519_shared :: "string \<Rightarrow> string \<Rightarrow> string"
  E_ed25519_key_ok :: "string \<Rightarrow> bool"
  E_ed25519_verify :: "string \<Rightarrow> string \<Rightarrow> string \<Rightarrow> bool"
  E_tar_zst :: "(string, string) btree \<Rightarrow> string option"
  E_untar_zst :: "string \<Rightarrow> (string, string) btree option"
  E_yaml_parse :: "string \<Rightarrow> json option"
  E_os :: string
  E_arch :: string
  E_cwd :: "string option"

section \<open>The tables\<close>

record message_row =
  msg_connector :: string
  msg_channel_id :: string
  msg_sender :: string
  msg_body :: string
  msg_metadata_json :: string
  msg_created_at :: instant

record cache_row =
  ca_key :: string
  ca_provider :: string
  ca_response :: string
  ca_created_at :: instant

record memory_row =
  vm_namespace :: string
  vm_key :: string
  vm_blob_json :: string
  vm_metadata_json :: string
  vm_fingerprint :: string
  vm_created_at :: instant

record queue_row =
  qw_task_id :: string
  qw_task_type :: string
  qw_target :: string
  qw_arguments_json :: string
  qw_priority :: string
  qw_status :: string
  qw_created_at :: instant
  qw_updated_at :: instant

record protocol_row =
  pw_protocol_id :: string
  pw_transcript_json :: string
  pw_findings_json :: string
  pw_created_at :: instant

record session_row =
  sr_session_id :: string
  sr_connector :: string
  sr_channel_id :: string
  sr_participant :: string
  sr_session_type :: string
  sr_title :: string
  sr_status :: string
  sr_reply_mode :: string
  sr_queue_mode :: string
  sr_model_profile :: string
  sr_mention_only :: bool
  sr_pending_pairing :: bool
  sr_archived :: bool
  sr_last_message_preview :: string
  sr_message_count :: int
  sr_created_at :: instant
  sr_updated_at :: instant

record pairing_row =
  pg_pairing_id :: string
  pg_connector :: string
  pg_channel_id :: string
  pg_sender :: string
  pg_session_id :: string
  pg_status :: string
  pg_reason :: string
  pg_note :: string
  pg_created_at :: instant
  pg_updated_at :: instant

record entity_row =
  er_entity_id :: string
  er_entity_kind :: string
  er_subtype :: string
  er_blob_json :: string
  er_salience :: f64
  er_confidence :: f64
  er_fingerprint :: string
  er_archived :: bool
  er_source_ref :: string
  er_created_at :: instant
  er_updated_at :: instant

record fact_row =
  fr_fact_id :: string
  fr_entity_id :: string
  fr_blob_json :: string
  fr_salience :: f64
  fr_confidence :: f64
  fr_fingerprint :: string
  fr_archived :: bool
  fr_source_ref :: string
  fr_created_at :: instant
  fr_updated_at :: instant

record relation_row =
  rr_relation_id :: string
  rr_relation_kind :: string
  rr_from_entity_id :: string
  rr_to_entity_id :: string
  rr_metadata_json :: string
  rr_confidence :: f64
  rr_archived :: bool
  rr_created_at :: instant
  rr_updated_at :: instant

record task_row =
  tr_task_id :: string
  tr_status :: string
  tr_priority :: string
  tr_due_at :: "instant option"
  tr_blob_json :: string
  tr_salience :: f64
  tr_confidence :: f64
  tr_fingerprint :: string
  tr_archived :: bool
  tr_source_ref :: string
  tr_created_at :: instant
  tr_updated_at :: instant

record ingest_row =
  il_source_ref :: string
  il_source_kind :: string
  il_fingerprint :: string
  il_target_json :: string
  il_created_at :: instant

text \<open>
  Audit events and session messages have the columns of their records in \<open>types.rs\<close> and are
  stored as those; jobs are only ever read, with their creation time beside them.
\<close>

record store =
  t_messages :: "message_row list"
  t_jobs :: "(schedule_request \<times> instant) list"
  t_prompt_cache :: "cache_row list"
  t_prefix_cache :: "cache_row list"
  t_vector_memory :: "memory_row list"
  t_audit_events :: "audit_event list"
  t_queue_tasks :: "queue_row list"
  t_protocol_runs :: "protocol_row list"
  t_sessions :: "session_row list"
  t_session_messages :: "session_message_record list"
  t_pairings :: "pairing_row list"
  t_entities :: "entity_row list"
  t_facts :: "fact_row list"
  t_relations :: "relation_row list"
  t_tasks :: "task_row list"
  t_ingest_log :: "ingest_row list"

definition empty_store :: store where
  "empty_store = \<lparr>t_messages = [], t_jobs = [], t_prompt_cache = [], t_prefix_cache = [],
     t_vector_memory = [], t_audit_events = [], t_queue_tasks = [], t_protocol_runs = [],
     t_sessions = [], t_session_messages = [], t_pairings = [], t_entities = [], t_facts = [],
     t_relations = [], t_tasks = [], t_ingest_log = []\<rparr>"

section \<open>The state of the process\<close>

text \<open>
  \<open>w_calls\<close> and \<open>w_runs\<close> record the calls made to model providers and to the sandbox;
  \<open>w_files\<close> is the content of the files outside of skill bundles by path, \<open>w_dirs\<close> the
  bundle directories by path, in the order \<open>read_dir\<close> lists them, each with its files by
  relative path.
\<close>

record world =
  w_db :: store
  w_locked :: bool
  w_ticks :: nat
  w_uuids :: nat
  w_draws :: nat
  w_calls :: "(string \<times> string) list"
  w_runs :: "sandbox_command list"
  w_files :: "string \<Rightarrow> string option"
  w_dirs :: "(string \<times> (string, string) btree) list"

type_synonym 'a io = "(world, 'a) act"

definition boot_world :: world where
  "boot_world = \<lparr>w_db = empty_store, w_locked = False, w_ticks = 0, w_uuids = 0, w_draws = 0,
     w_calls = [], w_runs = [], w_files = (\<lambda>_. None), w_dirs = []\<rparr>"

definition utc_now :: "env \<Rightarrow> instant io" where
  "utc_now E = (\<lambda>w. (Ok (E_time E (w_ticks w)), w\<lparr>w_ticks := Suc (w_ticks w)\<rparr>))"

definition new_uuid :: "env \<Rightarrow> string io" where
  "new_uuid E = (\<lambda>w. (Ok (E_uuid E (w_uuids w)), w\<lparr>w_uuids := Suc (w_uuids w)\<rparr>))"

definition random_bytes :: "env \<Rightarrow> nat \<Rightarrow> string io" where
  "random_bytes E k = (\<lambda>w. (Ok (E_random E (w_draws w) k), w\<lparr>w_draws := Suc (w_draws w)\<rparr>))"

text \<open>
  \<open>let connection = self.connection.lock();\<close> up to the end of the guard's scope.
  \<open>parking_lot::Mutex\<close> is not reentrant: locking it again on the same thread blocks for ever,
  and the guard is then never dropped. An unwinding panic drops it.
\<close>

definition with_conn :: "'a io \<Rightarrow> 'a io" where
  "with_conn m = (\<lambda>w. if w_locked w then (Deadlock, w)
     else (case m (w\<lparr>w_locked := True\<rparr>) of
         (Deadlock, w') \<Rightarrow> (Deadlock, w')
       | (r, w') \<Rightarrow> (r, w'\<lparr>w_locked := False\<rparr>)))"

text \<open>A statement that reads, one that writes, and one that may violate a constraint.\<close>

definition sql_query :: "(store \<Rightarrow> 'a) \<Rightarrow> 'a io" where
  "sql_query f = (\<lambda>w. (Ok (f (w_db w)), w))"

definition sql_exec :: "(store \<Rightarrow> store) \<Rightarrow> unit io" where
  "sql_exec f = (\<lambda>w. (Ok (), w\<lparr>w_db := f (w_db w)\<rparr>))"

definition sql_try :: "string \<Rightarrow> (store \<Rightarrow> store option) \<Rightarrow> unit io" where
  "sql_try table f = (\<lambda>w. case f (w_db w) of
       None \<Rightarrow> (Err (SqlUnique table), w)
     | Some d \<Rightarrow> (Ok (), w\<lparr>w_db := d\<rparr>))"

lemma utc_now_run [run_simps]:
  "utc_now E w = (Ok (E_time E (w_ticks w)), w\<lparr>w_ticks := Suc (w_ticks w)\<rparr>)"
  by (simp add: utc_now_def)

lemma new_uuid_run [run_simps]:
  "new_uuid E w = (Ok (E_uuid E (w_uuids w)), w\<lparr>w_uuids := Suc (w_uuids w)\<rparr>)"
  by (simp add: new_uuid_def)

lemma random_bytes_run [run_simps]:
  "random_bytes E k w = (Ok (E_random E (w_draws w) k), w\<lparr>w_draws := Suc (w_draws w)\<rparr>)"
  by (simp add: random_bytes_def)

lemma sql_query_run [run_simps]: "sql_query f w = (Ok (f (w_db w)), w)"
  by (simp add: sql_query_def)

lemma sql_exec_run [run_simps]: "sql_exec f w = (Ok (), w\<lparr>w_db := f (w_db w)\<rparr>)"
  by (simp add: sql_exec_def)

lemma sql_try_run [run_simps]:
  "sql_try tb f w = (case f (w_db w) of
       None \<Rightarrow> (Err (SqlUnique tb), w)
     | Some d \<Rightarrow> (Ok (), w\<lparr>w_db := d\<rparr>))"
  by (simp add: sql_try_def)

lemma with_conn_run [run_simps]:
  "\<not> w_locked w \<Longrightarrow> with_conn m w =
     (case m (w\<lparr>w_locked := True\<rparr>) of
         (Deadlock, w') \<Rightarrow> (Deadlock, w')
       | (r, w') \<Rightarrow> (r, w'\<lparr>w_locked := False\<rparr>))"
  by (simp add: with_conn_def)

lemma with_conn_locked [run_simps]: "w_locked w \<Longrightarrow> with_conn m w = (Deadlock, w)"
  by (simp add: with_conn_def)

lemma world_lock_cycle [simp]: "\<not> w_locked w \<Longrightarrow> w\<lparr>w_locked := False\<rparr> = w"
  by (cases w) simp

section \<open>The lock discipline\<close>

definition safe_at :: "bool \<Rightarrow> 'a io \<Rightarrow> bool" where
  "safe_at b m \<longleftrightarrow> (\<forall>w. w_locked w = b \<longrightarrow> returns (fst (m w)) \<and> w_locked (snd (m w)) = b)"

abbreviation safe :: "'a io \<Rightarrow> bool" where
  "safe m \<equiv> safe_at False m"

lemma safe_atI:
  "(\<And>w. w_locked w = b \<Longrightarrow> returns (fst (m w)) \<and> w_locked (snd (m w)) = b) \<Longrightarrow> safe_at b m"
  by (simp add: safe_at_def)

lemma safe_atD:
  "safe_at b m \<Longrightarrow> w_locked w = b \<Longrightarrow> m w = (r, w') \<Longrightarrow> returns r \<and> w_locked w' = b"
  by (force simp: safe_at_def)

lemma safe_at_ret [safe_intros]: "safe_at b (ret a)"
  by (simp add: safe_at_def run_simps)

lemma safe_at_fail [safe_intros]: "safe_at b (fail e)"
  by (simp add: safe_at_def run_simps)

lemma safe_at_lift_res [safe_intros]: "returns r \<Longrightarrow> safe_at b (lift_res r)"
  by (simp add: safe_at_def run_simps)

lemma safe_at_utc_now [safe_intros]: "safe_at b (utc_now E)"
  by (simp add: safe_at_def run_simps)

lemma safe_at_new_uuid [safe_intros]: "safe_at b (new_uuid E)"
  by (simp add: safe_at_def run_simps)

lemma safe_at_random_bytes [safe_intros]: "safe_at b (random_bytes E k)"
  by (simp add: safe_at_def run_simps)

lemma safe_at_sql_query [safe_intros]: "safe_at b (sql_query f)"
  by (simp add: safe_at_def run_simps)

lemma safe_at_sql_exec [safe_intros]: "safe_at b (sql_exec f)"
  by (simp add: safe_at_def run_simps)

lemma safe_at_sql_try [safe_intros]: "safe_at b (sql_try tb f)"
  by (simp add: safe_at_def run_simps split: option.splits)

text \<open>An action that only looks at how another one ended is safe if both endings are.\<close>

lemma safe_at_cases:
  assumes m: "safe_at b m"
    and ok: "\<And>w a w'. m w = (Ok a, w') \<Longrightarrow> w_locked w' = b \<Longrightarrow>
      returns (fst (m' w)) \<and> w_locked (snd (m' w)) = b"
    and err: "\<And>w e w'. m w = (Err e, w') \<Longrightarrow> w_locked w' = b \<Longrightarrow>
      returns (fst (m' w)) \<and> w_locked (snd (m' w)) = b"
  shows "safe_at b m'"
proof (rule safe_atI)
  fix w :: world
  assume "w_locked w = b"
  moreover obtain r w' where mw: "m w = (r, w')" by (cases "m w")
  ultimately have "returns r" "w_locked w' = b" using safe_atD [OF m] by blast+
  then show "returns (fst (m' w)) \<and> w_locked (snd (m' w)) = b"
    using mw ok err by (cases r) auto
qed

lemma safe_at_andthen [safe_intros]:
  "safe_at b m \<Longrightarrow> (\<And>a. safe_at b (f a)) \<Longrightarrow> safe_at b (andthen m f)"
  by (erule safe_at_cases) (simp_all add: run_simps safe_at_def)

text \<open>The continuation may use what is known of the first step's value.\<close>

lemma safe_at_andthen_ok:
  assumes "safe_at b m" and "\<And>a w w'. w_locked w = b \<Longrightarrow> m w = (Ok a, w') \<Longrightarrow> safe_at b (f a)"
  shows "safe_at b (andthen m f)"
proof (rule safe_atI)
  fix w :: world
  assume b: "w_locked w = b"
  obtain r w' where m: "m w = (r, w')" by (cases "m w")
  from safe_atD [OF assms(1) b m] have r: "returns r" "w_locked w' = b" by simp_all
  then show "returns (fst (andthen m f w)) \<and> w_locked (snd (andthen m f w)) = b"
    using assms(2) [OF b] m by (cases r) (auto simp: run_simps safe_at_def)
qed

lemma safe_at_ignore_err [safe_intros]: "safe_at b m \<Longrightarrow> safe_at b (ignore_err m)"
  by (erule safe_at_cases) (simp_all add: run_simps)

lemma safe_at_or_default [safe_intros]: "safe_at b m \<Longrightarrow> safe_at b (or_default m d)"
  by (erule safe_at_cases) (simp_all add: run_simps)

lemma safe_at_attempt [safe_intros]: "safe_at b m \<Longrightarrow> safe_at b (attempt m)"
  by (erule safe_at_cases) (simp_all add: run_simps)

lemma safe_at_if [safe_intros]:
  "(c \<Longrightarrow> safe_at b m) \<Longrightarrow> (\<not> c \<Longrightarrow> safe_at b m') \<Longrightarrow> safe_at b (if c then m else m')"
  by simp

lemma safe_at_option [safe_intros]:
  "(x = None \<Longrightarrow> safe_at b m) \<Longrightarrow> (\<And>a. x = Some a \<Longrightarrow> safe_at b (f a)) \<Longrightarrow>
     safe_at b (case x of None \<Rightarrow> m | Some a \<Rightarrow> f a)"
  by (cases x) simp_all

lemma safe_at_sum [safe_intros]:
  "(\<And>e. x = Inl e \<Longrightarrow> safe_at b (g e)) \<Longrightarrow> (\<And>a. x = Inr a \<Longrightarrow> safe_at b (f a)) \<Longrightarrow>
     safe_at b (case x of Inl e \<Rightarrow> g e | Inr a \<Rightarrow> f a)"
  by (cases x) simp_all

lemma safe_at_prod [safe_intros]:
  "(\<And>a c. x = (a, c) \<Longrightarrow> safe_at b (f a c)) \<Longrightarrow> safe_at b (case x of (a, c) \<Rightarrow> f a c)"
  by (cases x) simp

lemma safe_at_let [safe_intros]: "safe_at b (f x) \<Longrightarrow> safe_at b (let y = x in f y)"
  by simp

lemma safe_at_for_each [safe_intros]:
  "(\<And>x. x \<in> set xs \<Longrightarrow> safe_at b (f x)) \<Longrightarrow> safe_at b (for_each f xs)"
  by (induction xs) (simp_all add: safe_at_ret safe_at_andthen)

lemma safe_at_map_act [safe_intros]:
  "(\<And>x. x \<in> set xs \<Longrightarrow> safe_at b (f x)) \<Longrightarrow> safe_at b (map_act f xs)"
  by (induction xs) (simp_all add: safe_at_ret safe_at_andthen)

lemma safe_with_conn [safe_intros]:
  assumes "safe_at True m"
  shows "safe (with_conn m)"
proof (rule safe_atI)
  fix w :: world
  assume un: "w_locked w = False"
  obtain r w' where m: "m (w\<lparr>w_locked := True\<rparr>) = (r, w')" by (cases "m (w\<lparr>w_locked := True\<rparr>)")
  have "returns r \<and> w_locked w' = True" using safe_atD [OF assms _ m] by simp
  then show "returns (fst (with_conn m w)) \<and> w_locked (snd (with_conn m w)) = False"
    using un m by (cases r) (auto simp: run_simps)
qed

lemma safe_returns: "safe m \<Longrightarrow> \<not> w_locked w \<Longrightarrow> returns (fst (m w)) \<and> \<not> w_locked (snd (m w))"
  by (simp add: safe_at_def)

text \<open>Once the mutex is held by a blocked thread, every later use of the connection blocks.\<close>

lemma with_conn_blocked: "w_locked w \<Longrightarrow> with_conn m w = (Deadlock, w)"
  by (rule with_conn_locked)

end
