(* ===== verification/Demo.thy ===== *)
theory Demo
  imports World
begin

text \<open>
  A concrete environment, on which the witnesses run the model: the cipher prepends its key, the
  digest is a constant, the clock advances by a second per reading, UUIDs and replies are
  numbered. It obeys the laws the properties assume of the real crates.
\<close>

definition demo_text :: "string \<Rightarrow> string" where
  "demo_text s = concat (map (\<lambda>c. [CHR ''x'', c]) s) @ ''y''"

fun demo_untexts :: "string \<Rightarrow> string \<Rightarrow> string list option" where
  "demo_untexts acc [] = (if acc = [] then Some [] else None)"
| "demo_untexts acc (c # cs) =
     (if c = CHR ''y'' then map_option (\<lambda>ts. rev acc # ts) (demo_untexts [] cs)
      else case cs of [] \<Rightarrow> None | x # rest \<Rightarrow> demo_untexts (x # acc) rest)"

fun demo_fields :: "(string \<times> json) list \<Rightarrow> string" where
  "demo_fields [] = []"
| "demo_fields ((k, JStr v) # rest) = demo_text k @ demo_text v @ demo_fields rest"
| "demo_fields (_ # rest) = demo_fields rest"

fun demo_items :: "json list \<Rightarrow> string" where
  "demo_items [] = []"
| "demo_items (JStr v # rest) = demo_text v @ demo_items rest"
| "demo_items (_ # rest) = demo_items rest"

fun demo_print :: "json \<Rightarrow> string" where
  "demo_print (JObj kvs) = CHR ''N'' # demo_fields kvs"
| "demo_print (JArr vs) = CHR ''A'' # demo_items vs"
| "demo_print _ = ''null''"

fun demo_pairs :: "string list \<Rightarrow> (string \<times> json) list" where
  "demo_pairs (k # v # rest) = (k, JStr v) # demo_pairs rest"
| "demo_pairs _ = []"

definition demo_parse :: "string \<Rightarrow> json option" where
  "demo_parse s =
     (if s = ''{}'' then Some (JObj [])
      else if s = ''[]'' then Some (JArr [])
      else if s = ''null'' then Some JNull
      else case s of
        c # cs \<Rightarrow>
          (if c = CHR ''N'' then map_option (\<lambda>ts. json_obj (demo_pairs ts)) (demo_untexts [] cs)
           else if c = CHR ''A'' then map_option (\<lambda>ts. JArr (map JStr ts)) (demo_untexts [] cs)
           else None)
      | [] \<Rightarrow> None)"

definition demo_env :: env where
  "demo_env = \<lparr>E_sha256 = (\<lambda>s. replicate 32 (CHR ''h'')), E_b64_encode = (\<lambda>s. s),
     E_b64_decode = Some, E_seal = (\<lambda>key nonce text. Some (key @ text)),
     E_open = (\<lambda>key nonce ct. strip_prefix ct key), E_json_parse = demo_parse,
     E_json_print = demo_print, E_json_pretty = demo_print, E_lower = to_ascii_lowercase,
     E_alnum = (\<lambda>_. False), E_time = (\<lambda>n. int (min n 100000) * 1000000000), E_rfc3339 = (\<lambda>t. dec (nat t)),
     E_parse_time = (\<lambda>_. None),
     E_debug_due = (\<lambda>d. case d of None \<Rightarrow> ''None'' | Some t \<Rightarrow> dec (nat t)), E_uuid = dec,
     E_random = (\<lambda>n k. replicate k (CHR ''r'')),
     E_generate = (\<lambda>name n prompt. Inr (''reply '' @ dec n)),
     E_sandbox = (\<lambda>n c. Inr \<lparr>sbo_success = True, sbo_exit_code = 0, sbo_stdout = ''out'',
        sbo_stderr = [], sbo_logs = []\<rparr>),
     E_x25519_public = (\<lambda>s. s), E_x25519_shared = (\<lambda>a b. a),
     E_ed25519_key_ok = (\<lambda>_. True), E_ed25519_verify = (\<lambda>key payload sig. True),
     E_tar_zst = (\<lambda>_. Some []), E_untar_zst = (\<lambda>_. Some []), E_yaml_parse = demo_parse,
     E_os = ''linux'', E_arch = ''x86_64'', E_cwd = Some ''/work''\<rparr>"

lemma demo_env_fields [simp]:
  "E_b64_encode demo_env s = s" "E_b64_decode demo_env s = Some s"
  "E_seal demo_env key nonce text = Some (key @ text)"
  "E_open demo_env key nonce ct = strip_prefix ct key"
  "E_json_parse demo_env = demo_parse" "E_json_print demo_env = demo_print"
  "E_time demo_env n = int (min n 100000) * 1000000000" "E_uuid demo_env n = dec n"
  "E_random demo_env n k = replicate k (CHR ''r'')" "E_alnum demo_env c = False"
  "E_generate demo_env name n prompt = Inr (''reply '' @ dec n)" "E_os demo_env = ''linux''"
  "E_sha256 demo_env s = replicate 32 (CHR ''h'')"
  by (simp_all add: demo_env_def)

lemma demo_untexts_text: "demo_untexts acc (demo_text s @ rest) = map_option (\<lambda>ts. (rev acc @ s) # ts) (demo_untexts [] rest)"
  by (induction s arbitrary: acc) (simp_all add: demo_text_def)

lemma demo_untexts_fields:
  "demo_untexts [] (demo_fields (map (\<lambda>(k, v). (k, JStr v)) kvs)) = Some (concat (map (\<lambda>(k, v). [k, v]) kvs))"
  by (induction kvs) (auto simp: demo_untexts_text)

lemma demo_pairs_concat:
  "demo_pairs (concat (map (\<lambda>(k, v). [k, v]) kvs)) = map (\<lambda>(k, v). (k, JStr v)) kvs"
  by (induction kvs) auto

lemma demo_parse_object:
  "demo_parse (demo_print (JObj (map (\<lambda>(k, v). (k, JStr v)) kvs))) = Some (json_obj (map (\<lambda>(k, v). (k, JStr v)) kvs))"
  by (simp add: demo_parse_def demo_untexts_fields demo_pairs_concat)

lemma demo_untexts_items: "demo_untexts [] (demo_items (map JStr vs)) = Some vs"
  by (induction vs) (auto simp: demo_untexts_text)

lemma demo_parse_array: "demo_parse (demo_print (JArr (map JStr vs))) = Some (JArr (map JStr vs))"
  by (simp add: demo_parse_def demo_untexts_items)

text \<open>The fields of the first world and of the empty store.\<close>

lemma boot_world_fields [simp]:
  "w_db boot_world = empty_store" "w_locked boot_world = False" "w_ticks boot_world = 0"
  "w_uuids boot_world = 0" "w_draws boot_world = 0" "w_calls boot_world = []"
  "w_runs boot_world = []" "w_files boot_world = (\<lambda>_. None)" "w_dirs boot_world = []"
  by (simp_all add: boot_world_def)

lemma empty_store_fields [simp]:
  "t_messages empty_store = []" "t_jobs empty_store = []" "t_prompt_cache empty_store = []"
  "t_prefix_cache empty_store = []" "t_vector_memory empty_store = []"
  "t_audit_events empty_store = []" "t_queue_tasks empty_store = []"
  "t_protocol_runs empty_store = []" "t_sessions empty_store = []"
  "t_session_messages empty_store = []" "t_pairings empty_store = []" "t_entities empty_store = []"
  "t_facts empty_store = []" "t_relations empty_store = []" "t_tasks empty_store = []"
  "t_ingest_log empty_store = []"
  by (simp_all add: empty_store_def)

end
