(* ===== verification/Text.thy ===== *)
theory Text
  imports Demo "HOL-Library.Product_Lexorder"
begin

text \<open>
  The text functions of \<open>core/crates/engine/src/lib.rs\<close>: digests, token fingerprints and
  their similarity, truncation, the heuristics that read tasks, artifacts and environments out of
  a message, scope matching and link lists. The lemmas give the bounds of truncation, the laws of
  fingerprints, and that no slice of a valid string panics.
\<close>

named_theorems text_defs \<open>definitions of the text functions\<close>

section \<open>Digests, fingerprints, similarity\<close>

definition prompt_hash :: "env \<Rightarrow> string \<Rightarrow> string" where
  "prompt_hash E prompt = hex (E_sha256 E prompt)"

definition is_alphanumeric :: "env \<Rightarrow> string \<Rightarrow> bool" where
  "is_alphanumeric E c \<longleftrightarrow>
     (case map byte c of
        [a] \<Rightarrow> (48 \<le> a \<and> a \<le> 57) \<or> (65 \<le> a \<and> a \<le> 90) \<or> (97 \<le> a \<and> a \<le> 122)
      | _ \<Rightarrow> E_alnum E c)"

definition tokens :: "env \<Rightarrow> string \<Rightarrow> string list" where
  "tokens E content =
     dedup_adjacent (sort (map (\<lambda>t. to_ascii_lowercase (concat t))
       (split_runs (\<lambda>c. \<not> is_alphanumeric E c) (chars content))))"

definition fingerprint :: "env \<Rightarrow> string \<Rightarrow> string" where
  "fingerprint E content = join '' '' (tokens E content)"

definition similarity :: "string \<Rightarrow> string \<Rightarrow> f64" where
  "similarity left right =
     (let left_tokens = split_whitespace left; right_tokens = split_whitespace right in
      if left_tokens = [] \<or> right_tokens = [] then 0
      else
        let intersection = length (filter (\<lambda>t. List.member right_tokens t) left_tokens);
            union = length left_tokens + length right_tokens - intersection
        in of_nat intersection / of_nat union)"

section \<open>Truncation and defaults\<close>

definition truncate_with_ellipsis :: "string \<Rightarrow> nat \<Rightarrow> string" where
  "truncate_with_ellipsis value max_chars =
     (if chars_count value \<le> max_chars then value
      else concat (take (max_chars - 3) (chars value)) @ ''...'')"

definition non_empty_or_default :: "string \<Rightarrow> string \<Rightarrow> string" where
  "non_empty_or_default value fallback =
     (if trim value = [] then trim fallback else trim value)"

definition preferred_title :: "string \<Rightarrow> string \<Rightarrow> string" where
  "preferred_title primary fallback =
     truncate_with_ellipsis (non_empty_or_default primary fallback) 80"

definition default_source_ref :: "env \<Rightarrow> string \<Rightarrow> string \<Rightarrow> string \<Rightarrow> string" where
  "default_source_ref E source_ref seed pfx =
     (if source_ref = [] then pfx @ '':'' @ prompt_hash E seed else source_ref)"

definition empty_to_default :: "string \<Rightarrow> string \<Rightarrow> string" where
  "empty_to_default value dflt = (if value = [] then dflt else value)"

section \<open>Validation of kinds and states\<close>

definition entity_kinds :: "string list" where
  "entity_kinds = [''person'', ''environment'', ''artifact'', ''task'']"

definition environment_subtypes :: "string list" where
  "environment_subtypes = [''runtime'', ''workspace'', ''deployment'', ''project'', ''team'', ''place'']"

definition task_statuses :: "string list" where
  "task_statuses = [''open'', ''in_progress'', ''blocked'', ''done'', ''cancelled'']"

definition relation_kinds :: "string list" where
  "relation_kinds = [''knows'', ''owns'', ''belongs_to'', ''runs_in'', ''about'', ''assigned_to'',
     ''depends_on'', ''blocked_by'', ''mentioned_with'']"

definition validate_entity_kind :: "string \<Rightarrow> unit res" where
  "validate_entity_kind kind =
     (if List.member entity_kinds kind then Ok ()
      else Err (Msg (''unsupported brain entity kind '' @ kind)))"

definition validate_environment_subtype :: "string \<Rightarrow> unit res" where
  "validate_environment_subtype subtype =
     (if List.member environment_subtypes subtype then Ok ()
      else Err (Msg (''unsupported brain environment subtype '' @ subtype)))"

definition validate_task_status :: "string \<Rightarrow> unit res" where
  "validate_task_status status =
     (if List.member task_statuses status then Ok ()
      else Err (Msg (''unsupported brain task status '' @ status)))"

definition validate_relation_kind :: "string \<Rightarrow> unit res" where
  "validate_relation_kind kind =
     (if List.member relation_kinds kind then Ok ()
      else Err (Msg (''unsupported brain relation kind '' @ kind)))"

definition normalize_forget_target_kind :: "string \<Rightarrow> string" where
  "normalize_forget_target_kind kind =
     (if List.member [''person'', ''environment'', ''artifact''] kind then ''entity''
      else if kind = [] then ''entity''
      else kind)"

definition is_open_status :: "string \<Rightarrow> bool" where
  "is_open_status s \<longleftrightarrow> List.member [''open'', ''in_progress'', ''blocked''] s"

section \<open>Projections and summaries\<close>

definition entity_projection :: "brain_entity_record \<Rightarrow> string" where
  "entity_projection r = be_kind r @ '' '' @ be_subtype r @ '' '' @ be_title r @ '' '' @
     be_content r @ '' '' @ be_scope_json r"

definition fact_projection :: "brain_fact_record \<Rightarrow> string" where
  "fact_projection r = bfa_content r @ '' '' @ bfa_scope_json r"

definition task_projection :: "env \<Rightarrow> brain_task_record \<Rightarrow> string" where
  "task_projection E r = tk_title r @ '' '' @ tk_summary r @ '' '' @ tk_status r @ '' '' @
     tk_priority r @ '' '' @ E_debug_due E (tk_due_at r)"

definition build_recall_summary ::
    "brain_entity_record list \<Rightarrow> brain_fact_record list \<Rightarrow> brain_task_record list \<Rightarrow> string" where
  "build_recall_summary entities facts tasks =
     (let parts = (if entities \<noteq> [] then [dec (length entities) @ '' entities''] else []) @
          (if facts \<noteq> [] then [dec (length facts) @ '' facts''] else []) @
          (if tasks \<noteq> [] then [dec (length tasks) @ '' tasks''] else [])
      in if parts = [] then ''no relevant brain context found''
         else ''matched '' @ join '', '' parts)"

section \<open>Scopes and links\<close>

definition json_or_null :: "env \<Rightarrow> string \<Rightarrow> json" where
  "json_or_null E raw = (case E_json_parse E raw of None \<Rightarrow> JNull | Some v \<Rightarrow> v)"

definition scope_matches :: "env \<Rightarrow> string \<Rightarrow> string \<Rightarrow> bool" where
  "scope_matches E record_scope_json query_scope_json =
     (if trim query_scope_json = [] \<or> trim query_scope_json = ''{}'' then True
      else
        (case (json_as_object (json_or_null E query_scope_json),
               json_as_object (json_or_null E record_scope_json)) of
           (Some query_object, Some record_object) \<Rightarrow>
             list_all (\<lambda>(key, value). bt_get record_object key = Some value) query_object
         | _ \<Rightarrow> False))"

definition parse_link_ids :: "env \<Rightarrow> string \<Rightarrow> string list" where
  "parse_link_ids E links_json =
     (case json_or_null E links_json of
        JArr items \<Rightarrow> List.map_filter (\<lambda>item. case item of
            JStr value \<Rightarrow> Some value
          | JObj object \<Rightarrow> Option.bind (bt_get object ''id'') json_as_str
          | _ \<Rightarrow> None) items
      | JObj object \<Rightarrow> concat (map (\<lambda>(_, value). case value of
            JArr items \<Rightarrow> List.map_filter json_as_str items
          | JStr value \<Rightarrow> [value]
          | _ \<Rightarrow> []) object)
      | _ \<Rightarrow> [])"

section \<open>Reading a message\<close>

definition in_ascii_set :: "string \<Rightarrow> string \<Rightarrow> bool" where
  "in_ascii_set chars_set c \<longleftrightarrow> list_ex (\<lambda>x. c = [x]) chars_set"

definition artifact_trim_set :: string where
  "artifact_trim_set = '',.;:()[]{}<>'' @ [CHR 0x22, CHR 0x27]"

definition is_artifact :: "string \<Rightarrow> bool" where
  "is_artifact token \<longleftrightarrow>
     starts_with token ''http://'' \<or> starts_with token ''https://'' \<or> contains token ''/'' \<or>
     list_ex (\<lambda>suf. ends_with token suf)
       [''.rs'', ''.md'', ''.json'', ''.yaml'', ''.yml'', ''.toml'', ''.go'', ''.ts'', ''.js'', ''.proto'']"

definition extract_artifacts :: "string \<Rightarrow> string list" where
  "extract_artifacts content =
     dedup_adjacent (sort (filter is_artifact
       (map (trim_matches (in_ascii_set artifact_trim_set)) (split_whitespace content))))"

definition environment_needles :: "(string \<times> string \<times> string) list" where
  "environment_needles =
    [('' production '', ''deployment'', ''production''),
     ('' prod '', ''deployment'', ''prod''),
     ('' staging '', ''deployment'', ''staging''),
     ('' stage '', ''deployment'', ''stage''),
     ('' development '', ''deployment'', ''development''),
     ('' dev '', ''deployment'', ''dev''),
     ('' remote '', ''place'', ''remote''),
     ('' office '', ''place'', ''office''),
     ('' home '', ''place'', ''home'')]"

definition environment_after :: "string \<Rightarrow> string \<Rightarrow> (string \<times> string) list res" where
  "environment_after content pfx =
     (case find_str (to_ascii_lowercase content) pfx of
        None \<Rightarrow> Ok []
      | Some index \<Rightarrow>
          bind_res (slice_from content (index + length pfx)) (\<lambda>rest.
            let remainder = join '' '' (take 3 (split_whitespace rest)) in
            Ok (if remainder = [] then []
                else [(if trim pfx = ''project'' then ''project'' else ''team'', remainder)])))"

definition extract_environment_mentions :: "string \<Rightarrow> (string \<times> string) list res" where
  "extract_environment_mentions content =
     (let lower = to_ascii_lowercase content;
          needles = List.map_filter (\<lambda>(needle, subtype, title).
            if contains lower needle then Some (subtype, title) else None) environment_needles
      in bind_res (traverse_res (environment_after content) [''project '', ''team '']) (\<lambda>found.
           Ok (dedup_adjacent (sort (needles @ concat found)))))"

definition extract_after_case_insensitive :: "string \<Rightarrow> string \<Rightarrow> string option res" where
  "extract_after_case_insensitive content marker =
     (case find_str (to_ascii_lowercase content) (to_ascii_lowercase marker) of
        None \<Rightarrow> Ok None
      | Some index \<Rightarrow>
          bind_res (slice_from content (index + length marker)) (\<lambda>rest.
            let value = trim_matches (in_ascii_set ''.:'') (trim rest) in
            Ok (if value = [] then None else Some value)))"

text \<open>The loop over the markers stops at the first that yields a value.\<close>

fun first_after :: "string \<Rightarrow> string list \<Rightarrow> string option res" where
  "first_after content [] = Ok None"
| "first_after content (marker # markers) =
     bind_res (extract_after_case_insensitive content marker) (\<lambda>found.
       case found of Some value \<Rightarrow> Ok (Some value) | None \<Rightarrow> first_after content markers)"

definition task_markers :: "string list" where
  "task_markers = [''remind me to '', ''remember to '', ''need to '', ''needs to '', ''please '',
     ''todo: '', ''todo '', ''must '']"

definition task_verbs :: "string list" where
  "task_verbs = [''implement'', ''create'', ''fix'', ''update'', ''build'', ''memorize'']"

definition commitment_markers :: "string list" where
  "commitment_markers = [''i will '', ''i'' @ [CHR 0x27] @ ''ll '', ''next step is to '', ''i can '']"

definition extract_task_summary :: "string \<Rightarrow> string option res" where
  "extract_task_summary content =
     bind_res (first_after content task_markers) (\<lambda>found.
       case found of
         Some value \<Rightarrow> Ok (Some (truncate_with_ellipsis value 180))
       | None \<Rightarrow>
           let trimmed = trim content in
           Ok (if \<not> ends_with trimmed ''?'' \<and>
                 list_ex (\<lambda>verb. contains (to_ascii_lowercase trimmed) verb) task_verbs
               then Some (truncate_with_ellipsis trimmed 180) else None))"

definition extract_assistant_commitment :: "string \<Rightarrow> string option res" where
  "extract_assistant_commitment content =
     bind_res (first_after content commitment_markers) (\<lambda>found.
       Ok (map_option (\<lambda>value. truncate_with_ellipsis value 180) found))"

section \<open>Due dates, priorities, suggestions\<close>

definition ns_per_hour :: int where
  "ns_per_hour = 3600000000000"

definition parse_due_at :: "env \<Rightarrow> string \<Rightarrow> instant option io" where
  "parse_due_at E content =
     (let lower = to_ascii_lowercase content in
      if contains lower ''tomorrow'' then
        andthen (utc_now E) (\<lambda>now. ret (Some (now + 24 * ns_per_hour)))
      else if contains lower ''today'' then
        andthen (utc_now E) (\<lambda>now. ret (Some (now + 12 * ns_per_hour)))
      else if contains lower ''next week'' then
        andthen (utc_now E) (\<lambda>now. ret (Some (now + 7 * 24 * ns_per_hour)))
      else ret None)"

definition task_priority_from_text :: "string \<Rightarrow> string" where
  "task_priority_from_text content =
     (let lower = to_ascii_lowercase content in
      if contains lower ''urgent'' \<or> contains lower ''asap'' then ''urgent''
      else if contains lower ''high priority'' \<or> contains lower ''important'' then ''high''
      else if contains lower ''low priority'' then ''low''
      else ''normal'')"

definition priority_weight :: "string \<Rightarrow> f64" where
  "priority_weight priority =
     (if priority = ''urgent'' then 1
      else if priority = ''high'' then 8 / 10
      else if priority = ''low'' then 25 / 100
      else 5 / 10)"

definition suggestion_reason :: "brain_task_record \<Rightarrow> bool \<Rightarrow> f64 \<Rightarrow> f64 \<Rightarrow> string" where
  "suggestion_reason task stale due_bonus blocked_bonus =
     (if 0 < blocked_bonus then ''task is blocked and needs attention''
      else if 35 / 100 \<le> due_bonus then ''task is overdue''
      else if 0 < due_bonus then ''task is due soon''
      else if stale then ''task has gone stale''
      else tk_priority task @ '' priority task'')"

section \<open>Session types, routes\<close>

definition infer_session_type :: "env \<Rightarrow> message_envelope \<Rightarrow> string" where
  "infer_session_type E message =
     (case Option.bind (E_json_parse E (me_metadata_json message)) (\<lambda>metadata.
             case json_get_str metadata ''channel_type'' of
               Some t \<Rightarrow> Some t
             | None \<Rightarrow> json_get_str metadata ''chat_type'') of
        Some channel_type \<Rightarrow>
          (if List.member [''group'', ''supergroup'', ''channel'', ''room''] channel_type
           then ''group'' else ''direct'')
      | None \<Rightarrow>
          (if me_connector message = ''desktop'' then ''direct''
           else if me_channel_id message = me_sender message then ''direct''
           else ''group''))"

definition reverse_provider_order :: "string list \<Rightarrow> string list" where
  "reverse_provider_order order = rev order"

section \<open>Truncation\<close>

lemma ellipsis_clean: "starts_clean ''...''"
  by (simp add: starts_clean_def is_cont_def byte_def)

lemma chars_ellipsis: "chars ''...'' = [''.'', ''.'', ''.'']"
  by (simp add: is_cont_def byte_def)

lemma truncate_long:
  assumes "n < chars_count s"
  shows "chars (truncate_with_ellipsis s n) = take (n - 3) (chars s) @ [''.'', ''.'', ''.'']"
proof -
  have "chars (concat (take (n - 3) (chars s)) @ ''...'') =
      take (n - 3) (chars s) @ chars ''...''"
    using chars_append_clean [OF ellipsis_clean] chars_concat_take by metis
  with assms chars_ellipsis show ?thesis by (simp add: truncate_with_ellipsis_def)
qed

lemma truncate_short: "chars_count s \<le> n \<Longrightarrow> truncate_with_ellipsis s n = s"
  by (simp add: truncate_with_ellipsis_def)

lemma truncate_count:
  "chars_count (truncate_with_ellipsis s n) = (if chars_count s \<le> n then chars_count s else max n 3)"
proof (cases "chars_count s \<le> n")
  case True
  then show ?thesis by (simp add: truncate_short)
next
  case False
  then show ?thesis
    using truncate_long [of n s] by (simp add: chars_count_def)
qed

section \<open>Valid strings never panic a slice\<close>

text \<open>Every Rust \<open>str\<close> satisfies this, by the invariant of the type.\<close>

definition valid_str :: "string \<Rightarrow> bool" where
  "valid_str s \<longleftrightarrow> utf8_valid (map byte s)"

lemma valid_starts_clean: "valid_str s \<Longrightarrow> starts_clean s"
  by (cases s) (auto simp: valid_str_def starts_clean_def is_cont_def split: if_splits)

lemma valid_well_formed: "valid_str s \<Longrightarrow> well_formed s"
proof (induction s rule: length_induct)
  case (1 s)
  have IH: "\<And>t. length t < length s \<Longrightarrow> valid_str t \<Longrightarrow> well_formed t \<and> dropWhile is_cont t = t \<and> starts_clean t"
    using "1.IH" by (simp add: valid_starts_clean)
  show ?case
  proof (cases s)
    case Nil
    then show ?thesis by (simp add: well_formed_def)
  next
    case (Cons b bs)
    note clean = valid_starts_clean [OF "1.prems"]
    show ?thesis
    proof (cases "byte b < 128")
      case True
      with "1.prems" Cons have "valid_str bs" by (simp add: valid_str_def)
      with IH [of bs] Cons clean show ?thesis
        by (simp add: well_formed_Cons starts_clean_def)
    next
      case False
      with "1.prems" Cons
      consider (two) c r where "bs = [c] @ r" "is_cont c" "valid_str r"
        | (three) c d r where "bs = [c, d] @ r" "is_cont c" "is_cont d" "valid_str r"
        | (four) c d e r where "bs = [c, d, e] @ r" "is_cont c" "is_cont d" "is_cont e" "valid_str r"
        by (cases bs; cases "tl bs"; cases "tl (tl bs)")
           (auto simp: valid_str_def is_cont_def split: if_splits)
      then obtain pre rest where "bs = pre @ rest" "\<forall>c\<in>set pre. is_cont c" "valid_str rest"
        by cases (metis empty_iff empty_set set_ConsD)+
      with IH [of rest] Cons clean False show ?thesis
        by (simp add: well_formed_Cons starts_clean_def dropWhile_append2)
    qed
  qed
qed


lemma marker_end_boundary:
  assumes "valid_str s" and "find_str (to_ascii_lowercase s) m = Some i"
    and "m \<noteq> []" and "byte (last m) < 128"
  shows "is_char_boundary s (i + length m)"
proof -
  let ?l = "to_ascii_lowercase s" and ?j = "i + (length m - 1)"
  have wf: "well_formed ?l" using assms(1) by (simp add: valid_well_formed well_formed_map_lower)
  have "prefix m (drop i ?l)" and i: "i \<le> length ?l"
    using find_str_Some [OF assms(2)] by simp_all
  then obtain t where t: "drop i ?l = m @ t" by (auto simp: prefix_def)
  have len: "length ?l = i + length m + length t"
    using arg_cong [OF t, of length] i by simp
  have "?l ! ?j = drop i ?l ! (length m - 1)"
    using i by (simp add: nth_drop del: length_to_ascii_lowercase)
  also have "\<dots> = last m" using t assms(3) by (simp add: nth_append last_conv_nth)
  finally have "byte (?l ! ?j) < 128" using assms(4) by simp
  moreover have "?j < length ?l" using len assms(3) by (cases m) (simp_all del: length_to_ascii_lowercase)
  ultimately have "is_char_boundary ?l (Suc ?j)" using well_formed_ascii_next [OF wf] by blast
  moreover have "Suc (i + (length m - 1)) = i + length m" using assms(3) by (cases m) simp_all
  ultimately show ?thesis by (metis is_char_boundary_lower)
qed

lemma slice_from_returns: "is_char_boundary s i \<Longrightarrow> slice_from s i = Ok (drop i s)"
  by (simp add: slice_from_def)

definition ascii_marker :: "string \<Rightarrow> bool" where
  "ascii_marker m \<longleftrightarrow> m \<noteq> [] \<and> byte (last m) < 128 \<and> to_ascii_lowercase m = m"

lemma extract_after_returns:
  assumes "valid_str s" and "ascii_marker m"
  shows "\<exists>v. extract_after_case_insensitive s m = Ok v"
  using marker_end_boundary [OF assms(1)] assms(2)
  by (auto simp: extract_after_case_insensitive_def ascii_marker_def slice_from_returns Let_def
      split: option.splits)

lemma first_after_returns:
  assumes "valid_str s" and "\<forall>m\<in>set ms. ascii_marker m"
  shows "\<exists>v. first_after s ms = Ok v"
  using assms(2)
proof (induction ms)
  case Nil
  then show ?case by simp
next
  case (Cons m ms)
  obtain v where "extract_after_case_insensitive s m = Ok v"
    using extract_after_returns [OF assms(1)] Cons.prems by auto
  with Cons show ?case by (cases v) auto
qed

lemma task_markers_ascii: "\<forall>m\<in>set task_markers. ascii_marker m"
  by (simp add: task_markers_def ascii_marker_def to_ascii_lowercase_def ascii_lower_def byte_def)

lemma commitment_markers_ascii: "\<forall>m\<in>set commitment_markers. ascii_marker m"
  by (simp add: commitment_markers_def ascii_marker_def to_ascii_lowercase_def ascii_lower_def byte_def)

lemma extract_task_summary_returns:
  assumes "valid_str s"
  shows "\<exists>v. extract_task_summary s = Ok v"
proof -
  obtain v where "first_after s task_markers = Ok v"
    using first_after_returns [OF assms task_markers_ascii] by blast
  then show ?thesis by (cases v) (simp_all add: extract_task_summary_def Let_def)
qed

lemma extract_commitment_returns: "valid_str s \<Longrightarrow> \<exists>v. extract_assistant_commitment s = Ok v"
  using first_after_returns [OF _ commitment_markers_ascii, of s]
  by (auto simp: extract_assistant_commitment_def)

lemma environment_after_returns:
  "valid_str s \<Longrightarrow> p \<noteq> [] \<Longrightarrow> byte (last p) < 128 \<Longrightarrow> \<exists>v. environment_after s p = Ok v"
  using marker_end_boundary [of s p]
  by (auto simp: environment_after_def slice_from_returns Let_def split: option.splits)

lemma extract_environment_returns: "valid_str s \<Longrightarrow> \<exists>v. extract_environment_mentions s = Ok v"
proof -
  assume s: "valid_str s"
  have "\<exists>v. environment_after s ''project '' = Ok v" "\<exists>v. environment_after s ''team '' = Ok v"
    by (rule environment_after_returns [OF s]; simp add: byte_def)+
  then show ?thesis by (auto simp: extract_environment_mentions_def Let_def)
qed

lemma extract_task_summary_bound:
  assumes "extract_task_summary s = Ok (Some v)"
  shows "chars_count v \<le> 180"
  using assms by (auto simp: extract_task_summary_def Let_def truncate_count split: option.splits if_splits)

section \<open>Fingerprints\<close>

text \<open>One code point as \<open>chars\<close> yields it.\<close>

definition uchar :: "string \<Rightarrow> bool" where
  "uchar c \<longleftrightarrow> (case c of [] \<Rightarrow> False
     | b # r \<Rightarrow> \<not> is_cont b \<and> (byte b < 128 \<longrightarrow> r = []) \<and> (\<forall>x\<in>set r. is_cont x))"

lemma chars_uchar: "well_formed s \<Longrightarrow> c \<in> set (chars s) \<Longrightarrow> uchar c"
proof (induction s rule: chars.induct)
  case 1
  then show ?case by simp
next
  case (2 b bs)
  have "takeWhile is_cont bs = []" if "starts_clean bs" using that by simp
  with 2 show ?case
    by (auto simp: well_formed_Cons uchar_def dest: set_takeWhileD)
qed

lemma uchars_concat: "\<forall>c\<in>set cs. uchar c \<Longrightarrow> chars (concat cs) = cs \<and> well_formed (concat cs)"
proof (induction cs)
  case Nil
  then show ?case by (simp add: well_formed_def)
next
  case (Cons c cs)
  then have IH: "chars (concat cs) = cs" "well_formed (concat cs)" by simp_all
  from Cons.prems obtain b r where c: "c = b # r" and b: "\<not> is_cont b" "byte b < 128 \<longrightarrow> r = []"
    and r: "\<forall>x\<in>set r. is_cont x"
    by (auto simp: uchar_def split: list.splits)
  have "starts_clean (concat cs)" using IH(2) by (rule well_formed_starts_clean)
  then have "takeWhile is_cont (r @ concat cs) = r" "dropWhile is_cont (r @ concat cs) = concat cs"
    using r by (simp_all add: takeWhile_append2 dropWhile_append2)
  then show ?case using c b IH by (auto simp: well_formed_def)
qed

lemma lower_alphanumeric:
  assumes "uchar c" and "is_alphanumeric E c"
  shows "is_alphanumeric E (map ascii_lower c)"
proof (cases "\<exists>a. c = [a]")
  case True
  with assms show ?thesis by (auto simp: is_alphanumeric_def byte_ascii_lower)
next
  case False
  with assms(1) have "\<forall>x\<in>set c. 128 \<le> byte x"
    by (auto simp: uchar_def is_cont_def split: list.splits)
  then have "map ascii_lower c = c"
    by (intro map_idI) (auto simp: ascii_lower_def)
  with assms show ?thesis by simp
qed

definition good_token :: "env \<Rightarrow> string \<Rightarrow> bool" where
  "good_token E t \<longleftrightarrow> t \<noteq> [] \<and> well_formed t \<and> (\<forall>c\<in>set (chars t). is_alphanumeric E c) \<and>
     to_ascii_lowercase t = t"

lemma tokens_good:
  assumes "well_formed s" and "t \<in> set (tokens E s)"
  shows "good_token E t"
proof -
  obtain r where r: "r \<in> set (split_runs (\<lambda>c. \<not> is_alphanumeric E c) (chars s))"
    and t: "t = to_ascii_lowercase (concat r)"
    using assms(2) by (auto simp: tokens_def)
  from split_runs_elems [OF r] have ne: "r \<noteq> []"
    and el: "\<forall>c\<in>set r. is_alphanumeric E c \<and> c \<in> set (chars s)" by auto
  then have u: "\<forall>c\<in>set r. uchar c" using chars_uchar [OF assms(1)] by blast
  have ch: "chars t = map (map ascii_lower) r"
    using uchars_concat [OF u] t chars_lower [of "concat r"] by (simp add: to_ascii_lowercase_def)
  moreover have "t \<noteq> []" using ch ne by (cases t) auto
  moreover have "well_formed t" using uchars_concat [OF u] t well_formed_map_lower by simp
  ultimately show ?thesis using el u t lower_alphanumeric by (auto simp: good_token_def)
qed

lemma tokens_sorted: "sorted (tokens E s) \<and> distinct (tokens E s)"
  unfolding tokens_def by (rule dedup_adjacent_eq_remdups) simp

lemma join_starts_clean: "\<forall>t\<in>set ts. t \<noteq> [] \<and> starts_clean t \<Longrightarrow> starts_clean (join sep ts)"
  by (induction sep ts rule: join.induct) (auto simp: starts_clean_def split: list.splits)

lemma split_join:
  assumes p: "p '' ''"
  shows "\<forall>t\<in>set ts. t \<noteq> [] \<and> starts_clean t \<and> (\<forall>c\<in>set (chars t). \<not> p c) \<Longrightarrow>
    split_runs p (chars (join '' '' ts)) = map chars ts"
proof (induction "'' ''" ts rule: join.induct)
  case 1
  then show ?case by simp
next
  case (2 x)
  then have "chars x \<noteq> []" by (cases x) auto
  with 2 show ?case by (simp add: split_runs_single)
next
  case (3 x y xs)
  then have ne: "chars x \<noteq> []" by (cases x) auto
  let ?rest = "join '' '' (y # xs)"
  have clean: "starts_clean ?rest" using "3.prems" by (intro join_starts_clean) auto
  then have "chars ('' '' @ ?rest) = '' '' # chars ?rest" by simp
  moreover have "starts_clean ('' '' @ ?rest)" by (simp add: starts_clean_def is_cont_def byte_def)
  ultimately have "chars (x @ '' '' @ ?rest) = chars x @ '' '' # chars ?rest"
    using chars_append_clean by metis
  moreover have "split_runs p (chars x @ '' '' # chars ?rest) = chars x # split_runs p (chars ?rest)"
    using "3.prems" ne p by (intro split_runs_append) auto
  moreover have "split_runs p (chars ?rest) = map chars (y # xs)"
    using "3.prems" by (intro "3.hyps") auto
  ultimately show ?case by simp
qed

lemma space_not_alphanumeric: "\<not> is_alphanumeric E '' ''"
  by (simp add: is_alphanumeric_def byte_def)

lemma tokens_fingerprint:
  assumes "well_formed s"
  shows "tokens E (fingerprint E s) = tokens E s"
proof -
  have good: "\<forall>t\<in>set (tokens E s). good_token E t" using tokens_good [OF assms] by blast
  then have "split_runs (\<lambda>c. \<not> is_alphanumeric E c) (chars (fingerprint E s)) = map chars (tokens E s)"
    unfolding fingerprint_def
    by (intro split_join) (auto simp: space_not_alphanumeric good_token_def well_formed_starts_clean)
  moreover have "map (\<lambda>t. to_ascii_lowercase (concat (chars t))) (tokens E s) = tokens E s"
    using good by (intro map_idI) (simp add: good_token_def)
  ultimately have "tokens E (fingerprint E s) = dedup_adjacent (sort (tokens E s))"
    by (simp add: tokens_def [of E "fingerprint E s"] comp_def)
  then show ?thesis
    using tokens_sorted [of E s] by (simp add: sorted_sort_id dedup_adjacent_distinct)
qed

text \<open>Unicode: no white-space code point is alphanumeric.\<close>

definition alnum_law :: "env \<Rightarrow> bool" where
  "alnum_law E \<longleftrightarrow> (\<forall>c. is_whitespace c \<longrightarrow> \<not> E_alnum E c)"

lemma alphanumeric_whitespace: "is_alphanumeric E c \<Longrightarrow> is_whitespace c \<Longrightarrow> E_alnum E c"
  by (auto simp: is_alphanumeric_def is_whitespace_def split: list.splits)

lemma alphanumeric_not_whitespace: "alnum_law E \<Longrightarrow> is_alphanumeric E c \<Longrightarrow> \<not> is_whitespace c"
  using alphanumeric_whitespace by (auto simp: alnum_law_def)

lemma fingerprint_words:
  assumes "alnum_law E" and "well_formed s"
  shows "split_whitespace (fingerprint E s) = tokens E s"
proof -
  have "\<forall>t\<in>set (tokens E s). good_token E t" using tokens_good [OF assms(2)] by blast
  moreover have "is_whitespace '' ''" by (simp add: is_whitespace_def byte_def)
  ultimately have "split_runs is_whitespace (chars (fingerprint E s)) = map chars (tokens E s)"
    unfolding fingerprint_def using alphanumeric_not_whitespace [OF assms(1)]
    by (intro split_join) (auto simp: good_token_def well_formed_starts_clean)
  then show ?thesis by (simp add: split_whitespace_def comp_def)
qed

lemma jaccard_of_fingerprints:
  assumes "alnum_law E" and "well_formed s" and "well_formed t"
  shows "similarity (fingerprint E s) (fingerprint E t) =
    (let A = set (tokens E s); B = set (tokens E t) in
     if A = {} \<or> B = {} then 0 else of_nat (card (A \<inter> B)) / of_nat (card (A \<union> B)))"
proof -
  let ?A = "set (tokens E s)" and ?B = "set (tokens E t)"
  have d: "distinct (tokens E s)" "distinct (tokens E t)" using tokens_sorted by blast+
  have len: "length (tokens E s) = card ?A" "length (tokens E t) = card ?B"
    using d by (simp_all add: distinct_card)
  have "length (filter (\<lambda>x. List.member (tokens E t) x) (tokens E s)) =
      card (set (filter (\<lambda>x. List.member (tokens E t) x) (tokens E s)))"
    by (rule distinct_card [symmetric]) (simp add: d)
  also have "set (filter (\<lambda>x. List.member (tokens E t) x) (tokens E s)) = ?A \<inter> ?B"
    by auto
  finally have inter: "length (filter (\<lambda>x. List.member (tokens E t) x) (tokens E s)) = card (?A \<inter> ?B)" .
  have "card ?A + card ?B - card (?A \<inter> ?B) = card (?A \<union> ?B)"
    using card_Un_Int [of ?A ?B] by simp
  then show ?thesis
    unfolding similarity_def fingerprint_words [OF assms(1,2)] fingerprint_words [OF assms(1,3)]
      Let_def inter len by simp
qed

lemma jaccard_bounds:
  fixes A B :: "'a set"
  assumes "finite A" "finite B"
  shows "(0::f64) \<le> of_nat (card (A \<inter> B)) / of_nat (card (A \<union> B)) \<and>
    (of_nat (card (A \<inter> B)) / of_nat (card (A \<union> B)) :: f64) \<le> 1"
proof -
  have "card (A \<inter> B) \<le> card (A \<union> B)" using assms by (intro card_mono) auto
  then show ?thesis by (auto simp: divide_le_eq_1)
qed

lemma fingerprint_similarity_bounds:
  "alnum_law E \<Longrightarrow> well_formed s \<Longrightarrow> well_formed t \<Longrightarrow>
     0 \<le> similarity (fingerprint E s) (fingerprint E t) \<and>
     similarity (fingerprint E s) (fingerprint E t) \<le> 1"
  using jaccard_bounds [of "set (tokens E s)" "set (tokens E t)"]
  by (simp add: jaccard_of_fingerprints Let_def)

section \<open>Properties\<close>

text \<open>C35.
  The score of two texts is the Jaccard index of their sets of lower-cased words: the
  fingerprints' token lists are sorted and free of duplicates, so counting in them is counting in
  sets. It is symmetric, lies between 0 and 1, and re-fingerprinting changes nothing.
\<close>

theorem similarity_is_jaccard:
  assumes "alnum_law E" and "valid_str s" and "valid_str t"
  shows "(let A = set (tokens E s); B = set (tokens E t);
              score = similarity (fingerprint E s) (fingerprint E t) in
       score = (if A = {} \<or> B = {} then 0 else of_nat (card (A \<inter> B)) / of_nat (card (A \<union> B)))
       \<and> score = similarity (fingerprint E t) (fingerprint E s)
       \<and> 0 \<le> score \<and> score \<le> 1)
    \<and> fingerprint E (fingerprint E s) = fingerprint E s"
proof -
  have wf: "well_formed s" "well_formed t" using assms(2,3) by (simp_all add: valid_well_formed)
  have "fingerprint E (fingerprint E s) = fingerprint E s"
    unfolding fingerprint_def [of E "fingerprint E s"] tokens_fingerprint [OF wf(1)]
    by (simp add: fingerprint_def)
  moreover have "similarity (fingerprint E s) (fingerprint E t) = similarity (fingerprint E t) (fingerprint E s)"
    unfolding jaccard_of_fingerprints [OF assms(1) wf] jaccard_of_fingerprints [OF assms(1) wf(2,1)]
    by (simp add: Let_def Int_commute Un_commute conj_commute disj_commute)
  ultimately show ?thesis
    using fingerprint_similarity_bounds [OF assms(1) wf] jaccard_of_fingerprints [OF assms(1) wf]
    by (simp add: Let_def)
qed

theorem similarity_is_jaccard_witness:
  "0 \<le> similarity (fingerprint demo_env ''fix the build'') (fingerprint demo_env ''build it'')
     \<and> fingerprint demo_env (fingerprint demo_env ''fix the build'') = fingerprint demo_env ''fix the build''"
  using similarity_is_jaccard [of demo_env "''fix the build''" "''build it''"]
  by (simp add: alnum_law_def valid_str_def byte_def Let_def)

text \<open>C34.
  The text heuristics slice a message at byte offsets found in its lower-cased copy. On every
  valid UTF-8 text those offsets are character boundaries: the extractors never panic, and a task
  summary has at most 180 characters.
\<close>

theorem extractors_never_panic:
  assumes "valid_str s"
  shows "is_ok (extract_task_summary s) \<and> is_ok (extract_assistant_commitment s)
    \<and> is_ok (extract_environment_mentions s)
    \<and> (case extract_task_summary s of Ok (Some v) \<Rightarrow> chars_count v \<le> 180 | _ \<Rightarrow> True)"
  using extract_task_summary_returns [OF assms] extract_commitment_returns [OF assms]
    extract_environment_returns [OF assms] extract_task_summary_bound [of s]
  by (auto split: option.splits)

theorem extractors_never_panic_witness:
  "is_ok (extract_task_summary ''Remind me to ship the release'')"
  using extractors_never_panic [of "''Remind me to ship the release''"]
  by (simp add: valid_str_def byte_def)

text \<open>
  \<open>truncate_with_ellipsis\<close> cuts between characters, never inside one: a text that fits is
  returned as it is, a longer one keeps its first \<open>max - 3\<close> characters and gets an ellipsis.
  The result has at most \<open>max\<close> characters when \<open>max\<close> is at least three; for a smaller
  bound it is the bare ellipsis, three characters, longer than asked.
\<close>

theorem truncate_with_ellipsis_bound:
  "chars_count (truncate_with_ellipsis s n) = (if chars_count s \<le> n then chars_count s else max n 3)
    \<and> (if chars_count s \<le> n then truncate_with_ellipsis s n = s
       else take (n - 3) (chars (truncate_with_ellipsis s n)) = take (n - 3) (chars s))"
proof (cases "chars_count s \<le> n")
  case True
  then show ?thesis by (simp add: truncate_short)
next
  case False
  then have "n - 3 \<le> length (chars s)" by (simp add: chars_count_def)
  then show ?thesis using False truncate_count [of s n] truncate_long [of n s] by simp
qed

end
