(* ===== verification/Paths.thy ===== *)
theory Paths
  imports World
begin

text \<open>
  Paths (\<open>std::path\<close> on Unix, as far as the program uses it), the directories of
  \<open>core/crates/common/src/paths.rs\<close>, and the helpers of \<open>engine/src/lib.rs\<close> that
  resolve and hash files. A path is its text.
\<close>

definition path_is_absolute :: "string \<Rightarrow> bool" where
  "path_is_absolute p = starts_with p ''/''"

text \<open>\<open>PathBuf::join\<close>: an absolute argument replaces the base.\<close>

definition path_join :: "string \<Rightarrow> string \<Rightarrow> string" where
  "path_join base p =
     (if path_is_absolute p then p
      else if base = [] \<or> ends_with base ''/'' then base @ p
      else base @ ''/'' @ p)"

definition path_segments :: "string \<Rightarrow> string list" where
  "path_segments p = filter (\<lambda>c. c \<noteq> ''.'') (split_runs (\<lambda>c. c = CHR ''/'') p)"

text \<open>\<open>path.file_name().and_then(|name| name.to_str())\<close>.\<close>

definition path_file_name :: "string \<Rightarrow> string option" where
  "path_file_name p =
     (if path_segments p = [] then None
      else let name = last (path_segments p)
           in if name = ''..'' then None else from_utf8 name)"

record openpinch_paths =
  pa_config_dir :: string
  pa_data_dir :: string
  pa_state_dir :: string
  pa_config_file :: string
  pa_runtime_dir :: string
  pa_log_dir :: string
  pa_log_file :: string
  pa_database_file :: string
  pa_skills_dir :: string
  pa_installs_dir :: string
  pa_runtime_socket :: string
  pa_runtime_state_file :: string

text \<open>
  What \<open>ProjectDirs::from\<close> yields: the configuration, data, state (only on Linux) and cache
  directories.
\<close>

record project_dirs =
  pd_config_dir :: string
  pd_data_dir :: string
  pd_state_dir :: "string option"
  pd_cache_dir :: string

definition discover :: "project_dirs option \<Rightarrow> openpinch_paths res" where
  "discover project = (case project of
       None \<Rightarrow> Err (Msg ''failed to locate OS-specific project directories'')
     | Some d \<Rightarrow>
        (let state_dir = (case pd_state_dir d of None \<Rightarrow> pd_cache_dir d | Some s \<Rightarrow> s);
             runtime_dir = path_join state_dir ''runtime'';
             log_dir = path_join state_dir ''logs'';
             skills_dir = path_join (pd_data_dir d) ''skills''
         in Ok \<lparr>pa_config_dir = pd_config_dir d, pa_data_dir = pd_data_dir d,
              pa_state_dir = state_dir,
              pa_config_file = path_join (pd_config_dir d) ''config.toml'',
              pa_runtime_dir = runtime_dir, pa_log_dir = log_dir,
              pa_log_file = path_join log_dir ''openpinch.log'',
              pa_database_file = path_join (pd_data_dir d) ''openpinch.sqlite'',
              pa_skills_dir = skills_dir, pa_installs_dir = path_join skills_dir ''installed'',
              pa_runtime_socket = path_join runtime_dir ''engine.sock'',
              pa_runtime_state_file = path_join runtime_dir ''runtime-state.json''\<rparr>))"

text \<open>\<open>std::env::current_dir().unwrap_or_else(|_| \<dots>)\<close>.\<close>

definition current_dir_or :: "env \<Rightarrow> string \<Rightarrow> string" where
  "current_dir_or E fallback = (case E_cwd E of None \<Rightarrow> fallback | Some d \<Rightarrow> d)"

definition resolve_optional_path :: "env \<Rightarrow> string \<Rightarrow> string \<Rightarrow> string" where
  "resolve_optional_path E path base =
     (if path_is_absolute path then path
      else if path = [] then base
      else path_join (current_dir_or E base) path)"

text \<open>The same in the tool crate (\<open>resolve_path\<close>, \<open>SkillManager::resolve\<close>).\<close>

definition resolve_path :: "env \<Rightarrow> string \<Rightarrow> string" where
  "resolve_path E configured =
     (if path_is_absolute configured then configured
      else path_join (current_dir_or E ''.'') configured)"

section \<open>Files\<close>

definition path_exists :: "string \<Rightarrow> bool io" where
  "path_exists p = (\<lambda>w. (Ok (w_files w p \<noteq> None), w))"

definition read_file :: "string \<Rightarrow> string option io" where
  "read_file p = (\<lambda>w. (Ok (w_files w p), w))"

definition write_file :: "string \<Rightarrow> string \<Rightarrow> unit io" where
  "write_file p bytes = (\<lambda>w. (Ok (), w\<lparr>w_files := (w_files w)(p \<mapsto> bytes)\<rparr>))"

text \<open>\<open>read_to_string(path).with_context(\<dots>)\<close>: the bytes must be UTF-8.\<close>

definition read_text :: "string \<Rightarrow> string io" where
  "read_text p = andthen (read_file p) (\<lambda>bytes.
     lift_res (of_option (Msg (''failed to read '' @ p)) (Option.bind bytes from_utf8)))"

definition hash_if_exists :: "env \<Rightarrow> string \<Rightarrow> string option io" where
  "hash_if_exists E p = andthen (read_file p) (\<lambda>bytes. ret (map_option (\<lambda>b. hex (E_sha256 E b)) bytes))"

lemma file_runs [run_simps]:
  "path_exists p w = (Ok (w_files w p \<noteq> None), w)"
  "read_file p w = (Ok (w_files w p), w)"
  "write_file p bytes w = (Ok (), w\<lparr>w_files := (w_files w)(p \<mapsto> bytes)\<rparr>)"
  by (simp_all add: path_exists_def read_file_def write_file_def)

lemma safe_files [safe_intros]:
  "safe_at b (path_exists p)" "safe_at b (read_file p)" "safe_at b (write_file p bytes)"
  "safe_at b (read_text p)" "safe_at b (hash_if_exists E p)"
  by (simp_all add: safe_at_def run_simps read_text_def hash_if_exists_def)

lemma resolve_optional_path_empty [simp]: "resolve_optional_path E [] base = base"
  by (simp add: resolve_optional_path_def path_is_absolute_def starts_with_def)

end
