(* ===== verification/Encryption.thy ===== *)
theory Encryption
  imports Text Config Paths
begin

text \<open>
  \<open>core/crates/common/src/crypto.rs\<close> and \<open>EncryptionManager\<close> of
  \<open>engine/src/lib.rs\<close>: data keys, sealed blobs, the key file, session key pairs and
  attestation reports. The cipher, the digests and Base64 are parameters of \<open>env\<close>; the laws
  they obey are named here (\<open>cipher_law\<close>, \<open>base64_law\<close>, \<open>blob_json_law\<close>).
\<close>

record encrypted_blob =
  eb_nonce :: string
  eb_ciphertext :: string

record session_keypair =
  kp_secret :: string
  kp_public :: string

record session_identity =
  si_public_key :: string
  si_fingerprint :: string

definition generate_keypair :: "env \<Rightarrow> session_keypair io" where
  "generate_keypair E = andthen (random_bytes E 32) (\<lambda>seed.
     ret \<lparr>kp_secret = seed, kp_public = E_x25519_public E seed\<rparr>)"

definition keypair_identity :: "env \<Rightarrow> session_keypair \<Rightarrow> session_identity" where
  "keypair_identity E kp = \<lparr>si_public_key = E_b64_encode E (kp_public kp),
     si_fingerprint = hex (E_sha256 E (kp_public kp))\<rparr>"

definition generate_data_key :: "env \<Rightarrow> string io" where
  "generate_data_key E = random_bytes E 32"

definition derive_key_from_material :: "env \<Rightarrow> string \<Rightarrow> string" where
  "derive_key_from_material E material = take 32 (E_sha256 E material)"

definition derive_shared_key :: "env \<Rightarrow> string \<Rightarrow> string \<Rightarrow> string" where
  "derive_shared_key E secret public = derive_key_from_material E (E_x25519_shared E secret public)"

definition shared_key :: "env \<Rightarrow> session_keypair \<Rightarrow> string \<Rightarrow> string res" where
  "shared_key E kp peer_public_b64 =
     bind_res (of_option (Msg ''invalid peer public key'') (E_b64_decode E peer_public_b64)) (\<lambda>bytes.
       if length bytes = 32 then Ok (derive_shared_key E (kp_secret kp) bytes)
       else Err (Msg ''peer public key must be 32 bytes''))"

definition encrypt_bytes :: "env \<Rightarrow> string \<Rightarrow> string \<Rightarrow> encrypted_blob io" where
  "encrypt_bytes E key plaintext =
     andthen (random_bytes E 24) (\<lambda>nonce.
     andthen (lift_res (of_option (Msg ''encryption failed'') (E_seal E key nonce plaintext))) (\<lambda>ct.
     ret \<lparr>eb_nonce = E_b64_encode E nonce, eb_ciphertext = E_b64_encode E ct\<rparr>))"

definition decrypt_bytes :: "env \<Rightarrow> string \<Rightarrow> encrypted_blob \<Rightarrow> string res" where
  "decrypt_bytes E key blob =
     bind_res (of_option (Msg ''invalid blob nonce'') (E_b64_decode E (eb_nonce blob))) (\<lambda>nonce.
     bind_res (of_option (Msg ''invalid blob ciphertext'') (E_b64_decode E (eb_ciphertext blob))) (\<lambda>ct.
     if length nonce \<noteq> 24 then Err (Msg ''XChaCha20 nonce must be 24 bytes'')
     else of_option (Msg ''decryption failed'') (E_open E key nonce ct)))"

section \<open>The encryption manager\<close>

record encryption_manager =
  em_enabled :: bool
  em_key :: string
  em_key_path :: string
  em_session :: session_keypair
  em_hardware_available :: bool

definition detect_hardware_attestation :: "env \<Rightarrow> app_config \<Rightarrow> bool io" where
  "detect_hardware_attestation E config =
     (let attestation = sec_attestation (cfg_security config) in
      if \<not> ac_enabled attestation then ret False
      else if E_os E = ''linux'' then path_exists (ac_tpm_device attestation)
      else ret (E_os E = ''macos'' \<or> E_os E = ''windows''))"

definition key_file_path :: "env \<Rightarrow> app_config \<Rightarrow> openpinch_paths \<Rightarrow> string" where
  "key_file_path E config paths =
     (let key_file = ec_key_file (sec_encryption (cfg_security config)) in
      if key_file = [] then path_join (path_join (pa_data_dir paths) ''keys'') ''runtime.key''
      else resolve_optional_path E key_file (pa_data_dir paths))"

text \<open>
  The key: a stored key file is decoded and hashed once more, a fresh key is used as drawn.
\<close>

definition load_or_init_key :: "env \<Rightarrow> string \<Rightarrow> string io" where
  "load_or_init_key E key_path =
     andthen (path_exists key_path) (\<lambda>exists.
     if exists then
       andthen (read_text key_path) (\<lambda>raw.
       andthen (lift_res (of_option (Msg ''invalid stored encryption key'')
                            (E_b64_decode E (trim raw)))) (\<lambda>decoded.
       ret (derive_key_from_material E decoded)))
     else
       andthen (generate_data_key E) (\<lambda>key.
       andthen (write_file key_path (E_b64_encode E key)) (\<lambda>_.
       ret key)))"

definition load_or_init_encryption :: "env \<Rightarrow> app_config \<Rightarrow> openpinch_paths \<Rightarrow> encryption_manager io" where
  "load_or_init_encryption E config paths =
     (let key_path = key_file_path E config paths in
      andthen (load_or_init_key E key_path) (\<lambda>key.
      andthen (generate_keypair E) (\<lambda>session.
      andthen (detect_hardware_attestation E config) (\<lambda>hardware.
      ret \<lparr>em_enabled = ec_enabled (sec_encryption (cfg_security config)), em_key = key,
           em_key_path = key_path, em_session = session, em_hardware_available = hardware\<rparr>))))"

definition encryption_state :: "encryption_manager \<Rightarrow> string" where
  "encryption_state em = (if em_enabled em then ''encrypted'' else ''disabled'')"

definition attestation_state :: "encryption_manager \<Rightarrow> string" where
  "attestation_state em =
     (if em_hardware_available em then ''hardware-available'' else ''software-attested'')"

definition encrypt_text :: "env \<Rightarrow> encryption_manager \<Rightarrow> string \<Rightarrow> encrypted_blob io" where
  "encrypt_text E em plaintext =
     (if em_enabled em then encrypt_bytes E (em_key em) plaintext
      else ret \<lparr>eb_nonce = [], eb_ciphertext = E_b64_encode E plaintext\<rparr>)"

definition decrypt_text :: "env \<Rightarrow> encryption_manager \<Rightarrow> encrypted_blob \<Rightarrow> string res" where
  "decrypt_text E em blob =
     bind_res
       (if em_enabled em then decrypt_bytes E (em_key em) blob
        else of_option (Msg ''invalid plaintext blob'') (E_b64_decode E (eb_ciphertext blob)))
       (\<lambda>bytes. of_option (Msg ''memory payload was not valid UTF-8'') (from_utf8 bytes))"

definition hash_or_missing :: "env \<Rightarrow> string \<Rightarrow> string io" where
  "hash_or_missing E p = andthen (hash_if_exists E p) (\<lambda>h.
     ret (case h of None \<Rightarrow> ''missing'' | Some d \<Rightarrow> d))"

definition attest ::
  "env \<Rightarrow> encryption_manager \<Rightarrow> string \<Rightarrow> string \<Rightarrow> bool \<Rightarrow> openpinch_paths \<Rightarrow> app_config \<Rightarrow>
     attestation_report io" where
  "attest E em subject nonce include_hardware paths config =
     andthen (hash_or_missing E (pa_config_file paths)) (\<lambda>config_sha.
     andthen (hash_or_missing E (resolve_optional_path E
                (sc_matrix_path (sb_capabilities (cfg_sandbox config))) (pa_data_dir paths))) (\<lambda>policy_sha.
     andthen (hash_or_missing E (em_key_path em)) (\<lambda>key_sha.
     ret \<lparr>ar_subject = subject,
          ar_status =
            (if include_hardware \<and> ac_require_hardware (sec_attestation (cfg_security config))
                \<and> \<not> em_hardware_available em
             then ''hardware-unavailable''
             else if include_hardware \<and> em_hardware_available em then ''hardware-backed''
             else ''software-attested''),
          ar_platform = E_os E,
          ar_hardware_backed = (include_hardware \<and> em_hardware_available em),
          ar_nonce = nonce,
          ar_public_key = si_public_key (keypair_identity E (em_session em)),
          ar_measurements = bt_of_list [(''config_sha256'', config_sha),
            (''policy_sha256'', policy_sha), (''key_sha256'', key_sha)]\<rparr>)))"

section \<open>Blobs as stored\<close>

definition blob_to_json :: "encrypted_blob \<Rightarrow> json" where
  "blob_to_json blob = JObj [(''nonce'', JStr (eb_nonce blob)), (''ciphertext'', JStr (eb_ciphertext blob))]"

definition blob_of_json :: "json \<Rightarrow> encrypted_blob option" where
  "blob_of_json j = (case (json_get_str j ''nonce'', json_get_str j ''ciphertext'') of
       (Some n, Some c) \<Rightarrow> Some \<lparr>eb_nonce = n, eb_ciphertext = c\<rparr>
     | _ \<Rightarrow> None)"

definition parse_blob :: "env \<Rightarrow> string \<Rightarrow> encrypted_blob option" where
  "parse_blob E text = Option.bind (E_json_parse E text) blob_of_json"

text \<open>
  Encrypt and print, and parse and decrypt, as \<open>upsert_memory\<close>/\<open>query_memory\<close> and
  \<open>encrypt_payload\<close>/\<open>decrypt_payload\<close> do; \<open>ctx\<close> is the message of the caller's
  \<open>context\<close>.
\<close>

definition seal_text :: "env \<Rightarrow> encryption_manager \<Rightarrow> string \<Rightarrow> string io" where
  "seal_text E em content =
     andthen (encrypt_text E em content) (\<lambda>blob. ret (E_json_print E (blob_to_json blob)))"

definition unseal_text :: "env \<Rightarrow> encryption_manager \<Rightarrow> string \<Rightarrow> string \<Rightarrow> string res" where
  "unseal_text E em ctx blob_json =
     bind_res (of_option (Msg ctx) (parse_blob E blob_json)) (decrypt_text E em)"

section \<open>Laws and lemmas\<close>

definition base64_law :: "env \<Rightarrow> bool" where
  "base64_law E \<longleftrightarrow> (\<forall>s. E_b64_decode E (E_b64_encode E s) = Some s)"

definition cipher_law :: "env \<Rightarrow> bool" where
  "cipher_law E \<longleftrightarrow> (\<forall>key nonce text ct. length nonce = 24 \<longrightarrow>
     E_seal E key nonce text = Some ct \<longrightarrow> E_open E key nonce ct = Some text)"

definition random_law :: "env \<Rightarrow> bool" where
  "random_law E \<longleftrightarrow> (\<forall>n k. length (E_random E n k) = k)"

definition blob_json_law :: "env \<Rightarrow> bool" where
  "blob_json_law E \<longleftrightarrow> (\<forall>blob. parse_blob E (E_json_print E (blob_to_json blob)) = Some blob)"

text \<open>The documented behaviour of the crates the blobs rest on.\<close>

definition crypto_laws :: "env \<Rightarrow> bool" where
  "crypto_laws E \<longleftrightarrow> base64_law E \<and> cipher_law E \<and> random_law E \<and> blob_json_law E"

lemma safe_encryption [safe_intros]:
  "safe_at b (generate_keypair E)" "safe_at b (generate_data_key E)"
  "safe_at b (encrypt_bytes E key p)" "safe_at b (encrypt_text E em p)"
  "safe_at b (seal_text E em p)" "safe_at b (detect_hardware_attestation E config)"
  "safe_at b (load_or_init_key E kp)" "safe_at b (hash_or_missing E kp)"
proof -
  show "safe_at b (generate_keypair E)" unfolding generate_keypair_def by (intro safe_intros)
  show "safe_at b (generate_data_key E)" unfolding generate_data_key_def by (intro safe_intros)
  show e: "safe_at b (encrypt_bytes E key p)" for key
    unfolding encrypt_bytes_def by (intro safe_intros) simp
  show t: "safe_at b (encrypt_text E em p)" unfolding encrypt_text_def by (intro safe_intros e)
  show "safe_at b (seal_text E em p)" unfolding seal_text_def by (intro safe_intros t)
  show "safe_at b (detect_hardware_attestation E config)"
    unfolding detect_hardware_attestation_def Let_def by (intro safe_intros)
  show "safe_at b (load_or_init_key E kp)"
    unfolding load_or_init_key_def generate_data_key_def by (intro safe_intros) simp
  show "safe_at b (hash_or_missing E kp)" unfolding hash_or_missing_def by (intro safe_intros)
qed

lemma returns_decrypt [simp]: "returns (decrypt_bytes E key blob)" "returns (decrypt_text E em blob)"
proof -
  show d: "returns (decrypt_bytes E key blob)" for key
    unfolding decrypt_bytes_def by (intro returns_bind_res) auto
  show "returns (decrypt_text E em blob)"
    unfolding decrypt_text_def by (intro returns_bind_res) (auto simp: d)
qed

lemma returns_unseal [simp]: "returns (unseal_text E em ctx b)"
  unfolding unseal_text_def by (intro returns_bind_res) auto

text \<open>Encryption only draws randomness; what it yields decrypts under the same key.\<close>

lemma encrypt_bytes_run:
  "encrypt_bytes E key p w = (case E_seal E key (E_random E (w_draws w) 24) p of
       None \<Rightarrow> (Err (Msg ''encryption failed''), w\<lparr>w_draws := Suc (w_draws w)\<rparr>)
     | Some ct \<Rightarrow> (Ok \<lparr>eb_nonce = E_b64_encode E (E_random E (w_draws w) 24),
          eb_ciphertext = E_b64_encode E ct\<rparr>, w\<lparr>w_draws := Suc (w_draws w)\<rparr>))"
  by (simp add: encrypt_bytes_def run_simps split: option.splits)

lemma encrypt_decrypt_bytes:
  assumes "crypto_laws E" "encrypt_bytes E key p w = (Ok blob, w')"
  shows "decrypt_bytes E key blob = Ok p"
proof -
  let ?n = "E_random E (w_draws w) 24"
  have n: "length ?n = 24" using assms(1) by (simp add: crypto_laws_def random_law_def)
  from assms(2) obtain ct where ct: "E_seal E key ?n p = Some ct"
      and blob: "blob = \<lparr>eb_nonce = E_b64_encode E ?n, eb_ciphertext = E_b64_encode E ct\<rparr>"
    by (auto simp: encrypt_bytes_run split: option.splits)
  have "E_open E key ?n ct = Some p"
    using assms(1) n ct unfolding crypto_laws_def cipher_law_def by blast
  with assms(1) n blob show ?thesis
    by (simp add: decrypt_bytes_def crypto_laws_def base64_law_def)
qed

lemma encrypt_decrypt_text:
  assumes "crypto_laws E" "encrypt_text E em p w = (Ok blob, w')" "from_utf8 p = Some p"
  shows "decrypt_text E em blob = Ok p"
proof (cases "em_enabled em")
  case True
  then show ?thesis using assms encrypt_decrypt_bytes [OF assms(1)]
    by (simp add: encrypt_text_def decrypt_text_def)
next
  case False
  then show ?thesis using assms
    by (auto simp: encrypt_text_def decrypt_text_def ret_run crypto_laws_def base64_law_def)
qed

lemma seal_text_frame:
  "seal_text E em p w = (r, w') \<Longrightarrow> w' = w\<lparr>w_draws := w_draws w'\<rparr>"
  by (auto simp: seal_text_def encrypt_text_def encrypt_bytes_run run_simps split: if_splits option.splits)

lemma seal_text_draws:
  "seal_text E em p w = (r, w') \<Longrightarrow> w_draws w \<le> w_draws w'"
  by (auto simp: seal_text_def encrypt_text_def encrypt_bytes_run run_simps split: if_splits option.splits)

lemma seal_unseal:
  assumes "crypto_laws E" "seal_text E em p w = (Ok b, w')" "from_utf8 p = Some p"
  shows "unseal_text E em ctx b = Ok p"
proof -
  obtain r w1 where enc: "encrypt_text E em p w = (r, w1)" by (cases "encrypt_text E em p w")
  with assms(2) obtain blob where r: "r = Ok blob" and b: "b = E_json_print E (blob_to_json blob)"
    by (cases r) (auto simp: seal_text_def run_simps)
  have "decrypt_text E em blob = Ok p" using encrypt_decrypt_text assms(1,3) enc r by blast
  then show ?thesis using assms(1) b
    by (simp add: unseal_text_def crypto_laws_def blob_json_law_def)
qed

section \<open>Properties\<close>

lemma demo_crypto_laws: "crypto_laws demo_env"
proof -
  have "parse_blob demo_env (E_json_print demo_env (blob_to_json b)) = Some b" for b
    using demo_parse_object [of "[(''nonce'', eb_nonce b), (''ciphertext'', eb_ciphertext b)]"]
    by (simp add: parse_blob_def blob_to_json_def blob_of_json_def json_get_str_def json_get_obj)
  then show ?thesis
    by (simp add: crypto_laws_def base64_law_def cipher_law_def random_law_def blob_json_law_def
        strip_prefix_def)
qed

definition demo_manager :: encryption_manager where
  "demo_manager = \<lparr>em_enabled = True, em_key = replicate 32 (CHR ''k''), em_key_path = ''/keys/runtime.key'',
     em_session = \<lparr>kp_secret = [], kp_public = []\<rparr>, em_hardware_available = False\<rparr>"

text \<open>C32.
  What is sealed for storage opens again: with the same manager, enabled or not, decrypting the
  stored blob of a text gives back the text, whatever nonce was drawn.
\<close>

theorem stored_payload_opens:
  assumes "crypto_laws E" and "seal_text E em p w = (Ok blob_json, w')" and "from_utf8 p = Some p"
  shows "unseal_text E em ctx blob_json = Ok p"
  using assms by (rule seal_unseal)

lemma demo_seal_ok: "\<exists>b w'. seal_text demo_env demo_manager p w = (Ok b, w')"
  by (simp add: seal_text_def encrypt_text_def encrypt_bytes_run andthen_run ret_run demo_manager_def)

theorem stored_payload_opens_witness:
  "\<exists>b w'. seal_text demo_env demo_manager ''hello'' boot_world = (Ok b, w')
     \<and> unseal_text demo_env demo_manager ''ctx'' b = Ok ''hello''"
proof -
  have "from_utf8 ''hello'' = Some ''hello''" by (simp add: from_utf8_def byte_def)
  then show ?thesis
    using demo_seal_ok [of "''hello''" boot_world] stored_payload_opens [OF demo_crypto_laws] by blast
qed

text \<open>The cipher authenticates: under another 32-byte key a ciphertext does not open.\<close>

definition auth_law :: "env \<Rightarrow> bool" where
  "auth_law E \<longleftrightarrow> (\<forall>k k' n n' t ct. length k = 32 \<longrightarrow> length k' = 32 \<longrightarrow> k \<noteq> k' \<longrightarrow>
     E_seal E k n t = Some ct \<longrightarrow> E_open E k' n' ct = None)"

lemma load_fresh_key_run:
  "w_files w p = None \<Longrightarrow> load_or_init_key E p w = (Ok (E_random E (w_draws w) 32),
     w\<lparr>w_draws := Suc (w_draws w), w_files := (w_files w)(p \<mapsto> E_b64_encode E (E_random E (w_draws w) 32))\<rparr>)"
  by (simp add: load_or_init_key_def generate_data_key_def run_simps)

lemma load_stored_key_run:
  assumes "w_files w p = Some (E_b64_encode E k)" and "base64_law E"
    and "from_utf8 (E_b64_encode E k) = Some (E_b64_encode E k)" and "trim (E_b64_encode E k) = E_b64_encode E k"
  shows "load_or_init_key E p w = (Ok (derive_key_from_material E k), w)"
  using assms by (simp add: load_or_init_key_def read_text_def base64_law_def run_simps)

text \<open>C33.
  The first start with a missing key file uses the drawn key itself; every later start with the
  file it wrote uses the SHA-256 digest of that key. So unless the key is its own digest, nothing
  the first run encrypted can be decrypted after a restart (and the second run's data can).
\<close>

theorem first_run_key_is_lost:
  assumes "base64_law E" and "random_law E" and "auth_law E"
    and "from_utf8 (E_b64_encode E k1) = Some (E_b64_encode E k1) \<and> trim (E_b64_encode E k1) = E_b64_encode E k1"
    and "\<And>s. length (E_sha256 E s) = 32"
    and "w_files w p = None" and "load_or_init_key E p w = (Ok k1, w1)"
    and "w_files w2 p = w_files w1 p" and "load_or_init_key E p w2 = (Ok k2, w3)"
    and "E_sha256 E k1 \<noteq> k1" and "encrypt_bytes E k1 plaintext w4 = (Ok blob, w5)"
  shows "k2 = E_sha256 E k1 \<and> w_files w3 p = w_files w2 p
    \<and> decrypt_bytes E k2 blob = Err (Msg ''decryption failed'')"
proof -
  have k1: "k1 = E_random E (w_draws w) 32" and f1: "w_files w1 p = Some (E_b64_encode E k1)"
    using assms(6,7) by (auto simp: load_fresh_key_run)
  have len: "length k1 = 32" using assms(2) k1 by (simp add: random_law_def)
  have "load_or_init_key E p w2 = (Ok (derive_key_from_material E k1), w2)"
    using assms(8) f1 assms(1) assms(4) by (intro load_stored_key_run) auto
  then have k2: "k2 = E_sha256 E k1" and w3: "w3 = w2"
    using assms(5,9) by (simp_all add: derive_key_from_material_def)
  let ?n = "E_random E (w_draws w4) 24"
  from assms(11) obtain ct where ct: "E_seal E k1 ?n plaintext = Some ct"
      and blob: "blob = \<lparr>eb_nonce = E_b64_encode E ?n, eb_ciphertext = E_b64_encode E ct\<rparr>"
    by (auto simp: encrypt_bytes_run split: option.splits)
  have "E_open E k2 ?n ct = None"
    using assms(3) ct len assms(5) [of k1] assms(10) unfolding auth_law_def k2 by metis
  then have "decrypt_bytes E k2 blob = Err (Msg ''decryption failed'')"
    using assms(1,2) blob by (simp add: decrypt_bytes_def base64_law_def random_law_def)
  with k2 w3 show ?thesis by simp
qed

lemma demo_auth_law: "auth_law demo_env"
  by (auto simp: auth_law_def strip_prefix_def prefix_def append_eq_append_conv)

theorem first_run_key_is_lost_witness:
  "\<exists>k2 w3 blob w5. load_or_init_key demo_env ''key'' (boot_world\<lparr>w_files := [''key'' \<mapsto> replicate 32 (CHR ''r'')]\<rparr>) = (Ok k2, w3)
     \<and> encrypt_bytes demo_env (replicate 32 (CHR ''r'')) ''secret'' boot_world = (Ok blob, w5)
     \<and> decrypt_bytes demo_env k2 blob = Err (Msg ''decryption failed'')"
proof -
  let ?k = "replicate 32 (CHR ''r'')"
  let ?w2 = "boot_world\<lparr>w_files := [''key'' \<mapsto> ?k]\<rparr>"
  obtain w1 where r1: "load_or_init_key demo_env ''key'' boot_world = (Ok ?k, w1)" and f1: "w_files w1 ''key'' = Some ?k"
    by (simp add: load_fresh_key_run)
  have utf: "from_utf8 ?k = Some ?k \<and> trim ?k = ?k" by code_simp
  have laws: "base64_law demo_env" "random_law demo_env" using demo_crypto_laws by (simp_all add: crypto_laws_def)
  have r2: "load_or_init_key demo_env ''key'' ?w2 = (Ok (derive_key_from_material demo_env ?k), ?w2)"
    using utf by (intro load_stored_key_run laws) simp_all
  obtain blob w5 where enc: "encrypt_bytes demo_env ?k ''secret'' boot_world = (Ok blob, w5)"
    by (simp add: encrypt_bytes_run)
  have "decrypt_bytes demo_env (derive_key_from_material demo_env ?k) blob = Err (Msg ''decryption failed'')"
    by (rule first_run_key_is_lost [OF laws demo_auth_law _ _ _ r1 _ r2 _ enc, THEN conjunct2, THEN conjunct2])
       (use utf f1 in simp_all)
  then show ?thesis using r2 enc by blast
qed

end
