(* ===== verification/Store.thy ===== *)
theory Store
  imports Encryption
begin

text \<open>
  The tables of \<open>StateStore\<close> (\<open>engine/src/lib.rs\<close>) other than sessions and pairings:
  messages, jobs, the prompt and prefix caches, the vector memory, audit events, queue tasks and
  protocol runs. \<open>keeps P m\<close> says that the action \<open>m\<close> keeps the property \<open>P\<close> of the
  stored data.
\<close>

named_theorems keeps_intros \<open>rules that derive that an action keeps a property of the store\<close>

section \<open>Properties of the stored data that actions keep\<close>

definition keeps :: "(store \<Rightarrow> bool) \<Rightarrow> 'a io \<Rightarrow> bool" where
  "keeps P m \<longleftrightarrow> (\<forall>w. P (w_db w) \<longrightarrow> P (w_db (snd (m w))))"

lemma keepsI: "(\<And>w. P (w_db w) \<Longrightarrow> P (w_db (snd (m w)))) \<Longrightarrow> keeps P m"
  by (simp add: keeps_def)

lemma keepsD: "keeps P m \<Longrightarrow> P (w_db w) \<Longrightarrow> m w = (r, w') \<Longrightarrow> P (w_db w')"
  by (force simp: keeps_def)

lemma keeps_pure [keeps_intros]:
  "keeps P (ret a)" "keeps P (fail e)" "keeps P (lift_res r)" "keeps P (utc_now E)"
  "keeps P (new_uuid E)" "keeps P (random_bytes E k)" "keeps P (sql_query q)"
  "keeps P (path_exists p)" "keeps P (read_file p)" "keeps P (write_file p bytes)"
  by (simp_all add: keeps_def run_simps)

lemma keeps_sql_exec [keeps_intros]: "(\<And>d. P d \<Longrightarrow> P (f d)) \<Longrightarrow> keeps P (sql_exec f)"
  by (simp add: keeps_def run_simps)

lemma keeps_sql_try [keeps_intros]:
  "(\<And>d d'. P d \<Longrightarrow> f d = Some d' \<Longrightarrow> P d') \<Longrightarrow> keeps P (sql_try tb f)"
  by (auto simp: keeps_def run_simps split: option.splits)

lemma keeps_andthen [keeps_intros]:
  assumes "keeps P m" and "\<And>a. keeps P (f a)"
  shows "keeps P (andthen m f)"
proof (rule keepsI)
  fix w :: world
  assume w: "P (w_db w)"
  obtain r w' where m: "m w = (r, w')" by (cases "m w")
  have "P (w_db w')" using keepsD [OF assms(1) w m] .
  then show "P (w_db (snd (andthen m f w)))"
    using m assms(2) by (cases r) (auto simp: run_simps keeps_def)
qed

lemma keeps_like:
  assumes "keeps P m" and "\<And>w. snd (m' w) = snd (m w)"
  shows "keeps P m'"
  using assms by (simp add: keeps_def)

lemma keeps_ignore_err [keeps_intros]: "keeps P m \<Longrightarrow> keeps P (ignore_err m)"
  by (erule keeps_like) (simp add: run_simps split: prod.splits res.splits)

lemma keeps_or_default [keeps_intros]: "keeps P m \<Longrightarrow> keeps P (or_default m d)"
  by (erule keeps_like) (simp add: run_simps split: prod.splits res.splits)

lemma keeps_attempt [keeps_intros]: "keeps P m \<Longrightarrow> keeps P (attempt m)"
  by (erule keeps_like) (simp add: run_simps split: prod.splits res.splits)

lemma keeps_if [keeps_intros]:
  "(c \<Longrightarrow> keeps P m) \<Longrightarrow> (\<not> c \<Longrightarrow> keeps P m') \<Longrightarrow> keeps P (if c then m else m')"
  by simp

lemma keeps_option [keeps_intros]:
  "(x = None \<Longrightarrow> keeps P m) \<Longrightarrow> (\<And>a. x = Some a \<Longrightarrow> keeps P (f a)) \<Longrightarrow>
     keeps P (case x of None \<Rightarrow> m | Some a \<Rightarrow> f a)"
  by (cases x) simp_all

lemma keeps_sum [keeps_intros]:
  "(\<And>e. x = Inl e \<Longrightarrow> keeps P (g e)) \<Longrightarrow> (\<And>a. x = Inr a \<Longrightarrow> keeps P (f a)) \<Longrightarrow>
     keeps P (case x of Inl e \<Rightarrow> g e | Inr a \<Rightarrow> f a)"
  by (cases x) simp_all

lemma keeps_prod [keeps_intros]:
  "(\<And>a c. x = (a, c) \<Longrightarrow> keeps P (f a c)) \<Longrightarrow> keeps P (case x of (a, c) \<Rightarrow> f a c)"
  by (cases x) simp

lemma keeps_let [keeps_intros]: "keeps P (f x) \<Longrightarrow> keeps P (let y = x in f y)"
  by simp

lemma keeps_for_each [keeps_intros]:
  "(\<And>x. x \<in> set xs \<Longrightarrow> keeps P (f x)) \<Longrightarrow> keeps P (for_each f xs)"
  by (induction xs) (simp_all add: keeps_pure keeps_andthen)

lemma keeps_map_act [keeps_intros]:
  "(\<And>x. x \<in> set xs \<Longrightarrow> keeps P (f x)) \<Longrightarrow> keeps P (map_act f xs)"
  by (induction xs) (simp_all add: keeps_pure keeps_andthen)

lemma keeps_with_conn [keeps_intros]:
  assumes "keeps P m"
  shows "keeps P (with_conn m)"
proof (rule keepsI)
  fix w :: world
  assume w: "P (w_db w)"
  obtain r w' where m: "m (w\<lparr>w_locked := True\<rparr>) = (r, w')" by (cases "m (w\<lparr>w_locked := True\<rparr>)")
  have "P (w_db w')" using keepsD [OF assms _ m] w by simp
  then show "P (w_db (snd (with_conn m w)))"
    using w m by (cases r) (auto simp: with_conn_def)
qed

lemma keeps_seal [keeps_intros]: "keeps P (seal_text E em p)"
proof (rule keepsI)
  fix w :: world
  assume "P (w_db w)"
  moreover obtain r w' where "seal_text E em p w = (r, w')" by (cases "seal_text E em p w")
  moreover have "w_db w' = w_db w" using seal_text_frame [OF calculation(2)]
    by (metis world.select_convs(1) world.surjective world.update_convs(5))
  ultimately show "P (w_db (snd (seal_text E em p w)))" by simp
qed

text \<open>\<open>insert into \<dots>\<close> on a table with a primary key.\<close>

definition insert_unique :: "('r \<Rightarrow> 'k) \<Rightarrow> 'r \<Rightarrow> 'r list \<Rightarrow> 'r list option" where
  "insert_unique key r t = (if has_key key (key r) t then None else Some (insert_row r t))"

lemma insert_unique_Some:
  "insert_unique key r t = Some t' \<longleftrightarrow> \<not> has_key key (key r) t \<and> t' = insert_row r t"
  by (auto simp: insert_unique_def)

lemma insert_unique_distinct:
  "insert_unique key r t = Some t' \<Longrightarrow> distinct_keys key t \<Longrightarrow> distinct_keys key t'"
  by (simp add: insert_unique_Some distinct_keys_insert_row)

text \<open>
  \<open>insert \<dots> on conflict(key) do update\<close> on a table that also has a primary key: SQLite looks
  at the conflict target first, so a row of the same key is updated whatever its id; a new row
  whose id is taken violates the primary key.
\<close>

definition upsert_unique ::
  "('r \<Rightarrow> 'k) \<Rightarrow> ('r \<Rightarrow> 'r \<Rightarrow> 'r) \<Rightarrow> ('r \<Rightarrow> 'i) \<Rightarrow> 'r \<Rightarrow> 'r list \<Rightarrow> 'r list option" where
  "upsert_unique key merge ident r t =
     (if \<not> has_key key (key r) t \<and> has_key ident (ident r) t then None
      else Some (upsert_row key merge r t))"

lemma upsert_unique_ids:
  assumes "distinct_keys ident t" "upsert_unique key merge ident r t = Some t'"
    and "\<And>x. ident (merge x r) = ident x"
  shows "distinct_keys ident t'"
proof (cases "has_key key (key r) t")
  case True
  have "map ident (update_where (\<lambda>x. key x = key r) (\<lambda>x. merge x r) t) = map ident t"
    by (rule map_update_where) (simp add: assms(3))
  with True assms show ?thesis by (simp add: upsert_unique_def upsert_row_def distinct_keys_def)
next
  case False
  with assms show ?thesis
    by (auto simp: upsert_unique_def upsert_row_def distinct_keys_insert_row split: if_splits)
qed

lemma upsert_unique_Some: "upsert_unique key merge ident r t = Some t' \<Longrightarrow> t' = upsert_row key merge r t"
  by (auto simp: upsert_unique_def split: if_splits)

section \<open>Messages and jobs\<close>

definition record_message :: "env \<Rightarrow> message_envelope \<Rightarrow> unit io" where
  "record_message E m = with_conn (
     andthen (utc_now E) (\<lambda>now.
     sql_exec (\<lambda>d. d\<lparr>t_messages := insert_row
       \<lparr>msg_connector = me_connector m, msg_channel_id = me_channel_id m, msg_sender = me_sender m,
        msg_body = me_body m, msg_metadata_json = me_metadata_json m, msg_created_at = now\<rparr>
       (t_messages d)\<rparr>)))"

definition list_jobs :: "schedule_request list io" where
  "list_jobs = with_conn (sql_query (\<lambda>d. map fst (sort_key snd (t_jobs d))))"

section \<open>The prompt and prefix caches\<close>

definition merge_cache :: "cache_row \<Rightarrow> cache_row \<Rightarrow> cache_row" where
  "merge_cache old new = old\<lparr>ca_provider := ca_provider new, ca_response := ca_response new,
     ca_created_at := ca_created_at new\<rparr>"

interpretation cache: upsert_table ca_key merge_cache
  by unfold_locales (simp add: merge_cache_def)

definition cache_exact_get :: "string \<Rightarrow> (string \<times> string) option io" where
  "cache_exact_get hash = with_conn (sql_query (\<lambda>d.
     map_option (\<lambda>r. (ca_provider r, ca_response r))
       (lookup_row ca_key hash (t_prompt_cache d))))"

definition cache_exact_put :: "env \<Rightarrow> string \<Rightarrow> string \<Rightarrow> string \<Rightarrow> unit io" where
  "cache_exact_put E hash provider response = with_conn (
     andthen (utc_now E) (\<lambda>now.
     sql_exec (\<lambda>d. d\<lparr>t_prompt_cache := upsert_row ca_key merge_cache
       \<lparr>ca_key = hash, ca_provider = provider, ca_response = response, ca_created_at = now\<rparr>
       (t_prompt_cache d)\<rparr>)))"

text \<open>
  \<open>text like pattern\<close> of SQLite, over characters: \<open>%\<close> stands for any text, \<open>_\<close> for
  one character, ASCII letters compare without case. The code builds the pattern from stored text
  and does not escape it.
\<close>

function like_match :: "string list \<Rightarrow> string list \<Rightarrow> bool" where
  "like_match [] ts = (ts = [])"
| "like_match (p # ps) ts =
     (if p = ''%'' then like_match ps ts \<or> (case ts of [] \<Rightarrow> False | t # ts' \<Rightarrow> like_match (p # ps) ts')
      else case ts of [] \<Rightarrow> False
        | t # ts' \<Rightarrow> (p = ''_'' \<or> to_ascii_lowercase p = to_ascii_lowercase t) \<and> like_match ps ts')"
  by pat_completeness auto
termination
  by (relation "measure (\<lambda>(ps, ts). length ps + length ts)") auto

definition prefix_row_matches :: "string \<Rightarrow> cache_row \<Rightarrow> bool" where
  "prefix_row_matches prompt r = like_match (chars (ca_key r @ ''%'')) (chars prompt)"

definition cache_prefix_get :: "string \<Rightarrow> (string \<times> string) option io" where
  "cache_prefix_get prompt = with_conn (sql_query (\<lambda>d.
     case order_desc (\<lambda>r. chars_count (ca_key r)) (filter (prefix_row_matches prompt) (t_prefix_cache d)) of
       [] \<Rightarrow> None
     | r # _ \<Rightarrow> Some (ca_provider r, ca_response r)))"

definition cache_prefix_put :: "env \<Rightarrow> string \<Rightarrow> string \<Rightarrow> string \<Rightarrow> unit io" where
  "cache_prefix_put E pre provider response = with_conn (
     andthen (utc_now E) (\<lambda>now.
     sql_exec (\<lambda>d. d\<lparr>t_prefix_cache := upsert_row ca_key merge_cache
       \<lparr>ca_key = pre, ca_provider = provider, ca_response = response, ca_created_at = now\<rparr>
       (t_prefix_cache d)\<rparr>)))"

section \<open>The vector memory\<close>

definition memory_key :: "memory_row \<Rightarrow> string \<times> string" where
  "memory_key r = (vm_namespace r, vm_key r)"

definition merge_memory :: "memory_row \<Rightarrow> memory_row \<Rightarrow> memory_row" where
  "merge_memory old new = old\<lparr>vm_blob_json := vm_blob_json new, vm_metadata_json := vm_metadata_json new,
     vm_fingerprint := vm_fingerprint new, vm_created_at := vm_created_at new\<rparr>"

interpretation memory: upsert_table memory_key merge_memory
  by unfold_locales (simp add: merge_memory_def memory_key_def)

definition upsert_memory ::
  "env \<Rightarrow> encryption_manager \<Rightarrow> string \<Rightarrow> string \<Rightarrow> string \<Rightarrow> string \<Rightarrow> string io" where
  "upsert_memory E em namespace key content metadata_json =
     andthen (seal_text E em content) (\<lambda>blob_json.
     with_conn (
       andthen (utc_now E) (\<lambda>now.
       andthen (sql_exec (\<lambda>d. d\<lparr>t_vector_memory := upsert_row memory_key merge_memory
         \<lparr>vm_namespace = namespace, vm_key = key, vm_blob_json = blob_json,
          vm_metadata_json = metadata_json, vm_fingerprint = fingerprint E content,
          vm_created_at = now\<rparr> (t_vector_memory d)\<rparr>)) (\<lambda>_.
       ret (prompt_hash E content)))))"

definition memory_record_of_row ::
  "env \<Rightarrow> encryption_manager \<Rightarrow> string \<Rightarrow> memory_row \<Rightarrow> memory_record res" where
  "memory_record_of_row E em query_fingerprint r =
     bind_res (unseal_text E em ''failed to decode encrypted memory blob'' (vm_blob_json r)) (\<lambda>content.
     Ok \<lparr>mr_key = vm_key r, mr_namespace = vm_namespace r, mr_content = content,
       mr_metadata_json = vm_metadata_json r,
       mr_score = similarity query_fingerprint (vm_fingerprint r), mr_created_at = vm_created_at r\<rparr>)"

definition memory_candidates :: "string \<Rightarrow> store \<Rightarrow> memory_row list" where
  "memory_candidates namespace d =
     take 256 (order_desc vm_created_at (filter (\<lambda>r. vm_namespace r = namespace) (t_vector_memory d)))"

definition query_memory :: "env \<Rightarrow> encryption_manager \<Rightarrow> memory_query \<Rightarrow> memory_record list io" where
  "query_memory E em q = with_conn (
     andthen (sql_query (memory_candidates (mq_namespace q))) (\<lambda>rows.
     andthen (lift_res (traverse_res (memory_record_of_row E em (fingerprint E (mq_query q))) rows)) (\<lambda>records.
     ret (take (max (mq_limit q) 1) (order_desc mr_score records)))))"

section \<open>Audit events, queue tasks, protocol runs\<close>

definition record_audit_event :: "audit_event \<Rightarrow> unit io" where
  "record_audit_event event = with_conn (sql_try ''audit_events'' (\<lambda>d.
     map_option (\<lambda>t. d\<lparr>t_audit_events := t\<rparr>) (insert_unique ae_id event (t_audit_events d))))"

definition list_audit :: "nat \<Rightarrow> audit_event list io" where
  "list_audit limit = with_conn (sql_query (\<lambda>d.
     sql_limit (usize_as_i64 limit) (order_desc ae_created_at (t_audit_events d))))"

definition merge_queue :: "queue_row \<Rightarrow> queue_row \<Rightarrow> queue_row" where
  "merge_queue old new = old\<lparr>qw_task_type := qw_task_type new, qw_target := qw_target new,
     qw_arguments_json := qw_arguments_json new, qw_priority := qw_priority new,
     qw_status := qw_status new, qw_updated_at := qw_updated_at new\<rparr>"

interpretation queue_rows: upsert_table qw_task_id merge_queue
  by unfold_locales (simp add: merge_queue_def)

definition store_queue_task :: "env \<Rightarrow> queue_task \<Rightarrow> string \<Rightarrow> unit io" where
  "store_queue_task E t status =
     andthen (utc_now E) (\<lambda>now.
     with_conn (sql_exec (\<lambda>d. d\<lparr>t_queue_tasks := upsert_row qw_task_id merge_queue
       \<lparr>qw_task_id = qt_task_id t, qw_task_type = qt_task_type t, qw_target = qt_target t,
        qw_arguments_json = qt_arguments_json t, qw_priority = priority_as_str (qt_priority t),
        qw_status = status, qw_created_at = now, qw_updated_at = now\<rparr> (t_queue_tasks d)\<rparr>)))"

definition update_queue_status :: "env \<Rightarrow> string \<Rightarrow> string \<Rightarrow> unit io" where
  "update_queue_status E task_id status = with_conn (
     andthen (utc_now E) (\<lambda>now.
     sql_exec (\<lambda>d. d\<lparr>t_queue_tasks := update_where (\<lambda>r. qw_task_id r = task_id)
       (\<lambda>r. r\<lparr>qw_status := status, qw_updated_at := now\<rparr>) (t_queue_tasks d)\<rparr>)))"

definition record_protocol_run :: "env \<Rightarrow> protocol_run_result \<Rightarrow> unit io" where
  "record_protocol_run E r = with_conn (
     andthen (utc_now E) (\<lambda>now.
     sql_exec (\<lambda>d. d\<lparr>t_protocol_runs := insert_row
       \<lparr>pw_protocol_id = prr_protocol_id r, pw_transcript_json = prr_transcript_json r,
        pw_findings_json = E_json_print E (JArr (map JStr (prr_findings r))), pw_created_at = now\<rparr>
       (t_protocol_runs d)\<rparr>)))"

section \<open>Lock discipline\<close>

lemma safe_store [safe_intros]:
  "safe (record_message E m)" "safe list_jobs" "safe (cache_exact_get h)"
  "safe (cache_exact_put E h p r)" "safe (cache_prefix_get pr)" "safe (cache_prefix_put E h p r)"
  "safe (upsert_memory E em ns k c md)" "safe (query_memory E em q)" "safe (record_audit_event ev)"
  "safe (list_audit n)" "safe (store_queue_task E t st)" "safe (update_queue_status E tid st)"
  "safe (record_protocol_run E run)"
  unfolding record_message_def list_jobs_def cache_exact_get_def cache_exact_put_def
    cache_prefix_get_def cache_prefix_put_def upsert_memory_def query_memory_def
    record_audit_event_def list_audit_def store_queue_task_def update_queue_status_def
    record_protocol_run_def
  by (intro safe_intros returns_traverse_res; simp add: memory_record_of_row_def returns_bind_res)+

section \<open>The keys of the tables\<close>

definition store_keys :: "store \<Rightarrow> bool" where
  "store_keys d \<longleftrightarrow> distinct_keys ca_key (t_prompt_cache d) \<and> distinct_keys ca_key (t_prefix_cache d)
     \<and> distinct_keys memory_key (t_vector_memory d) \<and> distinct_keys ae_id (t_audit_events d)
     \<and> distinct_keys qw_task_id (t_queue_tasks d)"

lemma keeps_store_keys [keeps_intros]:
  "keeps store_keys (record_message E m)" "keeps store_keys list_jobs"
  "keeps store_keys (cache_exact_get h)" "keeps store_keys (cache_exact_put E h p r)"
  "keeps store_keys (cache_prefix_get pr)" "keeps store_keys (cache_prefix_put E h p r)"
  "keeps store_keys (upsert_memory E em ns k c md)" "keeps store_keys (query_memory E em q)"
  "keeps store_keys (record_audit_event ev)" "keeps store_keys (list_audit n)"
  "keeps store_keys (store_queue_task E t st)" "keeps store_keys (update_queue_status E tid st)"
  "keeps store_keys (record_protocol_run E run)"
  unfolding record_message_def list_jobs_def cache_exact_get_def cache_exact_put_def
    cache_prefix_get_def cache_prefix_put_def upsert_memory_def query_memory_def
    record_audit_event_def list_audit_def store_queue_task_def update_queue_status_def
    record_protocol_run_def
  by (intro keeps_intros; auto simp: store_keys_def cache.upsert_distinct memory.upsert_distinct
        queue_rows.upsert_distinct insert_unique_distinct distinct_keys_update_where)+

section \<open>Cache lemmas\<close>

lemma cache_exact_get_run:
  "\<not> w_locked w \<Longrightarrow> cache_exact_get h w = (Ok (map_option (\<lambda>r. (ca_provider r, ca_response r))
     (lookup_row ca_key h (t_prompt_cache (w_db w)))), w)"
  by (simp add: cache_exact_get_def run_simps)

lemma cache_exact_put_run:
  "\<not> w_locked w \<Longrightarrow> cache_exact_put E h p r w = (Ok (), w\<lparr>w_ticks := Suc (w_ticks w),
     w_db := (w_db w)\<lparr>t_prompt_cache := upsert_row ca_key merge_cache
       \<lparr>ca_key = h, ca_provider = p, ca_response = r, ca_created_at = E_time E (w_ticks w)\<rparr>
       (t_prompt_cache (w_db w))\<rparr>\<rparr>)"
  by (cases w) (simp add: cache_exact_put_def run_simps)

lemma cache_prefix_get_run:
  "\<not> w_locked w \<Longrightarrow> cache_prefix_get prompt w = (Ok (case order_desc (\<lambda>r. chars_count (ca_key r))
       (filter (prefix_row_matches prompt) (t_prefix_cache (w_db w))) of
       [] \<Rightarrow> None | r # _ \<Rightarrow> Some (ca_provider r, ca_response r)), w)"
  by (simp add: cache_prefix_get_def run_simps)

lemma cache_prefix_put_run:
  "\<not> w_locked w \<Longrightarrow> cache_prefix_put E pre p r w = (Ok (), w\<lparr>w_ticks := Suc (w_ticks w),
     w_db := (w_db w)\<lparr>t_prefix_cache := upsert_row ca_key merge_cache
       \<lparr>ca_key = pre, ca_provider = p, ca_response = r, ca_created_at = E_time E (w_ticks w)\<rparr>
       (t_prefix_cache (w_db w))\<rparr>\<rparr>)"
  by (cases w) (simp add: cache_prefix_put_def run_simps)

text \<open>The final \<open>%\<close> matches any rest, so a literal prefix always matches.\<close>

lemma like_any: "like_match [''%''] ts"
  by (induction ts) simp_all

lemma like_any_suffix: "like_match ps ts \<Longrightarrow> like_match (''%'' # ps) (us @ ts)"
  by (induction us) (simp_all split: list.splits)

lemma like_literal: "like_match (ps @ [''%'']) (ps @ ts)"
proof (induction ps)
  case Nil
  then show ?case by (simp add: like_any del: like_match.simps)
next
  case (Cons p ps)
  show ?case
  proof (cases "p = ''%''")
    case True
    then show ?thesis using like_any_suffix [OF Cons.IH, of "[p]"] by simp
  next
    case False
    then show ?thesis using Cons.IH by simp
  qed
qed

lemma percent_clean: "starts_clean ''%''"
  by (simp add: starts_clean_def is_cont_def byte_def)

lemma prefix_row_matches_literal:
  assumes "starts_clean rest"
  shows "prefix_row_matches (ca_key r @ rest) r"
  using like_literal [of "chars (ca_key r)" "chars rest"]
  by (simp add: prefix_row_matches_def chars_append_clean assms percent_clean)

lemma order_desc_hd:
  assumes "order_desc k xs = r # rest"
  shows "r \<in> set xs \<and> (\<forall>x\<in>set xs. k x \<le> k r)"
proof -
  have "set (r # rest) = set xs" using assms set_order_desc [of k xs] by simp
  moreover have "sorted_wrt (\<lambda>a b. k b \<le> k a) (r # rest)" using assms order_desc_sorted [of k xs] by simp
  ultimately show ?thesis by auto
qed

lemma order_desc_exists: "x \<in> set xs \<Longrightarrow> \<exists>r rest. order_desc k xs = r # rest"
  by (metis length_order_desc length_pos_if_in_set less_irrefl list.exhaust list.size(3))

section \<open>Memory lemmas\<close>

lemma returns_memory_records: "returns (traverse_res (memory_record_of_row E em fp) rows)"
  by (intro returns_traverse_res) (simp add: memory_record_of_row_def returns_bind_res)

lemma query_memory_run:
  "\<not> w_locked w \<Longrightarrow> query_memory E em q w =
     (map_res (\<lambda>records. take (max (mq_limit q) 1) (order_desc mr_score records))
       (traverse_res (memory_record_of_row E em (fingerprint E (mq_query q)))
          (memory_candidates (mq_namespace q) (w_db w))), w)"
  using returns_memory_records [of E em "fingerprint E (mq_query q)" "memory_candidates (mq_namespace q) (w_db w)"]
  by (cases "traverse_res (memory_record_of_row E em (fingerprint E (mq_query q)))
               (memory_candidates (mq_namespace q) (w_db w))")
     (simp_all add: query_memory_def run_simps)

lemma memory_record_fields:
  "memory_record_of_row E em fp r = Ok rec \<Longrightarrow>
     mr_key rec = vm_key r \<and> mr_namespace rec = vm_namespace r \<and>
     mr_score rec = similarity fp (vm_fingerprint r) \<and> mr_created_at rec = vm_created_at r \<and>
     unseal_text E em ''failed to decode encrypted memory blob'' (vm_blob_json r) = Ok (mr_content rec)"
  by (auto simp: memory_record_of_row_def)

lemma traverse_res_set:
  "traverse_res f xs = Ok ys \<Longrightarrow> y \<in> set ys \<Longrightarrow> \<exists>x\<in>set xs. f x = Ok y"
  by (induction xs arbitrary: ys) auto

lemma traverse_res_set2:
  "traverse_res f xs = Ok ys \<Longrightarrow> x \<in> set xs \<Longrightarrow> \<exists>y\<in>set ys. f x = Ok y"
  by (induction xs arbitrary: ys) auto

lemma memory_candidates_set:
  "set (memory_candidates ns d) \<subseteq> {r \<in> set (t_vector_memory d). vm_namespace r = ns}"
  by (auto simp: memory_candidates_def dest: in_set_takeD)

lemma memory_candidates_all:
  "length (filter (\<lambda>r. vm_namespace r = ns) (t_vector_memory d)) \<le> 256 \<Longrightarrow>
     set (memory_candidates ns d) = {r \<in> set (t_vector_memory d). vm_namespace r = ns}"
  by (simp add: memory_candidates_def)

section \<open>Properties\<close>

text \<open>
  The exact cache is a map: what was put under a hash is what the next lookup of that hash gives,
  replacing any earlier entry, and no other hash's entry changes.
\<close>

theorem cache_exact_put_get:
  assumes "\<not> w_locked w" and "cache_exact_put E h p r w = (res, w')"
  shows "res = Ok () \<and> fst (cache_exact_get h w') = Ok (Some (p, r))
    \<and> (\<forall>h'. h' \<noteq> h \<longrightarrow> fst (cache_exact_get h' w') = fst (cache_exact_get h' w))"
proof -
  let ?row = "\<lparr>ca_key = h, ca_provider = p, ca_response = r, ca_created_at = E_time E (w_ticks w)\<rparr>"
  let ?t = "upsert_row ca_key merge_cache ?row (t_prompt_cache (w_db w))"
  have w': "res = Ok ()" "\<not> w_locked w'" "t_prompt_cache (w_db w') = ?t"
    using assms by (auto simp: cache_exact_put_run)
  have "\<exists>row. lookup_row ca_key h ?t = Some row \<and> ca_provider row = p \<and> ca_response row = r"
    using cache.upsert_lookup_same [of ?row "t_prompt_cache (w_db w)"]
    by (simp add: merge_cache_def split: option.splits)
  moreover have "lookup_row ca_key h' ?t = lookup_row ca_key h' (t_prompt_cache (w_db w))" if "h' \<noteq> h" for h'
    using cache.upsert_lookup_other [of h' ?row "t_prompt_cache (w_db w)"] that by simp
  ultimately show ?thesis using w' assms(1) by (auto simp: cache_exact_get_run)
qed

theorem cache_exact_put_get_witness:
  "fst (cache_exact_get ''h'' (snd (cache_exact_put demo_env ''h'' ''ollama'' ''hi'' boot_world))) = Ok (Some (''ollama'', ''hi''))"
  using cache_exact_put_get [of boot_world demo_env "''h''" "''ollama''" "''hi''" _
      "snd (cache_exact_put demo_env ''h'' ''ollama'' ''hi'' boot_world)"]
  by (simp add: prod_eq_iff)

lemma longest_prefix_answers:
  assumes "\<not> w_locked w" and "row \<in> set (t_prefix_cache (w_db w))"
    and "prompt = ca_key row @ rest" and "starts_clean rest"
  shows "\<exists>best. cache_prefix_get prompt w = (Ok (Some (ca_provider best, ca_response best)), w)
    \<and> best \<in> set (t_prefix_cache (w_db w)) \<and> prefix_row_matches prompt best
    \<and> chars_count (ca_key row) \<le> chars_count (ca_key best)"
proof -
  let ?rows = "filter (prefix_row_matches prompt) (t_prefix_cache (w_db w))"
  have row: "row \<in> set ?rows"
    using assms(2) prefix_row_matches_literal [OF assms(4), of row] assms(3) by simp
  obtain best others where best: "order_desc (\<lambda>r. chars_count (ca_key r)) ?rows = best # others"
    using order_desc_exists [OF row] by blast
  from order_desc_hd [OF best] row
  have "best \<in> set ?rows" "chars_count (ca_key row) \<le> chars_count (ca_key best)" by auto
  then show ?thesis using best assms(1) by (auto simp: cache_prefix_get_run)
qed

text \<open>
  The prefix cache answers with the longest entry that matches: if any stored prefix literally
  begins the prompt there is an answer, and it is the response of a matching entry at least as
  long as every such prefix.
\<close>

theorem cache_prefix_get_longest:
  assumes "\<not> w_locked w" and "row \<in> set (t_prefix_cache (w_db w))"
    and "prompt = ca_key row @ rest" and "starts_clean rest"
  shows "\<exists>best. cache_prefix_get prompt w = (Ok (Some (ca_provider best, ca_response best)), w)
    \<and> best \<in> set (t_prefix_cache (w_db w)) \<and> prefix_row_matches prompt best
    \<and> chars_count (ca_key row) \<le> chars_count (ca_key best)"
  by (rule longest_prefix_answers [OF assms])

theorem cache_prefix_get_longest_witness:
  "\<exists>w :: world. \<exists>best :: cache_row. cache_prefix_get ''abcd'' w = (Ok (Some (ca_provider best, ca_response best)), w)"
proof -
  let ?row = "\<lparr>ca_key = ''ab'', ca_provider = ''p'', ca_response = ''r'', ca_created_at = 0\<rparr>"
  let ?w = "boot_world\<lparr>w_db := empty_store\<lparr>t_prefix_cache := [?row]\<rparr>\<rparr>"
  have "\<not> w_locked ?w" "?row \<in> set (t_prefix_cache (w_db ?w))" "''abcd'' = ca_key ?row @ ''cd''"
    "starts_clean ''cd''" by (simp_all add: starts_clean_def is_cont_def byte_def)
  from cache_prefix_get_longest [OF this] show ?thesis by blast
qed

lemma like_underscores: "like_match (replicate n ''_'' @ [''%'']) ts \<longleftrightarrow> n \<le> length ts"
proof (induction n arbitrary: ts)
  case 0
  then show ?case using like_any by (simp del: like_match.simps)
next
  case (Suc n)
  then show ?case by (cases ts) simp_all
qed

lemma chars_underscores: "chars (replicate n (CHR ''_'') @ ''%'') = replicate n ''_'' @ [''%'']"
proof -
  have "chars (replicate n (CHR ''_'')) = replicate n ''_''"
    by (induction n) (auto simp: is_cont_def byte_def takeWhile_eq_Nil_iff hd_replicate dropWhile_eq_self_iff)
  then show ?thesis by (simp add: chars_append_clean percent_clean)
qed

text \<open>
  The stored prefix is used as a \<open>LIKE\<close> pattern without escaping, so the entry returned need
  not begin the prompt: a cached prefix of underscores answers every prompt of at least its
  length.
\<close>

theorem prefix_cache_wildcard:
  assumes "\<not> w_locked w" and "t_prefix_cache (w_db w) = []"
  shows "fst (cache_prefix_get prompt (snd (cache_prefix_put E (replicate n (CHR ''_'')) p r w))) =
    Ok (if n \<le> chars_count prompt then Some (p, r) else None)"
proof -
  let ?k = "replicate n (CHR ''_'')"
  let ?row = "\<lparr>ca_key = ?k, ca_provider = p, ca_response = r, ca_created_at = E_time E (w_ticks w)\<rparr>"
  have "prefix_row_matches prompt ?row \<longleftrightarrow> n \<le> chars_count prompt"
    using like_underscores [of n "chars prompt"]
    by (simp add: prefix_row_matches_def chars_underscores chars_count_def del: like_match.simps)
  then show ?thesis
    using assms
    by (simp add: cache_prefix_put_run cache_prefix_get_run upsert_row_def has_key_def insert_row_def
        order_desc_def del: like_match.simps)
qed

theorem prefix_cache_wildcard_witness:
  "fst (cache_prefix_get ''completely different''
     (snd (cache_prefix_put demo_env ''____'' ''p'' ''answer'' boot_world))) = Ok (Some (''p'', ''answer''))"
  using prefix_cache_wildcard [of boot_world "''completely different''" demo_env 4 "''p''" "''answer''"]
  by (simp add: chars_count_def is_cont_def byte_def numeral_eq_Suc)

text \<open>
  A memory query returns only entries of its namespace, at most \<open>limit\<close> of them (at least one
  is allowed), in order of descending similarity to the query, each with the decrypted content of
  its row; and of at most 256 entries it drops a row only for rows that score at least as high.
\<close>

theorem query_memory_ranked:
  assumes "\<not> w_locked w" and "query_memory E em q w = (Ok records, w')"
  shows "w' = w \<and> length records \<le> max (mq_limit q) 1
    \<and> sorted_wrt (\<lambda>a b. mr_score b \<le> mr_score a) records
    \<and> (\<forall>rec\<in>set records. \<exists>r\<in>set (t_vector_memory (w_db w)). vm_namespace r = mq_namespace q
         \<and> memory_record_of_row E em (fingerprint E (mq_query q)) r = Ok rec)
    \<and> (length (filter (\<lambda>r. vm_namespace r = mq_namespace q) (t_vector_memory (w_db w))) \<le> 256 \<longrightarrow>
         (\<forall>r\<in>set (t_vector_memory (w_db w)). vm_namespace r = mq_namespace q \<longrightarrow>
           (\<exists>rec. memory_record_of_row E em (fingerprint E (mq_query q)) r = Ok rec \<and>
              (rec \<in> set records \<or> (\<forall>rec'\<in>set records. mr_score rec \<le> mr_score rec')))))"
proof -
  let ?f = "memory_record_of_row E em (fingerprint E (mq_query q))"
  let ?rows = "memory_candidates (mq_namespace q) (w_db w)"
  let ?n = "max (mq_limit q) 1"
  obtain all where all: "traverse_res ?f ?rows = Ok all" and w': "w' = w"
      and recs: "records = take ?n (order_desc mr_score all)"
    using assms by (cases "traverse_res ?f ?rows") (auto simp: query_memory_run)
  have sorted: "sorted_wrt (\<lambda>a b. mr_score b \<le> mr_score a) (order_desc mr_score all)"
    by (rule order_desc_sorted)
  have from_all: "set records \<subseteq> set all" using recs set_order_desc [of mr_score all] by (metis set_take_subset)
  have rest: "rec \<in> set records \<or> (\<forall>rec'\<in>set records. mr_score rec \<le> mr_score rec')" if "rec \<in> set all" for rec
  proof -
    have "rec \<in> set (take ?n (order_desc mr_score all) @ drop ?n (order_desc mr_score all))"
      using that by simp
    then show ?thesis using sorted unfolding recs
      by (metis (no_types, lifting) Un_iff append_take_drop_id set_append sorted_wrt_append)
  qed
  have "\<exists>r\<in>set (t_vector_memory (w_db w)). vm_namespace r = mq_namespace q \<and> ?f r = Ok rec"
    if "rec \<in> set records" for rec
    using traverse_res_set [OF all, of rec] from_all that memory_candidates_set [of "mq_namespace q" "w_db w"] by blast
  moreover have "\<exists>rec. ?f r = Ok rec \<and> (rec \<in> set records \<or> (\<forall>rec'\<in>set records. mr_score rec \<le> mr_score rec'))"
    if "length (filter (\<lambda>r. vm_namespace r = mq_namespace q) (t_vector_memory (w_db w))) \<le> 256"
      "r \<in> set (t_vector_memory (w_db w))" "vm_namespace r = mq_namespace q" for r
  proof -
    have "r \<in> set ?rows" using memory_candidates_all [OF that(1)] that(2,3) by blast
    then show ?thesis using traverse_res_set2 [OF all] rest by blast
  qed
  ultimately show ?thesis using w' recs sorted_wrt_take [OF sorted, of ?n] by simp
qed

theorem query_memory_ranked_witness:
  "snd (query_memory demo_env demo_manager \<lparr>mq_namespace = ''n'', mq_query = ''q'', mq_limit = 4, mq_filter_json = ''{}''\<rparr> boot_world) = boot_world"
  using query_memory_ranked [of boot_world demo_env em
      "\<lparr>mq_namespace = ''n'', mq_query = ''q'', mq_limit = 4, mq_filter_json = ''{}''\<rparr>" "[]" boot_world]
  by (simp add: query_memory_run memory_candidates_def order_desc_def)



end
