(* ===== verification/Sessions.thy ===== *)
theory Sessions
  imports Store
begin

text \<open>
  Sessions and pairings of \<open>StateStore\<close> (\<open>engine/src/lib.rs\<close>): resolving the session
  of a message, recording messages in it, listing and pruning sessions, and the approval of
  senders. Every operation takes the connection mutex; \<open>ensure_pairing\<close> takes it twice.
\<close>

section \<open>Rows and records\<close>

definition session_record_of_row :: "session_row \<Rightarrow> session_record" where
  "session_record_of_row r = \<lparr>s_id = sr_session_id r, s_connector = sr_connector r,
     s_channel_id = sr_channel_id r, s_participant = sr_participant r,
     s_session_type = sr_session_type r, s_title = sr_title r, s_status = sr_status r,
     s_reply_mode = sr_reply_mode r, s_queue_mode = sr_queue_mode r,
     s_model_profile = sr_model_profile r, s_mention_only = sr_mention_only r,
     s_pending_pairing = sr_pending_pairing r, s_last_message_preview = sr_last_message_preview r,
     s_message_count = word_of_int (sr_message_count r), s_created_at = sr_created_at r,
     s_updated_at = sr_updated_at r\<rparr>"

definition pairing_record_of_row :: "pairing_row \<Rightarrow> pairing_record" where
  "pairing_record_of_row r = \<lparr>p_id = pg_pairing_id r, p_connector = pg_connector r,
     p_channel_id = pg_channel_id r, p_sender = pg_sender r, p_session_id = pg_session_id r,
     p_status = pg_status r, p_reason = pg_reason r, p_created_at = pg_created_at r,
     p_updated_at = pg_updated_at r\<rparr>"

definition session_target :: "session_row \<Rightarrow> string \<times> string \<times> string" where
  "session_target r = (sr_connector r, sr_channel_id r, sr_participant r)"

definition pairing_target :: "pairing_row \<Rightarrow> string \<times> string \<times> string" where
  "pairing_target r = (pg_connector r, pg_channel_id r, pg_sender r)"

section \<open>Resolving sessions\<close>

definition lookup_connector :: "app_config \<Rightarrow> string \<Rightarrow> connector_config" where
  "lookup_connector config name =
     (case bt_get (cfg_connectors config) name of None \<Rightarrow> derived_connector | Some c \<Rightarrow> c)"

definition new_session_row ::
  "app_config \<Rightarrow> string \<Rightarrow> string \<Rightarrow> string \<Rightarrow> string \<Rightarrow> string \<Rightarrow> instant \<Rightarrow> string \<Rightarrow> session_row" where
  "new_session_row config connector_name channel_id participant session_type profile now uuid =
     \<lparr>sr_session_id = ''session-'' @ uuid, sr_connector = connector_name, sr_channel_id = channel_id,
      sr_participant = participant, sr_session_type = session_type,
      sr_title = (if session_type = ''group'' then connector_name @ '':'' @ channel_id else participant),
      sr_status = ''active'',
      sr_reply_mode = ses_default_reply_mode (cfg_sessions config),
      sr_queue_mode = ses_default_queue_mode (cfg_sessions config),
      sr_model_profile = profile,
      sr_mention_only = (session_type = ''group'' \<and> (rc_mention_only_in_groups (cfg_routing config)
         \<or> cc_mention_only (lookup_connector config connector_name))),
      sr_pending_pairing = False, sr_archived = False, sr_last_message_preview = [],
      sr_message_count = 0, sr_created_at = now, sr_updated_at = now\<rparr>"

definition insert_session :: "session_row \<Rightarrow> store \<Rightarrow> store option" where
  "insert_session r d =
     (if has_key sr_session_id (sr_session_id r) (t_sessions d)
         \<or> has_key session_target (session_target r) (t_sessions d) then None
      else Some (d\<lparr>t_sessions := insert_row r (t_sessions d)\<rparr>))"

definition resolve_session_internal ::
  "env \<Rightarrow> string \<Rightarrow> string \<Rightarrow> string \<Rightarrow> string \<Rightarrow> app_config \<Rightarrow> string \<Rightarrow> session_record io" where
  "resolve_session_internal E connector_name channel_id participant session_type config profile =
     with_conn (
       andthen (sql_query (\<lambda>d. lookup_row session_target (connector_name, channel_id, participant)
                                 (t_sessions d))) (\<lambda>found.
       case found of
         Some r \<Rightarrow> ret (session_record_of_row r)
       | None \<Rightarrow>
           andthen (utc_now E) (\<lambda>now.
           andthen (new_uuid E) (\<lambda>uuid.
           let r = new_session_row config connector_name channel_id participant session_type profile now uuid
           in andthen (sql_try ''sessions'' (insert_session r)) (\<lambda>_.
              ret (session_record_of_row r))))))"

definition inbound_participant :: "env \<Rightarrow> message_envelope \<Rightarrow> string" where
  "inbound_participant E m =
     (if infer_session_type E m = ''group'' then me_channel_id m else me_sender m)"

definition resolve_session_for_inbound ::
  "env \<Rightarrow> message_envelope \<Rightarrow> app_config \<Rightarrow> string \<Rightarrow> session_record io" where
  "resolve_session_for_inbound E m config profile =
     resolve_session_internal E (me_connector m) (me_channel_id m) (inbound_participant E m)
       (infer_session_type E m) config profile"

definition live_sessions_at :: "string \<Rightarrow> string \<Rightarrow> store \<Rightarrow> session_row list" where
  "live_sessions_at connector_name channel_id d = order_desc sr_updated_at
     (filter (\<lambda>r. sr_connector r = connector_name \<and> sr_channel_id r = channel_id \<and> \<not> sr_archived r)
        (t_sessions d))"

definition resolve_session_for_outbound ::
  "env \<Rightarrow> string \<Rightarrow> string \<Rightarrow> string \<Rightarrow> app_config \<Rightarrow> session_record io" where
  "resolve_session_for_outbound E connector_name channel_id sender config =
     andthen (with_conn (sql_query (live_sessions_at connector_name channel_id))) (\<lambda>rows.
     case rows of
       r # _ \<Rightarrow> ret (session_record_of_row r)
     | [] \<Rightarrow> resolve_session_internal E connector_name channel_id
               (if sender = [] then channel_id else sender) ''direct'' config
               (mf_default_profile (cfg_model_failover config)))"

definition session_by_id :: "string \<Rightarrow> session_record io" where
  "session_by_id session_id = with_conn (
     andthen (sql_query (\<lambda>d. lookup_row sr_session_id session_id (t_sessions d))) (\<lambda>found.
     lift_res (map_res session_record_of_row
       (of_option (Msg (''session '' @ session_id @ '' not found'')) found))))"

section \<open>Messages of a session\<close>

definition touch_session :: "string \<Rightarrow> instant \<Rightarrow> session_row \<Rightarrow> session_row" where
  "touch_session preview now r = r\<lparr>sr_last_message_preview := preview,
     sr_message_count := sr_message_count r + 1, sr_status := ''active'', sr_updated_at := now\<rparr>"

definition record_session_message ::
  "env \<Rightarrow> string \<Rightarrow> string \<Rightarrow> string \<Rightarrow> string \<Rightarrow> string \<Rightarrow> string \<Rightarrow> string io" where
  "record_session_message E session_id connector_name role sender body metadata_json =
     andthen (new_uuid E) (\<lambda>uuid.
     andthen (utc_now E) (\<lambda>now.
     let message_id = ''session-message-'' @ uuid;
         preview = truncate_with_ellipsis body 120
     in with_conn (
       andthen (sql_try ''session_messages'' (\<lambda>d. map_option (\<lambda>t. d\<lparr>t_session_messages := t\<rparr>)
         (insert_unique sm_id \<lparr>sm_id = message_id, sm_session_id = session_id,
            sm_connector = connector_name, sm_role = role, sm_sender = sender, sm_body = body,
            sm_metadata_json = metadata_json, sm_created_at = now\<rparr> (t_session_messages d)))) (\<lambda>_.
       andthen (sql_exec (\<lambda>d. d\<lparr>t_sessions := update_where (\<lambda>r. sr_session_id r = session_id)
         (touch_session preview now) (t_sessions d)\<rparr>)) (\<lambda>_.
       ret message_id)))))"

definition session_listed :: "session_list_query \<Rightarrow> session_record \<Rightarrow> bool" where
  "session_listed q s \<longleftrightarrow>
     (slq_include_archived q \<or> s_status s \<noteq> ''archived'')
     \<and> (case slq_connector q of None \<Rightarrow> True | Some c \<Rightarrow> s_connector s = c)
     \<and> (case slq_status q of None \<Rightarrow> True | Some st \<Rightarrow> s_status s = st)"

definition list_sessions :: "session_list_query \<Rightarrow> session_record list io" where
  "list_sessions q = with_conn (sql_query (\<lambda>d.
     take (max (slq_limit q) 1) (filter (session_listed q)
       (map session_record_of_row (take 512 (order_desc sr_updated_at (t_sessions d)))))))"

definition get_session_detail :: "session_detail_query \<Rightarrow> session_detail io" where
  "get_session_detail q =
     andthen (session_by_id (sdq_session_id q)) (\<lambda>session.
     with_conn (sql_query (\<lambda>d. \<lparr>sd_session = session,
       sd_messages = rev (sql_limit (usize_as_i64 (max (sdq_limit q) 1))
         (order_desc sm_created_at (filter (\<lambda>m. sm_session_id m = sdq_session_id q)
            (t_session_messages d))))\<rparr>)))"

section \<open>Pruning\<close>

text \<open>
  The instants \<open>chrono\<close> can represent, and \<open>DateTime - Duration\<close>, which panics outside
  them.
\<close>

definition chrono_min :: instant where
  "chrono_min = - 8334601228800 * 1000000000"

definition chrono_max :: instant where
  "chrono_max = 8210266876799 * 1000000000 + 999999999"

definition chrono_sub :: "instant \<Rightarrow> int \<Rightarrow> instant res" where
  "chrono_sub t d = (if chrono_min \<le> t - d \<and> t - d \<le> chrono_max then Ok (t - d) else Panic)"

definition prune_threshold :: "env \<Rightarrow> session_prune_request \<Rightarrow> instant io" where
  "prune_threshold E req =
     andthen (utc_now E) (\<lambda>now.
     lift_res (chrono_sub now (max (uint (sp_older_than_hours req)) 1 * ns_per_hour)))"

definition archivable :: "instant \<Rightarrow> session_row \<Rightarrow> bool" where
  "archivable threshold r \<longleftrightarrow> sr_updated_at r < threshold \<and> sr_status r \<noteq> ''archived''"

definition archive_session :: "instant \<Rightarrow> session_row \<Rightarrow> session_row" where
  "archive_session now r = r\<lparr>sr_status := ''archived'', sr_archived := True, sr_updated_at := now\<rparr>"

definition expired_ids :: "instant \<Rightarrow> store \<Rightarrow> string list" where
  "expired_ids threshold d = map sr_session_id (filter (\<lambda>r. sr_updated_at r < threshold) (t_sessions d))"

definition prune_sessions :: "env \<Rightarrow> session_prune_request \<Rightarrow> 32 word io" where
  "prune_sessions E req =
     andthen (prune_threshold E req) (\<lambda>threshold.
     with_conn (
       if sp_archive_only req then
         andthen (utc_now E) (\<lambda>now.
         andthen (sql_query (\<lambda>d. count_where (archivable threshold) (t_sessions d))) (\<lambda>changed.
         andthen (sql_exec (\<lambda>d. d\<lparr>t_sessions :=
           update_where (archivable threshold) (archive_session now) (t_sessions d)\<rparr>)) (\<lambda>_.
         ret (of_nat changed))))
       else
         andthen (sql_exec (\<lambda>d. d\<lparr>t_session_messages := delete_where
           (\<lambda>m. sm_session_id m \<in> set (expired_ids threshold d)) (t_session_messages d)\<rparr>)) (\<lambda>_.
         andthen (sql_query (\<lambda>d. count_where (\<lambda>r. sr_updated_at r < threshold) (t_sessions d))) (\<lambda>changed.
         andthen (sql_exec (\<lambda>d. d\<lparr>t_sessions :=
           delete_where (\<lambda>r. sr_updated_at r < threshold) (t_sessions d)\<rparr>)) (\<lambda>_.
         ret (of_nat changed))))))"

section \<open>Pairings\<close>

definition merge_pairing :: "pairing_row \<Rightarrow> pairing_row \<Rightarrow> pairing_row" where
  "merge_pairing old new = old\<lparr>pg_session_id := pg_session_id new, pg_status := pg_status new,
     pg_reason := pg_reason new, pg_updated_at := pg_updated_at new\<rparr>"

interpretation pairing_rows: upsert_table pairing_target merge_pairing
  by unfold_locales (simp add: merge_pairing_def pairing_target_def)

definition pairing_listed :: "pairing_list_query \<Rightarrow> pairing_record \<Rightarrow> bool" where
  "pairing_listed q p \<longleftrightarrow>
     (case plq_status q of None \<Rightarrow> True | Some st \<Rightarrow> p_status p = st)
     \<and> (case plq_connector q of None \<Rightarrow> True | Some c \<Rightarrow> p_connector p = c)"

definition list_pairings :: "pairing_list_query \<Rightarrow> pairing_record list io" where
  "list_pairings q = with_conn (sql_query (\<lambda>d.
     take (max (plq_limit q) 1) (filter (pairing_listed q)
       (map pairing_record_of_row (take 512 (order_desc pg_updated_at (t_pairings d)))))))"

definition pairing_for_target :: "string \<Rightarrow> string \<Rightarrow> string \<Rightarrow> pairing_record io" where
  "pairing_for_target connector_name channel_id sender = with_conn (
     andthen (sql_query (\<lambda>d. lookup_row pairing_target (connector_name, channel_id, sender)
                               (t_pairings d))) (\<lambda>found.
     lift_res (map_res pairing_record_of_row (of_option
       (Msg (''pairing not found for '' @ connector_name @ '':'' @ channel_id @ '':'' @ sender)) found))))"

definition upsert_pairing :: "pairing_row \<Rightarrow> store \<Rightarrow> store option" where
  "upsert_pairing r d =
     map_option (\<lambda>t. d\<lparr>t_pairings := t\<rparr>)
       (upsert_unique pairing_target merge_pairing pg_pairing_id r (t_pairings d))"

definition new_pairing_row ::
  "string \<Rightarrow> string \<Rightarrow> string \<Rightarrow> string \<Rightarrow> string \<Rightarrow> instant \<Rightarrow> string \<Rightarrow> pairing_row" where
  "new_pairing_row connector_name channel_id sender session_id reason now uuid =
     \<lparr>pg_pairing_id = ''pairing-'' @ uuid, pg_connector = connector_name, pg_channel_id = channel_id,
      pg_sender = sender, pg_session_id = session_id, pg_status = ''pending'', pg_reason = reason,
      pg_note = [], pg_created_at = now, pg_updated_at = now\<rparr>"

text \<open>The last call runs while the guard of this function is still held.\<close>

definition ensure_pairing ::
  "env \<Rightarrow> string \<Rightarrow> string \<Rightarrow> string \<Rightarrow> string \<Rightarrow> string \<Rightarrow> pairing_record io" where
  "ensure_pairing E connector_name channel_id sender session_id reason =
     andthen (utc_now E) (\<lambda>now.
     andthen (new_uuid E) (\<lambda>uuid.
     with_conn (
       andthen (sql_try ''pairings'' (upsert_pairing
         (new_pairing_row connector_name channel_id sender session_id reason now uuid))) (\<lambda>_.
       pairing_for_target connector_name channel_id sender))))"

definition pairing_status_of_action :: "string \<Rightarrow> string" where
  "pairing_status_of_action action =
     (if action \<in> {''approve'', ''approved''} then ''approved''
      else if action \<in> {''revoke'', ''revoked''} then ''revoked''
      else if action = ''pending'' then ''pending''
      else action)"

definition update_pairing :: "env \<Rightarrow> pairing_update \<Rightarrow> pairing_record io" where
  "update_pairing E req =
     (let status = pairing_status_of_action (pu_action req) in
      andthen (utc_now E) (\<lambda>now.
      with_conn (
        andthen (sql_exec (\<lambda>d. d\<lparr>t_pairings := update_where (\<lambda>r. pg_pairing_id r = pu_pairing_id req)
          (\<lambda>r. r\<lparr>pg_status := status, pg_note := pu_note req, pg_updated_at := now\<rparr>) (t_pairings d)\<rparr>)) (\<lambda>_.
        andthen (sql_query (\<lambda>d. lookup_row pg_pairing_id (pu_pairing_id req) (t_pairings d))) (\<lambda>found.
        andthen (lift_res (map_res pairing_record_of_row (of_option
          (Msg (''pairing '' @ pu_pairing_id req @ '' not found'')) found))) (\<lambda>pairing.
        andthen (utc_now E) (\<lambda>now2.
        andthen (sql_exec (\<lambda>d. d\<lparr>t_sessions := update_where (\<lambda>r. sr_session_id r = p_session_id pairing)
          (\<lambda>r. r\<lparr>sr_pending_pairing := (status = ''pending''), sr_updated_at := now2\<rparr>) (t_sessions d)\<rparr>)) (\<lambda>_.
        ret pairing))))))))"

definition pairing_is_approved :: "string \<Rightarrow> string \<Rightarrow> string \<Rightarrow> bool io" where
  "pairing_is_approved connector_name channel_id sender =
     andthen (attempt (pairing_for_target connector_name channel_id sender)) (\<lambda>p.
     ret (case p of Inl _ \<Rightarrow> False | Inr record \<Rightarrow> p_status record = ''approved''))"

definition set_session_pending_pairing :: "env \<Rightarrow> string \<Rightarrow> bool \<Rightarrow> unit io" where
  "set_session_pending_pairing E session_id value = with_conn (
     andthen (utc_now E) (\<lambda>now.
     sql_exec (\<lambda>d. d\<lparr>t_sessions := update_where (\<lambda>r. sr_session_id r = session_id)
       (\<lambda>r. r\<lparr>sr_pending_pairing := value, sr_updated_at := now\<rparr>) (t_sessions d)\<rparr>)))"

definition clear_session_pending_pairing :: "env \<Rightarrow> string \<Rightarrow> unit io" where
  "clear_session_pending_pairing E session_id = set_session_pending_pairing E session_id False"

section \<open>Lock discipline\<close>

lemma safe_resolve_session_internal [safe_intros]:
  "safe (resolve_session_internal E c ch p st config prof)"
  unfolding resolve_session_internal_def Let_def by (intro safe_intros)

lemma safe_pairing_for_target [safe_intros]: "safe (pairing_for_target c ch s)"
  unfolding pairing_for_target_def by (intro safe_intros) (auto split: option.splits simp: of_option_def)

lemma returns_map_of_option [simp]: "returns (map_res f (of_option e x))"
  by (cases x) simp_all

lemma safe_session_by_id [safe_intros]: "safe (session_by_id i)"
  unfolding session_by_id_def by (intro safe_intros) simp

lemma safe_sessions [safe_intros]:
  "safe (resolve_session_for_inbound E m config prof)"
  "safe (record_session_message E sid c role sndr body md)"
  "safe (list_sessions slq)" "safe (get_session_detail sdq)" "safe (list_pairings plq)"
  "safe (update_pairing E pu)" "safe (pairing_is_approved c ch p)"
  "safe (set_session_pending_pairing E sid v)" "safe (clear_session_pending_pairing E sid)"
  unfolding resolve_session_for_inbound_def record_session_message_def list_sessions_def
    get_session_detail_def list_pairings_def update_pairing_def pairing_is_approved_def
    clear_session_pending_pairing_def set_session_pending_pairing_def Let_def
  by (intro safe_intros; simp)+

lemma safe_resolve_session_for_outbound [safe_intros]:
  "safe (resolve_session_for_outbound E c ch sndr config)"
proof -
  have "safe (case rows of r # _ \<Rightarrow> ret (session_record_of_row r)
     | [] \<Rightarrow> resolve_session_internal E c ch (if sndr = [] then ch else sndr) ''direct'' config
               (mf_default_profile (cfg_model_failover config)))" for rows
    by (cases rows) (simp_all add: safe_intros)
  then show ?thesis unfolding resolve_session_for_outbound_def by (intro safe_intros)
qed

text \<open>Pruning is safe as long as the threshold can be represented.\<close>

lemma prune_threshold_run:
  "prune_threshold E req w = (chrono_sub (E_time E (w_ticks w))
     (max (uint (sp_older_than_hours req)) 1 * ns_per_hour), w\<lparr>w_ticks := Suc (w_ticks w)\<rparr>)"
  by (simp add: prune_threshold_def run_simps)

section \<open>The keys of sessions and pairings\<close>

definition sessions_keys :: "store \<Rightarrow> bool" where
  "sessions_keys d \<longleftrightarrow> distinct_keys sr_session_id (t_sessions d)
     \<and> distinct_keys session_target (t_sessions d)
     \<and> distinct_keys sm_id (t_session_messages d)
     \<and> distinct_keys pg_pairing_id (t_pairings d)
     \<and> distinct_keys pairing_target (t_pairings d)"

lemma insert_session_keys: "sessions_keys d \<Longrightarrow> insert_session r d = Some d' \<Longrightarrow> sessions_keys d'"
  by (auto simp: insert_session_def sessions_keys_def distinct_keys_insert_row split: if_splits)

lemma upsert_pairing_keys: "sessions_keys d \<Longrightarrow> upsert_pairing r d = Some d' \<Longrightarrow> sessions_keys d'"
  using upsert_unique_ids [of pg_pairing_id "t_pairings d" pairing_target merge_pairing r]
  by (auto simp: upsert_pairing_def sessions_keys_def pairing_rows.upsert_distinct merge_pairing_def
      dest: upsert_unique_Some)

lemma update_sessions_keys:
  assumes "sessions_keys d" and "\<And>r. sr_session_id (f r) = sr_session_id r"
    and "\<And>r. session_target (f r) = session_target r"
  shows "sessions_keys (d\<lparr>t_sessions := update_where p f (t_sessions d)\<rparr>)"
  using assms by (simp add: sessions_keys_def distinct_keys_update_where)

lemma update_pairings_keys:
  assumes "sessions_keys d" and "\<And>r. pg_pairing_id (f r) = pg_pairing_id r"
    and "\<And>r. pairing_target (f r) = pairing_target r"
  shows "sessions_keys (d\<lparr>t_pairings := update_where p f (t_pairings d)\<rparr>)"
  using assms by (simp add: sessions_keys_def distinct_keys_update_where)

lemma insert_message_keys:
  "sessions_keys d \<Longrightarrow> insert_unique sm_id m (t_session_messages d) = Some t \<Longrightarrow>
     sessions_keys (d\<lparr>t_session_messages := t\<rparr>)"
  by (simp add: sessions_keys_def insert_unique_distinct)

lemma keeps_resolve_keys [keeps_intros]:
  "keeps sessions_keys (resolve_session_internal E c ch p st config prof)"
  unfolding resolve_session_internal_def Let_def
  by (intro keeps_intros) (rule insert_session_keys)

lemma keeps_ensure_pairing_keys [keeps_intros]:
  "keeps sessions_keys (ensure_pairing E c ch sndr sid reason)"
  unfolding ensure_pairing_def pairing_for_target_def
  by (intro keeps_intros) (rule upsert_pairing_keys)

lemma keeps_sessions_keys [keeps_intros]:
  "keeps sessions_keys (resolve_session_for_inbound E m config prof)"
  "keeps sessions_keys (record_session_message E sid c role sndr body md)"
  "keeps sessions_keys (set_session_pending_pairing E sid v)"
  "keeps sessions_keys (clear_session_pending_pairing E sid)"
  "keeps sessions_keys (pairing_for_target c ch sndr)"
  "keeps sessions_keys (pairing_is_approved c ch sndr)"
  unfolding resolve_session_for_inbound_def record_session_message_def
    set_session_pending_pairing_def clear_session_pending_pairing_def pairing_for_target_def
    pairing_is_approved_def Let_def
  by (intro keeps_intros update_sessions_keys; auto simp: touch_session_def session_target_def
      intro: insert_message_keys)+

lemma keeps_resolve_outbound_keys [keeps_intros]:
  "keeps sessions_keys (resolve_session_for_outbound E c ch sndr config)"
proof -
  have "keeps sessions_keys (case rows of r # _ \<Rightarrow> ret (session_record_of_row r)
     | [] \<Rightarrow> resolve_session_internal E c ch (if sndr = [] then ch else sndr) ''direct'' config
               (mf_default_profile (cfg_model_failover config)))" for rows
    by (cases rows) (simp_all add: keeps_intros)
  then show ?thesis unfolding resolve_session_for_outbound_def by (intro keeps_intros)
qed

lemma keeps_update_pairing_keys [keeps_intros]: "keeps sessions_keys (update_pairing E pu)"
  unfolding update_pairing_def Let_def
  by (intro keeps_intros update_sessions_keys update_pairings_keys)
     (simp_all add: session_target_def pairing_target_def)

lemma keeps_prune_keys [keeps_intros]: "keeps sessions_keys (prune_sessions E req)"
  unfolding prune_sessions_def prune_threshold_def
  by (intro keeps_intros update_sessions_keys)
     (auto simp: archive_session_def session_target_def sessions_keys_def distinct_keys_delete_where)

section \<open>How the operations run\<close>

lemma resolve_found_run:
  "\<not> w_locked w \<Longrightarrow> lookup_row session_target (c, ch, p) (t_sessions (w_db w)) = Some r \<Longrightarrow>
     resolve_session_internal E c ch p st config prof w = (Ok (session_record_of_row r), w)"
  by (simp add: resolve_session_internal_def run_simps)

lemma resolve_new_run:
  fixes E :: env and config :: app_config and st prof :: string
  assumes "\<not> w_locked w" and "lookup_row session_target (c, ch, p) (t_sessions (w_db w)) = None"
  defines "r \<equiv> new_session_row config c ch p st prof (E_time E (w_ticks w)) (E_uuid E (w_uuids w))"
  defines "w1 \<equiv> w\<lparr>w_ticks := Suc (w_ticks w), w_uuids := Suc (w_uuids w)\<rparr>"
  shows "resolve_session_internal E c ch p st config prof w =
    (case insert_session r (w_db w) of
       None \<Rightarrow> (Err (SqlUnique ''sessions''), w1)
     | Some d \<Rightarrow> (Ok (session_record_of_row r), w1\<lparr>w_db := d\<rparr>))"
  using assms(1,2) unfolding r_def w1_def
  by (cases w) (simp add: resolve_session_internal_def run_simps Let_def split: option.splits)

lemma resolve_cases:
  assumes "\<not> w_locked w" and "resolve_session_internal E c ch p st config prof w = (Ok s, w')"
  obtains (found) r where "lookup_row session_target (c, ch, p) (t_sessions (w_db w)) = Some r"
      "s = session_record_of_row r" "w' = w"
    | (fresh) r where "lookup_row session_target (c, ch, p) (t_sessions (w_db w)) = None"
      "r = new_session_row config c ch p st prof (E_time E (w_ticks w)) (E_uuid E (w_uuids w))"
      "s = session_record_of_row r" "\<not> has_key sr_session_id (sr_session_id r) (t_sessions (w_db w))"
      "w_db w' = (w_db w)\<lparr>t_sessions := insert_row r (t_sessions (w_db w))\<rparr>" "\<not> w_locked w'"
proof (cases "lookup_row session_target (c, ch, p) (t_sessions (w_db w))")
  case None
  let ?r = "new_session_row config c ch p st prof (E_time E (w_ticks w)) (E_uuid E (w_uuids w))"
  note run = resolve_new_run [OF assms(1) None, of E st config prof]
  show ?thesis
  proof (cases "insert_session ?r (w_db w)")
    case None
    then show ?thesis using run assms(2) by simp
  next
    case (Some d)
    have ok: "(Ok (session_record_of_row ?r), w\<lparr>w_ticks := Suc (w_ticks w), w_uuids := Suc (w_uuids w), w_db := d\<rparr>)
        = (Ok s, w')"
      using run assms(2) Some by simp
    have ins: "\<not> has_key sr_session_id (sr_session_id ?r) (t_sessions (w_db w))"
        "d = (w_db w)\<lparr>t_sessions := insert_row ?r (t_sessions (w_db w))\<rparr>"
      using Some by (simp_all add: insert_session_def split: if_splits)
    show ?thesis
    proof (rule fresh)
      show "lookup_row session_target (c, ch, p) (t_sessions (w_db w)) = None" by fact
      show "?r = ?r" by (rule refl)
      show "s = session_record_of_row ?r"
        using prod.inject [THEN iffD1, OF ok] by simp
      show "\<not> has_key sr_session_id (sr_session_id ?r) (t_sessions (w_db w))" by (rule ins(1))
      have w': "w' = w\<lparr>w_ticks := Suc (w_ticks w), w_uuids := Suc (w_uuids w), w_db := d\<rparr>"
        by (rule prod.inject [THEN iffD1, OF ok, THEN conjunct2, symmetric])
      show "w_db w' = (w_db w)\<lparr>t_sessions := insert_row ?r (t_sessions (w_db w))\<rparr>"
        unfolding w' ins(2) by simp
      show "\<not> w_locked w'" unfolding w' using assms(1) by simp
    qed
  qed
next
  case (Some r)
  have "(Ok (session_record_of_row r), w) = (Ok s, w')"
    using assms(2) resolve_found_run [OF assms(1) Some] by simp
  then show ?thesis using found [OF Some] by blast
qed

lemma session_target_new [simp]:
  "session_target (new_session_row config c ch p st prof now uuid) = (c, ch, p)"
  "sr_session_id (new_session_row config c ch p st prof now uuid) = ''session-'' @ uuid"
  by (simp_all add: session_target_def new_session_row_def)

lemma resolve_lookup:
  assumes "\<not> w_locked w" and "resolve_session_internal E c ch p st config prof w = (Ok s, w')"
  shows "\<not> w_locked w' \<and> (\<exists>r. lookup_row session_target (c, ch, p) (t_sessions (w_db w')) = Some r
    \<and> s = session_record_of_row r)"
  using assms
proof (cases rule: resolve_cases)
  case (found r)
  then show ?thesis using assms(1) by simp
next
  case (fresh r)
  have "\<not> has_key session_target (c, ch, p) (t_sessions (w_db w))"
    using fresh(1) by (simp add: lookup_row_None)
  then show ?thesis using fresh
    by (intro conjI exI [of _ r]) (simp_all add: lookup_row_insert_new)
qed

definition session_message ::
  "env \<Rightarrow> world \<Rightarrow> string \<Rightarrow> string \<Rightarrow> string \<Rightarrow> string \<Rightarrow> string \<Rightarrow> string \<Rightarrow> session_message_record" where
  "session_message E w sid c role sender body md =
     \<lparr>sm_id = ''session-message-'' @ E_uuid E (w_uuids w), sm_session_id = sid, sm_connector = c,
      sm_role = role, sm_sender = sender, sm_body = body, sm_metadata_json = md,
      sm_created_at = E_time E (w_ticks w)\<rparr>"

lemma record_session_message_run:
  fixes E :: env and sid c role sender body md :: string
  assumes "\<not> w_locked w"
  defines "m \<equiv> session_message E w sid c role sender body md"
  defines "w1 \<equiv> w\<lparr>w_uuids := Suc (w_uuids w), w_ticks := Suc (w_ticks w)\<rparr>"
  shows "record_session_message E sid c role sender body md w =
    (if has_key sm_id (sm_id m) (t_session_messages (w_db w))
     then (Err (SqlUnique ''session_messages''), w1)
     else (Ok (sm_id m), w1\<lparr>w_db := (w_db w)\<lparr>
       t_session_messages := insert_row m (t_session_messages (w_db w)),
       t_sessions := update_where (\<lambda>r. sr_session_id r = sid)
         (touch_session (truncate_with_ellipsis body 120) (E_time E (w_ticks w))) (t_sessions (w_db w))\<rparr>\<rparr>))"
  using assms(1) unfolding m_def w1_def
  by (cases w) (simp add: record_session_message_def session_message_def run_simps Let_def insert_unique_def)

lemma ensure_pairing_run:
  fixes E :: env and c ch p sid reason :: string
  assumes "\<not> w_locked w"
  defines "r \<equiv> new_pairing_row c ch p sid reason (E_time E (w_ticks w)) (E_uuid E (w_uuids w))"
  defines "w1 \<equiv> w\<lparr>w_ticks := Suc (w_ticks w), w_uuids := Suc (w_uuids w)\<rparr>"
  shows "ensure_pairing E c ch p sid reason w =
    (case upsert_pairing r (w_db w) of
       None \<Rightarrow> (Err (SqlUnique ''pairings''), w1)
     | Some d \<Rightarrow> (Deadlock, w1\<lparr>w_db := d, w_locked := True\<rparr>))"
  using assms(1) unfolding r_def w1_def
  by (cases w) (simp add: ensure_pairing_def pairing_for_target_def run_simps split: option.splits)

lemma prune_archive_run:
  assumes "\<not> w_locked w" and "sp_archive_only req"
    and "chrono_sub (E_time E (w_ticks w)) (max (uint (sp_older_than_hours req)) 1 * ns_per_hour) = Ok t"
  shows "prune_sessions E req w = (Ok (of_nat (count_where (archivable t) (t_sessions (w_db w)))),
    w\<lparr>w_ticks := Suc (Suc (w_ticks w)), w_db := (w_db w)\<lparr>t_sessions := update_where (archivable t)
      (archive_session (E_time E (Suc (w_ticks w)))) (t_sessions (w_db w))\<rparr>\<rparr>)"
  using assms by (cases w) (simp add: prune_sessions_def andthen_run prune_threshold_run run_simps)

lemma prune_delete_run:
  assumes "\<not> w_locked w" and "\<not> sp_archive_only req"
    and "chrono_sub (E_time E (w_ticks w)) (max (uint (sp_older_than_hours req)) 1 * ns_per_hour) = Ok t"
  shows "prune_sessions E req w = (Ok (of_nat (count_where (\<lambda>r. sr_updated_at r < t) (t_sessions (w_db w)))),
    w\<lparr>w_ticks := Suc (w_ticks w), w_db := (w_db w)\<lparr>
      t_session_messages := delete_where (\<lambda>m. sm_session_id m \<in> set (expired_ids t (w_db w)))
        (t_session_messages (w_db w)),
      t_sessions := delete_where (\<lambda>r. sr_updated_at r < t) (t_sessions (w_db w))\<rparr>\<rparr>)"
  using assms by (cases w) (simp add: prune_sessions_def andthen_run prune_threshold_run run_simps)

lemma prune_panic_run:
  assumes "chrono_sub (E_time E (w_ticks w)) (max (uint (sp_older_than_hours req)) 1 * ns_per_hour) = Panic"
  shows "fst (prune_sessions E req w) = Panic"
  using assms by (simp add: prune_sessions_def andthen_run prune_threshold_run)

section \<open>Message counts\<close>

definition message_counts_ok :: "store \<Rightarrow> bool" where
  "message_counts_ok d \<longleftrightarrow> (\<forall>r\<in>set (t_sessions d). sr_message_count r =
     int (count_where (\<lambda>m. sm_session_id m = sr_session_id r) (t_session_messages d)))"

lemma count_where_insert_row:
  "count_where p (insert_row x t) = (if p x then Suc (count_where p t) else count_where p t)"
  by (simp add: count_where_def insert_row_def)

lemma counts_record:
  assumes "message_counts_ok d" and "sm_session_id m = sid"
  shows "message_counts_ok (d\<lparr>t_session_messages := insert_row m (t_session_messages d),
    t_sessions := update_where (\<lambda>r. sr_session_id r = sid) (touch_session preview now) (t_sessions d)\<rparr>)"
  using assms
  by (auto simp: message_counts_ok_def set_update_where count_where_insert_row touch_session_def)

lemma counts_insert:
  assumes "message_counts_ok d" and "sr_message_count r = 0"
    and "\<forall>m\<in>set (t_session_messages d). sm_session_id m \<noteq> sr_session_id r"
  shows "message_counts_ok (d\<lparr>t_sessions := insert_row r (t_sessions d)\<rparr>)"
  using assms by (auto simp: message_counts_ok_def count_where_def filter_empty_conv)

lemma counts_delete:
  assumes "message_counts_ok d" and "distinct_keys sr_session_id (t_sessions d)"
  shows "message_counts_ok (d\<lparr>t_session_messages :=
      delete_where (\<lambda>m. sm_session_id m \<in> set (expired_ids t d)) (t_session_messages d),
    t_sessions := delete_where (\<lambda>r. sr_updated_at r < t) (t_sessions d)\<rparr>)"
proof -
  have "count_where (\<lambda>m. sm_session_id m = sr_session_id r)
      (delete_where (\<lambda>m. sm_session_id m \<in> set (expired_ids t d)) (t_session_messages d)) =
    count_where (\<lambda>m. sm_session_id m = sr_session_id r) (t_session_messages d)"
    if r: "r \<in> set (t_sessions d)" "\<not> sr_updated_at r < t" for r
  proof -
    have "sr_session_id r \<notin> set (expired_ids t d)"
      using r assms(2) by (auto simp: expired_ids_def distinct_keys_def distinct_map inj_on_def)
    then show ?thesis
      by (auto simp: count_where_def delete_where_def intro!: arg_cong [where f = length] filter_cong)
  qed
  with assms(1) show ?thesis by (auto simp: message_counts_ok_def set_delete_where)
qed

lemma counts_archive:
  "message_counts_ok d \<Longrightarrow> message_counts_ok (d\<lparr>t_sessions :=
     update_where p (archive_session now) (t_sessions d)\<rparr>)"
  by (auto simp: message_counts_ok_def set_update_where archive_session_def)

section \<open>Properties\<close>

lemma counts_resolve:
  assumes "message_counts_ok (w_db w)" and "\<not> w_locked w"
    and "\<forall>m\<in>set (t_session_messages (w_db w)). sm_session_id m \<noteq> ''session-'' @ E_uuid E (w_uuids w)"
    and "resolve_session_internal E c ch p st config prof w = (Ok s, w')"
  shows "message_counts_ok (w_db w')"
  using assms(2,4)
proof (cases rule: resolve_cases)
  case (found r)
  then show ?thesis using assms(1) by simp
next
  case (fresh r)
  have "sr_message_count r = 0" using fresh(2) by (simp add: new_session_row_def)
  then show ?thesis using assms(1,3) fresh(2,5) by (simp add: counts_insert)
qed

lemma counts_record_message:
  assumes "message_counts_ok (w_db w)" and "\<not> w_locked w"
  shows "message_counts_ok (w_db (snd (record_session_message E sid c role sender body md w)))"
  using assms
  by (simp add: record_session_message_run counts_record session_message_def)

lemma counts_prune:
  assumes "message_counts_ok (w_db w)" and "\<not> w_locked w" and "sessions_keys (w_db w)"
  shows "message_counts_ok (w_db (snd (prune_sessions E req w)))"
proof (cases "chrono_sub (E_time E (w_ticks w)) (max (uint (sp_older_than_hours req)) 1 * ns_per_hour)")
  case (Ok t)
  have d: "distinct_keys sr_session_id (t_sessions (w_db w))" using assms(3) by (simp add: sessions_keys_def)
  show ?thesis
  proof (cases "sp_archive_only req")
    case True
    show ?thesis using prune_archive_run [OF assms(2) True Ok] counts_archive [OF assms(1)] by simp
  next
    case False
    show ?thesis using prune_delete_run [OF assms(2) False Ok] counts_delete [OF assms(1) d] by simp
  qed
qed (use assms(1) in \<open>simp_all add: prune_sessions_def andthen_run prune_threshold_run\<close>)

text \<open>C12.
  A session's \<open>message_count\<close> is the number of its recorded messages: recording a message,
  pruning (archiving or deleting) and resolving a session all keep it so. Resolving needs that
  the UUID it draws is not the id of messages already stored.
\<close>

theorem message_counts_kept:
  assumes "message_counts_ok (w_db w)" and "\<not> w_locked w" and "sessions_keys (w_db w)"
    and "\<forall>m\<in>set (t_session_messages (w_db w)). sm_session_id m \<noteq> ''session-'' @ E_uuid E (w_uuids w)"
    and "resolve_session_internal E c ch p st config prof w = (Ok s, w')"
  shows "message_counts_ok (w_db (snd (record_session_message E sid c2 role sender body md w)))
    \<and> message_counts_ok (w_db (snd (prune_sessions E req w)))
    \<and> message_counts_ok (w_db w')"
  using counts_record_message [OF assms(1,2)] counts_prune [OF assms(1-3)]
    counts_resolve [OF assms(1,2,4,5)] by blast

text \<open>
  Resolving the session of the same connector, channel and participant again, with whatever
  session type, configuration and profile, yields the same session and changes nothing: one
  session per conversation.
\<close>

theorem resolve_session_idempotent:
  assumes "\<not> w_locked w" and "resolve_session_internal E c ch p st config prof w = (Ok s, w')"
  shows "resolve_session_internal E c ch p st2 config2 prof2 w' = (Ok s, w')"
proof -
  obtain r where w': "\<not> w_locked w'" "lookup_row session_target (c, ch, p) (t_sessions (w_db w')) = Some r"
      and s: "s = session_record_of_row r"
    using resolve_lookup [OF assms] by blast
  show ?thesis unfolding s by (rule resolve_found_run [OF w'])
qed

text \<open>
  \<open>ensure_pairing\<close> never returns a pairing: it takes the connection mutex, commits the
  pending pairing, and then waits for the mutex it holds. The row is stored, the mutex stays
  held, and every later use of the store blocks. (Only a collision of the fresh id gets an error.)
\<close>

theorem ensure_pairing_deadlocks:
  assumes "\<not> w_locked w" and "\<not> has_key pg_pairing_id (''pairing-'' @ E_uuid E (w_uuids w)) (t_pairings (w_db w))"
  shows "\<exists>w'. ensure_pairing E c ch sender sid reason w = (Deadlock, w')
     \<and> (\<exists>r. lookup_row pairing_target (c, ch, sender) (t_pairings (w_db w')) = Some r
          \<and> pg_status r = ''pending'' \<and> pg_session_id r = sid)
     \<and> (\<forall>m :: unit io. with_conn m w' = (Deadlock, w'))"
proof -
  let ?r = "new_pairing_row c ch sender sid reason (E_time E (w_ticks w)) (E_uuid E (w_uuids w))"
  have id: "pg_pairing_id ?r = ''pairing-'' @ E_uuid E (w_uuids w)"
    and tgt: "pairing_target ?r = (c, ch, sender)"
    by (simp_all add: new_pairing_row_def pairing_target_def)
  let ?d = "(w_db w)\<lparr>t_pairings := upsert_row pairing_target merge_pairing ?r (t_pairings (w_db w))\<rparr>"
  have run: "ensure_pairing E c ch sender sid reason w = (Deadlock,
      w\<lparr>w_ticks := Suc (w_ticks w), w_uuids := Suc (w_uuids w), w_db := ?d, w_locked := True\<rparr>)"
    using assms by (simp add: ensure_pairing_run upsert_pairing_def upsert_unique_def id)
  have row: "\<exists>r. lookup_row pairing_target (c, ch, sender) (t_pairings ?d) = Some r
      \<and> pg_status r = ''pending'' \<and> pg_session_id r = sid"
    using pairing_rows.upsert_lookup_same [of ?r "t_pairings (w_db w)"]
    by (simp add: tgt) (simp add: new_pairing_row_def merge_pairing_def split: option.splits)
  show ?thesis using run row by (simp add: with_conn_locked)
qed

lemma sample_resolve:
  "\<exists>s w'. resolve_session_internal demo_env ''desktop'' ''c'' ''p'' ''direct'' config prof boot_world = (Ok s, w')
     \<and> \<not> w_locked w' \<and> w_db w' = empty_store\<lparr>t_sessions :=
         [new_session_row config ''desktop'' ''c'' ''p'' ''direct'' prof 0 (dec 0)]\<rparr> \<and> w_uuids w' = 1"
  by (simp add: resolve_new_run lookup_row_def insert_session_def has_key_def insert_row_def)

theorem resolve_session_idempotent_witness:
  "\<exists>s w'. resolve_session_internal demo_env ''desktop'' ''c'' ''p'' ''direct'' default_config ''local'' boot_world = (Ok s, w')
     \<and> resolve_session_internal demo_env ''desktop'' ''c'' ''p'' ''group'' default_config ''hosted'' w' = (Ok s, w')"
proof -
  obtain s w' where run: "resolve_session_internal demo_env ''desktop'' ''c'' ''p'' ''direct'' default_config ''local''
      boot_world = (Ok s, w')" using sample_resolve [of default_config "''local''"] by blast
  have "\<not> w_locked boot_world" by simp
  from resolve_session_idempotent [OF this run] run show ?thesis by blast
qed

theorem message_counts_kept_witness:
  "\<exists>w' :: world. message_counts_ok (w_db (snd (record_session_message demo_env ''session-0'' ''desktop'' ''user'' ''p'' ''hi'' ''{}'' boot_world)))
     \<and> message_counts_ok (w_db w') \<and> length (t_sessions (w_db w')) = 1"
proof -
  obtain s w' where run: "resolve_session_internal demo_env ''desktop'' ''c'' ''p'' ''direct'' default_config ''local''
      boot_world = (Ok s, w')" and one: "length (t_sessions (w_db w')) = 1"
    using sample_resolve [of default_config "''local''"] by auto
  have "message_counts_ok (w_db boot_world)" "\<not> w_locked boot_world" "sessions_keys (w_db boot_world)"
    by (simp_all add: message_counts_ok_def sessions_keys_def distinct_keys_def)
  moreover have "\<forall>m\<in>set (t_session_messages (w_db boot_world)).
      sm_session_id m \<noteq> ''session-'' @ E_uuid demo_env (w_uuids boot_world)" by simp
  ultimately have "message_counts_ok (w_db (snd (record_session_message demo_env ''session-0'' ''desktop''
        ''user'' ''p'' ''hi'' ''{}'' boot_world))) \<and> message_counts_ok (w_db w')"
    using message_counts_kept [OF _ _ _ _ run] by blast
  then show ?thesis using one by blast
qed

theorem ensure_pairing_deadlocks_witness:
  "\<exists>w'. ensure_pairing demo_env ''slack'' ''c'' ''mallory'' ''session-0'' ''new sender'' boot_world = (Deadlock, w')"
  using ensure_pairing_deadlocks [of boot_world demo_env "''slack''" "''c''" "''mallory''" "''session-0''" "''new sender''"]
  by (auto simp: has_key_def)

lemma chrono_sub_Ok: "chrono_sub t d = Ok t' \<Longrightarrow> t' = t - d"
  by (simp add: chrono_sub_def split: if_splits)

lemma expired_id_recent:
  assumes "distinct_keys sr_session_id (t_sessions d)" "r \<in> set (t_sessions d)" "\<not> sr_updated_at r < t"
  shows "sr_session_id r \<notin> set (expired_ids t d)"
  using assms by (auto simp: expired_ids_def distinct_keys_def distinct_map inj_on_def)

text \<open>C29.
  Pruning spares every session that was updated at or after the threshold (now minus the given
  hours, at least one), with all its messages, and leaves no older session behind: when archiving
  each is archived, when deleting it is gone.
\<close>

theorem prune_spares_recent:
  assumes "\<not> w_locked w" and "sessions_keys (w_db w)" and "prune_sessions E req w = (Ok n, w')"
    and "t = E_time E (w_ticks w) - max (uint (sp_older_than_hours req)) 1 * ns_per_hour"
    and "r \<in> set (t_sessions (w_db w))" and "t \<le> sr_updated_at r"
  shows "r \<in> set (t_sessions (w_db w'))
    \<and> filter (\<lambda>m. sm_session_id m = sr_session_id r) (t_session_messages (w_db w')) =
      filter (\<lambda>m. sm_session_id m = sr_session_id r) (t_session_messages (w_db w))
    \<and> (\<forall>r'\<in>set (t_sessions (w_db w')). sr_updated_at r' < t \<longrightarrow>
         sp_archive_only req \<and> sr_status r' = ''archived'')"
proof (cases "chrono_sub (E_time E (w_ticks w)) (max (uint (sp_older_than_hours req)) 1 * ns_per_hour)")
  case (Ok t')
  then have t: "t' = t" using assms(4) by (simp add: chrono_sub_Ok)
  have keys: "distinct_keys sr_session_id (t_sessions (w_db w))" using assms(2) by (simp add: sessions_keys_def)
  have id: "sr_session_id r \<notin> set (expired_ids t (w_db w))"
    using expired_id_recent [OF keys assms(5)] assms(6) by simp
  show ?thesis
  proof (cases "sp_archive_only req")
    case True
    show ?thesis using prune_archive_run [OF assms(1) True Ok] assms(3,5,6) True t
      by (auto simp: set_update_where archivable_def archive_session_def image_iff split: if_splits)
  next
    case False
    have "filter (\<lambda>m. sm_session_id m = sr_session_id r)
        (delete_where (\<lambda>m. sm_session_id m \<in> set (expired_ids t (w_db w))) (t_session_messages (w_db w))) =
      filter (\<lambda>m. sm_session_id m = sr_session_id r) (t_session_messages (w_db w))"
      using id by (auto simp: delete_where_def intro: filter_cong)
    then show ?thesis using prune_delete_run [OF assms(1) False Ok] assms(3,5,6) t
      by (auto simp: set_delete_where)
  qed
qed (use assms(3) in \<open>simp_all add: prune_sessions_def andthen_run prune_threshold_run\<close>)

text \<open>
  The threshold is computed with \<open>chrono\<close>'s panicking subtraction: read at any time from 1970
  to 2100, \<open>prune_sessions\<close> returns for up to two billion hours, and panics for the largest
  value the \<open>u32\<close> field can carry.
\<close>

theorem prune_sessions_panics:
  assumes "0 \<le> E_time E (w_ticks w)" and "E_time E (w_ticks w) \<le> 4102444800 * 1000000000"
    and "\<not> w_locked w"
  shows "(uint (sp_older_than_hours req) \<le> 2000000000 \<longrightarrow> returns (fst (prune_sessions E req w)))
    \<and> (sp_older_than_hours req = 4294967295 \<longrightarrow> fst (prune_sessions E req w) = Panic)"
proof (intro conjI impI)
  assume h: "uint (sp_older_than_hours req) \<le> 2000000000"
  have ok: "\<exists>t. chrono_sub (E_time E (w_ticks w)) (max (uint (sp_older_than_hours req)) 1 * ns_per_hour) = Ok t"
    using assms(1,2) h by (auto simp: chrono_sub_def chrono_min_def chrono_max_def ns_per_hour_def max_def)
  then obtain t where t: "chrono_sub (E_time E (w_ticks w))
      (max (uint (sp_older_than_hours req)) 1 * ns_per_hour) = Ok t" ..
  show "returns (fst (prune_sessions E req w))"
    using prune_archive_run [OF assms(3) _ t] prune_delete_run [OF assms(3) _ t]
    by (cases "sp_archive_only req") simp_all
next
  assume h: "sp_older_than_hours req = 4294967295"
  have "chrono_sub (E_time E (w_ticks w)) (max (uint (sp_older_than_hours req)) 1 * ns_per_hour) = Panic"
    using assms(1,2) h by (simp add: chrono_sub_def chrono_min_def chrono_max_def ns_per_hour_def)
  then show "fst (prune_sessions E req w) = Panic" by (rule prune_panic_run)
qed

theorem prune_sessions_panics_witness:
  "fst (prune_sessions demo_env \<lparr>sp_older_than_hours = 4294967295, sp_archive_only = True\<rparr> boot_world) = Panic"
  using prune_sessions_panics [of demo_env boot_world "\<lparr>sp_older_than_hours = 4294967295, sp_archive_only = True\<rparr>"]
  by simp

theorem prune_spares_recent_witness:
  "\<exists>r n w'. prune_sessions demo_env \<lparr>sp_older_than_hours = 1, sp_archive_only = False\<rparr>
       (boot_world\<lparr>w_db := empty_store\<lparr>t_sessions := [r]\<rparr>\<rparr>) = (Ok n, w') \<and> r \<in> set (t_sessions (w_db w'))"
proof -
  let ?r = "new_session_row default_config ''desktop'' ''c'' ''p'' ''direct'' ''local'' 0 ''0''"
  let ?w = "boot_world\<lparr>w_db := empty_store\<lparr>t_sessions := [?r]\<rparr>\<rparr>"
  let ?req = "\<lparr>sp_older_than_hours = 1, sp_archive_only = False\<rparr>"
  have "is_ok (fst (prune_sessions demo_env ?req ?w))"
    by (simp add: prune_delete_run chrono_sub_def chrono_min_def chrono_max_def ns_per_hour_def)
  then obtain n where run: "prune_sessions demo_env ?req ?w = (Ok n, snd (prune_sessions demo_env ?req ?w))"
    by (cases "fst (prune_sessions demo_env ?req ?w)") (auto simp: prod_eq_iff)
  have "\<not> w_locked ?w" "sessions_keys (w_db ?w)" "?r \<in> set (t_sessions (w_db ?w))"
    "- 3600000000000 \<le> sr_updated_at ?r"
    by (simp_all add: sessions_keys_def distinct_keys_def new_session_row_def)
  moreover have "- 3600000000000 = E_time demo_env (w_ticks ?w) - max (uint (sp_older_than_hours ?req)) 1 * ns_per_hour"
    by (simp add: ns_per_hour_def)
  ultimately have "?r \<in> set (t_sessions (w_db (snd (prune_sessions demo_env ?req ?w))))"
    using prune_spares_recent [OF _ _ run, of "- 3600000000000" ?r] by blast
  then show ?thesis using run by blast
qed

text \<open>
  A message recorded in a session that was archived makes it look active again, but the
  \<open>archived\<close> flag stays set: \<open>list_sessions\<close> shows the session as active while
  \<open>resolve_session_for_outbound\<close> never finds it.
\<close>

theorem archived_session_stays_hidden:
  assumes "\<not> w_locked w" and "sessions_keys (w_db w)"
    and "lookup_row sr_session_id sid (t_sessions (w_db w)) = Some r" and "sr_archived r"
    and "record_session_message E sid c role sender body md w = (Ok mid, w')"
  shows "\<exists>r'. lookup_row sr_session_id sid (t_sessions (w_db w')) = Some r' \<and> sr_status r' = ''active''
    \<and> sr_archived r' \<and> (\<forall>c ch. r' \<notin> set (live_sessions_at c ch (w_db w')))"
proof -
  let ?f = "touch_session (truncate_with_ellipsis body 120) (E_time E (w_ticks w))"
  have "t_sessions (w_db w') = update_where (\<lambda>r. sr_session_id r = sid) ?f (t_sessions (w_db w))"
    using assms(5) by (auto simp: record_session_message_run [OF assms(1)] split: if_splits)
  moreover have "lookup_row sr_session_id sid (update_where (\<lambda>r. sr_session_id r = sid) ?f (t_sessions (w_db w)))
      = Some (?f r)"
    using assms(3) by (subst lookup_row_update_same) (simp_all add: touch_session_def)
  ultimately show ?thesis using assms(4)
    by (intro exI [of _ "?f r"]) (simp add: touch_session_def live_sessions_at_def)
qed

theorem archived_session_stays_hidden_witness:
  "\<exists>r r' w'. sr_archived r \<and>
     record_session_message demo_env (sr_session_id r) ''desktop'' ''user'' ''p'' ''hi'' ''{}''
       (boot_world\<lparr>w_db := empty_store\<lparr>t_sessions := [r]\<rparr>\<rparr>) = (Ok ''session-message-0'', w')
     \<and> lookup_row sr_session_id (sr_session_id r) (t_sessions (w_db w')) = Some r' \<and> sr_status r' = ''active''"
proof -
  let ?r = "archive_session 0 (new_session_row default_config ''desktop'' ''c'' ''p'' ''direct'' ''local'' 0 ''0'')"
  let ?w = "boot_world\<lparr>w_db := empty_store\<lparr>t_sessions := [?r]\<rparr>\<rparr>"
  have dec0: "dec 0 = ''0''" by code_simp
  have run: "fst (record_session_message demo_env (sr_session_id ?r) ''desktop'' ''user'' ''p'' ''hi'' ''{}'' ?w)
      = Ok ''session-message-0''"
    by (simp add: record_session_message_run has_key_def session_message_def dec0)
  then obtain w' where run: "record_session_message demo_env (sr_session_id ?r) ''desktop'' ''user'' ''p'' ''hi'' ''{}'' ?w
      = (Ok ''session-message-0'', w')" by (metis prod.collapse)
  have "\<not> w_locked ?w" "sessions_keys (w_db ?w)" "sr_archived ?r"
    "lookup_row sr_session_id (sr_session_id ?r) (t_sessions (w_db ?w)) = Some ?r"
    by (simp_all add: sessions_keys_def distinct_keys_def archive_session_def lookup_row_def)
  from archived_session_stays_hidden [OF this(1,2,4,3) run] run \<open>sr_archived ?r\<close> show ?thesis by blast
qed

end
