(* ===== verification/Brain_Store.thy ===== *)
theory Brain_Store
  imports Sessions
begin

text \<open>
  The storage half of \<open>BrainManager\<close> (\<open>engine/src/lib.rs\<close>): the encrypted payloads of
  entities, facts and tasks, their tables, the relation table, the projections that make them
  searchable, the ingest log and retention.
\<close>

record brain_manager =
  bm_config :: brain_config
  bm_data_dir :: string
  bm_encryption :: encryption_manager
  bm_owner_id :: string
  bm_runtime_env_id :: string
  bm_workspace_env_id :: string
  bm_project_env_id :: string

record entity_payload =
  ep_title :: string
  ep_content :: string
  ep_scope_json :: string
  ep_links_json :: string
  ep_source_ref :: string

record fact_payload =
  fp_content :: string
  fp_scope_json :: string
  fp_source_ref :: string

record task_payload =
  tp_title :: string
  tp_summary :: string
  tp_scope_json :: string
  tp_links_json :: string
  tp_source_ref :: string

record entity_upsert =
  eu_entity_id :: string
  eu_kind :: string
  eu_subtype :: string
  eu_title :: string
  eu_content :: string
  eu_scope_json :: string
  eu_links_json :: string
  eu_salience :: f64
  eu_confidence :: f64
  eu_source_ref :: string

record fact_upsert =
  fu_fact_id :: string
  fu_entity_id :: string
  fu_content :: string
  fu_scope_json :: string
  fu_salience :: f64
  fu_confidence :: f64
  fu_source_ref :: string

record task_upsert =
  tu_task_id :: "string option"
  tu_title :: string
  tu_summary :: string
  tu_status :: string
  tu_priority :: string
  tu_due_at :: "instant option"
  tu_scope_json :: string
  tu_links_json :: string
  tu_salience :: f64
  tu_confidence :: f64
  tu_source_ref :: string

section \<open>Payloads\<close>

definition entity_payload_json :: "entity_payload \<Rightarrow> json" where
  "entity_payload_json p = JObj (map (\<lambda>(k, v). (k, JStr v))
     [(''title'', ep_title p), (''content'', ep_content p), (''scope_json'', ep_scope_json p),
      (''links_json'', ep_links_json p), (''source_ref'', ep_source_ref p)])"

definition fact_payload_json :: "fact_payload \<Rightarrow> json" where
  "fact_payload_json p = JObj (map (\<lambda>(k, v). (k, JStr v))
     [(''content'', fp_content p), (''scope_json'', fp_scope_json p), (''source_ref'', fp_source_ref p)])"

definition task_payload_json :: "task_payload \<Rightarrow> json" where
  "task_payload_json p = JObj (map (\<lambda>(k, v). (k, JStr v))
     [(''title'', tp_title p), (''summary'', tp_summary p), (''scope_json'', tp_scope_json p),
      (''links_json'', tp_links_json p), (''source_ref'', tp_source_ref p)])"

definition entity_payload_of_json :: "json \<Rightarrow> entity_payload option" where
  "entity_payload_of_json j =
     (case (json_get_str j ''title'', json_get_str j ''content'', json_get_str j ''scope_json'',
            json_get_str j ''links_json'', json_get_str j ''source_ref'') of
        (Some t, Some c, Some s, Some l, Some r) \<Rightarrow>
          Some \<lparr>ep_title = t, ep_content = c, ep_scope_json = s, ep_links_json = l, ep_source_ref = r\<rparr>
      | _ \<Rightarrow> None)"

definition fact_payload_of_json :: "json \<Rightarrow> fact_payload option" where
  "fact_payload_of_json j =
     (case (json_get_str j ''content'', json_get_str j ''scope_json'', json_get_str j ''source_ref'') of
        (Some c, Some s, Some r) \<Rightarrow> Some \<lparr>fp_content = c, fp_scope_json = s, fp_source_ref = r\<rparr>
      | _ \<Rightarrow> None)"

definition task_payload_of_json :: "json \<Rightarrow> task_payload option" where
  "task_payload_of_json j =
     (case (json_get_str j ''title'', json_get_str j ''summary'', json_get_str j ''scope_json'',
            json_get_str j ''links_json'', json_get_str j ''source_ref'') of
        (Some t, Some c, Some s, Some l, Some r) \<Rightarrow>
          Some \<lparr>tp_title = t, tp_summary = c, tp_scope_json = s, tp_links_json = l, tp_source_ref = r\<rparr>
      | _ \<Rightarrow> None)"

text \<open>\<open>with_context\<close> replaces the text of an error by the outer message.\<close>

fun with_context :: "string \<Rightarrow> 'a res \<Rightarrow> 'a res" where
  "with_context ctx (Err e) = Err (Msg ctx)"
| "with_context ctx (Ok a) = Ok a"
| "with_context ctx Panic = Panic"
| "with_context ctx Deadlock = Deadlock"

definition context_act :: "string \<Rightarrow> 'a io \<Rightarrow> 'a io" where
  "context_act ctx m = (\<lambda>w. (with_context ctx (fst (m w)), snd (m w)))"

definition encrypt_payload :: "env \<Rightarrow> brain_manager \<Rightarrow> json \<Rightarrow> string io" where
  "encrypt_payload E bm payload =
     context_act ''failed to encrypt brain payload'' (seal_text E (bm_encryption bm) (E_json_print E payload))"

definition decrypt_payload :: "env \<Rightarrow> brain_manager \<Rightarrow> (json \<Rightarrow> 'p option) \<Rightarrow> string \<Rightarrow> 'p res" where
  "decrypt_payload E bm decode blob_json =
     bind_res (of_option (Msg ''failed to decode encrypted brain payload'') (parse_blob E blob_json)) (\<lambda>blob.
     bind_res (with_context ''failed to decrypt brain payload'' (decrypt_text E (bm_encryption bm) blob)) (\<lambda>plaintext.
     of_option (Msg ''failed to decode brain payload'') (Option.bind (E_json_parse E plaintext) decode)))"

section \<open>Projections\<close>

definition upsert_projection ::
  "env \<Rightarrow> brain_manager \<Rightarrow> string \<Rightarrow> string \<Rightarrow> string \<Rightarrow> string \<Rightarrow> unit io" where
  "upsert_projection E bm namespace key content metadata_json =
     andthen (upsert_memory E (bm_encryption bm) namespace key content metadata_json) (\<lambda>_. ret ())"

definition delete_projection :: "string \<Rightarrow> string \<Rightarrow> unit io" where
  "delete_projection namespace key = with_conn (sql_exec (\<lambda>d. d\<lparr>t_vector_memory :=
     delete_where (\<lambda>r. vm_namespace r = namespace \<and> vm_key r = key) (t_vector_memory d)\<rparr>))"

definition query_projection_hits ::
  "env \<Rightarrow> brain_manager \<Rightarrow> string \<Rightarrow> string \<Rightarrow> nat \<Rightarrow> string list io" where
  "query_projection_hits E bm namespace query limit =
     andthen (query_memory E (bm_encryption bm) \<lparr>mq_namespace = namespace, mq_query = query,
       mq_limit = max limit 1, mq_filter_json = ''{}''\<rparr>) (\<lambda>records. ret (map mr_key records))"

section \<open>Entities\<close>

definition merge_entity :: "entity_row \<Rightarrow> entity_row \<Rightarrow> entity_row" where
  "merge_entity old new = old\<lparr>er_entity_kind := er_entity_kind new, er_subtype := er_subtype new,
     er_blob_json := er_blob_json new, er_salience := er_salience new,
     er_confidence := er_confidence new, er_fingerprint := er_fingerprint new, er_archived := False,
     er_source_ref := er_source_ref new, er_updated_at := er_updated_at new\<rparr>"

interpretation entity_rows: upsert_table er_entity_id merge_entity
  by unfold_locales (simp add: merge_entity_def)

definition entity_row_of :: "env \<Rightarrow> entity_upsert \<Rightarrow> string \<Rightarrow> instant \<Rightarrow> entity_row" where
  "entity_row_of E input blob now = \<lparr>er_entity_id = eu_entity_id input, er_entity_kind = eu_kind input,
     er_subtype = eu_subtype input, er_blob_json = blob, er_salience = eu_salience input,
     er_confidence = eu_confidence input,
     er_fingerprint = fingerprint E (eu_title input @ '' '' @ eu_content input @ '' '' @ eu_scope_json input),
     er_archived = False, er_source_ref = eu_source_ref input, er_created_at = now, er_updated_at = now\<rparr>"

definition entity_payload_of :: "entity_upsert \<Rightarrow> entity_payload" where
  "entity_payload_of input = \<lparr>ep_title = eu_title input, ep_content = eu_content input,
     ep_scope_json = eu_scope_json input, ep_links_json = eu_links_json input,
     ep_source_ref = eu_source_ref input\<rparr>"

definition entity_record_of :: "entity_upsert \<Rightarrow> instant \<Rightarrow> brain_entity_record" where
  "entity_record_of input now = \<lparr>be_id = eu_entity_id input, be_kind = eu_kind input,
     be_subtype = eu_subtype input, be_title = eu_title input, be_content = eu_content input,
     be_scope_json = eu_scope_json input, be_links_json = eu_links_json input,
     be_salience = eu_salience input, be_confidence = eu_confidence input, be_archived = False,
     be_created_at = now, be_updated_at = now\<rparr>"

definition validate_entity :: "string \<Rightarrow> string \<Rightarrow> unit res" where
  "validate_entity kind subtype = bind_res (validate_entity_kind kind) (\<lambda>_.
     if kind = ''environment'' \<and> subtype \<noteq> [] then validate_environment_subtype subtype else Ok ())"

definition upsert_entity :: "env \<Rightarrow> brain_manager \<Rightarrow> entity_upsert \<Rightarrow> brain_entity_record io" where
  "upsert_entity E bm input =
     andthen (lift_res (validate_entity (eu_kind input) (eu_subtype input))) (\<lambda>_.
     andthen (encrypt_payload E bm (entity_payload_json (entity_payload_of input))) (\<lambda>blob.
     andthen (utc_now E) (\<lambda>now.
     andthen (with_conn (sql_exec (\<lambda>d. d\<lparr>t_entities :=
       upsert_row er_entity_id merge_entity (entity_row_of E input blob now) (t_entities d)\<rparr>))) (\<lambda>_.
     let record = entity_record_of input now in
     andthen (upsert_projection E bm ''brain-entities'' (be_id record) (entity_projection record)
       (E_json_print E (json_obj [(''kind'', JStr (be_kind record)), (''subtype'', JStr (be_subtype record))]))) (\<lambda>_.
     ret record)))))"

definition entity_of_row :: "env \<Rightarrow> brain_manager \<Rightarrow> entity_row \<Rightarrow> brain_entity_record res" where
  "entity_of_row E bm r = bind_res (decrypt_payload E bm entity_payload_of_json (er_blob_json r)) (\<lambda>p.
     Ok \<lparr>be_id = er_entity_id r, be_kind = er_entity_kind r, be_subtype = er_subtype r,
       be_title = ep_title p, be_content = ep_content p, be_scope_json = ep_scope_json p,
       be_links_json = ep_links_json p, be_salience = er_salience r, be_confidence = er_confidence r,
       be_archived = er_archived r, be_created_at = er_created_at r, be_updated_at = er_updated_at r\<rparr>)"

text \<open>The newest 512 rows are read, and only then the archived ones skipped.\<close>

definition list_entities :: "env \<Rightarrow> brain_manager \<Rightarrow> bool \<Rightarrow> brain_entity_record list io" where
  "list_entities E bm include_archived = with_conn (
     andthen (sql_query (\<lambda>d. filter (\<lambda>r. include_archived \<or> \<not> er_archived r)
       (take 512 (order_desc er_updated_at (t_entities d))))) (\<lambda>rows.
     lift_res (traverse_res (entity_of_row E bm) rows)))"

section \<open>Facts\<close>

definition merge_fact :: "fact_row \<Rightarrow> fact_row \<Rightarrow> fact_row" where
  "merge_fact old new = old\<lparr>fr_entity_id := fr_entity_id new, fr_blob_json := fr_blob_json new,
     fr_salience := fr_salience new, fr_confidence := fr_confidence new,
     fr_fingerprint := fr_fingerprint new, fr_archived := False, fr_source_ref := fr_source_ref new,
     fr_updated_at := fr_updated_at new\<rparr>"

interpretation fact_rows: upsert_table fr_fact_id merge_fact
  by unfold_locales (simp add: merge_fact_def)

definition fact_row_of :: "env \<Rightarrow> fact_upsert \<Rightarrow> string \<Rightarrow> instant \<Rightarrow> fact_row" where
  "fact_row_of E input blob now = \<lparr>fr_fact_id = fu_fact_id input, fr_entity_id = fu_entity_id input,
     fr_blob_json = blob, fr_salience = fu_salience input, fr_confidence = fu_confidence input,
     fr_fingerprint = fingerprint E (fu_content input), fr_archived = False,
     fr_source_ref = fu_source_ref input, fr_created_at = now, fr_updated_at = now\<rparr>"

definition fact_payload_of :: "fact_upsert \<Rightarrow> fact_payload" where
  "fact_payload_of input = \<lparr>fp_content = fu_content input, fp_scope_json = fu_scope_json input,
     fp_source_ref = fu_source_ref input\<rparr>"

definition fact_record_of :: "fact_upsert \<Rightarrow> instant \<Rightarrow> brain_fact_record" where
  "fact_record_of input now = \<lparr>bfa_id = fu_fact_id input, bfa_entity_id = fu_entity_id input,
     bfa_content = fu_content input, bfa_scope_json = fu_scope_json input,
     bfa_salience = fu_salience input, bfa_confidence = fu_confidence input, bfa_archived = False,
     bfa_created_at = now, bfa_updated_at = now\<rparr>"

definition upsert_fact :: "env \<Rightarrow> brain_manager \<Rightarrow> fact_upsert \<Rightarrow> brain_fact_record io" where
  "upsert_fact E bm input =
     andthen (encrypt_payload E bm (fact_payload_json (fact_payload_of input))) (\<lambda>blob.
     andthen (utc_now E) (\<lambda>now.
     andthen (with_conn (sql_exec (\<lambda>d. d\<lparr>t_facts :=
       upsert_row fr_fact_id merge_fact (fact_row_of E input blob now) (t_facts d)\<rparr>))) (\<lambda>_.
     let record = fact_record_of input now in
     andthen (upsert_projection E bm ''brain-facts'' (bfa_id record) (fact_projection record)
       (E_json_print E (json_obj [(''entity_id'', JStr (bfa_entity_id record))]))) (\<lambda>_.
     ret record))))"

definition fact_of_row :: "env \<Rightarrow> brain_manager \<Rightarrow> fact_row \<Rightarrow> brain_fact_record res" where
  "fact_of_row E bm r = bind_res (decrypt_payload E bm fact_payload_of_json (fr_blob_json r)) (\<lambda>p.
     Ok \<lparr>bfa_id = fr_fact_id r, bfa_entity_id = fr_entity_id r, bfa_content = fp_content p,
       bfa_scope_json = fp_scope_json p, bfa_salience = fr_salience r, bfa_confidence = fr_confidence r,
       bfa_archived = fr_archived r, bfa_created_at = fr_created_at r, bfa_updated_at = fr_updated_at r\<rparr>)"

definition list_facts :: "env \<Rightarrow> brain_manager \<Rightarrow> bool \<Rightarrow> brain_fact_record list io" where
  "list_facts E bm include_archived = with_conn (
     andthen (sql_query (\<lambda>d. filter (\<lambda>r. include_archived \<or> \<not> fr_archived r)
       (take 512 (order_desc fr_updated_at (t_facts d))))) (\<lambda>rows.
     lift_res (traverse_res (fact_of_row E bm) rows)))"

section \<open>Relations\<close>

definition relation_key :: "relation_row \<Rightarrow> string \<times> string \<times> string" where
  "relation_key r = (rr_relation_kind r, rr_from_entity_id r, rr_to_entity_id r)"

definition merge_relation :: "relation_row \<Rightarrow> relation_row \<Rightarrow> relation_row" where
  "merge_relation old new = old\<lparr>rr_metadata_json := rr_metadata_json new,
     rr_confidence := rr_confidence new, rr_archived := rr_archived new,
     rr_updated_at := rr_updated_at new\<rparr>"

interpretation relation_rows: upsert_table relation_key merge_relation
  by unfold_locales (simp add: merge_relation_def relation_key_def)

definition relation_id_of :: "env \<Rightarrow> string \<Rightarrow> string \<Rightarrow> string \<Rightarrow> string" where
  "relation_id_of E kind from_id to_id =
     ''relation:'' @ prompt_hash E (kind @ '':'' @ from_id @ '':'' @ to_id)"

definition upsert_relation ::
  "env \<Rightarrow> string \<Rightarrow> string \<Rightarrow> string \<Rightarrow> string \<Rightarrow> f64 \<Rightarrow> bool \<Rightarrow> brain_relation_record io" where
  "upsert_relation E kind from_id to_id metadata_json confidence archived =
     andthen (lift_res (validate_relation_kind kind)) (\<lambda>_.
     andthen (utc_now E) (\<lambda>now.
     let relation_id = relation_id_of E kind from_id to_id in
     andthen (with_conn (sql_try ''brain_relations'' (\<lambda>d. map_option (\<lambda>t. d\<lparr>t_relations := t\<rparr>)
       (upsert_unique relation_key merge_relation rr_relation_id
          \<lparr>rr_relation_id = relation_id, rr_relation_kind = kind, rr_from_entity_id = from_id,
           rr_to_entity_id = to_id, rr_metadata_json = metadata_json, rr_confidence = confidence,
           rr_archived = archived, rr_created_at = now, rr_updated_at = now\<rparr> (t_relations d))))) (\<lambda>_.
     ret \<lparr>brl_id = relation_id, brl_kind = kind, brl_from_id = from_id, brl_to_id = to_id,
       brl_metadata_json = metadata_json, brl_confidence = confidence, brl_created_at = now,
       brl_updated_at = now\<rparr>)))"

definition relation_of_row :: "relation_row \<Rightarrow> brain_relation_record" where
  "relation_of_row r = \<lparr>brl_id = rr_relation_id r, brl_kind = rr_relation_kind r,
     brl_from_id = rr_from_entity_id r, brl_to_id = rr_to_entity_id r,
     brl_metadata_json = rr_metadata_json r, brl_confidence = rr_confidence r,
     brl_created_at = rr_created_at r, brl_updated_at = rr_updated_at r\<rparr>"

definition list_relations :: "bool \<Rightarrow> brain_relation_record list io" where
  "list_relations include_archived = with_conn (sql_query (\<lambda>d. map relation_of_row
     (filter (\<lambda>r. include_archived \<or> \<not> rr_archived r)
       (take 512 (order_desc rr_updated_at (t_relations d))))))"

definition link_record :: "env \<Rightarrow> string \<Rightarrow> string \<Rightarrow> string \<Rightarrow> string \<Rightarrow> unit io" where
  "link_record E record_id record_kind links_json source_ref =
     for_each (\<lambda>linked_id.
       andthen (upsert_relation E (if record_kind = ''task'' then ''about'' else ''mentioned_with'')
         record_id linked_id (E_json_print E (json_obj [(''source_ref'', JStr source_ref)])) (74 / 100) False)
       (\<lambda>_. ret ())) (parse_link_ids E links_json)"

section \<open>Tasks\<close>

definition merge_task :: "task_row \<Rightarrow> task_row \<Rightarrow> task_row" where
  "merge_task old new = old\<lparr>tr_status := tr_status new, tr_priority := tr_priority new,
     tr_due_at := tr_due_at new, tr_blob_json := tr_blob_json new, tr_salience := tr_salience new,
     tr_confidence := tr_confidence new, tr_fingerprint := tr_fingerprint new, tr_archived := False,
     tr_source_ref := tr_source_ref new, tr_updated_at := tr_updated_at new\<rparr>"

interpretation task_rows: upsert_table tr_task_id merge_task
  by unfold_locales (simp add: merge_task_def)

definition hashed_task_id :: "env \<Rightarrow> string \<Rightarrow> string \<Rightarrow> string" where
  "hashed_task_id E summary scope_json = ''task:'' @ prompt_hash E (summary @ '':'' @ scope_json)"

definition task_row_of :: "env \<Rightarrow> task_upsert \<Rightarrow> string \<Rightarrow> string \<Rightarrow> instant \<Rightarrow> task_row" where
  "task_row_of E input task_id blob now = \<lparr>tr_task_id = task_id, tr_status = tu_status input,
     tr_priority = tu_priority input, tr_due_at = tu_due_at input, tr_blob_json = blob,
     tr_salience = tu_salience input, tr_confidence = tu_confidence input,
     tr_fingerprint = fingerprint E (tu_title input @ '' '' @ tu_summary input), tr_archived = False,
     tr_source_ref = tu_source_ref input, tr_created_at = now, tr_updated_at = now\<rparr>"

definition task_payload_of :: "task_upsert \<Rightarrow> task_payload" where
  "task_payload_of input = \<lparr>tp_title = tu_title input, tp_summary = tu_summary input,
     tp_scope_json = tu_scope_json input, tp_links_json = tu_links_json input,
     tp_source_ref = tu_source_ref input\<rparr>"

definition task_record_of :: "task_upsert \<Rightarrow> string \<Rightarrow> instant \<Rightarrow> brain_task_record" where
  "task_record_of input task_id now = \<lparr>tk_id = task_id, tk_title = tu_title input,
     tk_summary = tu_summary input, tk_status = tu_status input, tk_priority = tu_priority input,
     tk_due_at = tu_due_at input, tk_scope_json = tu_scope_json input,
     tk_links_json = tu_links_json input, tk_salience = tu_salience input,
     tk_confidence = tu_confidence input, tk_archived = False, tk_created_at = now, tk_updated_at = now\<rparr>"

definition upsert_task :: "env \<Rightarrow> brain_manager \<Rightarrow> task_upsert \<Rightarrow> brain_task_record io" where
  "upsert_task E bm input =
     (let task_id = (case tu_task_id input of Some i \<Rightarrow> i
                     | None \<Rightarrow> hashed_task_id E (tu_summary input) (tu_scope_json input)) in
      andthen (lift_res (validate_task_status (tu_status input))) (\<lambda>_.
      andthen (encrypt_payload E bm (task_payload_json (task_payload_of input))) (\<lambda>blob.
      andthen (utc_now E) (\<lambda>now.
      andthen (with_conn (sql_exec (\<lambda>d. d\<lparr>t_tasks :=
        upsert_row tr_task_id merge_task (task_row_of E input task_id blob now) (t_tasks d)\<rparr>))) (\<lambda>_.
      let record = task_record_of input task_id now in
      andthen (upsert_projection E bm ''brain-tasks'' (tk_id record) (task_projection E record)
        (E_json_print E (json_obj [(''status'', JStr (tk_status record)), (''priority'', JStr (tk_priority record))]))) (\<lambda>_.
      andthen (upsert_projection E bm ''brain-suggestions'' (''suggestion:'' @ tk_id record)
        (tk_summary record @ '' '' @ tk_priority record)
        (E_json_print E (json_obj [(''task_id'', JStr (tk_id record)), (''status'', JStr (tk_status record))]))) (\<lambda>_.
      ret record)))))))"

definition task_of_row :: "env \<Rightarrow> brain_manager \<Rightarrow> task_row \<Rightarrow> brain_task_record res" where
  "task_of_row E bm r = bind_res (decrypt_payload E bm task_payload_of_json (tr_blob_json r)) (\<lambda>p.
     Ok \<lparr>tk_id = tr_task_id r, tk_title = tp_title p, tk_summary = tp_summary p,
       tk_status = tr_status r, tk_priority = tr_priority r, tk_due_at = tr_due_at r,
       tk_scope_json = tp_scope_json p, tk_links_json = tp_links_json p, tk_salience = tr_salience r,
       tk_confidence = tr_confidence r, tk_archived = tr_archived r, tk_created_at = tr_created_at r,
       tk_updated_at = tr_updated_at r\<rparr>)"

definition list_tasks :: "env \<Rightarrow> brain_manager \<Rightarrow> bool \<Rightarrow> brain_task_record list io" where
  "list_tasks E bm include_archived = with_conn (
     andthen (sql_query (\<lambda>d. filter (\<lambda>r. include_archived \<or> \<not> tr_archived r)
       (take 512 (order_desc tr_updated_at (t_tasks d))))) (\<lambda>rows.
     lift_res (traverse_res (task_of_row E bm) rows)))"

text \<open>\<open>Iterator::max_by\<close>: of several maxima the last one.\<close>

fun max_by_score :: "('a \<times> f64) list \<Rightarrow> ('a \<times> f64) option" where
  "max_by_score [] = None"
| "max_by_score (x # xs) = Some (foldl (\<lambda>best y. if snd best \<le> snd y then y else best) x xs)"

definition similar_tasks :: "env \<Rightarrow> string \<Rightarrow> string \<Rightarrow> brain_task_record list \<Rightarrow> (brain_task_record \<times> f64) list" where
  "similar_tasks E summary scope_json tasks =
     filter (\<lambda>(t, score). 72 / 100 \<le> score)
       (map (\<lambda>t. (t, similarity (fingerprint E summary) (fingerprint E (tk_summary t))))
         (filter (\<lambda>t. scope_matches E (tk_scope_json t) scope_json) tasks))"

text \<open>\<open>list_tasks(false).ok()?\<close>: an error of the listing means that no task is found.\<close>

definition find_similar_task :: "env \<Rightarrow> brain_manager \<Rightarrow> string \<Rightarrow> string \<Rightarrow> brain_task_record option io" where
  "find_similar_task E bm summary scope_json =
     andthen (or_default (list_tasks E bm False) []) (\<lambda>tasks.
     ret (map_option fst (max_by_score (similar_tasks E summary scope_json tasks))))"

definition related_to_tool :: "env \<Rightarrow> string \<Rightarrow> string \<Rightarrow> brain_task_record \<Rightarrow> bool" where
  "related_to_tool E target summary t \<longleftrightarrow>
     is_open_status (tk_status t) \<and>
     (contains (to_ascii_lowercase (tk_summary t)) (to_ascii_lowercase target)
      \<or> contains (to_ascii_lowercase (tk_title t)) (to_ascii_lowercase target)
      \<or> 72 / 100 \<le> similarity (fingerprint E summary) (fingerprint E (tk_summary t)))"

definition find_related_tool_task :: "env \<Rightarrow> brain_manager \<Rightarrow> string \<Rightarrow> string \<Rightarrow> brain_task_record option io" where
  "find_related_tool_task E bm target summary =
     andthen (or_default (list_tasks E bm False) []) (\<lambda>tasks.
     ret (List.find (related_to_tool E target summary) tasks))"

definition upsert_or_merge_task :: "env \<Rightarrow> brain_manager \<Rightarrow> task_upsert \<Rightarrow> brain_task_record io" where
  "upsert_or_merge_task E bm input =
     andthen (case tu_task_id input of
         Some i \<Rightarrow> ret (Some i)
       | None \<Rightarrow> andthen (find_similar_task E bm (tu_summary input) (tu_scope_json input)) (\<lambda>found.
           ret (map_option tk_id found))) (\<lambda>found.
     upsert_task E bm (input\<lparr>tu_task_id := Some (case found of Some i \<Rightarrow> i
       | None \<Rightarrow> hashed_task_id E (tu_summary input) (tu_scope_json input))\<rparr>))"

section \<open>Ingest log and retention\<close>

definition merge_ingest :: "ingest_row \<Rightarrow> ingest_row \<Rightarrow> ingest_row" where
  "merge_ingest old new = old\<lparr>il_source_kind := il_source_kind new, il_fingerprint := il_fingerprint new,
     il_target_json := il_target_json new, il_created_at := il_created_at new\<rparr>"

interpretation ingest_rows: upsert_table il_source_ref merge_ingest
  by unfold_locales (simp add: merge_ingest_def)

definition record_ingest :: "env \<Rightarrow> string \<Rightarrow> string \<Rightarrow> string \<Rightarrow> string \<Rightarrow> unit io" where
  "record_ingest E source_ref source_kind fingerprint_value target_json = with_conn (
     andthen (utc_now E) (\<lambda>now.
     sql_exec (\<lambda>d. d\<lparr>t_ingest_log := upsert_row il_source_ref merge_ingest
       \<lparr>il_source_ref = source_ref, il_source_kind = source_kind, il_fingerprint = fingerprint_value,
        il_target_json = target_json, il_created_at = now\<rparr> (t_ingest_log d)\<rparr>)))"

definition scope_for_message :: "env \<Rightarrow> message_envelope \<Rightarrow> string" where
  "scope_for_message E m = E_json_print E (json_obj [(''connector'', JStr (me_connector m)),
     (''channel_id'', JStr (me_channel_id m)), (''sender'', JStr (me_sender m))])"

text \<open>
  \<open>Duration::days\<close> panics outside \<open>i64::MAX\<close> milliseconds, the subtraction outside the
  instants \<open>chrono\<close> represents.
\<close>

definition duration_days :: "int \<Rightarrow> int res" where
  "duration_days d = (if \<bar>d * 86400\<bar> \<le> 9223372036854775 then Ok (d * 86400 * 1000000000) else Panic)"

definition retention_cutoff :: "env \<Rightarrow> brain_manager \<Rightarrow> instant io" where
  "retention_cutoff E bm =
     andthen (utc_now E) (\<lambda>now.
     lift_res (bind_res (duration_days (bc_archive_decay_days (bm_config bm))) (chrono_sub now)))"

definition stale_entity :: "instant \<Rightarrow> entity_row \<Rightarrow> bool" where
  "stale_entity cutoff r \<longleftrightarrow> \<not> er_archived r \<and> er_salience r < 35 / 100 \<and> er_updated_at r < cutoff"

definition stale_fact :: "instant \<Rightarrow> fact_row \<Rightarrow> bool" where
  "stale_fact cutoff r \<longleftrightarrow> \<not> fr_archived r \<and> fr_salience r < 35 / 100 \<and> fr_updated_at r < cutoff"

definition stale_task :: "instant \<Rightarrow> task_row \<Rightarrow> bool" where
  "stale_task cutoff r \<longleftrightarrow> \<not> tr_archived r \<and> tr_salience r < 5 / 10 \<and>
     tr_status r \<in> {''done'', ''cancelled''} \<and> tr_updated_at r < cutoff"

definition apply_retention :: "env \<Rightarrow> brain_manager \<Rightarrow> unit io" where
  "apply_retention E bm =
     andthen (retention_cutoff E bm) (\<lambda>cutoff.
     with_conn (
       andthen (utc_now E) (\<lambda>now1.
       andthen (sql_exec (\<lambda>d. d\<lparr>t_entities := update_where (stale_entity cutoff)
         (\<lambda>r. r\<lparr>er_archived := True, er_updated_at := now1\<rparr>) (t_entities d)\<rparr>)) (\<lambda>_.
       andthen (utc_now E) (\<lambda>now2.
       andthen (sql_exec (\<lambda>d. d\<lparr>t_facts := update_where (stale_fact cutoff)
         (\<lambda>r. r\<lparr>fr_archived := True, fr_updated_at := now2\<rparr>) (t_facts d)\<rparr>)) (\<lambda>_.
       andthen (utc_now E) (\<lambda>now3.
       sql_exec (\<lambda>d. d\<lparr>t_tasks := update_where (stale_task cutoff)
         (\<lambda>r. r\<lparr>tr_archived := True, tr_updated_at := now3\<rparr>) (t_tasks d)\<rparr>))))))))"

section \<open>Lock discipline\<close>

lemma safe_context_act [safe_intros]: "safe_at b m \<Longrightarrow> safe_at b (context_act ctx m)"
  by (erule safe_at_cases) (simp_all add: context_act_def)

lemma returns_with_context [simp]: "returns (with_context ctx r) = returns r"
  by (cases r) simp_all

lemma returns_decrypt_payload [simp]: "returns (decrypt_payload E bm decode b)"
  unfolding decrypt_payload_def by (intro returns_bind_res) auto

lemma returns_of_row [simp]:
  "returns (entity_of_row E bm er)" "returns (fact_of_row E bm fr)" "returns (task_of_row E bm tr)"
  by (simp_all add: entity_of_row_def fact_of_row_def task_of_row_def returns_bind_res)

lemma safe_projections [safe_intros]:
  "safe_at b (encrypt_payload E bm j)" "safe (upsert_projection E bm ns k c md)"
  "safe (delete_projection ns k)" "safe (query_projection_hits E bm ns q n)"
  unfolding encrypt_payload_def upsert_projection_def delete_projection_def query_projection_hits_def
  by (intro safe_intros)+

lemma returns_validate [simp]:
  "returns (validate_entity_kind k)" "returns (validate_environment_subtype k)"
  "returns (validate_task_status k)" "returns (validate_relation_kind k)" "returns (validate_entity k s)"
  by (simp_all add: validate_entity_kind_def validate_environment_subtype_def validate_task_status_def
      validate_relation_kind_def validate_entity_def returns_bind_res)

lemma safe_brain_rows [safe_intros]:
  "safe (upsert_entity E bm eu)" "safe (upsert_fact E bm fu)"
  "safe (upsert_relation E kind from_id to_id md c a)" "safe (upsert_task E bm tu)"
  "safe (list_entities E bm incl)" "safe (list_facts E bm incl)" "safe (list_relations incl)"
  "safe (list_tasks E bm incl)" "safe (record_ingest E sref skind fp tj)"
  unfolding upsert_entity_def upsert_fact_def upsert_relation_def upsert_task_def list_entities_def
    list_facts_def list_relations_def list_tasks_def record_ingest_def Let_def
  by (intro safe_intros returns_traverse_res; simp)+

lemma safe_brain_tasks [safe_intros]:
  "safe (link_record E rid kind links sref)" "safe (find_similar_task E bm s scope)"
  "safe (find_related_tool_task E bm target s)" "safe (upsert_or_merge_task E bm tu)"
  unfolding link_record_def find_similar_task_def find_related_tool_task_def upsert_or_merge_task_def
  by (intro safe_intros)+

text \<open>Retention is safe exactly when its cutoff can be computed.\<close>

definition retention_ok :: "env \<Rightarrow> brain_manager \<Rightarrow> bool" where
  "retention_ok E bm \<longleftrightarrow> (\<forall>n. is_ok (bind_res (duration_days (bc_archive_decay_days (bm_config bm)))
     (chrono_sub (E_time E n))))"

lemma retention_cutoff_run:
  "retention_cutoff E bm w = (bind_res (duration_days (bc_archive_decay_days (bm_config bm)))
     (chrono_sub (E_time E (w_ticks w))), w\<lparr>w_ticks := Suc (w_ticks w)\<rparr>)"
  by (simp add: retention_cutoff_def run_simps)

lemma is_ok_returns: "is_ok r \<Longrightarrow> returns r"
  by (cases r) simp_all

lemma safe_apply_retention [safe_intros]:
  assumes "retention_ok E bm"
  shows "safe (apply_retention E bm)"
proof -
  have "safe (retention_cutoff E bm)"
    using assms by (simp add: safe_at_def retention_cutoff_run retention_ok_def is_ok_returns)
  then show ?thesis unfolding apply_retention_def by (intro safe_intros)
qed

section \<open>What the brain tables satisfy\<close>

definition brain_valid :: "store \<Rightarrow> bool" where
  "brain_valid d \<longleftrightarrow>
     (\<forall>r\<in>set (t_entities d). validate_entity (er_entity_kind r) (er_subtype r) = Ok ())
     \<and> (\<forall>r\<in>set (t_relations d). validate_relation_kind (rr_relation_kind r) = Ok ())
     \<and> (\<forall>r\<in>set (t_tasks d). validate_task_status (tr_status r) = Ok ())
     \<and> distinct_keys er_entity_id (t_entities d) \<and> distinct_keys fr_fact_id (t_facts d)
     \<and> distinct_keys relation_key (t_relations d) \<and> distinct_keys rr_relation_id (t_relations d)
     \<and> distinct_keys tr_task_id (t_tasks d) \<and> distinct_keys il_source_ref (t_ingest_log d)"

text \<open>The condition under which a step with a validated input keeps a property.\<close>

lemma keeps_validated:
  assumes "r = Ok () \<Longrightarrow> keeps P m"
  shows "keeps P (andthen (lift_res r) (\<lambda>_. m))"
proof (cases "r = Ok ()")
  case True
  show ?thesis by (intro keeps_andthen keeps_pure(3)) (use assms True in simp)
next
  case False
  have "w_db (snd (andthen (lift_res r) (\<lambda>_. m) w)) = w_db w" for w
    using False by (cases r) (simp_all add: run_simps)
  then show ?thesis by (simp add: keeps_def)
qed

lemma keeps_context_act [keeps_intros]: "keeps P m \<Longrightarrow> keeps P (context_act ctx m)"
  by (erule keeps_like) (simp add: context_act_def)

lemma valid_insert_entity:
  assumes "brain_valid d" and "validate_entity (er_entity_kind r) (er_subtype r) = Ok ()"
  shows "brain_valid (d\<lparr>t_entities := upsert_row er_entity_id merge_entity r (t_entities d)\<rparr>)"
proof -
  have "\<forall>x\<in>set (upsert_row er_entity_id merge_entity r (t_entities d)).
      validate_entity (er_entity_kind x) (er_subtype x) = Ok ()"
    using assms by (intro entity_rows.upsert_all) (simp_all add: brain_valid_def merge_entity_def)
  then show ?thesis using assms(1) by (simp add: brain_valid_def entity_rows.upsert_distinct)
qed

lemma valid_insert_task:
  assumes "brain_valid d" and "validate_task_status (tr_status r) = Ok ()"
  shows "brain_valid (d\<lparr>t_tasks := upsert_row tr_task_id merge_task r (t_tasks d)\<rparr>)"
proof -
  have "\<forall>x\<in>set (upsert_row tr_task_id merge_task r (t_tasks d)). validate_task_status (tr_status x) = Ok ()"
    using assms by (intro task_rows.upsert_all) (simp_all add: brain_valid_def merge_task_def)
  then show ?thesis using assms(1) by (simp add: brain_valid_def task_rows.upsert_distinct)
qed

lemma valid_insert_fact:
  "brain_valid d \<Longrightarrow> brain_valid (d\<lparr>t_facts := upsert_row fr_fact_id merge_fact r (t_facts d)\<rparr>)"
  by (simp add: brain_valid_def fact_rows.upsert_distinct)

lemma valid_insert_relation:
  assumes "brain_valid d" and "validate_relation_kind (rr_relation_kind r) = Ok ()"
    and "upsert_unique relation_key merge_relation rr_relation_id r (t_relations d) = Some t"
  shows "brain_valid (d\<lparr>t_relations := t\<rparr>)"
proof -
  have t: "t = upsert_row relation_key merge_relation r (t_relations d)"
    using assms(3) by (rule upsert_unique_Some)
  have "distinct_keys rr_relation_id t"
    using upsert_unique_ids [OF _ assms(3)] assms(1) by (simp add: brain_valid_def merge_relation_def)
  moreover have "\<forall>x\<in>set t. validate_relation_kind (rr_relation_kind x) = Ok ()"
    using assms(1,2) unfolding t
    by (intro relation_rows.upsert_all) (simp_all add: brain_valid_def merge_relation_def)
  ultimately show ?thesis using assms(1) t by (simp add: brain_valid_def relation_rows.upsert_distinct)
qed

lemma valid_memory: "brain_valid (d\<lparr>t_vector_memory := v\<rparr>) = brain_valid d"
  by (simp add: brain_valid_def)

lemma valid_archive:
  "brain_valid d \<Longrightarrow> brain_valid (d\<lparr>t_entities := update_where pe (\<lambda>r. r\<lparr>er_archived := True, er_updated_at := now\<rparr>) (t_entities d)\<rparr>)"
  "brain_valid d \<Longrightarrow> brain_valid (d\<lparr>t_facts := update_where pf (\<lambda>r. r\<lparr>fr_archived := True, fr_updated_at := now\<rparr>) (t_facts d)\<rparr>)"
  "brain_valid d \<Longrightarrow> brain_valid (d\<lparr>t_relations := update_where pr (\<lambda>r. r\<lparr>rr_archived := True, rr_updated_at := now\<rparr>) (t_relations d)\<rparr>)"
  "brain_valid d \<Longrightarrow> brain_valid (d\<lparr>t_tasks := update_where pt (\<lambda>r. r\<lparr>tr_archived := True, tr_updated_at := now\<rparr>) (t_tasks d)\<rparr>)"
  by (auto simp: brain_valid_def distinct_keys_update_where set_update_where relation_key_def)

lemma valid_delete:
  "brain_valid d \<Longrightarrow> brain_valid (d\<lparr>t_entities := delete_where pe (t_entities d)\<rparr>)"
  "brain_valid d \<Longrightarrow> brain_valid (d\<lparr>t_facts := delete_where pf (t_facts d)\<rparr>)"
  "brain_valid d \<Longrightarrow> brain_valid (d\<lparr>t_relations := delete_where pr (t_relations d)\<rparr>)"
  "brain_valid d \<Longrightarrow> brain_valid (d\<lparr>t_tasks := delete_where pt (t_tasks d)\<rparr>)"
  by (simp_all add: brain_valid_def distinct_keys_delete_where set_delete_where)

text \<open>
  What a property of the stored data has to satisfy to be kept by every operation of the brain:
  it survives the writes the brain makes. The operations' lemmas are proved once from these laws,
  for the brain's own invariant and for those of the tables it shares the store with.
\<close>

locale brain_invariant =
  fixes P :: "store \<Rightarrow> bool"
  assumes put_entity: "\<And>d r. P d \<Longrightarrow> validate_entity (er_entity_kind r) (er_subtype r) = Ok () \<Longrightarrow>
      P (d\<lparr>t_entities := upsert_row er_entity_id merge_entity r (t_entities d)\<rparr>)"
    and put_fact: "\<And>d r. P d \<Longrightarrow> P (d\<lparr>t_facts := upsert_row fr_fact_id merge_fact r (t_facts d)\<rparr>)"
    and put_relation: "\<And>d r t. P d \<Longrightarrow> validate_relation_kind (rr_relation_kind r) = Ok () \<Longrightarrow>
      upsert_unique relation_key merge_relation rr_relation_id r (t_relations d) = Some t \<Longrightarrow>
      P (d\<lparr>t_relations := t\<rparr>)"
    and put_task: "\<And>d r. P d \<Longrightarrow> validate_task_status (tr_status r) = Ok () \<Longrightarrow>
      P (d\<lparr>t_tasks := upsert_row tr_task_id merge_task r (t_tasks d)\<rparr>)"
    and put_ingest: "\<And>d r. P d \<Longrightarrow> P (d\<lparr>t_ingest_log := upsert_row il_source_ref merge_ingest r (t_ingest_log d)\<rparr>)"
    and put_memory: "\<And>d r. P d \<Longrightarrow> P (d\<lparr>t_vector_memory := upsert_row memory_key merge_memory r (t_vector_memory d)\<rparr>)"
    and drop_memory: "\<And>d p. P d \<Longrightarrow> P (d\<lparr>t_vector_memory := delete_where p (t_vector_memory d)\<rparr>)"
    and archive: "\<And>d pe now. P d \<Longrightarrow> P (d\<lparr>t_entities := update_where pe (\<lambda>r. r\<lparr>er_archived := True, er_updated_at := now\<rparr>) (t_entities d)\<rparr>)"
      "\<And>d pf now. P d \<Longrightarrow> P (d\<lparr>t_facts := update_where pf (\<lambda>r. r\<lparr>fr_archived := True, fr_updated_at := now\<rparr>) (t_facts d)\<rparr>)"
      "\<And>d pr now. P d \<Longrightarrow> P (d\<lparr>t_relations := update_where pr (\<lambda>r. r\<lparr>rr_archived := True, rr_updated_at := now\<rparr>) (t_relations d)\<rparr>)"
      "\<And>d pt now. P d \<Longrightarrow> P (d\<lparr>t_tasks := update_where pt (\<lambda>r. r\<lparr>tr_archived := True, tr_updated_at := now\<rparr>) (t_tasks d)\<rparr>)"
    and delete: "\<And>d pe. P d \<Longrightarrow> P (d\<lparr>t_entities := delete_where pe (t_entities d)\<rparr>)"
      "\<And>d pf. P d \<Longrightarrow> P (d\<lparr>t_facts := delete_where pf (t_facts d)\<rparr>)"
      "\<And>d pr. P d \<Longrightarrow> P (d\<lparr>t_relations := delete_where pr (t_relations d)\<rparr>)"
      "\<And>d pt. P d \<Longrightarrow> P (d\<lparr>t_tasks := delete_where pt (t_tasks d)\<rparr>)"
begin

lemma keeps_projections:
  "keeps P (upsert_projection E bm ns k c md)" "keeps P (delete_projection ns k)"
  "keeps P (query_projection_hits E bm ns q n)"
  unfolding upsert_projection_def delete_projection_def query_projection_hits_def upsert_memory_def
    query_memory_def
  by (intro keeps_intros put_memory drop_memory; assumption)+

lemma keeps_entity: "keeps P (upsert_entity E bm eu)"
  unfolding upsert_entity_def encrypt_payload_def Let_def
  by (intro keeps_validated keeps_intros keeps_projections put_entity) (simp_all add: entity_row_of_def)

lemma keeps_fact: "keeps P (upsert_fact E bm fu)"
  unfolding upsert_fact_def encrypt_payload_def Let_def
  by (intro keeps_intros keeps_projections put_fact)

lemma keeps_task: "keeps P (upsert_task E bm tu)"
  unfolding upsert_task_def encrypt_payload_def Let_def
  by (intro keeps_validated keeps_intros keeps_projections put_task) (simp_all add: task_row_of_def)

lemma keeps_relation: "keeps P (upsert_relation E kind from_id to_id md c a)"
  unfolding upsert_relation_def Let_def
  by (intro keeps_validated keeps_intros) (auto elim!: put_relation [rotated 2])

lemma keeps_retention: "keeps P (apply_retention E bm)"
  unfolding apply_retention_def retention_cutoff_def
  by (intro keeps_intros archive)

lemma keeps_ingest: "keeps P (record_ingest E sref skind fp tj)"
  unfolding record_ingest_def by (intro keeps_intros put_ingest)

lemma keeps_lists:
  "keeps P (list_entities E bm incl)" "keeps P (list_facts E bm incl)" "keeps P (list_relations incl)"
  "keeps P (list_tasks E bm incl)"
  unfolding list_entities_def list_facts_def list_relations_def list_tasks_def
  by (intro keeps_intros)+

lemma keeps_task_search:
  "keeps P (find_similar_task E bm s scope)" "keeps P (find_related_tool_task E bm target s)"
  unfolding find_similar_task_def find_related_tool_task_def
  by (intro keeps_intros keeps_lists)+

lemma keeps_links: "keeps P (link_record E rid kind links sref)"
  unfolding link_record_def by (intro keeps_intros keeps_relation)

lemma keeps_merge_task: "keeps P (upsert_or_merge_task E bm tu)"
  unfolding upsert_or_merge_task_def by (intro keeps_intros keeps_task_search keeps_task)

end

interpretation brain_valid: brain_invariant brain_valid
  by unfold_locales
     (auto simp: valid_insert_entity valid_insert_fact valid_insert_relation valid_insert_task
       valid_memory valid_archive valid_delete, simp add: brain_valid_def ingest_rows.upsert_distinct)

interpretation brain_keys: brain_invariant store_keys
  by unfold_locales (simp_all add: store_keys_def memory.upsert_distinct distinct_keys_delete_where)

interpretation brain_sessions: brain_invariant sessions_keys
  by unfold_locales (simp_all add: sessions_keys_def)

interpretation brain_counts: brain_invariant message_counts_ok
  by unfold_locales (simp_all add: message_counts_ok_def)

end
