(* ===== verification/Brain_Ops.thy ===== *)
theory Brain_Ops
  imports Brain_Store
begin

text \<open>
  The operations of \<open>BrainManager\<close> (\<open>engine/src/lib.rs\<close>): remembering, recalling,
  suggesting, the task list, forgetting, and what is ingested from messages, tool results and
  replies.
\<close>

definition brain_enabled :: "brain_manager \<Rightarrow> bool" where
  "brain_enabled bm = bc_enabled (bm_config bm)"

definition brain_disabled :: error where
  "brain_disabled = Msg ''brain is disabled''"

definition source_json :: "env \<Rightarrow> string \<Rightarrow> string" where
  "source_json E source_ref = E_json_print E (json_obj [(''source_ref'', JStr source_ref)])"

section \<open>Baseline context\<close>

definition workspace_name :: "env \<Rightarrow> string \<Rightarrow> string" where
  "workspace_name E data_dir =
     (case path_file_name (current_dir_or E data_dir) of None \<Rightarrow> ''workspace'' | Some n \<Rightarrow> n)"

definition baseline_entities :: "env \<Rightarrow> brain_manager \<Rightarrow> entity_upsert list" where
  "baseline_entities E bm =
     (let root = current_dir_or E (bm_data_dir bm); title = workspace_name E (bm_data_dir bm) in
      [\<lparr>eu_entity_id = bm_owner_id bm, eu_kind = ''person'', eu_subtype = ''owner'',
        eu_title = ''Local Owner'', eu_content = ''Primary local OpenPinch operator'',
        eu_scope_json = ''{}'', eu_links_json = ''[]'', eu_salience = 95 / 100,
        eu_confidence = 99 / 100, eu_source_ref = ''brain:baseline''\<rparr>,
       \<lparr>eu_entity_id = bm_runtime_env_id bm, eu_kind = ''environment'', eu_subtype = ''runtime'',
        eu_title = E_os E @ '' runtime'', eu_content = ''OpenPinch runtime on '' @ E_os E,
        eu_scope_json = E_json_print E (json_obj [(''scope'', JStr ''runtime''), (''os'', JStr (E_os E))]),
        eu_links_json = ''[]'', eu_salience = 82 / 100, eu_confidence = 98 / 100,
        eu_source_ref = ''brain:baseline''\<rparr>,
       \<lparr>eu_entity_id = bm_workspace_env_id bm, eu_kind = ''environment'', eu_subtype = ''workspace'',
        eu_title = title, eu_content = ''Workspace rooted at '' @ root,
        eu_scope_json = E_json_print E (json_obj [(''scope'', JStr ''workspace''), (''path'', JStr root)]),
        eu_links_json = ''[]'', eu_salience = 84 / 100, eu_confidence = 98 / 100,
        eu_source_ref = ''brain:baseline''\<rparr>,
       \<lparr>eu_entity_id = bm_project_env_id bm, eu_kind = ''environment'', eu_subtype = ''project'',
        eu_title = title, eu_content = ''Project context for '' @ title,
        eu_scope_json = E_json_print E (json_obj [(''scope'', JStr ''project''), (''workspace'', JStr title)]),
        eu_links_json = ''[]'', eu_salience = 80 / 100, eu_confidence = 94 / 100,
        eu_source_ref = ''brain:baseline''\<rparr>])"

definition baseline_relations :: "brain_manager \<Rightarrow> (string \<times> string \<times> string \<times> f64) list" where
  "baseline_relations bm =
     [(''owns'', bm_owner_id bm, bm_workspace_env_id bm, 96 / 100),
      (''belongs_to'', bm_workspace_env_id bm, bm_project_env_id bm, 94 / 100),
      (''runs_in'', bm_project_env_id bm, bm_runtime_env_id bm, 93 / 100)]"

definition ensure_baseline_context :: "env \<Rightarrow> brain_manager \<Rightarrow> unit io" where
  "ensure_baseline_context E bm =
     andthen (for_each (\<lambda>u. andthen (upsert_entity E bm u) (\<lambda>_. ret ())) (baseline_entities E bm)) (\<lambda>_.
     for_each (\<lambda>(kind, from_id, to_id, confidence).
       andthen (upsert_relation E kind from_id to_id (source_json E ''brain:baseline'') confidence False)
         (\<lambda>_. ret ())) (baseline_relations bm))"

definition make_brain :: "env \<Rightarrow> app_config \<Rightarrow> openpinch_paths \<Rightarrow> encryption_manager \<Rightarrow> brain_manager" where
  "make_brain E config paths em = \<lparr>bm_config = cfg_brain config, bm_data_dir = pa_data_dir paths,
     bm_encryption = em, bm_owner_id = ''person:owner:local'',
     bm_runtime_env_id = ''environment:runtime:'' @ E_os E,
     bm_workspace_env_id = ''environment:workspace:'' @ prompt_hash E (current_dir_or E (pa_data_dir paths)),
     bm_project_env_id = ''environment:project:'' @ prompt_hash E (workspace_name E (pa_data_dir paths))\<rparr>"

definition new_brain :: "env \<Rightarrow> app_config \<Rightarrow> openpinch_paths \<Rightarrow> encryption_manager \<Rightarrow> brain_manager io" where
  "new_brain E config paths em =
     (let bm = make_brain E config paths em in
      andthen (ensure_baseline_context E bm) (\<lambda>_. ret bm))"

section \<open>Remembering\<close>

definition remember_task ::
  "env \<Rightarrow> brain_manager \<Rightarrow> brain_remember \<Rightarrow> string \<Rightarrow> string \<Rightarrow> brain_remember_result io" where
  "remember_task E bm req source_ref digest =
     andthen (parse_due_at E (br_content req)) (\<lambda>due.
     andthen (upsert_or_merge_task E bm \<lparr>tu_task_id = None,
        tu_title = preferred_title (br_title req) (br_content req),
        tu_summary = non_empty_or_default (br_content req) (br_title req), tu_status = ''open'',
        tu_priority = task_priority_from_text (br_content req), tu_due_at = due,
        tu_scope_json = (if br_scope_json req = [] then ''{}'' else br_scope_json req),
        tu_links_json = br_links_json req, tu_salience = max (br_importance req) (45 / 100),
        tu_confidence = 92 / 100,
        tu_source_ref = default_source_ref E source_ref (br_title req) ''task''\<rparr>) (\<lambda>task.
     andthen (record_ingest E source_ref ''remember'' digest
        (E_json_print E (json_obj [(''task_id'', JStr (tk_id task))]))) (\<lambda>_.
     ret \<lparr>bre_stored = True, bre_entity = None, bre_task = Some task, bre_digest = digest\<rparr>)))"

definition remember_entity ::
  "env \<Rightarrow> brain_manager \<Rightarrow> brain_remember \<Rightarrow> string \<Rightarrow> string \<Rightarrow> brain_remember_result io" where
  "remember_entity E bm req source_ref digest =
     andthen (lift_res (validate_entity (br_kind req) (br_subtype req))) (\<lambda>_.
     let scope_json = (if br_scope_json req = [] then ''{}'' else br_scope_json req);
         links_json = (if br_links_json req = [] then ''[]'' else br_links_json req);
         entity_id = br_kind req @ '':'' @ br_subtype req @ '':''
           @ prompt_hash E (br_title req @ '':'' @ scope_json) in
     andthen (upsert_entity E bm \<lparr>eu_entity_id = entity_id, eu_kind = br_kind req,
        eu_subtype = br_subtype req, eu_title = preferred_title (br_title req) (br_content req),
        eu_content = br_content req, eu_scope_json = scope_json, eu_links_json = links_json,
        eu_salience = max (br_importance req) (4 / 10), eu_confidence = 95 / 100,
        eu_source_ref = source_ref\<rparr>) (\<lambda>entity.
     andthen (upsert_fact E bm
        \<lparr>fu_fact_id = ''fact:'' @ be_id entity @ '':'' @ prompt_hash E (source_ref @ '':'' @ br_content req),
         fu_entity_id = be_id entity, fu_content = br_content req, fu_scope_json = scope_json,
         fu_salience = max (br_importance req) (35 / 100), fu_confidence = 9 / 10,
         fu_source_ref = source_ref\<rparr>) (\<lambda>_.
     andthen (link_record E (be_id entity) (br_kind req) links_json source_ref) (\<lambda>_.
     andthen (record_ingest E source_ref ''remember'' digest
        (E_json_print E (json_obj [(''entity_id'', JStr (be_id entity))]))) (\<lambda>_.
     ret \<lparr>bre_stored = True, bre_entity = Some entity, bre_task = None, bre_digest = digest\<rparr>)))))"

definition remember :: "env \<Rightarrow> brain_manager \<Rightarrow> brain_remember \<Rightarrow> brain_remember_result io" where
  "remember E bm req =
     (if \<not> brain_enabled bm then fail brain_disabled
      else andthen (apply_retention E bm) (\<lambda>_.
        let seed = br_kind req @ '':'' @ br_subtype req @ '':'' @ br_title req @ '':'' @ br_content req;
            source_ref = default_source_ref E (br_source_ref req) seed ''remember'';
            digest = prompt_hash E (seed @ '':'' @ source_ref)
        in if br_kind req = ''task'' then remember_task E bm req source_ref digest
           else remember_entity E bm req source_ref digest))"

section \<open>Recalling\<close>

definition index_by :: "('r \<Rightarrow> string) \<Rightarrow> 'r list \<Rightarrow> (string, 'r) btree" where
  "index_by ident rs = bt_of_list (map (\<lambda>r. (ident r, r)) rs)"

text \<open>An entity is added unless its id is there already or the list is full.\<close>

definition add_entity ::
  "nat \<Rightarrow> (string, brain_entity_record) btree \<Rightarrow> string \<Rightarrow> brain_entity_record list \<Rightarrow> brain_entity_record list" where
  "add_entity limit entity_map ident entities =
     (case bt_get entity_map ident of
        None \<Rightarrow> entities
      | Some e \<Rightarrow> (if \<not> list_ex (\<lambda>x. be_id x = be_id e) entities \<and> length entities < limit
                   then entities @ [e] else entities))"

fun match_entities ::
  "env \<Rightarrow> string \<Rightarrow> nat \<Rightarrow> (string, brain_entity_record) btree \<Rightarrow> string list \<Rightarrow>
     brain_entity_record list \<times> string set \<Rightarrow> brain_entity_record list \<times> string set" where
  "match_entities E scope limit entity_map [] acc = acc"
| "match_entities E scope limit entity_map (hit # hits) (entities, selected) =
     (if limit \<le> length entities then (entities, selected)
      else match_entities E scope limit entity_map hits
        (case bt_get entity_map hit of
           Some e \<Rightarrow> (if scope_matches E (be_scope_json e) scope
                      then (entities @ [e], insert (be_id e) selected) else (entities, selected))
         | None \<Rightarrow> (entities, selected)))"

fun match_facts ::
  "env \<Rightarrow> string \<Rightarrow> nat \<Rightarrow> (string, brain_entity_record) btree \<Rightarrow> (string, brain_fact_record) btree \<Rightarrow> string list \<Rightarrow>
     brain_fact_record list \<times> brain_entity_record list \<times> string set \<Rightarrow>
     brain_fact_record list \<times> brain_entity_record list \<times> string set" where
  "match_facts E scope limit entity_map fact_map [] acc = acc"
| "match_facts E scope limit entity_map fact_map (hit # hits) (facts, entities, selected) =
     (if limit \<le> length facts then (facts, entities, selected)
      else match_facts E scope limit entity_map fact_map hits
        (case bt_get fact_map hit of
           Some f \<Rightarrow> (if scope_matches E (bfa_scope_json f) scope
                      then (facts @ [f], add_entity limit entity_map (bfa_entity_id f) entities,
                            insert (bfa_entity_id f) selected)
                      else (facts, entities, selected))
         | None \<Rightarrow> (facts, entities, selected)))"

fun match_tasks ::
  "env \<Rightarrow> string \<Rightarrow> nat \<Rightarrow> (string, brain_task_record) btree \<Rightarrow> string list \<Rightarrow>
     brain_task_record list \<times> string set \<Rightarrow> brain_task_record list \<times> string set" where
  "match_tasks E scope limit task_map [] acc = acc"
| "match_tasks E scope limit task_map (hit # hits) (tasks, selected) =
     (if limit \<le> length tasks then (tasks, selected)
      else match_tasks E scope limit task_map hits
        (case bt_get task_map hit of
           Some t \<Rightarrow> (if scope_matches E (tk_scope_json t) scope
                      then (tasks @ [t], insert (tk_id t) selected \<union> set (parse_link_ids E (tk_links_json t)))
                      else (tasks, selected))
         | None \<Rightarrow> (tasks, selected)))"

definition touches :: "string set \<Rightarrow> brain_relation_record \<Rightarrow> bool" where
  "touches selected r \<longleftrightarrow> brl_from_id r \<in> selected \<or> brl_to_id r \<in> selected"

fun match_related ::
  "nat \<Rightarrow> (string, brain_entity_record) btree \<Rightarrow> string set \<Rightarrow> brain_relation_record list \<Rightarrow>
     brain_entity_record list \<Rightarrow> brain_entity_record list" where
  "match_related limit entity_map selected [] entities = entities"
| "match_related limit entity_map selected (r # rs) entities =
     match_related limit entity_map selected rs
       (if touches selected r
        then add_entity limit entity_map (brl_to_id r) (add_entity limit entity_map (brl_from_id r) entities)
        else entities)"

definition assemble_recall ::
  "env \<Rightarrow> string \<Rightarrow> nat \<Rightarrow> brain_entity_record list \<Rightarrow> brain_fact_record list \<Rightarrow> brain_task_record list \<Rightarrow>
     brain_relation_record list \<Rightarrow> string list \<Rightarrow> string list \<Rightarrow> string list \<Rightarrow> brain_recall_result" where
  "assemble_recall E scope limit entities facts tasks relations entity_hits fact_hits task_hits =
     (let entity_map = index_by be_id entities;
          fact_map = index_by bfa_id facts;
          task_map = index_by tk_id tasks;
          (es1, sel1) = match_entities E scope limit entity_map entity_hits ([], {});
          (fs, es2, sel2) = match_facts E scope limit entity_map fact_map fact_hits ([], es1, sel1);
          (ts, sel3) = match_tasks E scope limit task_map task_hits ([], sel2);
          es = match_related limit entity_map sel3 relations es2
      in \<lparr>brr_summary = build_recall_summary es fs ts, brr_entities = es, brr_facts = fs,
          brr_relations = take (limit * 2) (filter (touches sel3) relations), brr_tasks = ts\<rparr>)"

definition recall :: "env \<Rightarrow> brain_manager \<Rightarrow> brain_recall_query \<Rightarrow> brain_recall_result io" where
  "recall E bm q =
     (if \<not> brain_enabled bm then fail brain_disabled
      else andthen (apply_retention E bm) (\<lambda>_.
        let limit = max (brq_limit q) 1 in
        andthen (list_entities E bm (brq_include_archived q)) (\<lambda>entities.
        andthen (list_facts E bm (brq_include_archived q)) (\<lambda>facts.
        andthen (list_tasks E bm False) (\<lambda>tasks.
        andthen (list_relations (brq_include_archived q)) (\<lambda>relations.
        andthen (query_projection_hits E bm ''brain-entities'' (brq_query q) (limit * 3)) (\<lambda>entity_hits.
        andthen (query_projection_hits E bm ''brain-facts'' (brq_query q) (limit * 3)) (\<lambda>fact_hits.
        andthen (query_projection_hits E bm ''brain-tasks'' (brq_query q) (limit * 3)) (\<lambda>task_hits.
        ret (assemble_recall E (brq_scope_json q) limit entities facts tasks relations
               entity_hits fact_hits task_hits))))))))))"

section \<open>Suggesting\<close>

text \<open>\<open>TimeDelta::num_hours\<close> rounds towards zero.\<close>

definition num_hours :: "int \<Rightarrow> int" where
  "num_hours d = (if 0 \<le> d then d div ns_per_hour else - ((- d) div ns_per_hour))"

definition due_bonus :: "instant \<Rightarrow> brain_task_record \<Rightarrow> f64" where
  "due_bonus now t = (case tk_due_at t of
       None \<Rightarrow> 0
     | Some due \<Rightarrow> (if due \<le> now then 35 / 100 else if due \<le> now + 24 * ns_per_hour then 2 / 10 else 0))"

definition task_stale :: "brain_config \<Rightarrow> instant \<Rightarrow> brain_task_record \<Rightarrow> bool" where
  "task_stale config now t \<longleftrightarrow> bc_stale_task_hours config \<le> num_hours (now - tk_updated_at t)"

definition blocked_bonus :: "brain_task_record \<Rightarrow> f64" where
  "blocked_bonus t = (if tk_status t = ''blocked'' then 15 / 100 else 0)"

definition suggestion_score :: "brain_config \<Rightarrow> instant \<Rightarrow> brain_task_record \<Rightarrow> f64" where
  "suggestion_score config now t =
     tk_salience t * (4 / 10) + tk_confidence t * (2 / 10) + priority_weight (tk_priority t) * (25 / 100)
     + due_bonus now t + (if task_stale config now t then 1 / 10 else 0) + blocked_bonus t"

definition suggestion_of ::
  "env \<Rightarrow> brain_config \<Rightarrow> instant \<Rightarrow> (string, brain_entity_record) btree \<Rightarrow> brain_task_record \<Rightarrow> brain_suggestion_record" where
  "suggestion_of E config now entities t =
     \<lparr>bs_id = ''suggestion:'' @ tk_id t, bs_task_id = tk_id t, bs_summary = tk_summary t,
      bs_reason = suggestion_reason t (task_stale config now t) (due_bonus now t) (blocked_bonus t),
      bs_score = suggestion_score config now t,
      bs_context_json = E_json_print E (json_obj
        [(''task_status'', JStr (tk_status t)), (''priority'', JStr (tk_priority t)),
         (''due_at'', case tk_due_at t of None \<Rightarrow> JNull | Some due \<Rightarrow> JStr (E_rfc3339 E due)),
         (''linked_entities'', JArr (map (\<lambda>e. JStr (be_title e))
            (List.map_filter (bt_get entities) (parse_link_ids E (tk_links_json t)))))])\<rparr>"

definition suggest :: "env \<Rightarrow> brain_manager \<Rightarrow> brain_suggest_query \<Rightarrow> brain_suggest_result io" where
  "suggest E bm q =
     (if \<not> brain_enabled bm then fail brain_disabled
      else andthen (apply_retention E bm) (\<lambda>_.
        let limit = max (bsq_limit q) 1 in
        andthen (list_tasks E bm False) (\<lambda>all_tasks.
        let tasks = filter (\<lambda>t. is_open_status (tk_status t) \<and> scope_matches E (tk_scope_json t) (bsq_scope_json q))
                      all_tasks in
        andthen (list_entities E bm False) (\<lambda>entities.
        andthen (utc_now E) (\<lambda>now.
        let suggestions = take limit (order_desc bs_score
              (map (suggestion_of E (bm_config bm) now (index_by be_id entities)) tasks)) in
        andthen (for_each (\<lambda>s. ignore_err (upsert_projection E bm ''brain-suggestions'' (bs_id s)
            (bs_summary s @ '' '' @ bs_reason s @ '' '' @ bs_context_json s)
            (E_json_print E (json_obj [(''task_id'', JStr (bs_task_id s)), (''score'', JNum (bs_score s))]))))
          suggestions) (\<lambda>_.
        ret \<lparr>bsr_summary = dec (length suggestions) @ '' next actions suggested'',
             bsr_suggestions = suggestions\<rparr>))))))"

definition inline_suggestions :: "env \<Rightarrow> brain_manager \<Rightarrow> string \<Rightarrow> nat \<Rightarrow> brain_suggestion_record list io" where
  "inline_suggestions E bm scope_json limit =
     andthen (suggest E bm \<lparr>bsq_scope_json = scope_json, bsq_limit = limit\<rparr>) (\<lambda>r.
     ret (take limit (filter (\<lambda>s. 55 / 100 \<le> bs_score s) (bsr_suggestions r))))"

definition context_lines :: "brain_recall_result \<Rightarrow> brain_suggestion_record list \<Rightarrow> string list" where
  "context_lines r suggestions =
     (if brr_summary r = [] then [] else [''summary: '' @ brr_summary r])
     @ map (\<lambda>e. ''entity: '' @ be_title e @ '' ('' @ be_kind e @ '') - '' @ be_content e) (take 2 (brr_entities r))
     @ map (\<lambda>t. ''task: '' @ tk_summary t @ '' ['' @ tk_status t @ '' / '' @ tk_priority t @ '']'')
         (take 2 (brr_tasks r))
     @ map (\<lambda>s. ''suggestion: '' @ bs_summary s @ '' ('' @ bs_reason s @ '')'') suggestions"

definition build_context_pack :: "env \<Rightarrow> brain_manager \<Rightarrow> string \<Rightarrow> string \<Rightarrow> string io" where
  "build_context_pack E bm query scope_json =
     (if \<not> brain_enabled bm then ret []
      else andthen (recall E bm \<lparr>brq_query = query, brq_scope_json = scope_json, brq_limit = 3,
                      brq_include_archived = False\<rparr>) (\<lambda>r.
        andthen (suggest E bm \<lparr>bsq_scope_json = scope_json,
                   bsq_limit = bc_max_inline_suggestions (bm_config bm)\<rparr>) (\<lambda>s.
        let content = join [CHR 0x0A] (context_lines r
              (take (bc_max_inline_suggestions (bm_config bm)) (bsr_suggestions s)))
        in ret (if bc_context_budget_chars (bm_config bm) < length content
                then truncate_with_ellipsis content (bc_context_budget_chars (bm_config bm)) else content))))"

section \<open>Task records\<close>

definition task_listed :: "env \<Rightarrow> brain_task_list_query \<Rightarrow> brain_task_record \<Rightarrow> bool" where
  "task_listed E q t \<longleftrightarrow>
     scope_matches E (tk_scope_json t) (btq_scope_json q)
     \<and> (btq_statuses q = [] \<or> List.member (btq_statuses q) (tk_status t))
     \<and> (btq_priorities q = [] \<or> List.member (btq_priorities q) (tk_priority t))
     \<and> (case btq_due_before q of None \<Rightarrow> True
        | Some limit \<Rightarrow> (case tk_due_at t of None \<Rightarrow> False | Some due \<Rightarrow> due \<le> limit))"

definition list_task_records :: "env \<Rightarrow> brain_manager \<Rightarrow> brain_task_list_query \<Rightarrow> brain_task_list_result io" where
  "list_task_records E bm q =
     (if \<not> brain_enabled bm then fail brain_disabled
      else andthen (apply_retention E bm) (\<lambda>_.
        andthen (list_tasks E bm False) (\<lambda>all_tasks.
        let tasks = take (max (btq_limit q) 1)
              (order_desc tk_updated_at (filter (task_listed E q) all_tasks))
        in ret \<lparr>btr_summary = dec (length tasks) @ '' tasks matched'', btr_tasks = tasks\<rparr>)))"

definition update_task_record :: "env \<Rightarrow> brain_manager \<Rightarrow> brain_task_update \<Rightarrow> brain_task_record io" where
  "update_task_record E bm req =
     (if \<not> brain_enabled bm then fail brain_disabled
      else
       andthen (lift_res (validate_task_status (btu_status req))) (\<lambda>_.
       let priority = (if btu_priority req = [] then ''normal'' else btu_priority req);
           task_id = (if btu_task_id req = [] then ''task:'' @ prompt_hash E (btu_summary req)
                      else btu_task_id req) in
       andthen (list_tasks E bm True) (\<lambda>all_tasks.
       let existing = List.find (\<lambda>t. tk_id t = task_id) all_tasks;
           scope_json = (case existing of None \<Rightarrow> ''{}'' | Some t \<Rightarrow> tk_scope_json t);
           links_json = (if btu_links_json req = []
             then (case existing of None \<Rightarrow> ''[]'' | Some t \<Rightarrow> tk_links_json t) else btu_links_json req);
           summary = non_empty_or_default (btu_summary req)
             (case existing of None \<Rightarrow> task_id | Some t \<Rightarrow> tk_summary t) in
       andthen (upsert_task E bm \<lparr>tu_task_id = Some task_id, tu_title = preferred_title summary summary,
          tu_summary = summary, tu_status = btu_status req, tu_priority = priority,
          tu_due_at = (case btu_due_at req of Some due \<Rightarrow> Some due | None \<Rightarrow> Option.bind existing tk_due_at),
          tu_scope_json = scope_json, tu_links_json = links_json, tu_salience = 8 / 10,
          tu_confidence = 95 / 100,
          tu_source_ref = default_source_ref E (btu_source_ref req) task_id ''task-update''\<rparr>) (\<lambda>task.
       andthen (link_record E (tk_id task) ''task'' links_json
          (default_source_ref E (btu_source_ref req) (tk_id task) ''task-update'')) (\<lambda>_.
       ret task)))))"

section \<open>Forgetting\<close>

definition archive_entities :: "env \<Rightarrow> (entity_row \<Rightarrow> bool) \<Rightarrow> unit io" where
  "archive_entities E p = andthen (utc_now E) (\<lambda>now. sql_exec (\<lambda>d. d\<lparr>t_entities :=
     update_where p (\<lambda>r. r\<lparr>er_archived := True, er_updated_at := now\<rparr>) (t_entities d)\<rparr>))"

definition archive_facts :: "env \<Rightarrow> (fact_row \<Rightarrow> bool) \<Rightarrow> unit io" where
  "archive_facts E p = andthen (utc_now E) (\<lambda>now. sql_exec (\<lambda>d. d\<lparr>t_facts :=
     update_where p (\<lambda>r. r\<lparr>fr_archived := True, fr_updated_at := now\<rparr>) (t_facts d)\<rparr>))"

definition archive_relations :: "env \<Rightarrow> (relation_row \<Rightarrow> bool) \<Rightarrow> unit io" where
  "archive_relations E p = andthen (utc_now E) (\<lambda>now. sql_exec (\<lambda>d. d\<lparr>t_relations :=
     update_where p (\<lambda>r. r\<lparr>rr_archived := True, rr_updated_at := now\<rparr>) (t_relations d)\<rparr>))"

definition archive_tasks :: "env \<Rightarrow> (task_row \<Rightarrow> bool) \<Rightarrow> unit io" where
  "archive_tasks E p = andthen (utc_now E) (\<lambda>now. sql_exec (\<lambda>d. d\<lparr>t_tasks :=
     update_where p (\<lambda>r. r\<lparr>tr_archived := True, tr_updated_at := now\<rparr>) (t_tasks d)\<rparr>))"

definition relation_touches :: "string \<Rightarrow> relation_row \<Rightarrow> bool" where
  "relation_touches target r \<longleftrightarrow> rr_from_entity_id r = target \<or> rr_to_entity_id r = target"

definition forget_statements :: "env \<Rightarrow> string \<Rightarrow> string \<Rightarrow> string \<Rightarrow> unit io" where
  "forget_statements E kind mode target =
     (if (kind, mode) = (''entity'', ''archive'') then
        andthen (archive_entities E (\<lambda>r. er_entity_id r = target)) (\<lambda>_.
        andthen (archive_facts E (\<lambda>r. fr_entity_id r = target)) (\<lambda>_.
        archive_relations E (relation_touches target)))
      else if (kind, mode) = (''task'', ''archive'') then archive_tasks E (\<lambda>r. tr_task_id r = target)
      else if (kind, mode) = (''fact'', ''archive'') then archive_facts E (\<lambda>r. fr_fact_id r = target)
      else if (kind, mode) = (''relation'', ''archive'') then archive_relations E (\<lambda>r. rr_relation_id r = target)
      else if (kind, mode) = (''entity'', ''delete'') then
        andthen (sql_exec (\<lambda>d. d\<lparr>t_facts := delete_where (\<lambda>r. fr_entity_id r = target) (t_facts d)\<rparr>)) (\<lambda>_.
        andthen (sql_exec (\<lambda>d. d\<lparr>t_relations := delete_where (relation_touches target) (t_relations d)\<rparr>)) (\<lambda>_.
        sql_exec (\<lambda>d. d\<lparr>t_entities := delete_where (\<lambda>r. er_entity_id r = target) (t_entities d)\<rparr>)))
      else if (kind, mode) = (''task'', ''delete'') then
        andthen (sql_exec (\<lambda>d. d\<lparr>t_tasks := delete_where (\<lambda>r. tr_task_id r = target) (t_tasks d)\<rparr>)) (\<lambda>_.
        sql_exec (\<lambda>d. d\<lparr>t_relations := delete_where (relation_touches target) (t_relations d)\<rparr>))
      else if (kind, mode) = (''fact'', ''delete'') then
        sql_exec (\<lambda>d. d\<lparr>t_facts := delete_where (\<lambda>r. fr_fact_id r = target) (t_facts d)\<rparr>)
      else if (kind, mode) = (''relation'', ''delete'') then
        sql_exec (\<lambda>d. d\<lparr>t_relations := delete_where (\<lambda>r. rr_relation_id r = target) (t_relations d)\<rparr>)
      else fail (Msg (''unsupported forget mode '' @ mode @ '' for '' @ kind)))"

definition forget :: "env \<Rightarrow> brain_manager \<Rightarrow> brain_forget \<Rightarrow> brain_forget_result io" where
  "forget E bm req =
     (if \<not> brain_enabled bm then fail brain_disabled
      else
       let mode = (if bf_mode req = [] then ''archive'' else bf_mode req);
           target = bf_target_id req in
       andthen (with_conn (forget_statements E (normalize_forget_target_kind (bf_target_kind req)) mode target)) (\<lambda>_.
       andthen (if mode = ''delete'' then
           andthen (ignore_err (delete_projection ''brain-entities'' target)) (\<lambda>_.
           andthen (ignore_err (delete_projection ''brain-facts'' target)) (\<lambda>_.
           andthen (ignore_err (delete_projection ''brain-tasks'' target)) (\<lambda>_.
           ignore_err (delete_projection ''brain-suggestions'' (''suggestion:'' @ target)))))
         else ret ()) (\<lambda>_.
       ret \<lparr>bfr_forgotten = True, bfr_mode = mode, bfr_target_id = target\<rparr>)))"

section \<open>Ingesting\<close>

definition ingest_contact :: "env \<Rightarrow> brain_manager \<Rightarrow> message_envelope \<Rightarrow> string \<Rightarrow> string \<Rightarrow> brain_entity_record io" where
  "ingest_contact E bm m source_ref scope_json =
     andthen (upsert_entity E bm
       \<lparr>eu_entity_id = ''person:contact:'' @ me_connector m @ '':'' @ prompt_hash E (me_sender m),
        eu_kind = ''person'', eu_subtype = ''contact'', eu_title = me_sender m,
        eu_content = ''Observed through '' @ me_connector m @ '' in channel '' @ me_channel_id m,
        eu_scope_json = scope_json, eu_links_json = ''[]'', eu_salience = 58 / 100,
        eu_confidence = 96 / 100, eu_source_ref = source_ref\<rparr>) (\<lambda>contact.
     andthen (upsert_relation E ''knows'' (bm_owner_id bm) (be_id contact)
        (E_json_print E (json_obj [(''connector'', JStr (me_connector m)), (''channel_id'', JStr (me_channel_id m))]))
        (92 / 100) False) (\<lambda>_.
     andthen (upsert_relation E ''mentioned_with'' (be_id contact) (bm_workspace_env_id bm)
        (source_json E source_ref) (65 / 100) False) (\<lambda>_.
     andthen (upsert_fact E bm
       \<lparr>fu_fact_id = ''fact:'' @ be_id contact @ '':'' @ prompt_hash E source_ref,
        fu_entity_id = be_id contact, fu_content = me_body m, fu_scope_json = scope_json,
        fu_salience = 62 / 100, fu_confidence = 84 / 100, fu_source_ref = source_ref\<rparr>) (\<lambda>_.
     ret contact))))"

definition ingest_artifact ::
  "env \<Rightarrow> brain_manager \<Rightarrow> message_envelope \<Rightarrow> string \<Rightarrow> string \<Rightarrow> string \<Rightarrow> string \<Rightarrow> string io" where
  "ingest_artifact E bm m source_ref scope_json contact_id artifact =
     andthen (upsert_entity E bm
       \<lparr>eu_entity_id = ''artifact:'' @ prompt_hash E artifact, eu_kind = ''artifact'',
        eu_subtype = ''reference'', eu_title = artifact,
        eu_content = ''Referenced in inbound '' @ me_connector m @ '' message'',
        eu_scope_json = scope_json, eu_links_json = ''[]'', eu_salience = 56 / 100,
        eu_confidence = 85 / 100, eu_source_ref = source_ref\<rparr>) (\<lambda>entity.
     andthen (upsert_relation E ''mentioned_with'' contact_id (be_id entity) (source_json E source_ref)
        (74 / 100) False) (\<lambda>_.
     ret (be_id entity)))"

definition ingest_environment ::
  "env \<Rightarrow> brain_manager \<Rightarrow> string \<Rightarrow> string \<Rightarrow> string \<Rightarrow> string \<times> string \<Rightarrow> string io" where
  "ingest_environment E bm source_ref scope_json contact_id mention =
     (case mention of (subtype, title) \<Rightarrow>
      andthen (upsert_entity E bm
        \<lparr>eu_entity_id = ''environment:'' @ subtype @ '':'' @ prompt_hash E title, eu_kind = ''environment'',
         eu_subtype = subtype, eu_title = title, eu_content = ''Mentioned '' @ subtype @ '' context'',
         eu_scope_json = scope_json, eu_links_json = ''[]'', eu_salience = 52 / 100,
         eu_confidence = 78 / 100, eu_source_ref = source_ref\<rparr>) (\<lambda>entity.
      andthen (upsert_relation E ''mentioned_with'' contact_id (be_id entity) (source_json E source_ref)
         (7 / 10) False) (\<lambda>_.
      ret (be_id entity))))"

definition ingest_task ::
  "env \<Rightarrow> brain_manager \<Rightarrow> message_envelope \<Rightarrow> string \<Rightarrow> string \<Rightarrow> string \<Rightarrow> string list \<Rightarrow> string \<Rightarrow> string io" where
  "ingest_task E bm m source_ref scope_json contact_id linked_ids summary =
     andthen (parse_due_at E (me_body m)) (\<lambda>due.
     andthen (upsert_or_merge_task E bm
       \<lparr>tu_task_id = None, tu_title = preferred_title summary summary, tu_summary = summary,
        tu_status = ''open'', tu_priority = task_priority_from_text (me_body m), tu_due_at = due,
        tu_scope_json = scope_json, tu_links_json = E_json_print E (JArr (map JStr linked_ids)),
        tu_salience = 84 / 100, tu_confidence = 88 / 100, tu_source_ref = source_ref\<rparr>) (\<lambda>task.
     andthen (upsert_relation E ''assigned_to'' (tk_id task) (bm_owner_id bm) (source_json E source_ref)
        (86 / 100) False) (\<lambda>_.
     andthen (upsert_relation E ''about'' (tk_id task) contact_id (source_json E source_ref)
        (78 / 100) False) (\<lambda>_.
     ret (tk_id task)))))"

definition ingest_message :: "env \<Rightarrow> brain_manager \<Rightarrow> message_envelope \<Rightarrow> unit io" where
  "ingest_message E bm m =
     (if \<not> brain_enabled bm \<or> \<not> bc_auto_ingest_messages (bm_config bm) then ret ()
      else
       let source_ref = ''message:'' @ me_connector m @ '':'' @ me_channel_id m @ '':''
             @ prompt_hash E (me_sender m) @ '':'' @ prompt_hash E (me_body m);
           scope_json = scope_for_message E m in
       andthen (ingest_contact E bm m source_ref scope_json) (\<lambda>contact.
       andthen (map_act (ingest_artifact E bm m source_ref scope_json (be_id contact))
          (extract_artifacts (me_body m))) (\<lambda>artifact_ids.
       andthen (lift_res (extract_environment_mentions (me_body m))) (\<lambda>mentions.
       andthen (map_act (ingest_environment E bm source_ref scope_json (be_id contact)) mentions) (\<lambda>env_ids.
       let linked_ids = be_id contact # artifact_ids @ env_ids in
       andthen (lift_res (extract_task_summary (me_body m))) (\<lambda>found.
       andthen (case found of
           None \<Rightarrow> ret linked_ids
         | Some summary \<Rightarrow>
             andthen (ingest_task E bm m source_ref scope_json (be_id contact) linked_ids summary) (\<lambda>task_id.
             ret (linked_ids @ [task_id]))) (\<lambda>linked.
       record_ingest E source_ref ''message'' (fingerprint E (me_body m))
         (E_json_print E (json_obj [(''linked_ids'', JArr (map JStr linked))])))))))))"

definition ingest_tool_result :: "env \<Rightarrow> brain_manager \<Rightarrow> tool_call \<Rightarrow> tool_outcome \<Rightarrow> unit io" where
  "ingest_tool_result E bm call outcome =
     (if \<not> brain_enabled bm \<or> \<not> bc_auto_ingest_tool_results (bm_config bm) \<or> \<not> to_success outcome then ret ()
      else
       let source_ref = ''tool:'' @ tc_target call @ '':''
             @ prompt_hash E (to_summary outcome @ '':'' @ to_data_json outcome);
           scope_json = E_json_print E (json_obj [(''source'', JStr ''tool''), (''target'', JStr (tc_target call)),
             (''priority'', JStr (priority_as_str (tc_priority call)))]);
           result_summary = non_empty_or_default (to_summary outcome) (tc_target call) in
       andthen (upsert_entity E bm
         \<lparr>eu_entity_id = ''artifact:tool:'' @ prompt_hash E (tc_target call), eu_kind = ''artifact'',
          eu_subtype = ''tool-result'', eu_title = tc_target call,
          eu_content = ''Successful tool execution: '' @ result_summary, eu_scope_json = scope_json,
          eu_links_json = ''[]'', eu_salience = 68 / 100, eu_confidence = 92 / 100,
          eu_source_ref = source_ref\<rparr>) (\<lambda>artifact.
       andthen (upsert_fact E bm
         \<lparr>fu_fact_id = ''fact:'' @ be_id artifact @ '':'' @ prompt_hash E source_ref,
          fu_entity_id = be_id artifact,
          fu_content = truncate_with_ellipsis (result_summary @ '' '' @ to_data_json outcome) 400,
          fu_scope_json = scope_json, fu_salience = 7 / 10, fu_confidence = 9 / 10,
          fu_source_ref = source_ref\<rparr>) (\<lambda>_.
       andthen (upsert_fact E bm
         \<lparr>fu_fact_id = ''fact:'' @ bm_workspace_env_id bm @ '':'' @ prompt_hash E (tc_target call),
          fu_entity_id = bm_workspace_env_id bm,
          fu_content = ''Tool '' @ tc_target call @ '' succeeded with '' @ result_summary,
          fu_scope_json = scope_json, fu_salience = 58 / 100, fu_confidence = 86 / 100,
          fu_source_ref = source_ref\<rparr>) (\<lambda>_.
       andthen (find_related_tool_task E bm (tc_target call) result_summary) (\<lambda>related.
       andthen (case related of
           None \<Rightarrow> ret ()
         | Some t \<Rightarrow> andthen (upsert_task E bm
             \<lparr>tu_task_id = Some (tk_id t), tu_title = tk_title t, tu_summary = tk_summary t,
              tu_status = ''done'', tu_priority = tk_priority t, tu_due_at = tk_due_at t,
              tu_scope_json = tk_scope_json t, tu_links_json = tk_links_json t,
              tu_salience = tk_salience t, tu_confidence = 96 / 100, tu_source_ref = source_ref\<rparr>)
             (\<lambda>_. ret ())) (\<lambda>_.
       record_ingest E source_ref ''tool'' (fingerprint E (to_summary outcome @ '' '' @ to_data_json outcome))
         (E_json_print E (json_obj [(''artifact_id'', JStr (be_id artifact))]))))))))"

definition ingest_assistant_reply :: "env \<Rightarrow> brain_manager \<Rightarrow> message_envelope \<Rightarrow> string \<Rightarrow> unit io" where
  "ingest_assistant_reply E bm m reply =
     (if \<not> brain_enabled bm \<or> \<not> bc_auto_ingest_assistant_commitments (bm_config bm) then ret ()
      else
       let source_ref = ''assistant:'' @ me_connector m @ '':'' @ me_channel_id m @ '':'' @ prompt_hash E reply;
           scope_json = scope_for_message E m in
       andthen (lift_res (extract_assistant_commitment reply)) (\<lambda>found.
       case found of
         None \<Rightarrow> ret ()
       | Some summary \<Rightarrow>
         andthen (parse_due_at E reply) (\<lambda>due.
         andthen (upsert_or_merge_task E bm
           \<lparr>tu_task_id = None, tu_title = preferred_title summary reply, tu_summary = summary,
            tu_status = ''in_progress'', tu_priority = task_priority_from_text reply, tu_due_at = due,
            tu_scope_json = scope_json, tu_links_json = E_json_print E (JArr [JStr (bm_owner_id bm)]),
            tu_salience = 74 / 100, tu_confidence = 72 / 100, tu_source_ref = source_ref\<rparr>) (\<lambda>task.
         andthen (upsert_relation E ''assigned_to'' (tk_id task) (bm_owner_id bm) (source_json E source_ref)
            (78 / 100) False) (\<lambda>_.
         record_ingest E source_ref ''assistant'' (fingerprint E reply)
           (E_json_print E (json_obj [(''task_id'', JStr (tk_id task))])))))))"

section \<open>Lock discipline\<close>

lemma safe_parse_due_at [safe_intros]: "safe_at b (parse_due_at E c)"
  unfolding parse_due_at_def Let_def by (intro safe_intros)

lemma safe_ensure_baseline [safe_intros]: "safe (ensure_baseline_context E bm)"
  unfolding ensure_baseline_context_def by (intro safe_intros)

lemma safe_new_brain [safe_intros]: "safe (new_brain E config paths em)"
  unfolding new_brain_def Let_def by (intro safe_intros)

lemma safe_remember_parts [safe_intros]:
  "safe (remember_task E bm req sref digest)" "safe (remember_entity E bm req sref digest)"
  unfolding remember_task_def remember_entity_def Let_def by (intro safe_intros; simp)+

lemma safe_remember [safe_intros]: "retention_ok E bm \<Longrightarrow> safe (remember E bm req)"
  unfolding remember_def Let_def by (intro safe_intros)

lemma safe_recall [safe_intros]: "retention_ok E bm \<Longrightarrow> safe (recall E bm q)"
  unfolding recall_def Let_def by (intro safe_intros)

lemma safe_suggest [safe_intros]: "retention_ok E bm \<Longrightarrow> safe (suggest E bm sq)"
  unfolding suggest_def Let_def by (intro safe_intros)

lemma safe_brain_queries [safe_intros]:
  "retention_ok E bm \<Longrightarrow> safe (inline_suggestions E bm scope n)"
  "retention_ok E bm \<Longrightarrow> safe (build_context_pack E bm query scope)"
  "retention_ok E bm \<Longrightarrow> safe (list_task_records E bm tq)"
  unfolding inline_suggestions_def build_context_pack_def list_task_records_def Let_def
  by (intro safe_intros; assumption)+

lemma safe_update_task_record [safe_intros]: "safe (update_task_record E bm req)"
  unfolding update_task_record_def Let_def by (intro safe_intros) simp

lemma safe_archives [safe_intros]:
  "safe_at b (archive_entities E pe)" "safe_at b (archive_facts E pf)"
  "safe_at b (archive_relations E pr)" "safe_at b (archive_tasks E pt)"
  unfolding archive_entities_def archive_facts_def archive_relations_def archive_tasks_def
  by (intro safe_intros)+

lemma safe_forget [safe_intros]: "safe (forget E bm req)"
  unfolding forget_def forget_statements_def Let_def by (intro safe_intros)

lemma safe_ingest_parts [safe_intros]:
  "safe (ingest_contact E bm m sref scope)" "safe (ingest_artifact E bm m sref scope cid a)"
  "safe (ingest_environment E bm sref scope cid mention)"
  "safe (ingest_task E bm m sref scope cid linked summary)"
  unfolding ingest_contact_def ingest_artifact_def ingest_environment_def ingest_task_def
  by (intro safe_intros)+

lemma returns_extractors:
  assumes "valid_str s"
  shows "returns (extract_environment_mentions s)" "returns (extract_task_summary s)"
    "returns (extract_assistant_commitment s)"
  using extract_environment_returns [OF assms] extract_task_summary_returns [OF assms]
    extract_commitment_returns [OF assms] by auto

lemma safe_ingest_message [safe_intros]: "valid_str (me_body m) \<Longrightarrow> safe (ingest_message E bm m)"
  unfolding ingest_message_def Let_def by (intro safe_intros returns_extractors)

lemma safe_ingest_tool_result [safe_intros]: "safe (ingest_tool_result E bm call outcome)"
  unfolding ingest_tool_result_def Let_def by (intro safe_intros)

lemma safe_ingest_assistant_reply [safe_intros]: "valid_str reply \<Longrightarrow> safe (ingest_assistant_reply E bm m reply)"
  unfolding ingest_assistant_reply_def Let_def by (intro safe_intros returns_extractors)

section \<open>What every operation keeps\<close>

context brain_invariant
begin

lemmas keeps_rows = keeps_projections keeps_entity keeps_fact keeps_task keeps_relation
  keeps_retention keeps_ingest keeps_lists keeps_task_search keeps_links keeps_merge_task

lemma keeps_due: "keeps P (parse_due_at E c)"
  unfolding parse_due_at_def Let_def by (intro keeps_intros)

lemma keeps_baseline: "keeps P (ensure_baseline_context E bm)"
  unfolding ensure_baseline_context_def by (intro keeps_intros keeps_rows)

lemma keeps_new_brain: "keeps P (new_brain E config paths em)"
  unfolding new_brain_def Let_def by (intro keeps_intros keeps_baseline)

lemma keeps_remember: "keeps P (remember E bm req)"
  unfolding remember_def remember_task_def remember_entity_def Let_def
  by (intro keeps_intros keeps_rows keeps_due)

lemma keeps_recall: "keeps P (recall E bm q)"
  unfolding recall_def Let_def by (intro keeps_intros keeps_rows)

lemma keeps_suggest: "keeps P (suggest E bm sq)"
  unfolding suggest_def Let_def by (intro keeps_intros keeps_rows)

lemma keeps_queries:
  "keeps P (inline_suggestions E bm scope n)" "keeps P (build_context_pack E bm query scope)"
  "keeps P (list_task_records E bm tq)"
  unfolding inline_suggestions_def build_context_pack_def list_task_records_def Let_def
  by (intro keeps_intros keeps_rows keeps_suggest keeps_recall)+

lemma keeps_update_task: "keeps P (update_task_record E bm tu)"
  unfolding update_task_record_def Let_def by (intro keeps_intros keeps_rows)

lemma keeps_forget: "keeps P (forget E bm freq)"
  unfolding forget_def forget_statements_def archive_entities_def archive_facts_def
    archive_relations_def archive_tasks_def Let_def
  by (intro keeps_intros keeps_rows archive delete)

lemma keeps_ingest_message: "keeps P (ingest_message E bm m)"
  unfolding ingest_message_def ingest_contact_def ingest_artifact_def ingest_environment_def
    ingest_task_def Let_def
  by (intro keeps_intros keeps_rows keeps_due)

lemma keeps_ingest_tool: "keeps P (ingest_tool_result E bm call outcome)"
  unfolding ingest_tool_result_def Let_def by (intro keeps_intros keeps_rows)

lemma keeps_ingest_reply: "keeps P (ingest_assistant_reply E bm m reply)"
  unfolding ingest_assistant_reply_def Let_def by (intro keeps_intros keeps_rows keeps_due)

lemmas keeps_brain = keeps_new_brain keeps_remember keeps_recall keeps_suggest keeps_queries
  keeps_update_task keeps_forget keeps_ingest_message keeps_ingest_tool keeps_ingest_reply

end

section \<open>Storing and listing entities\<close>

lemma keeps_projection_entities: "keeps (\<lambda>d. t_entities d = c) (upsert_projection E bm ns k ct md)"
  unfolding upsert_projection_def upsert_memory_def by (intro keeps_intros) simp_all

lemma keeps_projection_tasks: "keeps (\<lambda>d. t_tasks d = c) (upsert_projection E bm ns k ct md)"
  unfolding upsert_projection_def upsert_memory_def by (intro keeps_intros) simp_all

lemma encrypt_payload_ok:
  assumes "encrypt_payload E bm j w = (Ok blob, w1)"
  obtains w0 where "seal_text E (bm_encryption bm) (E_json_print E j) w = (Ok blob, w1)"
    and "w_db w1 = w_db w" and "w_locked w1 = w_locked w" and "w_ticks w1 = w_ticks w"
proof -
  have seal: "seal_text E (bm_encryption bm) (E_json_print E j) w = (Ok blob, w1)"
    using assms by (cases "fst (seal_text E (bm_encryption bm) (E_json_print E j) w)")
      (auto simp: encrypt_payload_def context_act_def prod_eq_iff)
  have "w1 = w\<lparr>w_draws := w_draws w1\<rparr>" by (rule seal_text_frame [OF seal])
  then have "w_db w1 = w_db w \<and> w_locked w1 = w_locked w \<and> w_ticks w1 = w_ticks w"
    by (metis world.select_convs world.surjective world.update_convs(5))
  with seal that show thesis by blast
qed

lemma with_conn_exec_run:
  "\<not> w_locked w \<Longrightarrow> with_conn (sql_exec f) w = (Ok (), w\<lparr>w_db := f (w_db w)\<rparr>)"
  by (cases w) (simp add: run_simps)

lemma upsert_entity_stores:
  assumes "\<not> w_locked w" and "upsert_entity E bm u w = (Ok rec, w')"
  obtains blob w0 w1 now where
    "seal_text E (bm_encryption bm) (E_json_print E (entity_payload_json (entity_payload_of u))) w0 = (Ok blob, w1)"
    and "t_entities (w_db w') = upsert_row er_entity_id merge_entity (entity_row_of E u blob now) (t_entities (w_db w))"
    and "rec = entity_record_of u now" and "\<not> w_locked w'"
proof -
  let ?j = "entity_payload_json (entity_payload_of u)"
  let ?proj = "\<lambda>record. upsert_projection E bm ''brain-entities'' (be_id record) (entity_projection record)
      (E_json_print E (json_obj [(''kind'', JStr (be_kind record)), (''subtype'', JStr (be_subtype record))]))"
  let ?put = "\<lambda>blob now. sql_exec (\<lambda>d. d\<lparr>t_entities :=
      upsert_row er_entity_id merge_entity (entity_row_of E u blob now) (t_entities d)\<rparr>)"
  obtain blob w1 now w2 u1 w3 u2 w4 where enc: "encrypt_payload E bm ?j w = (Ok blob, w1)"
      and now: "utc_now E w1 = (Ok now, w2)" and conn: "with_conn (?put blob now) w2 = (Ok u1, w3)"
      and proj: "?proj (entity_record_of u now) w3 = (Ok u2, w4)"
      and res: "ret (entity_record_of u now) w4 = (Ok rec, w')"
    using assms(2) unfolding upsert_entity_def Let_def by (elim andthen_OkE lift_res_OkE) blast
  obtain w0 where seal: "seal_text E (bm_encryption bm) (E_json_print E ?j) w = (Ok blob, w1)"
      and frame: "w_db w1 = w_db w" "w_locked w1 = w_locked w"
    using encrypt_payload_ok [OF enc] by metis
  have un: "\<not> w_locked w2" and db: "w_db w2 = w_db w" using now frame assms(1) by (auto simp: utc_now_run)
  let ?t = "upsert_row er_entity_id merge_entity (entity_row_of E u blob now) (t_entities (w_db w))"
  have w3: "w3 = w2\<lparr>w_db := (w_db w)\<lparr>t_entities := ?t\<rparr>\<rparr>"
    using conn with_conn_exec_run [OF un] db by simp
  then have "t_entities (w_db w4) = ?t" "\<not> w_locked w4"
    using keepsD [OF keeps_projection_entities [of ?t] _ proj] safe_atD [OF safe_projections(2) _ proj] un by simp_all
  then show thesis using that [OF seal] res by (simp add: ret_run)
qed

end
