(* ===== verification/Brain_Facts.thy ===== *)
theory Brain_Facts
  imports Brain_Ops
begin

text \<open>
  What the brain's operations achieve: the validity of its tables, storing and listing, recall,
  suggestions, task updates, forgetting, and the panics of its retention.
\<close>

definition demo_paths :: openpinch_paths where
  "demo_paths = \<lparr>pa_config_dir = ''/etc'', pa_data_dir = ''/data'', pa_state_dir = ''/state'',
     pa_config_file = ''/etc/config.toml'', pa_runtime_dir = ''/state/runtime'', pa_log_dir = ''/state/logs'',
     pa_log_file = ''/state/logs/openpinch.log'', pa_database_file = ''/data/openpinch.sqlite'',
     pa_skills_dir = ''/data/skills'', pa_installs_dir = ''/data/skills/installed'',
     pa_runtime_socket = ''/state/runtime/engine.sock'',
     pa_runtime_state_file = ''/state/runtime/runtime-state.json''\<rparr>"

definition demo_brain :: brain_manager where
  "demo_brain = make_brain demo_env default_config demo_paths demo_manager"

lemma demo_brain_fields [simp]:
  "bm_config demo_brain = default_brain" "bm_encryption demo_brain = demo_manager" "brain_enabled demo_brain"
  by (simp_all add: demo_brain_def make_brain_def default_config_def brain_enabled_def default_brain_def)

lemma demo_retention_ok: "retention_ok demo_env demo_brain"
proof -
  have "int (min n 100000) * 1000000000 \<le> 8210269468799999999999" for n
  proof -
    have "int (min n 100000) \<le> 100000" by simp
    then show ?thesis by linarith
  qed
  then show ?thesis
    by (simp add: retention_ok_def duration_days_def chrono_sub_def chrono_min_def chrono_max_def default_brain_def)
qed

section \<open>Payloads and rows\<close>

text \<open>A JSON object that \<open>serde_json\<close> prints and reads back, as UTF-8 text.\<close>

definition json_faithful :: "env \<Rightarrow> (string \<times> json) list \<Rightarrow> bool" where
  "json_faithful E kvs \<longleftrightarrow> E_json_parse E (E_json_print E (JObj kvs)) = Some (json_obj kvs)
     \<and> from_utf8 (E_json_print E (JObj kvs)) = Some (E_json_print E (JObj kvs))"

definition entity_payload_fields :: "entity_payload \<Rightarrow> (string \<times> json) list" where
  "entity_payload_fields p = map (\<lambda>(k, v). (k, JStr v))
     [(''title'', ep_title p), (''content'', ep_content p), (''scope_json'', ep_scope_json p),
      (''links_json'', ep_links_json p), (''source_ref'', ep_source_ref p)]"

lemma entity_payload_json_fields: "entity_payload_json p = JObj (entity_payload_fields p)"
  by (simp add: entity_payload_json_def entity_payload_fields_def)

lemma entity_payload_decode: "entity_payload_of_json (json_obj (entity_payload_fields p)) = Some p"
  by (simp add: entity_payload_of_json_def entity_payload_fields_def json_get_str_def json_get_obj)

lemma sealed_payload_opens:
  assumes "crypto_laws E" and "json_faithful E kvs"
    and "seal_text E (bm_encryption bm) (E_json_print E (JObj kvs)) w = (Ok blob, w')"
  shows "decrypt_payload E bm decode blob = of_option (Msg ''failed to decode brain payload'') (decode (json_obj kvs))"
proof -
  let ?p = "E_json_print E (JObj kvs)"
  have "unseal_text E (bm_encryption bm) ctx blob = Ok ?p" for ctx
    using seal_unseal [OF assms(1,3)] assms(2) by (simp add: json_faithful_def)
  then obtain b where "parse_blob E blob = Some b" "decrypt_text E (bm_encryption bm) b = Ok ?p"
    by (cases "parse_blob E blob") (auto simp: unseal_text_def)
  then show ?thesis using assms(2) by (simp add: decrypt_payload_def json_faithful_def)
qed

lemma with_conn_query_res:
  "\<not> w_locked w \<Longrightarrow> returns (g (f (w_db w))) \<Longrightarrow>
     with_conn (andthen (sql_query f) (\<lambda>rows. lift_res (g rows))) w = (g (f (w_db w)), w)"
  by (cases w; cases "g (f (w_db w))") (simp_all add: run_simps)

lemma andthen_Panic: "fst (m w) = Panic \<Longrightarrow> fst (andthen m f w) = Panic"
  by (cases "m w") (simp add: andthen_run)

lemma keeps_dest: "keeps P m \<Longrightarrow> P (w_db w) \<Longrightarrow> P (w_db (snd (m w)))"
  by (simp add: keeps_def)

lemma list_entities_run:
  "\<not> w_locked w \<Longrightarrow> list_entities E bm incl w = (traverse_res (entity_of_row E bm)
     (filter (\<lambda>r. incl \<or> \<not> er_archived r) (take 512 (order_desc er_updated_at (t_entities (w_db w))))), w)"
  unfolding list_entities_def by (intro with_conn_query_res returns_traverse_res) simp_all

lemma list_tasks_run:
  "\<not> w_locked w \<Longrightarrow> list_tasks E bm incl w = (traverse_res (task_of_row E bm)
     (filter (\<lambda>r. incl \<or> \<not> tr_archived r) (take 512 (order_desc tr_updated_at (t_tasks (w_db w))))), w)"
  unfolding list_tasks_def by (intro with_conn_query_res returns_traverse_res) simp_all

section \<open>The tables stay valid\<close>

text \<open>C10.
  Whatever the brain does, its tables hold only valid rows: known entity kinds, environment
  subtypes, relation kinds and task statuses, and no two rows with the same key. Every operation
  keeps this, also when it fails half-way.
\<close>

theorem brain_tables_stay_valid:
  assumes "brain_valid (w_db w)"
  shows "brain_valid (w_db (snd (remember E bm rem w))) \<and> brain_valid (w_db (snd (recall E bm rq w)))
    \<and> brain_valid (w_db (snd (suggest E bm sq w))) \<and> brain_valid (w_db (snd (list_task_records E bm tq w)))
    \<and> brain_valid (w_db (snd (update_task_record E bm tu w))) \<and> brain_valid (w_db (snd (forget E bm fq w)))
    \<and> brain_valid (w_db (snd (ingest_message E bm m w)))
    \<and> brain_valid (w_db (snd (ingest_tool_result E bm call outcome w)))
    \<and> brain_valid (w_db (snd (ingest_assistant_reply E bm m reply w)))
    \<and> brain_valid (w_db (snd (new_brain E config paths em w)))"
  by (intro conjI brain_valid.keeps_brain [THEN keeps_dest] assms)

theorem brain_tables_stay_valid_witness:
  "brain_valid (w_db (snd (new_brain demo_env default_config demo_paths demo_manager boot_world)))"
proof -
  have "brain_valid (w_db boot_world)" by (simp add: brain_valid_def distinct_keys_def)
  from brain_tables_stay_valid [OF this] show ?thesis by blast
qed


text \<open>
  \<open>brain.archive_decay_days\<close> is any \<open>i64\<close> in the configuration, and the retention
  computes \<open>Utc::now() - Duration::days(\<dots>)\<close> with the panicking constructors: with more days
  than \<open>i64::MAX\<close> milliseconds, every remember, recall, suggestion and task list panics.
\<close>

theorem decay_days_panic:
  assumes "brain_enabled bm" and "9223372036854775 < bc_archive_decay_days (bm_config bm) * 86400"
  shows "fst (remember E bm rem w) = Panic \<and> fst (recall E bm rq w) = Panic
    \<and> fst (suggest E bm sq w) = Panic \<and> fst (list_task_records E bm tq w) = Panic"
proof -
  have "fst (apply_retention E bm w) = Panic" for w
    using assms(2) by (simp add: apply_retention_def andthen_run retention_cutoff_run duration_days_def)
  then show ?thesis
    using assms(1) by (simp add: remember_def recall_def suggest_def list_task_records_def andthen_Panic)
qed

theorem decay_days_panic_witness:
  "fst (recall demo_env (demo_brain\<lparr>bm_config := default_brain\<lparr>bc_archive_decay_days := 200000000000\<rparr>\<rparr>)
     \<lparr>brq_query = ''q'', brq_scope_json = ''{}'', brq_limit = 3, brq_include_archived = False\<rparr> boot_world) = Panic"
  using decay_days_panic [of "demo_brain\<lparr>bm_config := default_brain\<lparr>bc_archive_decay_days := 200000000000\<rparr>\<rparr>"]
  by (simp add: brain_enabled_def default_brain_def)


section \<open>Storing and listing\<close>


lemma demo_upsert_entity_ok:
  assumes "validate_entity (eu_kind u) (eu_subtype u) = Ok ()" "\<not> w_locked w"
  shows "\<exists>rec w'. upsert_entity demo_env demo_brain u w = (Ok rec, w')
    \<and> length (t_entities (w_db w')) \<le> Suc (length (t_entities (w_db w)))"
proof -
  have up: "\<exists>w'. upsert_projection demo_env demo_brain ns k c md w1 = (Ok (), w')" if "\<not> w_locked w1" for ns k c md w1
  proof -
    obtain b w2 where seal: "seal_text demo_env demo_manager c w1 = (Ok b, w2)" using demo_seal_ok by blast
    have "w_locked w2 = w_locked w1" using seal_text_frame [OF seal]
      by (metis world.select_convs(2) world.surjective world.update_convs(5))
    with seal that show ?thesis by (simp add: upsert_projection_def upsert_memory_def run_simps)
  qed
  obtain b w1 where seal: "seal_text demo_env demo_manager (E_json_print demo_env (entity_payload_json (entity_payload_of u))) w = (Ok b, w1)"
    using demo_seal_ok by blast
  then have enc: "encrypt_payload demo_env demo_brain (entity_payload_json (entity_payload_of u)) w = (Ok b, w1)"
    by (simp add: encrypt_payload_def context_act_def)
  have un: "\<not> w_locked w1" using assms(2) seal_text_frame [OF seal]
    by (metis world.select_convs(2) world.surjective world.update_convs(5))
  let ?rec = "entity_record_of u (E_time demo_env (w_ticks w1))"
  let ?w2 = "w1\<lparr>w_ticks := Suc (w_ticks w1), w_db := (w_db w1)\<lparr>t_entities := upsert_row er_entity_id merge_entity
      (entity_row_of demo_env u b (E_time demo_env (w_ticks w1))) (t_entities (w_db w1))\<rparr>\<rparr>"
  have un2: "\<not> w_locked ?w2" using un by simp
  obtain w3 where w3: "upsert_projection demo_env demo_brain ''brain-entities'' (be_id ?rec) (entity_projection ?rec)
      (E_json_print demo_env (json_obj [(''kind'', JStr (be_kind ?rec)), (''subtype'', JStr (be_subtype ?rec))])) ?w2 = (Ok (), w3)"
    using up [OF un2] by blast
  have "upsert_entity demo_env demo_brain u w = (Ok ?rec, w3)"
    using assms(1) enc un w3
    by (simp add: upsert_entity_def andthen_run lift_res_run utc_now_run with_conn_exec_run Let_def ret_run del: demo_env_fields)
  moreover from upsert_entity_stores [OF assms(2) this] have "length (t_entities (w_db w3)) \<le> Suc (length (t_entities (w_db w)))"
    by (metis entity_rows.upsert_length)
  ultimately show ?thesis by blast
qed

definition demo_entity :: entity_upsert where
  "demo_entity = \<lparr>eu_entity_id = ''artifact:1'', eu_kind = ''artifact'', eu_subtype = ''reference'',
     eu_title = ''README'', eu_content = ''the readme'', eu_scope_json = ''{}'', eu_links_json = ''[]'',
     eu_salience = 1 / 2, eu_confidence = 1 / 2, eu_source_ref = ''test''\<rparr>"

lemma demo_entity_faithful: "json_faithful demo_env (entity_payload_fields (entity_payload_of demo_entity))"
proof -
  have "from_utf8 (demo_print (JObj (entity_payload_fields (entity_payload_of demo_entity))))
      = Some (demo_print (JObj (entity_payload_fields (entity_payload_of demo_entity))))"
    by code_simp
  then show ?thesis
    unfolding json_faithful_def demo_env_fields
    by (intro conjI) (unfold entity_payload_fields_def, rule demo_parse_object)
qed


section \<open>Recalling\<close>

lemma match_entities_bound:
  "length (fst acc) \<le> limit \<Longrightarrow> length (fst (match_entities E scope limit emap hits acc)) \<le> limit"
proof (induction hits arbitrary: acc)
  case Nil
  then show ?case by simp
next
  case (Cons hit hits)
  obtain xs sel where acc: "acc = (xs, sel)" by (cases acc)
  show ?case using Cons.prems
    by (simp add: acc Cons.IH split: option.split)
qed

lemma add_entity_bound: "length es \<le> limit \<Longrightarrow> length (add_entity limit emap i es) \<le> limit"
  by (auto simp: add_entity_def split: option.splits)

lemma match_facts_bound:
  "length (fst acc) \<le> limit \<Longrightarrow> length (fst (snd acc)) \<le> limit \<Longrightarrow>
     length (fst (match_facts E scope limit emap fmap hits acc)) \<le> limit
     \<and> length (fst (snd (match_facts E scope limit emap fmap hits acc))) \<le> limit"
proof (induction hits arbitrary: acc)
  case Nil
  then show ?case by simp
next
  case (Cons hit hits)
  obtain fs es sel where acc: "acc = (fs, es, sel)" by (cases acc)
  show ?case using Cons.prems
    by (simp add: acc Cons.IH add_entity_bound split: option.split)
qed

lemma match_facts_scope:
  "list_all (\<lambda>f. scope_matches E (bfa_scope_json f) scope) (fst acc) \<Longrightarrow>
     list_all (\<lambda>f. scope_matches E (bfa_scope_json f) scope) (fst (match_facts E scope limit emap fmap hits acc))"
proof (induction hits arbitrary: acc)
  case Nil
  then show ?case by simp
next
  case (Cons hit hits)
  obtain fs es sel where acc: "acc = (fs, es, sel)" by (cases acc)
  show ?case using Cons.prems
    by (simp add: acc Cons.IH add_entity_bound split: option.split)
qed

lemma match_tasks_bound:
  "length (fst acc) \<le> limit \<Longrightarrow> length (fst (match_tasks E scope limit tmap hits acc)) \<le> limit"
proof (induction hits arbitrary: acc)
  case Nil
  then show ?case by simp
next
  case (Cons hit hits)
  obtain xs sel where acc: "acc = (xs, sel)" by (cases acc)
  show ?case using Cons.prems
    by (simp add: acc Cons.IH split: option.split)
qed

lemma match_tasks_scope:
  "list_all (\<lambda>t. scope_matches E (tk_scope_json t) scope) (fst acc) \<Longrightarrow>
     list_all (\<lambda>t. scope_matches E (tk_scope_json t) scope) (fst (match_tasks E scope limit tmap hits acc))"
proof (induction hits arbitrary: acc)
  case Nil
  then show ?case by simp
next
  case (Cons hit hits)
  obtain xs sel where acc: "acc = (xs, sel)" by (cases acc)
  show ?case using Cons.prems
    by (simp add: acc Cons.IH split: option.split)
qed

lemma match_related_bound:
  "length es \<le> limit \<Longrightarrow> length (match_related limit emap sel rs es) \<le> limit"
  by (induction limit emap sel rs es rule: match_related.induct) (simp_all add: add_entity_bound)

lemma assemble_recall_bounds:
  "length (brr_entities (assemble_recall E scope limit es fs ts rs eh fh th)) \<le> limit
   \<and> length (brr_facts (assemble_recall E scope limit es fs ts rs eh fh th)) \<le> limit
   \<and> length (brr_tasks (assemble_recall E scope limit es fs ts rs eh fh th)) \<le> limit
   \<and> length (brr_relations (assemble_recall E scope limit es fs ts rs eh fh th)) \<le> limit * 2
   \<and> (\<forall>f\<in>set (brr_facts (assemble_recall E scope limit es fs ts rs eh fh th)). scope_matches E (bfa_scope_json f) scope)
   \<and> (\<forall>t\<in>set (brr_tasks (assemble_recall E scope limit es fs ts rs eh fh th)). scope_matches E (tk_scope_json t) scope)"
proof -
  let ?em = "index_by be_id es" and ?fm = "index_by bfa_id fs" and ?tm = "index_by tk_id ts"
  obtain es1 sel1 where e: "match_entities E scope limit ?em eh ([], {}) = (es1, sel1)" by (cases "match_entities E scope limit ?em eh ([], {})")
  obtain fs' es2 sel2 where f: "match_facts E scope limit ?em ?fm fh ([], es1, sel1) = (fs', es2, sel2)"
    by (cases "match_facts E scope limit ?em ?fm fh ([], es1, sel1)")
  obtain ts' sel3 where t: "match_tasks E scope limit ?tm th ([], sel2) = (ts', sel3)" by (cases "match_tasks E scope limit ?tm th ([], sel2)")
  have "length es1 \<le> limit" using match_entities_bound [of "([], {})" limit E scope ?em eh] e by simp
  then have "length fs' \<le> limit" "length es2 \<le> limit"
    using match_facts_bound [of "([], es1, sel1)" limit E scope ?em ?fm fh] f by simp_all
  moreover have "\<forall>x\<in>set fs'. scope_matches E (bfa_scope_json x) scope"
    using match_facts_scope [of E scope "([], es1, sel1)" limit ?em ?fm fh] f by (simp add: list_all_iff)
  moreover have "length ts' \<le> limit" using match_tasks_bound [of "([], sel2)" limit E scope ?tm th] t by simp
  moreover have "\<forall>x\<in>set ts'. scope_matches E (tk_scope_json x) scope"
    using match_tasks_scope [of E scope "([], sel2)" limit ?tm th] t by (simp add: list_all_iff)
  ultimately show ?thesis
    using match_related_bound [of es2 limit ?em sel3 rs] by (simp add: assemble_recall_def e f t Let_def)
qed

lemma recall_assembles:
  assumes "recall E bm q w = (Ok r, w')"
  obtains es fs ts rs eh fh th where
    "r = assemble_recall E (brq_scope_json q) (max (brq_limit q) 1) es fs ts rs eh fh th"
proof -
  have "brain_enabled bm" using assms by (auto simp: recall_def fail_run split: if_splits)
  with assms obtain es fs ts rs eh fh th w1 where
    "ret (assemble_recall E (brq_scope_json q) (max (brq_limit q) 1) es fs ts rs eh fh th) w1 = (Ok r, w')"
    unfolding recall_def Let_def by (simp only: if_False not_True_eq_False) (elim andthen_OkE, blast)
  then have "r = assemble_recall E (brq_scope_json q) (max (brq_limit q) 1) es fs ts rs eh fh th"
    by (simp add: ret_run)
  then show thesis by (rule that)
qed

text \<open>
  Recall is bounded and scoped: at most \<open>limit\<close> entities, facts and tasks (at least one is
  allowed) and twice as many relations, and every fact and task returned matches the scope asked
  for.
\<close>

theorem recall_bounded:
  assumes "recall E bm q w = (Ok r, w')"
  shows "length (brr_entities r) \<le> max (brq_limit q) 1 \<and> length (brr_facts r) \<le> max (brq_limit q) 1
    \<and> length (brr_tasks r) \<le> max (brq_limit q) 1 \<and> length (brr_relations r) \<le> max (brq_limit q) 1 * 2
    \<and> (\<forall>f\<in>set (brr_facts r). scope_matches E (bfa_scope_json f) (brq_scope_json q))
    \<and> (\<forall>t\<in>set (brr_tasks r). scope_matches E (tk_scope_json t) (brq_scope_json q))"
proof -
  obtain es fs ts rs eh fh th where r: "r = assemble_recall E (brq_scope_json q) (max (brq_limit q) 1) es fs ts rs eh fh th"
    using recall_assembles [OF assms] .
  show ?thesis unfolding r by (rule assemble_recall_bounds)
qed

definition demo_recall :: brain_recall_query where
  "demo_recall = \<lparr>brq_query = ''q'', brq_scope_json = ''{}'', brq_limit = 3, brq_include_archived = False\<rparr>"

lemma apply_retention_run:
  assumes "\<not> w_locked w"
    and "bind_res (duration_days (bc_archive_decay_days (bm_config bm))) (chrono_sub (E_time E (w_ticks w))) = Ok cutoff"
  shows "apply_retention E bm w = (Ok (), w\<lparr>w_ticks := w_ticks w + 4, w_db := (w_db w)\<lparr>
    t_entities := update_where (stale_entity cutoff)
      (\<lambda>r. r\<lparr>er_archived := True, er_updated_at := E_time E (w_ticks w + 1)\<rparr>) (t_entities (w_db w)),
    t_facts := update_where (stale_fact cutoff)
      (\<lambda>r. r\<lparr>fr_archived := True, fr_updated_at := E_time E (w_ticks w + 2)\<rparr>) (t_facts (w_db w)),
    t_tasks := update_where (stale_task cutoff)
      (\<lambda>r. r\<lparr>tr_archived := True, tr_updated_at := E_time E (w_ticks w + 3)\<rparr>) (t_tasks (w_db w))\<rparr>\<rparr>)"
  using assms
  by (cases w) (simp add: apply_retention_def andthen_run retention_cutoff_run run_simps numeral_eq_Suc del: bind_res_eq_Ok)

lemma hits_empty_run:
  assumes "\<not> w_locked w" and "t_vector_memory (w_db w) = []"
  shows "query_projection_hits E bm ns q n w = (Ok [], w)"
  using assms by (simp add: query_projection_hits_def andthen_run query_memory_run memory_candidates_def
      order_desc_def ret_run)

lemma demo_recall_ok: "is_ok (fst (recall demo_env demo_brain demo_recall boot_world))"
proof -
  have "bind_res (duration_days (bc_archive_decay_days (bm_config demo_brain))) (chrono_sub (E_time demo_env (w_ticks boot_world)))
      = Ok (- bc_archive_decay_days default_brain * 86400 * 1000000000)"
    by (simp add: duration_days_def chrono_sub_def chrono_min_def chrono_max_def default_brain_def)
  from apply_retention_run [OF _ this] obtain w1 where "apply_retention demo_env demo_brain boot_world = (Ok (), w1)"
      and w1: "\<not> w_locked w1" "t_entities (w_db w1) = []" "t_facts (w_db w1) = []" "t_tasks (w_db w1) = []"
      "t_relations (w_db w1) = []" "t_vector_memory (w_db w1) = []"
    by (simp add: update_where_def)
  then show ?thesis
    by (simp add: recall_def Let_def andthen_run list_entities_run list_tasks_run list_facts_def list_relations_def
        with_conn_query_res with_conn_run sql_query_run order_desc_def hits_empty_run ret_run lift_res_run)
qed

theorem recall_bounded_witness:
  "\<exists>r w'. recall demo_env demo_brain demo_recall boot_world = (Ok r, w') \<and> length (brr_entities r) \<le> 3"
proof -
  obtain r w' where run: "recall demo_env demo_brain demo_recall boot_world = (Ok r, w')"
    using demo_recall_ok
    by (cases "recall demo_env demo_brain demo_recall boot_world"; cases "fst (recall demo_env demo_brain demo_recall boot_world)") auto
  from recall_bounded [OF this] run show ?thesis by (auto simp: demo_recall_def)
qed

text \<open>
  The scope is not checked for the entities that come along: the entity of a fact that matched is
  returned whatever its own scope is.
\<close>

theorem recall_ignores_entity_scope:
  assumes "0 < limit" and "bfa_entity_id f = be_id e" and "scope_matches E (bfa_scope_json f) scope"
  shows "brr_entities (assemble_recall E scope limit [e] [f] [] [] [] [bfa_id f] []) = [e]"
  using assms by (simp add: assemble_recall_def index_by_def bt_of_list_def bt_get_def add_entity_def)

theorem recall_ignores_entity_scope_witness:
  "\<exists>e f. \<not> scope_matches demo_env (be_scope_json e) (demo_print (JObj [(''sender'', JStr ''alice'')]))
     \<and> brr_entities (assemble_recall demo_env (demo_print (JObj [(''sender'', JStr ''alice'')])) 3 [e :: brain_entity_record]
          [f :: brain_fact_record] [] [] [] [bfa_id f] []) = [e]"
proof -
  let ?alice = "demo_print (JObj [(''sender'', JStr ''alice'')])"
  let ?bob = "demo_print (JObj [(''sender'', JStr ''bob'')])"
  let ?e = "(entity_record_of demo_entity 0)\<lparr>be_scope_json := ?bob\<rparr>"
  let ?f = "\<lparr>bfa_id = ''fact:1'', bfa_entity_id = ''artifact:1'', bfa_content = ''x'', bfa_scope_json = ?alice,
     bfa_salience = 1, bfa_confidence = 1, bfa_archived = False, bfa_created_at = 0, bfa_updated_at = 0\<rparr>"
  have parse: "demo_parse (demo_print (JObj [(''sender'', JStr x)])) = Some (JObj [(''sender'', JStr x)])" for x
    using demo_parse_object [of "[(''sender'', x)]"] by (simp add: json_obj_def bt_of_list_def)
  have "trim ?alice \<noteq> [] \<and> trim ?alice \<noteq> ''{}''" by code_simp
  then have "\<not> scope_matches demo_env ?bob ?alice" "scope_matches demo_env ?alice ?alice"
    unfolding scope_matches_def json_or_null_def demo_env_fields parse by (simp_all add: bt_get_def)
  moreover have "bfa_entity_id ?f = be_id ?e" by (simp add: entity_record_of_def demo_entity_def)
  ultimately show ?thesis
    using recall_ignores_entity_scope [of 3 ?f ?e demo_env ?alice]
    by (intro exI [of _ ?e] exI [of _ ?f]) (simp del: demo_print.simps)
qed

section \<open>Suggesting\<close>

lemma suggest_runs:
  assumes "suggest E bm q w = (Ok r, w')"
  obtains tasks now emap w1 w2 where "list_tasks E bm False w1 = (Ok tasks, w2)" and "\<not> w_locked w \<Longrightarrow> \<not> w_locked w1"
    and "t_tasks (w_db w') = t_tasks (w_db w2)"
    and "bsr_suggestions r = take (max (bsq_limit q) 1) (order_desc bs_score
      (map (suggestion_of E (bm_config bm) now emap)
        (filter (\<lambda>t. is_open_status (tk_status t) \<and> scope_matches E (tk_scope_json t) (bsq_scope_json q)) tasks)))"
proof -
  have en: "brain_enabled bm" using assms by (auto simp: suggest_def fail_run split: if_splits)
  let ?f = "\<lambda>tasks. filter (\<lambda>t. is_open_status (tk_status t) \<and> scope_matches E (tk_scope_json t) (bsq_scope_json q)) tasks"
  let ?ss = "\<lambda>tasks es now. take (max (bsq_limit q) 1) (order_desc bs_score
      (map (suggestion_of E (bm_config bm) now (index_by be_id es)) (?f tasks)))"
  let ?put = "\<lambda>ss. for_each (\<lambda>s. ignore_err (upsert_projection E bm ''brain-suggestions'' (bs_id s)
            (bs_summary s @ '' '' @ bs_reason s @ '' '' @ bs_context_json s)
            (E_json_print E (json_obj [(''task_id'', JStr (bs_task_id s)), (''score'', JNum (bs_score s))])))) ss"
  obtain u1 w1 tasks w2 es w3 now w4 u2 w5 where ret: "apply_retention E bm w = (Ok u1, w1)"
      and tasks: "list_tasks E bm False w1 = (Ok tasks, w2)" and es: "list_entities E bm False w2 = (Ok es, w3)"
      and now: "utc_now E w3 = (Ok now, w4)" and put: "?put (?ss tasks es now) w4 = (Ok u2, w5)"
      and r: "ret \<lparr>bsr_summary = dec (length (?ss tasks es now)) @ '' next actions suggested'',
             bsr_suggestions = ?ss tasks es now\<rparr> w5 = (Ok r, w')"
    using assms en unfolding suggest_def Let_def
    by (simp only: if_False not_True_eq_False) (elim andthen_OkE, blast)
  have same: "keeps (\<lambda>d. t_tasks d = c) (list_entities E bm False)" "keeps (\<lambda>d. t_tasks d = c) (?put ss)" for c ss
    unfolding list_entities_def by (intro keeps_intros keeps_projection_tasks)+
  have "t_tasks (w_db w3) = t_tasks (w_db w2)" by (rule keepsD [OF same(1) refl es])
  moreover have "t_tasks (w_db w5) = t_tasks (w_db w4)" by (rule keepsD [OF same(2) refl put])
  moreover have "w_db w4 = w_db w3" using now by (auto simp: utc_now_run)
  moreover have "w5 = w'" using r by (simp add: ret_run)
  ultimately have db: "t_tasks (w_db w') = t_tasks (w_db w2)" by simp
  have un: "\<not> w_locked w \<Longrightarrow> \<not> w_locked w1"
  proof -
    assume w: "\<not> w_locked w"
    show "\<not> w_locked w1"
      using ret w by (auto simp: apply_retention_def retention_cutoff_run run_simps andthen_run split: res.splits)
  qed
  from r have "bsr_suggestions r = ?ss tasks es now" by (auto simp: ret_run)
  then show thesis using that [OF tasks un db] by blast
qed

text \<open>
  Suggestions are the best open tasks: at most \<open>limit\<close> of them (at least one is allowed), in
  descending score, each made from a task that is open, in progress or blocked, in the scope asked
  for, and stored unarchived.
\<close>

theorem suggestions_ranked:
  assumes "\<not> w_locked w" and "suggest E bm q w = (Ok r, w')"
  shows "length (bsr_suggestions r) \<le> max (bsq_limit q) 1
    \<and> sorted_wrt (\<lambda>a b. bs_score b \<le> bs_score a) (bsr_suggestions r)
    \<and> (\<forall>s\<in>set (bsr_suggestions r). \<exists>t row. row \<in> set (t_tasks (w_db w')) \<and> \<not> tr_archived row
         \<and> task_of_row E bm row = Ok t \<and> bs_task_id s = tk_id t \<and> bs_summary s = tk_summary t
         \<and> is_open_status (tk_status t) \<and> scope_matches E (tk_scope_json t) (bsq_scope_json q))"
  using assms(2)
proof (cases rule: suggest_runs)
  case (1 tasks now emap w1 w2)
  let ?all = "map (suggestion_of E (bm_config bm) now emap)
        (filter (\<lambda>t. is_open_status (tk_status t) \<and> scope_matches E (tk_scope_json t) (bsq_scope_json q)) tasks)"
  have w2: "w2 = w1" and trav: "traverse_res (task_of_row E bm) (filter (\<lambda>r. False \<or> \<not> tr_archived r)
      (take 512 (order_desc tr_updated_at (t_tasks (w_db w1))))) = Ok tasks"
    using 1(1) unfolding list_tasks_run [OF 1(2) [OF assms(1)], of E bm False]
    by (blast dest: prod.inject [THEN iffD1])+
  have "\<exists>t row. row \<in> set (t_tasks (w_db w')) \<and> \<not> tr_archived row
         \<and> task_of_row E bm row = Ok t \<and> bs_task_id s = tk_id t \<and> bs_summary s = tk_summary t
         \<and> is_open_status (tk_status t) \<and> scope_matches E (tk_scope_json t) (bsq_scope_json q)"
    if s: "s \<in> set (bsr_suggestions r)" for s
  proof -
    have "s \<in> set ?all" using s unfolding 1(4) by (metis in_set_takeD set_order_desc)
    then obtain t where t: "t \<in> set tasks" "is_open_status (tk_status t)"
        "scope_matches E (tk_scope_json t) (bsq_scope_json q)" "s = suggestion_of E (bm_config bm) now emap t" by auto
    obtain row where row: "row \<in> set (filter (\<lambda>r. False \<or> \<not> tr_archived r)
        (take 512 (order_desc tr_updated_at (t_tasks (w_db w1)))))" "task_of_row E bm row = Ok t"
      using traverse_res_set [OF trav t(1)] by blast
    have "row \<in> set (t_tasks (w_db w'))" using row(1) 1(3) w2 by (auto dest: in_set_takeD)
    moreover have "\<not> tr_archived row" using row(1) by simp
    moreover have "bs_task_id s = tk_id t" "bs_summary s = tk_summary t" using t(4) by (simp_all add: suggestion_of_def)
    ultimately show ?thesis using t(2,3) row(2) by blast
  qed
  moreover have "sorted_wrt (\<lambda>a b. bs_score b \<le> bs_score a) (bsr_suggestions r)"
    unfolding 1(4) by (intro sorted_wrt_take order_desc_sorted)
  moreover have "length (bsr_suggestions r) \<le> max (bsq_limit q) 1" unfolding 1(4) by simp
  ultimately show ?thesis by blast
qed

theorem suggestions_ranked_witness:
  "\<exists>r w'. suggest demo_env demo_brain \<lparr>bsq_scope_json = ''{}'', bsq_limit = 2\<rparr> boot_world = (Ok r, w')
     \<and> length (bsr_suggestions r) \<le> 2"
proof -
  let ?q = "\<lparr>bsq_scope_json = ''{}'', bsq_limit = 2\<rparr>"
  have "bind_res (duration_days (bc_archive_decay_days (bm_config demo_brain))) (chrono_sub (E_time demo_env (w_ticks boot_world)))
      = Ok (- bc_archive_decay_days default_brain * 86400 * 1000000000)"
    by (simp add: duration_days_def chrono_sub_def chrono_min_def chrono_max_def default_brain_def)
  from apply_retention_run [OF _ this] obtain w1 where "apply_retention demo_env demo_brain boot_world = (Ok (), w1)"
      and w1: "\<not> w_locked w1" "t_entities (w_db w1) = []" "t_tasks (w_db w1) = []"
    by (simp add: update_where_def)
  then have "is_ok (fst (suggest demo_env demo_brain ?q boot_world))"
    by (simp add: suggest_def Let_def andthen_run list_entities_run list_tasks_run order_desc_def ret_run utc_now_run)
  then obtain r w' where run: "suggest demo_env demo_brain ?q boot_world = (Ok r, w')"
    by (cases "suggest demo_env demo_brain ?q boot_world"; cases "fst (suggest demo_env demo_brain ?q boot_world)") auto
  have "\<not> w_locked boot_world" by simp
  from suggestions_ranked [OF this run] run show ?thesis by auto
qed

section \<open>Forgetting\<close>

lemma delete_projection_run:
  "\<not> w_locked w \<Longrightarrow> delete_projection ns k w = (Ok (), w\<lparr>w_db := (w_db w)\<lparr>t_vector_memory :=
     delete_where (\<lambda>r. vm_namespace r = ns \<and> vm_key r = k) (t_vector_memory (w_db w))\<rparr>\<rparr>)"
  by (simp add: delete_projection_def with_conn_exec_run)

definition drop_target_projections :: "string \<Rightarrow> memory_row list \<Rightarrow> memory_row list" where
  "drop_target_projections target t =
     delete_where (\<lambda>r. vm_namespace r = ''brain-suggestions'' \<and> vm_key r = ''suggestion:'' @ target)
       (delete_where (\<lambda>r. vm_namespace r = ''brain-tasks'' \<and> vm_key r = target)
         (delete_where (\<lambda>r. vm_namespace r = ''brain-facts'' \<and> vm_key r = target)
           (delete_where (\<lambda>r. vm_namespace r = ''brain-entities'' \<and> vm_key r = target) t)))"

lemma forget_entity_delete_run:
  assumes "brain_enabled bm" and "\<not> w_locked w" and "bf_mode req = ''delete''"
    and "normalize_forget_target_kind (bf_target_kind req) = ''entity''"
  shows "forget E bm req w = (Ok \<lparr>bfr_forgotten = True, bfr_mode = ''delete'', bfr_target_id = bf_target_id req\<rparr>,
    w\<lparr>w_db := (w_db w)\<lparr>
      t_facts := delete_where (\<lambda>r. fr_entity_id r = bf_target_id req) (t_facts (w_db w)),
      t_relations := delete_where (relation_touches (bf_target_id req)) (t_relations (w_db w)),
      t_entities := delete_where (\<lambda>r. er_entity_id r = bf_target_id req) (t_entities (w_db w)),
      t_vector_memory := drop_target_projections (bf_target_id req) (t_vector_memory (w_db w))\<rparr>\<rparr>)"
proof -
  let ?stmt = "forget_statements E ''entity'' ''delete'' (bf_target_id req)"
  let ?d = "(w_db w)\<lparr>
      t_facts := delete_where (\<lambda>r. fr_entity_id r = bf_target_id req) (t_facts (w_db w)),
      t_relations := delete_where (relation_touches (bf_target_id req)) (t_relations (w_db w)),
      t_entities := delete_where (\<lambda>r. er_entity_id r = bf_target_id req) (t_entities (w_db w))\<rparr>"
  have stmt: "with_conn ?stmt w = (Ok (), w\<lparr>w_db := ?d\<rparr>)"
    using assms(2) by (cases w) (simp add: forget_statements_def run_simps)
  show ?thesis
    using assms stmt
    by (cases w) (simp add: forget_def Let_def andthen_run ignore_err_run delete_projection_run ret_run drop_target_projections_def)
qed

text \<open>
  Deleting an entity removes its row, its facts and its relations and nothing else from those
  tables, and answers \<open>forgotten\<close> whether or not there was such an entity. But of the search
  projections only those keyed by the entity's own id go: the projections of its facts, which
  carry the facts' text, stay in the vector memory.
\<close>

theorem forget_entity_leaves_fact_text:
  assumes "brain_enabled bm" and "\<not> w_locked w" and "bf_mode req = ''delete''"
    and "bf_target_kind req \<in> {''entity'', ''person'', ''environment'', ''artifact'', []}"
  shows "\<exists>w'. forget E bm req w = (Ok \<lparr>bfr_forgotten = True, bfr_mode = ''delete'', bfr_target_id = bf_target_id req\<rparr>, w')
    \<and> set (t_entities (w_db w')) = {r \<in> set (t_entities (w_db w)). er_entity_id r \<noteq> bf_target_id req}
    \<and> set (t_facts (w_db w')) = {r \<in> set (t_facts (w_db w)). fr_entity_id r \<noteq> bf_target_id req}
    \<and> set (t_relations (w_db w')) = {r \<in> set (t_relations (w_db w)).
         rr_from_entity_id r \<noteq> bf_target_id req \<and> rr_to_entity_id r \<noteq> bf_target_id req}
    \<and> (\<forall>r\<in>set (t_vector_memory (w_db w)). vm_namespace r = ''brain-facts'' \<and> vm_key r \<noteq> bf_target_id req \<longrightarrow>
         r \<in> set (t_vector_memory (w_db w')))"
proof -
  have kind: "normalize_forget_target_kind (bf_target_kind req) = ''entity''"
    using assms(4) by (auto simp: normalize_forget_target_kind_def)
  show ?thesis
    unfolding forget_entity_delete_run [OF assms(1-3) kind]
    by (intro exI conjI, rule refl)
       (auto simp: set_delete_where relation_touches_def drop_target_projections_def)
qed

theorem forget_entity_leaves_fact_text_witness:
  "\<exists>w'. forget demo_env demo_brain \<lparr>bf_target_kind = ''person'', bf_target_id = ''person:1'', bf_mode = ''delete'', bf_reason = []\<rparr>
       (boot_world\<lparr>w_db := empty_store\<lparr>t_vector_memory := [\<lparr>vm_namespace = ''brain-facts'', vm_key = ''fact:person:1:x'',
          vm_blob_json = ''b'', vm_metadata_json = ''{}'', vm_fingerprint = ''secret'', vm_created_at = 0\<rparr>]\<rparr>\<rparr>)
     = (Ok \<lparr>bfr_forgotten = True, bfr_mode = ''delete'', bfr_target_id = ''person:1''\<rparr>, w')
     \<and> \<lparr>vm_namespace = ''brain-facts'', vm_key = ''fact:person:1:x'', vm_blob_json = ''b'', vm_metadata_json = ''{}'',
          vm_fingerprint = ''secret'', vm_created_at = 0\<rparr> \<in> set (t_vector_memory (w_db w'))"
proof -
  let ?req = "\<lparr>bf_target_kind = ''person'', bf_target_id = ''person:1'', bf_mode = ''delete'', bf_reason = []\<rparr>"
  let ?row = "\<lparr>vm_namespace = ''brain-facts'', vm_key = ''fact:person:1:x'', vm_blob_json = ''b'', vm_metadata_json = ''{}'',
          vm_fingerprint = ''secret'', vm_created_at = 0\<rparr>"
  let ?w = "boot_world\<lparr>w_db := empty_store\<lparr>t_vector_memory := [?row]\<rparr>\<rparr>"
  have "brain_enabled demo_brain" "\<not> w_locked ?w" "bf_mode ?req = ''delete''"
    "bf_target_kind ?req \<in> {''entity'', ''person'', ''environment'', ''artifact'', []}" by simp_all
  from forget_entity_leaves_fact_text [OF this, of demo_env] show ?thesis by auto
qed

end
