(* ===== verification/Policy.thy ===== *)
theory Policy
  imports Paths Demo
begin

text \<open>
  The capability matrix of \<open>core/crates/common/src/policy.rs\<close>: its YAML file, and the decision
  which of the requested capabilities a subject is allowed.
\<close>

section \<open>The matrix and its file\<close>

record capability_rule =
  cru_description :: string
  cru_allow :: "string list"
  cru_deny :: "string list"

record capability_matrix =
  cm_version :: string
  cm_default_capabilities :: "string list"
  cm_subjects :: "(string, capability_rule) btree"

record policy_decision =
  pd_subject :: string
  pd_allowed_capabilities :: "string list"
  pd_denied_capabilities :: "string list"
  pd_source :: string

text \<open>Fields marked \<open>#[serde(default)]\<close>: absent is the default, of another type an error.\<close>

definition field_or :: "(json \<Rightarrow> 'a option) \<Rightarrow> 'a \<Rightarrow> json \<Rightarrow> string \<Rightarrow> 'a option" where
  "field_or decode d v k = (case json_get v k of None \<Rightarrow> Some d | Some x \<Rightarrow> decode x)"

definition json_strings :: "json \<Rightarrow> string list option" where
  "json_strings v = Option.bind (json_as_array v) (\<lambda>xs. those (map json_as_str xs))"

definition rule_of_json :: "json \<Rightarrow> capability_rule option" where
  "rule_of_json v =
     Option.bind (json_as_object v) (\<lambda>_.
     Option.bind (field_or json_as_str [] v ''description'') (\<lambda>description.
     Option.bind (field_or json_strings [] v ''allow'') (\<lambda>allow.
     Option.bind (field_or json_strings [] v ''deny'') (\<lambda>deny.
     Some \<lparr>cru_description = description, cru_allow = allow, cru_deny = deny\<rparr>))))"

definition subjects_of_json :: "json \<Rightarrow> (string, capability_rule) btree option" where
  "subjects_of_json v =
     Option.bind (json_as_object v) (\<lambda>kvs.
     map_option bt_of_list (those (map (\<lambda>(k, x). map_option (Pair k) (rule_of_json x)) kvs)))"

definition matrix_of_json :: "json \<Rightarrow> capability_matrix option" where
  "matrix_of_json v =
     Option.bind (json_as_object v) (\<lambda>_.
     Option.bind (field_or json_as_str [] v ''version'') (\<lambda>version.
     Option.bind (field_or json_strings [] v ''default_capabilities'') (\<lambda>defaults.
     Option.bind (field_or subjects_of_json [] v ''subjects'') (\<lambda>subjects.
     Some \<lparr>cm_version = version, cm_default_capabilities = defaults, cm_subjects = subjects\<rparr>))))"

definition load_capability_matrix :: "env \<Rightarrow> string \<Rightarrow> capability_matrix io" where
  "load_capability_matrix E path =
     andthen (read_text path) (\<lambda>raw.
     lift_res (of_option (Msg ''failed to parse capability matrix'')
       (Option.bind (E_yaml_parse E raw) matrix_of_json)))"

section \<open>The decision\<close>

definition subject_matches :: "string \<Rightarrow> string \<Rightarrow> bool" where
  "subject_matches pattern subject \<longleftrightarrow> pattern = subject \<or> pattern = ''*''
     \<or> (case strip_suffix pattern ''*'' of None \<Rightarrow> False | Some pre \<Rightarrow> starts_with subject pre)"

definition matches_capability :: "string \<Rightarrow> string \<Rightarrow> bool" where
  "matches_capability pattern capability \<longleftrightarrow> pattern = capability \<or> pattern = ''*''
     \<or> (case strip_suffix pattern ''*'' of None \<Rightarrow> False | Some pre \<Rightarrow> starts_with capability pre)"

text \<open>The rule of the first matching pattern in the order of the map.\<close>

definition rule_for :: "capability_matrix \<Rightarrow> string \<Rightarrow> capability_rule option" where
  "rule_for m subject = map_option snd (List.find (\<lambda>(pattern, _). subject_matches pattern subject) (cm_subjects m))"

definition explicitly_denied :: "capability_rule option \<Rightarrow> string \<Rightarrow> bool" where
  "explicitly_denied rule capability = (case rule of None \<Rightarrow> False
     | Some entry \<Rightarrow> list_ex (\<lambda>candidate. matches_capability candidate capability) (cru_deny entry))"

definition explicitly_allowed :: "capability_matrix \<Rightarrow> capability_rule option \<Rightarrow> string \<Rightarrow> bool" where
  "explicitly_allowed m rule capability \<longleftrightarrow>
     (case rule of None \<Rightarrow> False
       | Some entry \<Rightarrow> list_ex (\<lambda>candidate. matches_capability candidate capability) (cru_allow entry))
     \<or> list_ex (\<lambda>candidate. matches_capability candidate capability) (cm_default_capabilities m)"

definition capability_denied :: "capability_matrix \<Rightarrow> capability_rule option \<Rightarrow> bool \<Rightarrow> string \<Rightarrow> bool" where
  "capability_denied m rule default_deny capability \<longleftrightarrow>
     explicitly_denied rule capability \<or> (\<not> explicitly_allowed m rule capability \<and> default_deny)"

definition evaluate :: "capability_matrix \<Rightarrow> string \<Rightarrow> string list \<Rightarrow> bool \<Rightarrow> policy_decision" where
  "evaluate m subject requested default_deny =
     (let rule = rule_for m subject;
          (allowed, denied) = fold (\<lambda>capability (allowed, denied).
            if capability_denied m rule default_deny capability then (allowed, denied @ [capability])
            else (allowed @ [capability], denied)) requested ([], [])
      in \<lparr>pd_subject = subject, pd_allowed_capabilities = allowed, pd_denied_capabilities = denied,
          pd_source = cm_version m\<rparr>)"

section \<open>Facts\<close>

lemma evaluate_fold:
  "fold (\<lambda>c (allowed, denied). if p c then (allowed, denied @ [c]) else (allowed @ [c], denied)) cs (as, ds)
     = (as @ filter (\<lambda>c. \<not> p c) cs, ds @ filter p cs)"
  by (induction cs arbitrary: as ds) auto

text \<open>The loop over the requested capabilities splits them, in order, by one test.\<close>

lemma evaluate_alt:
  "evaluate m subject requested dd =
     \<lparr>pd_subject = subject,
      pd_allowed_capabilities = filter (\<lambda>c. \<not> capability_denied m (rule_for m subject) dd c) requested,
      pd_denied_capabilities = filter (capability_denied m (rule_for m subject) dd) requested,
      pd_source = cm_version m\<rparr>"
  using evaluate_fold [of "capability_denied m (rule_for m subject) dd" requested "[]" "[]"]
  by (simp add: evaluate_def)

lemma wildcard_matches: "subject_matches (pre @ ''*'') subject \<longleftrightarrow> pre @ ''*'' = subject \<or> prefix pre subject"
  by (auto simp: subject_matches_def strip_suffix_def starts_with_def ends_with_def)

lemma find_split:
  "List.find P xs = Some y \<longleftrightarrow> (\<exists>us vs. xs = us @ y # vs \<and> P y \<and> (\<forall>u\<in>set us. \<not> P u))"
proof
  show "List.find P xs = Some y \<Longrightarrow> \<exists>us vs. xs = us @ y # vs \<and> P y \<and> (\<forall>u\<in>set us. \<not> P u)"
  proof (induction xs)
    case (Cons x xs)
    show ?case
    proof (cases "P x")
      case True
      with Cons.prems show ?thesis by (intro exI [of _ "[]"] exI [of _ xs]) auto
    next
      case False
      with Cons obtain us vs where "xs = us @ y # vs" "P y" "\<forall>u\<in>set us. \<not> P u" by auto
      with False show ?thesis by (intro exI [of _ "x # us"] exI [of _ vs]) auto
    qed
  qed simp
next
  have "List.find P (us @ y # vs) = Some y" if "P y" "\<forall>u\<in>set us. \<not> P u" for us vs
    using that by (induction us) auto
  then show "\<exists>us vs. xs = us @ y # vs \<and> P y \<and> (\<forall>u\<in>set us. \<not> P u) \<Longrightarrow> List.find P xs = Some y"
    by blast
qed

text \<open>The first pattern in key order decides: no earlier pattern matches the subject.\<close>

lemma rule_for_Some:
  "rule_for m subject = Some r \<longleftrightarrow> (\<exists>us pat vs. cm_subjects m = us @ (pat, r) # vs
     \<and> subject_matches pat subject \<and> (\<forall>p\<in>fst ` set us. \<not> subject_matches p subject))"
  by (simp add: rule_for_def find_split) (fastforce simp: case_prod_beta)

section \<open>The properties\<close>

text \<open>C23.
  The decision splits the request: every requested capability is either allowed or denied, in the
  order of the request. A capability that the rule denies is denied, whatever else allows it; one
  that neither the rule nor the defaults allow is denied exactly when the policy denies by
  default. The rule is that of the first pattern, in the order of the keys, that matches.
\<close>

theorem evaluate_partitions:
  assumes "d = evaluate m subject requested default_deny"
  shows "mset (pd_allowed_capabilities d) + mset (pd_denied_capabilities d) = mset requested
    \<and> subseq (pd_allowed_capabilities d) requested \<and> subseq (pd_denied_capabilities d) requested
    \<and> (\<forall>c r us pat vs. c \<in> set requested \<and> cm_subjects m = us @ (pat, r) # vs \<and> subject_matches pat subject
         \<and> (\<forall>p\<in>fst ` set us. \<not> subject_matches p subject) \<longrightarrow>
         (c \<in> set (pd_denied_capabilities d) \<longleftrightarrow> (\<exists>p\<in>set (cru_deny r). matches_capability p c)
            \<or> (default_deny \<and> \<not> (\<exists>p\<in>set (cru_allow r) \<union> set (cm_default_capabilities m). matches_capability p c))))
    \<and> (\<forall>c\<in>set requested. (\<forall>p\<in>fst ` set (cm_subjects m). \<not> subject_matches p subject) \<longrightarrow>
         (c \<in> set (pd_denied_capabilities d) \<longleftrightarrow>
            default_deny \<and> \<not> (\<exists>p\<in>set (cm_default_capabilities m). matches_capability p c)))"
proof (intro conjI allI impI ballI)
  show "mset (pd_allowed_capabilities d) + mset (pd_denied_capabilities d) = mset requested"
    by (simp add: assms evaluate_alt)
  show "subseq (pd_allowed_capabilities d) requested" "subseq (pd_denied_capabilities d) requested"
    by (simp_all add: assms evaluate_alt)
next
  fix c r us pat vs
  assume "c \<in> set requested \<and> cm_subjects m = us @ (pat, r) # vs \<and> subject_matches pat subject
         \<and> (\<forall>p\<in>fst ` set us. \<not> subject_matches p subject)"
  then have "c \<in> set requested" "rule_for m subject = Some r" by (auto simp: rule_for_Some)
  then show "c \<in> set (pd_denied_capabilities d) \<longleftrightarrow> (\<exists>p\<in>set (cru_deny r). matches_capability p c)
            \<or> (default_deny \<and> \<not> (\<exists>p\<in>set (cru_allow r) \<union> set (cm_default_capabilities m). matches_capability p c))"
    by (auto simp: assms evaluate_alt capability_denied_def explicitly_denied_def explicitly_allowed_def list_ex_iff)
next
  fix c
  assume "c \<in> set requested" "\<forall>p\<in>fst ` set (cm_subjects m). \<not> subject_matches p subject"
  moreover from this have "rule_for m subject = None" by (auto simp: rule_for_def find_None_iff)
  ultimately show "c \<in> set (pd_denied_capabilities d) \<longleftrightarrow>
            default_deny \<and> \<not> (\<exists>p\<in>set (cm_default_capabilities m). matches_capability p c)"
    by (auto simp: assms evaluate_alt capability_denied_def explicitly_denied_def explicitly_allowed_def list_ex_iff)
qed

definition sample_matrix :: capability_matrix where
  "sample_matrix = \<lparr>cm_version = ''v1'', cm_default_capabilities = [''tool.local''],
     cm_subjects = bt_of_list [(''builtin.command'', \<lparr>cru_description = [], cru_allow = [''shell.execute''], cru_deny = [''network.*'']\<rparr>)]\<rparr>"

theorem evaluate_partitions_witness:
  "mset (pd_allowed_capabilities (evaluate sample_matrix ''builtin.command'' [''shell.execute'', ''network.egress''] True))
   + mset (pd_denied_capabilities (evaluate sample_matrix ''builtin.command'' [''shell.execute'', ''network.egress''] True))
   = {#''shell.execute'', ''network.egress''#}"
  using evaluate_partitions [OF refl, of sample_matrix "''builtin.command''" "[''shell.execute'', ''network.egress'']" True]
  by simp

lemma find_insert_later:
  assumes "bt_wf m" and "k0 \<in> fst ` set m" and "k0 < k" and "p k0"
  shows "List.find (\<lambda>(k, _). p k) (bt_insert k v m) = List.find (\<lambda>(k, _). p k) m"
  using assms by (induction k v m rule: bt_insert.induct) (force simp: bt_wf_Cons)+

lemma capability_denied_subjects [simp]:
  "capability_denied (m\<lparr>cm_subjects := x\<rparr>) r dd = capability_denied m r dd"
  by (rule ext) (simp add: capability_denied_def explicitly_allowed_def)

lemma prefix_less_append: "(x :: 'a::linorder) < y \<Longrightarrow> pre @ x # xs < pre @ y # ys"
  by (induction pre) simp_all

text \<open>
  The order of the keys, not the precision of the pattern, decides: a pattern ending in
  \<open>*\<close> sorts before every subject it covers (when the next character sorts after \<open>*\<close>, as
  letters and digits do), so a rule written for that very subject changes nothing: its denials
  never take effect.
\<close>

theorem wildcard_shadows_subject:
  assumes "bt_wf (cm_subjects m)" and "pre @ ''*'' \<in> fst ` set (cm_subjects m)" and "CHR ''*'' < c"
  shows "evaluate (m\<lparr>cm_subjects := bt_insert (pre @ c # rest) narrow (cm_subjects m)\<rparr>)
     (pre @ c # rest) requested default_deny = evaluate m (pre @ c # rest) requested default_deny"
proof -
  have "subject_matches (pre @ ''*'') (pre @ c # rest)" by (simp add: wildcard_matches)
  moreover have "pre @ ''*'' < pre @ c # rest" using assms(3) by (rule prefix_less_append)
  ultimately have "rule_for (m\<lparr>cm_subjects := bt_insert (pre @ c # rest) narrow (cm_subjects m)\<rparr>) (pre @ c # rest)
      = rule_for m (pre @ c # rest)"
    using find_insert_later [OF assms(1,2), of "pre @ c # rest" "\<lambda>p. subject_matches p (pre @ c # rest)" narrow]
    by (simp add: rule_for_def)
  then show ?thesis by (simp add: evaluate_alt)
qed

theorem wildcard_shadows_subject_witness:
  "pd_denied_capabilities (evaluate \<lparr>cm_version = [], cm_default_capabilities = [],
      cm_subjects = bt_insert ''skill.rm'' \<lparr>cru_description = [], cru_allow = [], cru_deny = [''skill.execute'']\<rparr>
        [(''skill.*'', \<lparr>cru_description = [], cru_allow = [''skill.execute''], cru_deny = []\<rparr>)]\<rparr>
     ''skill.rm'' [''skill.execute''] True) = []"
proof -
  let ?m = "\<lparr>cm_version = [], cm_default_capabilities = [],
      cm_subjects = [(''skill.*'', \<lparr>cru_description = [], cru_allow = [''skill.execute''], cru_deny = []\<rparr>)]\<rparr>"
  have "bt_wf (cm_subjects ?m)" "''skill.'' @ ''*'' \<in> fst ` set (cm_subjects ?m)" "CHR ''*'' < CHR ''r''"
    by (simp_all add: bt_wf_def less_char_def)
  from wildcard_shadows_subject [OF this, of "''m''" "\<lparr>cru_description = [], cru_allow = [], cru_deny = [''skill.execute'']\<rparr>"
      "[''skill.execute'']" True]
  show ?thesis
    by (simp add: evaluate_alt rule_for_def capability_denied_def explicitly_denied_def explicitly_allowed_def
        subject_matches_def matches_capability_def strip_suffix_def ends_with_def starts_with_def)
qed

end
