(* ===== verification/Orchestrator.thy ===== *)
theory Orchestrator
  imports Store
begin

text \<open>
  Model calls: the provider registry of \<open>engine/src/providers/mod.rs\<close> and the
  \<open>Orchestrator\<close> of \<open>engine/src/lib.rs\<close> with its three caches. The three providers speak HTTP; what
  they answer is the parameter \<open>E_generate\<close>, and every call is recorded in \<open>w_calls\<close>. The permit
  of the \<open>inflight\<close> semaphore is held during one generation and then released, so a generation that
  runs alone never waits for it; it is not part of the state.
\<close>

section \<open>The provider registry\<close>

record provider_registry =
  pr_providers :: "(string, model_provider_config) btree"
  pr_configs :: "(string, model_provider_config) btree"
  pr_provider_order :: "string list"

definition supported_kind :: "string \<Rightarrow> bool" where
  "supported_kind kind \<longleftrightarrow> kind = ''ollama'' \<or> kind = ''llamacpp'' \<or> kind = ''openai-compatible''"

definition registry_from_config :: "(string, model_provider_config) btree \<Rightarrow> provider_registry" where
  "registry_from_config config = \<lparr>
     pr_providers = fold (\<lambda>(name, provider) ps. if supported_kind (mp_kind provider) then bt_insert name provider ps else ps)
       config [],
     pr_configs = config, pr_provider_order = map fst config\<rparr>"

definition enabled_names :: "provider_registry \<Rightarrow> string list" where
  "enabled_names reg = filter (\<lambda>name. case bt_get (pr_providers reg) name of None \<Rightarrow> False | Some p \<Rightarrow> mp_enabled p)
     (pr_provider_order reg)"

definition config_for :: "provider_registry \<Rightarrow> string \<Rightarrow> model_provider_config option" where
  "config_for reg name = bt_get (pr_configs reg) name"

definition call_provider :: "env \<Rightarrow> string \<Rightarrow> string \<Rightarrow> string io" where
  "call_provider E name prompt = (\<lambda>w.
     (case E_generate E name (length (w_calls w)) prompt of Inl e \<Rightarrow> Err e | Inr response \<Rightarrow> Ok response,
      w\<lparr>w_calls := w_calls w @ [(name, prompt)]\<rparr>))"

definition generate_with_provider :: "env \<Rightarrow> provider_registry \<Rightarrow> string \<Rightarrow> string \<Rightarrow> string io" where
  "generate_with_provider E reg provider prompt =
     (case bt_get (pr_providers reg) provider of
        None \<Rightarrow> fail (Msg (''unknown provider '' @ provider))
      | Some engine \<Rightarrow>
          if \<not> mp_enabled engine then fail (Msg (''provider '' @ provider @ '' is disabled''))
          else call_provider E provider prompt)"

text \<open>\<open>error.to_string()\<close>.\<close>

fun error_text :: "error \<Rightarrow> string" where
  "error_text (Msg m) = m"
| "error_text (SqlUnique table) = ''UNIQUE constraint failed: '' @ table"

fun route_loop :: "env \<Rightarrow> provider_registry \<Rightarrow> string \<Rightarrow> string list \<Rightarrow> string list \<Rightarrow> (string \<times> string) io" where
  "route_loop E reg prompt [] errors =
     fail (if errors = [] then Msg ''no enabled local model providers are configured''
       else Msg (''no local model backend succeeded ('' @ join ''; '' errors @ '')''))"
| "route_loop E reg prompt (name # order) errors =
     (case bt_get (pr_providers reg) name of
        None \<Rightarrow> route_loop E reg prompt order errors
      | Some provider \<Rightarrow>
          if \<not> mp_enabled provider then route_loop E reg prompt order errors
          else andthen (attempt (call_provider E name prompt)) (\<lambda>answer. case answer of
              Inr response \<Rightarrow> ret (name, response)
            | Inl e \<Rightarrow> route_loop E reg prompt order (errors @ [name @ '': '' @ error_text e])))"

definition generate_with_routing :: "env \<Rightarrow> provider_registry \<Rightarrow> string list \<Rightarrow> string \<Rightarrow> (string \<times> string) io" where
  "generate_with_routing E reg order prompt = route_loop E reg prompt order []"

section \<open>The orchestrator\<close>

record orchestration_result =
  or_provider :: string
  or_response :: string
  or_cache_tier :: string

record orchestrator =
  oc_config :: app_config
  oc_providers :: provider_registry
  oc_encryption :: encryption_manager
  oc_vector_backend :: string

definition new_orchestrator :: "app_config \<Rightarrow> provider_registry \<Rightarrow> encryption_manager \<Rightarrow> orchestrator" where
  "new_orchestrator config providers em = \<lparr>oc_config = config, oc_providers = providers, oc_encryption = em,
     oc_vector_backend = ''sqlite-fallback''\<rparr>"

definition draft_provider :: "provider_registry \<Rightarrow> string list \<Rightarrow> string option" where
  "draft_provider reg route = List.find (\<lambda>name. case config_for reg name of None \<Rightarrow> False
     | Some config \<Rightarrow> mp_speculative_enabled config \<and> mp_draft_model config \<noteq> []) route"

text \<open>
  \<open>tokio::join!\<close> runs the draft and the routed generation side by side; both are polled to their
  end, the draft first.
\<close>

definition generate_live :: "env \<Rightarrow> orchestrator \<Rightarrow> string list \<Rightarrow> string \<Rightarrow> (string \<times> string \<times> string) io" where
  "generate_live E oc route prompt =
     (case (if oc_speculative_enabled (cfg_orchestration (oc_config oc)) then draft_provider (oc_providers oc) route
            else None) of
        Some draft_name \<Rightarrow>
          andthen (attempt (generate_with_provider E (oc_providers oc) draft_name prompt)) (\<lambda>draft.
          andthen (attempt (generate_with_routing E (oc_providers oc) route prompt)) (\<lambda>target.
          case (draft, target) of
            (_, Inr (provider, response)) \<Rightarrow> ret (provider, response, ''live+speculative'')
          | (Inr response, Inl _) \<Rightarrow> ret (draft_name, response, ''speculative-fallback'')
          | (_, Inl e) \<Rightarrow> fail e))
      | None \<Rightarrow>
          andthen (generate_with_routing E (oc_providers oc) route prompt) (\<lambda>(provider, response).
          ret (provider, response, ''live'')))"

definition when_enabled :: "bool \<Rightarrow> 'a option io \<Rightarrow> 'a option io" where
  "when_enabled enabled m = (if enabled then m else ret None)"

text \<open>\<open>entry.score >= 0.92\<close> on the best entry of the \<open>semantic-cache\<close> namespace.\<close>

definition semantic_lookup :: "env \<Rightarrow> orchestrator \<Rightarrow> string \<Rightarrow> string option io" where
  "semantic_lookup E oc prompt =
     andthen (query_memory E (oc_encryption oc) \<lparr>mq_namespace = ''semantic-cache'', mq_query = prompt, mq_limit = 1,
       mq_filter_json = ''{}''\<rparr>) (\<lambda>cached.
     ret (case cached of [] \<Rightarrow> None
       | entry # _ \<Rightarrow> if 92 / 100 \<le> mr_score entry then Some (mr_content entry) else None))"

definition live_route :: "app_config \<Rightarrow> queue_priority \<Rightarrow> string list \<Rightarrow> string list" where
  "live_route config priority route =
     (if route = [] then
        if priority = Background then reverse_provider_order (oc_provider_order (cfg_orchestration config))
        else oc_provider_order (cfg_orchestration config)
      else route)"

definition semantic_payload :: "env \<Rightarrow> string \<Rightarrow> string \<Rightarrow> string" where
  "semantic_payload E provider response =
     E_json_print E (json_obj [(''provider'', JStr provider), (''response'', JStr response)])"

definition store_near_caches :: "env \<Rightarrow> orchestrator \<Rightarrow> string \<Rightarrow> string \<Rightarrow> string \<Rightarrow> unit io" where
  "store_near_caches E oc prompt provider response =
     (let config = cfg_orchestration (oc_config oc) in
      andthen (if oc_prefix_cache_enabled config then
          andthen (lift_res (slice_to prompt (min (length prompt) 128))) (\<lambda>pre. cache_prefix_put E pre provider response)
        else ret ()) (\<lambda>_.
      if oc_semantic_cache_enabled config then
        ignore_err (upsert_memory E (oc_encryption oc) ''semantic-cache'' (''semantic-'' @ prompt_hash E prompt)
          (semantic_payload E provider response) ''{}'')
      else ret ()))"

definition store_caches :: "env \<Rightarrow> orchestrator \<Rightarrow> string \<Rightarrow> string \<Rightarrow> string \<Rightarrow> unit io" where
  "store_caches E oc prompt provider response =
     andthen (if oc_exact_cache_enabled (cfg_orchestration (oc_config oc))
       then cache_exact_put E (prompt_hash E prompt) provider response else ret ()) (\<lambda>_.
     store_near_caches E oc prompt provider response)"

definition generate_uncached ::
  "env \<Rightarrow> orchestrator \<Rightarrow> string \<Rightarrow> queue_priority \<Rightarrow> string list \<Rightarrow> orchestration_result io" where
  "generate_uncached E oc prompt priority route =
     andthen (generate_live E oc (live_route (oc_config oc) priority route) prompt) (\<lambda>(provider, response, cache_tier).
     andthen (store_caches E oc prompt provider response) (\<lambda>_.
     ret \<lparr>or_provider = provider, or_response = response, or_cache_tier = cache_tier\<rparr>))"

text \<open>The exact, the prefix and the semantic cache in turn; an error of the store ends the request.\<close>

definition cached_answer :: "env \<Rightarrow> orchestrator \<Rightarrow> string \<Rightarrow> orchestration_result option io" where
  "cached_answer E oc prompt =
     (let config = cfg_orchestration (oc_config oc) in
      andthen (when_enabled (oc_exact_cache_enabled config) (cache_exact_get (prompt_hash E prompt))) (\<lambda>exact.
      case exact of Some (provider, response) \<Rightarrow>
        ret (Some \<lparr>or_provider = provider, or_response = response, or_cache_tier = ''exact''\<rparr>)
      | None \<Rightarrow>
      andthen (when_enabled (oc_prefix_cache_enabled config) (cache_prefix_get prompt)) (\<lambda>pre.
      case pre of Some (provider, response) \<Rightarrow>
        ret (Some \<lparr>or_provider = provider, or_response = response, or_cache_tier = ''prefix''\<rparr>)
      | None \<Rightarrow>
      andthen (when_enabled (oc_semantic_cache_enabled config) (semantic_lookup E oc prompt)) (\<lambda>semantic.
      ret (map_option (\<lambda>content.
        \<lparr>or_provider = ''semantic-cache'', or_response = content, or_cache_tier = ''semantic''\<rparr>) semantic)))))"

definition generate_with_route ::
  "env \<Rightarrow> orchestrator \<Rightarrow> string \<Rightarrow> queue_priority \<Rightarrow> string list \<Rightarrow> orchestration_result io" where
  "generate_with_route E oc prompt priority route =
     andthen (cached_answer E oc prompt) (\<lambda>cached. case cached of
         Some result \<Rightarrow> ret result
       | None \<Rightarrow> generate_uncached E oc prompt priority route)"

section \<open>Lemmas\<close>

lemma call_provider_run [run_simps]:
  "call_provider E name prompt w =
     (case E_generate E name (length (w_calls w)) prompt of Inl e \<Rightarrow> Err e | Inr response \<Rightarrow> Ok response,
      w\<lparr>w_calls := w_calls w @ [(name, prompt)]\<rparr>)"
  by (simp add: call_provider_def)

lemma keeps_call_provider [keeps_intros]: "keeps P (call_provider E name prompt)"
  by (simp add: keeps_def run_simps)

lemma safe_call_provider [safe_intros]: "safe_at b (call_provider E name prompt)"
  by (simp add: safe_at_def run_simps split: sum.splits)

lemma keeps_route_loop [keeps_intros]: "keeps P (route_loop E reg prompt order errors)"
  by (induction order arbitrary: errors) (auto intro!: keeps_intros)

lemma safe_route_loop [safe_intros]: "safe_at b (route_loop E reg prompt order errors)"
  by (induction order arbitrary: errors) (auto intro!: safe_intros)

lemma keeps_generate_live [keeps_intros]: "keeps P (generate_live E oc route prompt)"
  unfolding generate_live_def generate_with_provider_def generate_with_routing_def
  by (intro keeps_intros)

lemma safe_generate_live [safe_intros]: "safe_at b (generate_live E oc route prompt)"
  unfolding generate_live_def generate_with_provider_def generate_with_routing_def
  by (intro safe_intros)

section \<open>Routing\<close>

definition usable_names :: "provider_registry \<Rightarrow> string list \<Rightarrow> string list" where
  "usable_names reg order = filter (\<lambda>name. case bt_get (pr_providers reg) name of None \<Rightarrow> False | Some p \<Rightarrow> mp_enabled p) order"

definition first_answer :: "env \<Rightarrow> string \<Rightarrow> nat \<Rightarrow> string list \<Rightarrow> nat option" where
  "first_answer E prompt calls names =
     List.find (\<lambda>i. \<not> isl (E_generate E (names ! i) (calls + i) prompt)) [0..<length names]"

lemma find_upt_Suc:
  "List.find P [0..<Suc n] = (if P 0 then Some 0 else map_option Suc (List.find (\<lambda>i. P (Suc i)) [0..<n]))"
proof -
  have "List.find P (map Suc xs) = map_option Suc (List.find (\<lambda>i. P (Suc i)) xs)" for xs
    by (induction xs) auto
  then show ?thesis by (simp add: upt_conv_Cons flip: map_Suc_upt del: upt_Suc)
qed

lemma first_answer_simps:
  "first_answer E prompt calls [] = None"
  "first_answer E prompt calls (name # names) = (if \<not> isl (E_generate E name calls prompt) then Some 0
     else map_option Suc (first_answer E prompt (Suc calls) names))"
  using find_upt_Suc [of "\<lambda>i. \<not> isl (E_generate E ((name # names) ! i) (calls + i) prompt)" "length names"]
  by (simp_all add: first_answer_def)

definition failure_texts :: "env \<Rightarrow> string \<Rightarrow> nat \<Rightarrow> string list \<Rightarrow> string list" where
  "failure_texts E prompt calls names =
     map (\<lambda>(i, name). name @ '': '' @ error_text (projl (E_generate E name (calls + i) prompt))) (enumerate 0 names)"

lemma failure_texts_simps:
  "failure_texts E prompt calls [] = []"
  "failure_texts E prompt calls (name # names) =
     (name @ '': '' @ error_text (projl (E_generate E name calls prompt))) # failure_texts E prompt (Suc calls) names"
  by (auto simp: failure_texts_def enumerate_Suc_eq)

lemma route_loop_run:
  "route_loop E reg prompt order errors w = (let names = usable_names reg order; calls = length (w_calls w) in
     case first_answer E prompt calls names of
       Some i \<Rightarrow> (Ok (names ! i, projr (E_generate E (names ! i) (calls + i) prompt)),
                 w\<lparr>w_calls := w_calls w @ map (\<lambda>n. (n, prompt)) (take (Suc i) names)\<rparr>)
     | None \<Rightarrow> (Err (let es = errors @ failure_texts E prompt calls names in
                   if es = [] then Msg ''no enabled local model providers are configured''
                   else Msg (''no local model backend succeeded ('' @ join ''; '' es @ '')'')),
                w\<lparr>w_calls := w_calls w @ map (\<lambda>n. (n, prompt)) names\<rparr>))"
proof (induction order arbitrary: errors w)
  case Nil
  then show ?case by (simp add: usable_names_def first_answer_simps failure_texts_simps run_simps)
next
  case (Cons name order)
  show ?case
  proof (cases "\<exists>p. bt_get (pr_providers reg) name = Some p \<and> mp_enabled p")
    case False
    then have "usable_names reg (name # order) = usable_names reg order"
      by (auto simp: usable_names_def split: option.splits)
    with False Cons show ?thesis by (auto split: option.splits)
  next
    case True
    then have use: "usable_names reg (name # order) = name # usable_names reg order"
      by (auto simp: usable_names_def)
    show ?thesis
    proof (cases "E_generate E name (length (w_calls w)) prompt")
      case (Inr response)
      with True use show ?thesis by (auto simp: first_answer_simps run_simps)
    next
      case (Inl e)
      with True use Cons [of "errors @ [name @ '': '' @ error_text e]" "w\<lparr>w_calls := w_calls w @ [(name, prompt)]\<rparr>"]
      show ?thesis
        by (auto simp: first_answer_simps failure_texts_simps run_simps Let_def split: option.splits)
    qed
  qed
qed

text \<open>
  Routing asks the enabled, known providers of the route in order, each at most once, and returns
  the first answer together with the provider that gave it; no provider after it is called. If all
  fail, or none is usable, the error names every failed provider with its error, in order.
\<close>

theorem routing_first_answer:
  "generate_with_routing E reg order prompt w = (let names = usable_names reg order; calls = length (w_calls w) in
     case first_answer E prompt calls names of
       Some i \<Rightarrow> (Ok (names ! i, projr (E_generate E (names ! i) (calls + i) prompt)),
                 w\<lparr>w_calls := w_calls w @ map (\<lambda>n. (n, prompt)) (take (Suc i) names)\<rparr>)
     | None \<Rightarrow> (Err (Msg (if names = [] then ''no enabled local model providers are configured''
                   else ''no local model backend succeeded ('' @ join ''; '' (failure_texts E prompt calls names) @ '')'')),
                w\<lparr>w_calls := w_calls w @ map (\<lambda>n. (n, prompt)) names\<rparr>))"
proof -
  have "failure_texts E prompt k names = [] \<longleftrightarrow> names = []" for k names
    by (cases names) (simp_all add: failure_texts_simps)
  then show ?thesis unfolding generate_with_routing_def route_loop_run
    by (auto simp: Let_def split: option.splits)
qed

section \<open>The caches and what they answer\<close>

lemma boundary_append: "starts_clean rest \<Longrightarrow> is_char_boundary (p @ rest) (length p)"
  by (cases rest) (auto simp: is_char_boundary_def starts_clean_def nth_append)

lemma safe_store_caches [safe_intros]:
  "\<not> oc_prefix_cache_enabled (cfg_orchestration (oc_config oc)) \<or> is_char_boundary prompt (min (length prompt) 128) \<Longrightarrow>
     safe (store_caches E oc prompt provider response)"
  unfolding store_caches_def store_near_caches_def Let_def by (intro safe_intros) (auto simp: slice_to_def)

lemma safe_cached_answer [safe_intros]: "safe (cached_answer E oc prompt)"
  unfolding cached_answer_def semantic_lookup_def when_enabled_def Let_def by (intro safe_intros)

lemma safe_generate_uncached [safe_intros]:
  "\<not> oc_prefix_cache_enabled (cfg_orchestration (oc_config oc)) \<or> is_char_boundary prompt (min (length prompt) 128) \<Longrightarrow>
     safe (generate_uncached E oc prompt priority route)"
  unfolding generate_uncached_def by (intro safe_intros)

lemma safe_generate_with_route [safe_intros]:
  "\<not> oc_prefix_cache_enabled (cfg_orchestration (oc_config oc)) \<or> is_char_boundary prompt (min (length prompt) 128) \<Longrightarrow>
     safe (generate_with_route E oc prompt priority route)"
  unfolding generate_with_route_def by (intro safe_intros)

text \<open>The lookups read the store only and leave the world as it is.\<close>

lemma when_enabled_run [run_simps]: "when_enabled b m w = (if b then m w else (Ok None, w))"
  by (simp add: when_enabled_def run_simps)

lemma unchanged_intros:
  "snd (m w) = w \<Longrightarrow> (\<And>a. snd (f a w) = w) \<Longrightarrow> snd (andthen m f w) = w"
  "snd (ret v w) = w"
  "(x = None \<Longrightarrow> snd (n w) = w) \<Longrightarrow> (\<And>b. x = Some b \<Longrightarrow> snd (h b w) = w) \<Longrightarrow>
     snd ((case x of None \<Rightarrow> n | Some b \<Rightarrow> h b) w) = w"
  "(\<And>c d. y = (c, d) \<Longrightarrow> snd (g c d w) = w) \<Longrightarrow> snd ((case y of (c, d) \<Rightarrow> g c d) w) = w"
  by (cases "m w"; auto simp: run_simps split: res.splits option.splits prod.splits)+

lemma cached_answer_unchanged: "\<not> w_locked w \<Longrightarrow> snd (cached_answer E oc prompt w) = w"
  unfolding cached_answer_def semantic_lookup_def Let_def
  by (intro unchanged_intros)
     (simp_all add: when_enabled_run cache_exact_get_run cache_prefix_get_run query_memory_run andthen_run ret_run
        split: res.splits prod.splits)

lemma cached_answer_exact:
  assumes "\<not> w_locked w" and "oc_exact_cache_enabled (cfg_orchestration (oc_config oc))"
    and "lookup_row ca_key (prompt_hash E prompt) (t_prompt_cache (w_db w)) = Some row"
  shows "cached_answer E oc prompt w =
    (Ok (Some \<lparr>or_provider = ca_provider row, or_response = ca_response row, or_cache_tier = ''exact''\<rparr>), w)"
  using assms by (simp add: cached_answer_def Let_def run_simps cache_exact_get_run)

text \<open>Storing the answer succeeds only if the prompt can be cut, and then leaves it in the exact cache.\<close>

lemma store_caches_boundary:
  assumes "store_caches E oc prompt provider response w = (Ok u, w')"
  shows "\<not> oc_prefix_cache_enabled (cfg_orchestration (oc_config oc)) \<or> is_char_boundary prompt (min (length prompt) 128)"
  using assms unfolding store_caches_def store_near_caches_def Let_def
  by (elim andthen_OkE) (auto simp: slice_to_def run_simps split: if_splits)

lemma store_caches_unlocked:
  assumes "store_caches E oc prompt provider response w = (Ok u, w')" and "\<not> w_locked w"
  shows "\<not> w_locked w'"
  using safe_atD [OF safe_store_caches [OF store_caches_boundary [OF assms(1)]] _ assms(1)] assms(2) by simp

lemma keeps_prompt_cache:
  "keeps (\<lambda>d. P (t_prompt_cache d)) (cache_prefix_put E pre p r)"
  "keeps (\<lambda>d. P (t_prompt_cache d)) (upsert_memory E em ns k c md)"
  unfolding cache_prefix_put_def upsert_memory_def by (intro keeps_intros; simp)+

lemma store_caches_exact:
  assumes "store_caches E oc prompt provider response w = (Ok u, w')" and "\<not> w_locked w"
    and "oc_exact_cache_enabled (cfg_orchestration (oc_config oc))"
  shows "\<exists>row. lookup_row ca_key (prompt_hash E prompt) (t_prompt_cache (w_db w')) = Some row
    \<and> ca_provider row = provider \<and> ca_response row = response"
proof -
  let ?P = "\<lambda>t. \<exists>row. lookup_row ca_key (prompt_hash E prompt) t = Some row \<and> ca_provider row = provider \<and> ca_response row = response"
  obtain w1 where w1: "cache_exact_put E (prompt_hash E prompt) provider response w = (Ok (), w1)"
    and rest: "store_near_caches E oc prompt provider response w1 = (Ok u, w')"
    using assms(1,3) unfolding store_caches_def by (auto elim: andthen_OkE)
  let ?row = "\<lparr>ca_key = prompt_hash E prompt, ca_provider = provider, ca_response = response, ca_created_at = E_time E (w_ticks w)\<rparr>"
  have "t_prompt_cache (w_db w1) = upsert_row ca_key merge_cache ?row (t_prompt_cache (w_db w))"
    using w1 assms(2) by (auto simp: cache_exact_put_run)
  then have "?P (t_prompt_cache (w_db w1))"
    using cache.upsert_lookup_same [of ?row "t_prompt_cache (w_db w)"] by (simp add: merge_cache_def split: option.splits)
  moreover have "keeps (\<lambda>d. ?P (t_prompt_cache d)) (store_near_caches E oc prompt provider response)"
    unfolding store_near_caches_def Let_def by (intro keeps_intros keeps_prompt_cache)
  ultimately show ?thesis using keepsD [where P = "\<lambda>d. ?P (t_prompt_cache d)" and w = w1] rest by blast
qed

lemma generate_live_frame:
  assumes "generate_live E oc route prompt w = (res, w')"
  shows "w_db w' = w_db w" and "w_locked w' = w_locked w"
proof -
  have "keeps (\<lambda>d. d = w_db w) (generate_live E oc route prompt)" by (intro keeps_intros)
  from keepsD [OF this refl assms] show "w_db w' = w_db w" .
  have "safe_at (w_locked w) (generate_live E oc route prompt)" by (intro safe_intros)
  from safe_atD [OF this refl assms] show "w_locked w' = w_locked w" by simp
qed

text \<open>C31.
  A prompt that was answered once is answered the same way from then on: with the exact cache
  enabled, repeating the prompt, with whatever priority and route, gives the same response and
  provider without calling a provider and without changing anything.
\<close>

theorem repeated_prompt_cached:
  assumes "\<not> w_locked w" and "oc_exact_cache_enabled (cfg_orchestration (oc_config oc))"
    and "generate_with_route E oc prompt priority route w = (Ok r, w1)"
  shows "\<exists>r'. generate_with_route E oc prompt priority' route' w1 = (Ok r', w1)
    \<and> or_response r' = or_response r \<and> or_provider r' = or_provider r"
proof -
  obtain c w0 where c: "cached_answer E oc prompt w = (Ok c, w0)"
      and rest: "(case c of Some result \<Rightarrow> ret result | None \<Rightarrow> generate_uncached E oc prompt priority route) w0 = (Ok r, w1)"
    using assms(3) unfolding generate_with_route_def by (elim andthen_OkE)
  have w0: "w0 = w" using cached_answer_unchanged [OF assms(1), of E oc prompt] c by simp
  show ?thesis
  proof (cases c)
    case (Some result)
    with rest c w0 show ?thesis by (auto simp: generate_with_route_def run_simps)
  next
    case None
    then obtain p resp tier w2 u w3 where live: "generate_live E oc (live_route (oc_config oc) priority route) prompt w = (Ok (p, resp, tier), w2)"
        and st: "store_caches E oc prompt p resp w2 = (Ok u, w3)" and r: "ret \<lparr>or_provider = p, or_response = resp, or_cache_tier = tier\<rparr> w3 = (Ok r, w1)"
      using rest w0 by (auto simp: generate_uncached_def elim!: andthen_OkE)
    have un: "\<not> w_locked w2" using generate_live_frame(2) [OF live] assms(1) by simp
    have "w3 = w1" "or_provider r = p" "or_response r = resp" using r by (auto simp: run_simps)
    then show ?thesis
      using store_caches_exact [OF st un assms(2)] store_caches_unlocked [OF st un] assms(2)
      by (auto simp: generate_with_route_def run_simps cached_answer_exact)
  qed
qed

definition demo_provider :: model_provider_config where
  "demo_provider = derived_model_provider\<lparr>mp_kind := ''ollama'', mp_enabled := True\<rparr>"

text \<open>An orchestrator with one provider and the caches switched on one by one.\<close>

definition demo_orchestrator :: "bool \<Rightarrow> bool \<Rightarrow> bool \<Rightarrow> orchestrator" where
  "demo_orchestrator exact pre semantic = new_orchestrator
     (default_config\<lparr>cfg_orchestration := default_orchestration\<lparr>oc_exact_cache_enabled := exact,
        oc_prefix_cache_enabled := pre, oc_semantic_cache_enabled := semantic, oc_speculative_enabled := False\<rparr>\<rparr>)
     (registry_from_config [(''ollama'', demo_provider)]) demo_manager"

lemma demo_orchestrator_fields [simp]:
  "oc_exact_cache_enabled (cfg_orchestration (oc_config (demo_orchestrator x y z))) = x"
  "oc_prefix_cache_enabled (cfg_orchestration (oc_config (demo_orchestrator x y z))) = y"
  "oc_semantic_cache_enabled (cfg_orchestration (oc_config (demo_orchestrator x y z))) = z"
  "oc_encryption (demo_orchestrator x y z) = demo_manager"
  by (simp_all add: demo_orchestrator_def new_orchestrator_def)

lemma demo_live_run:
  "generate_live demo_env (demo_orchestrator x y z) (live_route config priority [''ollama'']) prompt w =
     (Ok (''ollama'', ''reply '' @ dec (length (w_calls w)), ''live''), w\<lparr>w_calls := w_calls w @ [(''ollama'', prompt)]\<rparr>)"
  by (simp add: generate_live_def demo_orchestrator_def new_orchestrator_def live_route_def generate_with_routing_def
      registry_from_config_def demo_provider_def derived_model_provider_def supported_kind_def bt_get_def run_simps)

theorem repeated_prompt_cached_witness:
  "\<exists>r r' w1. generate_with_route demo_env (demo_orchestrator True False False) ''hi'' Interactive [''ollama''] boot_world = (Ok r, w1)
     \<and> generate_with_route demo_env (demo_orchestrator True False False) ''hi'' Background [] w1 = (Ok r', w1)
     \<and> or_response r' = or_response r"
proof -
  let ?oc = "demo_orchestrator True False False"
  have "\<not> w_locked boot_world" "oc_exact_cache_enabled (cfg_orchestration (oc_config ?oc))" by simp_all
  moreover obtain r w1 where run: "generate_with_route demo_env ?oc ''hi'' Interactive [''ollama''] boot_world = (Ok r, w1)"
    by (simp add: generate_with_route_def cached_answer_def Let_def run_simps cache_exact_get_run lookup_row_def
        generate_uncached_def demo_live_run store_caches_def store_near_caches_def cache_exact_put_run)
  ultimately show ?thesis using repeated_prompt_cached [of boot_world ?oc demo_env "''hi''" Interactive "[''ollama'']"]
    by fastforce
qed

text \<open>What an upsert leaves in the vector memory.\<close>

lemma upsert_memory_row:
  assumes "upsert_memory E em ns key content md w = (Ok digest, w1)" and "\<not> w_locked w"
  obtains blob wa now where "seal_text E em content w = (Ok blob, wa)" and "\<not> w_locked w1"
    and "t_vector_memory (w_db w1) = upsert_row memory_key merge_memory
      \<lparr>vm_namespace = ns, vm_key = key, vm_blob_json = blob, vm_metadata_json = md,
       vm_fingerprint = fingerprint E content, vm_created_at = now\<rparr> (t_vector_memory (w_db w))"
proof -
  obtain rs wa where seal: "seal_text E em content w = (rs, wa)" by (cases "seal_text E em content w")
  have wa: "\<not> w_locked wa" "w_db wa = w_db w"
    using seal_text_frame [OF seal] assms(2)
    by (metis world.select_convs world.surjective world.update_convs(5))+
  obtain b where rs: "rs = Ok b" using assms(1) seal by (cases rs) (simp_all add: upsert_memory_def run_simps)
  show thesis
    by (rule that [OF seal [unfolded rs], of "E_time E (w_ticks wa)"])
       (use assms(1) seal rs wa in \<open>auto simp: upsert_memory_def run_simps\<close>)
qed

lemma prefix_step_frame:
  assumes "(if b then andthen (lift_res (slice_to prompt n)) (\<lambda>pre. cache_prefix_put E pre p r) else ret ()) w = (Ok u, w0)"
    and "\<not> w_locked w"
  shows "\<not> w_locked w0 \<and> t_vector_memory (w_db w0) = t_vector_memory (w_db w)"
  using assms by (cases "slice_to prompt n") (auto simp: run_simps cache_prefix_put_run split: if_splits)

lemma upsert_memory_err:
  assumes "upsert_memory E em ns key content md w = (Err e, w1)" and "\<not> w_locked w"
  shows "w_db w1 = w_db w"
proof -
  obtain rs wa where seal: "seal_text E em content w = (rs, wa)" by (cases "seal_text E em content w")
  have "\<not> w_locked wa" "w_db wa = w_db w"
    using seal_text_frame [OF seal] assms(2)
    by (metis world.select_convs world.surjective world.update_convs(5))+
  then show ?thesis using assms(1) seal by (cases rs) (auto simp: upsert_memory_def run_simps)
qed

text \<open>
  The semantic cache compares the prompt with earlier replies, not with earlier prompts, and
  answers with its own storage format: after a reply is stored in an empty cache, a prompt is
  answered from it exactly when it is at least 0.92 similar to the JSON text of provider and reply,
  whatever the prompt was that produced the reply, and the answer is that JSON text.
\<close>

theorem semantic_cache_matches_replies:
  assumes "crypto_laws E" and "\<not> w_locked w"
    and "\<forall>r\<in>set (t_vector_memory (w_db w)). vm_namespace r \<noteq> ''semantic-cache''"
    and "from_utf8 (semantic_payload E provider response) = Some (semantic_payload E provider response)"
    and "store_near_caches E oc prompt provider response w = (Ok u, w1)"
    and "\<exists>r\<in>set (t_vector_memory (w_db w1)). vm_namespace r = ''semantic-cache''"
  shows "fst (semantic_lookup E oc other_prompt w1) = Ok (
    if 92 / 100 \<le> similarity (fingerprint E other_prompt) (fingerprint E (semantic_payload E provider response))
    then Some (semantic_payload E provider response) else None)"
proof -
  let ?payload = "semantic_payload E provider response"
  let ?up = "upsert_memory E (oc_encryption oc) ''semantic-cache'' (''semantic-'' @ prompt_hash E prompt) ?payload ''{}''"
  obtain w0 where w0: "\<not> w_locked w0" "t_vector_memory (w_db w0) = t_vector_memory (w_db w)"
      and rest: "(if oc_semantic_cache_enabled (cfg_orchestration (oc_config oc)) then ignore_err ?up else ret ()) w0 = (Ok u, w1)"
    using assms(5) unfolding store_near_caches_def Let_def
    by (elim andthen_OkE) (blast dest: prefix_step_frame [OF _ assms(2)])
  obtain r w2 where up: "?up w0 = (r, w2)" by (cases "?up w0")
  have stored: "r = Ok d \<Longrightarrow> w1 = w2" "r = Err e \<Longrightarrow> w_db w1 = w_db w0" for d e
    using rest up w0 assms(3,6) upsert_memory_err [of E "oc_encryption oc" _ _ ?payload _ w0] by (auto simp: run_simps split: if_splits)
  obtain d where d: "?up w0 = (Ok d, w1)"
    using rest up stored w0 assms(3,6) by (cases r) (auto simp: run_simps split: if_splits)
  show ?thesis using d w0(1)
  proof (cases rule: upsert_memory_row)
    case (1 blob wa now)
    let ?new = "\<lparr>vm_namespace = ''semantic-cache'', vm_key = ''semantic-'' @ prompt_hash E prompt, vm_blob_json = blob,
       vm_metadata_json = ''{}'', vm_fingerprint = fingerprint E ?payload, vm_created_at = now\<rparr>"
    have "upsert_row memory_key merge_memory ?new (t_vector_memory (w_db w)) = insert_row ?new (t_vector_memory (w_db w))"
      using assms(3) by (auto simp: upsert_row_def has_key_def memory_key_def list_ex_iff)
    then have "memory_candidates ''semantic-cache'' (w_db w1) = [?new]"
      using 1(3) w0(2) assms(3) by (simp add: memory_candidates_def insert_row_def filter_False order_desc_def)
    moreover have "unseal_text E (oc_encryption oc) ''failed to decode encrypted memory blob'' blob = Ok ?payload"
      using seal_unseal [OF assms(1) 1(1) assms(4)] .
    ultimately show ?thesis
      using 1(2) by (simp add: semantic_lookup_def query_memory_run run_simps memory_record_of_row_def order_desc_def)
  qed
qed

lemma demo_payload_utf8:
  "from_utf8 (semantic_payload demo_env ''p'' ''r'') = Some (semantic_payload demo_env ''p'' ''r'')"
proof -
  have "from_utf8 (demo_print (json_obj [(''provider'', JStr ''p''), (''response'', JStr ''r'')]))
      = Some (demo_print (json_obj [(''provider'', JStr ''p''), (''response'', JStr ''r'')]))" by code_simp
  then show ?thesis by (simp add: semantic_payload_def del: demo_print.simps)
qed

theorem semantic_cache_matches_replies_witness:
  "\<exists>w1. store_near_caches demo_env (demo_orchestrator False False True) ''what is the weather'' ''p'' ''r'' boot_world = (Ok (), w1)
     \<and> fst (semantic_lookup demo_env (demo_orchestrator False False True) ''something else'' w1) = Ok (
         if 92 / 100 \<le> similarity (fingerprint demo_env ''something else'') (fingerprint demo_env (semantic_payload demo_env ''p'' ''r''))
         then Some (semantic_payload demo_env ''p'' ''r'') else None)"
proof -
  let ?oc = "demo_orchestrator False False True"
  let ?up = "upsert_memory demo_env demo_manager ''semantic-cache'' (''semantic-'' @ prompt_hash demo_env ''what is the weather'')
    (semantic_payload demo_env ''p'' ''r'') ''{}''"
  have un: "\<not> w_locked boot_world" by simp
  obtain b wa where seal: "seal_text demo_env demo_manager (semantic_payload demo_env ''p'' ''r'') boot_world = (Ok b, wa)"
    using demo_seal_ok by blast
  have "\<not> w_locked wa" using seal_text_frame [OF seal]
    by (metis boot_world_fields(2) world.select_convs(2) world.surjective world.update_convs(5))
  with seal obtain d w1 where up: "?up boot_world = (Ok d, w1)" by (simp add: upsert_memory_def run_simps)
  from up un have "\<exists>r\<in>set (t_vector_memory (w_db w1)). vm_namespace r = ''semantic-cache''"
    by (cases rule: upsert_memory_row) (simp add: upsert_row_def has_key_def insert_row_def)
  moreover have run: "store_near_caches demo_env ?oc ''what is the weather'' ''p'' ''r'' boot_world = (Ok (), w1)"
    using up by (simp add: store_near_caches_def Let_def run_simps del: demo_env_fields)
  moreover have "\<forall>r\<in>set (t_vector_memory (w_db boot_world)). vm_namespace r \<noteq> ''semantic-cache''" by simp
  ultimately show ?thesis
    using semantic_cache_matches_replies [OF demo_crypto_laws un _ demo_payload_utf8, of ?oc "''what is the weather''" "()" w1] by blast
qed

section \<open>The prefix cache and long prompts\<close>

lemma store_caches_prefix:
  assumes "store_caches E oc prompt provider response w = (Ok u, w1)" and "\<not> w_locked w"
    and "oc_prefix_cache_enabled (cfg_orchestration (oc_config oc))"
  shows "\<exists>row. ca_key row = take 128 prompt \<and> ca_provider row = provider \<and> ca_response row = response
    \<and> t_prefix_cache (w_db w1) = upsert_row ca_key merge_cache row (t_prefix_cache (w_db w))"
proof -
  let ?P = "\<lambda>t. \<exists>row. ca_key row = take 128 prompt \<and> ca_provider row = provider \<and> ca_response row = response
    \<and> t = upsert_row ca_key merge_cache row (t_prefix_cache (w_db w))"
  obtain u0 w0 where w0: "(if oc_exact_cache_enabled (cfg_orchestration (oc_config oc))
       then cache_exact_put E (prompt_hash E prompt) provider response else ret ()) w = (Ok u0, w0)"
      and near: "store_near_caches E oc prompt provider response w0 = (Ok u, w1)"
    using assms(1) unfolding store_caches_def by (elim andthen_OkE)
  have same: "t_prefix_cache (w_db w0) = t_prefix_cache (w_db w)" "\<not> w_locked w0"
    using w0 assms(2) by (auto simp: cache_exact_put_run run_simps split: if_splits)
  obtain w2 where put: "andthen (lift_res (slice_to prompt (min (length prompt) 128))) (\<lambda>pre. cache_prefix_put E pre provider response) w0 = (Ok (), w2)"
      and sem: "(if oc_semantic_cache_enabled (cfg_orchestration (oc_config oc)) then
        ignore_err (upsert_memory E (oc_encryption oc) ''semantic-cache'' (''semantic-'' @ prompt_hash E prompt)
          (semantic_payload E provider response) ''{}'') else ret ()) w2 = (Ok u, w1)"
    using near assms(3) unfolding store_near_caches_def Let_def by (elim andthen_OkE) auto
  have "slice_to prompt (min (length prompt) 128) = Ok (take 128 prompt)"
    using put by (cases "is_char_boundary prompt (min (length prompt) 128)") (auto simp: slice_to_def run_simps min_def)
  then have "?P (t_prefix_cache (w_db w2))"
    using put same by (auto simp: run_simps cache_prefix_put_run intro!: exI)
  moreover have "keeps (\<lambda>d. t_prefix_cache d = c) (if oc_semantic_cache_enabled (cfg_orchestration (oc_config oc)) then
        ignore_err (upsert_memory E (oc_encryption oc) ''semantic-cache'' (''semantic-'' @ prompt_hash E prompt)
          (semantic_payload E provider response) ''{}'') else ret ())" for c
    unfolding upsert_memory_def by (intro keeps_intros) simp
  from keepsD [OF this refl sem] have "t_prefix_cache (w_db w1) = t_prefix_cache (w_db w2)" .
  ultimately show ?thesis by simp
qed

text \<open>
  The prompts of two requests that agree on their first 128 bytes: once the first was answered by a
  model, the second is answered from the prefix cache, without calling a provider.
\<close>

lemma shared_prefix_answer:
  assumes "\<not> w_locked w" and "oc_prefix_cache_enabled (cfg_orchestration (oc_config oc))"
    and "length p = 128" and "starts_clean rest2"
    and "generate_uncached E oc (p @ rest1) priority route w = (Ok r, w1)"
    and "oc_exact_cache_enabled (cfg_orchestration (oc_config oc)) \<Longrightarrow>
      lookup_row ca_key (prompt_hash E (p @ rest2)) (t_prompt_cache (w_db w1)) = None"
  shows "\<exists>r2. generate_with_route E oc (p @ rest2) priority' route' w1 = (Ok r2, w1) \<and> or_cache_tier r2 = ''prefix''
    \<and> (t_prefix_cache (w_db w) = [] \<longrightarrow> or_response r2 = or_response r \<and> or_provider r2 = or_provider r)"
proof -
  obtain prov resp tier w2 u w3 where live: "generate_live E oc (live_route (oc_config oc) priority route) (p @ rest1) w = (Ok (prov, resp, tier), w2)"
      and st: "store_caches E oc (p @ rest1) prov resp w2 = (Ok u, w3)"
      and r: "ret \<lparr>or_provider = prov, or_response = resp, or_cache_tier = tier\<rparr> w3 = (Ok r, w1)"
    using assms(5) by (auto simp: generate_uncached_def elim!: andthen_OkE)
  have un: "\<not> w_locked w2" and db: "w_db w2 = w_db w" using generate_live_frame [OF live] assms(1) by simp_all
  have w3: "w3 = w1" "or_provider r = prov" "or_response r = resp" using r by (auto simp: run_simps)
  obtain row where row: "ca_key row = p" "ca_provider row = prov" "ca_response row = resp"
      and t: "t_prefix_cache (w_db w1) = upsert_row ca_key merge_cache row (t_prefix_cache (w_db w))"
    using store_caches_prefix [OF st un assms(2)] w3 db assms(3) by auto
  obtain mine where "lookup_row ca_key p (t_prefix_cache (w_db w1)) = Some mine"
    using cache.upsert_lookup_same [of row "t_prefix_cache (w_db w)"] t row by simp
  then have mine: "mine \<in> set (t_prefix_cache (w_db w1))" "p @ rest2 = ca_key mine @ rest2"
    using lookup_row_Some by fastforce+
  have un1: "\<not> w_locked w1" using store_caches_unlocked [OF st un] w3 by simp
  from longest_prefix_answers [OF un1 mine assms(4)] obtain best where
    best: "cache_prefix_get (p @ rest2) w1 = (Ok (Some (ca_provider best, ca_response best)), w1)"
      "best \<in> set (t_prefix_cache (w_db w1))" by blast
  have "generate_with_route E oc (p @ rest2) priority' route' w1 =
      (Ok \<lparr>or_provider = ca_provider best, or_response = ca_response best, or_cache_tier = ''prefix''\<rparr>, w1)"
    using best(1) assms(2,6) un1
    by (simp add: generate_with_route_def cached_answer_def Let_def run_simps cache_exact_get_run)
  moreover have "t_prefix_cache (w_db w) = [] \<Longrightarrow> best = row"
    using best(2) t by (simp add: upsert_row_def has_key_def insert_row_def)
  ultimately show ?thesis using row w3 by auto
qed

text \<open>
  The prefix cache cuts the prompt at byte 128, which panics inside a character of several bytes:
  the reply the model gave is lost for this request, although it was already stored in the exact
  cache, from which the same prompt is answered the next time.
\<close>

theorem multibyte_prompt_panics:
  assumes "\<not> w_locked w" and "oc_prefix_cache_enabled (cfg_orchestration (oc_config oc))"
    and "oc_exact_cache_enabled (cfg_orchestration (oc_config oc))"
    and "128 < length prompt" and "is_cont (prompt ! 128)"
    and "cached_answer E oc prompt w = (Ok None, w)"
    and "generate_live E oc (live_route (oc_config oc) priority route) prompt w = (Ok (provider, response, tier), w2)"
  shows "\<exists>w3 r. generate_with_route E oc prompt priority route w = (Panic, w3) \<and> w_calls w3 = w_calls w2
    \<and> generate_with_route E oc prompt priority' route' w3 = (Ok r, w3) \<and> or_response r = response"
proof -
  let ?row = "\<lparr>ca_key = prompt_hash E prompt, ca_provider = provider, ca_response = response, ca_created_at = E_time E (w_ticks w2)\<rparr>"
  let ?w3 = "w2\<lparr>w_ticks := Suc (w_ticks w2),
    w_db := (w_db w2)\<lparr>t_prompt_cache := upsert_row ca_key merge_cache ?row (t_prompt_cache (w_db w2))\<rparr>\<rparr>"
  have un: "\<not> w_locked w2" using generate_live_frame(2) [OF assms(7)] assms(1) by simp
  have cut: "slice_to prompt (min (length prompt) 128) = Panic"
    using assms(4,5) by (simp add: slice_to_def is_char_boundary_def min_def)
  have run: "generate_with_route E oc prompt priority route w = (Panic, ?w3)"
    using assms(2,3,6,7) un cut
    by (simp add: generate_with_route_def generate_uncached_def andthen_run store_caches_def store_near_caches_def
        cache_exact_put_run lift_res_run)
  obtain row where look: "lookup_row ca_key (prompt_hash E prompt) (t_prompt_cache (w_db ?w3)) = Some row" and resp: "ca_response row = response"
    using cache.upsert_lookup_same [of ?row "t_prompt_cache (w_db w2)"]
    by (simp add: merge_cache_def split: option.splits)
  have "\<not> w_locked ?w3" using un by simp
  from cached_answer_exact [OF this assms(3) look]
  have "generate_with_route E oc prompt priority' route' ?w3 =
      (Ok \<lparr>or_provider = ca_provider row, or_response = ca_response row, or_cache_tier = ''exact''\<rparr>, ?w3)"
    by (simp add: generate_with_route_def andthen_run ret_run)
  with run resp show ?thesis by fastforce
qed

theorem multibyte_prompt_panics_witness:
  "\<exists>w3. generate_with_route demo_env (demo_orchestrator True True False)
     (replicate 127 (CHR ''a'') @ [char_of (195 :: nat), char_of (169 :: nat)]) Connector [''ollama''] boot_world = (Panic, w3)"
proof -
  let ?oc = "demo_orchestrator True True False"
  let ?prompt = "replicate 127 (CHR ''a'') @ [char_of (195 :: nat), char_of (169 :: nat)]"
  have "\<not> w_locked boot_world" "oc_prefix_cache_enabled (cfg_orchestration (oc_config ?oc))"
    "oc_exact_cache_enabled (cfg_orchestration (oc_config ?oc))" "128 < length ?prompt" "is_cont (?prompt ! 128)"
    by (simp_all add: nth_append is_cont_def byte_def)
  moreover have "cached_answer demo_env ?oc ?prompt boot_world = (Ok None, boot_world)"
    by (simp add: cached_answer_def Let_def run_simps cache_exact_get_run lookup_row_def cache_prefix_get_run order_desc_def)
  ultimately show ?thesis
    using multibyte_prompt_panics [OF _ _ _ _ _ _ demo_live_run, of boot_world True True False ?prompt Connector] by blast
qed

end
