(* ===== verification/Skills.thy ===== *)
theory Skills
  imports Policy Store
begin

text \<open>
  Signed skill bundles (\<open>core/crates/common/src/skill.rs\<close>) and the \<open>SkillManager\<close> of
  \<open>core/crates/tools/src/lib.rs\<close>. A bundle directory is its files by relative path; unpacking a
  tar.zst archive and Ed25519 are parameters. Error texts leave out the path of the temporary
  directory, which is random.
\<close>

section \<open>Data\<close>

type_synonym tree = "(string, string) btree"

record trusted_key =
  tk_key_id :: string
  tk_public_key :: string

record trust_root =
  trt_version :: string
  trt_keys :: "trusted_key list"

record signature_envelope =
  se_key_id :: string
  se_signature :: string

record manifest_file =
  mf_path :: string
  mf_sha256 :: string

record skill_manifest =
  skm_id :: string
  skm_version :: string
  skm_name :: string
  skm_description :: string
  skm_language :: string
  skm_entrypoint :: string
  skm_files :: "manifest_file list"

record registry_skill =
  rs_id :: string
  rs_version :: string
  rs_name :: string
  rs_description :: string
  rs_language :: string
  rs_entrypoint :: string
  rs_source :: string

record registry_index =
  ri_version :: string
  ri_skills :: "registry_skill list"

record skill_info =
  si_id :: string
  si_version :: string
  si_name :: string
  si_description :: string
  si_installed :: bool
  si_verified :: bool
  si_entrypoint :: string
  si_language :: string

text \<open>The JSON forms; every field is required.\<close>

definition json_list :: "(json \<Rightarrow> 'a option) \<Rightarrow> json \<Rightarrow> 'a list option" where
  "json_list decode v = Option.bind (json_as_array v) (\<lambda>xs. those (map decode xs))"

definition trusted_key_of_json :: "json \<Rightarrow> trusted_key option" where
  "trusted_key_of_json v = (case (json_get_str v ''key_id'', json_get_str v ''public_key'') of
     (Some i, Some k) \<Rightarrow> Some \<lparr>tk_key_id = i, tk_public_key = k\<rparr> | _ \<Rightarrow> None)"

definition trust_root_of_json :: "json \<Rightarrow> trust_root option" where
  "trust_root_of_json v = (case (json_get_str v ''version'', Option.bind (json_get v ''keys'') (json_list trusted_key_of_json)) of
     (Some ver, Some ks) \<Rightarrow> Some \<lparr>trt_version = ver, trt_keys = ks\<rparr> | _ \<Rightarrow> None)"

definition signature_of_json :: "json \<Rightarrow> signature_envelope option" where
  "signature_of_json v = (case (json_get_str v ''key_id'', json_get_str v ''signature'') of
     (Some i, Some s) \<Rightarrow> Some \<lparr>se_key_id = i, se_signature = s\<rparr> | _ \<Rightarrow> None)"

definition manifest_file_of_json :: "json \<Rightarrow> manifest_file option" where
  "manifest_file_of_json v = (case (json_get_str v ''path'', json_get_str v ''sha256'') of
     (Some p, Some h) \<Rightarrow> Some \<lparr>mf_path = p, mf_sha256 = h\<rparr> | _ \<Rightarrow> None)"

definition manifest_of_json :: "json \<Rightarrow> skill_manifest option" where
  "manifest_of_json v =
     (case (json_get_str v ''id'', json_get_str v ''version'', json_get_str v ''name'', json_get_str v ''description'',
            json_get_str v ''language'', json_get_str v ''entrypoint'',
            Option.bind (json_get v ''files'') (json_list manifest_file_of_json)) of
        (Some i, Some ver, Some n, Some d, Some l, Some e, Some fs) \<Rightarrow>
          Some \<lparr>skm_id = i, skm_version = ver, skm_name = n, skm_description = d, skm_language = l,
            skm_entrypoint = e, skm_files = fs\<rparr>
      | _ \<Rightarrow> None)"

definition registry_skill_of_json :: "json \<Rightarrow> registry_skill option" where
  "registry_skill_of_json v =
     (case (json_get_str v ''id'', json_get_str v ''version'', json_get_str v ''name'', json_get_str v ''description'',
            json_get_str v ''language'', json_get_str v ''entrypoint'', json_get_str v ''source'') of
        (Some i, Some ver, Some n, Some d, Some l, Some e, Some s) \<Rightarrow>
          Some \<lparr>rs_id = i, rs_version = ver, rs_name = n, rs_description = d, rs_language = l,
            rs_entrypoint = e, rs_source = s\<rparr>
      | _ \<Rightarrow> None)"

definition registry_of_json :: "json \<Rightarrow> registry_index option" where
  "registry_of_json v = (case (json_get_str v ''version'', Option.bind (json_get v ''skills'') (json_list registry_skill_of_json)) of
     (Some ver, Some ss) \<Rightarrow> Some \<lparr>ri_version = ver, ri_skills = ss\<rparr> | _ \<Rightarrow> None)"

section \<open>Signatures\<close>

definition read_bytes :: "string \<Rightarrow> string io" where
  "read_bytes p = andthen (read_file p) (\<lambda>bytes. lift_res (of_option (Msg (''failed to read '' @ p)) bytes))"

definition decode_bytes :: "env \<Rightarrow> string \<Rightarrow> (json \<Rightarrow> 'a option) \<Rightarrow> string \<Rightarrow> 'a res" where
  "decode_bytes E ctx decode raw = of_option (Msg ctx) (Option.bind (E_json_parse E raw) decode)"

definition load_trust_root :: "env \<Rightarrow> string \<Rightarrow> trust_root io" where
  "load_trust_root E path =
     andthen (read_bytes path) (\<lambda>raw. lift_res (decode_bytes E ''failed to parse trust root'' trust_root_of_json raw))"

definition read_signature :: "env \<Rightarrow> string \<Rightarrow> signature_envelope io" where
  "read_signature E path =
     andthen (read_bytes path) (\<lambda>raw. lift_res (decode_bytes E ''failed to parse signature envelope'' signature_of_json raw))"

definition verify_bytes :: "env \<Rightarrow> string \<Rightarrow> signature_envelope \<Rightarrow> trust_root \<Rightarrow> unit res" where
  "verify_bytes E payload signature trust =
     bind_res (of_option (Msg ''signature key not trusted'')
       (List.find (\<lambda>candidate. tk_key_id candidate = se_key_id signature) (trt_keys trust))) (\<lambda>key.
     bind_res (of_option (Msg ''invalid base64 public key'') (E_b64_decode E (tk_public_key key))) (\<lambda>public_key.
     if length public_key \<noteq> 32 then Err (Msg ''public key must be 32 bytes'')
     else if \<not> E_ed25519_key_ok E public_key then Err (Msg ''invalid Ed25519 public key'')
     else
     bind_res (of_option (Msg ''invalid base64 signature'') (E_b64_decode E (se_signature signature))) (\<lambda>signature_bytes.
     if length signature_bytes \<noteq> 64 then Err (Msg ''signature must be 64 bytes'')
     else if \<not> E_ed25519_verify E public_key payload signature_bytes then Err (Msg ''signature verification failed'')
     else Ok ())))"

definition verify_registry :: "env \<Rightarrow> string \<Rightarrow> string \<Rightarrow> string \<Rightarrow> registry_index io" where
  "verify_registry E index_path signature_path root_path =
     andthen (load_trust_root E root_path) (\<lambda>trust.
     andthen (read_bytes index_path) (\<lambda>payload.
     andthen (read_signature E signature_path) (\<lambda>signature.
     andthen (lift_res (verify_bytes E payload signature trust)) (\<lambda>_.
     lift_res (decode_bytes E ''failed to parse registry index'' registry_of_json payload)))))"

section \<open>Bundles\<close>

text \<open>
  \<open>root.join(path)\<close> inside a bundle: \<open>.\<close> is dropped and \<open>..\<close> goes up one directory; a
  path that leaves the bundle, or an absolute one, is not a file of it.
\<close>

fun normalize_segments :: "string list \<Rightarrow> string list \<Rightarrow> string list option" where
  "normalize_segments acc [] = Some (rev acc)"
| "normalize_segments acc (seg # segs) =
     (if seg = ''..'' then (case acc of [] \<Rightarrow> None | _ # up \<Rightarrow> normalize_segments up segs)
      else normalize_segments (seg # acc) segs)"

definition tree_file :: "tree \<Rightarrow> string \<Rightarrow> string option" where
  "tree_file files p =
     (case normalize_segments [] (path_segments p) of None \<Rightarrow> None | Some segs \<Rightarrow> bt_get files (join ''/'' segs))"

definition tree_has_dir :: "tree \<Rightarrow> string \<Rightarrow> bool" where
  "tree_has_dir files p =
     (case normalize_segments [] (path_segments p) of None \<Rightarrow> False
      | Some segs \<Rightarrow> segs = [] \<or> list_ex (\<lambda>(name, _). starts_with name (join ''/'' segs @ ''/'')) files)"

definition bundle_file :: "tree \<Rightarrow> string \<Rightarrow> string option io" where
  "bundle_file files p = (if path_is_absolute p then read_file p else ret (tree_file files p))"

definition sha256_hex :: "env \<Rightarrow> string \<Rightarrow> string" where
  "sha256_hex E bytes = hex (E_sha256 E bytes)"

definition verify_manifest_file :: "env \<Rightarrow> tree \<Rightarrow> manifest_file \<Rightarrow> unit io" where
  "verify_manifest_file E files f =
     andthen (bundle_file files (mf_path f)) (\<lambda>content.
     case content of
       None \<Rightarrow>
         fail (Msg (if \<not> path_is_absolute (mf_path f) \<and> tree_has_dir files (mf_path f)
           then ''failed to read '' @ mf_path f else ''manifest referenced missing file '' @ mf_path f))
     | Some bytes \<Rightarrow>
         let actual = sha256_hex E bytes in
         if actual \<noteq> mf_sha256 f
         then fail (Msg (''digest mismatch for '' @ mf_path f @ '': expected '' @ mf_sha256 f @ '', got '' @ actual))
         else ret ())"

definition verify_manifest_files :: "env \<Rightarrow> tree \<Rightarrow> skill_manifest \<Rightarrow> unit io" where
  "verify_manifest_files E files manifest = for_each (verify_manifest_file E files) (skm_files manifest)"

definition find_dir :: "string \<Rightarrow> tree option io" where
  "find_dir path = (\<lambda>w. (Ok (map_of (w_dirs w) path), w))"

definition unpack_skill_archive :: "env \<Rightarrow> string \<Rightarrow> tree io" where
  "unpack_skill_archive E path =
     andthen (read_file path) (\<lambda>file. case file of
       None \<Rightarrow> fail (Msg (''failed to open '' @ path))
     | Some bytes \<Rightarrow> lift_res (of_option (Msg (''failed to unpack '' @ path)) (E_untar_zst E bytes)))"

definition tree_read :: "string \<Rightarrow> tree \<Rightarrow> string res" where
  "tree_read name files = of_option (Msg (''failed to read '' @ name)) (bt_get files name)"

text \<open>The bundle is copied, or unpacked, into a fresh directory, and verified there.\<close>

definition verify_skill_bundle :: "env \<Rightarrow> string \<Rightarrow> string \<Rightarrow> (skill_manifest \<times> tree) io" where
  "verify_skill_bundle E path root_path =
     andthen (find_dir path) (\<lambda>dir.
     andthen (case dir of Some files \<Rightarrow> ret files | None \<Rightarrow> unpack_skill_archive E path) (\<lambda>files.
     andthen (lift_res (tree_read ''manifest.json'' files)) (\<lambda>manifest_bytes.
     andthen (lift_res (bind_res (tree_read ''manifest.sig.json'' files)
       (decode_bytes E ''failed to parse signature envelope'' signature_of_json))) (\<lambda>signature.
     andthen (load_trust_root E root_path) (\<lambda>trust.
     andthen (lift_res (verify_bytes E manifest_bytes signature trust)) (\<lambda>_.
     andthen (lift_res (decode_bytes E ''failed to parse skill manifest'' manifest_of_json manifest_bytes)) (\<lambda>manifest.
     andthen (verify_manifest_files E files manifest) (\<lambda>_.
     ret (manifest, files)))))))))"

text \<open>Removes what was at the destination and copies the verified files there.\<close>

definition replace_dir :: "string \<Rightarrow> tree \<Rightarrow> (string \<times> tree) list \<Rightarrow> (string \<times> tree) list" where
  "replace_dir path files dirs =
     (if path \<in> fst ` set dirs then map (\<lambda>(p, old). if p = path then (p, files) else (p, old)) dirs
      else dirs @ [(path, files)])"

definition put_dir :: "string \<Rightarrow> tree \<Rightarrow> unit io" where
  "put_dir path files = (\<lambda>w. (Ok (), w\<lparr>w_dirs := replace_dir path files (w_dirs w)\<rparr>))"

definition install_verified_bundle :: "env \<Rightarrow> string \<Rightarrow> string \<Rightarrow> string \<Rightarrow> skill_manifest io" where
  "install_verified_bundle E source destination root_path =
     andthen (verify_skill_bundle E source root_path) (\<lambda>(manifest, files).
     andthen (put_dir destination files) (\<lambda>_.
     ret manifest))"

section \<open>The skill manager\<close>

record skill_manager =
  skl_config :: skills_config
  skl_paths :: openpinch_paths

definition trust_root_path :: "env \<Rightarrow> skill_manager \<Rightarrow> string" where
  "trust_root_path E sm = resolve_path E (sk_trust_root (skl_config sm))"

definition registry :: "env \<Rightarrow> skill_manager \<Rightarrow> registry_index io" where
  "registry E sm = verify_registry E (resolve_path E (sk_registry_index (skl_config sm)))
     (resolve_path E (sk_registry_signature (skl_config sm))) (trust_root_path E sm)"

definition installed_skill_dir :: "skill_manager \<Rightarrow> string \<Rightarrow> string \<Rightarrow> string" where
  "installed_skill_dir sm skill_id version = path_join (pa_installs_dir (skl_paths sm)) (skill_id @ ''-'' @ version)"

definition list_skills :: "env \<Rightarrow> skill_manager \<Rightarrow> (skill_info list \<times> string) io" where
  "list_skills E sm =
     andthen (registry E sm) (\<lambda>reg.
     andthen (map_act (\<lambda>skill.
       andthen (find_dir (installed_skill_dir sm (rs_id skill) (rs_version skill))) (\<lambda>dir.
       ret \<lparr>si_id = rs_id skill, si_version = rs_version skill, si_name = rs_name skill,
         si_description = rs_description skill, si_installed = (dir \<noteq> None), si_verified = True,
         si_entrypoint = rs_entrypoint skill, si_language = rs_language skill\<rparr>)) (ri_skills reg)) (\<lambda>entries.
     ret (entries, ri_version reg)))"

definition verify_skill :: "env \<Rightarrow> skill_manager \<Rightarrow> string \<Rightarrow> skill_manifest io" where
  "verify_skill E sm source = andthen (verify_skill_bundle E source (trust_root_path E sm)) (\<lambda>(manifest, _). ret manifest)"

definition info_of_manifest :: "skill_manifest \<Rightarrow> skill_info" where
  "info_of_manifest m = \<lparr>si_id = skm_id m, si_version = skm_version m, si_name = skm_name m,
     si_description = skm_description m, si_installed = True, si_verified = True,
     si_entrypoint = skm_entrypoint m, si_language = skm_language m\<rparr>"

definition install_skill :: "env \<Rightarrow> skill_manager \<Rightarrow> string \<Rightarrow> bool \<Rightarrow> skill_info io" where
  "install_skill E sm source force =
     andthen (verify_skill_bundle E source (trust_root_path E sm)) (\<lambda>(verified, _).
     let destination = installed_skill_dir sm (skm_id verified) (skm_version verified) in
     andthen (find_dir destination) (\<lambda>existing.
     if existing \<noteq> None \<and> \<not> force then
       fail (Msg (''skill '' @ skm_id verified @ ''@'' @ skm_version verified
         @ '' is already installed; re-run with --force to replace it''))
     else
     andthen (install_verified_bundle E source destination (trust_root_path E sm)) (\<lambda>manifest.
     ret (info_of_manifest manifest))))"

text \<open>The directories \<open>read_dir\<close> finds in \<open>installs_dir\<close>: those one level below it.\<close>

definition dir_entries :: "string \<Rightarrow> (string \<times> tree) list \<Rightarrow> (string \<times> tree) list" where
  "dir_entries base dirs = filter (\<lambda>(p, _). case strip_prefix p (path_join base []) of None \<Rightarrow> False
     | Some name \<Rightarrow> name \<noteq> [] \<and> CHR ''/'' \<notin> set name) dirs"

fun first_manifest :: "env \<Rightarrow> string \<Rightarrow> (string \<times> tree) list \<Rightarrow> (skill_manifest \<times> tree) option res" where
  "first_manifest E skill_id [] = Ok None"
| "first_manifest E skill_id ((path, files) # entries) =
     (case bt_get files ''manifest.json'' of
        None \<Rightarrow> first_manifest E skill_id entries
      | Some raw \<Rightarrow>
          bind_res (of_option (Msg (''failed to read '' @ path_join path ''manifest.json'')) (from_utf8 raw)) (\<lambda>text.
          bind_res (decode_bytes E ''failed to decode installed skill manifest'' manifest_of_json text) (\<lambda>manifest.
          if skm_id manifest = skill_id then Ok (Some (manifest, files)) else first_manifest E skill_id entries)))"

definition installed_manifest :: "env \<Rightarrow> skill_manager \<Rightarrow> string \<Rightarrow> (skill_manifest \<times> tree) io" where
  "installed_manifest E sm skill_id =
     andthen (\<lambda>w. (Ok (dir_entries (pa_installs_dir (skl_paths sm)) (w_dirs w)), w)) (\<lambda>entries.
     andthen (lift_res (first_manifest E skill_id entries)) (\<lambda>found.
     lift_res (of_option (Msg (''skill '' @ skill_id @ '' is not installed'')) found)))"

definition packaged_workspace :: "env \<Rightarrow> skill_manager \<Rightarrow> string \<Rightarrow> (skill_manifest \<times> string) io" where
  "packaged_workspace E sm skill_id =
     andthen (installed_manifest E sm skill_id) (\<lambda>(manifest, files).
     andthen (lift_res (of_option (Msg ''failed to finish skill archive'') (E_tar_zst E files))) (\<lambda>bytes.
     ret (manifest, E_b64_encode E bytes)))"

section \<open>Lemmas\<close>

lemma dir_runs [run_simps]:
  "find_dir p w = (Ok (map_of (w_dirs w) p), w)"
  "put_dir p files w = (Ok (), w\<lparr>w_dirs := replace_dir p files (w_dirs w)\<rparr>)"
  by (simp_all add: find_dir_def put_dir_def)

lemma returns_verify_bytes [simp]: "returns (verify_bytes E payload signature trust)"
  unfolding verify_bytes_def by (intro returns_bind_res) (auto intro: returns_bind_res)

lemma returns_decode_bytes [simp]: "returns (decode_bytes E ctx decode raw)" "returns (tree_read name files)"
  by (simp_all add: decode_bytes_def tree_read_def)

lemma returns_first_manifest [simp]: "returns (first_manifest E skill_id entries)"
  by (induction E skill_id entries rule: first_manifest.induct)
     (auto split: option.splits intro!: returns_bind_res)

lemma safe_dirs [safe_intros]:
  "safe_at b (find_dir p)" "safe_at b (put_dir p files)" "safe_at b (bundle_file files p)"
  by (simp_all add: safe_at_def run_simps bundle_file_def)

lemma safe_skill_reads [safe_intros]:
  "safe_at b (read_bytes p)" "safe_at b (load_trust_root E p)" "safe_at b (read_signature E p)"
  "safe_at b (unpack_skill_archive E p)"
  unfolding read_bytes_def load_trust_root_def read_signature_def unpack_skill_archive_def
  by (intro safe_intros; simp)+

lemma safe_verify_skill_bundle [safe_intros]: "safe_at b (verify_skill_bundle E path root_path)"
  unfolding verify_skill_bundle_def verify_manifest_files_def verify_manifest_file_def Let_def
  by (intro safe_intros returns_bind_res; simp)

lemma safe_packaged_workspace [safe_intros]: "safe_at b (packaged_workspace E sm skill_id)"
  unfolding packaged_workspace_def installed_manifest_def
  by (intro safe_intros; simp add: safe_at_def)

lemma keeps_packaged_workspace [keeps_intros]: "keeps P (packaged_workspace E sm skill_id)"
  unfolding packaged_workspace_def installed_manifest_def by (intro keeps_intros) (simp add: keeps_def)

section \<open>What is installed\<close>

text \<open>A bundle whose manifest is signed by a key of the trust root and lists only files of these digests.\<close>

definition signed_bundle :: "env \<Rightarrow> trust_root \<Rightarrow> tree \<Rightarrow> skill_manifest \<Rightarrow> bool" where
  "signed_bundle E trust files m \<longleftrightarrow> (\<exists>raw (sig :: signature_envelope) key public_key sig_bytes.
     bt_get files ''manifest.json'' = Some raw \<and> Option.bind (E_json_parse E raw) manifest_of_json = Some m
     \<and> key \<in> set (trt_keys trust) \<and> tk_key_id key = se_key_id sig \<and> E_b64_decode E (tk_public_key key) = Some public_key
     \<and> E_b64_decode E (se_signature sig) = Some sig_bytes \<and> E_ed25519_verify E public_key raw sig_bytes)"

definition digest_matches :: "env \<Rightarrow> (string \<Rightarrow> string option) \<Rightarrow> tree \<Rightarrow> manifest_file \<Rightarrow> bool" where
  "digest_matches E outside files f \<longleftrightarrow>
     map_option (sha256_hex E) (if path_is_absolute (mf_path f) then outside (mf_path f) else tree_file files (mf_path f))
       = Some (mf_sha256 f)"

definition digests_match :: "env \<Rightarrow> (string \<Rightarrow> string option) \<Rightarrow> tree \<Rightarrow> skill_manifest \<Rightarrow> bool" where
  "digests_match E outside files m \<longleftrightarrow> list_all (digest_matches E outside files) (skm_files m)"

lemma of_option_Ok [simp]: "of_option e x = Ok a \<longleftrightarrow> x = Some a"
  by (cases x) auto

lemma verify_bytes_Ok:
  assumes "verify_bytes E payload sig trust = Ok u"
  shows "\<exists>key public_key sig_bytes. key \<in> set (trt_keys trust) \<and> tk_key_id key = se_key_id sig
    \<and> E_b64_decode E (tk_public_key key) = Some public_key \<and> E_b64_decode E (se_signature sig) = Some sig_bytes
    \<and> E_ed25519_verify E public_key payload sig_bytes"
proof -
  obtain key public_key sig_bytes where
    "List.find (\<lambda>candidate. tk_key_id candidate = se_key_id sig) (trt_keys trust) = Some key"
    "E_b64_decode E (tk_public_key key) = Some public_key" "E_b64_decode E (se_signature sig) = Some sig_bytes"
    "E_ed25519_verify E public_key payload sig_bytes"
    using assms by (auto simp: verify_bytes_def split: if_splits)
  moreover from this(1) have "key \<in> set (trt_keys trust)" "tk_key_id key = se_key_id sig"
    by (auto simp: find_Some_iff)
  ultimately show ?thesis by blast
qed

lemma verify_manifest_file_Ok:
  "verify_manifest_file E files f w = (Ok (), w') \<longleftrightarrow> w' = w \<and> digest_matches E (w_files w) files f"
  by (auto simp: verify_manifest_file_def bundle_file_def run_simps Let_def digest_matches_def split: option.splits)

lemma verify_manifest_files_Ok:
  "for_each (verify_manifest_file E files) fs w = (Ok (), w') \<longleftrightarrow> w' = w \<and> list_all (digest_matches E (w_files w) files) fs"
proof (induction fs arbitrary: w)
  case (Cons f fs)
  have "for_each (verify_manifest_file E files) (f # fs) w = (Ok (), w') \<longleftrightarrow>
      verify_manifest_file E files f w = (Ok (), w) \<and> for_each (verify_manifest_file E files) fs w = (Ok (), w')"
    by (auto elim!: andthen_OkE simp: verify_manifest_file_Ok andthen_cong_run)
  then show ?case using Cons by (auto simp: verify_manifest_file_Ok)
qed (auto simp: run_simps)

text \<open>The files of the source, from its directory or its archive.\<close>

definition bundle_source :: "env \<Rightarrow> string \<Rightarrow> world \<Rightarrow> tree option" where
  "bundle_source E path w = (case map_of (w_dirs w) path of Some files \<Rightarrow> Some files
     | None \<Rightarrow> Option.bind (w_files w path) (E_untar_zst E))"

definition trust_at :: "env \<Rightarrow> string \<Rightarrow> world \<Rightarrow> trust_root option" where
  "trust_at E path w = Option.bind (Option.bind (w_files w path) (E_json_parse E)) trust_root_of_json"

lemma andthen_Ok_iff: "andthen m f w = (Ok b, w') \<longleftrightarrow> (\<exists>a w1. m w = (Ok a, w1) \<and> f a w1 = (Ok b, w'))"
  by (auto elim: andthen_OkE simp: andthen_cong_run)

lemma read_Ok:
  "lift_res r w = (Ok a, w') \<longleftrightarrow> r = Ok a \<and> w' = w"
  "ret v w = (Ok x, w') \<longleftrightarrow> x = v \<and> w' = w"
  "find_dir p w = (Ok d, w') \<longleftrightarrow> d = map_of (w_dirs w) p \<and> w' = w"
  "load_trust_root E p w = (Ok t, w') \<longleftrightarrow> trust_at E p w = Some t \<and> w' = w"
  by (auto simp: lift_res_run ret_run dir_runs file_runs load_trust_root_def read_bytes_def trust_at_def decode_bytes_def andthen_Ok_iff
      bind_eq_Some_conv)

lemma bundle_source_Ok:
  "(case map_of (w_dirs w) path of Some files \<Rightarrow> ret files | None \<Rightarrow> unpack_skill_archive E path) w = (Ok files, w')
     \<longleftrightarrow> bundle_source E path w = Some files \<and> w' = w"
  by (auto simp: bundle_source_def unpack_skill_archive_def andthen_Ok_iff lift_res_run ret_run fail_run file_runs split: option.splits)

lemma verify_skill_bundle_iff:
  "verify_skill_bundle E path root_path w = (Ok (m, files), w') \<longleftrightarrow> w' = w \<and> bundle_source E path w = Some files
     \<and> digests_match E (w_files w) files m
     \<and> (\<exists>raw sraw sig trust. bt_get files ''manifest.json'' = Some raw \<and> bt_get files ''manifest.sig.json'' = Some sraw
         \<and> Option.bind (E_json_parse E raw) manifest_of_json = Some m
         \<and> Option.bind (E_json_parse E sraw) signature_of_json = Some sig
         \<and> trust_at E root_path w = Some trust \<and> verify_bytes E raw sig trust = Ok ())"
  unfolding verify_skill_bundle_def
  by (auto simp: andthen_Ok_iff read_Ok bundle_source_Ok tree_read_def decode_bytes_def verify_manifest_files_def
      verify_manifest_files_Ok digests_match_def)

lemma install_runs:
  "install_skill E sm source force w = (Ok info, w') \<longleftrightarrow> (\<exists>m files.
     let dest = installed_skill_dir sm (skm_id m) (skm_version m) in
     verify_skill_bundle E source (trust_root_path E sm) w = (Ok (m, files), w) \<and> info = info_of_manifest m
     \<and> (map_of (w_dirs w) dest = None \<or> force) \<and> w' = w\<lparr>w_dirs := replace_dir dest files (w_dirs w)\<rparr>)"
proof (cases "fst (verify_skill_bundle E source (trust_root_path E sm) w)")
  case (Ok x)
  obtain m files where "x = (m, files)" by (cases x)
  with Ok obtain w1 where run: "verify_skill_bundle E source (trust_root_path E sm) w = (Ok (m, files), w1)"
    by (cases "verify_skill_bundle E source (trust_root_path E sm) w") auto
  then have "w1 = w" by (simp add: verify_skill_bundle_iff)
  with run show ?thesis
    by (auto simp: install_skill_def install_verified_bundle_def run_simps Let_def split: if_splits)
qed (auto simp: install_skill_def andthen_Ok_iff Let_def)

lemma replace_dir_lookup: "map_of (replace_dir p files dirs) q = (if q = p then Some files else map_of dirs q)"
proof -
  have "map_of (map (\<lambda>(p', old). if p' = p then (p', files) else (p', old)) ds) q =
      (if q = p then map_option (\<lambda>_. files) (map_of ds q) else map_of ds q)" for ds :: "(string \<times> tree) list"
    by (induction ds) auto
  moreover have "p \<in> fst ` set dirs \<longleftrightarrow> map_of dirs p \<noteq> None" by (metis map_of_eq_None_iff)
  ultimately show ?thesis by (auto simp: replace_dir_def map_add_def split: option.splits)
qed

text \<open>C24.
  Only signed skills are installed: an installation that succeeds found, in the source, a manifest
  with a signature that verifies under a key of the trust root, and every file the manifest lists
  with its digest; it then puts exactly the source's files into the skill's directory, changes no
  other directory, and never replaces an installed version unless forced.
\<close>

theorem install_only_verified:
  assumes "install_skill E sm source force w = (Ok info, w')"
  shows "\<exists>files m trust. bundle_source E source w = Some files \<and> trust_at E (trust_root_path E sm) w = Some trust
    \<and> signed_bundle E trust files m \<and> digests_match E (w_files w) files m \<and> info = info_of_manifest m
    \<and> (let dest = installed_skill_dir sm (skm_id m) (skm_version m) in
        map_of (w_dirs w') dest = Some files \<and> (\<forall>p. p \<noteq> dest \<longrightarrow> map_of (w_dirs w') p = map_of (w_dirs w) p)
        \<and> (\<not> force \<longrightarrow> map_of (w_dirs w) dest = None))"
proof -
  obtain m files where v: "verify_skill_bundle E source (trust_root_path E sm) w = (Ok (m, files), w)"
      and info: "info = info_of_manifest m"
      and free: "map_of (w_dirs w) (installed_skill_dir sm (skm_id m) (skm_version m)) = None \<or> force"
      and w': "w' = w\<lparr>w_dirs := replace_dir (installed_skill_dir sm (skm_id m) (skm_version m)) files (w_dirs w)\<rparr>"
    using assms by (auto simp: install_runs Let_def)
  from v obtain raw sraw sig trust where src: "bundle_source E source w = Some files" "digests_match E (w_files w) files m"
      and raw: "bt_get files ''manifest.json'' = Some raw" "Option.bind (E_json_parse E raw) manifest_of_json = Some m"
      and trust: "trust_at E (trust_root_path E sm) w = Some trust" and "verify_bytes E raw sig trust = Ok ()"
    by (auto simp: verify_skill_bundle_iff)
  from verify_bytes_Ok [OF this(6)] raw have signed: "signed_bundle E trust files m" unfolding signed_bundle_def by blast
  from src trust signed info free w' show ?thesis by (force simp: Let_def replace_dir_lookup)
qed

text \<open>
  The signature covers only the files the manifest lists: any other file of the bundle may be added
  or replaced after signing, the entrypoint that will be executed included, and the bundle verifies
  exactly as before.
\<close>

theorem unlisted_files_unverified:
  assumes "verify_skill_bundle E source root_path w = (Ok (m, files), w)" and "map_of (w_dirs w) source = Some files"
    and "bt_wf files" and "name \<notin> {''manifest.json'', ''manifest.sig.json''}"
    and "\<forall>f\<in>set (skm_files m). normalize_segments [] (path_segments (mf_path f)) = None
      \<or> join ''/'' (the (normalize_segments [] (path_segments (mf_path f)))) \<noteq> name"
  shows "\<exists>w2 files2. w2 = w\<lparr>w_dirs := replace_dir source files2 (w_dirs w)\<rparr> \<and> bt_get files2 name = Some evil
    \<and> verify_skill_bundle E source root_path w2 = (Ok (m, files2), w2)"
proof -
  let ?files2 = "bt_insert name evil files"
  let ?w2 = "w\<lparr>w_dirs := replace_dir source ?files2 (w_dirs w)\<rparr>"
  have other: "bt_get ?files2 k = bt_get files k" if "k \<noteq> name" for k using that assms(3) by (simp add: bt_get_insert)
  have "tree_file ?files2 (mf_path f) = tree_file files (mf_path f)" if "f \<in> set (skm_files m)" for f
    using assms(5) that other by (auto simp: tree_file_def split: option.splits)
  then have "digests_match E (w_files w) ?files2 m = digests_match E (w_files w) files m"
    by (auto simp: digests_match_def list_all_iff digest_matches_def)
  moreover have "bundle_source E source ?w2 = Some ?files2" by (simp add: bundle_source_def replace_dir_lookup)
  moreover have "trust_at E root_path ?w2 = trust_at E root_path w" by (simp add: trust_at_def)
  ultimately have "verify_skill_bundle E source root_path ?w2 = (Ok (m, ?files2), ?w2)"
    using assms(1,4) other [of "''manifest.json''"] other [of "''manifest.sig.json''"] by (auto simp: verify_skill_bundle_iff)
  moreover have "bt_get ?files2 name = Some evil" using assms(3) by (simp add: bt_get_insert)
  ultimately show ?thesis by blast
qed

section \<open>A signed bundle\<close>

definition sample_manifest :: skill_manifest where
  "sample_manifest = \<lparr>skm_id = ''echo'', skm_version = ''1'', skm_name = ''Echo'', skm_description = [],
     skm_language = ''shell'', skm_entrypoint = ''run.sh'',
     skm_files = [\<lparr>mf_path = ''README'', mf_sha256 = hex (replicate 32 (CHR ''h''))\<rparr>]\<rparr>"

definition sample_manifest_json :: json where
  "sample_manifest_json = json_obj [(''id'', JStr ''echo''), (''version'', JStr ''1''), (''name'', JStr ''Echo''),
     (''description'', JStr []), (''language'', JStr ''shell''), (''entrypoint'', JStr ''run.sh''),
     (''files'', JArr [json_obj [(''path'', JStr ''README''), (''sha256'', JStr (hex (replicate 32 (CHR ''h''))))]])]"

definition skill_env :: env where
  "skill_env = demo_env\<lparr>E_json_parse := (\<lambda>s.
     if s = ''manifest'' then Some sample_manifest_json
     else if s = ''sig'' then Some (json_obj [(''key_id'', JStr ''k''), (''signature'', JStr (replicate 64 (CHR ''s'')))])
     else if s = ''trust'' then Some (json_obj [(''version'', JStr ''1''),
       (''keys'', JArr [json_obj [(''key_id'', JStr ''k''), (''public_key'', JStr (replicate 32 (CHR ''p'')))]])])
     else None)\<rparr>"

definition sample_tree :: tree where
  "sample_tree = bt_of_list [(''manifest.json'', ''manifest''), (''manifest.sig.json'', ''sig''), (''README'', ''r''), (''run.sh'', ''true'')]"

definition sample_world :: world where
  "sample_world = boot_world\<lparr>w_files := [''/work/skills/trust/root.json'' \<mapsto> ''trust''], w_dirs := [(''/src/echo'', sample_tree)]\<rparr>"

definition sample_manager :: skill_manager where
  "sample_manager = \<lparr>skl_config = default_skills, skl_paths = \<lparr>pa_config_dir = ''/etc'', pa_data_dir = ''/data'', pa_state_dir = ''/state'',
     pa_config_file = ''/etc/config.toml'', pa_runtime_dir = ''/state/runtime'', pa_log_dir = ''/state/logs'',
     pa_log_file = ''/state/logs/openpinch.log'', pa_database_file = ''/data/openpinch.sqlite'',
     pa_skills_dir = ''/data/skills'', pa_installs_dir = ''/data/skills/installed'',
     pa_runtime_socket = ''/state/runtime/engine.sock'',
     pa_runtime_state_file = ''/state/runtime/runtime-state.json''\<rparr>\<rparr>"

lemma skill_env_fields [simp]:
  "E_b64_decode skill_env s = Some s" "E_ed25519_key_ok skill_env k" "E_ed25519_verify skill_env k p s"
  "sha256_hex skill_env b = hex (replicate 32 (CHR ''h''))" "E_cwd skill_env = Some ''/work''"
  by (simp_all add: skill_env_def demo_env_def sha256_hex_def)

lemma sample_parses:
  "Option.bind (E_json_parse skill_env ''manifest'') manifest_of_json = Some sample_manifest"
  "Option.bind (E_json_parse skill_env ''sig'') signature_of_json = Some \<lparr>se_key_id = ''k'', se_signature = replicate 64 (CHR ''s'')\<rparr>"
  "Option.bind (E_json_parse skill_env ''trust'') trust_root_of_json
     = Some \<lparr>trt_version = ''1'', trt_keys = [\<lparr>tk_key_id = ''k'', tk_public_key = replicate 32 (CHR ''p'')\<rparr>]\<rparr>"
  by (simp_all add: skill_env_def sample_manifest_json_def manifest_of_json_def sample_manifest_def json_get_str_def
      json_get_obj json_list_def manifest_file_of_json_def signature_of_json_def trust_root_of_json_def trusted_key_of_json_def
      del: replicate.simps hex_def)

lemma sample_tree_files:
  "bt_get sample_tree ''manifest.json'' = Some ''manifest''" "bt_get sample_tree ''manifest.sig.json'' = Some ''sig''"
  "tree_file sample_tree ''README'' = Some ''r''" "bt_wf sample_tree" "\<not> path_is_absolute ''README''"
  "normalize_segments [] (path_segments ''README'') = Some [''README'']"
proof -
  show seg: "normalize_segments [] (path_segments ''README'') = Some [''README'']" by (simp add: path_segments_def)
  show "tree_file sample_tree ''README'' = Some ''r''" unfolding tree_file_def seg by (simp add: sample_tree_def bt_get_of_list)
qed (simp_all add: sample_tree_def bt_get_of_list bt_wf_of_list path_is_absolute_def starts_with_def)

lemma sample_verifies:
  "verify_skill_bundle skill_env ''/src/echo'' ''/work/skills/trust/root.json'' sample_world = (Ok (sample_manifest, sample_tree), sample_world)"
  using sample_parses sample_tree_files
  by (simp add: verify_skill_bundle_iff bundle_source_def sample_world_def digests_match_def digest_matches_def trust_at_def
      verify_bytes_def sample_manifest_def)

theorem unlisted_files_unverified_witness:
  "\<exists>w2 files2. bt_get files2 ''run.sh'' = Some ''rm -rf /'' \<and> skm_entrypoint sample_manifest = ''run.sh''
     \<and> verify_skill_bundle skill_env ''/src/echo'' ''/work/skills/trust/root.json'' w2 = (Ok (sample_manifest, files2), w2)"
proof -
  have "map_of (w_dirs sample_world) ''/src/echo'' = Some sample_tree" by (simp add: sample_world_def)
  moreover have "\<forall>f\<in>set (skm_files sample_manifest). normalize_segments [] (path_segments (mf_path f)) = None
      \<or> join ''/'' (the (normalize_segments [] (path_segments (mf_path f)))) \<noteq> ''run.sh''"
    using sample_tree_files(6) by (simp add: sample_manifest_def)
  moreover have "skm_entrypoint sample_manifest = ''run.sh''" by (simp add: sample_manifest_def)
  ultimately show ?thesis
    using unlisted_files_unverified [OF sample_verifies _ sample_tree_files(4), of "''run.sh''" "''rm -rf /''"] by auto
qed

theorem install_only_verified_witness:
  "\<exists>w' trust. install_skill skill_env sample_manager ''/src/echo'' False sample_world = (Ok (info_of_manifest sample_manifest), w')
     \<and> signed_bundle skill_env trust sample_tree sample_manifest"
proof -
  have root: "trust_root_path skill_env sample_manager = ''/work/skills/trust/root.json''"
    by (simp add: trust_root_path_def sample_manager_def default_skills_def resolve_path_def path_is_absolute_def starts_with_def
        current_dir_or_def path_join_def ends_with_def)
  have dest: "installed_skill_dir sample_manager ''echo'' ''1'' = ''/data/skills/installed/echo-1''"
    by (simp add: installed_skill_dir_def sample_manager_def path_join_def path_is_absolute_def starts_with_def ends_with_def)
  have "\<exists>w'. install_skill skill_env sample_manager ''/src/echo'' False sample_world = (Ok (info_of_manifest sample_manifest), w')"
    unfolding install_runs root Let_def
    by (intro exI conjI, rule sample_verifies, rule refl, simp add: dest sample_manifest_def sample_world_def, rule refl)
  then obtain w' where run: "install_skill skill_env sample_manager ''/src/echo'' False sample_world = (Ok (info_of_manifest sample_manifest), w')"
    by blast
  from install_only_verified [OF run] obtain files m trust where
    src: "bundle_source skill_env ''/src/echo'' sample_world = Some files" and signed: "signed_bundle skill_env trust files m" by blast
  have "bundle_source skill_env ''/src/echo'' sample_world = Some sample_tree"
    by (simp add: bundle_source_def sample_world_def)
  with src have files: "files = sample_tree" by simp
  from signed obtain raw where "bt_get files ''manifest.json'' = Some raw"
      and "Option.bind (E_json_parse skill_env raw) manifest_of_json = Some m"
    unfolding signed_bundle_def by blast
  with files sample_tree_files(1) sample_parses(1) have "m = sample_manifest" by simp
  with run signed files show ?thesis by blast
qed

end
