(* ===== verification/Tools.thy ===== *)
theory Tools
  imports Skills Orchestrator Brain_Ops
begin

text \<open>
  The tool executor of \<open>core/crates/tools/src/lib.rs\<close>: what a tool call or a skill may run, under
  the capability matrix, and the sandbox interface of \<open>core/crates/sandbox/src/lib.rs\<close>. The sandbox
  backend is the parameter \<open>E_sandbox\<close>; every command given to it is recorded in \<open>w_runs\<close>.
\<close>

record tool_executor =
  te_config :: app_config
  te_skills :: skill_manager
  te_policy :: capability_matrix

definition new_tool_executor :: "env \<Rightarrow> app_config \<Rightarrow> skill_manager \<Rightarrow> tool_executor io" where
  "new_tool_executor E config skills =
     (let policy_path = resolve_path E (sc_matrix_path (sb_capabilities (cfg_sandbox config))) in
      andthen (context_act (''failed to load capability matrix from '' @ policy_path)
        (load_capability_matrix E policy_path)) (\<lambda>policy.
      ret \<lparr>te_config = config, te_skills = skills, te_policy = policy\<rparr>))"

definition sandbox_execute :: "env \<Rightarrow> sandbox_command \<Rightarrow> sandbox_output io" where
  "sandbox_execute E command = (\<lambda>w.
     (case E_sandbox E (length (w_runs w)) command of Inl e \<Rightarrow> Err e | Inr output \<Rightarrow> Ok output,
      w\<lparr>w_runs := w_runs w @ [command]\<rparr>))"

definition reported_capabilities :: "string list" where
  "reported_capabilities = [''shell.execute'', ''tool.local'', ''network.egress'', ''skill.execute'', ''agent.message'']"

definition decide :: "tool_executor \<Rightarrow> string \<Rightarrow> string list \<Rightarrow> policy_decision" where
  "decide te subject requested =
     evaluate (te_policy te) subject requested (sc_default_deny (sb_capabilities (cfg_sandbox (te_config te))))"

definition tools_policy_report :: "tool_executor \<Rightarrow> string \<Rightarrow> policy_report" where
  "tools_policy_report te subject =
     (let decision = decide te subject reported_capabilities in
      \<lparr>por_subject = pd_subject decision, por_allowed_capabilities = pd_allowed_capabilities decision,
       por_denied_capabilities = pd_denied_capabilities decision, por_source = pd_source decision\<rparr>)"

definition authorize :: "tool_executor \<Rightarrow> string \<Rightarrow> string list \<Rightarrow> policy_decision res" where
  "authorize te subject requested =
     (let decision = decide te subject requested in
      if pd_denied_capabilities decision \<noteq> []
      then Err (Msg (''policy denied '' @ join '', '' (pd_denied_capabilities decision) @ '' for '' @ subject))
      else Ok decision)"

definition parse_json_object :: "env \<Rightarrow> string \<Rightarrow> json res" where
  "parse_json_object E raw =
     bind_res (of_option (Msg ''failed to parse JSON arguments'') (E_json_parse E raw)) (\<lambda>value.
     if json_as_object value = None then Err (Msg ''tool arguments must be a JSON object'') else Ok value)"

definition success_outcome :: "string \<Rightarrow> string \<Rightarrow> string list \<Rightarrow> tool_outcome" where
  "success_outcome summary data_json logs = \<lparr>to_success = True, to_summary = summary, to_data_json = data_json,
     to_error = [], to_logs = logs\<rparr>"

definition failure_outcome :: "string \<Rightarrow> error \<Rightarrow> tool_outcome" where
  "failure_outcome summary e = \<lparr>to_success = False, to_summary = summary, to_data_json = ''{}'',
     to_error = error_text e, to_logs = []\<rparr>"

definition output_json :: "env \<Rightarrow> sandbox_output \<Rightarrow> string" where
  "output_json E out = E_json_print E (json_obj [(''stdout'', JStr (sbo_stdout out)), (''stderr'', JStr (sbo_stderr out)),
     (''exit_code'', JNum (of_int (sbo_exit_code out)))])"

definition sandbox_outcome :: "env \<Rightarrow> string \<Rightarrow> sandbox_output \<Rightarrow> tool_outcome" where
  "sandbox_outcome E summary out = \<lparr>to_success = sbo_success out, to_summary = summary, to_data_json = output_json E out,
     to_error = [], to_logs = sbo_logs out\<rparr>"

text \<open>A shell skill is run by the shell; any other is executed directly. Neither gets the network.\<close>

definition skill_command :: "string \<Rightarrow> policy_decision \<Rightarrow> skill_manifest \<Rightarrow> string \<Rightarrow> string \<Rightarrow> sandbox_command" where
  "skill_command subject decision manifest arguments_json archive =
     (let entry = ''/workspace/'' @ skm_entrypoint manifest; shell = (skm_language manifest = ''shell'') in
      \<lparr>sbc_subject = subject, sbc_capabilities = pd_allowed_capabilities decision,
       sbc_program = (if shell then ''/bin/sh'' else entry), sbc_args = (if shell then [entry] else []),
       sbc_env = [(''OPENPINCH_SKILL_ARGS_JSON'', arguments_json)], sbc_allow_network = False,
       sbc_workspace_archive_b64 = Some archive\<rparr>)"

definition execute_skill_inner :: "env \<Rightarrow> tool_executor \<Rightarrow> string \<Rightarrow> string \<Rightarrow> tool_outcome io" where
  "execute_skill_inner E te skill_id arguments_json =
     (let subject = ''skill.'' @ skill_id in
      andthen (lift_res (authorize te subject [''skill.execute'', ''sandbox.execute''])) (\<lambda>decision.
      andthen (packaged_workspace E (te_skills te) skill_id) (\<lambda>(manifest, archive).
      andthen (sandbox_execute E (skill_command subject decision manifest arguments_json archive)) (\<lambda>out.
      ret (sandbox_outcome E (''skill '' @ skill_id @ '' executed'') out)))))"

definition command_capabilities :: "bool \<Rightarrow> string list" where
  "command_capabilities allow_network = ''shell.execute'' # (if allow_network then [''network.egress''] else [])"

definition command_args :: "json \<Rightarrow> string list" where
  "command_args arguments = (case Option.bind (json_get arguments ''args'') json_as_array of None \<Rightarrow> []
     | Some items \<Rightarrow> List.map_filter json_as_str items)"

definition execute_command :: "env \<Rightarrow> tool_executor \<Rightarrow> bool \<Rightarrow> json \<Rightarrow> tool_outcome io" where
  "execute_command E te allow_network arguments =
     andthen (lift_res (authorize te ''builtin.command'' (command_capabilities allow_network))) (\<lambda>decision.
     andthen (lift_res (of_option (Msg ''builtin.command expects arguments.program'') (json_get_str arguments ''program''))) (\<lambda>program.
     andthen (sandbox_execute E \<lparr>sbc_subject = ''builtin.command'', sbc_capabilities = pd_allowed_capabilities decision,
       sbc_program = program, sbc_args = command_args arguments, sbc_env = [], sbc_allow_network = allow_network,
       sbc_workspace_archive_b64 = None\<rparr>) (\<lambda>out.
     ret (sandbox_outcome E ''sandbox command finished'' out))))"

lemma prefix_drop_shorter [termination_simp]:
  "pattern \<noteq> [] \<Longrightarrow> prefix pattern s \<Longrightarrow> length s - length pattern < length s"
  by (auto simp: prefix_def)

text \<open>\<open>trim_start_matches(pattern)\<close>: strips the pattern as often as it stands in front.\<close>

fun trim_start_matches :: "string \<Rightarrow> string \<Rightarrow> string" where
  "trim_start_matches pattern s =
     (if pattern \<noteq> [] \<and> prefix pattern s then trim_start_matches pattern (drop (length pattern) s) else s)"

definition execute_inner :: "env \<Rightarrow> tool_executor \<Rightarrow> tool_call \<Rightarrow> tool_outcome io" where
  "execute_inner E te request =
     andthen (lift_res (parse_json_object E (tc_arguments_json request))) (\<lambda>arguments.
     if tc_target request = ''builtin.echo'' then
       andthen (lift_res (authorize te ''builtin.echo'' [''tool.local''])) (\<lambda>_.
       andthen (lift_res (of_option (Msg ''builtin.echo expects arguments.message'') (json_get_str arguments ''message''))) (\<lambda>message.
       ret (success_outcome ''echo completed'' (E_json_print E (json_obj [(''message'', JStr message)])) [''echo handled locally''])))
     else if tc_target request = ''builtin.time'' then
       andthen (lift_res (authorize te ''builtin.time'' [''tool.local''])) (\<lambda>_.
       andthen (utc_now E) (\<lambda>now.
       ret (success_outcome ''current time resolved'' (E_json_print E (json_obj [(''utc'', JStr (E_rfc3339 E now))]))
         [''timestamp generated locally''])))
     else if tc_target request = ''builtin.system-info'' then
       andthen (lift_res (authorize te ''builtin.system-info'' [''tool.inspect''])) (\<lambda>_.
       ret (success_outcome ''system info collected'' (E_json_print E (json_obj [(''os'', JStr (E_os E)), (''arch'', JStr (E_arch E))]))
         [''system information collected'']))
     else if tc_target request = ''builtin.command'' then execute_command E te (tc_allow_network request) arguments
     else if starts_with (tc_target request) ''skill.'' then
       execute_skill_inner E te (trim_start_matches ''skill.'' (tc_target request)) (tc_arguments_json request)
     else fail (Msg (''unsupported tool target '' @ tc_target request)))"

declare trim_start_matches.simps [simp del]

text \<open>The caller always gets an outcome: an error becomes a failed one.\<close>

definition outcome_of :: "string \<Rightarrow> tool_outcome io \<Rightarrow> tool_outcome io" where
  "outcome_of summary m = andthen (attempt m) (\<lambda>r. case r of Inr outcome \<Rightarrow> ret outcome | Inl e \<Rightarrow> ret (failure_outcome summary e))"

definition execute_tool_call :: "env \<Rightarrow> tool_executor \<Rightarrow> tool_call \<Rightarrow> tool_outcome io" where
  "execute_tool_call E te request = outcome_of ''execution failed'' (execute_inner E te request)"

definition execute_skill_call :: "env \<Rightarrow> tool_executor \<Rightarrow> string \<Rightarrow> string \<Rightarrow> tool_outcome io" where
  "execute_skill_call E te skill_id arguments_json =
     outcome_of ''skill execution failed'' (execute_skill_inner E te skill_id arguments_json)"

section \<open>Lemmas\<close>

lemma sandbox_execute_run [run_simps]:
  "sandbox_execute E command w =
     (case E_sandbox E (length (w_runs w)) command of Inl e \<Rightarrow> Err e | Inr output \<Rightarrow> Ok output,
      w\<lparr>w_runs := w_runs w @ [command]\<rparr>)"
  by (simp add: sandbox_execute_def)

lemma safe_sandbox_execute [safe_intros]: "safe_at b (sandbox_execute E command)"
  by (simp add: safe_at_def run_simps split: sum.splits)

lemma keeps_sandbox_execute [keeps_intros]: "keeps P (sandbox_execute E command)"
  by (simp add: keeps_def run_simps)

lemma returns_authorize [simp]: "returns (authorize te subject requested)" "returns (parse_json_object E raw)"
  by (simp_all add: authorize_def Let_def parse_json_object_def returns_bind_res)

lemma safe_execute_tool [safe_intros]:
  "safe_at b (execute_tool_call E te request)" "safe_at b (execute_skill_call E te skill_id arguments_json)"
  unfolding execute_tool_call_def execute_skill_call_def outcome_of_def execute_inner_def execute_skill_inner_def
    execute_command_def Let_def
  by (intro safe_intros; simp)+

lemma keeps_execute_tool [keeps_intros]:
  "keeps P (execute_tool_call E te request)" "keeps P (execute_skill_call E te skill_id arguments_json)"
  unfolding execute_tool_call_def execute_skill_call_def outcome_of_def execute_inner_def execute_skill_inner_def
    execute_command_def Let_def
  by (intro keeps_intros; simp)+

text \<open>\<open>emits Q m\<close>: the action gives at most one command to the sandbox, one that \<open>Q\<close> allows.\<close>

definition emits :: "(sandbox_command \<Rightarrow> bool) \<Rightarrow> 'a io \<Rightarrow> bool" where
  "emits Q m \<longleftrightarrow> (\<forall>w. w_runs (snd (m w)) = w_runs w \<or> (\<exists>c. w_runs (snd (m w)) = w_runs w @ [c] \<and> Q c))"

definition quiet :: "'a io \<Rightarrow> bool" where
  "quiet m \<longleftrightarrow> (\<forall>w. w_runs (snd (m w)) = w_runs w)"

lemma quiet_andthen:
  assumes "quiet m" and "\<And>a. quiet (f a)"
  shows "quiet (andthen m f)"
  unfolding quiet_def
proof
  fix w :: world
  obtain r w' where "m w = (r, w')" by (cases "m w")
  with assms show "w_runs (snd (andthen m f w)) = w_runs w" by (cases r) (auto simp: quiet_def run_simps dest: spec [of _ w])
qed

lemma quiet_pure:
  "quiet (ret a)" "quiet (fail e)" "quiet (lift_res r)" "quiet (utc_now E)" "quiet (\<lambda>w. (r' w, w))"
  by (simp_all add: quiet_def run_simps)

lemma quiet_prod: "(\<And>a c. x = (a, c) \<Longrightarrow> quiet (f a c)) \<Longrightarrow> quiet (case x of (a, c) \<Rightarrow> f a c)"
  by (cases x) simp

lemma quiet_packaged: "quiet (packaged_workspace E sm skill_id)"
  unfolding packaged_workspace_def installed_manifest_def
  by (intro quiet_andthen quiet_prod quiet_pure)

lemma emits_quiet: "quiet m \<Longrightarrow> emits Q m"
  by (simp add: emits_def quiet_def)

lemma emits_sandbox: "Q c \<Longrightarrow> emits Q (sandbox_execute E c)"
  by (simp add: emits_def run_simps)

lemma emits_first:
  assumes "emits Q m" and "\<And>a. quiet (f a)"
  shows "emits Q (andthen m f)"
  unfolding emits_def
proof
  fix w :: world
  obtain r w' where m: "m w = (r, w')" by (cases "m w")
  then have "w_runs (snd (andthen m f w)) = w_runs (snd (m w))"
    using assms(2) by (cases r) (simp_all add: run_simps quiet_def)
  then show "w_runs (snd (andthen m f w)) = w_runs w \<or> (\<exists>c. w_runs (snd (andthen m f w)) = w_runs w @ [c] \<and> Q c)"
    using assms(1) by (simp add: emits_def)
qed

lemma emits_then:
  assumes "quiet m" and "\<And>a w w'. m w = (Ok a, w') \<Longrightarrow> emits Q (f a)"
  shows "emits Q (andthen m f)"
  unfolding emits_def
proof
  fix w :: world
  obtain r w' where m: "m w = (r, w')" by (cases "m w")
  have w': "w_runs w' = w_runs w" using assms(1) m by (metis quiet_def snd_conv)
  show "w_runs (snd (andthen m f w)) = w_runs w \<or> (\<exists>c. w_runs (snd (andthen m f w)) = w_runs w @ [c] \<and> Q c)"
  proof (cases r)
    case (Ok a)
    with m have "emits Q (f a)" using assms(2) by simp
    with m Ok w' show ?thesis unfolding emits_def by (auto simp: run_simps dest: spec [of _ w'])
  qed (use m w' in \<open>simp_all add: run_simps\<close>)
qed

text \<open>A command whose capabilities the policy grants to its subject, with the network only if granted.\<close>

definition permitted :: "tool_executor \<Rightarrow> sandbox_command \<Rightarrow> bool" where
  "permitted te c \<longleftrightarrow> pd_denied_capabilities (decide te (sbc_subject c) (sbc_capabilities c)) = []
     \<and> (sbc_allow_network c \<longrightarrow> ''network.egress'' \<in> set (sbc_capabilities c))"

lemma authorize_Ok:
  assumes "authorize te subject requested = Ok decision"
  shows "pd_allowed_capabilities decision = requested \<and> pd_denied_capabilities (decide te subject requested) = []"
  using assms by (auto simp: authorize_def Let_def decide_def evaluate_alt filter_empty_conv split: if_splits
      intro!: filter_True)

lemma emits_command: "emits (\<lambda>c. permitted te c \<and> sbc_subject c = ''builtin.command''
    \<and> sbc_capabilities c = command_capabilities allow \<and> sbc_allow_network c = allow) (execute_command E te allow arguments)"
  unfolding execute_command_def
  by (intro emits_then emits_first emits_sandbox quiet_pure)
     (auto simp: run_simps permitted_def command_capabilities_def dest!: authorize_Ok)

lemma emits_skill: "emits (\<lambda>c. permitted te c \<and> sbc_subject c = ''skill.'' @ skill_id \<and> \<not> sbc_allow_network c
    \<and> sbc_capabilities c = [''skill.execute'', ''sandbox.execute'']) (execute_skill_inner E te skill_id arguments_json)"
  unfolding execute_skill_inner_def Let_def
  by (intro emits_then; (split prod.split; intro allI impI)?; intro emits_then emits_first emits_sandbox quiet_pure quiet_packaged)
     (auto simp: run_simps permitted_def skill_command_def Let_def dest!: authorize_Ok)

section \<open>What a tool call may do\<close>

lemma emits_mono: "emits Q m \<Longrightarrow> (\<And>c. Q c \<Longrightarrow> R c) \<Longrightarrow> emits R m"
  unfolding emits_def by metis

lemma emits_if: "(b \<Longrightarrow> emits Q m) \<Longrightarrow> (\<not> b \<Longrightarrow> emits Q m') \<Longrightarrow> emits Q (if b then m else m')"
  by simp

lemma emits_outcome: "emits Q m \<Longrightarrow> emits Q (outcome_of summary m)"
  by (auto simp: emits_def outcome_of_def run_simps split: prod.splits res.splits) (metis snd_conv)+

lemma emits_execute:
  "emits (\<lambda>c. permitted te c \<and> (tc_target request = ''builtin.command'' \<and> sbc_allow_network c = tc_allow_network request
      \<or> starts_with (tc_target request) ''skill.'' \<and> \<not> sbc_allow_network c)) (execute_tool_call E te request)"
  unfolding execute_tool_call_def execute_inner_def
  by (intro emits_outcome emits_then emits_if quiet_pure emits_mono [OF emits_command] emits_mono [OF emits_skill]
      emits_quiet quiet_andthen) auto

lemma execute_tool_call_ok: "\<exists>outcome w'. execute_tool_call E te request w = (Ok outcome, w')"
proof -
  obtain r w' where run: "execute_tool_call E te request w = (r, w')" by (cases "execute_tool_call E te request w")
  have "returns (fst (execute_inner E te request w))"
    using safe_execute_tool(1) [of "w_locked w" E te request] run
    by (auto simp: safe_at_def execute_tool_call_def outcome_of_def run_simps split: prod.splits res.splits)
  with run show ?thesis
    by (cases "execute_inner E te request w"; cases "fst (execute_inner E te request w)")
      (auto simp: execute_tool_call_def outcome_of_def run_simps)
qed

text \<open>C22.
  A tool call always yields an outcome, changes nothing in the store, and gives the sandbox at most
  one command: only for \<open>builtin.command\<close> or a skill, only with capabilities that the policy grants
  to the command's subject, and with the network only if the call asked for it and the policy
  grants \<open>network.egress\<close>. A call that the policy denies runs nothing.
\<close>

theorem sandbox_only_permitted:
  "\<exists>outcome w'. execute_tool_call E te request w = (Ok outcome, w') \<and> w_db w' = w_db w \<and>
    (w_runs w' = w_runs w \<or> (\<exists>c. w_runs w' = w_runs w @ [c]
       \<and> (tc_target request = ''builtin.command'' \<or> starts_with (tc_target request) ''skill.'')
       \<and> pd_denied_capabilities (decide te (sbc_subject c) (sbc_capabilities c)) = []
       \<and> (sbc_allow_network c \<longrightarrow> tc_allow_network request \<and> ''network.egress'' \<in> set (sbc_capabilities c))))"
proof -
  obtain outcome w' where run: "execute_tool_call E te request w = (Ok outcome, w')"
    using execute_tool_call_ok by blast
  moreover have "w_db w' = w_db w" using keepsD [OF keeps_execute_tool(1) _ run, of "\<lambda>d. d = w_db w"] by simp
  moreover have "w_runs w' = w_runs w \<or> (\<exists>c. w_runs w' = w_runs w @ [c] \<and> permitted te c \<and>
      (tc_target request = ''builtin.command'' \<and> sbc_allow_network c = tc_allow_network request
      \<or> starts_with (tc_target request) ''skill.'' \<and> \<not> sbc_allow_network c))"
    using emits_execute [of te request E] run unfolding emits_def by (metis snd_conv)
  ultimately show ?thesis using run unfolding permitted_def by blast
qed

definition sample_executor :: tool_executor where
  "sample_executor = \<lparr>te_config = default_config, te_skills = sample_manager, te_policy = sample_matrix\<rparr>"

text \<open>The sample policy grants the command its shell but not the network.\<close>

theorem sandbox_only_permitted_witness:
  "\<exists>outcome (w' :: world). execute_tool_call demo_env sample_executor
      \<lparr>tc_target = ''builtin.command'', tc_arguments_json = ''{}'', tc_allow_network = True, tc_priority = Interactive\<rparr> boot_world
      = (Ok outcome, w') \<and> w_db w' = empty_store
    \<and> (w_runs w' = [] \<or> (\<exists>c. w_runs w' = [c] \<and> pd_denied_capabilities (decide sample_executor (sbc_subject c) (sbc_capabilities c)) = []))"
  using sandbox_only_permitted [of demo_env sample_executor
      "\<lparr>tc_target = ''builtin.command'', tc_arguments_json = ''{}'', tc_allow_network = True, tc_priority = Interactive\<rparr>" boot_world]
  by auto

lemma trim_repeated: "pattern \<noteq> [] \<Longrightarrow> trim_start_matches pattern (concat (replicate n pattern) @ s) = trim_start_matches pattern s"
proof (induction n)
  case (Suc n)
  then show ?case by (subst trim_start_matches.simps) simp
qed simp

text \<open>
  \<open>trim_start_matches\<close> strips the prefix as often as it stands there: a skill whose name itself begins
  with \<open>skill.\<close> cannot be called as a tool, another one runs in its place.
\<close>

theorem nested_skill_name:
  "execute_tool_call E te (request\<lparr>tc_target := ''skill.'' @ concat (replicate n ''skill.'') @ skill_id\<rparr>) =
   execute_tool_call E te (request\<lparr>tc_target := ''skill.'' @ skill_id\<rparr>)"
proof -
  have "trim_start_matches ''skill.'' (concat (replicate (Suc n) ''skill.'') @ skill_id) =
      trim_start_matches ''skill.'' (concat (replicate 1 ''skill.'') @ skill_id)"
    by (simp only: trim_repeated list.distinct not_False_eq_True)
  then show ?thesis by (simp add: execute_tool_call_def execute_inner_def starts_with_def)
qed

end
