(* ===== verification/Protocol.thy ===== *)
theory Protocol
  imports Store
begin

text \<open>
  The validator of agent protocol runs (\<open>validate_protocol\<close> in \<open>engine/src/lib.rs\<close>) and the
  specification of the hand-off protocol, \<open>docs/formal/handoff_v1.tla\<close>, as a step relation.
\<close>

section \<open>The validator\<close>

definition message_findings :: "app_config \<Rightarrow> string \<Rightarrow> nat \<Rightarrow> agent_envelope \<Rightarrow> string list" where
  "message_findings config initiator index m =
     (if index = 0 \<and> ag_sender m \<noteq> initiator then [''first message sender must equal initiator''] else [])
     @ (if ag_sender m = ag_recipient m
        then [''message '' @ dec index @ '' uses identical sender and recipient '' @ ag_sender m] else [])
     @ (if ec_encrypt_agent_channels (sec_encryption (cfg_security config)) \<and> ag_encrypted_body m = None \<and> ag_body m \<noteq> []
        then [''message '' @ dec index @ '' is missing encrypted_body''] else [])"

definition protocol_findings :: "app_config \<Rightarrow> protocol_run_request \<Rightarrow> string list" where
  "protocol_findings config request =
     (if prq_messages request = [] then [''protocol run must include at least one message''] else [])
     @ concat (map (\<lambda>(index, m). message_findings config (prq_initiator request) index m) (enumerate 0 (prq_messages request)))
     @ (if prq_protocol_id request = ''handoff.v1'' \<and> length (prq_messages request) < 2
        then [''handoff.v1 expects at least two messages''] else [])"

text \<open>A body that is not encrypted yet is sealed for the transcript; if that fails it is left empty.\<close>

definition transcript_body :: "env \<Rightarrow> encryption_manager \<Rightarrow> agent_envelope \<Rightarrow> string io" where
  "transcript_body E em m = (case ag_encrypted_body m of Some body \<Rightarrow> ret body
     | None \<Rightarrow> or_default (seal_text E em (ag_body m)) [])"

definition transcript_entry :: "env \<Rightarrow> encryption_manager \<Rightarrow> agent_envelope \<Rightarrow> json io" where
  "transcript_entry E em m =
     andthen (transcript_body E em m) (\<lambda>encrypted_body.
     ret (json_obj [(''sender'', JStr (ag_sender m)), (''recipient'', JStr (ag_recipient m)),
       (''metadata_json'', JStr (ag_metadata_json m)), (''encrypted_body'', JStr encrypted_body)]))"

definition validate_protocol ::
  "env \<Rightarrow> encryption_manager \<Rightarrow> app_config \<Rightarrow> protocol_run_request \<Rightarrow> protocol_run_result io" where
  "validate_protocol E em config request =
     andthen (map_act (transcript_entry E em) (prq_messages request)) (\<lambda>transcript.
     ret \<lparr>prr_accepted = (protocol_findings config request = []), prr_protocol_id = prq_protocol_id request,
       prr_transcript_json = E_json_pretty E (JArr transcript), prr_findings = protocol_findings config request\<rparr>)"

section \<open>The specification of the hand-off\<close>

datatype handoff_phase = Init_Phase | Handoff_Phase | Complete_Phase

record roles =
  ro_initiator :: string
  ro_coordinator :: string
  ro_worker :: string

type_synonym hop = "string \<times> string"

inductive handoff_step :: "roles \<Rightarrow> handoff_phase \<times> hop list \<Rightarrow> handoff_phase \<times> hop list \<Rightarrow> bool" for ro where
  ClientSend: "handoff_step ro (Init_Phase, hops) (Handoff_Phase, hops @ [(ro_initiator ro, ro_coordinator ro)])"
| CoordinatorForward: "handoff_step ro (Handoff_Phase, hops) (Complete_Phase, hops @ [(ro_coordinator ro, ro_worker ro)])"

inductive_cases handoff_stepE: "handoff_step ro (ph, hops) st"

definition handoff_reachable :: "roles \<Rightarrow> handoff_phase \<times> hop list \<Rightarrow> bool" where
  "handoff_reachable ro st \<longleftrightarrow> (handoff_step ro)\<^sup>*\<^sup>* (Init_Phase, []) st"

definition handoff_hops :: "roles \<Rightarrow> handoff_phase \<Rightarrow> hop list" where
  "handoff_hops ro ph = (case ph of Init_Phase \<Rightarrow> [] | Handoff_Phase \<Rightarrow> [(ro_initiator ro, ro_coordinator ro)]
     | Complete_Phase \<Rightarrow> [(ro_initiator ro, ro_coordinator ro), (ro_coordinator ro, ro_worker ro)])"

lemma handoff_reachable_iff: "handoff_reachable ro (ph, hops) \<longleftrightarrow> hops = handoff_hops ro ph"
proof
  have "hops = handoff_hops ro ph" if "(handoff_step ro)\<^sup>*\<^sup>* (Init_Phase, []) (ph, hops)" for ph hops
    using that
  proof (induction "(ph, hops)" arbitrary: ph hops rule: rtranclp_induct)
    case base
    then show ?case by (simp add: handoff_hops_def)
  next
    case (step st)
    then show ?case by (cases st) (auto elim!: handoff_stepE simp: handoff_hops_def)
  qed
  then show "handoff_reachable ro (ph, hops) \<Longrightarrow> hops = handoff_hops ro ph" by (simp add: handoff_reachable_def)
next
  have first: "handoff_step ro (Init_Phase, []) (Handoff_Phase, handoff_hops ro Handoff_Phase)"
    using ClientSend [of ro "[]"] by (simp add: handoff_hops_def)
  moreover have "handoff_step ro (Handoff_Phase, handoff_hops ro Handoff_Phase) (Complete_Phase, handoff_hops ro Complete_Phase)"
    using CoordinatorForward [of ro "handoff_hops ro Handoff_Phase"] by (simp add: handoff_hops_def)
  ultimately have "handoff_reachable ro (ph, handoff_hops ro ph)"
    unfolding handoff_reachable_def
    by (cases ph) (auto simp: handoff_hops_def intro: rtranclp.rtrancl_into_rtrancl)
  then show "hops = handoff_hops ro ph \<Longrightarrow> handoff_reachable ro (ph, hops)" by simp
qed

definition hops_of :: "protocol_run_request \<Rightarrow> hop list" where
  "hops_of request = map (\<lambda>m. (ag_sender m, ag_recipient m)) (prq_messages request)"

section \<open>What is accepted\<close>

definition sealed_as_configured :: "app_config \<Rightarrow> protocol_run_request \<Rightarrow> bool" where
  "sealed_as_configured config request \<longleftrightarrow> ec_encrypt_agent_channels (sec_encryption (cfg_security config)) \<longrightarrow>
     (\<forall>m\<in>set (prq_messages request). ag_encrypted_body m \<noteq> None \<or> ag_body m = [])"

lemma message_findings_empty:
  "message_findings config initiator index m = [] \<longleftrightarrow> (index = 0 \<longrightarrow> ag_sender m = initiator) \<and> ag_sender m \<noteq> ag_recipient m
     \<and> (ec_encrypt_agent_channels (sec_encryption (cfg_security config)) \<longrightarrow> ag_encrypted_body m \<noteq> None \<or> ag_body m = [])"
  by (auto simp: message_findings_def)

lemma all_enumerate: "(\<forall>x\<in>set (enumerate 0 ms). P (fst x) (snd x)) \<longleftrightarrow> (\<forall>i<length ms. P i (ms ! i))"
  by (simp add: all_set_conv_all_nth nth_enumerate_eq)

lemma protocol_findings_empty:
  "protocol_findings config request = [] \<longleftrightarrow> prq_messages request \<noteq> []
     \<and> ag_sender (hd (prq_messages request)) = prq_initiator request
     \<and> (\<forall>(s, r)\<in>set (hops_of request). s \<noteq> r) \<and> sealed_as_configured config request
     \<and> (prq_protocol_id request = ''handoff.v1'' \<longrightarrow> 2 \<le> length (prq_messages request))"
proof (cases "prq_messages request = []")
  case False
  let ?ms = "prq_messages request"
  let ?ok = "\<lambda>m. ag_sender m \<noteq> ag_recipient m
    \<and> (ec_encrypt_agent_channels (sec_encryption (cfg_security config)) \<longrightarrow> ag_encrypted_body m \<noteq> None \<or> ag_body m = [])"
  have "concat (map (\<lambda>(index, m). message_findings config (prq_initiator request) index m) (enumerate 0 ?ms)) = []
      \<longleftrightarrow> (\<forall>i<length ?ms. message_findings config (prq_initiator request) i (?ms ! i) = [])"
    by (simp add: case_prod_beta all_enumerate [where P = "\<lambda>i m. message_findings config (prq_initiator request) i m = []"])
  also have "\<dots> \<longleftrightarrow> ag_sender (?ms ! 0) = prq_initiator request \<and> (\<forall>i<length ?ms. ?ok (?ms ! i))"
    unfolding message_findings_empty using False by auto
  also have "(\<forall>i<length ?ms. ?ok (?ms ! i)) \<longleftrightarrow> (\<forall>m\<in>set ?ms. ?ok m)" by (rule all_set_conv_all_nth [symmetric])
  also have "\<dots> \<longleftrightarrow> (\<forall>(s, r)\<in>set (hops_of request). s \<noteq> r) \<and> sealed_as_configured config request"
    by (auto simp: hops_of_def sealed_as_configured_def)
  finally show ?thesis using False by (simp add: protocol_findings_def hd_conv_nth not_less)
qed (simp add: protocol_findings_def)

lemma map_act_total:
  assumes "\<And>x w. \<exists>y w'. f x w = (Ok y, w') \<and> w_db w' = w_db w"
  shows "\<exists>ys w'. map_act f xs w = (Ok ys, w') \<and> w_db w' = w_db w"
proof (induction xs arbitrary: w)
  case (Cons x xs)
  obtain y w1 where "f x w = (Ok y, w1)" "w_db w1 = w_db w" using assms by blast
  moreover obtain ys w2 where "map_act f xs w1 = (Ok ys, w2)" "w_db w2 = w_db w1" using Cons by blast
  ultimately show ?case by (simp add: run_simps)
qed (simp add: run_simps)

lemma returns_seal_text: "returns (fst (seal_text E em p w))"
  using safe_encryption(5) [of "w_locked w" E em p] by (simp add: safe_at_def)

lemma transcript_entry_total: "\<exists>entry w'. transcript_entry E em m w = (Ok entry, w') \<and> w_db w' = w_db w"
proof (cases "ag_encrypted_body m")
  case None
  obtain r w' where seal: "seal_text E em (ag_body m) w = (r, w')" by (cases "seal_text E em (ag_body m) w")
  have "w_db w' = w_db w" using seal_text_frame [OF seal]
    by (metis world.select_convs(1) world.surjective world.update_convs(5))
  moreover have "returns r" using returns_seal_text [of E em "ag_body m" w] seal by simp
  ultimately show ?thesis using None seal by (cases r) (simp_all add: transcript_entry_def transcript_body_def run_simps)
qed (simp add: transcript_entry_def transcript_body_def run_simps)

lemma validate_protocol_returns:
  "\<exists>result w'. validate_protocol E em config request w = (Ok result, w') \<and> w_db w' = w_db w
     \<and> prr_accepted result = (protocol_findings config request = []) \<and> prr_findings result = protocol_findings config request
     \<and> prr_protocol_id result = prq_protocol_id request"
  using map_act_total [of "transcript_entry E em" "prq_messages request" w, OF transcript_entry_total]
  by (fastforce simp: validate_protocol_def run_simps)

text \<open>C39.
  Validation always returns, without touching the store, and accepts a run exactly if it has a
  message, the first one comes from the initiator, no message goes from an agent to itself, every
  body is encrypted where the configuration asks for it, and a \<open>handoff.v1\<close> run has two messages
  or more.
\<close>

theorem protocol_accepted_iff:
  "\<exists>result w'. validate_protocol E em config request w = (Ok result, w') \<and> w_db w' = w_db w
    \<and> (prr_accepted result \<longleftrightarrow> prq_messages request \<noteq> [] \<and> ag_sender (hd (prq_messages request)) = prq_initiator request
      \<and> (\<forall>(s, r)\<in>set (hops_of request). s \<noteq> r) \<and> sealed_as_configured config request
      \<and> (prq_protocol_id request = ''handoff.v1'' \<longrightarrow> 2 \<le> length (prq_messages request)))"
  using validate_protocol_returns [of E em config request w] unfolding protocol_findings_empty by blast

definition sample_run :: "protocol_run_request" where
  "sample_run = \<lparr>prq_protocol_id = ''handoff.v1'', prq_initiator = ''a'',
     prq_messages = [\<lparr>ag_sender = ''a'', ag_recipient = ''b'', ag_body = [], ag_metadata_json = ''{}'', ag_encrypted_body = Some ''x''\<rparr>,
       \<lparr>ag_sender = ''b'', ag_recipient = ''c'', ag_body = [], ag_metadata_json = ''{}'', ag_encrypted_body = Some ''y''\<rparr>],
     prq_policy_scope = []\<rparr>"

theorem protocol_accepted_iff_witness:
  "\<exists>result w'. validate_protocol demo_env demo_manager default_config sample_run boot_world = (Ok result, w') \<and> prr_accepted result"
proof -
  have "prq_messages sample_run \<noteq> [] \<and> ag_sender (hd (prq_messages sample_run)) = prq_initiator sample_run
      \<and> (\<forall>(s, r)\<in>set (hops_of sample_run). s \<noteq> r) \<and> sealed_as_configured default_config sample_run
      \<and> (prq_protocol_id sample_run = ''handoff.v1'' \<longrightarrow> 2 \<le> length (prq_messages sample_run))"
    by (simp add: sample_run_def hops_of_def sealed_as_configured_def)
  with protocol_accepted_iff [of demo_env demo_manager default_config sample_run boot_world] show ?thesis by blast
qed



end
