(* ===== verification/Queue.thy ===== *)
theory Queue
  imports Tools Brain_Facts
begin

text \<open>
  The task queue of \<open>engine/src/lib.rs\<close> (\<open>QueueManager\<close>, \<open>run_queue_worker\<close>): the four
  buckets, the atomic depth counter, the wake-up of the worker, the permits, and every interleaving
  of concurrent \<open>enqueue\<close> calls with the worker and the tasks it spawned. One step is one access to
  shared state; the body of a spawned task, which uses only the locked store, is one step.
\<close>

section \<open>Buckets\<close>

record queue_buckets =
  qb_interactive :: "queue_task list"
  qb_connector :: "queue_task list"
  qb_autonomy :: "queue_task list"
  qb_background :: "queue_task list"

definition no_buckets :: queue_buckets where
  "no_buckets = \<lparr>qb_interactive = [], qb_connector = [], qb_autonomy = [], qb_background = []\<rparr>"

fun push_task :: "queue_task \<Rightarrow> queue_buckets \<Rightarrow> queue_buckets" where
  "push_task t b = (case qt_priority t of
       Interactive \<Rightarrow> b\<lparr>qb_interactive := qb_interactive b @ [t]\<rparr>
     | Connector \<Rightarrow> b\<lparr>qb_connector := qb_connector b @ [t]\<rparr>
     | Autonomy \<Rightarrow> b\<lparr>qb_autonomy := qb_autonomy b @ [t]\<rparr>
     | Background \<Rightarrow> b\<lparr>qb_background := qb_background b @ [t]\<rparr>)"

fun next_queued_task :: "queue_buckets \<Rightarrow> (queue_task \<times> queue_buckets) option" where
  "next_queued_task b =
     (case qb_interactive b of t # ts \<Rightarrow> Some (t, b\<lparr>qb_interactive := ts\<rparr>)
      | [] \<Rightarrow> (case qb_connector b of t # ts \<Rightarrow> Some (t, b\<lparr>qb_connector := ts\<rparr>)
      | [] \<Rightarrow> (case qb_autonomy b of t # ts \<Rightarrow> Some (t, b\<lparr>qb_autonomy := ts\<rparr>)
      | [] \<Rightarrow> (case qb_background b of t # ts \<Rightarrow> Some (t, b\<lparr>qb_background := ts\<rparr>)
      | [] \<Rightarrow> None))))"

declare push_task.simps [simp del] next_queued_task.simps [simp del]

section \<open>A queued task's execution\<close>

definition queued_call :: "queue_task \<Rightarrow> tool_call" where
  "queued_call t = \<lparr>tc_target = qt_target t, tc_arguments_json = qt_arguments_json t, tc_allow_network = False,
     tc_priority = qt_priority t\<rparr>"

definition queue_audit :: "env \<Rightarrow> queue_task \<Rightarrow> tool_outcome \<Rightarrow> string \<Rightarrow> unit io" where
  "queue_audit E t outcome status =
     andthen (new_uuid E) (\<lambda>u.
     andthen (utc_now E) (\<lambda>now.
     record_audit_event \<lparr>ae_id = ''audit-'' @ u, ae_category = ''queue.execution'',
       ae_severity = (if to_success outcome then ''info'' else ''warning''),
       ae_summary = ''queued task '' @ qt_task_id t @ '' '' @ status,
       ae_anomaly_score = (if to_success outcome then 6 / 100 else 55 / 100),
       ae_payload_json = E_json_print E (json_obj [(''task_id'', JStr (qt_task_id t)), (''task_type'', JStr (qt_task_type t)),
         (''target'', JStr (qt_target t)), (''summary'', JStr (to_summary outcome))]),
       ae_created_at = now\<rparr>))"

definition run_queued_task :: "env \<Rightarrow> tool_executor \<Rightarrow> brain_manager \<Rightarrow> queue_task \<Rightarrow> unit io" where
  "run_queued_task E te bm t =
     andthen (ignore_err (update_queue_status E (qt_task_id t) ''running'')) (\<lambda>_.
     andthen (execute_tool_call E te (queued_call t)) (\<lambda>outcome.
     andthen (if to_success outcome then ignore_err (ingest_tool_result E bm (queued_call t) outcome) else ret ()) (\<lambda>_.
     let status = if to_success outcome then ''completed'' else ''failed'' in
     andthen (ignore_err (update_queue_status E (qt_task_id t) status)) (\<lambda>_.
     ignore_err (queue_audit E t outcome status)))))"

section \<open>The queue as a system\<close>

datatype worker_pc = Waiting | Draining | Holding queue_task

text \<open>How far a call of \<open>enqueue\<close> has come: its task was admitted, stored, pushed, counted.\<close>

datatype enqueue_pc = Admitted queue_task | Stored queue_task | Pushed queue_task | Counted queue_task

record qsys =
  q_world :: world
  q_buckets :: queue_buckets
  q_depth :: "64 word"
  q_notified :: bool
  q_permits :: nat
  q_worker :: worker_pc
  q_calls :: "enqueue_pc list"
  q_running :: "queue_task list"
  q_done :: "queue_task list"
  q_receipts :: "queue_receipt list"

record queue_setup =
  qs_env :: env
  qs_tools :: tool_executor
  qs_brain :: brain_manager
  qs_max_inflight :: nat

definition queue_permits :: "queue_setup \<Rightarrow> nat" where
  "queue_permits qs = max (qs_max_inflight qs) 1"

definition max_pending :: "queue_setup \<Rightarrow> nat" where
  "max_pending qs = max (qs_max_inflight qs) 1 * 8"

definition new_queue :: "queue_setup \<Rightarrow> world \<Rightarrow> qsys" where
  "new_queue qs w = \<lparr>q_world = w, q_buckets = no_buckets, q_depth = 0, q_notified = False,
     q_permits = queue_permits qs, q_worker = Waiting, q_calls = [], q_running = [], q_done = [], q_receipts = []\<rparr>"

definition receipt_of :: "queue_task \<Rightarrow> queue_receipt" where
  "receipt_of t = \<lparr>qr_accepted = True, qr_task_id = qt_task_id t, qr_queue = priority_as_str (qt_priority t),
     qr_message = ''task queued for asynchronous execution''\<rparr>"

text \<open>\<open>if queued >= max_pending { bail!("queue is full") }\<close>.\<close>

definition queue_full :: "queue_setup \<Rightarrow> qsys \<Rightarrow> bool" where
  "queue_full qs s \<longleftrightarrow> max_pending qs \<le> unat (q_depth s)"

definition drop_at :: "nat \<Rightarrow> 'a list \<Rightarrow> 'a list" where
  "drop_at i xs = take i xs @ drop (Suc i) xs"

text \<open>A new call of \<open>enqueue\<close> is admitted; the other steps serve what has been admitted.\<close>

inductive admit_step :: "queue_setup \<Rightarrow> qsys \<Rightarrow> qsys \<Rightarrow> bool" for qs where
  Admit: "\<not> queue_full qs s \<Longrightarrow> admit_step qs s (s\<lparr>q_calls := q_calls s @ [Admitted t]\<rparr>)"

inductive serve_step :: "queue_setup \<Rightarrow> qsys \<Rightarrow> qsys \<Rightarrow> bool" for qs where
  Store: "i < length (q_calls s) \<Longrightarrow> q_calls s ! i = Admitted t \<Longrightarrow>
     store_queue_task (qs_env qs) t ''queued'' (q_world s) = (Ok (), w) \<Longrightarrow>
     serve_step qs s (s\<lparr>q_world := w, q_calls := (q_calls s)[i := Stored t]\<rparr>)"
| Push: "i < length (q_calls s) \<Longrightarrow> q_calls s ! i = Stored t \<Longrightarrow>
     serve_step qs s (s\<lparr>q_buckets := push_task t (q_buckets s), q_calls := (q_calls s)[i := Pushed t]\<rparr>)"
| Count: "i < length (q_calls s) \<Longrightarrow> q_calls s ! i = Pushed t \<Longrightarrow>
     serve_step qs s (s\<lparr>q_depth := q_depth s + 1, q_calls := (q_calls s)[i := Counted t]\<rparr>)"
| Wake: "i < length (q_calls s) \<Longrightarrow> q_calls s ! i = Counted t \<Longrightarrow>
     serve_step qs s (s\<lparr>q_notified := True, q_calls := drop_at i (q_calls s), q_receipts := q_receipts s @ [receipt_of t]\<rparr>)"
| Notified: "q_worker s = Waiting \<Longrightarrow> q_notified s \<Longrightarrow>
     serve_step qs s (s\<lparr>q_worker := Draining, q_notified := False\<rparr>)"
| Take: "q_worker s = Draining \<Longrightarrow> next_queued_task (q_buckets s) = Some (t, b) \<Longrightarrow>
     serve_step qs s (s\<lparr>q_worker := Holding t, q_buckets := b\<rparr>)"
| Sleep: "q_worker s = Draining \<Longrightarrow> next_queued_task (q_buckets s) = None \<Longrightarrow>
     serve_step qs s (s\<lparr>q_worker := Waiting\<rparr>)"
| Spawn: "q_worker s = Holding t \<Longrightarrow> q_permits s = Suc n \<Longrightarrow>
     serve_step qs s (s\<lparr>q_worker := Draining, q_permits := n, q_running := q_running s @ [t]\<rparr>)"
| Finish: "i < length (q_running s) \<Longrightarrow> q_running s ! i = t \<Longrightarrow>
     run_queued_task (qs_env qs) (qs_tools qs) (qs_brain qs) t (q_world s) = (Ok (), w) \<Longrightarrow>
     serve_step qs s (s\<lparr>q_world := w, q_running := drop_at i (q_running s), q_done := q_done s @ [t],
       q_permits := Suc (q_permits s), q_depth := q_depth s - 1\<rparr>)"

definition queue_step :: "queue_setup \<Rightarrow> qsys \<Rightarrow> qsys \<Rightarrow> bool" where
  "queue_step qs s s' \<longleftrightarrow> admit_step qs s s' \<or> serve_step qs s s'"

definition queue_reachable :: "queue_setup \<Rightarrow> world \<Rightarrow> qsys \<Rightarrow> bool" where
  "queue_reachable qs w = (queue_step qs)\<^sup>*\<^sup>* (new_queue qs w)"

section \<open>Priority order\<close>

text \<open>The abstract queue: one list, ordered by priority and then by arrival.\<close>

definition queue_order :: "queue_buckets \<Rightarrow> queue_task list" where
  "queue_order b = qb_interactive b @ qb_connector b @ qb_autonomy b @ qb_background b"

definition insert_by_priority :: "queue_task \<Rightarrow> queue_task list \<Rightarrow> queue_task list" where
  "insert_by_priority t ts = takeWhile (\<lambda>u. qt_priority u \<le> qt_priority t) ts @ t # dropWhile (\<lambda>u. qt_priority u \<le> qt_priority t) ts"

definition buckets_ok :: "queue_buckets \<Rightarrow> bool" where
  "buckets_ok b \<longleftrightarrow> (\<forall>t\<in>set (qb_interactive b). qt_priority t = Interactive) \<and> (\<forall>t\<in>set (qb_connector b). qt_priority t = Connector)
     \<and> (\<forall>t\<in>set (qb_autonomy b). qt_priority t = Autonomy) \<and> (\<forall>t\<in>set (qb_background b). qt_priority t = Background)"

text \<open>The contract of a priority queue: an invariant, insertion in order, removal of the first.\<close>

locale priority_queue =
  fixes empty :: 'q and insert_item :: "'a \<Rightarrow> 'q \<Rightarrow> 'q" and take_item :: "'q \<Rightarrow> ('a \<times> 'q) option"
    and inv :: "'q \<Rightarrow> bool" and items :: "'q \<Rightarrow> 'a list" and rank :: "'a \<Rightarrow> 'k::linorder"
  assumes empty: "inv empty" "items empty = []"
    and insert_item: "inv q \<Longrightarrow> inv (insert_item x q)"
      "inv q \<Longrightarrow> items (insert_item x q) = takeWhile (\<lambda>y. rank y \<le> rank x) (items q) @ x # dropWhile (\<lambda>y. rank y \<le> rank x) (items q)"
    and take_none: "inv q \<Longrightarrow> take_item q = None \<longleftrightarrow> items q = []"
    and take_some: "inv q \<Longrightarrow> take_item q = Some (x, q') \<Longrightarrow> inv q' \<and> items q = x # items q'"
begin

fun drain :: "nat \<Rightarrow> 'q \<Rightarrow> 'a list" where
  "drain 0 q = []"
| "drain (Suc n) q = (case take_item q of None \<Rightarrow> [] | Some (x, q') \<Rightarrow> x # drain n q')"

lemma drain_items: "inv q \<Longrightarrow> length (items q) \<le> n \<Longrightarrow> drain n q = items q"
proof (induction n arbitrary: q)
  case (Suc n)
  show ?case
  proof (cases "take_item q")
    case None
    then have "items q = []" using take_none [OF Suc.prems(1)] by blast
    with None show ?thesis by simp
  next
    case (Some p)
    obtain x q' where p: "p = (x, q')" by (cases p)
    with take_some [OF Suc.prems(1)] Some have "inv q'" "items q = x # items q'" by blast+
    with Some p Suc show ?thesis by simp
  qed
qed simp

lemma mset_insert_item: "inv q \<Longrightarrow> mset (items (insert_item x q)) = add_mset x (mset (items q))"
  by (simp add: insert_item) (metis mset_append takeWhile_dropWhile_id union_mset_add_mset_right)

lemma sorted_insert_item:
  assumes "inv q" and "sorted (map rank (items q))"
  shows "sorted (map rank (items (insert_item x q)))"
proof -
  have "sorted (map rank (takeWhile (\<lambda>y. rank y \<le> rank x) ys @ x # dropWhile (\<lambda>y. rank y \<le> rank x) ys))"
    if "sorted (map rank ys)" for ys
    using that by (induction ys) (auto dest: set_takeWhileD set_dropWhileD)
  with assms show ?thesis by (simp add: insert_item)
qed

end

lemma priority_le [simp]:
  "(Interactive \<le> p) = True" "(p \<le> Background) = True" "(Connector \<le> p) = (p \<noteq> Interactive)"
  "(p \<le> Interactive) = (p = Interactive)" "(p \<le> Connector) = (p = Interactive \<or> p = Connector)"
  "(Background \<le> p) = (p = Background)" "(p \<le> Autonomy) = (p \<noteq> Background)" "(Autonomy \<le> p) = (p = Autonomy \<or> p = Background)"
  by (cases p; simp add: less_eq_queue_priority_def)+

lemma takeWhile_segment:
  "\<forall>x\<in>set xs. P x \<Longrightarrow> takeWhile P (xs @ ys) = xs @ takeWhile P ys \<and> dropWhile P (xs @ ys) = dropWhile P ys"
  by (induction xs) auto

lemma takeWhile_stop:
  "\<forall>x\<in>set xs. \<not> P x \<Longrightarrow> takeWhile P xs = [] \<and> dropWhile P xs = xs"
  by (cases xs) auto

lemma insert_between:
  assumes "\<forall>u\<in>set pre. qt_priority u \<le> qt_priority t" and "\<forall>u\<in>set post. \<not> qt_priority u \<le> qt_priority t"
  shows "insert_by_priority t (pre @ post) = pre @ t # post"
  using takeWhile_segment [OF assms(1)] takeWhile_stop [OF assms(2)] by (simp add: insert_by_priority_def)

lemma order_push:
  assumes "buckets_ok b"
  shows "queue_order (push_task t b) = insert_by_priority t (queue_order b)"
proof (cases "qt_priority t")
  case Interactive
  with assms have "insert_by_priority t ((qb_interactive b) @ qb_connector b @ qb_autonomy b @ qb_background b) = (qb_interactive b) @ t # qb_connector b @ qb_autonomy b @ qb_background b"
    by (intro insert_between) (auto simp: buckets_ok_def)
  with Interactive show ?thesis by (simp add: queue_order_def push_task.simps)
next
  case Connector
  with assms have "insert_by_priority t ((qb_interactive b @ qb_connector b) @ qb_autonomy b @ qb_background b) = (qb_interactive b @ qb_connector b) @ t # qb_autonomy b @ qb_background b"
    by (intro insert_between) (auto simp: buckets_ok_def)
  with Connector show ?thesis by (simp add: queue_order_def push_task.simps)
next
  case Autonomy
  with assms have "insert_by_priority t ((qb_interactive b @ qb_connector b @ qb_autonomy b) @ qb_background b) = (qb_interactive b @ qb_connector b @ qb_autonomy b) @ t # qb_background b"
    by (intro insert_between) (auto simp: buckets_ok_def)
  with Autonomy show ?thesis by (simp add: queue_order_def push_task.simps)
next
  case Background
  with assms have "insert_by_priority t ((qb_interactive b @ qb_connector b @ qb_autonomy b @ qb_background b) @ []) = (qb_interactive b @ qb_connector b @ qb_autonomy b @ qb_background b) @ t # []"
    by (intro insert_between) (auto simp: buckets_ok_def)
  with Background show ?thesis by (simp add: queue_order_def push_task.simps)
qed

lemma push_ok: "buckets_ok b \<Longrightarrow> buckets_ok (push_task t b)"
  by (cases "qt_priority t") (auto simp: buckets_ok_def push_task.simps)

interpretation bq: priority_queue no_buckets push_task next_queued_task buckets_ok queue_order qt_priority
proof
  show "buckets_ok no_buckets" "queue_order no_buckets = []"
    by (simp_all add: buckets_ok_def no_buckets_def queue_order_def)
  fix b b' :: queue_buckets and t
  show "buckets_ok b \<Longrightarrow> buckets_ok (push_task t b)" by (rule push_ok)
  show "queue_order (push_task t b) = takeWhile (\<lambda>y. qt_priority y \<le> qt_priority t) (queue_order b)
      @ t # dropWhile (\<lambda>y. qt_priority y \<le> qt_priority t) (queue_order b)" if "buckets_ok b"
    using order_push [OF that] by (simp add: insert_by_priority_def)
  show "next_queued_task b = None \<longleftrightarrow> queue_order b = []" if "buckets_ok b"
    by (simp add: next_queued_task.simps queue_order_def split: list.splits)
  show "next_queued_task b = Some (t, b') \<Longrightarrow> buckets_ok b' \<and> queue_order b = t # queue_order b'" if "buckets_ok b"
    using that by (auto simp: next_queued_task.simps queue_order_def buckets_ok_def split: list.splits)
qed

text \<open>C26.
  The four buckets implement a stable priority queue: seen as one list, pushing a task inserts it
  behind every task of its own or a more urgent priority and before all others, taking removes the
  head of the list, and repeated taking yields the tasks in exactly that order, sorted by priority
  and first in, first out within one.
\<close>

theorem buckets_refine_priority_list:
  assumes "buckets_ok b" and "sorted (map qt_priority (queue_order b))"
  shows "queue_order (push_task t b) = insert_by_priority t (queue_order b) \<and> buckets_ok (push_task t b)
    \<and> sorted (map qt_priority (queue_order (push_task t b)))
    \<and> (case next_queued_task b of None \<Rightarrow> queue_order b = []
        | Some (u, b') \<Rightarrow> queue_order b = u # queue_order b' \<and> buckets_ok b')
    \<and> bq.drain (length (queue_order b)) b = queue_order b"
  using assms order_push push_ok bq.sorted_insert_item bq.drain_items [OF assms(1)] bq.take_none [OF assms(1)]
    bq.take_some [OF assms(1)]
  by (auto split: option.splits)

definition sample_task :: "queue_priority \<Rightarrow> string \<Rightarrow> queue_task" where
  "sample_task p i = \<lparr>qt_task_id = i, qt_task_type = ''tool'', qt_target = ''builtin.time'', qt_arguments_json = ''{}'', qt_priority = p\<rparr>"

theorem buckets_refine_priority_list_witness:
  "queue_order (push_task (sample_task Interactive ''2'') (push_task (sample_task Background ''1'') no_buckets))
     = [sample_task Interactive ''2'', sample_task Background ''1'']"
  using buckets_refine_priority_list [of "push_task (sample_task Background ''1'') no_buckets" "sample_task Interactive ''2''"]
  by (simp add: push_task.simps no_buckets_def queue_order_def sample_task_def buckets_ok_def insert_by_priority_def)

section \<open>No task is lost\<close>

lemma ignore_err_ok: "safe m \<Longrightarrow> \<not> w_locked w \<Longrightarrow> \<exists>w'. ignore_err m w = (Ok (), w') \<and> \<not> w_locked w'"
  using safe_atD [of False m w] by (cases "m w"; cases "fst (m w)") (auto simp: run_simps)

lemma run_queued_task_ok:
  assumes "\<not> w_locked w"
  shows "\<exists>w'. run_queued_task E te bm t w = (Ok (), w') \<and> \<not> w_locked w'"
proof -
  have audit: "safe (queue_audit E t outcome status)" for outcome status
    unfolding queue_audit_def by (intro safe_intros)
  obtain w1 where w1: "ignore_err (update_queue_status E (qt_task_id t) ''running'') w = (Ok (), w1)" "\<not> w_locked w1"
    using ignore_err_ok [OF safe_store(12) assms] by blast
  obtain outcome w2 where w2: "execute_tool_call E te (queued_call t) w1 = (Ok outcome, w2)"
    using execute_tool_call_ok [of E te "queued_call t" w1] by blast
  then have un2: "\<not> w_locked w2" using safe_atD [OF safe_execute_tool(1) _ w2, of False] w1 by simp
  let ?status = "if to_success outcome then ''completed'' else ''failed''"
  obtain w3 where w3: "(if to_success outcome then ignore_err (ingest_tool_result E bm (queued_call t) outcome) else ret ()) w2 = (Ok (), w3)"
      "\<not> w_locked w3"
  proof (cases "to_success outcome")
    case True
    have "safe (ingest_tool_result E bm (queued_call t) outcome)" by (intro safe_intros)
    from ignore_err_ok [OF this un2] True that show thesis by auto
  qed (use that un2 in \<open>simp add: run_simps\<close>)
  obtain w4 where w4: "ignore_err (update_queue_status E (qt_task_id t) ?status) w3 = (Ok (), w4)" "\<not> w_locked w4"
    using ignore_err_ok [OF safe_store(12) w3(2)] by blast
  obtain w5 where w5: "ignore_err (queue_audit E t outcome ?status) w4 = (Ok (), w5)" "\<not> w_locked w5"
    using ignore_err_ok [OF audit w4(2)] by blast
  have "run_queued_task E te bm t w = (Ok (), w5)"
    unfolding run_queued_task_def Let_def
    by (simp only: andthen_run w1(1) w2 w3(1) w4(1) w5(1) prod.case res.case)
  with w5(2) show ?thesis by blast
qed

lemma store_queue_task_ok:
  assumes "\<not> w_locked w"
  shows "\<exists>w'. store_queue_task E t status w = (Ok (), w') \<and> \<not> w_locked w'"
  using assms by (simp add: store_queue_task_def run_simps)

fun pushed_task :: "enqueue_pc \<Rightarrow> queue_task list" where
  "pushed_task (Pushed t) = [t]"
| "pushed_task (Counted t) = [t]"
| "pushed_task _ = []"

fun uncounted_task :: "enqueue_pc \<Rightarrow> queue_task list" where
  "uncounted_task (Pushed t) = [t]"
| "uncounted_task _ = []"

definition tasks_of :: "(enqueue_pc \<Rightarrow> queue_task list) \<Rightarrow> qsys \<Rightarrow> queue_task list" where
  "tasks_of f s = concat (map f (q_calls s))"

definition held_task :: "qsys \<Rightarrow> queue_task list" where
  "held_task s = (case q_worker s of Holding t \<Rightarrow> [t] | _ \<Rightarrow> [])"

definition in_flight :: "qsys \<Rightarrow> queue_task list" where
  "in_flight s = queue_order (q_buckets s) @ held_task s @ q_running s"

definition queue_inv :: "queue_setup \<Rightarrow> qsys \<Rightarrow> bool" where
  "queue_inv qs s \<longleftrightarrow> \<not> w_locked (q_world s) \<and> buckets_ok (q_buckets s)
     \<and> q_permits s + length (q_running s) = queue_permits qs
     \<and> q_depth s + of_nat (length (tasks_of uncounted_task s)) = of_nat (length (in_flight s))
     \<and> image_mset receipt_of (mset (in_flight s @ q_done s))
         = mset (q_receipts s) + image_mset receipt_of (mset (tasks_of pushed_task s))
     \<and> (queue_order (q_buckets s) \<noteq> [] \<longrightarrow> q_worker s \<noteq> Waiting \<or> q_notified s \<or> 0 < length (tasks_of pushed_task s))"

lemma calls_update:
  assumes "i < length xs" and "xs ! i = c"
  shows "mset (concat (map f (xs[i := y]))) + mset (f c) = mset (concat (map f xs)) + mset (f y)"
    and "length (concat (map f (xs[i := y]))) + length (f c) = length (concat (map f xs)) + length (f y)"
    and "mset (concat (map f (drop_at i xs))) + mset (f c) = mset (concat (map f xs))"
    and "length (concat (map f (drop_at i xs))) + length (f c) = length (concat (map f xs))"
proof -
  have "xs = take i xs @ c # drop (Suc i) xs" using assms id_take_nth_drop [of i xs] by simp
  then have "map f xs = map f (take i xs) @ f c # map f (drop (Suc i) xs)" by (metis list.map(2) map_append)
  moreover have "map f (xs[i := y]) = map f (take i xs) @ f y # map f (drop (Suc i) xs)"
    using assms by (simp add: upd_conv_take_nth_drop)
  moreover have "map f (drop_at i xs) = map f (take i xs) @ map f (drop (Suc i) xs)" by (simp add: drop_at_def)
  ultimately show "mset (concat (map f (xs[i := y]))) + mset (f c) = mset (concat (map f xs)) + mset (f y)"
    "length (concat (map f (xs[i := y]))) + length (f c) = length (concat (map f xs)) + length (f y)"
    "mset (concat (map f (drop_at i xs))) + mset (f c) = mset (concat (map f xs))"
    "length (concat (map f (drop_at i xs))) + length (f c) = length (concat (map f xs))"
    by simp_all
qed

lemma tasks_update:
  assumes "i < length (q_calls s)" and "q_calls s ! i = c" and "q_calls s' = (q_calls s)[i := y]"
  shows "mset (tasks_of f s') + mset (f c) = mset (tasks_of f s) + mset (f y)"
    and "length (tasks_of f s') + length (f c) = length (tasks_of f s) + length (f y)"
  unfolding tasks_of_def assms(3) by (rule calls_update [OF assms(1,2)])+

lemma tasks_drop:
  assumes "i < length (q_calls s)" and "q_calls s ! i = c" and "q_calls s' = drop_at i (q_calls s)"
  shows "mset (tasks_of f s') + mset (f c) = mset (tasks_of f s)"
    and "length (tasks_of f s') + length (f c) = length (tasks_of f s)"
  unfolding tasks_of_def assms(3) by (rule calls_update [OF assms(1,2)])+

lemma tasks_same: "q_calls s' = q_calls s \<Longrightarrow> tasks_of f s' = tasks_of f s"
  by (simp add: tasks_of_def)

lemma drop_at_facts:
  assumes "i < length xs" and "xs ! i = x"
  shows "add_mset x (mset (drop_at i xs)) = mset xs" and "length xs = Suc (length (drop_at i xs))"
  using calls_update(3,4) [OF assms, of "\<lambda>x. [x]"] by simp_all

lemma mset_push: "buckets_ok b \<Longrightarrow> mset (queue_order (push_task t b)) = add_mset t (mset (queue_order b))"
  by (rule bq.mset_insert_item)

lemma length_push: "buckets_ok b \<Longrightarrow> length (queue_order (push_task t b)) = Suc (length (queue_order b))"
  using mset_push [of b t] by (metis size_add_mset size_mset)

lemma queue_inv_new: "\<not> w_locked w \<Longrightarrow> queue_inv qs (new_queue qs w)"
  by (simp add: queue_inv_def new_queue_def in_flight_def held_task_def bq.empty tasks_of_def)

lemma queue_inv_admit: "admit_step qs s s' \<Longrightarrow> queue_inv qs s \<Longrightarrow> queue_inv qs s'"
  by (erule admit_step.cases) (simp add: queue_inv_def in_flight_def held_task_def tasks_of_def)

text \<open>The parts of the invariant that speak of numbers and of tasks, to be kept by each step.\<close>

definition depth_ok :: "qsys \<Rightarrow> bool" where
  "depth_ok s \<longleftrightarrow> q_depth s + of_nat (length (tasks_of uncounted_task s)) = of_nat (length (in_flight s))"

definition receipts_ok :: "qsys \<Rightarrow> bool" where
  "receipts_ok s \<longleftrightarrow> image_mset receipt_of (mset (in_flight s @ q_done s))
     = mset (q_receipts s) + image_mset receipt_of (mset (tasks_of pushed_task s))"

definition awake_ok :: "qsys \<Rightarrow> bool" where
  "awake_ok s \<longleftrightarrow> (queue_order (q_buckets s) \<noteq> [] \<longrightarrow>
     q_worker s \<noteq> Waiting \<or> q_notified s \<or> 0 < length (tasks_of pushed_task s))"

lemma queue_inv_alt:
  "queue_inv qs s \<longleftrightarrow> \<not> w_locked (q_world s) \<and> buckets_ok (q_buckets s)
     \<and> q_permits s + length (q_running s) = queue_permits qs \<and> depth_ok s \<and> receipts_ok s \<and> awake_ok s"
  by (simp add: queue_inv_def depth_ok_def receipts_ok_def awake_ok_def)

lemma depth_ok_step:
  assumes "depth_ok s" and "q_depth s' + of_nat a = q_depth s + of_nat b"
    and "length (tasks_of uncounted_task s') + c = length (tasks_of uncounted_task s) + d"
    and "length (in_flight s') + e = length (in_flight s) + f" and "b + d + e = a + c + f"
  shows "depth_ok s'"
proof -
  have u: "of_nat (length (tasks_of uncounted_task s')) + of_nat c = (of_nat (length (tasks_of uncounted_task s)) + of_nat d :: 64 word)"
    using assms(3) by (metis of_nat_add)
  have g: "of_nat (length (in_flight s')) + of_nat e = (of_nat (length (in_flight s)) + of_nat f :: 64 word)"
    using assms(4) by (metis of_nat_add)
  have k: "of_nat b + of_nat d + of_nat e = (of_nat a + of_nat c + of_nat f :: 64 word)"
    using assms(5) by (metis of_nat_add)
  have "q_depth s' + of_nat (length (tasks_of uncounted_task s')) + (of_nat a + of_nat c + of_nat e)
      = (q_depth s' + of_nat a) + (of_nat (length (tasks_of uncounted_task s')) + of_nat c) + (of_nat e :: 64 word)" by simp
  also have "\<dots> = (q_depth s + of_nat (length (tasks_of uncounted_task s))) + (of_nat b + of_nat d + of_nat e)"
    unfolding assms(2) u by simp
  also have "\<dots> = of_nat (length (in_flight s)) + of_nat f + (of_nat a + of_nat c)"
    using assms(1) k by (simp add: depth_ok_def)
  also have "\<dots> = of_nat (length (in_flight s')) + (of_nat a + of_nat c + of_nat e)" unfolding g [symmetric] by simp
  finally show ?thesis unfolding depth_ok_def by (simp only: add_right_cancel)
qed

lemma queue_inv_serve:
  assumes "serve_step qs s s'" and "queue_inv qs s"
  shows "queue_inv qs s'"
  using assms(1)
proof cases
  case (Store i t w)
  note p = tasks_update [OF Store(2,3), of s' "Stored t" pushed_task]
  note u = tasks_update [OF Store(2,3), of s' "Stored t" uncounted_task]
  have un: "\<not> w_locked w" using store_queue_task_ok [of "q_world s" "qs_env qs" t "''queued''"] Store(4) assms(2)
    by (simp add: queue_inv_alt)
  have "depth_ok s'"
    by (rule depth_ok_step [of s s' 0 0 0 0 0 0]) (use assms(2) Store(1) u in \<open>simp_all add: queue_inv_alt in_flight_def held_task_def\<close>)
  with assms(2) Store(1) un p show ?thesis
    by (simp add: queue_inv_alt in_flight_def held_task_def receipts_ok_def awake_ok_def)
next
  case (Push i t)
  note p = tasks_update [OF Push(2,3), of s' "Pushed t" pushed_task]
  note u = tasks_update [OF Push(2,3), of s' "Pushed t" uncounted_task]
  have "depth_ok s'"
    by (rule depth_ok_step [of s s' 0 0 0 1 0 1])
       (use assms(2) Push(1) u in \<open>simp_all add: queue_inv_alt in_flight_def held_task_def length_push\<close>)
  with assms(2) Push(1) p show ?thesis
    by (simp add: queue_inv_alt in_flight_def held_task_def receipts_ok_def awake_ok_def push_ok mset_push)
next
  case (Count i t)
  note p = tasks_update [OF Count(2,3), of s' "Counted t" pushed_task]
  note u = tasks_update [OF Count(2,3), of s' "Counted t" uncounted_task]
  have "depth_ok s'"
    by (rule depth_ok_step [of s s' 0 1 1 0 0 0])
       (use assms(2) Count(1) u in \<open>simp_all add: queue_inv_alt in_flight_def held_task_def\<close>)
  with assms(2) Count(1) p show ?thesis
    by (simp add: queue_inv_alt in_flight_def held_task_def receipts_ok_def awake_ok_def)
next
  case (Wake i t)
  note p = tasks_drop [OF Wake(2,3), of s' pushed_task]
  note u = tasks_drop [OF Wake(2,3), of s' uncounted_task]
  have "depth_ok s'"
    by (rule depth_ok_step [of s s' 0 0 0 0 0 0])
       (use assms(2) Wake(1) u in \<open>simp_all add: queue_inv_alt in_flight_def held_task_def\<close>)
  moreover have "receipts_ok s'"
  proof -
    have "image_mset receipt_of (mset (tasks_of pushed_task s)) = add_mset (receipt_of t) (image_mset receipt_of (mset (tasks_of pushed_task s')))"
      using p(1) Wake(1) by (simp flip: image_mset_add_mset)
    with assms(2) Wake(1) show ?thesis by (simp add: queue_inv_alt receipts_ok_def in_flight_def held_task_def)
  qed
  ultimately show ?thesis using assms(2) Wake(1) by (simp add: queue_inv_alt awake_ok_def)
next
  case Notified
  with assms(2) tasks_same [of s' s] show ?thesis
    by (simp add: queue_inv_alt in_flight_def held_task_def depth_ok_def receipts_ok_def awake_ok_def)
next
  case (Take t b)
  then have "buckets_ok b" "queue_order (q_buckets s) = t # queue_order b"
    using bq.take_some [of "q_buckets s" t b] assms(2) by (simp_all add: queue_inv_alt)
  with assms(2) Take tasks_same [of s' s] show ?thesis
    by (simp add: queue_inv_alt in_flight_def held_task_def depth_ok_def receipts_ok_def awake_ok_def)
next
  case Sleep
  then have "queue_order (q_buckets s) = []"
    using bq.take_none [of "q_buckets s"] assms(2) by (simp add: queue_inv_alt)
  with assms(2) Sleep tasks_same [of s' s] show ?thesis
    by (simp add: queue_inv_alt in_flight_def held_task_def depth_ok_def receipts_ok_def awake_ok_def)
next
  case (Spawn t n)
  with assms(2) tasks_same [of s' s] show ?thesis
    by (simp add: queue_inv_alt in_flight_def held_task_def depth_ok_def receipts_ok_def awake_ok_def)
next
  case (Finish i t w)
  have un: "\<not> w_locked w" using run_queued_task_ok [of "q_world s" "qs_env qs" "qs_tools qs" "qs_brain qs" t] Finish(4) assms(2)
    by (simp add: queue_inv_alt)
  note r = drop_at_facts [OF Finish(2,3)]
  have "depth_ok s'"
    by (rule depth_ok_step [of s s' 1 0 0 0 1 0])
       (use assms(2) Finish(1) r tasks_same [of s' s] in \<open>simp_all add: queue_inv_alt in_flight_def held_task_def\<close>)
  moreover have "receipts_ok s'"
  proof -
    have "mset (in_flight s' @ q_done s') = mset (in_flight s @ q_done s)"
      using Finish(1) r by (simp add: in_flight_def held_task_def flip: r(1))
    moreover have "q_receipts s' = q_receipts s" "tasks_of pushed_task s' = tasks_of pushed_task s"
      using Finish(1) tasks_same [of s' s] by simp_all
    ultimately show ?thesis using assms(2) by (simp only: queue_inv_alt receipts_ok_def)
  qed
  ultimately show ?thesis
    using assms(2) Finish(1) un r tasks_same [of s' s] by (simp add: queue_inv_alt awake_ok_def)
qed

lemma queue_inv_reachable:
  assumes "queue_reachable qs w s" and "\<not> w_locked w"
  shows "queue_inv qs s"
  using assms(1) unfolding queue_reachable_def
proof (induction rule: rtranclp_induct)
  case base
  show ?case by (rule queue_inv_new [OF assms(2)])
next
  case (step s s')
  then show ?case by (auto simp: queue_step_def intro: queue_inv_admit queue_inv_serve)
qed

text \<open>C8.
  Whatever the interleaving of enqueue calls, worker and running tasks: every receipt handed out
  stands for a task that is in the queue, held by the worker, running or finished, each task once
  (the remaining tasks belong to calls about to answer); at most \<open>max_inflight\<close> tasks run at a time
  and the free permits make up the rest; and the depth counter, read modulo \<open>2^64\<close>, is the number of
  unfinished tasks minus those pushed but not yet counted.
\<close>

theorem queue_conserves_tasks:
  assumes "queue_reachable qs w s" and "\<not> w_locked w"
  shows "image_mset receipt_of (mset (in_flight s @ q_done s))
      = mset (q_receipts s) + image_mset receipt_of (mset (tasks_of pushed_task s))
    \<and> length (q_running s) + q_permits s = max (qs_max_inflight qs) 1
    \<and> q_depth s = of_nat (length (in_flight s)) - of_nat (length (tasks_of uncounted_task s))
    \<and> buckets_ok (q_buckets s) \<and> \<not> w_locked (q_world s)"
proof -
  have "queue_inv qs s" by (rule queue_inv_reachable [OF assms])
  then show ?thesis
    unfolding queue_inv_def queue_permits_def by (metis add.commute add_diff_cancel_right')
qed

section \<open>Everything admitted is served\<close>

fun call_weight :: "enqueue_pc \<Rightarrow> nat" where
  "call_weight (Admitted t) = 9"
| "call_weight (Stored t) = 8"
| "call_weight (Pushed t) = 4"
| "call_weight (Counted t) = 3"

fun worker_weight :: "worker_pc \<Rightarrow> nat" where
  "worker_weight Waiting = 0"
| "worker_weight Draining = 1"
| "worker_weight (Holding t) = 3"

text \<open>The steps that are still to come.\<close>

definition work_left :: "qsys \<Rightarrow> nat" where
  "work_left s = sum_list (map call_weight (q_calls s)) + 3 * length (queue_order (q_buckets s))
     + worker_weight (q_worker s) + (if q_notified s then 2 else 0) + length (q_running s)"

definition quiescent :: "qsys \<Rightarrow> bool" where
  "quiescent s \<longleftrightarrow> q_calls s = [] \<and> queue_order (q_buckets s) = [] \<and> q_running s = [] \<and> q_worker s = Waiting \<and> \<not> q_notified s"

lemma weight_update:
  assumes "i < length xs" and "xs ! i = c"
  shows "sum_list (map f (xs[i := y])) + f c = sum_list (map f xs) + (f y :: nat)"
    and "sum_list (map f (drop_at i xs)) + f c = sum_list (map f xs)"
proof -
  have xs: "xs = take i xs @ c # drop (Suc i) xs" using assms id_take_nth_drop [of i xs] by simp
  show "sum_list (map f (xs[i := y])) + f c = sum_list (map f xs) + (f y :: nat)"
    using assms by (subst (2) xs) (simp add: upd_conv_take_nth_drop)
  show "sum_list (map f (drop_at i xs)) + f c = sum_list (map f xs)"
    by (subst (2) xs) (simp add: drop_at_def)
qed

lemma serve_step_decreases:
  assumes "serve_step qs s s'" and "queue_inv qs s"
  shows "work_left s' < work_left s"
  using assms(1)
proof cases
  case (Store i t w)
  with weight_update(1) [OF Store(2,3), of call_weight "Stored t"] show ?thesis by (simp add: work_left_def)
next
  case (Push i t)
  with weight_update(1) [OF Push(2,3), of call_weight "Pushed t"] assms(2) show ?thesis
    by (simp add: work_left_def length_push queue_inv_def)
next
  case (Count i t)
  with weight_update(1) [OF Count(2,3), of call_weight "Counted t"] show ?thesis by (simp add: work_left_def)
next
  case (Wake i t)
  with weight_update(2) [OF Wake(2,3), of call_weight] show ?thesis by (simp add: work_left_def)
next
  case (Take t b)
  then have "queue_order (q_buckets s) = t # queue_order b"
    using bq.take_some [of "q_buckets s" t b] assms(2) by (simp add: queue_inv_def)
  with Take show ?thesis by (simp add: work_left_def)
next
  case (Finish i t w)
  with drop_at_facts [OF Finish(2,3)] show ?thesis by (simp add: work_left_def)
qed (simp_all add: work_left_def)

lemma call_can_step:
  assumes "q_calls s \<noteq> []" and "\<not> w_locked (q_world s)"
  shows "\<exists>s'. serve_step qs s s'"
proof -
  have i: "0 < length (q_calls s)" using assms(1) by simp
  show ?thesis
  proof (cases "q_calls s ! 0")
    case (Admitted t)
    with i store_queue_task_ok [OF assms(2)] show ?thesis by (blast intro: serve_step.Store)
  qed (use i in \<open>blast intro: serve_step.intros\<close>)+
qed

lemma serve_step_progress:
  assumes "queue_inv qs s" and "\<not> quiescent s"
  shows "\<exists>s'. serve_step qs s s'"
proof (cases "q_calls s = [] \<and> q_running s = []")
  case False
  then consider "q_calls s \<noteq> []" | "0 < length (q_running s)" by auto
  then show ?thesis
  proof cases
    case 1
    with assms(1) show ?thesis by (intro call_can_step) (simp_all add: queue_inv_def)
  next
    case 2
    have "\<not> w_locked (q_world s)" using assms(1) by (simp add: queue_inv_def)
    from run_queued_task_ok [OF this] 2 show ?thesis by (blast intro: serve_step.Finish)
  qed
next
  case True
  show ?thesis
  proof (cases "q_worker s")
    case Waiting
    with True assms have "q_notified s"
      by (auto simp: quiescent_def queue_inv_alt awake_ok_def tasks_of_def)
    with Waiting show ?thesis by (blast intro: serve_step.Notified)
  next
    case Draining
    then show ?thesis
      by (cases "next_queued_task (q_buckets s)") (auto intro: serve_step.Sleep serve_step.Take)
  next
    case (Holding t)
    have "q_permits s = Suc (queue_permits qs - 1)" using True assms(1) by (simp add: queue_inv_def queue_permits_def)
    with Holding show ?thesis by (blast intro: serve_step.Spawn)
  qed
qed

lemma serve_steps_inv: "(serve_step qs)\<^sup>*\<^sup>* s s' \<Longrightarrow> queue_inv qs s \<Longrightarrow> queue_inv qs s'"
  by (induction rule: rtranclp_induct) (auto intro: queue_inv_serve)

lemma serve_to_quiescence: "queue_inv qs s \<Longrightarrow> \<exists>s'. (serve_step qs)\<^sup>*\<^sup>* s s' \<and> quiescent s'"
proof (induction "work_left s" arbitrary: s rule: less_induct)
  case less
  show ?case
  proof (cases "quiescent s")
    case False
    then obtain s1 where s1: "serve_step qs s s1" using serve_step_progress [OF less.prems] by blast
    from less.hyps [OF serve_step_decreases [OF s1 less.prems] queue_inv_serve [OF s1 less.prems]]
    show ?thesis using s1 by (blast intro: converse_rtranclp_into_rtranclp)
  qed blast
qed

lemma no_endless_service: "queue_inv qs (f 0) \<Longrightarrow> \<forall>n. serve_step qs (f n) (f (Suc n)) \<Longrightarrow> False"
proof -
  assume start: "queue_inv qs (f 0)" and steps: "\<forall>n. serve_step qs (f n) (f (Suc n))"
  have inv: "queue_inv qs (f n)" for n
    by (induction n) (use start steps queue_inv_serve in blast)+
  have "work_left (f (Suc n)) < work_left (f n)" for n
    using serve_step_decreases [of qs "f n" "f (Suc n)"] steps inv by blast
  then have "work_left (f n) + n \<le> work_left (f 0)" for n
    by (induction n) (simp, metis Suc_leI add_Suc_right add_Suc add_le_mono le_refl le_trans)
  from this [of "Suc (work_left (f 0))"] show False by simp
qed

text \<open>C9.
  Every admitted task is eventually executed: without new calls, the queue cannot go on for ever, it
  stops only when no call is pending, no task is queued, held or running and the worker sleeps with
  no wake-up outstanding, and then the finished tasks are exactly those a receipt was given for. In
  particular no wake-up is lost.
\<close>

theorem queue_drains:
  assumes "queue_reachable qs w s" and "\<not> w_locked w"
  shows "\<not> (\<exists>f. f 0 = s \<and> (\<forall>n. serve_step qs (f n) (f (Suc n))))
    \<and> (\<exists>s'. (serve_step qs)\<^sup>*\<^sup>* s s' \<and> \<not> (\<exists>s2. serve_step qs s' s2))
    \<and> (\<forall>s'. (serve_step qs)\<^sup>*\<^sup>* s s' \<and> \<not> (\<exists>s2. serve_step qs s' s2) \<longrightarrow>
         quiescent s' \<and> image_mset receipt_of (mset (q_done s')) = mset (q_receipts s'))"
proof (intro conjI)
  have inv: "queue_inv qs s" by (rule queue_inv_reachable [OF assms])
  then show "\<not> (\<exists>f. f 0 = s \<and> (\<forall>n. serve_step qs (f n) (f (Suc n))))" using no_endless_service by blast
  have stuck: "\<not> (\<exists>s2. serve_step qs s' s2)" if "quiescent s'" for s'
  proof
    assume "\<exists>s2. serve_step qs s' s2"
    then obtain s2 where "serve_step qs s' s2" ..
    then show False using that by cases (auto simp: quiescent_def)
  qed
  show "\<exists>s'. (serve_step qs)\<^sup>*\<^sup>* s s' \<and> \<not> (\<exists>s2. serve_step qs s' s2)"
    using serve_to_quiescence [OF inv] stuck by blast
  show "\<forall>s'. (serve_step qs)\<^sup>*\<^sup>* s s' \<and> \<not> (\<exists>s2. serve_step qs s' s2) \<longrightarrow>
         quiescent s' \<and> image_mset receipt_of (mset (q_done s')) = mset (q_receipts s')"
  proof (intro allI impI)
    fix s' assume run: "(serve_step qs)\<^sup>*\<^sup>* s s' \<and> \<not> (\<exists>s2. serve_step qs s' s2)"
    then have inv': "queue_inv qs s'" using serve_steps_inv inv by blast
    with run have q: "quiescent s'" using serve_step_progress by blast
    with inv' show "quiescent s' \<and> image_mset receipt_of (mset (q_done s')) = mset (q_receipts s')"
      by (simp add: queue_inv_alt receipts_ok_def in_flight_def held_task_def tasks_of_def quiescent_def)
  qed
qed

section \<open>Races of the depth counter\<close>

lemma reach_admit: "queue_reachable qs w s \<Longrightarrow> admit_step qs s s' \<Longrightarrow> queue_reachable qs w s'"
  unfolding queue_reachable_def by (erule rtranclp.rtrancl_into_rtrancl) (simp add: queue_step_def)

lemma reach_serve: "queue_reachable qs w s \<Longrightarrow> serve_step qs s s' \<Longrightarrow> queue_reachable qs w s'"
  unfolding queue_reachable_def by (erule rtranclp.rtrancl_into_rtrancl) (simp add: queue_step_def)

lemma take_first:
  assumes "buckets_ok b" and "queue_order b = t # ts"
  shows "\<exists>b'. next_queued_task b = Some (t, b') \<and> buckets_ok b' \<and> queue_order b' = ts"
  using bq.take_none [OF assms(1)] bq.take_some [OF assms(1)] assms(2)
  by (cases "next_queued_task b") fastforce+

text \<open>\<open>n\<close> calls that all passed the check before any of them counted its task.\<close>

definition burst_state :: "queue_setup \<Rightarrow> queue_task \<Rightarrow> nat \<Rightarrow> qsys \<Rightarrow> bool" where
  "burst_state qs t n s \<longleftrightarrow> \<not> w_locked (q_world s) \<and> buckets_ok (q_buckets s) \<and> queue_order (q_buckets s) = replicate n t
     \<and> q_calls s = replicate n (Pushed t) \<and> q_depth s = 0 \<and> q_worker s = Waiting \<and> \<not> q_notified s
     \<and> q_permits s = queue_permits qs \<and> q_running s = []"

lemma burst_reachable:
  assumes "\<not> w_locked w"
  shows "\<exists>s. queue_reachable qs w s \<and> burst_state qs t n s"
proof (induction n)
  case 0
  have "burst_state qs t 0 (new_queue qs w)"
    using assms by (simp add: burst_state_def new_queue_def bq.empty)
  then show ?case by (auto simp: queue_reachable_def)
next
  case (Suc n)
  then obtain s where reach: "queue_reachable qs w s" and s: "burst_state qs t n s" by blast
  let ?s1 = "s\<lparr>q_calls := q_calls s @ [Admitted t]\<rparr>"
  have "\<not> queue_full qs s" using s by (simp add: burst_state_def queue_full_def max_pending_def)
  then have r1: "queue_reachable qs w ?s1" by (intro reach_admit [OF reach] admit_step.Admit)
  obtain w' where w': "store_queue_task (qs_env qs) t ''queued'' (q_world ?s1) = (Ok (), w')" "\<not> w_locked w'"
    using store_queue_task_ok [of "q_world s" "qs_env qs" t] s by (auto simp: burst_state_def)
  let ?s2 = "?s1\<lparr>q_world := w', q_calls := (q_calls ?s1)[n := Stored t]\<rparr>"
  have "serve_step qs ?s1 ?s2"
    using s w'(1) by (intro serve_step.Store) (simp_all add: burst_state_def nth_append)
  then have r2: "queue_reachable qs w ?s2" by (rule reach_serve [OF r1])
  let ?s3 = "?s2\<lparr>q_buckets := push_task t (q_buckets ?s2), q_calls := (q_calls ?s2)[n := Pushed t]\<rparr>"
  have "serve_step qs ?s2 ?s3"
    using s by (intro serve_step.Push) (simp_all add: burst_state_def nth_append)
  then have r3: "queue_reachable qs w ?s3" by (rule reach_serve [OF r2])
  have "insert_by_priority t (replicate n t) = replicate n t @ [t]"
    using insert_between [of "replicate n t" t "[]"] by simp
  then have "burst_state qs t (Suc n) ?s3"
    using s w'(2) by (simp add: burst_state_def order_push push_ok list_update_append replicate_append_same)
  with r3 show ?case by blast
qed

text \<open>
  The bound of the queue is not enforced: the check reads the counter, the task is counted only
  after it was stored and pushed, and any number of concurrent calls may pass the check in between.
  For every \<open>n\<close> there is an interleaving in which \<open>n\<close> tasks are queued.
\<close>

theorem queue_bound_not_enforced:
  assumes "\<not> w_locked w"
  shows "\<exists>s. queue_reachable qs w s \<and> length (queue_order (q_buckets s)) = n \<and> q_depth s = 0 \<and> \<not> queue_full qs s"
proof -
  obtain s where "queue_reachable qs w s" "burst_state qs t n s" using burst_reachable [OF assms] by blast
  then show ?thesis by (intro exI [of _ s]) (simp add: burst_state_def queue_full_def max_pending_def)
qed

text \<open>
  The counter can fall below zero: a task may be popped, executed and subtracted before the call that
  pushed it has added it, and the subtraction of the unsigned counter wraps. Then an empty queue
  answers \<open>queue is full\<close>.
\<close>

theorem queue_depth_underflows:
  assumes "\<not> w_locked w" and "max_pending qs < 2 ^ 64"
  shows "\<exists>s. queue_reachable qs w s \<and> in_flight s = [] \<and> unat (q_depth s) = 2 ^ 64 - 1 \<and> queue_full qs s"
proof -
  fix t :: queue_task
  obtain s0 where r0: "queue_reachable qs w s0" and b: "burst_state qs t 2 s0" using burst_reachable [OF assms(1)] by blast
  note two = b [unfolded burst_state_def numeral_2_eq_2, simplified]
  obtain k where k: "queue_permits qs = Suc k" by (cases "queue_permits qs") (auto simp: queue_permits_def)
  obtain b1 where b1: "next_queued_task (q_buckets s0) = Some (t, b1)" "buckets_ok b1" "queue_order b1 = [t]"
    using take_first [of "q_buckets s0" t "[t]"] two by auto
  obtain b2 where b2: "next_queued_task b1 = Some (t, b2)" "queue_order b2 = []"
    using take_first [OF b1(2,3)] by auto
  let ?s1 = "s0\<lparr>q_depth := q_depth s0 + 1, q_calls := (q_calls s0)[0 := Counted t]\<rparr>"
  have r1: "queue_reachable qs w ?s1" by (rule reach_serve [OF r0 serve_step.Count]) (use two in simp_all)
  let ?s2 = "?s1\<lparr>q_notified := True, q_calls := drop_at 0 (q_calls ?s1), q_receipts := q_receipts ?s1 @ [receipt_of t]\<rparr>"
  have r2: "queue_reachable qs w ?s2" by (rule reach_serve [OF r1 serve_step.Wake]) (use two in simp_all)
  let ?s3 = "?s2\<lparr>q_worker := Draining, q_notified := False\<rparr>"
  have r3: "queue_reachable qs w ?s3" by (rule reach_serve [OF r2 serve_step.Notified]) (use two in simp_all)
  let ?s4 = "?s3\<lparr>q_worker := Holding t, q_buckets := b1\<rparr>"
  have r4: "queue_reachable qs w ?s4" by (rule reach_serve [OF r3 serve_step.Take]) (use b1 in simp_all)
  let ?s5 = "?s4\<lparr>q_worker := Draining, q_permits := k, q_running := q_running ?s4 @ [t]\<rparr>"
  have r5: "queue_reachable qs w ?s5" by (rule reach_serve [OF r4 serve_step.Spawn]) (use two k in simp_all)
  obtain w5 where w5: "run_queued_task (qs_env qs) (qs_tools qs) (qs_brain qs) t (q_world ?s5) = (Ok (), w5)" "\<not> w_locked w5"
    using run_queued_task_ok [of "q_world s0" "qs_env qs" "qs_tools qs" "qs_brain qs" t] two by auto
  let ?s6 = "?s5\<lparr>q_world := w5, q_running := drop_at 0 (q_running ?s5), q_done := q_done ?s5 @ [t],
       q_permits := Suc (q_permits ?s5), q_depth := q_depth ?s5 - 1\<rparr>"
  have r6: "queue_reachable qs w ?s6" by (rule reach_serve [OF r5 serve_step.Finish]) (use two w5 in simp_all)
  let ?s7 = "?s6\<lparr>q_worker := Holding t, q_buckets := b2\<rparr>"
  have r7: "queue_reachable qs w ?s7" by (rule reach_serve [OF r6 serve_step.Take]) (use b2 in simp_all)
  let ?s8 = "?s7\<lparr>q_worker := Draining, q_permits := k, q_running := q_running ?s7 @ [t]\<rparr>"
  have r8: "queue_reachable qs w ?s8" by (rule reach_serve [OF r7 serve_step.Spawn]) simp_all
  obtain w8 where w8: "run_queued_task (qs_env qs) (qs_tools qs) (qs_brain qs) t (q_world ?s8) = (Ok (), w8)"
    using run_queued_task_ok [OF w5(2), of "qs_env qs" "qs_tools qs" "qs_brain qs" t] by auto
  let ?s9 = "?s8\<lparr>q_world := w8, q_running := drop_at 0 (q_running ?s8), q_done := q_done ?s8 @ [t],
       q_permits := Suc (q_permits ?s8), q_depth := q_depth ?s8 - 1\<rparr>"
  have r9: "queue_reachable qs w ?s9" by (rule reach_serve [OF r8 serve_step.Finish]) (use two w8 in \<open>simp_all add: drop_at_def\<close>)
  have "in_flight ?s9 = []" using b2 two by (simp add: in_flight_def held_task_def drop_at_def)
  moreover have "unat (q_depth ?s9) = 2 ^ 64 - 1" using two by (simp add: unsigned_minus_1_eq_mask mask_eq_exp_minus_1)
  moreover from this assms(2) have "queue_full qs ?s9" by (simp add: queue_full_def)
  ultimately show ?thesis using r9 by blast
qed

section \<open>Witnesses\<close>

definition sample_queue :: queue_setup where
  "sample_queue = \<lparr>qs_env = demo_env, qs_tools = sample_executor, qs_brain = demo_brain, qs_max_inflight = 8\<rparr>"

lemma sample_burst: "\<exists>s. queue_reachable sample_queue boot_world s \<and> burst_state sample_queue (sample_task Autonomy ''t'') 3 s"
  by (rule burst_reachable) simp

theorem queue_conserves_tasks_witness:
  "\<exists>s :: qsys. q_calls s = replicate 3 (Pushed (sample_task Autonomy ''t'')) \<and> length (q_running s) + q_permits s = 8
     \<and> q_depth s = of_nat (length (in_flight s)) - of_nat (length (tasks_of uncounted_task s))"
proof -
  obtain s where "queue_reachable sample_queue boot_world s" "burst_state sample_queue (sample_task Autonomy ''t'') 3 s"
    using sample_burst by blast
  then show ?thesis using queue_conserves_tasks [of sample_queue boot_world s]
    by (intro exI [of _ s]) (simp add: burst_state_def sample_queue_def)
qed

theorem queue_drains_witness:
  "\<exists>s :: qsys. q_calls s = replicate 3 (Pushed (sample_task Autonomy ''t''))
     \<and> (\<exists>s'. (serve_step sample_queue)\<^sup>*\<^sup>* s s' \<and> \<not> (\<exists>s2. serve_step sample_queue s' s2) \<and> quiescent s')"
proof -
  obtain s where s: "queue_reachable sample_queue boot_world s" "burst_state sample_queue (sample_task Autonomy ''t'') 3 s"
    using sample_burst by blast
  have "q_calls s = replicate 3 (Pushed (sample_task Autonomy ''t''))" using s(2) by (simp add: burst_state_def)
  moreover have "\<exists>s'. (serve_step sample_queue)\<^sup>*\<^sup>* s s' \<and> \<not> (\<exists>s2. serve_step sample_queue s' s2) \<and> quiescent s'"
    using queue_drains [OF s(1)] by auto
  ultimately show ?thesis by blast
qed

theorem queue_bound_not_enforced_witness:
  "\<exists>s :: qsys. length (queue_order (q_buckets s)) = 1000 \<and> max_pending sample_queue = 64 \<and> \<not> queue_full sample_queue s"
  using queue_bound_not_enforced [of boot_world sample_queue 1000] by (auto simp: sample_queue_def max_pending_def)

theorem queue_depth_underflows_witness:
  "\<exists>s :: qsys. in_flight s = [] \<and> queue_full sample_queue s"
  using queue_depth_underflows [of boot_world sample_queue] by (auto simp: sample_queue_def max_pending_def)

end
