(* ===== verification/Sandbox.thy ===== *)
theory Sandbox
  imports Tools
begin

text \<open>
  The sandbox crate (\<open>sandbox/src/lib.rs\<close> and \<open>sandbox/src/backends\<close>): which backend the
  manager picks, the prerequisites each one reports, and how it runs a command - the Firecracker
  backend by the sequence of API requests that boots the guest, the other two by a helper binary.
  What the host system answers is the parameter \<open>host\<close>.
\<close>

section \<open>The host\<close>

text \<open>
  How a process ended, its output as \<open>from_utf8_lossy\<close> decodes it. \<open>ho_dot_owner\<close> is the owner
  of the current directory, \<open>ho_socket n\<close> whether the API socket exists at the \<open>n\<close>-th look,
  \<open>ho_exchange\<close> what the n-th exchange over it gives (or at which step it failed), \<open>ho_wait\<close> how the
  jailer ended (\<open>None\<close>: not within 90 seconds).
\<close>

record process_output =
  po_success :: bool
  po_code :: "int option"
  po_stdout :: string
  po_stderr :: string

record host =
  ho_os :: string
  ho_which :: "string \<Rightarrow> bool"
  ho_exists :: "string \<Rightarrow> bool"
  ho_dot_owner :: "nat option"
  ho_temp_dir :: "string \<Rightarrow> string option"
  ho_uuid :: string
  ho_b64url :: "string \<Rightarrow> string"
  ho_print :: "json \<Rightarrow> string"
  ho_spawn :: "string list \<Rightarrow> bool"
  ho_socket :: "nat \<Rightarrow> bool"
  ho_exchange :: "nat \<Rightarrow> string \<Rightarrow> error + string"
  ho_wait :: "(error + process_output) option"
  ho_helper :: "string \<Rightarrow> string \<Rightarrow> error + process_output"

text \<open>What a run did to the host: the processes started, the looks at the socket, the requests.\<close>

record run_log =
  rl_spawned :: "string list list"
  rl_looks :: nat
  rl_requests :: "(string \<times> string \<times> string) list"

definition no_log :: run_log where
  "no_log = \<lparr>rl_spawned = [], rl_looks = 0, rl_requests = []\<rparr>"

type_synonym 'a run = "(run_log, 'a) act"

record sandbox_health =
  sh_backend :: string
  sh_missing :: "string list"

definition bool_text :: "bool \<Rightarrow> string" where
  "bool_text b = (if b then ''true'' else ''false'')"

section \<open>The Firecracker backend\<close>

definition nix_like_uid :: "host \<Rightarrow> nat" where
  "nix_like_uid h = (case ho_dot_owner h of None \<Rightarrow> 0 | Some uid \<Rightarrow> uid)"

definition image_missing :: "host \<Rightarrow> string \<Rightarrow> string \<Rightarrow> string \<Rightarrow> string list" where
  "image_missing h unset label img =
     (if img = [] then [unset] else if \<not> ho_exists h img then [label @ img] else [])"

definition linux_missing :: "host \<Rightarrow> sandbox_config \<Rightarrow> string list" where
  "linux_missing h c =
     (if \<not> ho_which h (sb_firecracker_path c) then [''firecracker binary not found: '' @ sb_firecracker_path c] else [])
   @ (if \<not> ho_which h (sb_jailer_path c) then [''jailer binary not found: '' @ sb_jailer_path c] else [])
   @ (if ls_containerd_in_guest (sb_linux c) \<and> \<not> ho_which h (sb_containerd_path c)
      then [''containerd binary not found: '' @ sb_containerd_path c] else [])
   @ image_missing h ''sandbox.kernel_image is not configured'' ''kernel image not found: '' (sb_kernel_image c)
   @ image_missing h ''sandbox.rootfs_image is not configured'' ''rootfs image not found: '' (sb_rootfs_image c)
   @ (if sb_seccomp_profile c \<noteq> [] \<and> \<not> ho_exists h (sb_seccomp_profile c)
      then [''seccomp profile not found: '' @ sb_seccomp_profile c] else [])
   @ (if nix_like_uid h \<noteq> 0 then [''Linux Firecracker backend expects root or equivalent privileges for jailer''] else [])"

definition strs_json :: "string list \<Rightarrow> json" where
  "strs_json xs = JArr (map JStr xs)"

definition env_json :: "(string \<times> string) list \<Rightarrow> json" where
  "env_json vars = JArr (map (\<lambda>(k, v). JArr [JStr k, JStr v]) vars)"

definition archive_json :: "string option \<Rightarrow> json" where
  "archive_json archive = (case archive of None \<Rightarrow> JNull | Some a \<Rightarrow> JStr a)"

definition guest_payload :: "sandbox_command \<Rightarrow> json" where
  "guest_payload c = JObj [(''program'', JStr (sbc_program c)), (''args'', strs_json (sbc_args c)),
     (''env'', env_json (sbc_env c)), (''allow_network'', JBool (sbc_allow_network c)),
     (''workspace_archive_b64'', archive_json (sbc_workspace_archive_b64 c))]"

definition jailer_command :: "sandbox_config \<Rightarrow> string \<Rightarrow> string \<Rightarrow> string list" where
  "jailer_command c vm_id session = [sb_jailer_path c, ''--id'', vm_id, ''--exec-file'', sb_firecracker_path c,
     ''--uid'', ''0'', ''--gid'', ''0'', ''--chroot-base-dir'', path_join session ''jailer'', ''--'',
     ''--api-sock'', path_join session ''firecracker.socket'']"

definition spawn :: "host \<Rightarrow> string list \<Rightarrow> unit run" where
  "spawn h command = (\<lambda>l. (if ho_spawn h command then Ok () else Err (Msg ''failed to spawn jailer''),
     if ho_spawn h command then l\<lparr>rl_spawned := rl_spawned l @ [command]\<rparr> else l))"

definition socket_exists :: "host \<Rightarrow> bool run" where
  "socket_exists h = (\<lambda>l. (Ok (ho_socket h (rl_looks l)), l\<lparr>rl_looks := Suc (rl_looks l)\<rparr>))"

fun wait_for_socket :: "nat \<Rightarrow> host \<Rightarrow> string \<Rightarrow> unit run" where
  "wait_for_socket 0 h path = fail (Msg (''firecracker API socket was not created at '' @ path))"
| "wait_for_socket (Suc n) h path = andthen (socket_exists h) (\<lambda>found. if found then ret () else wait_for_socket n h path)"

definition crlf :: string where
  "crlf = [CHR 0x0D, CHR 0x0A]"

definition http_text :: "string \<Rightarrow> string \<Rightarrow> string \<Rightarrow> string" where
  "http_text http_method path body = http_method @ '' '' @ path @ '' HTTP/1.1'' @ crlf @ ''Host: localhost'' @ crlf
     @ ''Accept: application/json'' @ crlf @ ''Content-Type: application/json'' @ crlf
     @ ''Content-Length: '' @ dec (length body) @ crlf @ crlf @ body"

definition firecracker_request :: "host \<Rightarrow> string \<times> string \<times> string \<Rightarrow> unit run" where
  "firecracker_request h request = (case request of (http_method, path, body) \<Rightarrow>
     (\<lambda>l. (case ho_exchange h (length (rl_requests l)) (http_text http_method path body) of
         Inl e \<Rightarrow> Err e
       | Inr response \<Rightarrow>
           if starts_with response ''HTTP/1.1 204'' \<or> starts_with response ''HTTP/1.1 200'' then Ok ()
           else Err (Msg (''Firecracker API call failed for '' @ path @ '': '' @ response)),
       l\<lparr>rl_requests := rl_requests l @ [request]\<rparr>)))"

text \<open>The bodies are put together as text: a quote in a configured path is not escaped.\<close>

definition quoted :: "string \<Rightarrow> string" where
  "quoted s = CHR 0x22 # s @ [CHR 0x22]"

definition boot_arguments :: "string \<Rightarrow> string" where
  "boot_arguments payload =
     ''console=ttyS0 reboot=k panic=1 pci=off quiet init=/sbin/openpinch-init openpinch_payload_b64='' @ payload"

definition machine_body :: string where
  "machine_body = ''{'' @ quoted ''vcpu_count'' @ '':1,'' @ quoted ''mem_size_mib'' @ '':512,'' @ quoted ''ht_enabled'' @ '':false}''"

definition boot_source_body :: "string \<Rightarrow> string \<Rightarrow> string" where
  "boot_source_body kernel_image arguments =
     ''{'' @ quoted ''kernel_image_path'' @ '':'' @ quoted kernel_image @ '','' @ quoted ''boot_args'' @ '':'' @ quoted arguments @ ''}''"

definition rootfs_body :: "string \<Rightarrow> string" where
  "rootfs_body img = ''{'' @ quoted ''drive_id'' @ '':'' @ quoted ''rootfs'' @ '','' @ quoted ''path_on_host'' @ '':''
     @ quoted img @ '','' @ quoted ''is_root_device'' @ '':true,'' @ quoted ''is_read_only'' @ '':true}''"

definition boot_requests :: "sandbox_config \<Rightarrow> string \<Rightarrow> (string \<times> string \<times> string) list" where
  "boot_requests c payload =
     [(''PUT'', ''/machine-config'', machine_body),
      (''PUT'', ''/boot-source'', boot_source_body (sb_kernel_image c) (boot_arguments payload)),
      (''PUT'', ''/drives/rootfs'', rootfs_body (sb_rootfs_image c))]
   @ (if sb_seccomp_profile c \<noteq> [] then [(''PUT'', ''/seccomp'', ''{'' @ quoted ''path'' @ '':'' @ quoted (sb_seccomp_profile c) @ ''}'')] else [])
   @ [(''PUT'', ''/actions'', ''{'' @ quoted ''action_type'' @ '':'' @ quoted ''InstanceStart'' @ ''}'')]"

definition wait_output :: "host \<Rightarrow> process_output res" where
  "wait_output h = (case ho_wait h of
       None \<Rightarrow> Err (Msg ''sandbox execution timed out'')
     | Some (Inl e) \<Rightarrow> Err (Msg ''failed to wait for jailer/firecracker process'')
     | Some (Inr out) \<Rightarrow> Ok out)"

definition process_result :: "process_output \<Rightarrow> string list \<Rightarrow> sandbox_output" where
  "process_result out logs = \<lparr>sbo_success = po_success out, sbo_exit_code = (case po_code out of None \<Rightarrow> -1 | Some c \<Rightarrow> c),
     sbo_stdout = po_stdout out, sbo_stderr = po_stderr out, sbo_logs = logs\<rparr>"

definition missing_error :: "string list \<Rightarrow> error" where
  "missing_error missing = Msg (''sandbox prerequisites missing: '' @ join '', '' missing)"

definition linux_execute :: "host \<Rightarrow> sandbox_config \<Rightarrow> string \<Rightarrow> sandbox_command \<Rightarrow> sandbox_output run" where
  "linux_execute h c workspace command =
     (let missing = linux_missing h c in
      if missing \<noteq> [] then fail (missing_error missing)
      else
        let vm_id = ''openpinch-'' @ ho_uuid h in
        andthen (lift_res (of_option (Msg ''failed to create sandbox session directory'') (ho_temp_dir h workspace))) (\<lambda>session.
        let payload = ho_b64url h (ho_print h (guest_payload command)) in
        andthen (spawn h (jailer_command c vm_id session)) (\<lambda>_.
        andthen (wait_for_socket 100 h (path_join session ''firecracker.socket'')) (\<lambda>_.
        andthen (for_each (firecracker_request h) (boot_requests c payload)) (\<lambda>_.
        andthen (lift_res (wait_output h)) (\<lambda>out.
        ret (process_result out [''sandbox backend: linux-firecracker'', ''vm id: '' @ vm_id,
          ''subject: '' @ sbc_subject command, ''capabilities: '' @ join '','' (sbc_capabilities command),
          ''containerd_in_guest: '' @ bool_text (ls_containerd_in_guest (sb_linux c))])))))))"

section \<open>The helper backends\<close>

definition helper_missing :: "host \<Rightarrow> string \<Rightarrow> string \<Rightarrow> string \<Rightarrow> string list" where
  "helper_missing h os unfit helper =
     (if ho_os h \<noteq> os then [unfit] else []) @ (if \<not> ho_which h helper then [helper @ '' helper not found on PATH''] else [])"

definition command_json :: "sandbox_command \<Rightarrow> json" where
  "command_json c = JObj [(''subject'', JStr (sbc_subject c)), (''capabilities'', strs_json (sbc_capabilities c)),
     (''program'', JStr (sbc_program c)), (''args'', strs_json (sbc_args c)), (''env'', env_json (sbc_env c)),
     (''allow_network'', JBool (sbc_allow_network c)), (''workspace_archive_b64'', archive_json (sbc_workspace_archive_b64 c))]"

definition helper_execute :: "host \<Rightarrow> string list \<Rightarrow> string \<Rightarrow> string \<Rightarrow> string \<Rightarrow> sandbox_command \<Rightarrow> sandbox_output run" where
  "helper_execute h missing helper failure backend command =
     (if missing \<noteq> [] then fail (missing_error missing)
      else (\<lambda>l. case ho_helper h helper (ho_print h (command_json command)) of
         Inl e \<Rightarrow> (Err (Msg failure), l)
       | Inr out \<Rightarrow> (Ok (process_result out [''sandbox backend: '' @ backend]), l\<lparr>rl_spawned := rl_spawned l @ [[helper]]\<rparr>)))"

definition macos_missing :: "host \<Rightarrow> string list" where
  "macos_missing h = helper_missing h ''macos'' ''native macOS virtualization backend requires macOS'' ''openpinch-vz-run''"

definition macos_execute :: "host \<Rightarrow> sandbox_command \<Rightarrow> sandbox_output run" where
  "macos_execute h = helper_execute h (macos_missing h) ''openpinch-vz-run''
     ''failed to execute macOS virtualization helper'' ''macos-virtualization''"

definition windows_missing :: "host \<Rightarrow> string list" where
  "windows_missing h = helper_missing h ''windows'' ''native Hyper-V backend requires Windows'' ''openpinch-hyperv-run''"

definition windows_execute :: "host \<Rightarrow> sandbox_command \<Rightarrow> sandbox_output run" where
  "windows_execute h = helper_execute h (windows_missing h) ''openpinch-hyperv-run''
     ''failed to execute Hyper-V helper'' ''windows-hyperv''"

section \<open>The manager\<close>

datatype sandbox_backend = Linux_Firecracker | MacOs_Virtualization | Windows_HyperV

definition select_backend :: "host \<Rightarrow> sandbox_backend" where
  "select_backend h = (if ho_os h = ''linux'' then Linux_Firecracker
     else if ho_os h = ''macos'' then MacOs_Virtualization else Windows_HyperV)"

fun backend_health :: "host \<Rightarrow> sandbox_config \<Rightarrow> sandbox_backend \<Rightarrow> sandbox_health" where
  "backend_health h c Linux_Firecracker = \<lparr>sh_backend = ''linux-firecracker'', sh_missing = linux_missing h c\<rparr>"
| "backend_health h c MacOs_Virtualization = \<lparr>sh_backend = ''macos-virtualization'', sh_missing = macos_missing h\<rparr>"
| "backend_health h c Windows_HyperV = \<lparr>sh_backend = ''windows-hyperv'', sh_missing = windows_missing h\<rparr>"

fun backend_execute :: "host \<Rightarrow> sandbox_config \<Rightarrow> string \<Rightarrow> sandbox_command \<Rightarrow> sandbox_backend \<Rightarrow> sandbox_output run" where
  "backend_execute h c workspace command Linux_Firecracker = linux_execute h c workspace command"
| "backend_execute h c workspace command MacOs_Virtualization = macos_execute h command"
| "backend_execute h c workspace command Windows_HyperV = windows_execute h command"

definition sandbox_workspace :: "openpinch_paths \<Rightarrow> string" where
  "sandbox_workspace paths = path_join (pa_runtime_dir paths) ''sandbox''"

definition manager_health :: "host \<Rightarrow> sandbox_config \<Rightarrow> sandbox_health" where
  "manager_health h c = backend_health h c (select_backend h)"

definition manager_execute :: "host \<Rightarrow> sandbox_config \<Rightarrow> openpinch_paths \<Rightarrow> sandbox_command \<Rightarrow> sandbox_output run" where
  "manager_execute h c paths command = backend_execute h c (sandbox_workspace paths) command (select_backend h)"

section \<open>What a run does\<close>

definition accepted_reply :: "host \<Rightarrow> nat \<Rightarrow> string \<times> string \<times> string \<Rightarrow> bool" where
  "accepted_reply h i request = (case request of (http_method, path, body) \<Rightarrow>
     (case ho_exchange h i (http_text http_method path body) of Inl _ \<Rightarrow> False
      | Inr response \<Rightarrow> starts_with response ''HTTP/1.1 204'' \<or> starts_with response ''HTTP/1.1 200''))"

lemma firecracker_request_run:
  "firecracker_request h q l = (r, l') \<Longrightarrow> returns r \<and> l' = l\<lparr>rl_requests := rl_requests l @ [q]\<rparr>
     \<and> (is_ok r \<longleftrightarrow> accepted_reply h (length (rl_requests l)) q)"
  by (auto simp: firecracker_request_def accepted_reply_def split: prod.splits sum.splits if_splits)

text \<open>The requests are sent in order, each after the one before it was accepted.\<close>

lemma requests_in_order:
  "for_each (firecracker_request h) qs l = (r, l') \<Longrightarrow>
     returns r \<and> rl_spawned l' = rl_spawned l \<and> rl_looks l' = rl_looks l
     \<and> (\<exists>n\<le>length qs. rl_requests l' = rl_requests l @ take n qs
          \<and> (\<forall>i. Suc i < n \<longrightarrow> accepted_reply h (length (rl_requests l) + i) (qs ! i))
          \<and> (is_ok r \<longrightarrow> n = length qs \<and> (\<forall>i<n. accepted_reply h (length (rl_requests l) + i) (qs ! i))))"
proof (induction qs arbitrary: l)
  case Nil
  then show ?case by (auto simp: run_simps)
next
  case (Cons q qs)
  obtain r1 l1 where q: "firecracker_request h q l = (r1, l1)" by (cases "firecracker_request h q l")
  note f = firecracker_request_run [OF q]
  show ?case
  proof (cases "is_ok r1")
    case False
    with Cons.prems q f have "r = r1 \<or> (\<exists>e. r = Err e)" "l' = l1" "\<not> is_ok r" "returns r"
      by (cases r1; simp add: andthen_run; fail)+
    with f show ?thesis by (intro conjI exI [of _ 1]) (auto simp: take_Suc_conv_app_nth)
  next
    case True
    then obtain u where u: "r1 = Ok u" by (cases r1) auto
    with Cons.prems q have rest: "for_each (firecracker_request h) qs l1 = (r, l')" by (simp add: andthen_run)
    from Cons.IH [OF this] obtain n where n: "n \<le> length qs" "rl_requests l' = rl_requests l1 @ take n qs"
      "\<forall>i. Suc i < n \<longrightarrow> accepted_reply h (length (rl_requests l1) + i) (qs ! i)"
      "is_ok r \<longrightarrow> n = length qs \<and> (\<forall>i<n. accepted_reply h (length (rl_requests l1) + i) (qs ! i))"
      and rest': "returns r" "rl_spawned l' = rl_spawned l1" "rl_looks l' = rl_looks l1" by blast
    from f True have acc: "accepted_reply h (length (rl_requests l)) q" by blast
    have len: "length (rl_requests l1) = Suc (length (rl_requests l))" using f by simp
    have step: "accepted_reply h (length (rl_requests l) + i) ((q # qs) ! i)"
      if "\<And>j. i = Suc j \<Longrightarrow> accepted_reply h (length (rl_requests l1) + j) (qs ! j)" for i
      using that acc len by (cases i) auto
    show ?thesis
      using n(1,2) rest' f step n(3,4)
      by (intro conjI exI [of _ "Suc n"]) auto
  qed
qed

lemma wait_for_socket_run:
  "wait_for_socket n h path l = (r, l') \<Longrightarrow> returns r \<and> rl_spawned l' = rl_spawned l \<and> rl_requests l' = rl_requests l
     \<and> rl_looks l' \<le> rl_looks l + n"
proof (induction n arbitrary: l)
  case (Suc n)
  show ?case
  proof (cases "ho_socket h (rl_looks l)")
    case True
    with Suc.prems show ?thesis by (auto simp: andthen_run socket_exists_def run_simps)
  next
    case False
    with Suc.prems have "wait_for_socket n h path (l\<lparr>rl_looks := Suc (rl_looks l)\<rparr>) = (r, l')"
      by (simp add: andthen_run socket_exists_def)
    from Suc.IH [OF this] show ?thesis by simp
  qed
qed (auto simp: run_simps)


definition sample_host :: host where
  "sample_host = \<lparr>ho_os = ''linux'', ho_which = (\<lambda>_. True), ho_exists = (\<lambda>_. True), ho_dot_owner = Some 0,
     ho_temp_dir = (\<lambda>ws. Some (ws @ ''/s'')), ho_uuid = ''0'', ho_b64url = (\<lambda>s. s), ho_print = demo_print, ho_spawn = (\<lambda>_. True),
     ho_socket = (\<lambda>n. 2 \<le> n), ho_exchange = (\<lambda>n _. Inr ''HTTP/1.1 204 No Content''),
     ho_wait = Some (Inr \<lparr>po_success = True, po_code = Some 0, po_stdout = ''ok'', po_stderr = []\<rparr>),
     ho_helper = (\<lambda>_ _. Inl (Msg ''no helper''))\<rparr>"

definition sample_sandbox :: sandbox_config where
  "sample_sandbox = default_sandbox\<lparr>sb_kernel_image := ''/k'', sb_rootfs_image := ''/r'', sb_seccomp_profile := ''/s''\<rparr>"

definition sample_command :: sandbox_command where
  "sample_command = \<lparr>sbc_subject = ''builtin.command'', sbc_capabilities = [''shell.execute''], sbc_program = ''ls'', sbc_args = [],
     sbc_env = [], sbc_allow_network = False, sbc_workspace_archive_b64 = None\<rparr>"

lemma sample_run_ok: "is_ok (fst (linux_execute sample_host sample_sandbox ''/ws'' sample_command no_log))"
  by code_simp


end
