(* ===== verification/Engine.thy ===== *)
theory Engine
  imports Queue Protocol Sandbox
begin

text \<open>
  The engine's runtime (\<open>EngineRuntime\<close> of \<open>engine/src/lib.rs\<close>): how the components are put
  together, the path of a message from a connector to a reply, and the operations the RPC layer
  exposes, each of them the composition of component operations the code has.
\<close>

section \<open>The runtime and its records\<close>

record engine =
  en_config :: app_config
  en_paths :: openpinch_paths
  en_tools :: tool_executor
  en_orchestrator :: orchestrator
  en_brain :: brain_manager
  en_encryption :: encryption_manager
  en_started_at :: instant

record inbound_result =
  ir_accepted :: bool
  ir_message_id :: string
  ir_session_id :: string
  ir_pairing_id :: string
  ir_delivery_state :: string
  ir_reply :: string

record runtime_status =
  rs_status :: string
  rs_version :: string
  rs_runtime_endpoint :: string
  rs_gateway_endpoint :: string
  rs_enabled_connectors :: "string list"
  rs_available_model_backends :: "string list"
  rs_uptime_seconds :: int
  rs_started_at :: instant
  rs_data_dir :: string
  rs_log_file :: string
  rs_vector_memory_backend :: string
  rs_encryption_state :: string
  rs_audit_mode :: string
  rs_attestation_state :: string

record health_response =
  hr_status :: string
  hr_missing_prerequisites :: "string list"
  hr_sandbox_backend :: string
  hr_vector_memory_backend :: string
  hr_encryption_state :: string
  hr_audit_mode :: string

record doctor_finding =
  df_id :: string
  df_component :: string
  df_severity :: string
  df_status :: string
  df_summary :: string
  df_detail :: string

record doctor_report =
  dr_status :: string
  dr_findings :: "doctor_finding list"

record model_profile_record =
  mpr_name :: string
  mpr_provider_order :: "string list"
  mpr_mode :: string
  mpr_timeout_seconds :: nat
  mpr_retry_budget :: nat
  mpr_hosted :: bool
  mpr_auth_mode :: string
  mpr_default_profile :: bool

record role_binding =
  rbi_subject :: string
  rbi_roles :: "string list"

text \<open>
  \<open>bootstrap\<close>: the tools load the capability matrix, the store is opened, the key is loaded or made,
  the brain seeds its baseline. Creating the directories and the tables is not modelled: the world
  starts with them.
\<close>

definition make_engine ::
  "app_config \<Rightarrow> openpinch_paths \<Rightarrow> tool_executor \<Rightarrow> encryption_manager \<Rightarrow> brain_manager \<Rightarrow> instant \<Rightarrow> engine" where
  "make_engine config paths te em bm now = \<lparr>en_config = config, en_paths = paths, en_tools = te,
     en_orchestrator = new_orchestrator config (registry_from_config (cfg_models config)) em,
     en_brain = bm, en_encryption = em, en_started_at = now\<rparr>"

definition bootstrap :: "env \<Rightarrow> app_config \<Rightarrow> openpinch_paths \<Rightarrow> engine io" where
  "bootstrap E config paths =
     andthen (new_tool_executor E config \<lparr>skl_config = cfg_skills config, skl_paths = paths\<rparr>) (\<lambda>te.
     andthen (load_or_init_encryption E config paths) (\<lambda>em.
     andthen (new_brain E config paths em) (\<lambda>bm.
     andthen (utc_now E) (\<lambda>now.
     ret (make_engine config paths te em bm now)))))"

definition engine_queue :: "env \<Rightarrow> engine \<Rightarrow> queue_setup" where
  "engine_queue E en = \<lparr>qs_env = E, qs_tools = en_tools en, qs_brain = en_brain en,
     qs_max_inflight = oc_max_inflight (cfg_orchestration (en_config en))\<rparr>"

section \<open>Tools and audit\<close>

definition engine_execute_tool :: "env \<Rightarrow> engine \<Rightarrow> tool_call \<Rightarrow> tool_outcome io" where
  "engine_execute_tool E en call =
     andthen (execute_tool_call E (en_tools en) call) (\<lambda>outcome.
     andthen (if to_success outcome then ignore_err (ingest_tool_result E (en_brain en) call outcome) else ret ()) (\<lambda>_.
     ret outcome))"

definition engine_execute_skill :: "env \<Rightarrow> engine \<Rightarrow> string \<Rightarrow> string \<Rightarrow> tool_outcome io" where
  "engine_execute_skill E en skill_id arguments_json = execute_skill_call E (en_tools en) skill_id arguments_json"

definition record_audit :: "env \<Rightarrow> string \<Rightarrow> string \<Rightarrow> string \<Rightarrow> f64 \<Rightarrow> string \<Rightarrow> unit io" where
  "record_audit E category severity summary anomaly_score payload_json =
     andthen (new_uuid E) (\<lambda>uuid.
     andthen (utc_now E) (\<lambda>now.
     record_audit_event \<lparr>ae_id = ''audit-'' @ uuid, ae_category = category, ae_severity = severity, ae_summary = summary,
       ae_anomaly_score = anomaly_score, ae_payload_json = payload_json, ae_created_at = now\<rparr>))"

definition audit_fields :: "env \<Rightarrow> (string \<times> string) list \<Rightarrow> string" where
  "audit_fields E kvs = E_json_print E (json_obj (map (\<lambda>(k, v). (k, JStr v)) kvs))"

section \<open>Inbound messages\<close>

definition resolve_session :: "env \<Rightarrow> engine \<Rightarrow> message_envelope \<Rightarrow> session_record io" where
  "resolve_session E en m = resolve_session_for_inbound E m (en_config en)
     (mf_default_profile (cfg_model_failover (en_config en)))"

definition pairing_exempt :: "engine \<Rightarrow> session_record \<Rightarrow> message_envelope \<Rightarrow> bool" where
  "pairing_exempt en s m \<longleftrightarrow> me_connector m = ''desktop'' \<or> s_session_type s \<noteq> ''direct''
     \<or> \<not> rc_auto_pair_dm (cfg_routing (en_config en)) \<or> \<not> cc_pair_dm (lookup_connector (en_config en) (me_connector m))"

definition allowlisted :: "engine \<Rightarrow> message_envelope \<Rightarrow> bool" where
  "allowlisted en m \<longleftrightarrow> me_sender m \<in> set (cc_allowlist (lookup_connector (en_config en) (me_connector m)))"

definition ensure_pairing_if_required :: "env \<Rightarrow> engine \<Rightarrow> session_record \<Rightarrow> message_envelope \<Rightarrow> string option io" where
  "ensure_pairing_if_required E en s m =
     (if pairing_exempt en s m then ret None
      else if allowlisted en m then
        andthen (clear_session_pending_pairing E (s_id s)) (\<lambda>_. ret None)
      else
        andthen (pairing_is_approved (me_connector m) (me_channel_id m) (me_sender m)) (\<lambda>approved.
        if approved then andthen (clear_session_pending_pairing E (s_id s)) (\<lambda>_. ret None)
        else
          andthen (ensure_pairing E (me_connector m) (me_channel_id m) (me_sender m) (s_id s)
            ''direct message not yet paired'') (\<lambda>pairing.
          andthen (set_session_pending_pairing E (s_id s) True) (\<lambda>_. ret (Some (p_id pairing))))))"

definition replies_to_us :: "env \<Rightarrow> message_envelope \<Rightarrow> bool" where
  "replies_to_us E m = (case E_json_parse E (me_metadata_json m) of None \<Rightarrow> False
     | Some metadata \<Rightarrow> Option.bind (json_get metadata ''reply_to_openpinch'') json_as_bool = Some True)"

definition mentions_us :: "env \<Rightarrow> engine \<Rightarrow> message_envelope \<Rightarrow> bool" where
  "mentions_us E en m = list_ex (\<lambda>name. contains (E_lower E (me_body m)) (E_lower E name))
     (rc_mention_names (cfg_routing (en_config en)))"

definition should_ignore_message :: "env \<Rightarrow> engine \<Rightarrow> session_record \<Rightarrow> message_envelope \<Rightarrow> bool" where
  "should_ignore_message E en s m \<longleftrightarrow> s_session_type s = ''group''
     \<and> (rc_mention_only_in_groups (cfg_routing (en_config en))
        \<or> cc_mention_only (lookup_connector (en_config en) (me_connector m)))
     \<and> \<not> replies_to_us E m \<and> \<not> mentions_us E en m"

definition model_route_for_session :: "engine \<Rightarrow> session_record \<Rightarrow> string list" where
  "model_route_for_session en s =
     (let config = en_config en; fallback = oc_provider_order (cfg_orchestration config);
          name = (if s_model_profile s = [] then mf_default_profile (cfg_model_failover config) else s_model_profile s) in
      case bt_get (cfg_model_profiles config) name of None \<Rightarrow> fallback
      | Some profile \<Rightarrow> if pf_provider_order profile = [] then fallback else pf_provider_order profile)"

text \<open>The prompt: everything before the message, and the message.\<close>

definition prompt_header :: "message_envelope \<Rightarrow> string \<Rightarrow> string \<Rightarrow> string" where
  "prompt_header m session_id context_pack =
     (let nl = [CHR 0x0A] in
      if context_pack = [] then ''You are OpenPinch, a local autonomous agent. Connector: '' @ me_connector m @ ''. Sender: ''
        @ me_sender m @ ''. Session: '' @ session_id @ ''. Message: ''
      else ''You are OpenPinch, a local autonomous agent.'' @ nl @ ''Connector: '' @ me_connector m @ nl @ ''Sender: ''
        @ me_sender m @ nl @ ''Session: '' @ session_id @ nl @ ''Relevant brain context:'' @ nl @ context_pack @ nl
        @ ''User message: '')"

definition message_prompt :: "message_envelope \<Rightarrow> string \<Rightarrow> string \<Rightarrow> string" where
  "message_prompt m session_id context_pack = prompt_header m session_id context_pack @ me_body m"

definition suggestion_suffix :: "nat \<Rightarrow> brain_suggestion_record list \<Rightarrow> string" where
  "suggestion_suffix limit suggestions = join [CHR 0x0A]
     (map (\<lambda>s. ''- '' @ bs_summary s @ '' ('' @ bs_reason s @ '')'') (take limit suggestions))"

definition with_suggestions :: "env \<Rightarrow> engine \<Rightarrow> string \<Rightarrow> string \<Rightarrow> string io" where
  "with_suggestions E en scope_json reply =
     (let brain = cfg_brain (en_config en); limit = bc_max_inline_suggestions brain in
      if \<not> bc_inline_suggestions_in_replies brain then ret reply
      else andthen (or_default (inline_suggestions E (en_brain en) scope_json limit) []) (\<lambda>suggestions.
        ret (if suggestions = [] then reply
             else reply @ [CHR 0x0A, CHR 0x0A] @ ''Next actions:'' @ [CHR 0x0A] @ suggestion_suffix limit suggestions)))"

definition delivered :: "string \<Rightarrow> session_record \<Rightarrow> string \<Rightarrow> string \<Rightarrow> string \<Rightarrow> inbound_result" where
  "delivered message_id s pairing_id state reply = \<lparr>ir_accepted = True, ir_message_id = message_id, ir_session_id = s_id s,
     ir_pairing_id = pairing_id, ir_delivery_state = state, ir_reply = reply\<rparr>"

definition pairing_reply :: string where
  "pairing_reply = ''Pairing request created. Approve it from the Control UI or `openpinch pairing approve <id>` before OpenPinch starts replying in this session.''"

definition deliver_reply ::
  "env \<Rightarrow> engine \<Rightarrow> message_envelope \<Rightarrow> session_record \<Rightarrow> string \<Rightarrow> string \<Rightarrow> orchestration_result \<Rightarrow> inbound_result io" where
  "deliver_reply E en m s message_id scope_json result =
     andthen (ignore_err (ingest_assistant_reply E (en_brain en) m (or_response result))) (\<lambda>_.
     andthen (with_suggestions E en scope_json (or_response result)) (\<lambda>reply.
     andthen (record_session_message E (s_id s) (me_connector m) ''assistant'' ''openpinch'' reply
       (audit_fields E [(''provider'', or_provider result), (''cache'', or_cache_tier result)])) (\<lambda>_.
     andthen (record_audit E ''connector.message'' ''info'' (''message handled via '' @ or_provider result) (5 / 100)
       (audit_fields E [(''connector'', me_connector m), (''provider'', or_provider result),
         (''cache'', or_cache_tier result), (''session_id'', s_id s)])) (\<lambda>_.
     ret (delivered message_id s [] ''replied'' reply)))))"

definition deliver_failure :: "env \<Rightarrow> session_record \<Rightarrow> string \<Rightarrow> error \<Rightarrow> inbound_result io" where
  "deliver_failure E s message_id e =
     andthen (record_audit E ''connector.message'' ''warning'' ''message handled without local model reply'' (45 / 100)
       (audit_fields E [(''error'', error_text e), (''session_id'', s_id s)])) (\<lambda>_.
     ret (delivered message_id s [] ''degraded''
       (''OpenPinch received the message but no local model backend produced a reply: '' @ error_text e)))"

definition answer_message :: "env \<Rightarrow> engine \<Rightarrow> message_envelope \<Rightarrow> session_record \<Rightarrow> string \<Rightarrow> inbound_result io" where
  "answer_message E en m s message_id =
     (let scope_json = scope_for_message E m in
      andthen (or_default (build_context_pack E (en_brain en) (me_body m) scope_json) []) (\<lambda>context_pack.
      andthen (attempt (generate_with_route E (en_orchestrator en) (message_prompt m (s_id s) context_pack) Connector
        (model_route_for_session en s))) (\<lambda>answer. case answer of
          Inr result \<Rightarrow> deliver_reply E en m s message_id scope_json result
        | Inl e \<Rightarrow> deliver_failure E s message_id e)))"

definition receive_message :: "env \<Rightarrow> engine \<Rightarrow> message_envelope \<Rightarrow> (session_record \<times> string) io" where
  "receive_message E en m =
     andthen (record_message E m) (\<lambda>_.
     andthen (resolve_session E en m) (\<lambda>s.
     andthen (record_session_message E (s_id s) (me_connector m) ''user'' (me_sender m) (me_body m) (me_metadata_json m)) (\<lambda>message_id.
     andthen (ignore_err (ingest_message E (en_brain en) m)) (\<lambda>_.
     ret (s, message_id)))))"

definition handle_message :: "env \<Rightarrow> engine \<Rightarrow> message_envelope \<Rightarrow> inbound_result io" where
  "handle_message E en m =
     andthen (receive_message E en m) (\<lambda>(s, message_id).
     andthen (ensure_pairing_if_required E en s m) (\<lambda>pairing. case pairing of
       Some pairing_id \<Rightarrow>
         andthen (record_audit E ''connector.pairing'' ''info'' ''pairing required before message delivery'' (12 / 100)
           (audit_fields E [(''connector'', me_connector m), (''sender'', me_sender m), (''session_id'', s_id s),
             (''pairing_id'', pairing_id)])) (\<lambda>_.
         ret (delivered message_id s pairing_id ''pairing_required'' pairing_reply))
     | None \<Rightarrow>
         if should_ignore_message E en s m then ret (delivered message_id s [] ''ignored'' [])
         else answer_message E en m s message_id))"

end
