(* ===== verification/Engine_Ops.thy ===== *)
theory Engine_Ops
  imports Engine
begin

text \<open>
  The other operations of \<open>EngineRuntime\<close> (\<open>engine/src/lib.rs\<close>): status, health and doctor report,
  memory, pairing and outbound messages, the brain's operations with their audit events,
  attestation, audit export, protocol runs and policy reports.
\<close>

section \<open>Status and health\<close>

definition num_seconds :: "int \<Rightarrow> int" where
  "num_seconds d = (if 0 \<le> d then d div 1000000000 else - ((- d) div 1000000000))"

definition enabled_connectors :: "app_config \<Rightarrow> string list" where
  "enabled_connectors config = map fst (filter (\<lambda>(_, c). cc_enabled c) (cfg_connectors config))"

definition engine_status :: "env \<Rightarrow> engine \<Rightarrow> string \<Rightarrow> runtime_status io" where
  "engine_status E en gateway_endpoint =
     andthen (utc_now E) (\<lambda>now.
     ret \<lparr>rs_status = ''running'', rs_version = ''0.1.0'',
       rs_runtime_endpoint = (if E_os E = ''windows'' then ''tcp://127.0.0.1:0'' else ''unix://'' @ pa_runtime_socket (en_paths en)),
       rs_gateway_endpoint = gateway_endpoint, rs_enabled_connectors = enabled_connectors (en_config en),
       rs_available_model_backends = enabled_names (oc_providers (en_orchestrator en)),
       rs_uptime_seconds = num_seconds (now - en_started_at en), rs_started_at = en_started_at en,
       rs_data_dir = pa_data_dir (en_paths en), rs_log_file = pa_log_file (en_paths en),
       rs_vector_memory_backend = oc_vector_backend (en_orchestrator en),
       rs_encryption_state = encryption_state (en_encryption en),
       rs_audit_mode = auc_mode (sec_audit (cfg_security (en_config en))),
       rs_attestation_state = attestation_state (en_encryption en)\<rparr>)"

definition engine_health :: "host \<Rightarrow> engine \<Rightarrow> health_response" where
  "engine_health h en =
     (let report = manager_health h (cfg_sandbox (en_config en)) in
      \<lparr>hr_status = (if sh_missing report = [] then ''ready'' else ''degraded''), hr_missing_prerequisites = sh_missing report,
       hr_sandbox_backend = sh_backend report, hr_vector_memory_backend = oc_vector_backend (en_orchestrator en),
       hr_encryption_state = encryption_state (en_encryption en),
       hr_audit_mode = auc_mode (sec_audit (cfg_security (en_config en)))\<rparr>)"

text \<open>\<open>serde\<close> writes a UTC time as \<open>to_rfc3339\<close> does, but with \<open>Z\<close> for the offset.\<close>

definition serde_time :: "env \<Rightarrow> instant \<Rightarrow> string" where
  "serde_time E t = (case strip_suffix (E_rfc3339 E t) ''+00:00'' of None \<Rightarrow> E_rfc3339 E t | Some s \<Rightarrow> s @ ''Z'')"

definition status_json :: "env \<Rightarrow> runtime_status \<Rightarrow> json" where
  "status_json E s = JObj [(''status'', JStr (rs_status s)), (''version'', JStr (rs_version s)),
     (''runtime_endpoint'', JStr (rs_runtime_endpoint s)), (''gateway_endpoint'', JStr (rs_gateway_endpoint s)),
     (''enabled_connectors'', strs_json (rs_enabled_connectors s)),
     (''available_model_backends'', strs_json (rs_available_model_backends s)),
     (''uptime_seconds'', JNum (of_int (rs_uptime_seconds s))), (''started_at'', JStr (serde_time E (rs_started_at s))),
     (''data_dir'', JStr (rs_data_dir s)), (''log_file'', JStr (rs_log_file s)),
     (''vector_memory_backend'', JStr (rs_vector_memory_backend s)), (''encryption_state'', JStr (rs_encryption_state s)),
     (''audit_mode'', JStr (rs_audit_mode s)), (''attestation_state'', JStr (rs_attestation_state s))]"

definition write_runtime_state :: "env \<Rightarrow> engine \<Rightarrow> string \<Rightarrow> string \<Rightarrow> unit io" where
  "write_runtime_state E en gateway_endpoint runtime_endpoint =
     andthen (engine_status E en gateway_endpoint) (\<lambda>status.
     write_file (pa_runtime_state_file (en_paths en))
       (E_json_pretty E (status_json E (status\<lparr>rs_runtime_endpoint := runtime_endpoint\<rparr>))))"

definition role_bindings :: "engine \<Rightarrow> role_binding list" where
  "role_bindings en = map (\<lambda>(subject, roles). \<lparr>rbi_subject = subject, rbi_roles = roles\<rparr>) (rb_role_bindings (cfg_rbac (en_config en)))"

definition model_profiles :: "engine \<Rightarrow> model_profile_record list" where
  "model_profiles en = map (\<lambda>(name, p). \<lparr>mpr_name = name, mpr_provider_order = pf_provider_order p, mpr_mode = pf_mode p,
     mpr_timeout_seconds = pf_timeout_seconds p, mpr_retry_budget = pf_retry_budget p, mpr_hosted = pf_hosted p,
     mpr_auth_mode = pf_auth_mode p, mpr_default_profile = (name = mf_default_profile (cfg_model_failover (en_config en)))\<rparr>)
     (cfg_model_profiles (en_config en))"

section \<open>The doctor\<close>

definition sandbox_findings :: "sandbox_health \<Rightarrow> doctor_finding list" where
  "sandbox_findings health =
     (if sh_missing health = [] then
        [\<lparr>df_id = ''sandbox-ready'', df_component = ''sandbox'', df_severity = ''info'', df_status = ''ready'',
          df_summary = ''sandbox prerequisites are satisfied'', df_detail = sh_backend health\<rparr>]
      else map (\<lambda>(index, missing). \<lparr>df_id = ''sandbox-'' @ dec index, df_component = ''sandbox'', df_severity = ''warning'',
          df_status = ''degraded'', df_summary = ''sandbox prerequisite missing'', df_detail = missing\<rparr>)
        (enumerate 0 (sh_missing health)))"

definition profile_finding :: "model_profile_record \<Rightarrow> doctor_finding" where
  "profile_finding p = \<lparr>df_id = ''model-profile-'' @ mpr_name p, df_component = ''models'',
     df_severity = (if mpr_provider_order p = [] then ''warning'' else ''info''),
     df_status = (if mpr_provider_order p = [] then ''degraded'' else ''configured''),
     df_summary = ''model profile '' @ mpr_name p,
     df_detail = ''mode='' @ mpr_mode p @ '' providers='' @ join '', '' (mpr_provider_order p)\<rparr>"

definition connector_finding :: "string \<times> connector_config \<Rightarrow> doctor_finding" where
  "connector_finding e = (case e of (name, c) \<Rightarrow> \<lparr>df_id = ''connector-'' @ name, df_component = ''connectors'',
     df_severity = (if cc_enabled c \<and> cc_deferred c then ''warning'' else ''info''),
     df_status = (if cc_enabled c then if cc_deferred c then ''deferred'' else ''enabled'' else ''disabled''),
     df_summary = ''connector '' @ name,
     df_detail = ''mode='' @ cc_mode c @ '' auth='' @ cc_auth_mode c @ '' pair_dm='' @ bool_text (cc_pair_dm c)\<rparr>)"

definition desktop_finding :: "app_config \<Rightarrow> doctor_finding" where
  "desktop_finding config = (let d = cfg_desktop config in
     \<lparr>df_id = ''desktop-host'', df_component = ''desktop.host'', df_severity = ''info'',
      df_status = (if dc_bundled_runtime d then ''bundled'' else ''external''), df_summary = ''desktop control surface'',
      df_detail = ''profile='' @ dc_profile_name d @ '' tray='' @ bool_text (dc_enable_tray d) @ '' notifications=''
        @ bool_text (dc_enable_notifications d) @ '' local_http='' @ gl_listen_address (g_local_http (cfg_gateway config))\<rparr>)"

definition doctor_findings :: "host \<Rightarrow> engine \<Rightarrow> bool \<Rightarrow> bool \<Rightarrow> bool \<Rightarrow> doctor_finding list" where
  "doctor_findings h en include_connectors include_models include_desktop =
     sandbox_findings (manager_health h (cfg_sandbox (en_config en)))
     @ (if include_models then map profile_finding (model_profiles en) else [])
     @ (if include_connectors then map connector_finding (cfg_connectors (en_config en)) else [])
     @ (if include_desktop then [desktop_finding (en_config en)] else [])"

definition engine_doctor :: "host \<Rightarrow> engine \<Rightarrow> bool \<Rightarrow> bool \<Rightarrow> bool \<Rightarrow> doctor_report" where
  "engine_doctor h en include_connectors include_models include_desktop =
     (let findings = doctor_findings h en include_connectors include_models include_desktop in
      \<lparr>dr_status = (if list_ex (\<lambda>f. df_severity f = ''warning'') findings then ''degraded'' else ''ready''),
       dr_findings = findings\<rparr>)"

section \<open>Memory, pairing, outbound messages\<close>

definition engine_query_memory :: "env \<Rightarrow> engine \<Rightarrow> memory_query \<Rightarrow> (memory_record list \<times> string) io" where
  "engine_query_memory E en q =
     andthen (query_memory E (en_encryption en) q) (\<lambda>records. ret (records, oc_vector_backend (en_orchestrator en)))"

definition engine_upsert_memory :: "env \<Rightarrow> engine \<Rightarrow> string \<Rightarrow> string \<Rightarrow> string \<Rightarrow> string \<Rightarrow> string io" where
  "engine_upsert_memory E en namespace key content metadata_json =
     andthen (upsert_memory E (en_encryption en) namespace key content metadata_json) (\<lambda>digest.
     andthen (record_audit E ''memory.upsert'' ''info'' ''vector memory record stored'' (5 / 100)
       (audit_fields E [(''namespace'', namespace), (''key'', key), (''digest'', digest)])) (\<lambda>_.
     ret digest))"

definition engine_update_pairing :: "env \<Rightarrow> pairing_update \<Rightarrow> pairing_record io" where
  "engine_update_pairing E req =
     andthen (update_pairing E req) (\<lambda>pairing.
     andthen (record_audit E ''connector.pairing'' ''info'' ''pairing updated'' (6 / 100)
       (audit_fields E [(''pairing_id'', p_id pairing), (''status'', p_status pairing)])) (\<lambda>_.
     ret pairing))"

definition record_outbound_message :: "env \<Rightarrow> engine \<Rightarrow> outbound_message \<Rightarrow> outbound_message_result io" where
  "record_outbound_message E en req =
     andthen (if om_session_id req = [] then
         resolve_session_for_outbound E (om_connector req) (om_channel_id req) (om_sender req) (en_config en)
       else session_by_id (om_session_id req)) (\<lambda>s.
     andthen (record_session_message E (s_id s) (om_connector req) ''assistant''
       (if om_sender req = [] then ''openpinch'' else om_sender req) (om_body req) (om_metadata_json req)) (\<lambda>message_id.
     ret \<lparr>omr_accepted = True, omr_message_id = message_id, omr_session_id = s_id s, omr_status = ''sent'',
       omr_detail = ''outbound message recorded''\<rparr>))"

section \<open>The brain with its audit events\<close>

definition remember_brain :: "env \<Rightarrow> engine \<Rightarrow> brain_remember \<Rightarrow> brain_remember_result io" where
  "remember_brain E en req =
     andthen (remember E (en_brain en) req) (\<lambda>result.
     andthen (record_audit E ''brain.remember'' ''info'' ''brain record stored'' (5 / 100)
       (audit_fields E [(''digest'', bre_digest result)])) (\<lambda>_.
     ret result))"

definition update_brain_task :: "env \<Rightarrow> engine \<Rightarrow> brain_task_update \<Rightarrow> brain_task_record io" where
  "update_brain_task E en req =
     andthen (update_task_record E (en_brain en) req) (\<lambda>t.
     andthen (record_audit E ''brain.task'' ''info'' ''brain task updated'' (5 / 100)
       (audit_fields E [(''task_id'', tk_id t), (''status'', tk_status t)])) (\<lambda>_.
     ret t))"

definition forget_brain :: "env \<Rightarrow> engine \<Rightarrow> brain_forget \<Rightarrow> brain_forget_result io" where
  "forget_brain E en req =
     andthen (forget E (en_brain en) req) (\<lambda>result.
     andthen (record_audit E ''brain.forget'' ''info'' ''brain record forgotten'' (8 / 100)
       (audit_fields E [(''target_id'', bfr_target_id result), (''mode'', bfr_mode result)])) (\<lambda>_.
     ret result))"

section \<open>Attestation, audit export, protocols, policy\<close>

definition attestation_json :: "attestation_report \<Rightarrow> json" where
  "attestation_json r = JObj [(''subject'', JStr (ar_subject r)), (''status'', JStr (ar_status r)),
     (''platform'', JStr (ar_platform r)), (''hardware_backed'', JBool (ar_hardware_backed r)), (''nonce'', JStr (ar_nonce r)),
     (''public_key'', JStr (ar_public_key r)), (''measurements'', JObj (map (\<lambda>(k, v). (k, JStr v)) (ar_measurements r)))]"

definition attest_session :: "env \<Rightarrow> engine \<Rightarrow> string \<Rightarrow> string \<Rightarrow> bool \<Rightarrow> attestation_report io" where
  "attest_session E en subject nonce include_hardware =
     andthen (attest E (en_encryption en) subject nonce include_hardware (en_paths en) (en_config en)) (\<lambda>report.
     andthen (record_audit E ''security.attestation'' ''info'' ''session attested''
       (if ar_hardware_backed report then 3 / 100 else 18 / 100) (E_json_print E (attestation_json report))) (\<lambda>_.
     ret report))"

definition audit_event_json :: "env \<Rightarrow> audit_event \<Rightarrow> json" where
  "audit_event_json E e = JObj [(''id'', JStr (ae_id e)), (''category'', JStr (ae_category e)),
     (''severity'', JStr (ae_severity e)), (''summary'', JStr (ae_summary e)), (''anomaly_score'', JNum (ae_anomaly_score e)),
     (''payload_json'', JStr (ae_payload_json e)), (''created_at'', JStr (serde_time E (ae_created_at e)))]"

definition export_audit :: "env \<Rightarrow> engine \<Rightarrow> string \<Rightarrow> nat \<Rightarrow> audit_event list io" where
  "export_audit E en sink limit =
     (let siem = cfg_siem (en_config en) in
      andthen (list_audit limit) (\<lambda>events.
      andthen (if sink = ''ocsf-file'' \<and> si_enabled siem \<and> si_ocsf_file siem \<noteq> [] then
          write_file (resolve_optional_path E (si_ocsf_file siem) (pa_state_dir (en_paths en)))
            (E_json_pretty E (JArr (map (audit_event_json E) events)))
        else ret ()) (\<lambda>_.
      ret events)))"

definition run_agent_protocol :: "env \<Rightarrow> engine \<Rightarrow> protocol_run_request \<Rightarrow> protocol_run_result io" where
  "run_agent_protocol E en req =
     andthen (validate_protocol E (en_encryption en) (en_config en) req) (\<lambda>result.
     andthen (record_protocol_run E result) (\<lambda>_.
     andthen (record_audit E ''agent.protocol'' (if prr_accepted result then ''info'' else ''warning'')
       (''protocol '' @ prq_protocol_id req @ '' executed'') (if prr_accepted result then 8 / 100 else 74 / 100)
       (prr_transcript_json result)) (\<lambda>_.
     ret result)))"

definition engine_policy_report :: "engine \<Rightarrow> string \<Rightarrow> string option \<Rightarrow> policy_report" where
  "engine_policy_report en subject capability =
     (let report = tools_policy_report (en_tools en) subject in
      case capability of None \<Rightarrow> report
      | Some c \<Rightarrow> report\<lparr>por_allowed_capabilities := filter (\<lambda>x. x = c) (por_allowed_capabilities report),
          por_denied_capabilities := filter (\<lambda>x. x = c) (por_denied_capabilities report)\<rparr>)"

end
