(* ===== verification/Engine_Facts.thy ===== *)
theory Engine_Facts
  imports Engine_Ops
begin

text \<open>
  What the runtime's operations guarantee: the path of a message (pairing, caches), the invariants
  every operation of the runtime keeps, its lock discipline, and the doctor's verdict.
\<close>

section \<open>Pairing\<close>

lemma safe_record_audit [safe_intros]: "safe (record_audit E cat sev summ score payload)"
  unfolding record_audit_def by (intro safe_intros)

lemma ensure_pairing_never_ok: "ensure_pairing E c ch p sid reason w \<noteq> (Ok x, w')"
  by (cases "w_locked w") (auto simp: ensure_pairing_def ensure_pairing_run pairing_for_target_def run_simps
      split: option.splits)

text \<open>The only successful outcome is that no pairing is required.\<close>

lemma ensure_if_required_Ok:
  assumes "ensure_pairing_if_required E en s m w = (Ok x, w')"
  shows "x = None"
  using assms unfolding ensure_pairing_if_required_def
  by (auto split: if_splits elim!: andthen_OkE simp: ret_run ensure_pairing_never_ok)

lemma pairing_is_approved_run:
  "\<not> w_locked w \<Longrightarrow> pairing_is_approved c ch p w =
     (Ok (\<exists>r. lookup_row pairing_target (c, ch, p) (t_pairings (w_db w)) = Some r \<and> pg_status r = ''approved''), w)"
  by (cases "lookup_row pairing_target (c, ch, p) (t_pairings (w_db w))")
     (simp_all add: pairing_is_approved_def pairing_for_target_def run_simps pairing_record_of_row_def)

definition must_pair :: "engine \<Rightarrow> session_record \<Rightarrow> message_envelope \<Rightarrow> store \<Rightarrow> bool" where
  "must_pair en s m d \<longleftrightarrow> \<not> pairing_exempt en s m \<and> \<not> allowlisted en m
     \<and> \<not> (\<exists>r. lookup_row pairing_target (me_connector m, me_channel_id m, me_sender m) (t_pairings d) = Some r
          \<and> pg_status r = ''approved'')"

lemma must_pair_blocks:
  assumes "\<not> w_locked w" and "must_pair en s m (w_db w)"
    and "\<not> has_key pg_pairing_id (''pairing-'' @ E_uuid E (w_uuids w)) (t_pairings (w_db w))"
  shows "\<exists>w'. ensure_pairing_if_required E en s m w = (Deadlock, w') \<and> w_locked w'"
proof -
  have "\<exists>w'. ensure_pairing E (me_connector m) (me_channel_id m) (me_sender m) (s_id s) ''direct message not yet paired'' w
      = (Deadlock, w') \<and> w_locked w'"
    using assms(1,3) by (auto simp: ensure_pairing_run upsert_pairing_def upsert_unique_def new_pairing_row_def)
  then show ?thesis
    using assms(1,2) by (auto simp: ensure_pairing_if_required_def must_pair_def andthen_run pairing_is_approved_run)
qed

text \<open>What the brain's operations leave alone: every property of the other tables.\<close>

interpretation brain_frame: brain_invariant "\<lambda>d. Q (t_sessions d) (t_pairings d) (t_prompt_cache d) (t_prefix_cache d)" for Q
  by unfold_locales simp_all

lemma keeps_pairings:
  "keeps (\<lambda>d. t_pairings d = p) (record_message E m)" "keeps (\<lambda>d. t_pairings d = p) (resolve_session E en m)"
  "keeps (\<lambda>d. t_pairings d = p) (record_session_message E sid c role sender body md)"
  "keeps (\<lambda>d. t_pairings d = p) (ingest_message E bm m)"
  unfolding record_message_def resolve_session_def resolve_session_for_inbound_def resolve_session_internal_def
    record_session_message_def Let_def
  by (intro keeps_intros brain_frame.keeps_ingest_message [where Q = "\<lambda>_ q _ _. q = p"];
      auto simp: insert_session_def split: if_splits)+

lemma safe_receive_message [safe_intros]: "valid_str (me_body m) \<Longrightarrow> safe (receive_message E en m)"
  unfolding receive_message_def resolve_session_def by (intro safe_intros)

lemma keeps_receive_pairings: "keeps (\<lambda>d. t_pairings d = p) (receive_message E en m)"
  unfolding receive_message_def by (intro keeps_intros keeps_pairings)

text \<open>C7.
  A direct message from a sender who is neither allowlisted nor paired never gets an answer: the call
  stores the message and the pending pairing and then blocks for ever, holding the connection, so
  that every later message of anyone blocks as well. The answer \<open>pairing_required\<close> is never given,
  to any message.
\<close>

theorem unpaired_message_hangs:
  assumes "\<not> w_locked w" and "valid_str (me_body m)" and "receive_message E en m w = (Ok (s, message_id), w1)"
    and "must_pair en s m (w_db w)" and "\<forall>n. \<not> has_key pg_pairing_id (''pairing-'' @ E_uuid E n) (t_pairings (w_db w))"
  shows "(\<exists>w'. handle_message E en m w = (Deadlock, w') \<and> (\<forall>m2. handle_message E en m2 w' = (Deadlock, w')))
    \<and> (\<forall>m2 w2 r w3. handle_message E en m2 w2 = (Ok r, w3) \<longrightarrow> ir_delivery_state r \<noteq> ''pairing_required'')"
proof
  have un: "\<not> w_locked w1" using safe_atD [OF safe_receive_message [OF assms(2)] _ assms(3)] assms(1) by simp
  have "t_pairings (w_db w1) = t_pairings (w_db w)" by (rule keepsD [OF keeps_receive_pairings refl assms(3)])
  with assms(4,5) have "must_pair en s m (w_db w1)"
    "\<not> has_key pg_pairing_id (''pairing-'' @ E_uuid E (w_uuids w1)) (t_pairings (w_db w1))" by (simp_all add: must_pair_def)
  from must_pair_blocks [OF un this] obtain w' where w': "ensure_pairing_if_required E en s m w1 = (Deadlock, w')" "w_locked w'"
    by blast
  then have "handle_message E en m w = (Deadlock, w')" using assms(3) by (simp add: handle_message_def andthen_run)
  moreover have "handle_message E en m2 w' = (Deadlock, w')" for m2
    using w'(2) by (simp add: handle_message_def receive_message_def record_message_def andthen_run with_conn_locked)
  ultimately show "\<exists>w'. handle_message E en m w = (Deadlock, w') \<and> (\<forall>m2. handle_message E en m2 w' = (Deadlock, w'))" by blast
  show "\<forall>m2 w2 r w3. handle_message E en m2 w2 = (Ok r, w3) \<longrightarrow> ir_delivery_state r \<noteq> ''pairing_required''"
  proof (intro allI impI)
    fix m2 :: message_envelope and w2 :: world and r :: inbound_result and w3 :: world
    assume "handle_message E en m2 w2 = (Ok r, w3)"
    then show "ir_delivery_state r \<noteq> ''pairing_required''"
      unfolding handle_message_def answer_message_def deliver_reply_def deliver_failure_def Let_def
      by (auto elim!: andthen_OkE dest!: ensure_if_required_Ok split: if_splits sum.splits prod.splits
          simp: ret_run delivered_def)
  qed
qed

section \<open>The reply every message gets\<close>

text \<open>What one conversation's messages have in common: the session row of their target.\<close>

definition session_at :: "string \<times> string \<times> string \<Rightarrow> string \<Rightarrow> session_row list \<Rightarrow> bool" where
  "session_at tgt sid t \<longleftrightarrow> (\<exists>r. lookup_row session_target tgt t = Some r \<and> sr_session_id r = sid)"

lemma lookup_update_where:
  "(\<And>r. session_target (f r) = session_target r) \<Longrightarrow>
     lookup_row session_target tgt (update_where p f t) = map_option (\<lambda>r. if p r then f r else r) (lookup_row session_target tgt t)"
  by (induction t) (auto simp: lookup_row_def update_where_def)

lemma session_at_update:
  "(\<And>r. session_target (f r) = session_target r \<and> sr_session_id (f r) = sr_session_id r) \<Longrightarrow>
     session_at tgt sid t \<Longrightarrow> session_at tgt sid (update_where p f t)"
  by (clarsimp simp: session_at_def lookup_update_where) (metis (full_types))

abbreviation at_session :: "string \<times> string \<times> string \<Rightarrow> string \<Rightarrow> store \<Rightarrow> bool" where
  "at_session tgt sid \<equiv> \<lambda>d. session_at tgt sid (t_sessions d)"

lemma keeps_session_at:
  "keeps (at_session tgt sid) (record_message E m)"
  "keeps (at_session tgt sid) (record_session_message E i c role sender body md)"
  "keeps (at_session tgt sid) (set_session_pending_pairing E i v)"
  "keeps (at_session tgt sid) (record_audit E cat sev summ score payload)"
  "keeps (at_session tgt sid) (store_caches E oc prompt prov resp)"
  "keeps (at_session tgt sid) (ensure_pairing E c ch p i reason)"
  unfolding record_message_def record_session_message_def set_session_pending_pairing_def record_audit_def
    record_audit_event_def store_caches_def store_near_caches_def cache_exact_put_def cache_prefix_put_def
    upsert_memory_def ensure_pairing_def pairing_for_target_def Let_def
  by (intro keeps_intros session_at_update;
      auto simp: touch_session_def session_target_def upsert_pairing_def)+

text \<open>The caches, until an answer is generated.\<close>

abbreviation caches :: "(cache_row list \<Rightarrow> cache_row list \<Rightarrow> memory_row list \<Rightarrow> bool) \<Rightarrow> store \<Rightarrow> bool" where
  "caches Q \<equiv> \<lambda>d. Q (t_prompt_cache d) (t_prefix_cache d) (t_vector_memory d)"

lemma keeps_caches:
  "keeps (caches Q) (record_message E m)"
  "keeps (caches Q) (resolve_session E en m)"
  "keeps (caches Q) (record_session_message E i c role sender body md)"
  "keeps (caches Q) (set_session_pending_pairing E i v)"
  "keeps (caches Q) (record_audit E cat sev summ score payload)"
  "keeps (caches Q) (ensure_pairing E c ch p i reason)"
  "keeps (caches Q) (pairing_is_approved c ch p)"
  unfolding record_message_def record_session_message_def set_session_pending_pairing_def record_audit_def
    record_audit_event_def ensure_pairing_def pairing_for_target_def pairing_is_approved_def resolve_session_def
    resolve_session_for_inbound_def resolve_session_internal_def Let_def
  by (intro keeps_intros; auto simp: upsert_pairing_def insert_session_def split: if_splits)+

lemma keeps_approved: "keeps P (pairing_is_approved c ch p)"
  unfolding pairing_is_approved_def pairing_for_target_def by (intro keeps_intros)

lemma keeps_ensure_required:
  "keeps (caches Q) (ensure_pairing_if_required E en s m)" "keeps (at_session tgt sid) (ensure_pairing_if_required E en s m)"
  unfolding ensure_pairing_if_required_def clear_session_pending_pairing_def
  by (intro keeps_intros keeps_caches keeps_session_at keeps_approved)+

text \<open>With the brain switched off nothing of it takes part.\<close>

lemma brain_off:
  assumes "\<not> brain_enabled bm"
  shows "ingest_message E bm m = ret ()" "ingest_assistant_reply E bm m reply = ret ()"
    "build_context_pack E bm query scope = ret []" "inline_suggestions E bm scope n = fail brain_disabled"
  using assms
  by (simp_all add: ingest_message_def ingest_assistant_reply_def build_context_pack_def inline_suggestions_def suggest_def
      fun_eq_iff run_simps)

lemma with_suggestions_off: "\<not> brain_enabled (en_brain en) \<Longrightarrow> with_suggestions E en scope reply = ret reply"
  by (simp add: with_suggestions_def brain_off fun_eq_iff run_simps Let_def)

text \<open>The caches after the first answer of the runtime's life.\<close>

definition only_answer :: "orchestrator \<Rightarrow> string \<Rightarrow> orchestration_result \<Rightarrow> cache_row list \<Rightarrow> cache_row list \<Rightarrow> bool" where
  "only_answer oc p r exact pre \<longleftrightarrow> (\<forall>row\<in>set exact. ca_response row = or_response r)
     \<and> (\<exists>row. pre = [row] \<and> ca_key row = p \<and> ca_response row = or_response r)"

lemma keeps_sessions_generate: "keeps (at_session tgt sid) (generate_with_route E oc prompt priority route)"
  unfolding generate_with_route_def generate_uncached_def cached_answer_def when_enabled_def semantic_lookup_def
    cache_exact_get_def cache_prefix_get_def query_memory_def Let_def
  by (intro keeps_intros keeps_session_at)

lemma no_cached_answer:
  assumes "\<not> w_locked w" and "t_prompt_cache (w_db w) = []" and "t_prefix_cache (w_db w) = []"
    and "\<forall>r\<in>set (t_vector_memory (w_db w)). vm_namespace r \<noteq> ''semantic-cache''"
  shows "cached_answer E oc prompt w = (Ok None, w)"
proof -
  have "memory_candidates ''semantic-cache'' (w_db w) = []"
    using assms(4) filter_False [of "t_vector_memory (w_db w)" "\<lambda>r. vm_namespace r = ''semantic-cache''"]
    by (simp add: memory_candidates_def order_desc_def)
  with assms show ?thesis
    by (simp add: cached_answer_def Let_def andthen_run when_enabled_run cache_exact_get_run cache_prefix_get_run
        semantic_lookup_def query_memory_run lookup_row_def ret_run order_desc_def)
qed

lemma upsert_row_empty [simp]: "upsert_row key merge r [] = [r]"
  by (simp add: upsert_row_def has_key_def insert_row_def)

lemma first_answer_cached:
  assumes "\<not> w_locked w" and "oc_prefix_cache_enabled (cfg_orchestration (oc_config oc))"
    and "t_prompt_cache (w_db w) = []" and "t_prefix_cache (w_db w) = []"
    and "generate_uncached E oc prompt priority route w = (Ok r, w1)"
  shows "only_answer oc (take 128 prompt) r (t_prompt_cache (w_db w1)) (t_prefix_cache (w_db w1))
    \<and> is_char_boundary prompt (min (length prompt) 128) \<and> \<not> w_locked w1"
proof -
  obtain prov resp tier w2 u w3 where live: "generate_live E oc (live_route (oc_config oc) priority route) prompt w = (Ok (prov, resp, tier), w2)"
      and st: "store_caches E oc prompt prov resp w2 = (Ok u, w3)"
      and r: "ret \<lparr>or_provider = prov, or_response = resp, or_cache_tier = tier\<rparr> w3 = (Ok r, w1)"
    using assms(5) by (auto simp: generate_uncached_def elim!: andthen_OkE)
  have un: "\<not> w_locked w2" and db: "w_db w2 = w_db w" using generate_live_frame [OF live] assms(1) by simp_all
  have w3: "w3 = w1" "or_response r = resp" using r by (auto simp: run_simps)
  obtain u0 w0 where w0: "(if oc_exact_cache_enabled (cfg_orchestration (oc_config oc))
       then cache_exact_put E (prompt_hash E prompt) prov resp else ret ()) w2 = (Ok u0, w0)"
      and near: "store_near_caches E oc prompt prov resp w0 = (Ok u, w3)"
    using st unfolding store_caches_def by (elim andthen_OkE)
  let ?P = "\<lambda>t :: cache_row list. \<forall>row\<in>set t. ca_response row = resp"
  have "?P (t_prompt_cache (w_db w0))"
    using w0 un db assms(3) by (auto simp: cache_exact_put_run run_simps split: if_splits)
  moreover have "keeps (\<lambda>d. ?P (t_prompt_cache d)) (store_near_caches E oc prompt prov resp)"
    unfolding store_near_caches_def Let_def by (intro keeps_intros keeps_prompt_cache)
  ultimately have "?P (t_prompt_cache (w_db w3))" using keepsD [where P = "\<lambda>d. ?P (t_prompt_cache d)" and w = w0] near by blast
  moreover obtain row where "ca_key row = take 128 prompt" "ca_response row = resp" "t_prefix_cache (w_db w3) = [row]"
    using store_caches_prefix [OF st un assms(2)] db assms(4) by auto
  moreover have "is_char_boundary prompt (min (length prompt) 128)" using store_caches_boundary [OF st] assms(2) by blast
  moreover have "\<not> w_locked w3" by (rule store_caches_unlocked [OF st un])
  ultimately show ?thesis using w3 by (simp add: only_answer_def)
qed

lemma answered_like_first:
  assumes "\<not> w_locked w" and "oc_prefix_cache_enabled (cfg_orchestration (oc_config oc))"
    and "only_answer oc p r (t_prompt_cache (w_db w)) (t_prefix_cache (w_db w))" and "starts_clean rest"
  shows "\<exists>r2. generate_with_route E oc (p @ rest) priority route w = (Ok r2, w) \<and> or_response r2 = or_response r"
proof -
  obtain row where row: "t_prefix_cache (w_db w) = [row]" "ca_key row = p" "ca_response row = or_response r"
    using assms(3) by (auto simp: only_answer_def)
  have "row \<in> set (t_prefix_cache (w_db w))" "p @ rest = ca_key row @ rest" using row by simp_all
  from longest_prefix_answers [OF assms(1) this assms(4)] row
  have pre: "cache_prefix_get (p @ rest) w = (Ok (Some (ca_provider row, ca_response row)), w)" by auto
  show ?thesis
  proof (cases "oc_exact_cache_enabled (cfg_orchestration (oc_config oc)) \<and>
      lookup_row ca_key (prompt_hash E (p @ rest)) (t_prompt_cache (w_db w)) \<noteq> None")
    case True
    then obtain mine where mine: "lookup_row ca_key (prompt_hash E (p @ rest)) (t_prompt_cache (w_db w)) = Some mine" by auto
    then have "ca_response mine = or_response r" using lookup_row_Some [OF mine] assms(3) by (simp add: only_answer_def)
    with True mine assms(1) show ?thesis by (simp add: generate_with_route_def cached_answer_exact andthen_run ret_run)
  next
    case False
    with pre assms(1,2) row(3) show ?thesis
      by (auto simp: generate_with_route_def cached_answer_def Let_def andthen_run when_enabled_run cache_exact_get_run ret_run)
  qed
qed

text \<open>How far a message went when it got its answer.\<close>

lemma handle_message_answered:
  assumes "handle_message E en m w = (Ok r, w')" and "ir_delivery_state r \<noteq> ''ignored''"
  obtains s message_id wa wb where "receive_message E en m w = (Ok (s, message_id), wa)"
    "ensure_pairing_if_required E en s m wa = (Ok None, wb)" "answer_message E en m s message_id wb = (Ok r, w')"
  using assms unfolding handle_message_def
  by (auto elim!: andthen_OkE dest: ensure_if_required_Ok split: if_splits prod.splits option.splits simp: ret_run delivered_def)

lemma receive_off:
  assumes off: "\<not> brain_enabled (en_brain en)" and un: "\<not> w_locked w"
    and run: "receive_message E en m w = (Ok (s, message_id), wa)"
  defines "tgt \<equiv> (me_connector m, me_channel_id m, inbound_participant E m)"
  shows "session_at tgt (s_id s) (t_sessions (w_db wa))" and "session_at tgt sid (t_sessions (w_db w)) \<Longrightarrow> s_id s = sid"
    and "caches Q (w_db w) \<Longrightarrow> caches Q (w_db wa)" and "\<not> w_locked wa"
proof -
  obtain u w1 w2 where w1: "record_message E m w = (Ok u, w1)" and w2: "resolve_session E en m w1 = (Ok s, w2)"
      and w3: "record_session_message E (s_id s) (me_connector m) ''user'' (me_sender m) (me_body m) (me_metadata_json m) w2 = (Ok message_id, wa)"
    using run unfolding receive_message_def brain_off(1) [OF off]
    by (elim andthen_OkE) (auto simp: ret_run ignore_err_run)
  have un1: "\<not> w_locked w1" using safe_atD [OF safe_store(1) _ w1] un by simp
  note resolve = w2 [unfolded resolve_session_def resolve_session_for_inbound_def]
  from resolve_lookup [OF un1 resolve] have un2: "\<not> w_locked w2"
    and at: "session_at tgt (s_id s) (t_sessions (w_db w2))"
    by (auto simp: session_at_def tgt_def session_record_of_row_def)
  show "session_at tgt (s_id s) (t_sessions (w_db wa))" using keepsD [OF keeps_session_at(2) at w3] .
  show "\<not> w_locked wa" using safe_atD [OF safe_sessions(2) _ w3] un2 by simp
  show "s_id s = sid" if "session_at tgt sid (t_sessions (w_db w))"
  proof -
    have "session_at tgt sid (t_sessions (w_db w1))" using keepsD [OF keeps_session_at(1) that w1] .
    then obtain r where "lookup_row session_target tgt (t_sessions (w_db w1)) = Some r" "sr_session_id r = sid"
      by (auto simp: session_at_def)
    then show ?thesis using resolve resolve_found_run [OF un1, of "me_connector m" "me_channel_id m" "inbound_participant E m" r]
      by (auto simp: tgt_def session_record_of_row_def)
  qed
  show "caches Q (w_db wa)" if q: "caches Q (w_db w)"
  proof -
    have "caches Q (w_db w1)" by (rule keepsD [OF keeps_caches(1) [where Q = Q] q w1])
    from keepsD [OF keeps_caches(2) [where Q = Q] this w2] have "caches Q (w_db w2)" .
    from keepsD [OF keeps_caches(3) [where Q = Q] this w3] show ?thesis .
  qed
qed

lemma safe_ensure_required: "ensure_pairing_if_required E en s m w = (Ok x, w') \<Longrightarrow> \<not> w_locked w \<Longrightarrow> \<not> w_locked w'"
  unfolding ensure_pairing_if_required_def clear_session_pending_pairing_def
  using safe_atD [OF safe_sessions(8), of w]
  by (auto split: if_splits elim!: andthen_OkE simp: ret_run ensure_pairing_never_ok pairing_is_approved_run
      dest: safe_atD [OF safe_sessions(8), rotated])

lemma deliver_reply_off:
  assumes "\<not> brain_enabled (en_brain en)" and "deliver_reply E en m s message_id scope result w = (Ok r, w')"
  shows "r = delivered message_id s [] ''replied'' (or_response result)"
    and "session_at tgt sid (t_sessions (w_db w)) \<Longrightarrow> session_at tgt sid (t_sessions (w_db w'))"
    and "caches Q (w_db w) \<Longrightarrow> caches Q (w_db w')" and "\<not> w_locked w \<Longrightarrow> \<not> w_locked w'"
proof -
  obtain i u w1 where w1: "record_session_message E (s_id s) (me_connector m) ''assistant'' ''openpinch'' (or_response result)
        (audit_fields E [(''provider'', or_provider result), (''cache'', or_cache_tier result)]) w = (Ok i, w1)"
      and w2: "record_audit E ''connector.message'' ''info'' (''message handled via '' @ or_provider result) (5 / 100)
        (audit_fields E [(''connector'', me_connector m), (''provider'', or_provider result),
         (''cache'', or_cache_tier result), (''session_id'', s_id s)]) w1 = (Ok u, w')"
      and r: "r = delivered message_id s [] ''replied'' (or_response result)"
    using assms(2) unfolding deliver_reply_def brain_off(2) [OF assms(1)] with_suggestions_off [OF assms(1)]
    by (auto elim!: andthen_OkE simp: ret_run ignore_err_run)
  show "r = delivered message_id s [] ''replied'' (or_response result)" by (rule r)
  show "session_at tgt sid (t_sessions (w_db w'))" if "session_at tgt sid (t_sessions (w_db w))"
    using keepsD [OF keeps_session_at(4) keepsD [OF keeps_session_at(2) that w1] w2] .
  show "caches Q (w_db w')" if q: "caches Q (w_db w)"
    using keepsD [OF keeps_caches(5) [where Q = Q] keepsD [OF keeps_caches(3) [where Q = Q] q w1] w2] .
  show "\<not> w_locked w'" if "\<not> w_locked w"
    using safe_atD [OF safe_sessions(2) _ w1] safe_atD [OF safe_record_audit _ w2] that by simp
qed

text \<open>The answer without the brain: one generation from the plain prompt.\<close>

lemma answer_off:
  assumes off: "\<not> brain_enabled (en_brain en)" and run: "answer_message E en m s message_id w = (Ok r, w')"
  obtains (replied) result v where "generate_with_route E (en_orchestrator en) (prompt_header m (s_id s) [] @ me_body m) Connector
        (model_route_for_session en s) w = (Ok result, v)"
      "deliver_reply E en m s message_id (scope_for_message E m) result v = (Ok r, w')"
    | (degraded) e v where "generate_with_route E (en_orchestrator en) (prompt_header m (s_id s) [] @ me_body m) Connector
        (model_route_for_session en s) w = (Err e, v)" "ir_delivery_state r = ''degraded''"
proof -
  let ?g = "generate_with_route E (en_orchestrator en) (prompt_header m (s_id s) [] @ me_body m) Connector (model_route_for_session en s)"
  obtain x v where g: "?g w = (x, v)" by (cases "?g w")
  have "attempt ?g w = (case x of Ok a \<Rightarrow> Ok (Inr a) | Err e \<Rightarrow> Ok (Inl e) | Panic \<Rightarrow> Panic | Deadlock \<Rightarrow> Deadlock, v)"
    using g by (cases x) (simp_all add: attempt_run)
  with run have step: "(case x of Ok a \<Rightarrow> deliver_reply E en m s message_id (scope_for_message E m) a v
      | Err e \<Rightarrow> deliver_failure E s message_id e v | Panic \<Rightarrow> (Panic, v) | Deadlock \<Rightarrow> (Deadlock, v)) = (Ok r, w')"
    by (cases x) (simp_all add: answer_message_def brain_off [OF off] or_default_run ret_run andthen_run message_prompt_def)
  show ?thesis
  proof (cases x)
    case (Ok a)
    with step g show ?thesis by (intro replied) simp_all
  next
    case (Err e)
    with step have "ir_delivery_state r = ''degraded''"
      by (auto simp: deliver_failure_def delivered_def ret_run elim!: andthen_OkE)
    with Err g show ?thesis by (intro degraded) simp_all
  qed (use step in simp_all)
qed

text \<open>Every header without brain context is the same for one session, and long enough.\<close>

lemma header_of_session:
  "me_connector m2 = me_connector m1 \<Longrightarrow> me_sender m2 = me_sender m1 \<Longrightarrow> prompt_header m2 sid [] = prompt_header m1 sid []"
  by (simp add: prompt_header_def)

lemma header_length: "length sid = 44 \<Longrightarrow> 128 < length (prompt_header m sid [])"
  by (simp add: prompt_header_def)


section \<open>A sample runtime\<close>

text \<open>One local model, the exact and the prefix cache, no brain; the connector \<open>slack\<close> pairs direct messages.\<close>

definition sample_config :: app_config where
  "sample_config = default_config\<lparr>cfg_connectors := [(''slack'', derived_connector\<lparr>cc_pair_dm := True\<rparr>)],
     cfg_orchestration := default_orchestration\<lparr>oc_semantic_cache_enabled := False, oc_speculative_enabled := False,
       oc_provider_order := [''ollama'']\<rparr>,
     cfg_routing := default_routing\<lparr>rc_mention_only_in_groups := False\<rparr>, cfg_brain := default_brain\<lparr>bc_enabled := False\<rparr>, cfg_models := [(''ollama'', demo_provider)], cfg_model_profiles := []\<rparr>"

definition sample_engine :: engine where
  "sample_engine = make_engine sample_config demo_paths sample_executor demo_manager
     (make_brain demo_env sample_config demo_paths demo_manager) 0"

definition sample_env :: env where
  "sample_env = demo_env\<lparr>E_uuid := (\<lambda>n. replicate n CHR ''a'' @ replicate (36 - n) CHR ''b'')\<rparr>"

definition sample_message :: "string \<Rightarrow> string \<Rightarrow> message_envelope" where
  "sample_message name body = \<lparr>me_connector = name, me_channel_id = ''ann'', me_sender = ''ann'', me_body = body, me_metadata_json = ''{}''\<rparr>"

lemma sample_engine_fields [simp]:
  "en_config sample_engine = sample_config" "\<not> brain_enabled (en_brain sample_engine)"
  "oc_config (en_orchestrator sample_engine) = sample_config"
  by (simp_all add: sample_engine_def make_engine_def make_brain_def brain_enabled_def sample_config_def new_orchestrator_def)

lemma sample_env_fields [simp]:
  "E_time sample_env = E_time demo_env" "E_json_parse sample_env = demo_parse" "E_generate sample_env = E_generate demo_env"
  "E_json_print sample_env = demo_print" "E_uuid sample_env n = replicate n CHR ''a'' @ replicate (36 - n) CHR ''b''"
  by (simp_all add: sample_env_def)

lemma sample_direct: "infer_session_type sample_env (sample_message name body) = ''direct''"
  by (simp add: infer_session_type_def sample_message_def demo_parse_def json_get_str_def json_get_def bt_get_def)

lemma sample_receive:
  "\<exists>s i w1. receive_message sample_env sample_engine (sample_message name body) boot_world = (Ok (s, i), w1)
     \<and> s_session_type s = ''direct'' \<and> s_model_profile s = ''default'' \<and> length (s_id s) = 44 \<and> w_uuids w1 = 2 \<and> w_calls w1 = []"
  by (simp add: receive_message_def brain_off andthen_run record_message_def with_conn_run utc_now_run sql_exec_run
      resolve_session_def resolve_session_for_inbound_def sample_direct resolve_new_run lookup_row_def insert_session_def
      has_key_def insert_row_def ret_run record_session_message_run ignore_err_run session_record_of_row_def new_session_row_def
      sample_config_def default_config_def default_model_failover_def)

theorem unpaired_message_hangs_witness:
  "\<exists>w'. handle_message sample_env sample_engine (sample_message ''slack'' ''hi'') boot_world = (Deadlock, w')
     \<and> handle_message sample_env sample_engine (sample_message ''desktop'' ''hello?'') w' = (Deadlock, w')"
proof -
  obtain s i w1 where run: "receive_message sample_env sample_engine (sample_message ''slack'' ''hi'') boot_world = (Ok (s, i), w1)"
    and s: "s_session_type s = ''direct''" using sample_receive by blast
  have "must_pair sample_engine s (sample_message ''slack'' ''hi'') (w_db boot_world)"
    using s by (simp add: must_pair_def pairing_exempt_def allowlisted_def sample_message_def lookup_connector_def bt_get_def
        sample_config_def default_config_def default_routing_def derived_connector_def lookup_row_def)
  moreover have "valid_str (me_body (sample_message ''slack'' ''hi''))"
    by (simp add: sample_message_def valid_str_def byte_def)
  ultimately show ?thesis
    using unpaired_message_hangs [of boot_world "sample_message ''slack'' ''hi''" sample_env sample_engine s i w1] run
    by (auto simp: has_key_def)
qed

end
