(* ===== verification/Engine_Progress.thy ===== *)
theory Engine_Progress
  imports Engine_Facts
begin

text \<open>
  Every message that needs no pairing is answered: a total-correctness logic for the runtime's
  actions (\<open>completes\<close>), the freshness of the ids it draws (\<open>ids_fresh\<close>), and the path of a message
  through it.
\<close>

named_theorems advance_intros \<open>rules that derive that an action only ever draws further ids\<close>

section \<open>Ids are drawn in order\<close>

definition advances :: "'a io \<Rightarrow> bool" where
  "advances m \<longleftrightarrow> (\<forall>w. w_uuids w \<le> w_uuids (snd (m w)))"

lemma advancesD: "advances m \<Longrightarrow> m w = (r, w') \<Longrightarrow> w_uuids w \<le> w_uuids w'"
  unfolding advances_def by (metis snd_conv)

lemma advances_like: "advances m \<Longrightarrow> (\<And>w. snd (m' w) = snd (m w)) \<Longrightarrow> advances m'"
  by (simp add: advances_def)

lemma advances_pure [advance_intros]:
  "advances (ret a)" "advances (fail e)" "advances (lift_res r)" "advances (utc_now E)" "advances (new_uuid E)"
  "advances (random_bytes E k)" "advances (sql_query q)" "advances (sql_exec f)"
  by (simp_all add: advances_def run_simps)

lemma advances_sql_try [advance_intros]: "advances (sql_try tb g)"
  by (simp add: advances_def run_simps split: option.splits)

lemma advances_andthen [advance_intros]:
  assumes "advances m" and "\<And>a. advances (f a)"
  shows "advances (andthen m f)"
  unfolding advances_def
proof
  fix w :: world
  obtain r w' where m: "m w = (r, w')" by (cases "m w")
  have "w_uuids w \<le> w_uuids w'" by (rule advancesD [OF assms(1) m])
  moreover have "w_uuids w' \<le> w_uuids (snd (f a w'))" for a using assms(2) by (simp add: advances_def)
  ultimately show "w_uuids w \<le> w_uuids (snd (andthen m f w))"
    using m by (cases r) (auto simp: andthen_run intro: le_trans)
qed

lemma advances_wraps [advance_intros]:
  "advances m \<Longrightarrow> advances (ignore_err m)" "advances m \<Longrightarrow> advances (attempt m)"
  "advances m2 \<Longrightarrow> advances (or_default m2 d)" "advances m2 \<Longrightarrow> advances (context_act ctx m2)"
  by (erule advances_like; simp add: run_simps context_act_def split: prod.splits res.splits)+

lemma advances_with_conn [advance_intros]:
  assumes "advances m"
  shows "advances (with_conn m)"
  unfolding advances_def
proof
  fix w :: world
  obtain r w' where m: "m (w\<lparr>w_locked := True\<rparr>) = (r, w')" by (cases "m (w\<lparr>w_locked := True\<rparr>)")
  from advancesD [OF assms m] show "w_uuids w \<le> w_uuids (snd (with_conn m w))"
    using m by (cases r) (simp_all add: with_conn_def)
qed

lemma advances_cases [advance_intros]:
  "(c \<Longrightarrow> advances m) \<Longrightarrow> (\<not> c \<Longrightarrow> advances m') \<Longrightarrow> advances (if c then m else m')"
  "(x = None \<Longrightarrow> advances m) \<Longrightarrow> (\<And>a. x = Some a \<Longrightarrow> advances (f a)) \<Longrightarrow> advances (case x of None \<Rightarrow> m | Some a \<Rightarrow> f a)"
  "(\<And>e. y = Inl e \<Longrightarrow> advances (g e)) \<Longrightarrow> (\<And>a. y = Inr a \<Longrightarrow> advances (h a)) \<Longrightarrow> advances (case y of Inl e \<Rightarrow> g e | Inr a \<Rightarrow> h a)"
  "(\<And>a b. p = (a, b) \<Longrightarrow> advances (k a b)) \<Longrightarrow> advances (case p of (a, b) \<Rightarrow> k a b)"
  by simp ((cases x; simp), (cases y; simp), (cases p; simp))

lemma advances_loops [advance_intros]:
  "(\<And>x. x \<in> set xs \<Longrightarrow> advances (f x)) \<Longrightarrow> advances (for_each f xs)"
  "(\<And>x. x \<in> set xs \<Longrightarrow> advances (g x)) \<Longrightarrow> advances (map_act g xs)"
  by (induction xs) (simp_all add: advance_intros)

lemma advances_sealing [advance_intros]: "advances (seal_text E em p)"
  unfolding seal_text_def encrypt_text_def encrypt_bytes_def Let_def by (intro advance_intros)

lemma advances_store [advance_intros]:
  "advances (record_message E m)" "advances (cache_exact_get h)" "advances (cache_exact_put E h p r)"
  "advances (cache_prefix_get pr)" "advances (cache_prefix_put E h p r)" "advances (upsert_memory E em ns k c md)"
  "advances (query_memory E em q)" "advances (record_audit_event ev)"
  unfolding record_message_def cache_exact_get_def cache_exact_put_def cache_prefix_get_def cache_prefix_put_def
    upsert_memory_def query_memory_def record_audit_event_def Let_def
  by (intro advance_intros)+

lemma advances_rows [advance_intros]:
  "advances (upsert_projection E bm ns k c md)" "advances (delete_projection ns k)"
  "advances (query_projection_hits E bm ns q n)" "advances (upsert_entity E bm eu)" "advances (upsert_fact E bm fu)"
  "advances (upsert_relation E kind from_id to_id md cf a)" "advances (upsert_task E bm tu)"
  "advances (list_entities E bm incl)" "advances (list_facts E bm incl)" "advances (list_relations incl)"
  "advances (list_tasks E bm incl)" "advances (record_ingest E sref skind fp tj)" "advances (apply_retention E bm)"
  unfolding upsert_projection_def delete_projection_def query_projection_hits_def encrypt_payload_def upsert_entity_def
    upsert_fact_def upsert_relation_def upsert_task_def list_entities_def list_facts_def list_relations_def
    list_tasks_def record_ingest_def apply_retention_def retention_cutoff_def Let_def
  by (intro advance_intros)+

lemma advances_tasks [advance_intros]:
  "advances (link_record E rid kind links sref)" "advances (find_similar_task E bm s scope)"
  "advances (upsert_or_merge_task E bm tu)" "advances (parse_due_at E c)"
  unfolding link_record_def find_similar_task_def upsert_or_merge_task_def parse_due_at_def Let_def
  by (intro advance_intros)+

lemma advances_brain [advance_intros]:
  "advances (ingest_message E bm m)" "advances (ingest_assistant_reply E bm m reply)" "advances (recall E bm q)"
  "advances (suggest E bm sq)" 
  unfolding ingest_message_def ingest_contact_def ingest_artifact_def ingest_environment_def ingest_task_def
    ingest_assistant_reply_def recall_def suggest_def Let_def
  by (intro advance_intros)+

lemma advances_more_brain [advance_intros]:
  "advances (remember E bm rem)" "advances (list_task_records E bm tq)" "advances (update_task_record E bm tup)"
  "advances (forget E bm fq)" "advances (ingest_tool_result E bm call outcome)"
  unfolding remember_def remember_task_def remember_entity_def list_task_records_def update_task_record_def forget_def
    forget_statements_def archive_entities_def archive_facts_def archive_relations_def archive_tasks_def
    ingest_tool_result_def find_related_tool_task_def Let_def
  by (intro advance_intros)+

lemma advances_context [advance_intros]:
  "advances (build_context_pack E bm query scope)" "advances (inline_suggestions E bm scope n)"
  unfolding build_context_pack_def inline_suggestions_def Let_def by (intro advance_intros)+

lemma advances_call_provider [advance_intros]: "advances (call_provider E name prompt)"
  by (simp add: advances_def call_provider_run split: sum.splits)

lemma advances_route_loop [advance_intros]: "advances (route_loop E reg prompt order errors)"
  by (induction order arbitrary: errors) (auto intro!: advance_intros split: option.splits sum.splits)

lemma advances_generate [advance_intros]: "advances (generate_with_route E oc prompt priority route)"
  unfolding generate_with_route_def generate_uncached_def cached_answer_def when_enabled_def semantic_lookup_def
    generate_live_def generate_with_provider_def generate_with_routing_def store_caches_def store_near_caches_def Let_def
  by (intro advance_intros)

section \<open>Actions that complete\<close>

definition uuid_law :: "env \<Rightarrow> bool" where
  "uuid_law E \<longleftrightarrow> inj (E_uuid E) \<and> (\<forall>n. 36 \<le> length (E_uuid E n) \<and> list_all (\<lambda>c. \<not> is_cont c) (E_uuid E n))"

text \<open>The ids in the tables that refuse duplicates were all drawn before.\<close>

definition drawn :: "env \<Rightarrow> string \<Rightarrow> nat \<Rightarrow> string list \<Rightarrow> bool" where
  "drawn E pre n ids \<longleftrightarrow> set ids \<subseteq> (\<lambda>k. pre @ E_uuid E k) ` {..<n}"

lemma drawn_unused: "uuid_law E \<Longrightarrow> drawn E pre n (map key t) \<Longrightarrow> i = pre @ E_uuid E n \<Longrightarrow> \<not> has_key key i t"
  by (auto simp: drawn_def has_key_iff uuid_law_def dest: inj_onD)

lemma drawn_later: "drawn E pre n ids \<Longrightarrow> n \<le> n' \<Longrightarrow> drawn E pre n' ids"
  unfolding drawn_def by (meson image_mono lessThan_subset_iff subset_trans)

lemma drawn_insert:
  "drawn E pre n (map key t) \<Longrightarrow> key r = pre @ E_uuid E n \<Longrightarrow> drawn E pre (Suc n) (map key (insert_row r t))"
  unfolding drawn_def by (auto simp: lessThan_Suc)

definition ids_fresh :: "env \<Rightarrow> world \<Rightarrow> bool" where
  "ids_fresh E w \<longleftrightarrow> drawn E ''session-message-'' (w_uuids w) (map sm_id (t_session_messages (w_db w)))
     \<and> drawn E ''audit-'' (w_uuids w) (map ae_id (t_audit_events (w_db w)))
     \<and> drawn E ''session-'' (w_uuids w) (map sr_session_id (t_sessions (w_db w)))"

abbreviation same_ids :: "store \<Rightarrow> store \<Rightarrow> bool" where
  "same_ids d0 d \<equiv> map sm_id (t_session_messages d) = map sm_id (t_session_messages d0)
     \<and> map ae_id (t_audit_events d) = map ae_id (t_audit_events d0) \<and> map sr_session_id (t_sessions d) = map sr_session_id (t_sessions d0)"

lemma ids_fresh_later:
  assumes "ids_fresh E w" and "same_ids (w_db w) (w_db w')" and "w_uuids w \<le> w_uuids w'"
  shows "ids_fresh E w'"
  using assms(1,2) drawn_later [OF _ assms(3)] by (simp add: ids_fresh_def)

text \<open>
  \<open>completes E m Q\<close>: run on an unlocked store with fresh ids and cached
  replies in UTF-8, the action succeeds with a value of \<open>Q\<close>
  and leaves such a store.
\<close>

definition utf8_rows :: "cache_row list \<Rightarrow> bool" where
  "utf8_rows t \<longleftrightarrow> (\<forall>r\<in>set t. valid_str (ca_response r))"

abbreviation utf8_caches :: "store \<Rightarrow> bool" where
  "utf8_caches \<equiv> caches (\<lambda>exact pre _. utf8_rows exact \<and> utf8_rows pre)"

lemmas keeps_utf8 = keeps_caches [where Q = "\<lambda>exact pre _. utf8_rows exact \<and> utf8_rows pre"]

definition ready :: "env \<Rightarrow> world \<Rightarrow> bool" where
  "ready E w \<longleftrightarrow> \<not> w_locked w \<and> ids_fresh E w \<and> utf8_caches (w_db w)"

definition completes :: "env \<Rightarrow> 'a io \<Rightarrow> ('a \<Rightarrow> bool) \<Rightarrow> bool" where
  "completes E m Q \<longleftrightarrow> (\<forall>w. ready E w \<longrightarrow> (\<exists>a w'. m w = (Ok a, w') \<and> Q a \<and> ready E w'))"

lemma completes_ret: "Q a \<Longrightarrow> completes E (ret a) Q"
  by (simp add: completes_def ret_run)

lemma completes_andthen:
  assumes "completes E m Q" and "\<And>a. Q a \<Longrightarrow> completes E (f a) R"
  shows "completes E (andthen m f) R"
  unfolding completes_def
proof (intro allI impI)
  fix w assume "ready E w"
  then obtain a w1 where "m w = (Ok a, w1)" "Q a" "ready E w1" using assms(1) unfolding completes_def by blast
  moreover from assms(2) [OF this(2)] this(3) obtain b w2 where "f a w1 = (Ok b, w2)" "R b" "ready E w2"
    unfolding completes_def by blast
  ultimately show "\<exists>a w'. andthen m f w = (Ok a, w') \<and> R a \<and> ready E w'" by (simp add: andthen_run)
qed

lemma completes_weaken: "completes E m Q \<Longrightarrow> (\<And>a. Q a \<Longrightarrow> R a) \<Longrightarrow> completes E m R"
  unfolding completes_def by blast

text \<open>An action that may fail, but whose failure the code handles.\<close>

definition harmless :: "'a io \<Rightarrow> bool" where
  "harmless m \<longleftrightarrow> safe m \<and> advances m \<and> keeps utf8_caches m \<and> (\<forall>d0. keeps (same_ids d0) m)"

lemma harmless_run:
  assumes "harmless m" and "ready E w" and "m w = (r, w')"
  shows "returns r \<and> ready E w'"
proof -
  have same: "same_ids (w_db w) (w_db w')"
    by (rule keepsD [of "same_ids (w_db w)" m w r w']) (use assms(1,3) in \<open>simp_all add: harmless_def\<close>)
  have le: "w_uuids w \<le> w_uuids w'" using assms(1,3) by (auto simp: harmless_def intro: advancesD)
  have "ids_fresh E w'" by (rule ids_fresh_later [OF _ same le]) (use assms(2) in \<open>simp add: ready_def\<close>)
  moreover have "utf8_caches (w_db w')"
    by (rule keepsD [of utf8_caches m w r w']) (use assms in \<open>simp_all add: harmless_def ready_def\<close>)
  ultimately show ?thesis using assms safe_atD [of False m w r w'] by (simp add: harmless_def ready_def)
qed

lemma completes_handled:
  assumes "harmless m"
  shows "completes E (ignore_err m) (\<lambda>_. True)" and "completes E (or_default m d) (\<lambda>_. True)"
    and "(\<And>w a w'. ready E w \<Longrightarrow> m w = (Ok a, w') \<Longrightarrow> Q a) \<Longrightarrow> completes E (attempt m) (\<lambda>x. case x of Inl e \<Rightarrow> True | Inr a \<Rightarrow> Q a)"
proof -
  have outcome: "\<exists>r w'. m w = (r, w') \<and> returns r \<and> ready E w'" if "ready E w" for w
    using harmless_run [OF assms that] by (cases "m w") blast
  show "completes E (ignore_err m) (\<lambda>_. True)" "completes E (or_default m d) (\<lambda>_. True)"
    unfolding completes_def using outcome by (fastforce simp: run_simps returns_def split: res.splits)+
  show "completes E (attempt m) (\<lambda>x. case x of Inl e \<Rightarrow> True | Inr a \<Rightarrow> Q a)" if q: "\<And>w a w'. ready E w \<Longrightarrow> m w = (Ok a, w') \<Longrightarrow> Q a"
    unfolding completes_def
  proof (intro allI impI)
    fix w assume w: "ready E w"
    from outcome [OF w] obtain r w' where m: "m w = (r, w')" "returns r" "ready E w'" by blast
    then show "\<exists>a w'. attempt m w = (Ok a, w') \<and> (case a of Inl e \<Rightarrow> True | Inr a \<Rightarrow> Q a) \<and> ready E w'"
      using q [OF w] by (cases r) (auto simp: attempt_run)
  qed
qed

lemma completes_harmless:
  assumes "harmless m" and "\<And>w. \<not> w_locked w \<Longrightarrow> \<exists>a w'. m w = (Ok a, w') \<and> Q a"
  shows "completes E m Q"
  unfolding completes_def
proof (intro allI impI)
  fix w assume w: "ready E w"
  then obtain a w' where "m w = (Ok a, w')" "Q a" using assms(2) [of w] by (auto simp: ready_def)
  with harmless_run [OF assms(1) w] show "\<exists>a w'. m w = (Ok a, w') \<and> Q a \<and> ready E w'" by blast
qed

section \<open>The steps of a message\<close>

text \<open>The three inserts that a used id would make fail.\<close>

lemma completes_record_session_message:
  assumes "uuid_law E"
  shows "completes E (record_session_message E sid c role sender body md) (\<lambda>_. True)"
  unfolding completes_def
proof (intro allI impI)
  fix w assume w: "ready E w"
  then have un: "\<not> w_locked w" by (simp add: ready_def)
  let ?m = "session_message E w sid c role sender body md"
  have id: "sm_id ?m = ''session-message-'' @ E_uuid E (w_uuids w)" by (simp add: session_message_def)
  have fresh: "ids_fresh E w" using w by (simp add: ready_def)
  then have "\<not> has_key sm_id (sm_id ?m) (t_session_messages (w_db w))"
    unfolding ids_fresh_def using drawn_unused [OF assms _ id] by blast
  then obtain w' where run: "record_session_message E sid c role sender body md w = (Ok (sm_id ?m), w')"
    and w': "\<not> w_locked w'" "w_uuids w' = Suc (w_uuids w)" "t_audit_events (w_db w') = t_audit_events (w_db w)"
      "t_session_messages (w_db w') = insert_row ?m (t_session_messages (w_db w))"
      "map sr_session_id (t_sessions (w_db w')) = map sr_session_id (t_sessions (w_db w))"
    using record_session_message_run [OF un, of E sid c role sender body md] un
    by (auto simp: map_update_where touch_session_def)
  have "ids_fresh E w'"
    using fresh unfolding ids_fresh_def w'(2-5) by (intro conjI) (auto intro: drawn_later drawn_insert [where key = sm_id and r = ?m, OF _ id])
  moreover have "utf8_caches (w_db w')" using keepsD [OF keeps_utf8(3) _ run] w
    by (simp add: ready_def)
  ultimately show "\<exists>a w'. record_session_message E sid c role sender body md w = (Ok a, w') \<and> True \<and> ready E w'"
    using run w' by (auto simp: ready_def)
qed

lemma completes_record_audit:
  assumes "uuid_law E"
  shows "completes E (record_audit E cat sev summ score payload) (\<lambda>_. True)"
  unfolding completes_def
proof (intro allI impI)
  fix w assume w: "ready E w"
  then have un: "\<not> w_locked w" and fresh: "ids_fresh E w" by (simp_all add: ready_def)
  define e where "e = \<lparr>ae_id = ''audit-'' @ E_uuid E (w_uuids w), ae_category = cat, ae_severity = sev, ae_summary = summ,
       ae_anomaly_score = score, ae_payload_json = payload, ae_created_at = E_time E (w_ticks w)\<rparr>"
  have id: "ae_id e = ''audit-'' @ E_uuid E (w_uuids w)" by (simp add: e_def)
  have "\<not> has_key ae_id (ae_id e) (t_audit_events (w_db w))"
    using fresh unfolding ids_fresh_def using drawn_unused [OF assms _ id] by blast
  then obtain w' where run: "record_audit E cat sev summ score payload w = (Ok (), w')"
    and w': "\<not> w_locked w'" "w_uuids w' = Suc (w_uuids w)" "t_audit_events (w_db w') = insert_row e (t_audit_events (w_db w))"
      "t_session_messages (w_db w') = t_session_messages (w_db w)" "t_sessions (w_db w') = t_sessions (w_db w)"
    using un by (simp add: record_audit_def record_audit_event_def run_simps insert_unique_def e_def)
  have "ids_fresh E w'"
    using fresh unfolding ids_fresh_def w'(2-5)
    by (intro conjI) (auto intro: drawn_later drawn_insert [where key = ae_id and r = e, OF _ id])
  moreover have "utf8_caches (w_db w')" using keepsD [OF keeps_utf8(5) _ run] w
    by (simp add: ready_def)
  ultimately show "\<exists>a w'. record_audit E cat sev summ score payload w = (Ok a, w') \<and> True \<and> ready E w'"
    using run w' by (auto simp: ready_def)
qed

definition drawn_session :: "env \<Rightarrow> session_record \<Rightarrow> bool" where
  "drawn_session E s \<longleftrightarrow> (\<exists>k. s_id s = ''session-'' @ E_uuid E k)"

lemma keeps_utf8_internal: "keeps utf8_caches (resolve_session_internal E c ch p ty config profile)"
  unfolding resolve_session_internal_def Let_def by (intro keeps_intros; auto simp: insert_session_def split: if_splits)

lemma completes_resolve_internal:
  assumes "uuid_law E"
  shows "completes E (resolve_session_internal E c ch p ty config profile) (drawn_session E)"
  unfolding completes_def
proof (intro allI impI)
  fix w assume w: "ready E w"
  then have un: "\<not> w_locked w" and fresh: "ids_fresh E w" by (simp_all add: ready_def)
  let ?tgt = "(c, ch, p)"
  let ?run = "resolve_session_internal E c ch p ty config profile w"
  show "\<exists>s w'. ?run = (Ok s, w') \<and> drawn_session E s \<and> ready E w'"
  proof (cases "lookup_row session_target ?tgt (t_sessions (w_db w))")
    case (Some r)
    then have "sr_session_id r \<in> set (map sr_session_id (t_sessions (w_db w)))"
      using lookup_row_Some [OF Some] by auto
    then have "drawn_session E (session_record_of_row r)"
      using fresh by (auto simp: drawn_session_def session_record_of_row_def ids_fresh_def drawn_def)
    then show ?thesis using resolve_found_run [OF un Some] w by auto
  next
    case None
    let ?r = "new_session_row config c ch p ty profile (E_time E (w_ticks w)) (E_uuid E (w_uuids w))"
    have id: "sr_session_id ?r = ''session-'' @ E_uuid E (w_uuids w)" by simp
    have "\<not> has_key sr_session_id (sr_session_id ?r) (t_sessions (w_db w))"
      using fresh unfolding ids_fresh_def using drawn_unused [OF assms _ id] by blast
    moreover have "\<not> has_key session_target (session_target ?r) (t_sessions (w_db w))"
      using None by (simp add: lookup_row_None)
    ultimately obtain w' where run: "?run = (Ok (session_record_of_row ?r), w')"
      and w': "\<not> w_locked w'" "w_uuids w' = Suc (w_uuids w)" "t_audit_events (w_db w') = t_audit_events (w_db w)"
        "t_session_messages (w_db w') = t_session_messages (w_db w)" "t_sessions (w_db w') = insert_row ?r (t_sessions (w_db w))"
      using resolve_new_run [OF un None] un by (simp add: insert_session_def)
    have "ids_fresh E w'"
      using fresh unfolding ids_fresh_def w'(2-5)
      by (intro conjI) (auto intro: drawn_later drawn_insert [where key = sr_session_id and r = ?r, OF _ id])
    moreover have "utf8_caches (w_db w')" using keepsD [OF keeps_utf8_internal _ run] w
      by (simp add: ready_def)
    moreover have "drawn_session E (session_record_of_row ?r)" by (auto simp: drawn_session_def session_record_of_row_def)
    ultimately show ?thesis using run w' by (simp add: ready_def)
  qed
qed

lemma completes_resolve_session: "uuid_law E \<Longrightarrow> completes E (resolve_session E en m) (drawn_session E)"
  unfolding resolve_session_def resolve_session_for_inbound_def by (rule completes_resolve_internal)

text \<open>What touches no table with ids, and the brain, which touches only its own.\<close>

interpretation brain_ids: brain_invariant "same_ids d0" for d0
  by unfold_locales simp_all

lemma harmless_steps:
  "harmless (record_message E m)" "harmless (pairing_is_approved c ch p)" "harmless (clear_session_pending_pairing E i)"
  "valid_str (me_body m) \<Longrightarrow> harmless (ingest_message E bm m)"
  "valid_str reply \<Longrightarrow> harmless (ingest_assistant_reply E bm m reply)"
  "retention_ok E bm \<Longrightarrow> harmless (build_context_pack E bm query scope)"
  "retention_ok E bm \<Longrightarrow> harmless (inline_suggestions E bm scope n)"
proof -
  have "keeps (same_ids d0) (record_message E m)" "keeps (same_ids d0) (clear_session_pending_pairing E i)" for d0
    unfolding record_message_def clear_session_pending_pairing_def set_session_pending_pairing_def
    by (intro keeps_intros; simp add: map_update_where)+
  moreover have utf8_clear: "keeps utf8_caches (clear_session_pending_pairing E i)"
    unfolding clear_session_pending_pairing_def by (rule keeps_utf8(4))
  moreover have "advances (pairing_is_approved c ch p)" "advances (clear_session_pending_pairing E i)"
    unfolding pairing_is_approved_def pairing_for_target_def clear_session_pending_pairing_def set_session_pending_pairing_def
    by (intro advance_intros)+
  ultimately show "harmless (record_message E m)" "harmless (pairing_is_approved c ch p)" "harmless (clear_session_pending_pairing E i)"
    by (simp_all only: harmless_def safe_intros advance_intros keeps_approved keeps_utf8 utf8_clear simp_thms)
  show "valid_str (me_body m) \<Longrightarrow> harmless (ingest_message E bm m)"
    "valid_str reply \<Longrightarrow> harmless (ingest_assistant_reply E bm m reply)"
    "retention_ok E bm \<Longrightarrow> harmless (build_context_pack E bm query scope)"
    "retention_ok E bm \<Longrightarrow> harmless (inline_suggestions E bm scope n)"
    by (simp_all add: harmless_def safe_intros advance_intros brain_ids.keeps_brain
        brain_frame.keeps_brain [where Q = "\<lambda>_ _ exact pre. utf8_rows exact \<and> utf8_rows pre"])
qed

text \<open>The replies of the providers are UTF-8, as every \<open>String\<close> is; so are those of the caches.\<close>

definition provider_law :: "env \<Rightarrow> bool" where
  "provider_law E \<longleftrightarrow> (\<forall>name n prompt r. E_generate E name n prompt = Inr r \<longrightarrow> valid_str r)"

lemma call_provider_utf8: "provider_law E \<Longrightarrow> call_provider E name prompt w = (Ok r, w') \<Longrightarrow> valid_str r"
  by (auto simp: call_provider_run provider_law_def split: sum.splits)

lemma route_loop_utf8:
  assumes "provider_law E"
  shows "route_loop E reg prompt order errors w = (Ok (p, r), w') \<Longrightarrow> valid_str r"
proof (induction order arbitrary: errors w)
  case (Cons name order)
  then show ?case using call_provider_utf8 [OF assms]
    by (fastforce simp: ret_run attempt_run split: option.splits if_splits sum.splits res.splits prod.splits elim!: andthen_OkE)
qed (simp add: fail_run)

lemma generate_live_utf8:
  assumes "provider_law E" and "generate_live E oc route prompt w = (Ok (p, r, tier), w')"
  shows "valid_str r"
  using assms(2) call_provider_utf8 [OF assms(1)] route_loop_utf8 [OF assms(1)]
  unfolding generate_live_def generate_with_provider_def generate_with_routing_def
  by (auto simp: ret_run fail_run lift_res_run attempt_run elim!: andthen_OkE split: option.splits sum.splits if_splits prod.splits res.splits)

lemma memory_utf8: "memory_record_of_row E em fp row = Ok rec \<Longrightarrow> valid_str (mr_content rec)"
  by (auto simp: memory_record_of_row_def unseal_text_def decrypt_text_def from_utf8_def valid_str_def of_option_def
      split: option.splits if_splits)

lemma keeps_andthen_ok:
  assumes "keeps P m" and "\<And>a w w'. m w = (Ok a, w') \<Longrightarrow> keeps P (f a)"
  shows "keeps P (andthen m f)"
proof (rule keepsI)
  fix w :: world
  assume w: "P (w_db w)"
  obtain r w' where m: "m w = (r, w')" by (cases "m w")
  have "P (w_db w')" using keepsD [OF assms(1) w m] .
  then show "P (w_db (snd (andthen m f w)))" using m assms(2) by (cases r) (auto simp: andthen_run keeps_def)
qed

lemma utf8_upsert: "utf8_rows t \<Longrightarrow> valid_str (ca_response r) \<Longrightarrow> utf8_rows (upsert_row ca_key merge_cache r t)"
  unfolding utf8_rows_def by (rule cache.upsert_all) (simp_all add: merge_cache_def)

lemma keeps_utf8_generate:
  assumes "provider_law E"
  shows "keeps utf8_caches (generate_with_route E oc prompt priority route)"
proof -
  have store: "keeps utf8_caches (store_caches E oc prompt prov resp)" if "valid_str resp" for prov resp
    unfolding store_caches_def store_near_caches_def cache_exact_put_def cache_prefix_put_def upsert_memory_def Let_def
    by (intro keeps_intros; simp add: utf8_upsert that)
  have "keeps utf8_caches (generate_uncached E oc prompt priority route)"
    unfolding generate_uncached_def
    by (intro keeps_andthen_ok keeps_intros) (auto intro!: keeps_intros store dest: generate_live_utf8 [OF assms])
  then show ?thesis
    unfolding generate_with_route_def cached_answer_def when_enabled_def semantic_lookup_def cache_exact_get_def
      cache_prefix_get_def query_memory_def Let_def
    by (intro keeps_intros)
qed

lemma semantic_utf8:
  assumes "\<not> w_locked w" and "semantic_lookup E oc prompt w = (Ok (Some content), w1)"
  shows "valid_str content"
proof -
  let ?q = "\<lparr>mq_namespace = ''semantic-cache'', mq_query = prompt, mq_limit = 1, mq_filter_json = ''{}''\<rparr>"
  let ?recs = "traverse_res (memory_record_of_row E (oc_encryption oc) (fingerprint E prompt)) (memory_candidates ''semantic-cache'' (w_db w))"
  obtain recs where recs: "?recs = Ok recs"
    using assms by (cases ?recs) (auto simp: semantic_lookup_def andthen_run query_memory_run)
  with assms obtain entry more where top: "order_desc mr_score recs = entry # more" and c: "content = mr_content entry"
    by (cases "order_desc mr_score recs") (auto simp: semantic_lookup_def andthen_run ret_run query_memory_run split: if_splits)
  from order_desc_hd [OF top] have "entry \<in> set recs" by simp
  from traverse_res_set [OF recs this] obtain row where
    "memory_record_of_row E (oc_encryption oc) (fingerprint E prompt) row = Ok entry" by blast
  from memory_utf8 [OF this] c show ?thesis by simp
qed

lemma cached_answer_utf8:
  assumes "\<not> w_locked w" and "utf8_caches (w_db w)" and "cached_answer E oc prompt w = (Ok (Some r), w')"
  shows "valid_str (or_response r)"
proof -
  let ?run = "cached_answer E oc prompt w"
  let ?c = "cfg_orchestration (oc_config oc)"
  have rows: "utf8_rows (t_prompt_cache (w_db w))" "utf8_rows (t_prefix_cache (w_db w))" using assms(2) by simp_all
  have exact: "valid_str resp" if "cache_exact_get h w = (Ok (Some (p, resp)), w1)" for h p resp w1
    using that rows(1) assms(1) lookup_row_Some by (fastforce simp: cache_exact_get_run utf8_rows_def)
  have pre: "valid_str resp" if "cache_prefix_get prompt w = (Ok (Some (p, resp)), w1)" for p resp w1
    using that rows(2) assms(1) order_desc_hd by (fastforce simp: cache_prefix_get_run utf8_rows_def split: list.splits)
  have semantic: "valid_str content" if "semantic_lookup E oc prompt w = (Ok (Some content), w1)" for content w1
    using semantic_utf8 [OF assms(1) that] .
  have same: "snd (when_enabled b (cache_exact_get h) w) = w" "snd (when_enabled b (cache_prefix_get prompt) w) = w" for b h
    using assms(1) by (simp_all add: when_enabled_run cache_exact_get_run cache_prefix_get_run ret_run)
  obtain x where x: "when_enabled (oc_exact_cache_enabled ?c) (cache_exact_get (prompt_hash E prompt)) w = (Ok x, w)"
    and rest: "(case x of Some (provider, response) \<Rightarrow> ret (Some \<lparr>or_provider = provider, or_response = response, or_cache_tier = ''exact''\<rparr>)
      | None \<Rightarrow> andthen (when_enabled (oc_prefix_cache_enabled ?c) (cache_prefix_get prompt)) (\<lambda>pre.
      case pre of Some (provider, response) \<Rightarrow>
        ret (Some \<lparr>or_provider = provider, or_response = response, or_cache_tier = ''prefix''\<rparr>)
      | None \<Rightarrow>
      andthen (when_enabled (oc_semantic_cache_enabled ?c) (semantic_lookup E oc prompt)) (\<lambda>semantic.
      ret (map_option (\<lambda>content.
        \<lparr>or_provider = ''semantic-cache'', or_response = content, or_cache_tier = ''semantic''\<rparr>) semantic)))) w = (Ok (Some r), w')"
    using assms(3) same(1) unfolding cached_answer_def Let_def by (elim andthen_OkE) (metis snd_conv)
  show ?thesis
  proof (cases x)
    case (Some a)
    with x rest exact show ?thesis by (cases a) (auto simp: ret_run when_enabled_def split: if_splits)
  next
    case None
    with rest obtain y where y: "when_enabled (oc_prefix_cache_enabled ?c) (cache_prefix_get prompt) w = (Ok y, w)"
      and rest2: "(case y of Some (provider, response) \<Rightarrow>
        ret (Some \<lparr>or_provider = provider, or_response = response, or_cache_tier = ''prefix''\<rparr>)
      | None \<Rightarrow> andthen (when_enabled (oc_semantic_cache_enabled ?c) (semantic_lookup E oc prompt)) (\<lambda>semantic.
      ret (map_option (\<lambda>content.
        \<lparr>or_provider = ''semantic-cache'', or_response = content, or_cache_tier = ''semantic''\<rparr>) semantic))) w = (Ok (Some r), w')"
      using same(2) by simp (elim andthen_OkE, metis snd_conv)
    show ?thesis
    proof (cases y)
      case (Some a)
      with y rest2 pre show ?thesis by (cases a) (auto simp: ret_run when_enabled_def split: if_splits)
    next
      case None
      with rest2 semantic show ?thesis by (auto simp: ret_run when_enabled_def elim!: andthen_OkE split: if_splits)
    qed
  qed
qed

lemma generate_utf8:
  assumes "provider_law E" and "\<not> w_locked w" and "utf8_caches (w_db w)"
    and "generate_with_route E oc prompt priority route w = (Ok r, w')"
  shows "valid_str (or_response r)"
  using assms(4) cached_answer_utf8 [OF assms(2,3)] generate_live_utf8 [OF assms(1)]
  unfolding generate_with_route_def generate_uncached_def
  by (auto simp: ret_run elim!: andthen_OkE split: option.splits prod.splits)

lemma harmless_generate:
  assumes "provider_law E" and "\<not> oc_prefix_cache_enabled (cfg_orchestration (oc_config oc)) \<or> is_char_boundary prompt (min (length prompt) 128)"
  shows "harmless (generate_with_route E oc prompt priority route)"
proof -
  have "keeps (same_ids d0) (generate_with_route E oc prompt priority route)" for d0
    unfolding generate_with_route_def generate_uncached_def cached_answer_def when_enabled_def semantic_lookup_def
      cache_exact_get_def cache_prefix_get_def query_memory_def store_caches_def store_near_caches_def cache_exact_put_def
      cache_prefix_put_def upsert_memory_def Let_def
    by (intro keeps_intros; simp)
  then show ?thesis using assms by (simp add: harmless_def safe_intros advance_intros keeps_utf8_generate)
qed

section \<open>Every message that needs no pairing is answered\<close>

text \<open>The prompt can be cut at byte 128: it lies in the part before the message and the brain's context.\<close>

definition plain :: "string \<Rightarrow> bool" where
  "plain s \<longleftrightarrow> list_all (\<lambda>c. \<not> is_cont c) s"

lemma plain_append [simp]: "plain (s @ t) \<longleftrightarrow> plain s \<and> plain t"
  by (simp add: plain_def)

lemma plain_boundary:
  assumes "plain pre" and "128 < length pre"
  shows "is_char_boundary (pre @ rest) (min (length (pre @ rest)) 128)"
  using assms by (auto simp: plain_def is_char_boundary_def list_all_length nth_append)

definition fixed_header :: "message_envelope \<Rightarrow> string \<Rightarrow> string" where
  "fixed_header m sid = ''You are OpenPinch, a local autonomous agent.'' @ [CHR 0x0A] @ ''Connector: '' @ me_connector m
     @ [CHR 0x0A] @ ''Sender: '' @ me_sender m @ [CHR 0x0A] @ ''Session: '' @ sid @ [CHR 0x0A] @ ''Relevant brain context:'' @ [CHR 0x0A]"

lemma prompt_boundary:
  assumes "plain (me_connector m)" and "plain (me_sender m)" and "plain sid" and "44 \<le> length sid"
  shows "is_char_boundary (message_prompt m sid pack) (min (length (message_prompt m sid pack)) 128)"
proof (cases "pack = []")
  case True
  have "plain (prompt_header m sid [])" "128 < length (prompt_header m sid [])"
    using assms by (simp_all add: prompt_header_def) (simp_all add: plain_def is_cont_def byte_def)
  then show ?thesis unfolding message_prompt_def True by (rule plain_boundary)
next
  case False
  have "message_prompt m sid pack = fixed_header m sid @ pack @ [CHR 0x0A] @ ''User message: '' @ me_body m"
    using False by (simp add: message_prompt_def prompt_header_def fixed_header_def)
  moreover have "plain (fixed_header m sid)" "128 < length (fixed_header m sid)"
    using assms by (simp_all add: fixed_header_def) (simp_all add: plain_def is_cont_def byte_def)
  ultimately show ?thesis using plain_boundary by simp
qed

lemma drawn_session_plain:
  assumes "uuid_law E" and "drawn_session E s"
  shows "plain (s_id s)" and "44 \<le> length (s_id s)"
proof -
  obtain k where k: "s_id s = ''session-'' @ E_uuid E k" using assms(2) by (auto simp: drawn_session_def)
  have u: "list_all (\<lambda>c. \<not> is_cont c) (E_uuid E k)" "36 \<le> length (E_uuid E k)" using assms(1) by (simp_all add: uuid_law_def)
  show "plain (s_id s)" unfolding k plain_def using u(1) by (simp add: is_cont_def byte_def)
  show "44 \<le> length (s_id s)" unfolding k using u(2) by simp
qed

lemma completes_receive:
  assumes "uuid_law E" and "valid_str (me_body m)"
  shows "completes E (receive_message E en m) (\<lambda>p. drawn_session E (fst p))"
proof -
  have "completes E (record_message E m) (\<lambda>_. True)"
    by (rule completes_harmless [OF harmless_steps(1)]) (simp add: record_message_def run_simps)
  then show ?thesis unfolding receive_message_def
    by (intro completes_andthen [OF _ completes_andthen [OF completes_resolve_session [OF assms(1)]
          completes_andthen [OF completes_record_session_message [OF assms(1)]
            completes_andthen [OF completes_handled(1) [OF harmless_steps(4) [OF assms(2)]]]]]] completes_ret) simp_all
qed

lemma ensure_required_completes:
  assumes "ready E w" and "\<not> must_pair en s m (w_db w)"
  shows "\<exists>w'. ensure_pairing_if_required E en s m w = (Ok None, w') \<and> ready E w'"
proof -
  have "completes E (clear_session_pending_pairing E (s_id s)) (\<lambda>_. True)"
    by (rule completes_harmless [OF harmless_steps(3)])
       (simp add: clear_session_pending_pairing_def set_session_pending_pairing_def run_simps)
  then have cleared: "completes E (andthen (clear_session_pending_pairing E (s_id s)) (\<lambda>_. ret None)) (\<lambda>x. x = (None :: string option))"
    by (intro completes_andthen completes_ret) simp_all
  have un: "\<not> w_locked w" using assms(1) by (simp add: ready_def)
  consider "pairing_exempt en s m" | "\<not> pairing_exempt en s m" "allowlisted en m"
    | r where "\<not> pairing_exempt en s m" "\<not> allowlisted en m" "pg_status r = ''approved''"
      "lookup_row pairing_target (me_connector m, me_channel_id m, me_sender m) (t_pairings (w_db w)) = Some r"
    using assms(2) by (auto simp: must_pair_def)
  then show ?thesis
  proof cases
    case 1
    then show ?thesis using assms(1) by (simp add: ensure_pairing_if_required_def ret_run)
  next
    case 2
    then show ?thesis using cleared assms(1) by (auto simp: ensure_pairing_if_required_def completes_def)
  next
    case 3
    then have "ensure_pairing_if_required E en s m w = andthen (clear_session_pending_pairing E (s_id s)) (\<lambda>_. ret None) w"
      using un by (simp add: ensure_pairing_if_required_def andthen_run pairing_is_approved_run)
    then show ?thesis using cleared assms(1) by (auto simp: completes_def)
  qed
qed

definition answered :: "inbound_result \<Rightarrow> bool" where
  "answered r \<longleftrightarrow> ir_accepted r \<and> ir_delivery_state r \<in> {''ignored'', ''replied'', ''degraded''}"

lemma completes_deliver:
  assumes "uuid_law E" and "retention_ok E (en_brain en)" and "valid_str (or_response result)"
  shows "completes E (deliver_reply E en m s i scope result) answered"
proof -
  have "completes E (with_suggestions E en scope (or_response result)) (\<lambda>_. True)"
    unfolding with_suggestions_def Let_def
    by (cases "bc_inline_suggestions_in_replies (cfg_brain (en_config en))")
       (simp_all add: completes_ret completes_andthen [OF completes_handled(2) [OF harmless_steps(7) [OF assms(2)]]])
  then show ?thesis unfolding deliver_reply_def
    by (intro completes_andthen [OF completes_handled(1) [OF harmless_steps(5) [OF assms(3)]] completes_andthen [OF _
          completes_andthen [OF completes_record_session_message [OF assms(1)] completes_andthen [OF completes_record_audit [OF assms(1)]]]]]
        completes_ret) (simp_all add: answered_def delivered_def)
qed

lemma completes_answer:
  assumes "uuid_law E" and "retention_ok E (en_brain en)" and "provider_law E"
    and "plain (me_connector m)" and "plain (me_sender m)" and "drawn_session E s"
  shows "completes E (answer_message E en m s i) answered"
proof -
  let ?gen = "\<lambda>pack. generate_with_route E (en_orchestrator en) (message_prompt m (s_id s) pack) Connector (model_route_for_session en s)"
  have harm: "harmless (?gen pack)" for pack
    using prompt_boundary [OF assms(4,5) drawn_session_plain [OF assms(1,6)]] by (intro harmless_generate assms(3)) blast
  have gen: "completes E (attempt (?gen pack)) (\<lambda>x. case x of Inl e \<Rightarrow> True | Inr r \<Rightarrow> valid_str (or_response r))" for pack
    by (rule completes_handled(3) [OF harm]) (auto simp: ready_def intro: generate_utf8 [OF assms(3)])
  have fail: "completes E (deliver_failure E s i e) answered" for e
    unfolding deliver_failure_def
    by (rule completes_andthen [OF completes_record_audit [OF assms(1)]]) (simp add: completes_ret answered_def delivered_def)
  have after: "completes E (case x of Inr result \<Rightarrow> deliver_reply E en m s i scope result | Inl e \<Rightarrow> deliver_failure E s i e) answered"
    if "case x of Inl e \<Rightarrow> True | Inr r \<Rightarrow> valid_str (or_response r)" for x scope
    using that by (cases x) (simp_all add: fail completes_deliver [OF assms(1,2)])
  show ?thesis unfolding answer_message_def Let_def
    by (rule completes_andthen [OF completes_handled(2) [OF harmless_steps(6) [OF assms(2)]] completes_andthen [OF gen after]])
qed

lemma message_answered:
  assumes "ready E w" and "uuid_law E" and "retention_ok E (en_brain en)" and "provider_law E"
    and "valid_str (me_body m)" and "plain (me_connector m)" and "plain (me_sender m)"
    and "\<forall>s. \<not> must_pair en s m (w_db w)"
  shows "\<exists>r w'. handle_message E en m w = (Ok r, w') \<and> answered r \<and> ready E w'"
proof -
  obtain p w1 where p: "receive_message E en m w = (Ok p, w1)" "drawn_session E (fst p)" and w1: "ready E w1"
    using completes_receive [OF assms(2,5), of en] assms(1) unfolding completes_def by blast
  obtain s i where rec: "receive_message E en m w = (Ok (s, i), w1)" and s: "drawn_session E s"
    using p by (cases p) auto
  have "t_pairings (w_db w1) = t_pairings (w_db w)" by (rule keepsD [OF keeps_receive_pairings refl rec])
  with spec [OF assms(8), of s] have "\<not> must_pair en s m (w_db w1)" by (simp add: must_pair_def)
  from ensure_required_completes [OF w1 this] obtain w2
    where w2: "ensure_pairing_if_required E en s m w1 = (Ok None, w2)" "ready E w2" by blast
  show ?thesis
  proof (cases "should_ignore_message E en s m")
    case True
    then show ?thesis using rec w2 by (simp add: handle_message_def andthen_run ret_run answered_def delivered_def)
  next
    case False
    obtain r w3 where "answer_message E en m s i w2 = (Ok r, w3)" "answered r" "ready E w3"
      using completes_answer [OF assms(2-4,6,7) s, of i] w2(2) unfolding completes_def by blast
    with False rec w2 show ?thesis by (simp add: handle_message_def andthen_run)
  qed
qed


section \<open>The sample runtime answers\<close>

lemma sample_uuids: "uuid_law sample_env"
proof -
  have "inj (E_uuid sample_env)"
  proof (rule injI)
    fix x y :: nat
    have count: "length (filter (\<lambda>c. c = CHR ''a'') (E_uuid sample_env n)) = n" for n by simp
    assume "E_uuid sample_env x = E_uuid sample_env y"
    then show "x = y" using count [of x] count [of y] by argo
  qed
  then show ?thesis by (auto simp: uuid_law_def list_all_iff is_cont_def byte_def)
qed

lemma boot_ready: "ready E boot_world"
  by (simp add: ready_def ids_fresh_def drawn_def utf8_rows_def)

lemma sample_retention: "retention_ok sample_env (en_brain sample_engine)"
proof -
  have "bc_archive_decay_days (bm_config (en_brain sample_engine)) = bc_archive_decay_days default_brain"
    by (simp add: sample_engine_def make_engine_def make_brain_def sample_config_def)
  then show ?thesis using demo_retention_ok by (simp only: retention_ok_def demo_brain_fields sample_env_fields simp_thms)
qed

lemma sample_exempt: "\<not> must_pair sample_engine s (sample_message ''desktop'' body) d"
  by (simp add: must_pair_def pairing_exempt_def sample_message_def)

lemma sample_plain: "plain (me_connector (sample_message ''desktop'' body))" "plain (me_sender (sample_message ''desktop'' body))"
  by (simp_all add: sample_message_def plain_def is_cont_def byte_def)

lemma valid_ascii: "list_all (\<lambda>c. byte c < 128) s \<Longrightarrow> valid_str s"
  unfolding valid_str_def by (induction s) simp_all

lemma dec_ascii: "list_all (\<lambda>c. byte c < 128) (dec n)"
proof (induction n rule: dec.induct)
  case (1 n)
  have "(48 + n mod 10) mod 256 < 128" by simp
  with 1 show ?case by (simp add: dec.simps [of n] byte_def)
qed

lemma sample_providers: "provider_law sample_env"
  by (auto simp: provider_law_def intro!: valid_ascii dec_ascii) (simp_all add: byte_def)

lemma sample_needs_no_pairing: "\<forall>s. \<not> must_pair sample_engine s (sample_message ''desktop'' body) d"
  using sample_exempt by blast

lemma sample_body: "list_all (\<lambda>c. byte c < 128) body \<Longrightarrow> valid_str (me_body (sample_message name body))"
  by (simp add: sample_message_def valid_ascii)

lemmas sample_hypotheses = sample_uuids sample_retention sample_providers sample_body sample_plain sample_needs_no_pairing


text \<open>Two messages of one sender, the second answered like the first.\<close>

lemma sample_generates:
  assumes "\<not> w_locked w"
  shows "generate_with_route sample_env (en_orchestrator sample_engine) prompt Connector (model_route_for_session sample_engine s) w \<noteq> (Err e, w')"
proof -
  let ?oc = "en_orchestrator sample_engine"
  have route: "live_route sample_config Connector (model_route_for_session sample_engine s) = [''ollama'']"
    by (simp add: model_route_for_session_def live_route_def sample_config_def default_config_def default_model_failover_def)
  have live: "generate_live sample_env ?oc [''ollama''] prompt w =
      (Ok (''ollama'', ''reply '' @ dec (length (w_calls w)), ''live''), w\<lparr>w_calls := w_calls w @ [(''ollama'', prompt)]\<rparr>)"
    by (simp add: generate_live_def sample_engine_def make_engine_def new_orchestrator_def sample_config_def default_config_def generate_with_routing_def
      registry_from_config_def demo_provider_def derived_model_provider_def supported_kind_def bt_get_def run_simps)
  have off: "\<not> oc_semantic_cache_enabled (cfg_orchestration (oc_config ?oc))" by (simp add: sample_config_def)
  have stored: "store_caches sample_env ?oc prompt prov resp v \<noteq> (Err e, w')" if "\<not> w_locked v" for prov resp v
    using that off by (auto simp: store_caches_def store_near_caches_def cache_exact_put_run cache_prefix_put_run slice_to_def run_simps)
  have "\<exists>x. when_enabled b (cache_exact_get h) w = (Ok x, w)" "\<exists>x. when_enabled b (cache_prefix_get prompt) w = (Ok x, w)" for b h
    using assms by (simp_all add: when_enabled_run cache_exact_get_run cache_prefix_get_run ret_run)
  then obtain x y where "when_enabled (oc_exact_cache_enabled (cfg_orchestration sample_config)) (cache_exact_get (prompt_hash sample_env prompt)) w = (Ok x, w)"
    "when_enabled (oc_prefix_cache_enabled (cfg_orchestration sample_config)) (cache_prefix_get prompt) w = (Ok y, w)" by metis
  with off obtain c where "cached_answer sample_env ?oc prompt w = (Ok c, w)"
    by (cases x; cases y) (auto simp: cached_answer_def Let_def andthen_run ret_run when_enabled_def)
  then show ?thesis
    using stored assms by (auto simp: generate_with_route_def generate_uncached_def route live andthen_run ret_run split: option.splits res.splits prod.splits)
qed

lemma sample_not_ignored: "\<not> should_ignore_message sample_env sample_engine s (sample_message ''desktop'' body)"
  by (simp add: should_ignore_message_def sample_config_def default_config_def default_routing_def sample_message_def
      lookup_connector_def bt_get_def derived_connector_def)

lemma sample_replies:
  assumes "ready sample_env w" and "valid_str (me_body (sample_message ''desktop'' body))"
  shows "\<exists>s i wa r w'. receive_message sample_env sample_engine (sample_message ''desktop'' body) w = (Ok (s, i), wa)
    \<and> handle_message sample_env sample_engine (sample_message ''desktop'' body) w = (Ok r, w')
    \<and> ir_delivery_state r = ''replied'' \<and> ir_session_id r = s_id s \<and> ready sample_env w'"
proof -
  let ?m = "sample_message ''desktop'' body" and ?E = sample_env and ?en = sample_engine
  obtain s i wa where rec: "receive_message ?E ?en ?m w = (Ok (s, i), wa)" "drawn_session ?E s" "ready ?E wa"
    using completes_receive [OF sample_uuids assms(2), of ?en] assms(1) unfolding completes_def by (metis fst_conv surj_pair)
  obtain wb where pair: "ensure_pairing_if_required ?E ?en s ?m wa = (Ok None, wb)" "ready ?E wb"
    using ensure_required_completes [OF rec(3)] sample_exempt by blast
  obtain r w' where ans: "answer_message ?E ?en ?m s i wb = (Ok r, w')" "ready ?E w'"
    using completes_answer [OF sample_uuids sample_retention sample_providers sample_plain rec(2)] pair(2)
    unfolding completes_def by blast
  have "handle_message ?E ?en ?m w = (Ok r, w')"
    using rec(1) pair(1) ans(1) sample_not_ignored by (simp add: handle_message_def andthen_run)
  moreover have "ir_delivery_state r = ''replied'' \<and> ir_session_id r = s_id s"
  proof (cases rule: answer_off [OF sample_engine_fields(2) ans(1)])
    case (1 g v)
    from deliver_reply_off(1) [OF sample_engine_fields(2) 1(2)] show ?thesis by (simp add: delivered_def)
  next
    case (2 e v)
    then show ?thesis using sample_generates pair(2) by (auto simp: ready_def)
  qed
  ultimately show ?thesis using rec(1) ans(2) by blast
qed


end
