(* ===== verification/Rpc.thy ===== *)
theory Rpc
  imports Engine_Ops
begin

text \<open>
  The private RPC service of the runtime (\<open>RuntimeRpcService\<close> in \<open>engine/src/lib.rs\<close>): one handler
  per method of \<open>EngineRuntimeService\<close> in \<open>proto/openpinch.proto\<close>, from the request message to the
  engine's operation and back to the response message. A request is served without interruption;
  the worker of the queue takes its steps between requests.
\<close>

section \<open>Status and defaults\<close>

text \<open>\<open>tonic::Status\<close>: the two codes the service gives.\<close>

datatype status = Invalid_Argument string | Internal string

definition internal_status :: "error \<Rightarrow> status" where
  "internal_status e = Internal (error_text e)"

text \<open>\<open>operation(\<dots>).map_err(internal_status)?\<close>, and the response made of the result.\<close>

definition respond :: "'a io \<Rightarrow> ('a \<Rightarrow> 'b) \<Rightarrow> (status + 'b) io" where
  "respond m f = andthen (attempt m) (\<lambda>r. ret (case r of Inl e \<Rightarrow> Inl (internal_status e) | Inr a \<Rightarrow> Inr (f a)))"

definition empty_to_none :: "string \<Rightarrow> string option" where
  "empty_to_none value = (if value = [] then None else Some value)"

definition parse_timestamp :: "env \<Rightarrow> string \<Rightarrow> instant res" where
  "parse_timestamp E value = of_option (Msg (''invalid timestamp '' @ value)) (E_parse_time E value)"

definition parse_optional_timestamp :: "env \<Rightarrow> string \<Rightarrow> instant option res" where
  "parse_optional_timestamp E value = (if value = [] then Ok None else map_res Some (parse_timestamp E value))"

section \<open>The messages with times as text\<close>

record proto_memory_record =
  pmr_key :: string
  pmr_namespace :: string
  pmr_content :: string
  pmr_metadata_json :: string
  pmr_score :: f64
  pmr_created_at :: string

record proto_session =
  pse_id :: string
  pse_connector :: string
  pse_channel_id :: string
  pse_participant :: string
  pse_session_type :: string
  pse_title :: string
  pse_status :: string
  pse_reply_mode :: string
  pse_queue_mode :: string
  pse_model_profile :: string
  pse_mention_only :: bool
  pse_pending_pairing :: bool
  pse_last_message_preview :: string
  pse_message_count :: "32 word"
  pse_created_at :: string
  pse_updated_at :: string

record proto_session_message_record =
  psm_id :: string
  psm_session_id :: string
  psm_connector :: string
  psm_role :: string
  psm_sender :: string
  psm_body :: string
  psm_metadata_json :: string
  psm_created_at :: string

record proto_pairing =
  ppa_id :: string
  ppa_connector :: string
  ppa_channel_id :: string
  ppa_sender :: string
  ppa_session_id :: string
  ppa_status :: string
  ppa_reason :: string
  ppa_created_at :: string
  ppa_updated_at :: string

record proto_entity =
  pen_id :: string
  pen_kind :: string
  pen_subtype :: string
  pen_title :: string
  pen_content :: string
  pen_scope_json :: string
  pen_links_json :: string
  pen_salience :: f64
  pen_confidence :: f64
  pen_archived :: bool
  pen_created_at :: string
  pen_updated_at :: string

record proto_fact =
  pfa_id :: string
  pfa_entity_id :: string
  pfa_content :: string
  pfa_scope_json :: string
  pfa_salience :: f64
  pfa_confidence :: f64
  pfa_archived :: bool
  pfa_created_at :: string
  pfa_updated_at :: string

record proto_relation =
  prl_id :: string
  prl_kind :: string
  prl_from_id :: string
  prl_to_id :: string
  prl_metadata_json :: string
  prl_confidence :: f64
  prl_created_at :: string
  prl_updated_at :: string

record proto_task =
  ptk_id :: string
  ptk_title :: string
  ptk_summary :: string
  ptk_status :: string
  ptk_priority :: string
  ptk_due_at :: string
  ptk_scope_json :: string
  ptk_links_json :: string
  ptk_salience :: f64
  ptk_confidence :: f64
  ptk_archived :: bool
  ptk_created_at :: string
  ptk_updated_at :: string

record proto_event =
  pev_id :: string
  pev_category :: string
  pev_severity :: string
  pev_summary :: string
  pev_anomaly_score :: f64
  pev_payload_json :: string
  pev_created_at :: string

definition proto_memory :: "env \<Rightarrow> memory_record \<Rightarrow> proto_memory_record" where
  "proto_memory E r = \<lparr>pmr_key = mr_key r, pmr_namespace = mr_namespace r, pmr_content = mr_content r,
     pmr_metadata_json = mr_metadata_json r, pmr_score = mr_score r, pmr_created_at = E_rfc3339 E (mr_created_at r)\<rparr>"

definition proto_session_record :: "env \<Rightarrow> session_record \<Rightarrow> proto_session" where
  "proto_session_record E r = \<lparr>pse_id = s_id r, pse_connector = s_connector r, pse_channel_id = s_channel_id r,
     pse_participant = s_participant r, pse_session_type = s_session_type r, pse_title = s_title r, pse_status = s_status r,
     pse_reply_mode = s_reply_mode r, pse_queue_mode = s_queue_mode r, pse_model_profile = s_model_profile r,
     pse_mention_only = s_mention_only r, pse_pending_pairing = s_pending_pairing r,
     pse_last_message_preview = s_last_message_preview r, pse_message_count = s_message_count r,
     pse_created_at = E_rfc3339 E (s_created_at r), pse_updated_at = E_rfc3339 E (s_updated_at r)\<rparr>"

definition proto_session_message :: "env \<Rightarrow> session_message_record \<Rightarrow> proto_session_message_record" where
  "proto_session_message E r = \<lparr>psm_id = sm_id r, psm_session_id = sm_session_id r, psm_connector = sm_connector r,
     psm_role = sm_role r, psm_sender = sm_sender r, psm_body = sm_body r, psm_metadata_json = sm_metadata_json r,
     psm_created_at = E_rfc3339 E (sm_created_at r)\<rparr>"

definition proto_pairing_record :: "env \<Rightarrow> pairing_record \<Rightarrow> proto_pairing" where
  "proto_pairing_record E r = \<lparr>ppa_id = p_id r, ppa_connector = p_connector r, ppa_channel_id = p_channel_id r,
     ppa_sender = p_sender r, ppa_session_id = p_session_id r, ppa_status = p_status r, ppa_reason = p_reason r,
     ppa_created_at = E_rfc3339 E (p_created_at r), ppa_updated_at = E_rfc3339 E (p_updated_at r)\<rparr>"

definition proto_brain_entity :: "env \<Rightarrow> brain_entity_record \<Rightarrow> proto_entity" where
  "proto_brain_entity E r = \<lparr>pen_id = be_id r, pen_kind = be_kind r, pen_subtype = be_subtype r, pen_title = be_title r,
     pen_content = be_content r, pen_scope_json = be_scope_json r, pen_links_json = be_links_json r,
     pen_salience = be_salience r, pen_confidence = be_confidence r, pen_archived = be_archived r,
     pen_created_at = E_rfc3339 E (be_created_at r), pen_updated_at = E_rfc3339 E (be_updated_at r)\<rparr>"

definition proto_brain_fact :: "env \<Rightarrow> brain_fact_record \<Rightarrow> proto_fact" where
  "proto_brain_fact E r = \<lparr>pfa_id = bfa_id r, pfa_entity_id = bfa_entity_id r, pfa_content = bfa_content r,
     pfa_scope_json = bfa_scope_json r, pfa_salience = bfa_salience r, pfa_confidence = bfa_confidence r,
     pfa_archived = bfa_archived r, pfa_created_at = E_rfc3339 E (bfa_created_at r), pfa_updated_at = E_rfc3339 E (bfa_updated_at r)\<rparr>"

definition proto_brain_relation :: "env \<Rightarrow> brain_relation_record \<Rightarrow> proto_relation" where
  "proto_brain_relation E r = \<lparr>prl_id = brl_id r, prl_kind = brl_kind r, prl_from_id = brl_from_id r, prl_to_id = brl_to_id r,
     prl_metadata_json = brl_metadata_json r, prl_confidence = brl_confidence r,
     prl_created_at = E_rfc3339 E (brl_created_at r), prl_updated_at = E_rfc3339 E (brl_updated_at r)\<rparr>"

definition proto_brain_task :: "env \<Rightarrow> brain_task_record \<Rightarrow> proto_task" where
  "proto_brain_task E r = \<lparr>ptk_id = tk_id r, ptk_title = tk_title r, ptk_summary = tk_summary r, ptk_status = tk_status r,
     ptk_priority = tk_priority r, ptk_due_at = (case tk_due_at r of None \<Rightarrow> [] | Some due \<Rightarrow> E_rfc3339 E due),
     ptk_scope_json = tk_scope_json r, ptk_links_json = tk_links_json r, ptk_salience = tk_salience r,
     ptk_confidence = tk_confidence r, ptk_archived = tk_archived r,
     ptk_created_at = E_rfc3339 E (tk_created_at r), ptk_updated_at = E_rfc3339 E (tk_updated_at r)\<rparr>"

definition proto_audit_event :: "env \<Rightarrow> audit_event \<Rightarrow> proto_event" where
  "proto_audit_event E e = \<lparr>pev_id = ae_id e, pev_category = ae_category e, pev_severity = ae_severity e,
     pev_summary = ae_summary e, pev_anomaly_score = ae_anomaly_score e, pev_payload_json = ae_payload_json e,
     pev_created_at = E_rfc3339 E (ae_created_at e)\<rparr>"

section \<open>Requests and responses\<close>

text \<open>
  The request messages, their fields in the order of the proto file (\<open>Empty\<close> has none). The message
  of \<open>EngineMessageRequest\<close> and those of \<open>AgentProtocolRequest\<close> have the fields of \<open>MessageEnvelope\<close>
  and \<open>AgentEnvelope\<close>; the encrypted body of the latter is text, empty for none.
\<close>

record agent_message =
  am_sender :: string
  am_recipient :: string
  am_body :: string
  am_metadata_json :: string
  am_encrypted_body :: string

datatype rpc_request =
    Deliver_Message "message_envelope option"
  | Run_Tool (rt_tool: string) (rt_arguments_json: string) (rt_allow_network: bool) (rt_priority: string)
  | Run_Skill (rsk_skill_id: string) (rsk_arguments_json: string)
  | Health
  | Query_Memory (qm_namespace: string) (qm_query: string) (qm_limit: nat) (qm_filter_json: string)
  | Upsert_Memory (um_namespace: string) (um_key: string) (um_content: string) (um_metadata_json: string)
  | List_Sessions (ls_connector: string) (ls_status: string) (ls_include_archived: bool) (ls_limit: nat)
  | Get_Session (gs_session_id: string) (gs_limit: nat)
  | Prune_Sessions (ps_older_than_hours: "32 word") (ps_archive_only: bool)
  | List_Pairings (lp_status: string) (lp_connector: string) (lp_limit: nat)
  | Update_Pairing pairing_update
  | Record_Outbound_Message outbound_message
  | Get_Doctor_Report (gd_connectors: bool) (gd_models: bool) (gd_desktop: bool) (gd_web: bool)
  | List_Model_Profiles
  | Remember_Brain brain_remember
  | Recall_Brain brain_recall_query
  | Suggest_Brain brain_suggest_query
  | List_Brain_Tasks (lb_scope_json: string) (lb_statuses: "string list") (lb_priorities: "string list")
      (lb_due_before: string) (lb_limit: nat)
  | Update_Brain_Task (ub_task_id: string) (ub_status: string) (ub_priority: string) (ub_due_at: string) (ub_summary: string)
      (ub_links_json: string) (ub_source_ref: string)
  | Forget_Brain brain_forget
  | Run_Agent_Protocol (ra_protocol_id: string) (ra_initiator: string) (ra_messages: "agent_message list")
      (ra_policy_scope: string)
  | Attest_Session (as_subject: string) (as_nonce: string) (as_include_hardware: bool)
  | Export_Audit (ea_sink: string) (ea_limit: nat)
  | Queue_Task (qk_task_id: string) (qk_task_type: string) (qk_target: string) (qk_arguments_json: string) (qk_priority: string)
  | Get_Policy_Report (gp_subject: string) (gp_capability: string)

datatype rpc_response =
    Submit_Message_Response (smr_accepted: bool) (smr_message_id: string) (smr_reply: string) (smr_session_id: string)
      (smr_pairing_id: string) (smr_delivery_state: string)
  | Execute_Response tool_outcome
  | Health_Response health_response
  | Memory_Query_Response "proto_memory_record list" string
  | Memory_Upsert_Response (mur_stored: bool) (mur_backend: string) (mur_digest: string)
  | Session_List_Response "proto_session list" string
  | Session_Response "proto_session option" "proto_session_message_record list"
  | Session_Prune_Response "32 word"
  | Pairing_List_Response "proto_pairing list"
  | Pairing_Update_Response bool "proto_pairing option"
  | Channel_Message_Response outbound_message_result
  | Doctor_Report_Response doctor_report
  | Model_Profile_List_Response "model_profile_record list"
  | Brain_Remember_Response (brs_stored: bool) (brs_entity: "proto_entity option") (brs_task: "proto_task option") (brs_digest: string)
  | Brain_Recall_Response string "proto_entity list" "proto_fact list" "proto_relation list" "proto_task list"
  | Brain_Suggest_Response string "brain_suggestion_record list"
  | Brain_Task_List_Response string "proto_task list"
  | Brain_Task_Update_Response bool "proto_task option"
  | Brain_Forget_Response brain_forget_result
  | Agent_Protocol_Response protocol_run_result
  | Attestation_Response attestation_report
  | Audit_Export_Response (aer_exported: bool) (aer_format: string) (aer_events: "proto_event list")
  | Queue_Task_Response queue_receipt
  | Policy_Report_Response policy_report

type_synonym answer = "status + rpc_response"

section \<open>The handlers\<close>

definition rpc_deliver_message :: "env \<Rightarrow> engine \<Rightarrow> message_envelope option \<Rightarrow> answer io" where
  "rpc_deliver_message E en message = (case message of
       None \<Rightarrow> ret (Inl (Invalid_Argument ''message is required''))
     | Some m \<Rightarrow> respond (handle_message E en m) (\<lambda>result. Submit_Message_Response (ir_accepted result) (ir_message_id result)
         (ir_reply result) (ir_session_id result) (ir_pairing_id result) (ir_delivery_state result)))"

definition rpc_run_tool :: "env \<Rightarrow> engine \<Rightarrow> string \<Rightarrow> string \<Rightarrow> bool \<Rightarrow> string \<Rightarrow> answer io" where
  "rpc_run_tool E en tool arguments_json allow_network priority =
     andthen (engine_execute_tool E en \<lparr>tc_target = tool, tc_arguments_json = arguments_json, tc_allow_network = allow_network,
       tc_priority = parse_priority priority\<rparr>) (\<lambda>outcome. ret (Inr (Execute_Response outcome)))"

definition rpc_run_skill :: "env \<Rightarrow> engine \<Rightarrow> string \<Rightarrow> string \<Rightarrow> answer io" where
  "rpc_run_skill E en skill_id arguments_json =
     andthen (engine_execute_skill E en skill_id arguments_json) (\<lambda>outcome. ret (Inr (Execute_Response outcome)))"

definition rpc_health :: "host \<Rightarrow> engine \<Rightarrow> answer io" where
  "rpc_health h en = ret (Inr (Health_Response (engine_health h en)))"

definition default_namespace :: "engine \<Rightarrow> string" where
  "default_namespace en = vc_default_namespace (cfg_vector_memory (en_config en))"

definition rpc_query_memory :: "env \<Rightarrow> engine \<Rightarrow> string \<Rightarrow> string \<Rightarrow> nat \<Rightarrow> string \<Rightarrow> answer io" where
  "rpc_query_memory E en namespace query limit filter_json =
     respond (engine_query_memory E en \<lparr>mq_namespace = empty_to_default namespace (default_namespace en), mq_query = query,
       mq_limit = limit, mq_filter_json = filter_json\<rparr>)
     (\<lambda>(records, backend). Memory_Query_Response (map (proto_memory E) records) backend)"

definition rpc_upsert_memory :: "env \<Rightarrow> engine \<Rightarrow> string \<Rightarrow> string \<Rightarrow> string \<Rightarrow> string \<Rightarrow> answer io" where
  "rpc_upsert_memory E en namespace key content metadata_json =
     respond (engine_upsert_memory E en (empty_to_default namespace (default_namespace en)) key content metadata_json)
     (\<lambda>digest. Memory_Upsert_Response True (oc_vector_backend (en_orchestrator en)) digest)"

definition rpc_list_sessions :: "env \<Rightarrow> string \<Rightarrow> string \<Rightarrow> bool \<Rightarrow> nat \<Rightarrow> answer io" where
  "rpc_list_sessions E connector_name status include_archived limit =
     respond (list_sessions \<lparr>slq_connector = empty_to_none connector_name, slq_status = empty_to_none status,
       slq_include_archived = include_archived, slq_limit = max limit 1\<rparr>)
     (\<lambda>sessions. Session_List_Response (map (proto_session_record E) sessions) (dec (length sessions) @ '' sessions''))"

definition rpc_get_session :: "env \<Rightarrow> string \<Rightarrow> nat \<Rightarrow> answer io" where
  "rpc_get_session E session_id limit =
     respond (get_session_detail \<lparr>sdq_session_id = session_id, sdq_limit = max limit 1\<rparr>)
     (\<lambda>detail. Session_Response (Some (proto_session_record E (sd_session detail))) (map (proto_session_message E) (sd_messages detail)))"

definition rpc_prune_sessions :: "env \<Rightarrow> 32 word \<Rightarrow> bool \<Rightarrow> answer io" where
  "rpc_prune_sessions E older_than_hours archive_only =
     respond (prune_sessions E \<lparr>sp_older_than_hours = max older_than_hours 1, sp_archive_only = archive_only\<rparr>) Session_Prune_Response"

definition rpc_list_pairings :: "env \<Rightarrow> string \<Rightarrow> string \<Rightarrow> nat \<Rightarrow> answer io" where
  "rpc_list_pairings E status connector_name limit =
     respond (list_pairings \<lparr>plq_status = empty_to_none status, plq_connector = empty_to_none connector_name,
       plq_limit = max limit 1\<rparr>) (\<lambda>pairings. Pairing_List_Response (map (proto_pairing_record E) pairings))"

definition rpc_update_pairing :: "env \<Rightarrow> pairing_update \<Rightarrow> answer io" where
  "rpc_update_pairing E request =
     respond (engine_update_pairing E request) (\<lambda>pairing. Pairing_Update_Response True (Some (proto_pairing_record E pairing)))"

definition rpc_record_outbound_message :: "env \<Rightarrow> engine \<Rightarrow> outbound_message \<Rightarrow> answer io" where
  "rpc_record_outbound_message E en request = respond (record_outbound_message E en request) Channel_Message_Response"

definition rpc_get_doctor_report :: "host \<Rightarrow> engine \<Rightarrow> bool \<Rightarrow> bool \<Rightarrow> bool \<Rightarrow> bool \<Rightarrow> answer io" where
  "rpc_get_doctor_report h en include_connectors include_models include_desktop include_web =
     ret (Inr (Doctor_Report_Response (engine_doctor h en include_connectors include_models (include_desktop \<or> include_web))))"

definition rpc_list_model_profiles :: "engine \<Rightarrow> answer io" where
  "rpc_list_model_profiles en = ret (Inr (Model_Profile_List_Response (model_profiles en)))"

definition rpc_remember_brain :: "env \<Rightarrow> engine \<Rightarrow> brain_remember \<Rightarrow> answer io" where
  "rpc_remember_brain E en request =
     respond (remember_brain E en request) (\<lambda>result. Brain_Remember_Response (bre_stored result)
       (map_option (proto_brain_entity E) (bre_entity result)) (map_option (proto_brain_task E) (bre_task result)) (bre_digest result))"

definition rpc_recall_brain :: "env \<Rightarrow> engine \<Rightarrow> brain_recall_query \<Rightarrow> answer io" where
  "rpc_recall_brain E en request =
     respond (recall E (en_brain en) request) (\<lambda>result. Brain_Recall_Response (brr_summary result)
       (map (proto_brain_entity E) (brr_entities result)) (map (proto_brain_fact E) (brr_facts result))
       (map (proto_brain_relation E) (brr_relations result)) (map (proto_brain_task E) (brr_tasks result)))"

definition rpc_suggest_brain :: "env \<Rightarrow> engine \<Rightarrow> brain_suggest_query \<Rightarrow> answer io" where
  "rpc_suggest_brain E en request =
     respond (suggest E (en_brain en) request) (\<lambda>result. Brain_Suggest_Response (bsr_summary result) (bsr_suggestions result))"

text \<open>The time is read before the engine is asked.\<close>

definition rpc_list_brain_tasks :: "env \<Rightarrow> engine \<Rightarrow> string \<Rightarrow> string list \<Rightarrow> string list \<Rightarrow> string \<Rightarrow> nat \<Rightarrow> answer io" where
  "rpc_list_brain_tasks E en scope_json statuses priorities due_before limit =
     respond (andthen (lift_res (parse_optional_timestamp E due_before)) (\<lambda>due.
         list_task_records E (en_brain en) \<lparr>btq_scope_json = scope_json, btq_statuses = statuses, btq_priorities = priorities,
           btq_due_before = due, btq_limit = limit\<rparr>))
     (\<lambda>result. Brain_Task_List_Response (btr_summary result) (map (proto_brain_task E) (btr_tasks result)))"

definition rpc_update_brain_task ::
  "env \<Rightarrow> engine \<Rightarrow> string \<Rightarrow> string \<Rightarrow> string \<Rightarrow> string \<Rightarrow> string \<Rightarrow> string \<Rightarrow> string \<Rightarrow> answer io" where
  "rpc_update_brain_task E en task_id status priority due_at summary links_json source_ref =
     respond (andthen (lift_res (parse_optional_timestamp E due_at)) (\<lambda>due.
         update_brain_task E en \<lparr>btu_task_id = task_id, btu_status = status, btu_priority = priority, btu_due_at = due,
           btu_summary = summary, btu_links_json = links_json, btu_source_ref = source_ref\<rparr>))
     (\<lambda>t. Brain_Task_Update_Response True (Some (proto_brain_task E t)))"

definition rpc_forget_brain :: "env \<Rightarrow> engine \<Rightarrow> brain_forget \<Rightarrow> answer io" where
  "rpc_forget_brain E en request = respond (forget_brain E en request) Brain_Forget_Response"

definition agent_envelope_of :: "agent_message \<Rightarrow> agent_envelope" where
  "agent_envelope_of m = \<lparr>ag_sender = am_sender m, ag_recipient = am_recipient m, ag_body = am_body m,
     ag_metadata_json = am_metadata_json m, ag_encrypted_body = empty_to_none (am_encrypted_body m)\<rparr>"

definition rpc_run_agent_protocol :: "env \<Rightarrow> engine \<Rightarrow> string \<Rightarrow> string \<Rightarrow> agent_message list \<Rightarrow> string \<Rightarrow> answer io" where
  "rpc_run_agent_protocol E en protocol_id initiator messages policy_scope =
     respond (run_agent_protocol E en \<lparr>prq_protocol_id = protocol_id, prq_initiator = initiator,
       prq_messages = map agent_envelope_of messages, prq_policy_scope = policy_scope\<rparr>) Agent_Protocol_Response"

definition rpc_attest_session :: "env \<Rightarrow> engine \<Rightarrow> string \<Rightarrow> string \<Rightarrow> bool \<Rightarrow> answer io" where
  "rpc_attest_session E en subject nonce include_hardware =
     respond (attest_session E en (empty_to_default subject ''openpinch-session'') nonce include_hardware) Attestation_Response"

definition rpc_export_audit :: "env \<Rightarrow> engine \<Rightarrow> string \<Rightarrow> nat \<Rightarrow> answer io" where
  "rpc_export_audit E en sink limit =
     respond (export_audit E en sink (if limit = 0 then 50 else limit))
     (\<lambda>events. Audit_Export_Response True (if sink = [] then ''json'' else sink) (map (proto_audit_event E) events))"

definition rpc_get_policy_report :: "engine \<Rightarrow> string \<Rightarrow> string \<Rightarrow> answer io" where
  "rpc_get_policy_report en subject capability =
     ret (Inr (Policy_Report_Response (engine_policy_report en (empty_to_default subject ''builtin.command'') (empty_to_none capability))))"

section \<open>The queue method\<close>

text \<open>The service's state is that of the queue: the world, the buckets, the worker.\<close>

definition on_world :: "'a io \<Rightarrow> (qsys, 'a) act" where
  "on_world m = (\<lambda>s. let (r, w) = m (q_world s) in (r, s\<lparr>q_world := w\<rparr>))"

definition queue_task_of :: "env \<Rightarrow> string \<Rightarrow> string \<Rightarrow> string \<Rightarrow> string \<Rightarrow> string \<Rightarrow> queue_task io" where
  "queue_task_of E task_id task_type target arguments_json priority =
     andthen (if task_id = [] then andthen (new_uuid E) (\<lambda>u. ret (''task-'' @ u)) else ret task_id) (\<lambda>i.
     ret \<lparr>qt_task_id = i, qt_task_type = task_type, qt_target = target, qt_arguments_json = arguments_json,
       qt_priority = parse_priority priority\<rparr>)"

text \<open>\<open>enqueue\<close>, when nothing interrupts it.\<close>

definition enqueue_task :: "queue_setup \<Rightarrow> queue_task \<Rightarrow> (qsys, queue_receipt) act" where
  "enqueue_task qs t = (\<lambda>s.
     if queue_full qs s then (Err (Msg ''queue is full''), s)
     else andthen (on_world (store_queue_task (qs_env qs) t ''queued'')) (\<lambda>_ s.
       (Ok (receipt_of t), s\<lparr>q_buckets := push_task t (q_buckets s), q_depth := q_depth s + 1, q_notified := True,
          q_receipts := q_receipts s @ [receipt_of t]\<rparr>)) s)"

definition rpc_queue_task :: "env \<Rightarrow> engine \<Rightarrow> string \<Rightarrow> string \<Rightarrow> string \<Rightarrow> string \<Rightarrow> string \<Rightarrow> (qsys, answer) act" where
  "rpc_queue_task E en task_id task_type target arguments_json priority =
     andthen (on_world (queue_task_of E task_id task_type target arguments_json priority)) (\<lambda>t.
     andthen (attempt (enqueue_task (engine_queue E en) t)) (\<lambda>r.
     ret (case r of Inl e \<Rightarrow> Inl (internal_status e) | Inr receipt \<Rightarrow> Inr (Queue_Task_Response receipt))))"

section \<open>The service\<close>

fun serve :: "env \<Rightarrow> host \<Rightarrow> engine \<Rightarrow> rpc_request \<Rightarrow> (qsys, answer) act" where
  "serve E h en (Deliver_Message m) = on_world (rpc_deliver_message E en m)"
| "serve E h en (Run_Tool tool args network priority) = on_world (rpc_run_tool E en tool args network priority)"
| "serve E h en (Run_Skill skill args) = on_world (rpc_run_skill E en skill args)"
| "serve E h en Health = on_world (rpc_health h en)"
| "serve E h en (Query_Memory ns query limit flt) = on_world (rpc_query_memory E en ns query limit flt)"
| "serve E h en (Upsert_Memory ns key content metadata) = on_world (rpc_upsert_memory E en ns key content metadata)"
| "serve E h en (List_Sessions c st archived limit) = on_world (rpc_list_sessions E c st archived limit)"
| "serve E h en (Get_Session sid limit) = on_world (rpc_get_session E sid limit)"
| "serve E h en (Prune_Sessions hours archive) = on_world (rpc_prune_sessions E hours archive)"
| "serve E h en (List_Pairings st c limit) = on_world (rpc_list_pairings E st c limit)"
| "serve E h en (Update_Pairing u) = on_world (rpc_update_pairing E u)"
| "serve E h en (Record_Outbound_Message om) = on_world (rpc_record_outbound_message E en om)"
| "serve E h en (Get_Doctor_Report cs ms desktop web) = on_world (rpc_get_doctor_report h en cs ms desktop web)"
| "serve E h en List_Model_Profiles = on_world (rpc_list_model_profiles en)"
| "serve E h en (Remember_Brain req) = on_world (rpc_remember_brain E en req)"
| "serve E h en (Recall_Brain q) = on_world (rpc_recall_brain E en q)"
| "serve E h en (Suggest_Brain q) = on_world (rpc_suggest_brain E en q)"
| "serve E h en (List_Brain_Tasks scope sts prios due limit) = on_world (rpc_list_brain_tasks E en scope sts prios due limit)"
| "serve E h en (Update_Brain_Task tid st prio due summ links src) = on_world (rpc_update_brain_task E en tid st prio due summ links src)"
| "serve E h en (Forget_Brain req) = on_world (rpc_forget_brain E en req)"
| "serve E h en (Run_Agent_Protocol pid initiator ms scope) = on_world (rpc_run_agent_protocol E en pid initiator ms scope)"
| "serve E h en (Attest_Session subject nonce hardware) = on_world (rpc_attest_session E en subject nonce hardware)"
| "serve E h en (Export_Audit sink limit) = on_world (rpc_export_audit E en sink limit)"
| "serve E h en (Get_Policy_Report subject capability) = on_world (rpc_get_policy_report en subject capability)"
| "serve E h en (Queue_Task tid tt tgt args prio) = rpc_queue_task E en tid tt tgt args prio"

text \<open>The life of the service: requests served one after the other, and the steps of the queue between them.\<close>

inductive service_step :: "env \<Rightarrow> host \<Rightarrow> engine \<Rightarrow> qsys \<Rightarrow> qsys \<Rightarrow> bool" for E h en where
  Request: "serve E h en req s = (r, s') \<Longrightarrow> service_step E h en s s'"
| Work: "serve_step (engine_queue E en) s s' \<Longrightarrow> service_step E h en s s'"

end
