(* ===== verification/Rpc_Facts.thy ===== *)
theory Rpc_Facts
  imports Rpc Engine_Progress
begin

text \<open>
  What holds along the whole life of the service: the store stays well-formed under every request
  and every step of the queue, and every request that needs no pairing is answered.
\<close>

section \<open>What the engine's writes keep\<close>

text \<open>The writes of the engine besides those of the brain; what they keep, every request keeps.\<close>

locale store_invariant = brain_invariant P for P :: "store \<Rightarrow> bool" +
  assumes put_message: "\<And>d r. P d \<Longrightarrow> P (d\<lparr>t_messages := insert_row r (t_messages d)\<rparr>)"
    and put_event: "\<And>d e t. P d \<Longrightarrow> insert_unique ae_id e (t_audit_events d) = Some t \<Longrightarrow> P (d\<lparr>t_audit_events := t\<rparr>)"
    and put_exact: "\<And>d r. P d \<Longrightarrow> P (d\<lparr>t_prompt_cache := upsert_row ca_key merge_cache r (t_prompt_cache d)\<rparr>)"
    and put_prefix: "\<And>d r. P d \<Longrightarrow> P (d\<lparr>t_prefix_cache := upsert_row ca_key merge_cache r (t_prefix_cache d)\<rparr>)"
    and put_queue: "\<And>d r. P d \<Longrightarrow> P (d\<lparr>t_queue_tasks := upsert_row qw_task_id merge_queue r (t_queue_tasks d)\<rparr>)"
    and status_queue: "\<And>d p st now. P d \<Longrightarrow> P (d\<lparr>t_queue_tasks := update_where p (\<lambda>r. r\<lparr>qw_status := st, qw_updated_at := now\<rparr>) (t_queue_tasks d)\<rparr>)"
    and put_run: "\<And>d r. P d \<Longrightarrow> P (d\<lparr>t_protocol_runs := insert_row r (t_protocol_runs d)\<rparr>)"
    and add_session: "\<And>d r d'. P d \<Longrightarrow> insert_session r d = Some d' \<Longrightarrow> P d'"
    and add_session_message: "\<And>d m t. P d \<Longrightarrow> insert_unique sm_id m (t_session_messages d) = Some t \<Longrightarrow> P (d\<lparr>t_session_messages := t\<rparr>)"
    and change_sessions: "\<And>d p f. P d \<Longrightarrow> (\<And>r. sr_session_id (f r) = sr_session_id r) \<Longrightarrow> (\<And>r. session_target (f r) = session_target r) \<Longrightarrow>
      P (d\<lparr>t_sessions := update_where p f (t_sessions d)\<rparr>)"
    and drop_session_messages: "\<And>d p. P d \<Longrightarrow> P (d\<lparr>t_session_messages := delete_where p (t_session_messages d)\<rparr>)"
    and drop_sessions: "\<And>d p. P d \<Longrightarrow> P (d\<lparr>t_sessions := delete_where p (t_sessions d)\<rparr>)"
    and put_pairing: "\<And>d r d'. P d \<Longrightarrow> upsert_pairing r d = Some d' \<Longrightarrow> P d'"
    and change_pairings: "\<And>d p f. P d \<Longrightarrow> (\<And>r. pg_pairing_id (f r) = pg_pairing_id r) \<Longrightarrow> (\<And>r. pairing_target (f r) = pairing_target r) \<Longrightarrow>
      P (d\<lparr>t_pairings := update_where p f (t_pairings d)\<rparr>)"
begin

lemma keeps_engine_store:
  "keeps P (record_message E m)" "keeps P (record_audit_event e)" "keeps P (cache_exact_get hash)"
  "keeps P (cache_exact_put E hash p r)" "keeps P (cache_prefix_get prompt)" "keeps P (cache_prefix_put E hash p r)"
  "keeps P (upsert_memory E em ns k c md)" "keeps P (query_memory E em mq)" "keeps P (list_audit n)"
  "keeps P (store_queue_task E t st)" "keeps P (update_queue_status E tid st)" "keeps P (record_protocol_run E run)"
  unfolding record_message_def record_audit_event_def cache_exact_get_def cache_exact_put_def cache_prefix_get_def
    cache_prefix_put_def upsert_memory_def query_memory_def list_audit_def store_queue_task_def update_queue_status_def
    record_protocol_run_def
  by (intro keeps_intros put_message put_exact put_prefix put_memory put_queue status_queue put_run;
      auto intro: put_event)+

lemma keeps_session_targets:
  "keeps P (resolve_session_internal E c ch p ty config profile)" "keeps P (pairing_for_target c ch p)"
  "keeps P (session_by_id i)"
  unfolding resolve_session_internal_def pairing_for_target_def session_by_id_def Let_def
  by (intro keeps_intros; auto intro: add_session)+

lemma keeps_session_ops:
  "keeps P (record_session_message E i c role sender body md)" "keeps P (list_sessions lq)" "keeps P (get_session_detail dq)"
  "keeps P (list_pairings pq)" "keeps P (ensure_pairing E c ch p i reason)" "keeps P (pairing_is_approved c ch p)"
  "keeps P (set_session_pending_pairing E i v)" "keeps P (clear_session_pending_pairing E i)"
  "keeps P (prune_sessions E prune)" "keeps P (update_pairing E pu)"
  unfolding record_session_message_def list_sessions_def get_session_detail_def list_pairings_def ensure_pairing_def
    pairing_is_approved_def set_session_pending_pairing_def clear_session_pending_pairing_def prune_sessions_def
    prune_threshold_def update_pairing_def Let_def
  by (intro keeps_intros keeps_session_targets change_sessions drop_session_messages drop_sessions change_pairings;
      auto simp: touch_session_def archive_session_def session_target_def pairing_target_def
        intro: add_session_message put_pairing)+

lemma keeps_outbound: "keeps P (resolve_session_for_outbound E c ch sender config)"
proof -
  have "keeps P (case rows of r # _ \<Rightarrow> ret (session_record_of_row r)
     | [] \<Rightarrow> resolve_session_internal E c ch (if sender = [] then ch else sender) ''direct'' config
               (mf_default_profile (cfg_model_failover config)))" for rows
    by (cases rows) (simp_all add: keeps_intros keeps_session_targets)
  then show ?thesis unfolding resolve_session_for_outbound_def by (intro keeps_intros)
qed

lemmas keeps_sessions = keeps_session_targets keeps_session_ops keeps_outbound

lemma keeps_record_audit: "keeps P (record_audit E cat sev summ score payload)"
  unfolding record_audit_def by (intro keeps_intros keeps_engine_store)

lemma keeps_generation: "keeps P (generate_with_route E oc prompt priority route)"
  unfolding generate_with_route_def generate_uncached_def cached_answer_def when_enabled_def semantic_lookup_def
    store_caches_def store_near_caches_def Let_def
  by (intro keeps_intros keeps_engine_store)

lemma keeps_tools: "keeps P (engine_execute_tool E en call)" "keeps P (engine_execute_skill E en skill args)"
  unfolding engine_execute_tool_def engine_execute_skill_def by (intro keeps_intros keeps_brain)+

lemma keeps_handle_message: "keeps P (handle_message E en m)"
  unfolding handle_message_def receive_message_def resolve_session_def resolve_session_for_inbound_def
    ensure_pairing_if_required_def answer_message_def deliver_reply_def deliver_failure_def with_suggestions_def Let_def
  by (intro keeps_intros keeps_engine_store keeps_sessions keeps_record_audit keeps_generation keeps_brain)

lemma keeps_queued_task: "keeps P (run_queued_task E te bm t)"
  unfolding run_queued_task_def queue_audit_def Let_def
  by (intro keeps_intros keeps_engine_store keeps_brain)

lemma keeps_engine_ops:
  "keeps P (engine_query_memory E en mq)" "keeps P (engine_upsert_memory E en ns k content md)"
  "keeps P (engine_update_pairing E pu)" "keeps P (record_outbound_message E en om)" "keeps P (remember_brain E en rem)"
  "keeps P (update_brain_task E en tu)" "keeps P (forget_brain E en fq)" "keeps P (attest_session E en subject nonce hw)"
  "keeps P (export_audit E en sink limit)" "keeps P (run_agent_protocol E en prq)"
  unfolding engine_query_memory_def engine_upsert_memory_def engine_update_pairing_def record_outbound_message_def
    remember_brain_def update_brain_task_def forget_brain_def attest_session_def attest_def hash_or_missing_def
    hash_if_exists_def export_audit_def run_agent_protocol_def validate_protocol_def transcript_entry_def
    transcript_body_def Let_def
  by (intro keeps_intros keeps_engine_store keeps_sessions keeps_record_audit keeps_brain)+

lemma keeps_respond: "keeps P m \<Longrightarrow> keeps P (respond m f)"
  unfolding respond_def by (intro keeps_intros)

end

text \<open>The same of the service, whose state holds the world.\<close>

definition world_keeps :: "(store \<Rightarrow> bool) \<Rightarrow> (qsys, 'a) act \<Rightarrow> bool" where
  "world_keeps P m \<longleftrightarrow> (\<forall>s. P (w_db (q_world s)) \<longrightarrow> P (w_db (q_world (snd (m s)))))"

lemma world_keeps_on_world: "keeps P m \<Longrightarrow> world_keeps P (on_world m)"
  by (simp add: world_keeps_def on_world_def keeps_def Let_def split_beta)

lemma world_keeps_andthen:
  assumes "world_keeps P m" and "\<And>a. world_keeps P (f a)"
  shows "world_keeps P (andthen m f)"
  unfolding world_keeps_def
proof (intro allI impI)
  fix s :: qsys
  assume s: "P (w_db (q_world s))"
  obtain r s' where m: "m s = (r, s')" by (cases "m s")
  have "P (w_db (q_world s'))" using assms(1) s m unfolding world_keeps_def by (metis snd_conv)
  then show "P (w_db (q_world (snd (andthen m f s))))"
    using m assms(2) by (cases r) (auto simp: andthen_run world_keeps_def)
qed

lemma world_keeps_same: "(\<And>s. w_db (q_world (snd (m s))) = w_db (q_world s)) \<Longrightarrow> world_keeps P m"
  by (simp add: world_keeps_def)

lemma world_keeps_attempt: "world_keeps P m \<Longrightarrow> world_keeps P (attempt m)"
  unfolding world_keeps_def
proof (intro allI impI)
  fix s :: qsys
  assume "\<forall>s. P (w_db (q_world s)) \<longrightarrow> P (w_db (q_world (snd (m s))))" and "P (w_db (q_world s))"
  then show "P (w_db (q_world (snd (attempt m s))))"
    by (cases "m s"; cases "fst (m s)") (auto simp: attempt_def dest!: spec [of _ s])
qed

context store_invariant
begin

lemma keeps_queue_method: "world_keeps P (rpc_queue_task E en tid tt tgt args prio)"
proof -
  have enq: "world_keeps P (enqueue_task qs t)" for qs t
  proof -
    have "world_keeps P (andthen (on_world (store_queue_task (qs_env qs) t ''queued'')) (\<lambda>_ s.
       (Ok (receipt_of t), s\<lparr>q_buckets := push_task t (q_buckets s), q_depth := q_depth s + 1, q_notified := True,
          q_receipts := q_receipts s @ [receipt_of t]\<rparr>)))"
      by (intro world_keeps_andthen world_keeps_on_world keeps_engine_store world_keeps_same) simp
    then show ?thesis by (auto simp: world_keeps_def enqueue_task_def)
  qed
  have "keeps P (queue_task_of E tid tt tgt args prio)" unfolding queue_task_of_def by (intro keeps_intros)
  then show ?thesis unfolding rpc_queue_task_def
    by (intro world_keeps_andthen world_keeps_on_world world_keeps_attempt enq world_keeps_same) (simp_all add: ret_def)
qed

lemma keeps_handlers:
  "keeps P (rpc_deliver_message E en msg)" "keeps P (rpc_run_tool E en tool args network prio)" "keeps P (rpc_run_skill E en skill args)"
  "keeps P (rpc_health h en)" "keeps P (rpc_query_memory E en ns query limit flt)" "keeps P (rpc_upsert_memory E en ns key content md)"
  "keeps P (rpc_list_sessions E c st archived limit)" "keeps P (rpc_get_session E sid limit)" "keeps P (rpc_prune_sessions E hours archive)"
  "keeps P (rpc_list_pairings E st c limit)" "keeps P (rpc_update_pairing E pu)" "keeps P (rpc_record_outbound_message E en om)"
  "keeps P (rpc_get_doctor_report h en cs mds desktop web)" "keeps P (rpc_list_model_profiles en)" "keeps P (rpc_remember_brain E en rem)"
  "keeps P (rpc_recall_brain E en rq)" "keeps P (rpc_suggest_brain E en sq)" "keeps P (rpc_list_brain_tasks E en scope sts prios due limit)"
  "keeps P (rpc_update_brain_task E en tid st prio due summ links src)" "keeps P (rpc_forget_brain E en fq)"
  "keeps P (rpc_run_agent_protocol E en pid initiator ms scope)" "keeps P (rpc_attest_session E en subject nonce hw)"
  "keeps P (rpc_export_audit E en sink limit)" "keeps P (rpc_get_policy_report en subject capability)"
  unfolding rpc_deliver_message_def rpc_run_tool_def rpc_run_skill_def rpc_health_def rpc_query_memory_def rpc_upsert_memory_def
    rpc_list_sessions_def rpc_get_session_def rpc_prune_sessions_def rpc_list_pairings_def rpc_update_pairing_def
    rpc_record_outbound_message_def rpc_get_doctor_report_def rpc_list_model_profiles_def rpc_remember_brain_def
    rpc_recall_brain_def rpc_suggest_brain_def rpc_list_brain_tasks_def rpc_update_brain_task_def rpc_forget_brain_def
    rpc_run_agent_protocol_def rpc_attest_session_def rpc_export_audit_def rpc_get_policy_report_def
  by (intro keeps_intros keeps_respond keeps_handle_message keeps_tools keeps_engine_ops keeps_sessions keeps_brain)+

lemma keeps_serve: "world_keeps P (serve E h en req)"
  by (cases req) (simp_all add: world_keeps_on_world keeps_handlers keeps_queue_method)

lemma keeps_service_step: "service_step E h en s s' \<Longrightarrow> P (w_db (q_world s)) \<Longrightarrow> P (w_db (q_world s'))"
proof (induction rule: service_step.induct)
  case (Request req s r s')
  then show ?case using keeps_serve [of E h en req] unfolding world_keeps_def by (metis snd_conv)
next
  case (Work s s')
  from Work(1) show ?case
    by (cases rule: serve_step.cases)
       (use Work(2) in \<open>auto dest: keepsD [OF keeps_engine_store(10) _] keepsD [OF keeps_queued_task _]\<close>)
qed

lemma keeps_service: "(service_step E h en)\<^sup>*\<^sup>* s s' \<Longrightarrow> P (w_db (q_world s)) \<Longrightarrow> P (w_db (q_world s'))"
  by (induction rule: rtranclp_induct) (blast intro: keeps_service_step)+

end

section \<open>The store stays well-formed\<close>

text \<open>The brain's tables, the keys of the engine's tables, the keys of sessions and pairings.\<close>

definition state_valid :: "store \<Rightarrow> bool" where
  "state_valid d \<longleftrightarrow> brain_valid d \<and> store_keys d \<and> sessions_keys d"

lemma brain_valid_frame:
  "brain_valid (d\<lparr>t_messages := a\<rparr>) = brain_valid d" "brain_valid (d\<lparr>t_audit_events := b\<rparr>) = brain_valid d"
  "brain_valid (d\<lparr>t_prompt_cache := c\<rparr>) = brain_valid d" "brain_valid (d\<lparr>t_prefix_cache := c\<rparr>) = brain_valid d"
  "brain_valid (d\<lparr>t_queue_tasks := f\<rparr>) = brain_valid d" "brain_valid (d\<lparr>t_protocol_runs := g\<rparr>) = brain_valid d"
  "brain_valid (d\<lparr>t_sessions := h\<rparr>) = brain_valid d" "brain_valid (d\<lparr>t_session_messages := i\<rparr>) = brain_valid d"
  "brain_valid (d\<lparr>t_pairings := j\<rparr>) = brain_valid d"
  by (simp_all add: brain_valid_def)

lemma store_keys_frame:
  "store_keys (d\<lparr>t_messages := a\<rparr>) = store_keys d" "store_keys (d\<lparr>t_protocol_runs := g\<rparr>) = store_keys d"
  "store_keys (d\<lparr>t_sessions := h\<rparr>) = store_keys d" "store_keys (d\<lparr>t_session_messages := i\<rparr>) = store_keys d"
  "store_keys (d\<lparr>t_pairings := j\<rparr>) = store_keys d"
  by (simp_all add: store_keys_def)

interpretation valid_tables: store_invariant brain_valid
  by unfold_locales (auto simp: brain_valid_frame insert_session_def upsert_pairing_def split: if_splits)

interpretation keyed_tables: store_invariant store_keys
  by unfold_locales (auto simp: store_keys_frame insert_session_def upsert_pairing_def split: if_splits,
      simp_all add: store_keys_def cache.upsert_distinct queue_rows.upsert_distinct insert_unique_distinct distinct_keys_update_where)

interpretation keyed_sessions: store_invariant sessions_keys
  by unfold_locales (erule insert_session_keys upsert_pairing_keys update_sessions_keys update_pairings_keys insert_message_keys;
      assumption | simp add: sessions_keys_def distinct_keys_delete_where)+

text \<open>C6.
  The store stays well-formed for the whole life of the service: whatever is requested, in whatever
  order, and whatever the queue's worker does in between, every entity, relation and task of the
  brain keeps a known kind, subtype or status, and every key of every table stays unique - also when
  requests fail, panic or block.
\<close>

theorem service_state_valid:
  assumes "(service_step E h en)\<^sup>*\<^sup>* s s'" and "state_valid (w_db (q_world s))"
  shows "state_valid (w_db (q_world s'))"
  using assms(2) valid_tables.keeps_service [OF assms(1)] keyed_tables.keeps_service [OF assms(1)]
    keyed_sessions.keeps_service [OF assms(1)]
  by (simp add: state_valid_def)

theorem service_state_valid_witness:
  "state_valid (w_db (q_world (snd (serve sample_env sample_host sample_engine
     (Deliver_Message (Some (sample_message ''slack'' ''hi''))) (new_queue (engine_queue sample_env sample_engine) boot_world)))))"
proof -
  let ?s = "new_queue (engine_queue sample_env sample_engine) boot_world"
  let ?serve = "serve sample_env sample_host sample_engine (Deliver_Message (Some (sample_message ''slack'' ''hi''))) ?s"
  have "service_step sample_env sample_host sample_engine ?s (snd ?serve)" by (rule Request) (rule surjective_pairing)
  moreover have "state_valid (w_db (q_world ?s))"
    by (simp add: new_queue_def state_valid_def brain_valid_def store_keys_def sessions_keys_def distinct_keys_def)
  ultimately show ?thesis by (rule service_state_valid [OF r_into_rtranclp])
qed

end
