(* ===== verification/Service.thy ===== *)
theory Service
  imports Rpc_Facts
begin

text \<open>
  The service never stops: from a ready state every request that can be served is answered, with a
  response or a status, and leaves a ready state, and so does every step of the queue.
\<close>

section \<open>Actions that settle\<close>

text \<open>Run on a ready world, the action ends, with a value or an error, and leaves a ready world.\<close>

definition settles :: "env \<Rightarrow> 'a io \<Rightarrow> bool" where
  "settles E m \<longleftrightarrow> (\<forall>w. ready E w \<longrightarrow> returns (fst (m w)) \<and> ready E (snd (m w)))"

named_theorems settle_intros \<open>rules that derive that an action settles\<close>

lemma settles_run: "settles E m \<Longrightarrow> ready E w \<Longrightarrow> m w = (r, w') \<Longrightarrow> returns r \<and> ready E w'"
  unfolding settles_def by (metis fst_conv snd_conv)

lemma settles_completes: "completes E m Q \<Longrightarrow> settles E m"
  unfolding settles_def
proof (intro allI impI)
  fix w assume "completes E m Q" and "ready E w"
  then obtain a w' where "m w = (Ok a, w')" "ready E w'" unfolding completes_def by blast
  then show "returns (fst (m w)) \<and> ready E (snd (m w))" by simp
qed

lemma settles_harmless: "harmless m \<Longrightarrow> settles E m"
  unfolding settles_def by (metis harmless_run surjective_pairing)

lemma settles_andthen [settle_intros]:
  assumes "settles E m" and "\<And>a. settles E (f a)"
  shows "settles E (andthen m f)"
  unfolding settles_def
proof (intro allI impI)
  fix w assume w: "ready E w"
  obtain r w1 where m: "m w = (r, w1)" by (cases "m w")
  from settles_run [OF assms(1) w m] have r: "returns r" "ready E w1" by blast+
  show "returns (fst (andthen m f w)) \<and> ready E (snd (andthen m f w))"
    using m r assms(2) by (cases r) (auto simp: andthen_run settles_def)
qed

lemma settles_pure [settle_intros]: "settles E (ret a)" "settles E (fail e)" "returns r \<Longrightarrow> settles E (lift_res r)"
  by (simp_all add: settles_def ret_run fail_run lift_res_run)

lemma settles_cases [settle_intros]:
  "(c \<Longrightarrow> settles E m) \<Longrightarrow> (\<not> c \<Longrightarrow> settles E m') \<Longrightarrow> settles E (if c then m else m')"
  by simp

text \<open>What settles is answered.\<close>

lemma completes_respond: "settles E m \<Longrightarrow> completes E (respond m f) (\<lambda>_. True)"
  unfolding completes_def
proof (intro allI impI)
  fix w assume m: "settles E m" and w: "ready E w"
  obtain r w' where run: "m w = (r, w')" by (cases "m w")
  from settles_run [OF m w run] show "\<exists>a w'. respond m f w = (Ok a, w') \<and> True \<and> ready E w'"
    using run by (cases r) (auto simp: respond_def andthen_run attempt_run ret_run)
qed

section \<open>The engine's operations settle\<close>

lemma advances_files [advance_intros]: "advances (path_exists p)" "advances (read_file p)" "advances (write_file p bytes)"
  by (simp_all add: advances_def run_simps)

lemma advances_tools [advance_intros]: "advances (execute_tool_call E te call)" "advances (execute_skill_call E te skill args)"
proof -
  have "advances (sandbox_execute E c)" for c by (simp add: advances_def run_simps)
  moreover have "advances (packaged_workspace E sm skill)" for sm skill
    unfolding packaged_workspace_def installed_manifest_def by (intro advance_intros) (simp add: advances_def)
  ultimately show "advances (execute_tool_call E te call)" "advances (execute_skill_call E te skill args)"
    unfolding execute_tool_call_def execute_skill_call_def outcome_of_def execute_inner_def execute_skill_inner_def
      execute_command_def Let_def
    by (intro advance_intros; simp)+
qed

lemma advances_sessions [advance_intros]:
  "advances (list_sessions lq)" "advances (get_session_detail dq)" "advances (list_pairings pq)" "advances (session_by_id i)"
  "advances (update_pairing E pu)" "advances (prune_sessions E prune)"
  unfolding list_sessions_def get_session_detail_def list_pairings_def session_by_id_def update_pairing_def prune_sessions_def
    prune_threshold_def Let_def
  by (intro advance_intros)+

lemma advances_others [advance_intros]:
  "advances (list_audit n)" "advances (record_protocol_run E run)" "advances (store_queue_task E t st)"
  "advances (update_queue_status E i st)" "advances (attest E em subject nonce hw paths config)"
  "advances (validate_protocol E em config req)"
  unfolding list_audit_def record_protocol_run_def store_queue_task_def update_queue_status_def attest_def hash_or_missing_def
    hash_if_exists_def validate_protocol_def transcript_entry_def transcript_body_def Let_def
  by (intro advance_intros)+

text \<open>What leaves the caches and the ids alone is harmless.\<close>

definition frame :: "store \<Rightarrow> store \<Rightarrow> bool" where
  "frame d0 d \<longleftrightarrow> t_prompt_cache d = t_prompt_cache d0 \<and> t_prefix_cache d = t_prefix_cache d0 \<and> same_ids d0 d"

interpretation brain_frames: brain_invariant "frame d0" for d0
  by unfold_locales (simp_all add: frame_def)

lemma keeps_frame:
  assumes "keeps (frame (w_db w)) m" and "m w = (r, w')"
  shows "frame (w_db w) (w_db w')"
  by (rule keepsD [OF assms(1) _ assms(2)]) (simp add: frame_def)

lemma harmless_frame:
  assumes "safe m" and "advances m" and "\<And>d0. keeps (frame d0) m"
  shows "harmless m"
proof -
  have "keeps utf8_caches m" "keeps (same_ids d0) m" for d0
    by (rule keepsI; use keeps_frame [OF assms(3) surjective_pairing] in \<open>simp add: frame_def\<close>)+
  with assms(1,2) show ?thesis by (simp add: harmless_def)
qed

lemma frame_queries:
  "keeps (frame d0) (list_sessions lq)" "keeps (frame d0) (get_session_detail dq)" "keeps (frame d0) (list_pairings pq)"
  "keeps (frame d0) (session_by_id i)" "keeps (frame d0) (update_pairing E pu)" "keeps (frame d0) (query_memory E em mq)"
  "keeps (frame d0) (upsert_memory E em ns k c md)" "keeps (frame d0) (list_audit n)" "keeps (frame d0) (record_protocol_run E run)"
  "keeps (frame d0) (store_queue_task E t st)" "keeps (frame d0) (update_queue_status E tid st)"
  "keeps (frame d0) (attest E em subject nonce hw paths config)" "keeps (frame d0) (validate_protocol E em config req)"
  unfolding list_sessions_def get_session_detail_def list_pairings_def session_by_id_def update_pairing_def query_memory_def
    upsert_memory_def list_audit_def record_protocol_run_def store_queue_task_def update_queue_status_def attest_def
    hash_or_missing_def hash_if_exists_def validate_protocol_def transcript_entry_def transcript_body_def Let_def
  by (intro keeps_intros; simp add: frame_def map_update_where)+

lemma safe_validate_protocol [safe_intros]: "safe (validate_protocol E em config req)"
  unfolding validate_protocol_def transcript_entry_def transcript_body_def Let_def by (intro safe_intros)

lemma safe_attest [safe_intros]: "safe (attest E em subject nonce hw paths config)"
  unfolding attest_def hash_or_missing_def by (intro safe_intros)

lemma settles_queries [settle_intros]:
  "settles E (list_sessions lq)" "settles E (get_session_detail dq)" "settles E (list_pairings pq)" "settles E (session_by_id i)"
  "settles E (update_pairing E pu)" "settles E (query_memory E em mq)" "settles E (upsert_memory E em ns k c md)"
  "settles E (list_audit n)" "settles E (record_protocol_run E run)" "settles E (store_queue_task E t st)"
  "settles E (update_queue_status E tid st)" "settles E (attest E em subject nonce hw paths config)"
  "settles E (validate_protocol E em config req)"
  by (rule settles_harmless [OF harmless_frame]; intro safe_intros advance_intros frame_queries)+

lemma settles_brain [settle_intros]:
  "retention_ok E bm \<Longrightarrow> settles E (remember E bm rem)" "retention_ok E bm \<Longrightarrow> settles E (recall E bm rq)"
  "retention_ok E bm \<Longrightarrow> settles E (suggest E bm sq)" "retention_ok E bm \<Longrightarrow> settles E (list_task_records E bm tq)"
  "settles E (update_task_record E bm tup)" "settles E (forget E bm fq)"
  by (rule settles_harmless [OF harmless_frame]; intro safe_intros advance_intros brain_frames.keeps_brain; assumption?)+

lemma settles_tools [settle_intros]: "settles E (engine_execute_tool E en call)" "settles E (engine_execute_skill E en skill args)"
  unfolding engine_execute_tool_def engine_execute_skill_def
  by (rule settles_harmless [OF harmless_frame]; intro safe_intros advance_intros keeps_intros brain_frames.keeps_brain)+

lemma settles_writes [settle_intros]:
  "uuid_law E \<Longrightarrow> settles E (record_session_message E sid c role sender body md)"
  "uuid_law E \<Longrightarrow> settles E (record_audit E cat sev summ score payload)"
  by (rule settles_completes, erule completes_record_session_message completes_record_audit)+

lemma settles_write_file [settle_intros]: "settles E (write_file p bytes)"
  by (simp add: settles_def ready_def ids_fresh_def run_simps)

lemma settles_outbound [settle_intros]:
  assumes "uuid_law E"
  shows "settles E (resolve_session_for_outbound E c ch sender config)"
proof -
  have "settles E (case rows of r # _ \<Rightarrow> ret (session_record_of_row r)
     | [] \<Rightarrow> resolve_session_internal E c ch (if sender = [] then ch else sender) ''direct'' config
               (mf_default_profile (cfg_model_failover config)))" for rows
    by (cases rows) (simp_all add: settle_intros settles_completes [OF completes_resolve_internal [OF assms]])
  moreover have "settles E (with_conn (sql_query (live_sessions_at c ch)))"
    by (rule settles_harmless [OF harmless_frame]; intro safe_intros advance_intros keeps_intros)
  ultimately show ?thesis unfolding resolve_session_for_outbound_def by (intro settle_intros)
qed

lemma settles_engine_pairing [settle_intros]: "uuid_law E \<Longrightarrow> settles E (engine_update_pairing E pu)"
  unfolding engine_update_pairing_def by (intro settle_intros)

lemma settles_engine_ops [settle_intros]:
  assumes "uuid_law E" and "retention_ok E (en_brain en)"
  shows "settles E (engine_query_memory E en mq)" "settles E (engine_upsert_memory E en ns k content md)"
    "settles E (record_outbound_message E en om)" "settles E (remember_brain E en rem)"
    "settles E (update_brain_task E en tu)" "settles E (forget_brain E en fq)" "settles E (attest_session E en subject nonce hw)"
    "settles E (export_audit E en sink limit)" "settles E (run_agent_protocol E en prq)"
  unfolding engine_query_memory_def engine_upsert_memory_def record_outbound_message_def
    remember_brain_def update_brain_task_def forget_brain_def attest_session_def export_audit_def run_agent_protocol_def Let_def
  by (intro settle_intros assms)+

section \<open>Pruning\<close>

lemma drawn_subset: "drawn E pre n (map key t) \<Longrightarrow> set t' \<subseteq> set t \<Longrightarrow> drawn E pre n (map key t')"
  unfolding drawn_def by auto

definition prunable :: "env \<Rightarrow> 32 word \<Rightarrow> bool" where
  "prunable E hours \<longleftrightarrow> (\<forall>n. is_ok (chrono_sub (E_time E n) (max (uint hours) 1 * ns_per_hour)))"

lemma settles_prune:
  assumes "prunable E (sp_older_than_hours req)"
  shows "settles E (prune_sessions E req)"
  unfolding settles_def
proof (intro allI impI)
  fix w assume w: "ready E w"
  then have un: "\<not> w_locked w" and fresh: "ids_fresh E w" and cached: "utf8_caches (w_db w)" by (simp_all add: ready_def)
  obtain t where t: "chrono_sub (E_time E (w_ticks w)) (max (uint (sp_older_than_hours req)) 1 * ns_per_hour) = Ok t"
    using spec [OF assms [unfolded prunable_def], of "w_ticks w"] by (auto simp: is_ok_def split: res.splits)
  show "returns (fst (prune_sessions E req w)) \<and> ready E (snd (prune_sessions E req w))"
  proof (cases "sp_archive_only req")
    case True
    have "map sr_session_id (update_where p (archive_session now) ts) = map sr_session_id ts" for p now ts
      by (rule map_update_where) (simp add: archive_session_def)
    then show ?thesis using prune_archive_run [OF un True t] un fresh cached by (simp add: ready_def ids_fresh_def)
  next
    case False
    have "drawn E pre n (map key (delete_where p ts))" if "drawn E pre n (map key ts)" for pre n p and key :: "session_row \<Rightarrow> string" and ts
      by (rule drawn_subset [OF that]) (auto simp: set_delete_where)
    moreover have "drawn E pre n (map key (delete_where p ts))" if "drawn E pre n (map key ts)" for pre n p and key :: "session_message_record \<Rightarrow> string" and ts
      by (rule drawn_subset [OF that]) (auto simp: set_delete_where)
    ultimately show ?thesis using prune_delete_run [OF un False t] un fresh cached by (simp add: ready_def ids_fresh_def)
  qed
qed

section \<open>Requests that can be served\<close>

text \<open>
  Messages that need no pairing, with texts as the theorem on answered messages has them; prunings whose threshold
  \<open>chrono\<close> can represent; every other request.
\<close>

fun servable :: "env \<Rightarrow> engine \<Rightarrow> store \<Rightarrow> rpc_request \<Rightarrow> bool" where
  "servable E en d (Deliver_Message (Some m)) \<longleftrightarrow> valid_str (me_body m) \<and> plain (me_connector m) \<and> plain (me_sender m)
     \<and> (\<forall>s. \<not> must_pair en s m d)"
| "servable E en d (Prune_Sessions hours archive) \<longleftrightarrow> prunable E (max hours 1)"
| "servable E en d req \<longleftrightarrow> True"

definition runtime_laws :: "env \<Rightarrow> engine \<Rightarrow> bool" where
  "runtime_laws E en \<longleftrightarrow> uuid_law E \<and> retention_ok E (en_brain en) \<and> provider_law E"

lemma deliver_answered:
  assumes "runtime_laws E en" and "ready E w" and "servable E en (w_db w) (Deliver_Message msg)"
  shows "\<exists>a w'. rpc_deliver_message E en msg w = (Ok a, w') \<and> ready E w'"
proof (cases msg)
  case (Some m)
  with assms obtain r w' where "handle_message E en m w = (Ok r, w')" "ready E w'"
    using message_answered [OF assms(2), of en m] by (auto simp: runtime_laws_def)
  then show ?thesis using Some by (simp add: rpc_deliver_message_def respond_def andthen_run attempt_run ret_run)
qed (use assms(2) in \<open>simp add: rpc_deliver_message_def ret_run\<close>)

lemma returns_parse [simp]: "returns (parse_optional_timestamp E value)"
  by (simp add: parse_optional_timestamp_def parse_timestamp_def)

lemma completes_andthen_ret: "settles E m \<Longrightarrow> (\<And>w e w'. m w \<noteq> (Err e, w')) \<Longrightarrow> completes E (andthen m (\<lambda>a. ret (f a))) (\<lambda>_. True)"
  unfolding completes_def
proof (intro allI impI)
  fix w assume m: "settles E m" and total: "\<And>w e w'. m w \<noteq> (Err e, w')" and w: "ready E w"
  obtain r w' where run: "m w = (r, w')" by (cases "m w")
  from settles_run [OF m w run] total [of w] run show "\<exists>a w'. andthen m (\<lambda>a. ret (f a)) w = (Ok a, w') \<and> True \<and> ready E w'"
    by (cases r) (auto simp: andthen_run ret_run)
qed

lemma tools_never_err: "engine_execute_tool E en call w \<noteq> (Err e, w')" "engine_execute_skill E en skill args w \<noteq> (Err e, w')"
proof -
  have out: "outcome_of summary m v \<noteq> (Err e, v')" for summary m v v' e
    by (cases "m v"; cases "fst (m v)") (auto simp: outcome_of_def andthen_run attempt_run ret_run)
  then show "engine_execute_skill E en skill args w \<noteq> (Err e, w')" by (simp add: engine_execute_skill_def execute_skill_call_def)
  obtain r v where run: "execute_tool_call E (en_tools en) call w = (r, v)" by (cases "execute_tool_call E (en_tools en) call w")
  have "r \<noteq> Err e'" for e' using out run by (auto simp: execute_tool_call_def)
  then show "engine_execute_tool E en call w \<noteq> (Err e, w')"
    using run by (cases r) (auto simp: engine_execute_tool_def andthen_run ignore_err_run ret_run split: res.splits prod.splits if_splits)
qed

lemma completes_on_world: "completes E (ret (a :: answer)) (\<lambda>_. True)"
  by (rule completes_ret) simp

lemma completes_handlers:
  assumes "uuid_law E" and "retention_ok E (en_brain en)"
  shows "completes E (rpc_run_tool E en tool args network prio) (\<lambda>_. True)" "completes E (rpc_run_skill E en skill args) (\<lambda>_. True)"
    "completes E (rpc_health h en) (\<lambda>_. True)" "completes E (rpc_query_memory E en ns query limit flt) (\<lambda>_. True)"
    "completes E (rpc_upsert_memory E en ns key content md) (\<lambda>_. True)" "completes E (rpc_list_sessions E c st archived limit) (\<lambda>_. True)"
    "completes E (rpc_get_session E sid limit) (\<lambda>_. True)" "completes E (rpc_list_pairings E st c limit) (\<lambda>_. True)"
    "completes E (rpc_update_pairing E pu) (\<lambda>_. True)" "completes E (rpc_record_outbound_message E en om) (\<lambda>_. True)"
    "completes E (rpc_get_doctor_report h en cs mds desktop web) (\<lambda>_. True)" "completes E (rpc_list_model_profiles en) (\<lambda>_. True)"
    "completes E (rpc_remember_brain E en rem) (\<lambda>_. True)" "completes E (rpc_recall_brain E en rq) (\<lambda>_. True)"
    "completes E (rpc_suggest_brain E en sq) (\<lambda>_. True)" "completes E (rpc_list_brain_tasks E en scope sts prios due limit) (\<lambda>_. True)"
    "completes E (rpc_update_brain_task E en tid st prio due summ links src) (\<lambda>_. True)" "completes E (rpc_forget_brain E en fq) (\<lambda>_. True)"
    "completes E (rpc_run_agent_protocol E en pid initiator ms scope) (\<lambda>_. True)"
    "completes E (rpc_attest_session E en subject nonce hw) (\<lambda>_. True)" "completes E (rpc_export_audit E en sink limit) (\<lambda>_. True)"
    "completes E (rpc_get_policy_report en subject capability) (\<lambda>_. True)"
  unfolding rpc_run_tool_def rpc_run_skill_def rpc_health_def rpc_query_memory_def rpc_upsert_memory_def rpc_list_sessions_def
    rpc_get_session_def rpc_list_pairings_def rpc_update_pairing_def rpc_record_outbound_message_def rpc_get_doctor_report_def
    rpc_list_model_profiles_def rpc_remember_brain_def rpc_recall_brain_def rpc_suggest_brain_def rpc_list_brain_tasks_def
    rpc_update_brain_task_def rpc_forget_brain_def rpc_run_agent_protocol_def rpc_attest_session_def rpc_export_audit_def
    rpc_get_policy_report_def
  by (intro completes_on_world completes_respond completes_andthen_ret settle_intros tools_never_err assms returns_parse)+

lemma request_answered:
  assumes "runtime_laws E en" and "ready E w" and "servable E en (w_db w) req" and "\<nexists>tid tt tgt args prio. req = Queue_Task tid tt tgt args prio"
    and "q_world s = w"
  shows "\<exists>a w'. serve E h en req s = (Ok a, s\<lparr>q_world := w'\<rparr>) \<and> ready E w'"
proof -
  have laws: "uuid_law E" "retention_ok E (en_brain en)" using assms(1) by (simp_all add: runtime_laws_def)
  have on: "\<exists>a w'. on_world m s = (Ok a, s\<lparr>q_world := w'\<rparr>) \<and> ready E w'" if "completes E m (\<lambda>_. True)" for m :: "answer io"
    using that assms(2,5) unfolding completes_def on_world_def Let_def by (metis (mono_tags, lifting) case_prod_conv)
  show ?thesis
  proof (cases req)
    case (Deliver_Message msg)
    with deliver_answered [OF assms(1,2)] assms(3,5) show ?thesis by (fastforce simp: on_world_def)
  next
    case (Prune_Sessions hours archive)
    with assms(3) have "prunable E (max hours 1)" by simp
    then show ?thesis unfolding Prune_Sessions serve.simps rpc_prune_sessions_def
      by (intro on completes_respond settles_prune) simp
  qed (use assms(4) in \<open>simp_all add: on completes_handlers [OF laws]\<close>)
qed

section \<open>The queue\<close>

lemma queue_inv_world: "queue_inv qs s \<Longrightarrow> \<not> w_locked w \<Longrightarrow> queue_inv qs (s\<lparr>q_world := w\<rparr>)"
  by (simp add: queue_inv_def in_flight_def held_task_def tasks_of_def)

text \<open>\<open>enqueue\<close> without interruption is a run of the queue's steps.\<close>

lemma enqueue_is_run:
  assumes "\<not> queue_full qs s" and "store_queue_task (qs_env qs) t ''queued'' (q_world s) = (Ok (), w)"
  shows "(queue_step qs)\<^sup>*\<^sup>* s (snd (enqueue_task qs t s))" and "fst (enqueue_task qs t s) = Ok (receipt_of t)"
    and "q_world (snd (enqueue_task qs t s)) = w"
proof -
  let ?i = "length (q_calls s)"
  let ?s1 = "s\<lparr>q_calls := q_calls s @ [Admitted t]\<rparr>"
  let ?s2 = "s\<lparr>q_world := w, q_calls := q_calls s @ [Stored t]\<rparr>"
  let ?s3 = "s\<lparr>q_world := w, q_buckets := push_task t (q_buckets s), q_calls := q_calls s @ [Pushed t]\<rparr>"
  let ?s4 = "s\<lparr>q_world := w, q_buckets := push_task t (q_buckets s), q_depth := q_depth s + 1, q_calls := q_calls s @ [Counted t]\<rparr>"
  let ?s5 = "s\<lparr>q_world := w, q_buckets := push_task t (q_buckets s), q_depth := q_depth s + 1, q_notified := True,
     q_receipts := q_receipts s @ [receipt_of t]\<rparr>"
  have run: "enqueue_task qs t s = (Ok (receipt_of t), ?s5)"
    using assms by (simp add: enqueue_task_def andthen_run on_world_def)
  have "queue_step qs s ?s1" unfolding queue_step_def by (rule disjI1) (rule Admit [OF assms(1)])
  then have r1: "(queue_step qs)\<^sup>*\<^sup>* s ?s1" by (rule r_into_rtranclp)
  have served: "(queue_step qs)\<^sup>*\<^sup>* s v" if "(queue_step qs)\<^sup>*\<^sup>* s u" and "serve_step qs u v" for u v
    using that by (auto simp: queue_step_def intro: rtranclp.rtrancl_into_rtrancl)
  have "serve_step qs ?s1 ?s2" using Store [of ?i ?s1 t qs w] assms(2) by simp
  from served [OF r1 this] have r2: "(queue_step qs)\<^sup>*\<^sup>* s ?s2" .
  have "serve_step qs ?s2 ?s3" using Push [of ?i ?s2 t qs] by simp
  from served [OF r2 this] have r3: "(queue_step qs)\<^sup>*\<^sup>* s ?s3" .
  have "serve_step qs ?s3 ?s4" using Count [of ?i ?s3 t qs] by simp
  from served [OF r3 this] have r4: "(queue_step qs)\<^sup>*\<^sup>* s ?s4" .
  have "serve_step qs ?s4 ?s5" using Wake [of ?i ?s4 t qs] by (simp add: drop_at_def)
  from served [OF r4 this] have "(queue_step qs)\<^sup>*\<^sup>* s ?s5" .
  then show "(queue_step qs)\<^sup>*\<^sup>* s (snd (enqueue_task qs t s))" by (simp add: run)
  show "fst (enqueue_task qs t s) = Ok (receipt_of t)" "q_world (snd (enqueue_task qs t s)) = w" by (simp_all add: run)
qed

lemma queue_inv_run: "(queue_step qs)\<^sup>*\<^sup>* s s' \<Longrightarrow> queue_inv qs s \<Longrightarrow> queue_inv qs s'"
  by (induction rule: rtranclp_induct) (auto simp: queue_step_def intro: queue_inv_admit queue_inv_serve)

definition service_ready :: "env \<Rightarrow> engine \<Rightarrow> qsys \<Rightarrow> bool" where
  "service_ready E en s \<longleftrightarrow> ready E (q_world s) \<and> queue_inv (engine_queue E en) s"

lemma queue_task_answered:
  assumes "service_ready E en s"
  shows "\<exists>a s'. rpc_queue_task E en tid tt tgt args prio s = (Ok a, s') \<and> service_ready E en s'"
proof -
  let ?qs = "engine_queue E en"
  have env: "qs_env ?qs = E" by (simp add: engine_queue_def)
  have ready: "ready E (q_world s)" and inv: "queue_inv ?qs s" using assms by (simp_all add: service_ready_def)
  have "settles E (queue_task_of E tid tt tgt args prio)"
    unfolding queue_task_of_def by (rule settles_harmless [OF harmless_frame]; intro safe_intros advance_intros keeps_intros)
  moreover obtain t w where t: "queue_task_of E tid tt tgt args prio (q_world s) = (Ok t, w)"
    by (cases "tid = []") (simp_all add: queue_task_of_def run_simps)
  ultimately have w: "ready E w" using settles_run ready by blast
  let ?s = "s\<lparr>q_world := w\<rparr>"
  have inv1: "queue_inv ?qs ?s" using queue_inv_world [OF inv] w by (simp add: ready_def)
  have run: "rpc_queue_task E en tid tt tgt args prio s = andthen (attempt (enqueue_task ?qs t)) (\<lambda>r.
     ret (case r of Inl e \<Rightarrow> Inl (internal_status e) | Inr receipt \<Rightarrow> Inr (Queue_Task_Response receipt))) ?s"
    using t by (simp add: rpc_queue_task_def andthen_run on_world_def)
  show ?thesis
  proof (cases "queue_full ?qs ?s")
    case True
    then show ?thesis using run inv1 w
      by (simp add: enqueue_task_def andthen_run attempt_run ret_run service_ready_def)
  next
    case False
    have "settles E (store_queue_task E t ''queued'')" by (intro settle_intros)
    moreover obtain w2 where store: "store_queue_task (qs_env ?qs) t ''queued'' w = (Ok (), w2)"
      using store_queue_task_ok [of w E t "''queued''"] w by (auto simp: ready_def env)
    ultimately have w2: "ready E w2" using settles_run [OF _ w, of "store_queue_task E t ''queued''"] by (simp add: env)
    have "store_queue_task (qs_env ?qs) t ''queued'' (q_world ?s) = (Ok (), w2)" using store by simp
    note enq = enqueue_is_run [OF False this]
    obtain s' where s': "enqueue_task ?qs t ?s = (Ok (receipt_of t), s')" using enq(2) by (metis surjective_pairing)
    have "service_ready E en s'" using queue_inv_run [OF enq(1) inv1] enq(3) w2 s' by (simp add: service_ready_def)
    then show ?thesis using run s' by (simp add: andthen_run attempt_run ret_run)
  qed
qed

lemma settles_ignore_err [settle_intros]: "settles E m \<Longrightarrow> settles E (ignore_err m)"
  unfolding settles_def
proof (intro allI impI)
  fix w assume m: "\<forall>w. ready E w \<longrightarrow> returns (fst (m w)) \<and> ready E (snd (m w))" and w: "ready E w"
  obtain r w' where run: "m w = (r, w')" by (cases "m w")
  from spec [OF m, of w] w run show "returns (fst (ignore_err m w)) \<and> ready E (snd (ignore_err m w))"
    by (cases r) (simp_all add: ignore_err_run)
qed

lemma settles_queued_task:
  assumes "uuid_law E"
  shows "settles E (run_queued_task E te bm t)"
proof -
  have audit: "settles E (queue_audit E t outcome status)" for outcome status
    using settles_writes(2) [OF assms] unfolding queue_audit_def record_audit_def by blast
  have tool: "settles E (execute_tool_call E te call)" "settles E (ingest_tool_result E bm call outcome)" for call outcome
    by (rule settles_harmless [OF harmless_frame]; intro safe_intros advance_intros keeps_intros brain_frames.keeps_brain)+
  show ?thesis unfolding run_queued_task_def Let_def by (intro settle_intros audit tool)
qed

lemma ready_work:
  assumes "uuid_law E" and "serve_step (engine_queue E en) s s'" and "service_ready E en s"
  shows "service_ready E en s'"
proof -
  have inv: "queue_inv (engine_queue E en) s" and w: "ready E (q_world s)" using assms(3) by (simp_all add: service_ready_def)
  have "ready E (q_world s')"
    using assms(2)
  proof (cases rule: serve_step.cases)
    case (Store i t w')
    have "settles E (store_queue_task E t ''queued'')" by (intro settle_intros)
    from settles_run [OF this w] Store show ?thesis by (simp add: engine_queue_def)
  next
    case (Finish i t w')
    from settles_run [OF settles_queued_task [OF assms(1)] w] Finish show ?thesis by (simp add: engine_queue_def)
  qed (use w in simp_all)
  moreover have "queue_inv (engine_queue E en) s'" by (rule queue_inv_serve [OF assms(2) inv])
  ultimately show ?thesis by (simp add: service_ready_def)
qed

section \<open>The service never stops\<close>

text \<open>The steps of a service that gets only requests it can serve.\<close>

inductive sound_step :: "env \<Rightarrow> host \<Rightarrow> engine \<Rightarrow> qsys \<Rightarrow> qsys \<Rightarrow> bool" for E h en where
  Sound_Request: "servable E en (w_db (q_world s)) req \<Longrightarrow> serve E h en req s = (r, s') \<Longrightarrow> sound_step E h en s s'"
| Sound_Work: "serve_step (engine_queue E en) s s' \<Longrightarrow> sound_step E h en s s'"

lemma serve_answers:
  assumes "runtime_laws E en" and "service_ready E en s" and "servable E en (w_db (q_world s)) req"
  shows "\<exists>a s'. serve E h en req s = (Ok a, s') \<and> service_ready E en s'"
proof (cases "\<exists>tid tt tgt args prio. req = Queue_Task tid tt tgt args prio")
  case True
  then show ?thesis using queue_task_answered [OF assms(2)] by auto
next
  case False
  have inv: "queue_inv (engine_queue E en) s" and w: "ready E (q_world s)" using assms(2) by (simp_all add: service_ready_def)
  from request_answered [OF assms(1) w assms(3) False refl] obtain a w'
    where "serve E h en req s = (Ok a, s\<lparr>q_world := w'\<rparr>)" and w': "ready E w'" by blast
  moreover have "service_ready E en (s\<lparr>q_world := w'\<rparr>)"
    using queue_inv_world [OF inv, of w'] w' by (simp add: service_ready_def ready_def)
  ultimately show ?thesis by blast
qed

lemma sound_steps_ready:
  assumes "runtime_laws E en" and "(sound_step E h en)\<^sup>*\<^sup>* s s'" and "service_ready E en s"
  shows "service_ready E en s'"
  using assms(2,3)
proof (induction rule: rtranclp_induct)
  case (step s1 s2)
  have uuids: "uuid_law E" using assms(1) by (simp add: runtime_laws_def)
  from step(2) show ?case
  proof cases
    case (Sound_Request req r)
    then show ?thesis using serve_answers [OF assms(1) step.IH [OF step.prems], of req h] by auto
  qed (use ready_work [OF uuids _ step.IH [OF step.prems]] in blast)
qed



end
