(* ===== verification/Providers.thy ===== *)
theory Providers
  imports Engine_Progress
begin

text \<open>
  The three kinds of model providers (\<open>engine/src/providers/ollama.rs\<close>, \<open>llamacpp.rs\<close>,
  \<open>openai_compat.rs\<close>): the request each of them posts and what it takes from the answer. The services
  are the parameter \<open>http\<close>. \<open>over_http\<close> puts the providers in the place of the parameter \<open>E_generate\<close>
  of the rest of the development.
\<close>

section \<open>One exchange\<close>

text \<open>
  What the n-th request, to this address with this body, is answered with: nothing, if it cannot be
  sent, or a status and a body; a body that cannot be received is one that is not JSON.
\<close>

datatype http_answer = No_Answer | Answer nat string

type_synonym http = "nat \<Rightarrow> string \<Rightarrow> string \<Rightarrow> http_answer"

text \<open>\<open>error_for_status\<close>: the client's and the server's errors.\<close>

definition http_error_status :: "nat \<Rightarrow> bool" where
  "http_error_status status \<longleftrightarrow> 400 \<le> status \<and> status < 600"

definition post_json ::
  "env \<Rightarrow> http \<Rightarrow> nat \<Rightarrow> string \<times> json \<Rightarrow> string \<times> string \<times> string \<Rightarrow> (json \<Rightarrow> 'a option) \<Rightarrow> error + 'a" where
  "post_json E h n request contexts decode = (case contexts of (not_sent, bad_status, not_decoded) \<Rightarrow>
     (case h n (fst request) (E_json_print E (snd request)) of
        No_Answer \<Rightarrow> Inl (Msg not_sent)
      | Answer status raw \<Rightarrow>
          if http_error_status status then Inl (Msg bad_status)
          else (case Option.bind (E_json_parse E raw) decode of
             None \<Rightarrow> Inl (Msg not_decoded)
           | Some body \<Rightarrow> Inr body)))"

text \<open>
  The fields of a derived \<open>Deserialize\<close>: by name from an object, whose other entries are ignored, or by
  position from an array of their number. A missing \<open>Option\<close> field and \<open>null\<close> are \<open>None\<close>.
\<close>

fun struct_fields :: "string list \<Rightarrow> json \<Rightarrow> json option list option" where
  "struct_fields ks (JObj m) = Some (map (bt_get m) ks)"
| "struct_fields ks (JArr xs) = (if length xs = length ks then Some (map Some xs) else None)"
| "struct_fields ks _ = None"

fun optional :: "(json \<Rightarrow> 'a option) \<Rightarrow> json option \<Rightarrow> 'a option option" where
  "optional decode None = Some None"
| "optional decode (Some JNull) = Some None"
| "optional decode (Some v) = map_option Some (decode v)"

definition list_of_json :: "(json \<Rightarrow> 'a option) \<Rightarrow> json \<Rightarrow> 'a list option" where
  "list_of_json decode v = Option.bind (json_as_array v) (\<lambda>xs. those (map decode xs))"

section \<open>Ollama\<close>

definition ollama_response_of_json :: "json \<Rightarrow> string option" where
  "ollama_response_of_json v = Option.bind (struct_fields [''response''] v) (\<lambda>fs. Option.bind (fs ! 0) json_as_str)"

definition ollama_request :: "model_provider_config \<Rightarrow> string \<Rightarrow> string \<times> json" where
  "ollama_request p prompt = (mp_endpoint p @ ''/api/generate'',
     json_obj [(''model'', JStr (mp_model p)), (''prompt'', JStr prompt), (''stream'', JBool False)])"

definition ollama_generate :: "env \<Rightarrow> http \<Rightarrow> model_provider_config \<Rightarrow> nat \<Rightarrow> string \<Rightarrow> error + string" where
  "ollama_generate E h p n prompt = post_json E h n (ollama_request p prompt)
     (''ollama generate request failed'', ''ollama returned an error status'', ''failed to decode ollama response'')
     ollama_response_of_json"

section \<open>llama.cpp\<close>

record completion_response =
  cr_content :: "string option"
  cr_choices :: "string option list option"

text \<open>A \<open>CompletionChoice\<close> is its \<open>text\<close>.\<close>

definition completion_choice_of_json :: "json \<Rightarrow> string option option" where
  "completion_choice_of_json v = Option.bind (struct_fields [''text''] v) (\<lambda>fs. optional json_as_str (fs ! 0))"

definition completion_of_json :: "json \<Rightarrow> completion_response option" where
  "completion_of_json v =
     Option.bind (struct_fields [''content'', ''choices''] v) (\<lambda>fs.
     Option.bind (optional json_as_str (fs ! 0)) (\<lambda>content.
     Option.bind (optional (list_of_json completion_choice_of_json) (fs ! 1)) (\<lambda>choices.
     Some \<lparr>cr_content = content, cr_choices = choices\<rparr>)))"

text \<open>\<open>Vec::pop\<close> takes the last choice.\<close>

definition completion_text :: "completion_response \<Rightarrow> string option" where
  "completion_text body = (case cr_content body of
       Some content \<Rightarrow> Some content
     | None \<Rightarrow> (case cr_choices body of
         None \<Rightarrow> None
       | Some choices \<Rightarrow> (if choices = [] then None else last choices)))"

definition llamacpp_request :: "model_provider_config \<Rightarrow> string \<Rightarrow> string \<times> json" where
  "llamacpp_request p prompt = (mp_endpoint p @ ''/completion'',
     json_obj [(''prompt'', JStr prompt), (''n_predict'', JNum 256), (''temperature'', JNum (2 / 10))])"

definition llamacpp_generate :: "env \<Rightarrow> http \<Rightarrow> model_provider_config \<Rightarrow> nat \<Rightarrow> string \<Rightarrow> error + string" where
  "llamacpp_generate E h p n prompt = (case post_json E h n (llamacpp_request p prompt)
       (''llama.cpp completion request failed'', ''llama.cpp returned an error status'', ''failed to decode llama.cpp response'')
       completion_of_json of
       Inl e \<Rightarrow> Inl e
     | Inr body \<Rightarrow> (case completion_text body of
         None \<Rightarrow> Inl (Msg ''llama.cpp returned an empty completion body'')
       | Some text \<Rightarrow> Inr text))"

section \<open>OpenAI-compatible backends\<close>

text \<open>A \<open>ChatChoice\<close> is the content of its message.\<close>

definition chat_choice_of_json :: "json \<Rightarrow> string option" where
  "chat_choice_of_json v =
     Option.bind (struct_fields [''message''] v) (\<lambda>fs.
     Option.bind (fs ! 0) (\<lambda>message.
     Option.bind (struct_fields [''content''] message) (\<lambda>gs. Option.bind (gs ! 0) json_as_str)))"

definition chat_completion_of_json :: "json \<Rightarrow> string list option" where
  "chat_completion_of_json v =
     Option.bind (struct_fields [''choices''] v) (\<lambda>fs. Option.bind (fs ! 0) (list_of_json chat_choice_of_json))"

definition openai_request :: "model_provider_config \<Rightarrow> string \<Rightarrow> string \<times> json" where
  "openai_request p prompt = (mp_endpoint p @ ''/chat/completions'',
     json_obj [(''model'', JStr (mp_model p)),
       (''messages'', JArr [json_obj [(''role'', JStr ''user''), (''content'', JStr prompt)]]), (''temperature'', JNum (2 / 10))])"

definition openai_generate :: "env \<Rightarrow> http \<Rightarrow> model_provider_config \<Rightarrow> nat \<Rightarrow> string \<Rightarrow> error + string" where
  "openai_generate E h p n prompt = (case post_json E h n (openai_request p prompt)
       (''OpenAI-compatible completion request failed'', ''OpenAI-compatible backend returned an error status'',
        ''failed to decode OpenAI-compatible response'')
       chat_completion_of_json of
       Inl e \<Rightarrow> Inl e
     | Inr [] \<Rightarrow> Inl (Msg ''backend returned no choices'')
     | Inr (content # _) \<Rightarrow> (if content = [] then Inl (Msg ''backend returned empty content'') else Inr content))"

section \<open>The registry's providers\<close>

definition provider_generate :: "env \<Rightarrow> http \<Rightarrow> model_provider_config \<Rightarrow> nat \<Rightarrow> string \<Rightarrow> error + string" where
  "provider_generate E h p n prompt =
     (if mp_kind p = ''ollama'' then ollama_generate E h p n prompt
      else if mp_kind p = ''llamacpp'' then llamacpp_generate E h p n prompt
      else openai_generate E h p n prompt)"

text \<open>The registry calls a provider by its name; it has those of the three kinds only.\<close>

definition http_generate :: "env \<Rightarrow> http \<Rightarrow> (string, model_provider_config) btree \<Rightarrow> string \<Rightarrow> nat \<Rightarrow> string \<Rightarrow> error + string" where
  "http_generate E h ps name n prompt = (case bt_get ps name of
       None \<Rightarrow> Inl (Msg (''unknown provider '' @ name))
     | Some p \<Rightarrow> provider_generate E h p n prompt)"

definition over_http :: "env \<Rightarrow> http \<Rightarrow> (string, model_provider_config) btree \<Rightarrow> env" where
  "over_http E h ps = E\<lparr>E_generate := http_generate E h ps\<rparr>"

lemma over_http_fields [simp]:
  "E_generate (over_http E h ps) = http_generate E h ps" "E_json_parse (over_http E h ps) = E_json_parse E"
  "E_time (over_http E h ps) = E_time E" "E_uuid (over_http E h ps) = E_uuid E"
  by (simp_all add: over_http_def)

end
