(* ===== verification/Providers_Facts.thy ===== *)
theory Providers_Facts
  imports Providers
begin

text \<open>
  What comes back from the model providers: a reply is a text of the body some enabled provider
  answered with, prompts go to no other service, and whatever the services answer, every message that
  needs no pairing is answered.
\<close>

section \<open>The texts of a body\<close>

fun json_texts :: "json \<Rightarrow> string list" where
  "json_texts (JStr s) = [s]"
| "json_texts (JArr xs) = concat (map json_texts xs)"
| "json_texts (JObj m) = concat (map (\<lambda>kv. json_texts (snd kv)) m)"
| "json_texts _ = []"

text \<open>\<open>part f v\<close>: what \<open>f\<close> decodes from a JSON value has its texts from there.\<close>

definition part :: "(json \<Rightarrow> 'a option) \<Rightarrow> ('a \<Rightarrow> string set) \<Rightarrow> bool" where
  "part decode texts \<longleftrightarrow> (\<forall>v a. decode v = Some a \<longrightarrow> texts a \<subseteq> set (json_texts v))"

lemma partD: "part decode texts \<Longrightarrow> decode v = Some a \<Longrightarrow> s \<in> texts a \<Longrightarrow> s \<in> set (json_texts v)"
  unfolding part_def by blast

lemma part_str: "part json_as_str (\<lambda>s. {s})"
proof -
  have "json_as_str v = Some s \<Longrightarrow> s \<in> set (json_texts v)" for v s by (cases v) simp_all
  then show ?thesis by (simp add: part_def)
qed

lemma struct_fields_texts:
  "struct_fields ks v = Some fs \<Longrightarrow> i < length ks \<Longrightarrow> fs ! i = Some x \<Longrightarrow> set (json_texts x) \<subseteq> set (json_texts v)"
proof (cases v)
  case (JArr xs)
  assume "struct_fields ks v = Some fs" "i < length ks" "fs ! i = Some x"
  with JArr show ?thesis by (auto split: if_splits intro!: bexI [of _ "xs ! i"])
next
  case (JObj m)
  assume "struct_fields ks v = Some fs" "i < length ks" "fs ! i = Some x"
  with JObj have "map_of m (ks ! i) = Some x" by (auto simp: bt_get_def)
  then have "(ks ! i, x) \<in> set m" by (rule map_of_SomeD)
  with JObj show ?thesis by force
qed simp_all

lemma part_field:
  assumes "part decode texts" and "i < length ks"
  shows "part (\<lambda>v. Option.bind (struct_fields ks v) (\<lambda>fs. Option.bind (fs ! i) decode)) texts"
  using struct_fields_texts [OF _ assms(2)] partD [OF assms(1)]
  by (fastforce simp: part_def bind_eq_Some_conv)

lemma optional_Some: "optional decode f = Some (Some a) \<Longrightarrow> \<exists>v. f = Some v \<and> decode v = Some a"
  by (cases "(decode, f)" rule: optional.cases) auto

lemma part_list: "part decode texts \<Longrightarrow> part (list_of_json decode) (\<lambda>xs. \<Union> (texts ` set xs))"
proof -
  assume p: "part decode texts"
  have "those (map decode vs) = Some xs \<Longrightarrow> x \<in> set xs \<Longrightarrow> s \<in> texts x \<Longrightarrow> s \<in> set (concat (map json_texts vs))" for vs xs x s
    by (induction vs arbitrary: xs) (auto split: option.splits dest: partD [OF p])
  then have "list_of_json decode v = Some xs \<Longrightarrow> x \<in> set xs \<Longrightarrow> s \<in> texts x \<Longrightarrow> s \<in> set (json_texts v)" for v xs x s
    by (cases v) (fastforce simp: list_of_json_def)+
  then show ?thesis unfolding part_def by blast
qed

lemma ollama_part: "part ollama_response_of_json (\<lambda>s. {s})"
  unfolding ollama_response_of_json_def by (intro part_field part_str) simp

lemma completion_part: "part completion_of_json (\<lambda>body. case completion_text body of None \<Rightarrow> {} | Some s \<Rightarrow> {s})"
proof -
  have choice: "part completion_choice_of_json (\<lambda>t. case t of None \<Rightarrow> {} | Some s \<Rightarrow> {s})"
    using struct_fields_texts [of "[''text'']" _ _ 0] partD [OF part_str]
    by (fastforce simp: part_def completion_choice_of_json_def bind_eq_Some_conv dest!: optional_Some split: option.split)
  have "completion_of_json v = Some body \<Longrightarrow> completion_text body = Some s \<Longrightarrow> s \<in> set (json_texts v)" for v body s
  proof -
    assume dec: "completion_of_json v = Some body" and found: "completion_text body = Some s"
    then obtain fs where fs: "struct_fields [''content'', ''choices''] v = Some fs"
        "optional json_as_str (fs ! 0) = Some (cr_content body)"
        "optional (list_of_json completion_choice_of_json) (fs ! 1) = Some (cr_choices body)"
      by (auto simp: completion_of_json_def bind_eq_Some_conv)
    show "s \<in> set (json_texts v)"
    proof (cases "cr_content body")
      case None
      with found obtain cs where cs: "cr_choices body = Some cs" "cs \<noteq> []" "last cs = Some s"
        by (auto simp: completion_text_def split: option.splits if_splits)
      with fs(3) obtain x where x: "fs ! 1 = Some x" "list_of_json completion_choice_of_json x = Some cs"
        by (auto dest: optional_Some)
      have "s \<in> set (json_texts x)"
      proof (rule partD [OF part_list [OF choice] x(2)])
        have "Some s \<in> set cs" using cs(2,3) last_in_set by metis
        then show "s \<in> (\<Union>t \<in> set cs. case t of None \<Rightarrow> {} | Some s \<Rightarrow> {s})" by (intro UN_I [of "Some s"]) simp_all
      qed
      then show ?thesis using struct_fields_texts [OF fs(1) _ x(1)] by auto
    next
      case (Some c)
      with found have "c = s" by (simp add: completion_text_def)
      with Some fs(2) obtain x where x: "fs ! 0 = Some x" "json_as_str x = Some s" by (auto dest: optional_Some)
      then show ?thesis using partD [OF part_str x(2)] struct_fields_texts [OF fs(1) _ x(1)] by auto
    qed
  qed
  then show ?thesis by (auto simp: part_def split: option.splits)
qed

lemma chat_part: "part chat_completion_of_json set"
proof -
  have "part chat_choice_of_json (\<lambda>s. {s})"
    unfolding chat_choice_of_json_def by (intro part_field part_str) simp_all
  then have "part (list_of_json chat_choice_of_json) (\<lambda>xs. \<Union> ((\<lambda>s. {s}) ` set xs))" by (rule part_list)
  then have "part (list_of_json chat_choice_of_json) set" by simp
  then show ?thesis unfolding chat_completion_of_json_def by (intro part_field) simp_all
qed

section \<open>Replies\<close>

definition provider_request :: "model_provider_config \<Rightarrow> string \<Rightarrow> string \<times> json" where
  "provider_request p prompt =
     (if mp_kind p = ''ollama'' then ollama_request p prompt
      else if mp_kind p = ''llamacpp'' then llamacpp_request p prompt
      else openai_request p prompt)"

text \<open>\<open>s\<close> is a text of the body the n-th request was answered with.\<close>

definition replied :: "env \<Rightarrow> http \<Rightarrow> nat \<Rightarrow> string \<times> json \<Rightarrow> string \<Rightarrow> bool" where
  "replied E h n request s \<longleftrightarrow> (\<exists>status raw v. h n (fst request) (E_json_print E (snd request)) = Answer status raw \<and>
     \<not> http_error_status status \<and> E_json_parse E raw = Some v \<and> s \<in> set (json_texts v))"

lemma post_json_replied:
  assumes "post_json E h n request contexts decode = Inr a" and "part decode texts" and "s \<in> texts a"
  shows "replied E h n request s"
  using assms(1) partD [OF assms(2) _ assms(3)]
  by (auto simp: post_json_def replied_def bind_eq_Some_conv split: prod.splits http_answer.splits if_splits option.splits)

lemma provider_reply_from_body:
  assumes "provider_generate E h p n prompt = Inr reply"
  shows "replied E h n (provider_request p prompt) reply"
proof -
  have ollama: "ollama_generate E h p n prompt = Inr reply \<Longrightarrow> replied E h n (ollama_request p prompt) reply"
    unfolding ollama_generate_def by (erule post_json_replied [OF _ ollama_part]) simp
  have llamacpp: "llamacpp_generate E h p n prompt = Inr reply \<Longrightarrow> replied E h n (llamacpp_request p prompt) reply"
    unfolding llamacpp_generate_def
    by (auto split: sum.splits option.splits elim!: post_json_replied [OF _ completion_part])
  have openai: "openai_generate E h p n prompt = Inr reply \<Longrightarrow> replied E h n (openai_request p prompt) reply"
    unfolding openai_generate_def
    by (auto split: sum.splits list.splits if_splits elim!: post_json_replied [OF _ chat_part])
  show ?thesis using assms ollama llamacpp openai by (auto simp: provider_generate_def provider_request_def split: if_splits)
qed

lemma registered:
  "bt_wf acc \<Longrightarrow> bt_get (fold (\<lambda>(name, provider) ps. if supported_kind (mp_kind provider) then bt_insert name provider ps else ps)
       xs acc) name = Some p \<Longrightarrow> (name, p) \<in> set xs \<and> supported_kind (mp_kind p) \<or> bt_get acc name = Some p"
proof (induction xs arbitrary: acc)
  case (Cons x xs)
  obtain k q where x: "x = (k, q)" by (cases x)
  have "supported_kind (mp_kind q) \<Longrightarrow> bt_get (bt_insert k q acc) name = (if name = k then Some q else bt_get acc name)"
    by (rule bt_get_insert [OF Cons.prems(1)])
  with Cons.prems Cons.IH [of "bt_insert k q acc"] Cons.IH [of acc] bt_wf_insert [of acc k q] show ?case
    by (cases "supported_kind (mp_kind q)") (auto simp: x split: if_split_asm)
qed simp

lemma registry_providers:
  assumes "bt_wf ps" and "bt_get (pr_providers (registry_from_config ps)) name = Some p"
  shows "bt_get ps name = Some p \<and> supported_kind (mp_kind p)"
  using assms registered [of "[]" ps name p] by (simp add: registry_from_config_def bt_get_in_set)

text \<open>The provider of this name is configured, enabled and of a known kind.\<close>

definition askable :: "(string, model_provider_config) btree \<Rightarrow> string \<Rightarrow> model_provider_config \<Rightarrow> bool" where
  "askable ps name p \<longleftrightarrow> bt_get ps name = Some p \<and> mp_enabled p \<and> supported_kind (mp_kind p)"

lemma usable_askable:
  "bt_wf ps \<Longrightarrow> name \<in> set (usable_names (registry_from_config ps) order) \<Longrightarrow> name \<in> set order \<and> (\<exists>p. askable ps name p)"
  by (auto simp: usable_names_def askable_def dest: registry_providers split: option.splits)

text \<open>C30.
  A prompt is sent to no service but those of enabled providers of the route; and a reply that routing
  returns is a text of the body that the named provider's service, asked last, answered that very
  prompt with.
\<close>

theorem routed_over_http:
  assumes "bt_wf ps" and "generate_with_routing (over_http E h ps) (registry_from_config ps) order prompt w = (r, w')"
  shows "\<exists>asked. w_calls w' = w_calls w @ map (\<lambda>name. (name, prompt)) asked \<and>
    (\<forall>name \<in> set asked. name \<in> set order \<and> (\<exists>p. askable ps name p)) \<and>
    (\<forall>name reply. r = Ok (name, reply) \<longrightarrow> (\<exists>p. askable ps name p \<and> asked \<noteq> [] \<and> last asked = name \<and>
       replied E h (length (w_calls w') - 1) (provider_request p prompt) reply))"
proof -
  let ?names = "usable_names (registry_from_config ps) order" and ?calls = "length (w_calls w)"
  note run = assms(2) [unfolded generate_with_routing_def route_loop_run Let_def]
  show ?thesis
  proof (cases "first_answer (over_http E h ps) prompt ?calls ?names")
    case None
    with run usable_askable [OF assms(1)] show ?thesis by (intro exI [of _ ?names]) auto
  next
    case (Some i)
    then have i: "i < length ?names" "\<not> isl (http_generate E h ps (?names ! i) (?calls + i) prompt)"
      by (auto simp: first_answer_def find_Some_iff)
    have last: "last (take (Suc i) ?names) = ?names ! i" using i(1) by (simp add: take_Suc_conv_app_nth)
    obtain p where p: "askable ps (?names ! i) p" using usable_askable [OF assms(1) nth_mem [OF i(1)]] by blast
    then have "replied E h (?calls + i) (provider_request p prompt) (projr (http_generate E h ps (?names ! i) (?calls + i) prompt))"
      using i(2) by (intro provider_reply_from_body) (simp add: http_generate_def askable_def sum.collapse)
    moreover have r: "r = Ok (?names ! i, projr (http_generate E h ps (?names ! i) (?calls + i) prompt))"
        and calls: "w_calls w' = w_calls w @ map (\<lambda>n. (n, prompt)) (take (Suc i) ?names)"
      using run Some by auto
    moreover have "length (w_calls w') - 1 = ?calls + i" using calls i(1) by simp
    moreover have "\<forall>name \<in> set (take (Suc i) ?names). name \<in> set order \<and> (\<exists>p. askable ps name p)"
      by (intro ballI usable_askable [OF assms(1)]) (rule in_set_takeD)
    moreover have "take (Suc i) ?names \<noteq> []" using i(1) by auto
    ultimately show ?thesis using last p
      by (intro exI [of _ "take (Suc i) ?names"] conjI allI impI) (simp_all del: set_take_subset, blast)
  qed
qed

text \<open>A service that answers every request with one object.\<close>

definition served_env :: env where
  "served_env = sample_env\<lparr>E_json_parse := (\<lambda>_. Some (JObj [(''response'', JStr ''hi'')]))\<rparr>"

theorem routed_over_http_witness:
  "\<exists>w'. generate_with_routing (over_http served_env (\<lambda>_ _ _. Answer 200 []) [(''ollama'', demo_provider)])
       (registry_from_config [(''ollama'', demo_provider)]) [''ollama''] ''hello'' boot_world = (Ok (''ollama'', ''hi''), w') \<and>
     replied served_env (\<lambda>_ _ _. Answer 200 []) 0 (provider_request demo_provider ''hello'') ''hi''"
proof -
  let ?ps = "[(''ollama'', demo_provider)]"
  have wf: "bt_wf ?ps" by (simp add: bt_wf_def)
  have "http_generate served_env (\<lambda>_ _ _. Answer 200 []) ?ps ''ollama'' 0 ''hello'' = Inr ''hi''"
    by (simp add: http_generate_def provider_generate_def ollama_generate_def post_json_def ollama_response_of_json_def served_env_def
        http_error_status_def demo_provider_def bt_get_def)
  then have run: "generate_with_routing (over_http served_env (\<lambda>_ _ _. Answer 200 []) ?ps) (registry_from_config ?ps) [''ollama''] ''hello''
      boot_world = (Ok (''ollama'', ''hi''), boot_world\<lparr>w_calls := [(''ollama'', ''hello'')]\<rparr>)"
    by (simp add: generate_with_routing_def registry_from_config_def demo_provider_def derived_model_provider_def supported_kind_def
        bt_get_def boot_world_def run_simps)
  from routed_over_http [OF wf run] run show ?thesis
    by (auto simp: askable_def bt_get_def boot_world_def)
qed

section \<open>Messages\<close>

text \<open>The parser only reads UTF-8, so every reply is; no service can keep a message from being answered.\<close>

definition parses_text :: "env \<Rightarrow> bool" where
  "parses_text E \<longleftrightarrow> (\<forall>raw v. E_json_parse E raw = Some v \<longrightarrow> list_all valid_str (json_texts v))"

lemma http_provider_law: "parses_text E \<Longrightarrow> provider_law (over_http E h ps)"
  using provider_reply_from_body
  by (fastforce simp: provider_law_def http_generate_def parses_text_def replied_def list_all_iff split: option.splits)

lemma ready_over_http [simp]: "ready (over_http E h ps) w = ready E w"
  by (simp add: ready_def ids_fresh_def drawn_def)

lemma laws_over_http [simp]:
  "uuid_law (over_http E h ps) = uuid_law E" "retention_ok (over_http E h ps) bm = retention_ok E bm"
  by (simp_all add: uuid_law_def retention_ok_def)

theorem message_answered_over_http:
  assumes "ready E w" and "uuid_law E" and "retention_ok E (en_brain en)" and "parses_text E"
    and "valid_str (me_body m)" and "plain (me_connector m)" and "plain (me_sender m)"
    and "\<forall>s. \<not> must_pair en s m (w_db w)"
  shows "\<exists>r w'. handle_message (over_http E h (cfg_models (en_config en))) en m w = (Ok r, w') \<and> answered r \<and> ready E w'"
  using message_answered [of "over_http E h (cfg_models (en_config en))" w en m] assms http_provider_law by simp

end
