(* ===== verification/Terminal.thy ===== *)
theory Terminal
  imports Rpc Config_Facts
begin

text \<open>
  What the command line acts on: the machine (\<open>world\<close>), what it prints, the gateway it calls, the
  processes it starts. The gateway's clients of \<open>engine/src/lib.rs\<close> (\<open>fetch_gateway_status\<close>,
  \<open>wait_for_gateway\<close>, \<open>load_runtime_status\<close>) and the life of the private RPC endpoint
  (\<open>start_private_rpc\<close>, \<open>EngineHandle::shutdown\<close>) are modelled here.
\<close>

section \<open>The gateway's interface\<close>

text \<open>
  The methods of \<open>GatewayService\<close> the command line calls. Those the engine's service has as well take
  the same messages (\<open>Engine_Call\<close>).
\<close>

record connector_info =
  ci_name :: string
  ci_enabled :: bool
  ci_implemented :: bool
  ci_mode :: string
  ci_health :: string
  ci_allowlist :: "string list"
  ci_details :: "(string, string) btree"

datatype gateway_call =
    Get_Status
  | Execute (ex_target: string) (ex_arguments_json: string) (ex_allow_network: bool) (ex_priority: string)
  | List_Connectors
  | Get_Connector_Status string
  | Submit_Message message_envelope
  | Send_Channel_Message outbound_message
  | Engine_Call rpc_request

text \<open>The status response has the fields of \<open>RuntimeStatus\<close>; its time is text, which no command reads.\<close>

datatype gateway_reply =
    Status_Reply runtime_status
  | Connector_List_Reply "connector_info list"
  | Connector_Status_Reply "connector_info option"
  | Engine_Reply rpc_response

section \<open>The terminal\<close>

record spawn_command =
  sp_program :: string
  sp_args :: "string list"
  sp_current_dir :: "string option"
  sp_env :: "(string \<times> string) list"

text \<open>
  \<open>tm_connects\<close> counts the attempts to connect, \<open>tm_sent\<close> lists the requests that were sent,
  \<open>tm_engine\<close> and \<open>tm_gateway\<close> tell whether the private RPC server and the gateway process run.
\<close>

record terminal =
  tm_world :: world
  tm_out :: "string list"
  tm_connects :: nat
  tm_sent :: "gateway_call list"
  tm_spawned :: "spawn_command list"
  tm_engine :: bool
  tm_gateway :: bool

type_synonym 'a cli = "(terminal, 'a) act"

text \<open>
  Code outside the repository and the world around the process: whether the n-th attempt to connect
  succeeds and how many milliseconds it takes (\<open>x_connects\<close>, \<open>x_takes\<close>), what the gateway answers to the
  n-th request (\<open>x_reply\<close>, an error as its text), the TOML codec, the binding of the socket, the start of
  a process.
\<close>

record outside =
  x_env :: env
  x_host :: host
  x_connects :: "nat \<Rightarrow> string \<Rightarrow> bool"
  x_takes :: "nat \<Rightarrow> nat"
  x_reply :: "nat \<Rightarrow> gateway_call \<Rightarrow> string + gateway_reply"
  x_toml_config :: "string \<Rightarrow> app_config option"
  x_toml_legacy :: "string \<Rightarrow> legacy_view option"
  x_toml_write :: "app_config \<Rightarrow> string option"
  x_toml_json :: "string \<Rightarrow> json option"
  x_bind :: "string \<Rightarrow> bool"
  x_spawn :: "spawn_command \<Rightarrow> bool"
  x_pid :: nat
  x_unix_time :: nat

text \<open>An action on the machine.\<close>

definition on_machine :: "'a io \<Rightarrow> 'a cli" where
  "on_machine m = (\<lambda>t. let (r, w) = m (tm_world t) in (r, t\<lparr>tm_world := w\<rparr>))"

definition println :: "string \<Rightarrow> unit cli" where
  "println line = (\<lambda>t. (Ok (), t\<lparr>tm_out := tm_out t @ [line]\<rparr>))"

definition emit :: "outside \<Rightarrow> bool \<Rightarrow> json \<Rightarrow> string \<Rightarrow> unit cli" where
  "emit x json_output v fallback =
     (if json_output then println (E_json_pretty (x_env x) v)
      else if fallback \<noteq> [] then println fallback else ret ())"

text \<open>\<open>emit(json_output, value.clone(), serde_json::to_string_pretty(&value)?)\<close>.\<close>

definition emit_value :: "outside \<Rightarrow> bool \<Rightarrow> json \<Rightarrow> unit cli" where
  "emit_value x json_output v = emit x json_output v (E_json_pretty (x_env x) v)"

text \<open>\<open>std::fs::remove_file\<close>, whose error every caller drops.\<close>

definition remove_file :: "string \<Rightarrow> unit io" where
  "remove_file p = (\<lambda>w. (Ok (), w\<lparr>w_files := (w_files w)(p := None)\<rparr>))"

section \<open>Calling the gateway\<close>

text \<open>\<open>GatewayServiceClient::connect(endpoint)\<close>: whether there is a client.\<close>

definition connect :: "outside \<Rightarrow> string \<Rightarrow> bool cli" where
  "connect x endpoint = (\<lambda>t. (Ok (x_connects x (tm_connects t) endpoint), t\<lparr>tm_connects := Suc (tm_connects t)\<rparr>))"

text \<open>One call; a reply of another type would not decode.\<close>

definition call_gateway :: "outside \<Rightarrow> gateway_call \<Rightarrow> (gateway_reply \<Rightarrow> 'a option) \<Rightarrow> 'a cli" where
  "call_gateway x c decode = (\<lambda>t.
     ((case x_reply x (length (tm_sent t)) c of
         Inl e \<Rightarrow> Err (Msg e)
       | Inr reply \<Rightarrow> of_option (Msg ''failed to decode the response'') (decode reply)),
      t\<lparr>tm_sent := tm_sent t @ [c]\<rparr>))"

text \<open>\<open>.context(text)\<close>: the outermost text of an error.\<close>

definition in_context :: "string \<Rightarrow> 'a cli \<Rightarrow> 'a cli" where
  "in_context text m = (\<lambda>t. case m t of (Err _, t') \<Rightarrow> (Err (Msg text), t') | other \<Rightarrow> other)"

definition status_of :: "gateway_reply \<Rightarrow> runtime_status option" where
  "status_of r = (case r of Status_Reply s \<Rightarrow> Some s | _ \<Rightarrow> None)"

definition fetch_gateway_status :: "outside \<Rightarrow> string \<Rightarrow> runtime_status cli" where
  "fetch_gateway_status x gateway_endpoint =
     andthen (connect x (''http://'' @ gateway_endpoint)) (\<lambda>up.
     if \<not> up then fail (Msg (''failed to connect to gateway at '' @ gateway_endpoint))
     else in_context ''failed to fetch gateway status'' (call_gateway x Get_Status status_of))"

text \<open>
  \<open>wait_for_gateway\<close>: the loop asks, and sleeps 250 ms while less than the timeout has passed. The time is
  that of the attempts and the sleeps.
\<close>

function wait_from :: "outside \<Rightarrow> string \<Rightarrow> nat \<Rightarrow> nat \<Rightarrow> unit cli" where
  "wait_from x gateway_endpoint timeout elapsed t =
     (case fetch_gateway_status x gateway_endpoint t of
        (Ok _, t') \<Rightarrow> (Ok (), t')
      | (Err e, t') \<Rightarrow>
          if elapsed + x_takes x (tm_connects t) < timeout
          then wait_from x gateway_endpoint timeout (elapsed + x_takes x (tm_connects t) + 250) t'
          else (Err e, t')
      | (Panic, t') \<Rightarrow> (Panic, t')
      | (Deadlock, t') \<Rightarrow> (Deadlock, t'))"
  by pat_completeness auto

termination
  by (relation "measure (\<lambda>(x, ep, timeout, elapsed, t). timeout - elapsed)") auto

definition wait_for_gateway :: "outside \<Rightarrow> string \<Rightarrow> nat \<Rightarrow> unit cli" where
  "wait_for_gateway x gateway_endpoint timeout = wait_from x gateway_endpoint timeout 0"

section \<open>The runtime's state file\<close>

text \<open>\<open>serde_json::from_slice::<RuntimeStatus>\<close>: every field is required.\<close>

definition json_get_strs :: "json \<Rightarrow> string \<Rightarrow> string list option" where
  "json_get_strs v k = Option.bind (json_get v k) (\<lambda>a. Option.bind (json_as_array a) (\<lambda>xs. those (map json_as_str xs)))"

definition json_get_i64 :: "json \<Rightarrow> string \<Rightarrow> int option" where
  "json_get_i64 v k = (case json_get v k of
       Some (JNum q) \<Rightarrow> (if of_int \<lfloor>q\<rfloor> = q \<and> - (2 ^ 63) \<le> \<lfloor>q\<rfloor> \<and> \<lfloor>q\<rfloor> < 2 ^ 63 then Some \<lfloor>q\<rfloor> else None)
     | _ \<Rightarrow> None)"

definition runtime_status_of_json :: "env \<Rightarrow> json \<Rightarrow> runtime_status option" where
  "runtime_status_of_json E v =
     Option.bind (json_get_str v ''status'') (\<lambda>status.
     Option.bind (json_get_str v ''version'') (\<lambda>version.
     Option.bind (json_get_str v ''runtime_endpoint'') (\<lambda>runtime_endpoint.
     Option.bind (json_get_str v ''gateway_endpoint'') (\<lambda>gateway_endpoint.
     Option.bind (json_get_strs v ''enabled_connectors'') (\<lambda>enabled.
     Option.bind (json_get_strs v ''available_model_backends'') (\<lambda>backends.
     Option.bind (json_get_i64 v ''uptime_seconds'') (\<lambda>uptime.
     Option.bind (Option.bind (json_get_str v ''started_at'') (E_parse_time E)) (\<lambda>started.
     Option.bind (json_get_str v ''data_dir'') (\<lambda>data_dir.
     Option.bind (json_get_str v ''log_file'') (\<lambda>log_file.
     Option.bind (json_get_str v ''vector_memory_backend'') (\<lambda>vector.
     Option.bind (json_get_str v ''encryption_state'') (\<lambda>encryption.
     Option.bind (json_get_str v ''audit_mode'') (\<lambda>audit.
     Option.bind (json_get_str v ''attestation_state'') (\<lambda>attestation.
     Some \<lparr>rs_status = status, rs_version = version, rs_runtime_endpoint = runtime_endpoint,
       rs_gateway_endpoint = gateway_endpoint, rs_enabled_connectors = enabled, rs_available_model_backends = backends,
       rs_uptime_seconds = uptime, rs_started_at = started, rs_data_dir = data_dir, rs_log_file = log_file,
       rs_vector_memory_backend = vector, rs_encryption_state = encryption, rs_audit_mode = audit,
       rs_attestation_state = attestation\<rparr>))))))))))))))"

text \<open>
  A record kept in a JSON file: a record that can be stored is decoded from the JSON it is written as, so
  what is written is read back. This is the contract of the two state files.
\<close>

locale json_file =
  fixes to_json :: "'a \<Rightarrow> json" and of_json :: "json \<Rightarrow> 'a option" and storable :: "'a \<Rightarrow> bool"
  assumes reloads: "storable a \<Longrightarrow> of_json (to_json a) = Some a"
begin

lemma read_back:
  "storable a \<Longrightarrow> E_json_parse E (E_json_pretty E (to_json a)) = Some (to_json a) \<Longrightarrow>
     decode_bytes E ctx of_json (E_json_pretty E (to_json a)) = Ok a"
  by (simp add: reloads decode_bytes_def)

end

lemma strs_json_reloads: "those (map (json_as_str \<circ> JStr) xs) = Some xs"
  by (induction xs) simp_all

definition storable_status :: "env \<Rightarrow> runtime_status \<Rightarrow> bool" where
  "storable_status E s \<longleftrightarrow> E_parse_time E (serde_time E (rs_started_at s)) = Some (rs_started_at s) \<and> \<bar>rs_uptime_seconds s\<bar> < 2 ^ 63"

interpretation status_file: json_file "status_json E" "runtime_status_of_json E" "storable_status E" for E
  by unfold_locales (simp add: runtime_status_of_json_def status_json_def json_get_str_def json_get_strs_def json_get_i64_def
      json_get_def bt_get_def strs_json_def strs_json_reloads abs_less_iff storable_status_def)

definition load_runtime_status :: "env \<Rightarrow> openpinch_paths \<Rightarrow> runtime_status io" where
  "load_runtime_status E paths =
     andthen (read_file (pa_runtime_state_file paths)) (\<lambda>bytes. case bytes of
       None \<Rightarrow> fail (Msg (''failed to read runtime state '' @ pa_runtime_state_file paths))
     | Some raw \<Rightarrow> lift_res (decode_bytes E ''failed to decode runtime state'' (runtime_status_of_json E) raw))"

section \<open>The private RPC endpoint\<close>

text \<open>
  On Unix: a socket file left by another run is removed, and the bound socket is a file. The server
  removes it when it is shut down; that it ended with an error of the transport is not modelled.
\<close>

definition start_private_rpc :: "outside \<Rightarrow> openpinch_paths \<Rightarrow> string cli" where
  "start_private_rpc x paths =
     (let socket = pa_runtime_socket paths in
      andthen (on_machine (remove_file socket)) (\<lambda>_.
      if \<not> x_bind x socket then fail (Msg (''failed to bind unix socket at '' @ socket))
      else andthen (on_machine (write_file socket [])) (\<lambda>_ t.
        (Ok (''unix://'' @ socket), t\<lparr>tm_engine := True\<rparr>))))"

definition shutdown_handle :: "openpinch_paths \<Rightarrow> unit cli" where
  "shutdown_handle paths =
     andthen (on_machine (remove_file (pa_runtime_socket paths))) (\<lambda>_ t. (Ok (), t\<lparr>tm_engine := False\<rparr>))"

end
