(* ===== verification/Cli.thy ===== *)
theory Cli
  imports Terminal
begin

text \<open>
  The command line (\<open>cli/src/main.rs\<close>): every subcommand but the desktop host - the request it sends to
  the gateway, or what it does itself, and what it prints. Parsing of the arguments is \<open>clap\<close>'s; a
  command is what it yields, with its defaults filled in.
\<close>

section \<open>Commands\<close>

datatype cli_skill_command = Skill_List | Skill_Install string bool | Skill_Verify string

datatype config_command = Config_Init | Config_Show | Config_Set string string

datatype connector_command = Connector_List | Connector_Status string

datatype memory_command =
    Memory_Query (mq_text: string) (mq_ns: string) (mq_max: nat) (mq_filter: string)
  | Memory_Put (mp_key: string) (mp_content: string) (mp_ns: string) (mp_metadata: string)

datatype message_command = Message_Post message_envelope | Message_Send outbound_message

datatype pairing_command =
    Pairing_List (pl_status: string) (pl_connector: string) (pl_limit: nat)
  | Pairing_Approve (pa_id: string) (pa_note: string)
  | Pairing_Revoke (pr_id: string) (pr_note: string)

datatype session_command =
    Session_List (sl_connector: string) (sl_status: string) (sl_archived: bool) (sl_limit: nat)
  | Session_Show (ss_id: string) (ss_limit: nat)
  | Session_Prune (sp_hours: "32 word") (sp_archive: bool)

datatype model_command = Model_Profile | Model_Failover

datatype brain_command =
    Brain_Remember brain_remember
  | Brain_Recall brain_recall_query
  | Brain_Suggest brain_suggest_query
  | Brain_Task_List (bl_scope: string) (bl_statuses: "string list") (bl_priorities: "string list") (bl_due_before: string)
      (bl_limit: nat)
  | Brain_Task_Update (bt_id: string) (bt_status: string) (bt_priority: string) (bt_due_at: string) (bt_summary: string)
      (bt_links: string) (bt_source_ref: string)
  | Brain_Forget brain_forget

datatype command =
    Start bool
  | Execute_Tool (et_target: string) (et_args: string) (et_network: bool) (et_priority: string)
  | Show_Status
  | Onboard
  | Doctor
  | Skill_Command cli_skill_command
  | Config_Command config_command
  | Logs nat
  | Connector_Command connector_command
  | Memory_Command memory_command
  | Message_Command message_command
  | Pairing_Command pairing_command
  | Session_Command session_command
  | Model_Command model_command
  | Brain_Command brain_command
  | Policy_Show string "string option"
  | Audit_Export string nat
  | Attest string string bool
  | Agent_Protocol (ap_protocol: string) (ap_initiator: string) (ap_scope: string) (ap_messages: "string list")
  | Rbac_List
  | Operator_Status

section \<open>The JSON forms\<close>

definition text_map :: "(string, string) btree \<Rightarrow> json" where
  "text_map m = JObj (map (\<lambda>(k, v). (k, JStr v)) m)"

definition json_or_null_of :: "('a \<Rightarrow> json) \<Rightarrow> 'a option \<Rightarrow> json" where
  "json_or_null_of f x = (case x of None \<Rightarrow> JNull | Some a \<Rightarrow> f a)"

definition num :: "nat \<Rightarrow> json" where
  "num n = JNum (of_nat n)"

definition brain_entity_json :: "proto_entity \<Rightarrow> json" where
  "brain_entity_json e = json_obj [(''id'', JStr (pen_id e)), (''kind'', JStr (pen_kind e)), (''subtype'', JStr (pen_subtype e)),
     (''title'', JStr (pen_title e)), (''content'', JStr (pen_content e)), (''scope_json'', JStr (pen_scope_json e)),
     (''links_json'', JStr (pen_links_json e)), (''salience'', JNum (pen_salience e)), (''confidence'', JNum (pen_confidence e)),
     (''archived'', JBool (pen_archived e)), (''created_at'', JStr (pen_created_at e)), (''updated_at'', JStr (pen_updated_at e))]"

definition brain_fact_json :: "proto_fact \<Rightarrow> json" where
  "brain_fact_json f = json_obj [(''id'', JStr (pfa_id f)), (''entity_id'', JStr (pfa_entity_id f)), (''content'', JStr (pfa_content f)),
     (''scope_json'', JStr (pfa_scope_json f)), (''salience'', JNum (pfa_salience f)), (''confidence'', JNum (pfa_confidence f)),
     (''archived'', JBool (pfa_archived f)), (''created_at'', JStr (pfa_created_at f)), (''updated_at'', JStr (pfa_updated_at f))]"

definition brain_relation_json :: "proto_relation \<Rightarrow> json" where
  "brain_relation_json r = json_obj [(''id'', JStr (prl_id r)), (''kind'', JStr (prl_kind r)), (''from_id'', JStr (prl_from_id r)),
     (''to_id'', JStr (prl_to_id r)), (''metadata_json'', JStr (prl_metadata_json r)), (''confidence'', JNum (prl_confidence r)),
     (''created_at'', JStr (prl_created_at r)), (''updated_at'', JStr (prl_updated_at r))]"

definition brain_task_json :: "proto_task \<Rightarrow> json" where
  "brain_task_json t = json_obj [(''id'', JStr (ptk_id t)), (''title'', JStr (ptk_title t)), (''summary'', JStr (ptk_summary t)),
     (''status'', JStr (ptk_status t)), (''priority'', JStr (ptk_priority t)), (''due_at'', JStr (ptk_due_at t)),
     (''scope_json'', JStr (ptk_scope_json t)), (''links_json'', JStr (ptk_links_json t)), (''salience'', JNum (ptk_salience t)),
     (''confidence'', JNum (ptk_confidence t)), (''archived'', JBool (ptk_archived t)), (''created_at'', JStr (ptk_created_at t)),
     (''updated_at'', JStr (ptk_updated_at t))]"

definition brain_suggestion_json :: "brain_suggestion_record \<Rightarrow> json" where
  "brain_suggestion_json s = json_obj [(''id'', JStr (bs_id s)), (''task_id'', JStr (bs_task_id s)), (''summary'', JStr (bs_summary s)),
     (''reason'', JStr (bs_reason s)), (''score'', JNum (bs_score s)), (''context_json'', JStr (bs_context_json s))]"

definition session_json :: "proto_session \<Rightarrow> json" where
  "session_json s = json_obj [(''id'', JStr (pse_id s)), (''connector'', JStr (pse_connector s)), (''channel_id'', JStr (pse_channel_id s)),
     (''participant'', JStr (pse_participant s)), (''session_type'', JStr (pse_session_type s)), (''title'', JStr (pse_title s)),
     (''status'', JStr (pse_status s)), (''reply_mode'', JStr (pse_reply_mode s)), (''queue_mode'', JStr (pse_queue_mode s)),
     (''model_profile'', JStr (pse_model_profile s)), (''mention_only'', JBool (pse_mention_only s)),
     (''pending_pairing'', JBool (pse_pending_pairing s)), (''last_message_preview'', JStr (pse_last_message_preview s)),
     (''message_count'', num (unat (pse_message_count s))), (''created_at'', JStr (pse_created_at s)),
     (''updated_at'', JStr (pse_updated_at s))]"

definition session_message_json :: "proto_session_message_record \<Rightarrow> json" where
  "session_message_json m = json_obj [(''id'', JStr (psm_id m)), (''session_id'', JStr (psm_session_id m)),
     (''connector'', JStr (psm_connector m)), (''role'', JStr (psm_role m)), (''sender'', JStr (psm_sender m)),
     (''body'', JStr (psm_body m)), (''metadata_json'', JStr (psm_metadata_json m)), (''created_at'', JStr (psm_created_at m))]"

definition pairing_json :: "proto_pairing \<Rightarrow> json" where
  "pairing_json p = json_obj [(''id'', JStr (ppa_id p)), (''connector'', JStr (ppa_connector p)), (''channel_id'', JStr (ppa_channel_id p)),
     (''sender'', JStr (ppa_sender p)), (''session_id'', JStr (ppa_session_id p)), (''status'', JStr (ppa_status p)),
     (''reason'', JStr (ppa_reason p)), (''created_at'', JStr (ppa_created_at p)), (''updated_at'', JStr (ppa_updated_at p))]"

definition model_profile_json :: "model_profile_record \<Rightarrow> json" where
  "model_profile_json p = json_obj [(''name'', JStr (mpr_name p)), (''provider_order'', strs_json (mpr_provider_order p)),
     (''mode'', JStr (mpr_mode p)), (''timeout_seconds'', num (mpr_timeout_seconds p)), (''retry_budget'', num (mpr_retry_budget p)),
     (''hosted'', JBool (mpr_hosted p)), (''auth_mode'', JStr (mpr_auth_mode p)), (''default_profile'', JBool (mpr_default_profile p))]"

definition memory_json :: "proto_memory_record \<Rightarrow> json" where
  "memory_json r = json_obj [(''key'', JStr (pmr_key r)), (''namespace'', JStr (pmr_namespace r)), (''content'', JStr (pmr_content r)),
     (''metadata_json'', JStr (pmr_metadata_json r)), (''score'', JNum (pmr_score r)), (''created_at'', JStr (pmr_created_at r))]"

definition event_json :: "proto_event \<Rightarrow> json" where
  "event_json e = json_obj [(''id'', JStr (pev_id e)), (''category'', JStr (pev_category e)), (''severity'', JStr (pev_severity e)),
     (''summary'', JStr (pev_summary e)), (''anomaly_score'', JNum (pev_anomaly_score e)), (''payload_json'', JStr (pev_payload_json e)),
     (''created_at'', JStr (pev_created_at e))]"

definition connector_json :: "connector_info \<Rightarrow> json" where
  "connector_json c = json_obj [(''name'', JStr (ci_name c)), (''enabled'', JBool (ci_enabled c)), (''implemented'', JBool (ci_implemented c)),
     (''mode'', JStr (ci_mode c)), (''health'', JStr (ci_health c)), (''allowlist'', strs_json (ci_allowlist c)),
     (''details'', text_map (ci_details c))]"

definition finding_json :: "doctor_finding \<Rightarrow> json" where
  "finding_json f = json_obj [(''id'', JStr (df_id f)), (''component'', JStr (df_component f)), (''severity'', JStr (df_severity f)),
     (''status'', JStr (df_status f)), (''summary'', JStr (df_summary f)), (''detail'', JStr (df_detail f))]"

definition doctor_json :: "doctor_report \<Rightarrow> json" where
  "doctor_json r = json_obj [(''status'', JStr (dr_status r)), (''findings'', JArr (map finding_json (dr_findings r)))]"

definition skill_json :: "skill_info \<Rightarrow> json" where
  "skill_json s = json_obj [(''id'', JStr (si_id s)), (''version'', JStr (si_version s)), (''name'', JStr (si_name s)),
     (''description'', JStr (si_description s)), (''installed'', JBool (si_installed s)), (''verified'', JBool (si_verified s)),
     (''entrypoint'', JStr (si_entrypoint s)), (''language'', JStr (si_language s))]"

text \<open>\<open>serde_json::to_value(&manifest)\<close>.\<close>

definition manifest_json :: "skill_manifest \<Rightarrow> json" where
  "manifest_json m = json_obj [(''id'', JStr (skm_id m)), (''version'', JStr (skm_version m)), (''name'', JStr (skm_name m)),
     (''description'', JStr (skm_description m)), (''language'', JStr (skm_language m)), (''entrypoint'', JStr (skm_entrypoint m)),
     (''files'', JArr (map (\<lambda>f. json_obj [(''path'', JStr (mf_path f)), (''sha256'', JStr (mf_sha256 f))]) (skm_files m)))]"

section \<open>Asking the gateway\<close>

definition gateway_address :: "app_config \<Rightarrow> string" where
  "gateway_address config = ''http://'' @ g_listen_address (cfg_gateway config)"

definition connect_gateway :: "outside \<Rightarrow> app_config \<Rightarrow> unit cli" where
  "connect_gateway x config = andthen (connect x (gateway_address config)) (\<lambda>up.
     if up then ret () else fail (Msg (''failed to connect to gateway at '' @ g_listen_address (cfg_gateway config))))"

definition ask :: "outside \<Rightarrow> rpc_request \<Rightarrow> (rpc_response \<Rightarrow> 'a option) \<Rightarrow> 'a cli" where
  "ask x req decode = call_gateway x (Engine_Call req) (\<lambda>r. case r of Engine_Reply resp \<Rightarrow> decode resp | _ \<Rightarrow> None)"

fun handle_memory_command :: "outside \<Rightarrow> app_config \<Rightarrow> memory_command \<Rightarrow> bool \<Rightarrow> unit cli" where
  "handle_memory_command x config (Memory_Query query ns limit flt) json_output =
     andthen (connect_gateway x config) (\<lambda>_.
     andthen (ask x (Query_Memory ns query limit flt)
       (\<lambda>r. case r of Memory_Query_Response records backend \<Rightarrow> Some (records, backend) | _ \<Rightarrow> None)) (\<lambda>(records, backend).
     emit_value x json_output (json_obj [(''backend'', JStr backend), (''records'', JArr (map memory_json records))])))"
| "handle_memory_command x config (Memory_Put key content ns metadata) json_output =
     andthen (connect_gateway x config) (\<lambda>_.
     andthen (ask x (Upsert_Memory ns key content metadata)
       (\<lambda>r. case r of Memory_Upsert_Response stored backend digest \<Rightarrow> Some (stored, backend, digest) | _ \<Rightarrow> None))
       (\<lambda>(stored, backend, digest).
     emit_value x json_output (json_obj [(''stored'', JBool stored), (''backend'', JStr backend), (''digest'', JStr digest)])))"

fun handle_message_command :: "outside \<Rightarrow> app_config \<Rightarrow> message_command \<Rightarrow> bool \<Rightarrow> unit cli" where
  "handle_message_command x config (Message_Post m) json_output =
     andthen (connect_gateway x config) (\<lambda>_.
     andthen (call_gateway x (Submit_Message m) (\<lambda>r. case r of
         Engine_Reply (Submit_Message_Response accepted message_id reply session_id pairing_id state) \<Rightarrow>
           Some [(''accepted'', JBool accepted), (''message_id'', JStr message_id), (''reply'', JStr reply),
             (''session_id'', JStr session_id), (''pairing_id'', JStr pairing_id), (''delivery_state'', JStr state)]
       | _ \<Rightarrow> None)) (\<lambda>entries.
     emit_value x json_output (json_obj entries)))"
| "handle_message_command x config (Message_Send m) json_output =
     andthen (connect_gateway x config) (\<lambda>_.
     andthen (call_gateway x (Send_Channel_Message m) (\<lambda>r. case r of
         Engine_Reply (Channel_Message_Response res) \<Rightarrow> Some res | _ \<Rightarrow> None)) (\<lambda>res.
     emit_value x json_output (json_obj [(''accepted'', JBool (omr_accepted res)), (''message_id'', JStr (omr_message_id res)),
       (''session_id'', JStr (omr_session_id res)), (''status'', JStr (omr_status res)), (''detail'', JStr (omr_detail res))])))"

definition ask_pairing_update :: "outside \<Rightarrow> bool \<Rightarrow> string \<Rightarrow> string \<Rightarrow> string \<Rightarrow> unit cli" where
  "ask_pairing_update x json_output pairing_id action note =
     andthen (ask x (Update_Pairing \<lparr>pu_pairing_id = pairing_id, pu_action = action, pu_note = note\<rparr>)
       (\<lambda>r. case r of Pairing_Update_Response updated pairing \<Rightarrow> Some (updated, pairing) | _ \<Rightarrow> None)) (\<lambda>(updated, pairing).
     emit_value x json_output (json_obj [(''updated'', JBool updated), (''pairing'', json_or_null_of pairing_json pairing)]))"

fun handle_pairing_command :: "outside \<Rightarrow> app_config \<Rightarrow> pairing_command \<Rightarrow> bool \<Rightarrow> unit cli" where
  "handle_pairing_command x config (Pairing_List status connector limit) json_output =
     andthen (connect_gateway x config) (\<lambda>_.
     andthen (ask x (List_Pairings status connector limit)
       (\<lambda>r. case r of Pairing_List_Response pairings \<Rightarrow> Some pairings | _ \<Rightarrow> None)) (\<lambda>pairings.
     emit_value x json_output (json_obj [(''pairings'', JArr (map pairing_json pairings))])))"
| "handle_pairing_command x config (Pairing_Approve pairing_id note) json_output =
     andthen (connect_gateway x config) (\<lambda>_. ask_pairing_update x json_output pairing_id ''approve'' note)"
| "handle_pairing_command x config (Pairing_Revoke pairing_id note) json_output =
     andthen (connect_gateway x config) (\<lambda>_. ask_pairing_update x json_output pairing_id ''revoke'' note)"

fun handle_session_command :: "outside \<Rightarrow> app_config \<Rightarrow> session_command \<Rightarrow> bool \<Rightarrow> unit cli" where
  "handle_session_command x config (Session_List connector status archived limit) json_output =
     andthen (connect_gateway x config) (\<lambda>_.
     andthen (ask x (List_Sessions connector status archived limit)
       (\<lambda>r. case r of Session_List_Response sessions summary \<Rightarrow> Some (sessions, summary) | _ \<Rightarrow> None)) (\<lambda>(sessions, summary).
     emit_value x json_output (json_obj [(''summary'', JStr summary), (''sessions'', JArr (map session_json sessions))])))"
| "handle_session_command x config (Session_Show session_id limit) json_output =
     andthen (connect_gateway x config) (\<lambda>_.
     andthen (ask x (Get_Session session_id limit)
       (\<lambda>r. case r of Session_Response session messages \<Rightarrow> Some (session, messages) | _ \<Rightarrow> None)) (\<lambda>(session, messages).
     emit_value x json_output (json_obj [(''session'', json_or_null_of session_json session),
       (''messages'', JArr (map session_message_json messages))])))"
| "handle_session_command x config (Session_Prune hours archive_only) json_output =
     andthen (connect_gateway x config) (\<lambda>_.
     andthen (ask x (Prune_Sessions hours archive_only)
       (\<lambda>r. case r of Session_Prune_Response pruned \<Rightarrow> Some pruned | _ \<Rightarrow> None)) (\<lambda>pruned.
     emit_value x json_output (json_obj [(''pruned'', num (unat pruned)), (''archive_only'', JBool archive_only)])))"

definition handle_model_command :: "outside \<Rightarrow> app_config \<Rightarrow> model_command \<Rightarrow> bool \<Rightarrow> unit cli" where
  "handle_model_command x config command json_output =
     andthen (connect_gateway x config) (\<lambda>_.
     andthen (ask x List_Model_Profiles (\<lambda>r. case r of Model_Profile_List_Response profiles \<Rightarrow> Some profiles | _ \<Rightarrow> None)) (\<lambda>profiles.
     case command of
       Model_Profile \<Rightarrow> emit_value x json_output (json_obj [(''profiles'', JArr (map model_profile_json profiles))])
     | Model_Failover \<Rightarrow> emit_value x json_output (json_obj
         [(''default_profile'', JStr (mf_default_profile (cfg_model_failover config))),
          (''fallback_profile'', JStr (mf_fallback_profile (cfg_model_failover config))),
          (''profiles'', JArr (map model_profile_json profiles))])))"

section \<open>The brain's commands\<close>

definition nl :: string where "nl = [CHR 0x0A]"

definition remembered_text :: "string \<Rightarrow> proto_entity option \<Rightarrow> proto_task option \<Rightarrow> string" where
  "remembered_text digest entity task = (case task of
       Some t \<Rightarrow> ''stored task '' @ ptk_summary t @ '' ['' @ ptk_status t @ '']''
     | None \<Rightarrow> (case entity of
         Some e \<Rightarrow> ''stored '' @ pen_kind e @ '' '' @ pen_title e
       | None \<Rightarrow> ''stored brain record '' @ digest))"

text \<open>A summary, and below it one line per entry when there is one.\<close>

definition with_lines :: "string \<Rightarrow> string list \<Rightarrow> string" where
  "with_lines summary lines = (if lines = [] then summary else summary @ nl @ join nl lines)"

definition cli_brain_task_update ::
  "outside \<Rightarrow> app_config \<Rightarrow> string \<Rightarrow> string \<Rightarrow> string \<Rightarrow> string \<Rightarrow> string \<Rightarrow> string \<Rightarrow> string \<Rightarrow> bool \<Rightarrow> unit cli" where
  "cli_brain_task_update x config task_id status priority due_at summary links source_ref json_output =
     andthen (connect_gateway x config) (\<lambda>_.
     andthen (ask x (Update_Brain_Task task_id status priority due_at summary links source_ref)
       (\<lambda>r. case r of Brain_Task_Update_Response updated task \<Rightarrow> Some (updated, task) | _ \<Rightarrow> None)) (\<lambda>(updated, task).
     case task of
       None \<Rightarrow> fail (Msg ''brain task update returned no task'')
     | Some t \<Rightarrow> emit x json_output (json_obj [(''updated'', JBool updated), (''task'', brain_task_json t)])
         (''updated task '' @ ptk_summary t @ '' ['' @ ptk_status t @ '']'')))"

definition cli_brain_forget :: "outside \<Rightarrow> app_config \<Rightarrow> brain_forget \<Rightarrow> bool \<Rightarrow> unit cli" where
  "cli_brain_forget x config req json_output =
     andthen (connect_gateway x config) (\<lambda>_.
     andthen (ask x (Forget_Brain req) (\<lambda>r. case r of Brain_Forget_Response res \<Rightarrow> Some res | _ \<Rightarrow> None)) (\<lambda>res.
     emit x json_output (json_obj [(''forgotten'', JBool (bfr_forgotten res)), (''mode'', JStr (bfr_mode res)),
         (''target_id'', JStr (bfr_target_id res))])
       (''forgotten '' @ bfr_target_id res @ '' via '' @ bfr_mode res)))"

fun handle_brain_command :: "outside \<Rightarrow> app_config \<Rightarrow> brain_command \<Rightarrow> bool \<Rightarrow> unit cli" where
  "handle_brain_command x config (Brain_Remember req) json_output =
     andthen (connect_gateway x config) (\<lambda>_.
     andthen (ask x (Remember_Brain req)
       (\<lambda>r. case r of Brain_Remember_Response stored entity task digest \<Rightarrow> Some (stored, entity, task, digest) | _ \<Rightarrow> None))
       (\<lambda>(stored, entity, task, digest).
     emit x json_output (json_obj [(''stored'', JBool stored), (''digest'', JStr digest),
       (''entity'', json_or_null_of brain_entity_json entity), (''task'', json_or_null_of brain_task_json task)])
       (remembered_text digest entity task)))"
| "handle_brain_command x config (Brain_Recall q) json_output =
     andthen (connect_gateway x config) (\<lambda>_.
     andthen (ask x (Recall_Brain q) (\<lambda>r. case r of
         Brain_Recall_Response summary entities facts relations tasks \<Rightarrow> Some (summary, entities, facts, relations, tasks)
       | _ \<Rightarrow> None)) (\<lambda>(summary, entities, facts, relations, tasks).
     emit x json_output (json_obj [(''summary'', JStr summary), (''entities'', JArr (map brain_entity_json entities)),
         (''facts'', JArr (map brain_fact_json facts)), (''relations'', JArr (map brain_relation_json relations)),
         (''tasks'', JArr (map brain_task_json tasks))])
       (summary @ nl @ ''entities: '' @ dec (length entities) @ nl @ ''facts: '' @ dec (length facts) @ nl @ ''relations: ''
         @ dec (length relations) @ nl @ ''tasks: '' @ dec (length tasks))))"
| "handle_brain_command x config (Brain_Suggest q) json_output =
     andthen (connect_gateway x config) (\<lambda>_.
     andthen (ask x (Suggest_Brain q)
       (\<lambda>r. case r of Brain_Suggest_Response summary suggestions \<Rightarrow> Some (summary, suggestions) | _ \<Rightarrow> None))
       (\<lambda>(summary, suggestions).
     emit x json_output (json_obj [(''summary'', JStr summary), (''suggestions'', JArr (map brain_suggestion_json suggestions))])
       (with_lines summary (map (\<lambda>s. ''- '' @ bs_summary s @ '' ('' @ bs_reason s @ '')'') suggestions))))"
| "handle_brain_command x config (Brain_Task_List scope statuses priorities due_before limit) json_output =
     andthen (connect_gateway x config) (\<lambda>_.
     andthen (ask x (List_Brain_Tasks scope statuses priorities due_before limit)
       (\<lambda>r. case r of Brain_Task_List_Response summary tasks \<Rightarrow> Some (summary, tasks) | _ \<Rightarrow> None)) (\<lambda>(summary, tasks).
     emit x json_output (json_obj [(''summary'', JStr summary), (''tasks'', JArr (map brain_task_json tasks))])
       (with_lines summary
         (map (\<lambda>t. ''- '' @ ptk_summary t @ '' ['' @ ptk_status t @ '' / '' @ ptk_priority t @ '']'') tasks))))"
| "handle_brain_command x config (Brain_Task_Update task_id status priority due_at summary links source_ref) json_output =
     cli_brain_task_update x config task_id status priority due_at summary links source_ref json_output"
| "handle_brain_command x config (Brain_Forget req) json_output = cli_brain_forget x config req json_output"

section \<open>Policy, audit, attestation, protocols\<close>

definition handle_policy_show :: "outside \<Rightarrow> app_config \<Rightarrow> string \<Rightarrow> string option \<Rightarrow> bool \<Rightarrow> unit cli" where
  "handle_policy_show x config subject capability json_output =
     andthen (connect_gateway x config) (\<lambda>_.
     andthen (ask x (Get_Policy_Report subject (case capability of None \<Rightarrow> [] | Some c \<Rightarrow> c))
       (\<lambda>r. case r of Policy_Report_Response report \<Rightarrow> Some report | _ \<Rightarrow> None)) (\<lambda>report.
     emit_value x json_output (json_obj [(''subject'', JStr (por_subject report)),
       (''allowed_capabilities'', strs_json (por_allowed_capabilities report)),
       (''denied_capabilities'', strs_json (por_denied_capabilities report)), (''source'', JStr (por_source report))])))"

definition handle_audit_export :: "outside \<Rightarrow> app_config \<Rightarrow> string \<Rightarrow> nat \<Rightarrow> bool \<Rightarrow> unit cli" where
  "handle_audit_export x config sink limit json_output =
     andthen (connect_gateway x config) (\<lambda>_.
     andthen (ask x (Export_Audit sink limit)
       (\<lambda>r. case r of Audit_Export_Response exported format events \<Rightarrow> Some (exported, format, events) | _ \<Rightarrow> None))
       (\<lambda>(exported, format, events).
     emit_value x json_output (json_obj [(''exported'', JBool exported), (''format'', JStr format),
       (''events'', JArr (map event_json events))])))"

definition handle_attest_command :: "outside \<Rightarrow> app_config \<Rightarrow> string \<Rightarrow> string \<Rightarrow> bool \<Rightarrow> bool \<Rightarrow> unit cli" where
  "handle_attest_command x config subject nonce include_hardware json_output =
     andthen (connect_gateway x config) (\<lambda>_.
     andthen (ask x (Attest_Session subject nonce include_hardware)
       (\<lambda>r. case r of Attestation_Response report \<Rightarrow> Some report | _ \<Rightarrow> None)) (\<lambda>report.
     emit_value x json_output (json_obj [(''status'', JStr (ar_status report)), (''subject'', JStr (ar_subject report)),
       (''platform'', JStr (ar_platform report)), (''hardware_backed'', JBool (ar_hardware_backed report)),
       (''nonce'', JStr (ar_nonce report)), (''public_key'', JStr (ar_public_key report)),
       (''measurements'', text_map (ar_measurements report))])))"

text \<open>\<open>str::splitn\<close>: at most \<open>n\<close> parts, the last one unsplit.\<close>

fun splitn :: "nat \<Rightarrow> char \<Rightarrow> string \<Rightarrow> string list" where
  "splitn 0 d s = []"
| "splitn (Suc 0) d s = [s]"
| "splitn (Suc (Suc n)) d s =
     (if d \<in> set s then takeWhile (\<lambda>c. c \<noteq> d) s # splitn (Suc n) d (tl (dropWhile (\<lambda>c. c \<noteq> d) s)) else [s])"

definition parse_agent_message :: "string \<Rightarrow> agent_message res" where
  "parse_agent_message raw = (case splitn 3 CHR '':'' raw of
       [sender, recipient, body] \<Rightarrow> Ok \<lparr>am_sender = sender, am_recipient = recipient, am_body = body,
         am_metadata_json = ''{}'', am_encrypted_body = []\<rparr>
     | _ \<Rightarrow> Err (Msg ''agent messages must use sender:recipient:body''))"

definition handle_agent_protocol :: "outside \<Rightarrow> app_config \<Rightarrow> string \<Rightarrow> string \<Rightarrow> string \<Rightarrow> string list \<Rightarrow> bool \<Rightarrow> unit cli" where
  "handle_agent_protocol x config protocol_id initiator policy_scope messages json_output =
     andthen (connect_gateway x config) (\<lambda>_.
     andthen (lift_res (traverse_res parse_agent_message messages)) (\<lambda>parsed.
     andthen (ask x (Run_Agent_Protocol protocol_id initiator parsed policy_scope)
       (\<lambda>r. case r of Agent_Protocol_Response res \<Rightarrow> Some res | _ \<Rightarrow> None)) (\<lambda>res.
     emit_value x json_output (json_obj [(''accepted'', JBool (prr_accepted res)), (''protocol_id'', JStr (prr_protocol_id res)),
       (''transcript_json'', JStr (prr_transcript_json res)), (''findings'', strs_json (prr_findings res))]))))"

definition handle_rbac_list :: "outside \<Rightarrow> app_config \<Rightarrow> bool \<Rightarrow> unit cli" where
  "handle_rbac_list x config json_output =
     (let bindings = JArr (map (\<lambda>(subject, roles). json_obj [(''subject'', JStr subject), (''roles'', strs_json roles)])
            (rb_role_bindings (cfg_rbac config)))
      in emit x json_output (json_obj [(''default_role'', JStr (rb_default_role (cfg_rbac config))), (''bindings'', bindings)])
           (E_json_pretty (x_env x) bindings))"

definition handle_operator_status :: "outside \<Rightarrow> app_config \<Rightarrow> bool \<Rightarrow> unit cli" where
  "handle_operator_status x config json_output =
     (let op = cfg_operator config in
      emit x json_output (json_obj [(''enabled'', JBool (op_enabled op)), (''namespace'', JStr (op_namespace op)),
          (''manifest_dir'', JStr ''deploy/operator/config'')])
        (''operator enabled='' @ bool_text (op_enabled op) @ '' namespace='' @ op_namespace op
          @ '' manifest_dir=deploy/operator/config''))"

section \<open>Connectors\<close>

definition connector_line :: "connector_info \<Rightarrow> string" where
  "connector_line c = ci_name c @ '' enabled='' @ bool_text (ci_enabled c) @ '' implemented='' @ bool_text (ci_implemented c)
     @ '' mode='' @ ci_mode c @ '' health='' @ ci_health c"

definition no_connector :: connector_info where
  "no_connector = \<lparr>ci_name = [], ci_enabled = False, ci_implemented = False, ci_mode = [], ci_health = [],
     ci_allowlist = [], ci_details = []\<rparr>"

fun handle_connector_command :: "outside \<Rightarrow> app_config \<Rightarrow> connector_command \<Rightarrow> bool \<Rightarrow> unit cli" where
  "handle_connector_command x config Connector_List json_output =
     andthen (connect_gateway x config) (\<lambda>_.
     andthen (call_gateway x List_Connectors (\<lambda>r. case r of Connector_List_Reply cs \<Rightarrow> Some cs | _ \<Rightarrow> None)) (\<lambda>cs.
     emit x json_output (json_obj [(''connectors'', JArr (map connector_json cs))]) (join nl (map connector_line cs))))"
| "handle_connector_command x config (Connector_Status name) json_output =
     andthen (connect_gateway x config) (\<lambda>_.
     andthen (call_gateway x (Get_Connector_Status name)
       (\<lambda>r. case r of Connector_Status_Reply c \<Rightarrow> Some c | _ \<Rightarrow> None)) (\<lambda>c.
     emit x json_output (json_obj [(''connector'', json_or_null_of connector_json c)])
       (connector_line (case c of None \<Rightarrow> no_connector | Some c' \<Rightarrow> c'))))"

section \<open>The configuration file\<close>

text \<open>\<open>AppConfig::load_or_init\<close> and \<open>AppConfig::write\<close> on the machine's files.\<close>

definition write_config :: "outside \<Rightarrow> openpinch_paths \<Rightarrow> app_config \<Rightarrow> unit cli" where
  "write_config x paths config = (case x_toml_write x config of
       None \<Rightarrow> fail (Msg ''failed to serialize config'')
     | Some raw \<Rightarrow> on_machine (write_file (pa_config_file paths) raw))"

definition read_config_file :: "openpinch_paths \<Rightarrow> string option cli" where
  "read_config_file paths =
     andthen (on_machine (path_exists (pa_config_file paths))) (\<lambda>exists.
     if exists then andthen (on_machine (read_text (pa_config_file paths))) (\<lambda>raw. ret (Some raw)) else ret None)"

definition load_config :: "outside \<Rightarrow> openpinch_paths \<Rightarrow> app_config cli" where
  "load_config x paths =
     andthen (read_config_file paths) (\<lambda>src.
     andthen (lift_res (load_or_init (x_toml_config x) (x_toml_legacy x) src)) (\<lambda>(config, written).
     andthen (case written of None \<Rightarrow> ret () | Some c \<Rightarrow> write_config x paths c) (\<lambda>_.
     ret config)))"

fun handle_config_command :: "outside \<Rightarrow> app_config \<Rightarrow> openpinch_paths \<Rightarrow> config_command \<Rightarrow> bool \<Rightarrow> unit cli" where
  "handle_config_command x config paths Config_Init json_output =
     andthen (write_config x paths config) (\<lambda>_.
     emit x json_output (json_obj [(''initialized'', JStr (pa_config_file paths))]) (''initialized '' @ pa_config_file paths))"
| "handle_config_command x config paths Config_Show json_output =
     andthen (on_machine (read_text (pa_config_file paths))) (\<lambda>raw.
     if json_output then
       andthen (lift_res (of_option (Msg ''failed to parse config'') (x_toml_json x raw))) (\<lambda>v. emit x True v [])
     else println raw)"
| "handle_config_command x config paths (Config_Set key v) json_output =
     andthen (lift_res (case config_set key v config of (r, config') \<Rightarrow> map_res (\<lambda>_. config') r)) (\<lambda>config'.
     andthen (write_config x paths config') (\<lambda>_.
     emit x json_output (json_obj [(''updated'', JStr key), (''value'', JStr v)]) (''updated '' @ key)))"

section \<open>Skills\<close>

definition skill_line :: "skill_info \<Rightarrow> string" where
  "skill_line s = si_id s @ '' '' @ si_version s @ '' ['' @ si_language s @ ''] installed='' @ bool_text (si_installed s)
     @ '' verified='' @ bool_text (si_verified s)"

definition cli_skills :: "app_config \<Rightarrow> openpinch_paths \<Rightarrow> skill_manager" where
  "cli_skills config paths = \<lparr>skl_config = cfg_skills config, skl_paths = paths\<rparr>"

fun handle_skill_command :: "outside \<Rightarrow> app_config \<Rightarrow> openpinch_paths \<Rightarrow> cli_skill_command \<Rightarrow> bool \<Rightarrow> unit cli" where
  "handle_skill_command x config paths Skill_List json_output =
     andthen (on_machine (list_skills (x_env x) (cli_skills config paths))) (\<lambda>(skills, registry_version).
     emit x json_output
       (json_obj [(''registry'', JStr registry_version), (''skills'', JArr (map skill_json skills))])
       (join nl ((''registry: '' @ registry_version) # map skill_line skills)))"
| "handle_skill_command x config paths (Skill_Install source force) json_output =
     andthen (on_machine (install_skill (x_env x) (cli_skills config paths) source force)) (\<lambda>skill.
     emit x json_output (json_obj [(''installed'', JBool True), (''skill'', skill_json skill)])
       (''installed '' @ si_id skill @ ''@'' @ si_version skill))"
| "handle_skill_command x config paths (Skill_Verify source) json_output =
     andthen (on_machine (verify_skill (x_env x) (cli_skills config paths) source)) (\<lambda>manifest.
     emit x json_output (manifest_json manifest)
       (''verified '' @ skm_id manifest @ ''@'' @ skm_version manifest @ '' ('' @ skm_entrypoint manifest @ '')''))"

section \<open>Logs\<close>

text \<open>
  \<open>BufReader::lines\<close>: the text between line feeds, without a carriage return before one; a last
  line without a line feed counts when it is not empty.
\<close>

definition without_cr :: "string \<Rightarrow> string" where
  "without_cr line = (if line \<noteq> [] \<and> last line = CHR 0x0D then butlast line else line)"

definition log_lines :: "string \<Rightarrow> string list" where
  "log_lines s = (let parts = split_on CHR 0x0A s in
     map without_cr (butlast parts) @ (if last parts = [] then [] else [last parts]))"

text \<open>The last lines of the file, by pushing each line and removing the first when there are too many.\<close>

definition push_line :: "nat \<Rightarrow> string list \<Rightarrow> string \<Rightarrow> string list" where
  "push_line tail buffer line = (let b = buffer @ [line] in if tail < length b then tl b else b)"

definition last_lines :: "nat \<Rightarrow> string list \<Rightarrow> string list" where
  "last_lines tail ls = fold (\<lambda>line buffer. push_line tail buffer line) ls []"

definition show_logs :: "outside \<Rightarrow> openpinch_paths \<Rightarrow> nat \<Rightarrow> bool \<Rightarrow> string list cli" where
  "show_logs x paths tail json_output =
     andthen (on_machine (read_file (pa_log_file paths))) (\<lambda>bytes. case bytes of
       None \<Rightarrow> fail (Msg (''failed to open '' @ pa_log_file paths))
     | Some raw \<Rightarrow>
         andthen (lift_res (of_option (Msg ''stream did not contain valid UTF-8'') (from_utf8 raw))) (\<lambda>text.
         let buffer = last_lines tail (log_lines text) in
         andthen (if json_output then emit x True (json_obj [(''lines'', strs_json buffer)]) []
                  else for_each println buffer) (\<lambda>_.
         ret buffer)))"

text \<open>
  \<open>--follow\<close>: one round of the endless loop, with the file as it is then; the buffer becomes the
  whole file, once it is longer than the buffer.
\<close>

definition follow_round :: "openpinch_paths \<Rightarrow> string list \<Rightarrow> string list cli" where
  "follow_round paths buffer =
     andthen (on_machine (read_file (pa_log_file paths))) (\<lambda>bytes. case bytes of
       None \<Rightarrow> fail (Msg ''No such file or directory (os error 2)'')
     | Some raw \<Rightarrow>
         andthen (lift_res (of_option (Msg ''stream did not contain valid UTF-8'') (from_utf8 raw))) (\<lambda>text.
         let latest = log_lines text in
         if length buffer < length latest
         then andthen (for_each println (drop (length buffer) latest)) (\<lambda>_. ret latest)
         else ret buffer))"

section \<open>Tools, status, doctor\<close>

definition emit_execute_response :: "outside \<Rightarrow> string \<Rightarrow> string \<Rightarrow> string \<Rightarrow> bool \<Rightarrow> bool \<Rightarrow> unit cli" where
  "emit_execute_response x summary data_json error_message success json_output =
     (if json_output then
        emit x True (json_obj [(''success'', JBool success), (''summary'', JStr summary), (''data_json'', JStr data_json),
          (''error'', JStr error_message)]) []
      else if success then
        andthen (println (''success: '' @ summary)) (\<lambda>_. if data_json \<noteq> [] then println data_json else ret ())
      else
        andthen (println (''error: '' @ summary)) (\<lambda>_. if error_message \<noteq> [] then println error_message else ret ()))"

definition emit_outcome :: "outside \<Rightarrow> tool_outcome \<Rightarrow> bool \<Rightarrow> unit cli" where
  "emit_outcome x outcome json_output =
     emit_execute_response x (to_summary outcome) (to_data_json outcome) (to_error outcome) (to_success outcome) json_output"

text \<open>Without a gateway the engine is started in the command's own process.\<close>

definition cli_execute_command ::
  "outside \<Rightarrow> app_config \<Rightarrow> openpinch_paths \<Rightarrow> string \<Rightarrow> string \<Rightarrow> bool \<Rightarrow> string \<Rightarrow> bool \<Rightarrow> unit cli" where
  "cli_execute_command x config paths target args allow_network priority json_output =
     andthen (connect x (gateway_address config)) (\<lambda>up.
     if up then
       andthen (in_context ''gateway execute failed'' (call_gateway x (Execute target args allow_network priority)
         (\<lambda>r. case r of Engine_Reply (Execute_Response outcome) \<Rightarrow> Some outcome | _ \<Rightarrow> None))) (\<lambda>outcome.
       emit_outcome x outcome json_output)
     else
       andthen (on_machine (bootstrap (x_env x) config paths)) (\<lambda>en.
       andthen (on_machine (engine_execute_tool (x_env x) en \<lparr>tc_target = target, tc_arguments_json = args,
         tc_allow_network = allow_network, tc_priority = parse_priority priority\<rparr>)) (\<lambda>outcome.
       emit_outcome x outcome json_output)))"

definition status_value :: "runtime_status \<Rightarrow> json" where
  "status_value s = json_obj [(''status'', JStr (rs_status s)), (''version'', JStr (rs_version s)),
     (''runtime'', JStr (rs_runtime_endpoint s)), (''gateway'', JStr (rs_gateway_endpoint s)),
     (''connectors'', strs_json (rs_enabled_connectors s)), (''models'', strs_json (rs_available_model_backends s)),
     (''vector_memory_backend'', JStr (rs_vector_memory_backend s)), (''encryption_state'', JStr (rs_encryption_state s)),
     (''audit_mode'', JStr (rs_audit_mode s)), (''attestation_state'', JStr (rs_attestation_state s)),
     (''logs'', JStr (rs_log_file s))]"

definition status_text :: "runtime_status \<Rightarrow> string" where
  "status_text s = join nl [''status: '' @ rs_status s, ''version: '' @ rs_version s, ''runtime: '' @ rs_runtime_endpoint s,
     ''gateway: '' @ rs_gateway_endpoint s, ''connectors: '' @ join '', '' (rs_enabled_connectors s),
     ''models: '' @ join '', '' (rs_available_model_backends s), ''vector memory: '' @ rs_vector_memory_backend s,
     ''encryption: '' @ rs_encryption_state s, ''audit: '' @ rs_audit_mode s, ''attestation: '' @ rs_attestation_state s,
     ''logs: '' @ rs_log_file s]"

definition cached_value :: "runtime_status \<Rightarrow> json" where
  "cached_value s = json_obj [(''status'', JStr ''gateway unavailable''), (''runtime'', JStr (rs_runtime_endpoint s)),
     (''gateway'', JStr (rs_gateway_endpoint s)), (''log_file'', JStr (rs_log_file s)),
     (''vector_memory_backend'', JStr (rs_vector_memory_backend s)), (''encryption_state'', JStr (rs_encryption_state s)),
     (''audit_mode'', JStr (rs_audit_mode s))]"

definition cached_text :: "runtime_status \<Rightarrow> string" where
  "cached_text s = join nl [''status: gateway unavailable'', ''last known runtime: '' @ rs_runtime_endpoint s,
     ''last known gateway: '' @ rs_gateway_endpoint s, ''log file: '' @ rs_log_file s]"

definition show_status :: "outside \<Rightarrow> app_config \<Rightarrow> openpinch_paths \<Rightarrow> bool \<Rightarrow> unit cli" where
  "show_status x config paths json_output =
     andthen (attempt (fetch_gateway_status x (g_listen_address (cfg_gateway config)))) (\<lambda>r. case r of
       Inr s \<Rightarrow> emit x json_output (status_value s) (status_text s)
     | Inl _ \<Rightarrow>
         andthen (in_context ''gateway is unavailable and no cached runtime state was found''
           (on_machine (load_runtime_status (x_env x) paths))) (\<lambda>cached.
         emit x json_output (cached_value cached) (cached_text cached)))"

definition doctor_value :: "outside \<Rightarrow> app_config \<Rightarrow> openpinch_paths \<Rightarrow> json cli" where
  "doctor_value x config paths =
     andthen (connect x (gateway_address config)) (\<lambda>up.
     if up then
       andthen (ask x (Get_Doctor_Report True True True True)
         (\<lambda>r. case r of Doctor_Report_Response report \<Rightarrow> Some report | _ \<Rightarrow> None)) (\<lambda>report. ret (doctor_json report))
     else
       andthen (on_machine (bootstrap (x_env x) config paths)) (\<lambda>en.
       ret (doctor_json (engine_doctor (x_host x) en True True True))))"

definition handle_doctor_command :: "outside \<Rightarrow> app_config \<Rightarrow> openpinch_paths \<Rightarrow> bool \<Rightarrow> unit cli" where
  "handle_doctor_command x config paths json_output =
     andthen (doctor_value x config paths) (\<lambda>v. emit_value x json_output v)"

definition handle_onboard_command :: "outside \<Rightarrow> app_config \<Rightarrow> openpinch_paths \<Rightarrow> bool \<Rightarrow> unit cli" where
  "handle_onboard_command x config paths json_output =
     andthen (doctor_value x config paths) (\<lambda>doctor.
     emit_value x json_output (json_obj [(''config'', JStr (pa_config_file paths)),
       (''gateway_grpc'', JStr (g_listen_address (cfg_gateway config))),
       (''gateway_local_http'', JStr (gl_listen_address (g_local_http (cfg_gateway config)))),
       (''desktop_profile'', JStr (dc_profile_name (cfg_desktop config))), (''doctor'', doctor),
       (''next_steps'', strs_json [''openpinch desktop host'', ''openpinch doctor'', ''openpinch desktop health''])]))"

section \<open>Starting the runtime\<close>

definition gateway_command :: "outside \<Rightarrow> app_config \<Rightarrow> openpinch_paths \<Rightarrow> string \<Rightarrow> bool \<Rightarrow> string \<Rightarrow> spawn_command" where
  "gateway_command x config paths engine_endpoint binary_exists cwd =
     (let env = [(''OPENPINCH_CONFIG_PATH'', pa_config_file paths), (''OPENPINCH_ENGINE_ENDPOINT'', engine_endpoint),
            (''OPENPINCH_GATEWAY_LISTEN_ADDRESS'', g_listen_address (cfg_gateway config)),
            (''GOCACHE'', path_join cwd ''.cache/go-build''), (''GOMODCACHE'', path_join cwd ''.cache/go-mod'')]
      in if binary_exists
         then \<lparr>sp_program = g_binary (cfg_gateway config), sp_args = [], sp_current_dir = None, sp_env = env\<rparr>
         else \<lparr>sp_program = ''go'', sp_args = [''run'', ''./cmd/gateway''], sp_current_dir = Some ''gateway'', sp_env = env\<rparr>)"

definition spawn_gateway :: "outside \<Rightarrow> app_config \<Rightarrow> openpinch_paths \<Rightarrow> string \<Rightarrow> unit cli" where
  "spawn_gateway x config paths engine_endpoint =
     andthen (on_machine (path_exists (g_binary (cfg_gateway config)))) (\<lambda>binary_exists.
     andthen (lift_res (of_option (Msg ''No such file or directory (os error 2)'') (E_cwd (x_env x)))) (\<lambda>cwd.
     let command = gateway_command x config paths engine_endpoint binary_exists cwd in
     if x_spawn x command then (\<lambda>t. (Ok (), t\<lparr>tm_spawned := tm_spawned t @ [command], tm_gateway := True\<rparr>))
     else fail (Msg ''failed to start gateway process'')))"

definition boot_runtime_sidecars :: "outside \<Rightarrow> app_config \<Rightarrow> openpinch_paths \<Rightarrow> string cli" where
  "boot_runtime_sidecars x config paths =
     (let listen = g_listen_address (cfg_gateway config) in
      andthen (on_machine (bootstrap (x_env x) config paths)) (\<lambda>en.
      andthen (start_private_rpc x paths) (\<lambda>endpoint.
      andthen (on_machine (write_runtime_state (x_env x) en listen endpoint)) (\<lambda>_.
      andthen (spawn_gateway x config paths endpoint) (\<lambda>_.
      andthen (wait_for_gateway x listen 5000) (\<lambda>_.
      ret endpoint))))))"

text \<open>The gateway is killed and awaited, then the engine's server is shut down.\<close>

definition shutdown_runtime_sidecars :: "openpinch_paths \<Rightarrow> unit cli" where
  "shutdown_runtime_sidecars paths = andthen (\<lambda>t. (Ok (), t\<lparr>tm_gateway := False\<rparr>)) (\<lambda>_. shutdown_handle paths)"

text \<open>\<open>start\<close> stays until Ctrl+C, whether it is asked to run in the foreground or not.\<close>

definition start_runtime :: "outside \<Rightarrow> app_config \<Rightarrow> openpinch_paths \<Rightarrow> bool \<Rightarrow> bool \<Rightarrow> unit cli" where
  "start_runtime x config paths foreground json_output =
     andthen (boot_runtime_sidecars x config paths) (\<lambda>endpoint.
     andthen (if foreground then ret () else
       emit x json_output (json_obj [(''status'', JStr ''started''), (''gateway'', JStr (g_listen_address (cfg_gateway config))),
           (''runtime'', JStr endpoint), (''log_file'', JStr (pa_log_file paths))])
         (''OpenPinch started. Gateway: '' @ g_listen_address (cfg_gateway config) @ ''. Logs: '' @ pa_log_file paths)) (\<lambda>_.
     shutdown_runtime_sidecars paths))"

section \<open>A run of the command line\<close>

text \<open>\<open>logs\<close> is without \<open>--follow\<close>, which never returns; the desktop host's commands have their own theory.\<close>

fun run_command :: "outside \<Rightarrow> app_config \<Rightarrow> openpinch_paths \<Rightarrow> command \<Rightarrow> bool \<Rightarrow> unit cli" where
  "run_command x config paths (Start foreground) json = start_runtime x config paths foreground json"
| "run_command x config paths (Execute_Tool target args network priority) json =
     cli_execute_command x config paths target args network priority json"
| "run_command x config paths Show_Status json = show_status x config paths json"
| "run_command x config paths Onboard json = handle_onboard_command x config paths json"
| "run_command x config paths Doctor json = handle_doctor_command x config paths json"
| "run_command x config paths (Skill_Command c) json = handle_skill_command x config paths c json"
| "run_command x config paths (Config_Command c) json = handle_config_command x config paths c json"
| "run_command x config paths (Logs tail) json = andthen (show_logs x paths tail json) (\<lambda>_. ret ())"
| "run_command x config paths (Connector_Command c) json = handle_connector_command x config c json"
| "run_command x config paths (Memory_Command c) json = handle_memory_command x config c json"
| "run_command x config paths (Message_Command c) json = handle_message_command x config c json"
| "run_command x config paths (Pairing_Command c) json = handle_pairing_command x config c json"
| "run_command x config paths (Session_Command c) json = handle_session_command x config c json"
| "run_command x config paths (Model_Command c) json = handle_model_command x config c json"
| "run_command x config paths (Brain_Command c) json = handle_brain_command x config c json"
| "run_command x config paths (Policy_Show subject capability) json = handle_policy_show x config subject capability json"
| "run_command x config paths (Audit_Export sink limit) json = handle_audit_export x config sink limit json"
| "run_command x config paths (Attest subject nonce hardware) json = handle_attest_command x config subject nonce hardware json"
| "run_command x config paths (Agent_Protocol protocol_id initiator scope messages) json =
     handle_agent_protocol x config protocol_id initiator scope messages json"
| "run_command x config paths Rbac_List json = handle_rbac_list x config json"
| "run_command x config paths Operator_Status json = handle_operator_status x config json"

definition run_cli :: "outside \<Rightarrow> project_dirs option \<Rightarrow> command \<Rightarrow> bool \<Rightarrow> unit cli" where
  "run_cli x project command json =
     andthen (lift_res (discover project)) (\<lambda>paths.
     andthen (load_config x paths) (\<lambda>config.
     run_command x config paths command json))"

end
