(* ===== verification/Desktop_Host.thy ===== *)
theory Desktop_Host
  imports Cli
begin

text \<open>
  The desktop host (\<open>cli/src/main.rs\<close>): a process that runs the engine and the gateway until it is
  interrupted, asked to stop by a file, or finds the gateway dead; and the commands that look at it
  and stop it through the files it shares with them.
\<close>

section \<open>The shared files\<close>

record desktop_host_state =
  dh_status :: string
  dh_host_pid :: nat
  dh_gateway_endpoint :: string
  dh_runtime_endpoint :: string
  dh_log_file :: string
  dh_started_at :: string

definition desktop_host_state_file :: "openpinch_paths \<Rightarrow> string" where
  "desktop_host_state_file paths = path_join (pa_runtime_dir paths) ''desktop-host.json''"

definition desktop_shutdown_file :: "openpinch_paths \<Rightarrow> string" where
  "desktop_shutdown_file paths = path_join (pa_runtime_dir paths) ''desktop-host.shutdown''"

text \<open>\<open>to_vec_pretty\<close> writes the fields in their order, \<open>from_slice\<close> needs all of them; a \<open>u32\<close> is in range.\<close>

definition host_state_json :: "desktop_host_state \<Rightarrow> json" where
  "host_state_json s = JObj [(''status'', JStr (dh_status s)), (''host_pid'', num (dh_host_pid s)),
     (''gateway_endpoint'', JStr (dh_gateway_endpoint s)), (''runtime_endpoint'', JStr (dh_runtime_endpoint s)),
     (''log_file'', JStr (dh_log_file s)), (''started_at'', JStr (dh_started_at s))]"

definition json_get_u32 :: "json \<Rightarrow> string \<Rightarrow> nat option" where
  "json_get_u32 v k = (case json_get_i64 v k of
       Some n \<Rightarrow> (if 0 \<le> n \<and> n < 2 ^ 32 then Some (nat n) else None)
     | None \<Rightarrow> None)"

definition host_state_of_json :: "json \<Rightarrow> desktop_host_state option" where
  "host_state_of_json v =
     Option.bind (json_get_str v ''status'') (\<lambda>status.
     Option.bind (json_get_u32 v ''host_pid'') (\<lambda>pid.
     Option.bind (json_get_str v ''gateway_endpoint'') (\<lambda>gateway.
     Option.bind (json_get_str v ''runtime_endpoint'') (\<lambda>runtime.
     Option.bind (json_get_str v ''log_file'') (\<lambda>log_file.
     Option.bind (json_get_str v ''started_at'') (\<lambda>started.
     Some \<lparr>dh_status = status, dh_host_pid = pid, dh_gateway_endpoint = gateway, dh_runtime_endpoint = runtime,
       dh_log_file = log_file, dh_started_at = started\<rparr>))))))"

text \<open>A process id is a \<open>u32\<close>.\<close>

interpretation host_file: json_file host_state_json host_state_of_json "\<lambda>s. dh_host_pid s < 2 ^ 32"
  by unfold_locales (simp add: host_state_of_json_def host_state_json_def json_get_str_def json_get_u32_def json_get_i64_def
      json_get_def bt_get_def num_def)

definition load_desktop_host_state :: "env \<Rightarrow> openpinch_paths \<Rightarrow> desktop_host_state io" where
  "load_desktop_host_state E paths =
     andthen (read_file (desktop_host_state_file paths)) (\<lambda>bytes. case bytes of
       None \<Rightarrow> fail (Msg ''failed to read desktop host state'')
     | Some raw \<Rightarrow> lift_res (decode_bytes E ''failed to parse desktop host state'' host_state_of_json raw))"

definition write_desktop_host_state :: "env \<Rightarrow> openpinch_paths \<Rightarrow> desktop_host_state \<Rightarrow> unit io" where
  "write_desktop_host_state E paths s = write_file (desktop_host_state_file paths) (E_json_pretty E (host_state_json s))"

text \<open>A host is healthy when its gateway answers within half a second; the file of another is removed.\<close>

definition healthy_desktop_host :: "outside \<Rightarrow> openpinch_paths \<Rightarrow> desktop_host_state option cli" where
  "healthy_desktop_host x paths =
     andthen (attempt (on_machine (load_desktop_host_state (x_env x) paths))) (\<lambda>r. case r of
       Inl _ \<Rightarrow> ret None
     | Inr s \<Rightarrow>
         andthen (attempt (wait_for_gateway x (dh_gateway_endpoint s) 500)) (\<lambda>healthy. case healthy of
           Inr _ \<Rightarrow> ret (Some s)
         | Inl _ \<Rightarrow> andthen (on_machine (remove_file (desktop_host_state_file paths))) (\<lambda>_. ret None)))"

section \<open>Health and shutdown\<close>

definition host_value :: "string \<Rightarrow> (string \<times> json) list \<Rightarrow> desktop_host_state \<Rightarrow> json" where
  "host_value status extra s = json_obj ([(''status'', JStr status), (''host'', json_obj
     [(''status'', JStr (dh_status s)), (''host_pid'', num (dh_host_pid s)), (''gateway_endpoint'', JStr (dh_gateway_endpoint s)),
      (''runtime_endpoint'', JStr (dh_runtime_endpoint s)), (''log_file'', JStr (dh_log_file s)),
      (''started_at'', JStr (dh_started_at s))])] @ extra)"

definition show_desktop_health :: "outside \<Rightarrow> openpinch_paths \<Rightarrow> bool \<Rightarrow> unit cli" where
  "show_desktop_health x paths json_output =
     andthen (attempt (on_machine (load_desktop_host_state (x_env x) paths))) (\<lambda>r. case r of
       Inl _ \<Rightarrow> emit x json_output (json_obj [(''status'', JStr ''not_running''), (''healthy'', JBool False)])
         ''Desktop host is not running''
     | Inr s \<Rightarrow>
         andthen (attempt (wait_for_gateway x (dh_gateway_endpoint s) 500)) (\<lambda>r.
         let healthy = (case r of Inl _ \<Rightarrow> False | Inr _ \<Rightarrow> True) in
         emit x json_output (host_value (if healthy then ''running'' else ''stale'') [(''healthy'', JBool healthy)] s)
           (if healthy then ''Desktop host running on '' @ dh_gateway_endpoint s
            else ''Desktop host state exists but gateway is unavailable at '' @ dh_gateway_endpoint s)))"

text \<open>The wait for the host to go: twenty looks at its file at most; what they find has no effect.\<close>

fun await_removal :: "nat \<Rightarrow> string \<Rightarrow> unit cli" where
  "await_removal 0 p = ret ()"
| "await_removal (Suc n) p = andthen (on_machine (path_exists p)) (\<lambda>there. if there then await_removal n p else ret ())"

definition shutdown_desktop_host :: "outside \<Rightarrow> openpinch_paths \<Rightarrow> bool \<Rightarrow> unit cli" where
  "shutdown_desktop_host x paths json_output =
     andthen (in_context ''desktop host is not running'' (on_machine (load_desktop_host_state (x_env x) paths))) (\<lambda>s.
     andthen (on_machine (write_file (desktop_shutdown_file paths) ''shutdown'')) (\<lambda>_.
     andthen (await_removal 20 (desktop_host_state_file paths)) (\<lambda>_.
     emit x json_output (json_obj [(''status'', JStr ''shutdown_requested''), (''gateway'', JStr (dh_gateway_endpoint s))])
       (''Desktop host shutdown requested for '' @ dh_gateway_endpoint s))))"

section \<open>The host process\<close>

text \<open>
  A host that starts: either another one is running, or it boots the runtime, writes its state and
  watches. \<open>Host_Done\<close> is the result the process ends with.
\<close>

datatype host_phase = Watching desktop_host_state | Host_Done "unit res"

definition remove_host_files :: "openpinch_paths \<Rightarrow> unit cli" where
  "remove_host_files paths =
     andthen (on_machine (remove_file (desktop_shutdown_file paths))) (\<lambda>_.
     on_machine (remove_file (desktop_host_state_file paths)))"

text \<open>Seconds of the Unix time, zero before 1970.\<close>

definition now_unix_timestamp :: "outside \<Rightarrow> string" where
  "now_unix_timestamp x = dec (x_unix_time x)"

definition running_state :: "outside \<Rightarrow> app_config \<Rightarrow> openpinch_paths \<Rightarrow> string \<Rightarrow> desktop_host_state" where
  "running_state x config paths endpoint = \<lparr>dh_status = ''running'', dh_host_pid = x_pid x,
     dh_gateway_endpoint = g_listen_address (cfg_gateway config), dh_runtime_endpoint = endpoint,
     dh_log_file = pa_log_file paths, dh_started_at = now_unix_timestamp x\<rparr>"

definition start_desktop_host :: "outside \<Rightarrow> app_config \<Rightarrow> openpinch_paths \<Rightarrow> bool \<Rightarrow> host_phase cli" where
  "start_desktop_host x config paths json_output =
     andthen (healthy_desktop_host x paths) (\<lambda>running. case running of
       Some s \<Rightarrow>
         andthen (emit x json_output (host_value ''already_running'' [] s)
           (''Desktop host already running on '' @ dh_gateway_endpoint s)) (\<lambda>_.
         ret (Host_Done (Ok ())))
     | None \<Rightarrow>
         andthen (remove_host_files paths) (\<lambda>_.
         andthen (boot_runtime_sidecars x config paths) (\<lambda>endpoint.
         let s = running_state x config paths endpoint in
         andthen (on_machine (write_desktop_host_state (x_env x) paths s)) (\<lambda>_.
         andthen (emit x json_output (host_value ''running'' [] s)
           (''Desktop host started. Gateway: '' @ g_listen_address (cfg_gateway config))) (\<lambda>_.
         ret (Watching s))))))"

text \<open>The three commands; of the first, the start of the host.\<close>

datatype desktop_command = Desktop_Host_Run | Desktop_Health | Desktop_Shutdown

definition handle_desktop_command ::
  "outside \<Rightarrow> app_config \<Rightarrow> openpinch_paths \<Rightarrow> desktop_command \<Rightarrow> bool \<Rightarrow> host_phase cli" where
  "handle_desktop_command x config paths command json_output = (case command of
       Desktop_Host_Run \<Rightarrow> start_desktop_host x config paths json_output
     | Desktop_Health \<Rightarrow> andthen (show_desktop_health x paths json_output) (\<lambda>_. ret (Host_Done (Ok ())))
     | Desktop_Shutdown \<Rightarrow> andthen (shutdown_desktop_host x paths json_output) (\<lambda>_. ret (Host_Done (Ok ()))))"

definition close_host :: "openpinch_paths \<Rightarrow> unit cli" where
  "close_host paths = andthen (remove_host_files paths) (\<lambda>_. shutdown_runtime_sidecars paths)"

definition gateway_exited :: "desktop_host_state \<Rightarrow> desktop_host_state" where
  "gateway_exited s = s\<lparr>dh_status := ''gateway_exited''\<rparr>"

text \<open>
  A system is the machine and the host's phase. The host's own steps are a signal and the tick of its
  timer; besides, the gateway may die, and other processes may ask the host to stop, look at it, or find it
  when they are asked to host themselves. \<open>status\<close> is the exit status of the gateway. The system gives
  the signal and tells the status without error.
\<close>

definition host_tick :: "outside \<Rightarrow> openpinch_paths \<Rightarrow> string \<Rightarrow> desktop_host_state \<Rightarrow> terminal \<Rightarrow> terminal \<times> host_phase" where
  "host_tick x paths status s t =
     (if w_files (tm_world t) (desktop_shutdown_file paths) \<noteq> None
      then (let (r, t') = close_host paths t in (t', Host_Done r))
      else if \<not> tm_gateway t
      then (let (_, t') = on_machine (write_desktop_host_state (x_env x) paths (gateway_exited s)) t
            in (t', Host_Done (Err (Msg (''gateway exited with status '' @ status)))))
      else (t, Watching s))"

inductive host_step :: "outside \<Rightarrow> openpinch_paths \<Rightarrow> terminal \<times> host_phase \<Rightarrow> terminal \<times> host_phase \<Rightarrow> bool"
  for x paths where
  Signal: "close_host paths t = (r, t') \<Longrightarrow> host_step x paths (t, Watching s) (t', Host_Done r)"
| Tick: "host_tick x paths status s t = c \<Longrightarrow> host_step x paths (t, Watching s) c"
| Gateway_Exit: "tm_gateway t \<Longrightarrow> host_step x paths (t, p) (t\<lparr>tm_gateway := False\<rparr>, p)"
| Shutdown_Request: "shutdown_desktop_host x paths json_output t = (r, t') \<Longrightarrow> host_step x paths (t, p) (t', p)"
| Health_Request: "show_desktop_health x paths json_output t = (r, t') \<Longrightarrow> host_step x paths (t, p) (t', p)"
| Second_Host: "start_desktop_host x config paths json_output t = (Ok (Host_Done r), t') \<Longrightarrow> host_step x paths (t, p) (t', p)"

inductive_cases host_stepE: "host_step x paths c c'"

end
