(* ===== verification/Cli_Facts.thy ===== *)
theory Cli_Facts
  imports Desktop_Host Rpc_Facts
begin

text \<open>
  What the command line guarantees: the wait on the gateway is bounded, the log's tail is the end of the
  file, and agent messages are taken apart as they are written.
\<close>

section \<open>Running an action of the terminal\<close>

lemma terminal_runs [run_simps]:
  "println line t = (Ok (), t\<lparr>tm_out := tm_out t @ [line]\<rparr>)"
  "connect x endpoint t = (Ok (x_connects x (tm_connects t) endpoint), t\<lparr>tm_connects := Suc (tm_connects t)\<rparr>)"
  "remove_file p w = (Ok (), w\<lparr>w_files := (w_files w)(p := None)\<rparr>)"
  by (simp_all add: println_def connect_def remove_file_def)

lemma on_machine_run [run_simps]: "m (tm_world t) = (r, w) \<Longrightarrow> on_machine m t = (r, t\<lparr>tm_world := w\<rparr>)"
  by (simp add: on_machine_def)

lemma println_all: "for_each println ls t = (Ok (), t\<lparr>tm_out := tm_out t @ ls\<rparr>)"
  by (induction ls arbitrary: t) (simp_all add: run_simps)

text \<open>An action that prints and always succeeds.\<close>

definition prints :: "unit cli \<Rightarrow> bool" where
  "prints m \<longleftrightarrow> (\<forall>t. \<exists>out. m t = (Ok (), t\<lparr>tm_out := out\<rparr>))"

lemma prints_println: "prints (println line)"
  by (auto simp: prints_def run_simps)

lemma prints_ret: "prints (ret ())"
proof -
  have "t = t\<lparr>tm_out := tm_out t\<rparr>" for t :: terminal by simp
  then show ?thesis unfolding prints_def ret_def by metis
qed

lemma prints_emit: "prints (emit x json v fallback)"
  by (simp add: emit_def prints_println prints_ret)

lemma printsE:
  assumes "prints m"
  obtains out where "m t = (Ok (), t\<lparr>tm_out := out\<rparr>)"
  using assms unfolding prints_def by blast

section \<open>Waiting for the gateway\<close>

lemma fetch_returns:
  "\<exists>r t'. fetch_gateway_status x ep t = (r, t') \<and> returns r \<and> tm_connects t' = Suc (tm_connects t) \<and>
     tm_world t' = tm_world t \<and> tm_out t' = tm_out t \<and> tm_gateway t' = tm_gateway t \<and> tm_engine t' = tm_engine t \<and>
     tm_spawned t' = tm_spawned t"
  by (auto simp: fetch_gateway_status_def in_context_def call_gateway_def of_option_def run_simps split: sum.split option.split res.split prod.split)

text \<open>The terminal but for the counters of connections and requests.\<close>

definition same_but_calls :: "terminal \<Rightarrow> terminal \<Rightarrow> bool" where
  "same_but_calls t t' \<longleftrightarrow> tm_world t' = tm_world t \<and> tm_out t' = tm_out t \<and> tm_gateway t' = tm_gateway t \<and>
     tm_engine t' = tm_engine t \<and> tm_spawned t' = tm_spawned t"

lemma one_quarter_less:
  fixes elapsed now timeout :: nat
  assumes "elapsed \<le> now" and "now < timeout"
  shows "(timeout - (now + 250) + 249) div 250 + 1 \<le> (timeout - elapsed + 249) div 250"
proof -
  have "(timeout - (now + 250) + 249) div 250 + 1 = (timeout - (now + 250) + 249 + 250) div 250"
    by (simp only: div_add_self2)
  also have "\<dots> \<le> (timeout - elapsed + 249) div 250"
  proof (cases "now + 250 \<le> timeout")
    case True
    with assms show ?thesis by (intro div_le_mono) simp
  next
    case False
    then have "(timeout - (now + 250) + 249 + 250) div 250 = 1" by simp
    also have "1 \<le> (timeout - elapsed + 249) div 250"
      using div_le_mono [of 250 "timeout - elapsed + 249" 250] assms by simp
    finally show ?thesis .
  qed
  finally show ?thesis .
qed

lemma wait_from_bounded:
  "wait_from x ep timeout elapsed t = (r, t') \<Longrightarrow>
     returns r \<and> same_but_calls t t' \<and> tm_connects t < tm_connects t' \<and>
     tm_connects t' \<le> tm_connects t + (timeout - elapsed + 249) div 250 + 1"
proof (induction x ep timeout elapsed t arbitrary: r t' rule: wait_from.induct)
  case (1 x ep timeout elapsed t)
  obtain r1 t1 where f: "fetch_gateway_status x ep t = (r1, t1)" "returns r1" "tm_connects t1 = Suc (tm_connects t)"
      "same_but_calls t t1"
    using fetch_returns [of x ep t] by (auto simp: same_but_calls_def)
  let ?el = "elapsed + x_takes x (tm_connects t)"
  show ?case
  proof (cases "\<exists>e. r1 = Err e \<and> ?el < timeout")
    case True
    then obtain e where e: "r1 = Err e" "?el < timeout" by blast
    with "1.prems" f(1) have step: "wait_from x ep timeout (?el + 250) t1 = (r, t')" by simp
    have "returns r \<and> same_but_calls t1 t' \<and> tm_connects t1 < tm_connects t' \<and>
        tm_connects t' \<le> tm_connects t1 + (timeout - (?el + 250) + 249) div 250 + 1"
      using "1.IH" [OF f(1) [symmetric] _ e(2) step] e(1) by simp
    moreover have "(timeout - (?el + 250) + 249) div 250 + 1 \<le> (timeout - elapsed + 249) div 250"
      by (rule one_quarter_less [OF _ e(2)]) simp
    ultimately show ?thesis using f(3,4) by (auto simp: same_but_calls_def)
  next
    case False
    then have "r = (case r1 of Ok _ \<Rightarrow> Ok () | Err e \<Rightarrow> Err e | Panic \<Rightarrow> Panic | Deadlock \<Rightarrow> Deadlock)" "t' = t1"
      using "1.prems" f(1) by (auto split: res.splits)
    then show ?thesis using f(2-4) by (cases r1) auto
  qed
qed


section \<open>The log's tail\<close>

lemma last_lines_drop: "last_lines tail ls = drop (length ls - tail) ls"
proof (induction ls rule: rev_induct)
  case Nil
  then show ?case by (simp add: last_lines_def)
next
  case (snoc l ls)
  let ?k = "length ls - tail"
  have push: "last_lines tail (ls @ [l]) = push_line tail (drop ?k ls) l" by (simp add: last_lines_def flip: snoc.IH)
  show ?case
  proof (cases "tail \<le> length ls")
    case True
    have "tl (drop ?k ls @ [l]) = drop (Suc ?k) (ls @ [l])"
      using drop_Suc [of ?k "ls @ [l]"] tl_drop [of ?k "ls @ [l]"] by simp
    with True show ?thesis by (simp add: push push_line_def Suc_diff_le)
  next
    case False
    then show ?thesis by (simp add: push push_line_def)
  qed
qed

text \<open>What a log file holds when it can be read.\<close>

definition log_holds :: "openpinch_paths \<Rightarrow> terminal \<Rightarrow> string list \<Rightarrow> bool" where
  "log_holds paths t ls \<longleftrightarrow> (\<exists>raw text. w_files (tm_world t) (pa_log_file paths) = Some raw \<and> from_utf8 raw = Some text \<and>
     log_lines text = ls)"

lemma show_logs_prints:
  assumes "log_holds paths t ls"
  shows "show_logs x paths tail False t =
    (Ok (drop (length ls - tail) ls), t\<lparr>tm_out := tm_out t @ drop (length ls - tail) ls\<rparr>)"
  using assms by (auto simp: log_holds_def show_logs_def on_machine_def run_simps println_all last_lines_drop Let_def)

lemma follow_prints:
  assumes "log_holds paths t ls"
  shows "follow_round paths buffer t =
    (if length buffer < length ls then (Ok ls, t\<lparr>tm_out := tm_out t @ drop (length buffer) ls\<rparr>) else (Ok buffer, t))"
  using assms by (auto simp: log_holds_def follow_round_def on_machine_def run_simps println_all Let_def)

text \<open>
  \<open>logs\<close> prints the last lines of the file, as many as asked for. With \<open>--follow\<close> the first round then
  prints every line after the first \<open>tail\<close> ones again, although the file has not changed; a later round
  prints what was appended.
\<close>

theorem follow_repeats_lines:
  assumes "log_holds paths t ls" and "tail < length ls"
  shows "\<exists>t1 t2. show_logs x paths tail False t = (Ok (drop (length ls - tail) ls), t1) \<and>
      tm_out t1 = tm_out t @ drop (length ls - tail) ls \<and>
      follow_round paths (drop (length ls - tail) ls) t1 = (Ok ls, t2) \<and> tm_out t2 = tm_out t1 @ drop tail ls \<and>
      (\<forall>t3 more. log_holds paths t3 (ls @ more) \<longrightarrow>
        tm_out (snd (follow_round paths ls t3)) = tm_out t3 @ more)"
proof -
  let ?t1 = "t\<lparr>tm_out := tm_out t @ drop (length ls - tail) ls\<rparr>"
  have holds: "log_holds paths ?t1 ls" using assms(1) by (simp add: log_holds_def)
  show ?thesis using assms(2)
    by (simp add: show_logs_prints [OF assms(1)] follow_prints [OF holds]) (auto simp: follow_prints)
qed

definition sample_outside :: outside where
  "sample_outside = \<lparr>x_env = sample_env, x_host = sample_host, x_connects = (\<lambda>_ _. False), x_takes = (\<lambda>_. 0),
     x_reply = (\<lambda>_ _. Inl ''unavailable''), x_toml_config = two_file_decode, x_toml_legacy = two_file_raw,
     x_toml_write = two_file_encode, x_toml_json = (\<lambda>_. None), x_bind = (\<lambda>_. True), x_spawn = (\<lambda>_. True),
     x_pid = 7, x_unix_time = 0\<rparr>"

definition sample_terminal :: "(string \<Rightarrow> string option) \<Rightarrow> terminal" where
  "sample_terminal files = \<lparr>tm_world = boot_world\<lparr>w_files := files\<rparr>, tm_out = [], tm_connects = 0, tm_sent = [],
     tm_spawned = [], tm_engine = False, tm_gateway = False\<rparr>"

theorem follow_repeats_lines_witness:
  "\<exists>t1 t2. show_logs sample_outside demo_paths 1 False (sample_terminal [pa_log_file demo_paths \<mapsto> ''a'' @ nl @ ''b'' @ nl]) =
      (Ok [''b''], t1) \<and> follow_round demo_paths [''b''] t1 = (Ok [''a'', ''b''], t2) \<and> tm_out t2 = [''b'', ''b'']"
proof -
  let ?t = "sample_terminal [pa_log_file demo_paths \<mapsto> ''a'' @ nl @ ''b'' @ nl]"
  have "log_holds demo_paths ?t [''a'', ''b'']"
    by (simp add: log_holds_def sample_terminal_def from_utf8_def nl_def log_lines_def Let_def without_cr_def) code_simp
  from follow_repeats_lines [OF this, of 1 sample_outside] show ?thesis
    by (auto simp: sample_terminal_def)
qed

section \<open>Agent messages\<close>

lemma splitn_found:
  "d \<notin> set a \<Longrightarrow> splitn (Suc (Suc n)) d (a @ d # rest) = a # splitn (Suc n) d rest"
proof -
  assume "d \<notin> set a"
  then have "takeWhile (\<lambda>c. c \<noteq> d) (a @ d # rest) = a" "dropWhile (\<lambda>c. c \<noteq> d) (a @ d # rest) = d # rest"
    by (induction a) auto
  then show ?thesis by simp
qed

lemma splitn_none: "d \<notin> set s \<Longrightarrow> splitn (Suc n) d s = [s]"
  by (cases n) simp_all

lemma split_first:
  assumes "d \<in> set s"
  obtains a rest where "s = a @ d # rest" "d \<notin> set a"
  using split_list_first [OF assms] by blast

text \<open>
  An agent message is \<open>sender:recipient:body\<close>, read at its first two colons: it is accepted exactly in
  this form, sender and recipient are free of colons, and the body is whatever follows.
\<close>

theorem agent_message_form:
  "parse_agent_message raw = Ok m \<longleftrightarrow>
     raw = am_sender m @ CHR '':'' # am_recipient m @ CHR '':'' # am_body m \<and>
     CHR '':'' \<notin> set (am_sender m) \<and> CHR '':'' \<notin> set (am_recipient m) \<and> am_metadata_json m = ''{}'' \<and> am_encrypted_body m = []"
proof
  assume ok: "parse_agent_message raw = Ok m"
  show "raw = am_sender m @ CHR '':'' # am_recipient m @ CHR '':'' # am_body m \<and>
     CHR '':'' \<notin> set (am_sender m) \<and> CHR '':'' \<notin> set (am_recipient m) \<and> am_metadata_json m = ''{}'' \<and> am_encrypted_body m = []"
  proof (cases "CHR '':'' \<in> set raw")
    case True
    then obtain a r1 where a: "raw = a @ CHR '':'' # r1" "CHR '':'' \<notin> set a" by (rule split_first)
    show ?thesis
    proof (cases "CHR '':'' \<in> set r1")
      case True
      then obtain b r2 where "r1 = b @ CHR '':'' # r2" "CHR '':'' \<notin> set b" by (rule split_first)
      with a ok show ?thesis by (auto simp: parse_agent_message_def numeral_3_eq_3 splitn_found simp del: splitn.simps(3))
    qed (use a ok in \<open>auto simp: parse_agent_message_def numeral_3_eq_3 splitn_found splitn_none simp del: splitn.simps(3)\<close>)
  qed (use ok in \<open>auto simp: parse_agent_message_def numeral_3_eq_3 splitn_none simp del: splitn.simps(3)\<close>)
next
  assume "raw = am_sender m @ CHR '':'' # am_recipient m @ CHR '':'' # am_body m \<and>
     CHR '':'' \<notin> set (am_sender m) \<and> CHR '':'' \<notin> set (am_recipient m) \<and> am_metadata_json m = ''{}'' \<and> am_encrypted_body m = []"
  then show "parse_agent_message raw = Ok m"
    by (auto simp: parse_agent_message_def numeral_3_eq_3 splitn_found simp del: splitn.simps(3))
qed

end
