(* ===== verification/Cli_Safe.thy ===== *)
theory Cli_Safe
  imports Cli_Facts
begin

text \<open>
  The command line never panics and never blocks: every command returns, with a value or an error,
  whatever the gateway answers and whatever the files hold.
\<close>

section \<open>Actions of the terminal that return\<close>

text \<open>Started while the connection of the store is free, the action returns and leaves it free.\<close>

definition steady :: "'a cli \<Rightarrow> bool" where
  "steady m \<longleftrightarrow> (\<forall>t. \<not> w_locked (tm_world t) \<longrightarrow> returns (fst (m t)) \<and> \<not> w_locked (tm_world (snd (m t))))"

named_theorems steady_intros \<open>rules that derive that an action of the terminal returns\<close>

lemma steadyD: "steady m \<Longrightarrow> \<not> w_locked (tm_world t) \<Longrightarrow> m t = (r, t') \<Longrightarrow> returns r \<and> \<not> w_locked (tm_world t')"
  unfolding steady_def by (metis fst_conv snd_conv)

lemma steady_basic [steady_intros]:
  "steady (ret a)" "steady (fail e)" "steady (println line)" "steady (connect x endpoint)" "steady (emit x json v fallback)"
  "steady (emit_value x json v)" "steady (call_gateway x c decode)" "steady (ask x req decode')"
  by (auto simp: steady_def run_simps emit_def emit_value_def ask_def call_gateway_def split: sum.split)

lemma steady_lift [steady_intros]: "returns r \<Longrightarrow> steady (lift_res r)"
  by (simp add: steady_def run_simps)

lemma steady_on_machine [steady_intros]: "safe m \<Longrightarrow> steady (on_machine m)"
  by (simp add: steady_def safe_at_def on_machine_def case_prod_unfold Let_def)

lemma steady_andthen [steady_intros]:
  assumes "steady m" and "\<And>a. steady (f a)"
  shows "steady (andthen m f)"
  unfolding steady_def
proof (intro allI impI)
  fix t :: terminal
  assume free: "\<not> w_locked (tm_world t)"
  obtain r t1 where m: "m t = (r, t1)" by (cases "m t")
  have t1: "returns r" "\<not> w_locked (tm_world t1)" using steadyD [OF assms(1) free m] by simp_all
  show "returns (fst (andthen m f t)) \<and> \<not> w_locked (tm_world (snd (andthen m f t)))"
  proof (cases r)
    case (Ok a)
    then show ?thesis using m t1(2) assms(2) [of a] by (simp add: andthen_run steady_def)
  qed (use m t1 in \<open>simp_all add: andthen_run\<close>)
qed

lemma steady_in_context [steady_intros]: "steady m \<Longrightarrow> steady (in_context ctx m)"
  by (fastforce simp: steady_def in_context_def split: prod.splits res.splits)

lemma steady_attempt [steady_intros]: "steady m \<Longrightarrow> steady (attempt m)"
  by (fastforce simp: steady_def attempt_run split: prod.splits res.splits)

lemma steady_for_each [steady_intros]: "(\<And>x. x \<in> set xs \<Longrightarrow> steady (f x)) \<Longrightarrow> steady (for_each f xs)"
  by (induction xs) (auto intro: steady_intros)

lemma steady_cases [steady_intros]:
  "(b \<Longrightarrow> steady m) \<Longrightarrow> (\<not> b \<Longrightarrow> steady n) \<Longrightarrow> steady (if b then m else n)"
  "(opt = None \<Longrightarrow> steady m) \<Longrightarrow> (\<And>a. steady (f a)) \<Longrightarrow> steady (case opt of None \<Rightarrow> m | Some a \<Rightarrow> f a)"
  "(\<And>a. steady (g a)) \<Longrightarrow> (\<And>c. steady (h c)) \<Longrightarrow> steady (case s of Inl a \<Rightarrow> g a | Inr c \<Rightarrow> h c)"
  "(\<And>a c. steady (k a c)) \<Longrightarrow> steady (case p of (a, c) \<Rightarrow> k a c)"
  "steady (l y) \<Longrightarrow> steady (let z = y in l z)"
  by (auto split: option.split sum.split prod.split)

text \<open>Effects on the processes alone.\<close>

lemma steady_processes [steady_intros]:
  "(\<And>t. tm_world (f t) = tm_world t) \<Longrightarrow> steady (\<lambda>t. (Ok a, f t))"
  by (simp add: steady_def)

lemma steady_wait [steady_intros]: "steady (wait_for_gateway x ep timeout)"
  unfolding steady_def wait_for_gateway_def
proof (intro allI impI)
  fix t :: terminal
  assume free: "\<not> w_locked (tm_world t)"
  obtain r t' where run: "wait_from x ep timeout 0 t = (r, t')" by (cases "wait_from x ep timeout 0 t")
  with wait_from_bounded [OF run] free
  show "returns (fst (wait_from x ep timeout 0 t)) \<and> \<not> w_locked (tm_world (snd (wait_from x ep timeout 0 t)))"
    by (simp add: same_but_calls_def del: wait_from.simps)
qed

lemma steady_fetch [steady_intros]: "steady (fetch_gateway_status x ep)"
  unfolding steady_def
proof (intro allI impI)
  fix t :: terminal
  assume "\<not> w_locked (tm_world t)"
  with fetch_returns [of x ep t] show "returns (fst (fetch_gateway_status x ep t)) \<and> \<not> w_locked (tm_world (snd (fetch_gateway_status x ep t)))"
    by auto
qed

section \<open>The machine's side\<close>

lemma safe_remove_file [safe_intros]: "safe_at b (remove_file p)"
  by (simp add: safe_at_def run_simps)

lemma safe_bootstrap [safe_intros]: "safe (bootstrap E config paths)"
  unfolding bootstrap_def new_tool_executor_def load_capability_matrix_def load_or_init_encryption_def Let_def
  by (intro safe_intros; simp)

lemma safe_engine_execute_tool [safe_intros]: "safe (engine_execute_tool E en call)"
  unfolding engine_execute_tool_def by (intro safe_intros)

lemma safe_skills [safe_intros]:
  "safe (list_skills E sm)" "safe (verify_skill E sm source)" "safe (install_skill E sm source force)"
  unfolding list_skills_def verify_skill_def install_skill_def registry_def verify_registry_def install_verified_bundle_def Let_def
  by (intro safe_intros; simp)+

lemma safe_state_files [safe_intros]:
  "safe (write_runtime_state E en listen ep)" "safe (load_runtime_status E paths)"
  "safe (load_desktop_host_state E paths)" "safe (write_desktop_host_state E paths s)"
  unfolding write_runtime_state_def engine_status_def load_runtime_status_def load_desktop_host_state_def write_desktop_host_state_def
  by (intro safe_intros; simp)+

section \<open>The commands\<close>

lemma steady_connect_gateway [steady_intros]: "steady (connect_gateway x config)"
  unfolding connect_gateway_def by (intro steady_intros)

lemma steady_memory [steady_intros]: "steady (handle_memory_command x config c json)"
  by (cases c; simp; intro steady_intros)

lemma steady_message [steady_intros]: "steady (handle_message_command x config c json)"
  by (cases c; simp; intro steady_intros)

lemma steady_pairing [steady_intros]: "steady (handle_pairing_command x config c json)"
  unfolding ask_pairing_update_def by (cases c; simp add: ask_pairing_update_def; intro steady_intros)

lemma steady_session [steady_intros]: "steady (handle_session_command x config c json)"
  by (cases c; simp; intro steady_intros)

lemma steady_model [steady_intros]: "steady (handle_model_command x config c json)"
  by (cases c; simp add: handle_model_command_def; intro steady_intros)

lemma steady_connector [steady_intros]: "steady (handle_connector_command x config c json)"
  by (cases c; simp; intro steady_intros)

lemma steady_brain [steady_intros]: "steady (handle_brain_command x config c json)"
  by (cases c; simp add: cli_brain_task_update_def cli_brain_forget_def; intro steady_intros)

lemma steady_reports [steady_intros]:
  "steady (handle_policy_show x config subject capability json)" "steady (handle_audit_export x config sink limit json)"
  "steady (handle_attest_command x config subject nonce hw json)" "steady (handle_rbac_list x config json)"
  "steady (handle_operator_status x config json)"
  unfolding handle_policy_show_def handle_audit_export_def handle_attest_command_def handle_rbac_list_def handle_operator_status_def Let_def
  by (intro steady_intros)+

lemma returns_agent_messages: "returns (traverse_res parse_agent_message ms)"
  by (rule returns_traverse_res) (simp add: parse_agent_message_def split: list.split)

lemma steady_protocol [steady_intros]: "steady (handle_agent_protocol x config pid initiator scope ms json)"
  unfolding handle_agent_protocol_def by (intro steady_intros returns_agent_messages)

lemma steady_files [steady_intros]:
  "steady (write_config x paths config)" "steady (read_config_file paths)"
  unfolding write_config_def read_config_file_def by (intro steady_intros safe_intros)+

lemma returns_load: "returns (load_or_init decode decode_raw src)"
  by (simp add: load_or_init_def split: option.split prod.split)

lemma steady_load_config [steady_intros]: "steady (load_config x paths)"
  unfolding load_config_def by (intro steady_intros returns_load)

lemma returns_set: "returns (fst (config_set key v c))"
  using config_set_outcome [of key v c] by auto

lemma steady_config [steady_intros]: "steady (handle_config_command x config paths c json)"
proof (cases c)
  case (Config_Set key v)
  have "returns (case config_set key v config of (r, config') \<Rightarrow> map_res (\<lambda>_. config') r)"
    using returns_set [of key v config] by (cases "fst (config_set key v config)") (auto simp: case_prod_unfold)
  with Config_Set show ?thesis by (auto intro!: steady_intros)
qed (auto intro!: steady_intros safe_intros)

lemma steady_skill [steady_intros]: "steady (handle_skill_command x config paths c json)"
  by (cases c; simp; intro steady_intros safe_intros)

lemma steady_logs [steady_intros]: "steady (show_logs x paths tail json)" "steady (follow_round paths buffer)"
  unfolding show_logs_def follow_round_def Let_def by (intro steady_intros safe_intros; simp)+

lemma steady_execute_response [steady_intros]: "steady (emit_outcome x outcome json)"
  unfolding emit_outcome_def emit_execute_response_def by (intro steady_intros)

lemma steady_execute [steady_intros]: "steady (cli_execute_command x config paths target args network priority json)"
  unfolding cli_execute_command_def by (intro steady_intros safe_intros)

lemma steady_status [steady_intros]: "steady (show_status x config paths json)"
  unfolding show_status_def by (intro steady_intros safe_intros)

lemma steady_doctor [steady_intros]:
  "steady (doctor_value x config paths)" "steady (handle_doctor_command x config paths json)" "steady (handle_onboard_command x config paths json)"
proof -
  show d: "steady (doctor_value x config paths)"
    unfolding doctor_value_def by (intro steady_intros safe_intros)
  show "steady (handle_doctor_command x config paths json)" "steady (handle_onboard_command x config paths json)"
    unfolding handle_doctor_command_def handle_onboard_command_def by (intro steady_intros d)+
qed

lemma steady_rpc [steady_intros]: "steady (start_private_rpc x paths)" "steady (shutdown_handle paths)"
  unfolding start_private_rpc_def shutdown_handle_def Let_def by (intro steady_intros safe_intros; simp)+

lemma steady_boot [steady_intros]: "steady (boot_runtime_sidecars x config paths)" "steady (shutdown_runtime_sidecars paths)"
  unfolding boot_runtime_sidecars_def spawn_gateway_def shutdown_runtime_sidecars_def Let_def
  by (intro steady_intros safe_intros; simp)+

lemma steady_start [steady_intros]: "steady (start_runtime x config paths foreground json)"
  unfolding start_runtime_def by (intro steady_intros)

lemma steady_command [steady_intros]: "steady (run_command x config paths c json)"
  by (cases c; simp only: run_command.simps; intro steady_intros)

lemma returns_discover: "returns (discover project)"
  by (simp add: discover_def Let_def split: option.split)

lemma steady_cli [steady_intros]: "steady (run_cli x project c json)"
  unfolding run_cli_def by (intro steady_intros returns_discover)

lemma steady_desktop_files [steady_intros]:
  "steady (remove_host_files paths)" "steady (await_removal n p)" "steady (healthy_desktop_host x paths)"
  unfolding remove_host_files_def healthy_desktop_host_def
  by (intro steady_intros safe_intros, induction n, auto intro!: steady_intros safe_intros)

lemma steady_desktop [steady_intros]: "steady (handle_desktop_command x config paths d json)"
  unfolding handle_desktop_command_def start_desktop_host_def show_desktop_health_def shutdown_desktop_host_def Let_def
  by (cases d; simp; intro steady_intros safe_intros)



end
