(* ===== verification/Cli_Config_Facts.thy ===== *)
theory Cli_Config_Facts
  imports Cli_Facts
begin
text \<open>
  Settings and restarts: \<open>config set\<close> keeps what loading established, so the next start loads exactly the
  configuration that was set.
\<close>

section \<open>What a setting keeps\<close>

lemma split_on_Cons:
  "split_on d s = p # ps \<Longrightarrow> d \<notin> set p \<and> (if ps = [] then s = p else \<exists>rest. s = p @ d # rest \<and> split_on d rest = ps)"
proof (induction s arbitrary: p ps)
  case Nil
  then show ?case by auto
next
  case (Cons c cs)
  show ?case
  proof (cases "c = d")
    case True
    with Cons.prems show ?thesis by (cases cs) (auto split: list.splits if_splits)
  next
    case False
    then obtain q where q: "split_on d cs = q # ps" "p = c # q"
      using Cons.prems by (cases cs) (auto split: list.splits if_splits)
    from Cons.IH [OF q(1)] show ?thesis using False q(2) by (auto split: if_splits)
  qed
qed

lemma split_on_three:
  assumes "split_on d s = [a, b, c]"
  shows "s = a @ d # b @ d # c \<and> d \<notin> set a"
proof -
  from split_on_Cons [OF assms] obtain r where r: "s = a @ d # r" "split_on d r = [b, c]" "d \<notin> set a" by auto
  from split_on_Cons [OF r(2)] obtain r' where r': "r = b @ d # r'" "split_on d r' = [c]" by auto
  from split_on_Cons [OF r'(2)] r r' show ?thesis by auto
qed

text \<open>A connector's key names the connector between its two dots.\<close>

lemma connector_key:
  assumes "starts_with key ''connectors.''" and "split_on CHR ''.'' key = [p, name, field]"
  shows "key = ''connectors.'' @ name @ ''.'' @ field"
proof -
  from split_on_three [OF assms(2)] have key: "key = p @ CHR ''.'' # name @ CHR ''.'' # field" "CHR ''.'' \<notin> set p" by auto
  obtain rest where "key = ''connectors'' @ CHR ''.'' # rest" using assms(1) by (auto simp: starts_with_def prefix_def)
  with key have "p @ CHR ''.'' # name @ CHR ''.'' # field = ''connectors'' @ CHR ''.'' # rest" by simp
  then have "p = ''connectors''" using key(2)
    by (auto simp: append_eq_append_conv2 append_eq_Cons_conv Cons_eq_append_conv)
  with key(1) show ?thesis by simp
qed

lemma plain_setting_settled:
  assumes "plain_setting m" and "settled c"
  shows "settled (snd (m c))"
proof -
  from assms(1) [unfolded plain_setting_def, rule_format, of c] show ?thesis
    using assms(2) by (auto simp: settled_def config_wf_def complete_def)
qed

lemma set_model_settled: "settled c \<Longrightarrow> settled (snd (set_model key v c))"
  unfolding set_model_def
  by (auto simp: andthen_def modify_def fail_def settled_def config_wf_def complete_def bt_wf_insert bt_wf_or_insert
      split: list.splits sum.splits)

lemma set_connector_settled:
  assumes "settled c" and "starts_with key ''connectors.''" and "\<not> starts_with key ''connectors.webchat.''"
  shows "settled (snd (set_connector key v c))"
proof (cases "\<exists>p name field. split_on CHR ''.'' key = [p, name, field]")
  case True
  then obtain p name field where parts: "split_on CHR ''.'' key = [p, name, field]" by blast
  have name: "name \<noteq> ''webchat''"
    using connector_key [OF assms(2) parts] assms(3) by (auto simp: starts_with_def)
  have c: "bt_wf (cfg_connectors c)" "bt_get (cfg_connectors c) ''webchat'' = None"
      "\<forall>k\<in>fst ` set default_connectors. bt_get (cfg_connectors c) k \<noteq> None"
    using assms(1) by (simp_all add: settled_def config_wf_def complete_def)
  let ?m = "bt_or_insert name derived_connector (cfg_connectors c)"
  have m: "bt_wf ?m" "bt_get ?m ''webchat'' = None" "\<forall>k\<in>fst ` set default_connectors. bt_get ?m k \<noteq> None"
    using c name by (auto simp: bt_wf_or_insert bt_get_or_insert split: option.split)
  show ?thesis using assms(1) m name
    by (auto simp: set_connector_def parts andthen_def modify_def settled_def config_wf_def complete_def bt_wf_insert
        bt_get_insert split: sum.splits)
next
  case False
  then have "set_connector key v = fail (Msg ''connector keys must use connectors.<name>.<field>'')"
    by (auto simp: set_connector_def split: list.split)
  with assms(1) show ?thesis by (simp add: fail_def)
qed

lemma settled_set:
  assumes "settled c" and "\<not> starts_with key ''connectors.webchat.''"
  shows "settled (snd (config_set key v c))"
proof (cases "map_of (set_table key v) key")
  case (Some m)
  then show ?thesis using plain_setting_settled [OF set_table_entry [OF Some] assms(1)] by (simp add: config_set_def)
next
  case None
  then show ?thesis using assms set_model_settled [OF assms(1)] set_connector_settled [OF assms(1)]
    by (auto simp: config_set_def fail_def)
qed

section \<open>Restarts\<close>

text \<open>What the codec writes is text.\<close>

definition codec_law :: "outside \<Rightarrow> bool" where
  "codec_law x \<longleftrightarrow> toml_law (x_toml_config x) (x_toml_legacy x) (x_toml_write x) \<and>
     (\<forall>c s. x_toml_write x c = Some s \<longrightarrow> from_utf8 s = Some s)"

lemma load_config_settled:
  assumes "codec_law x" and "load_config x paths t = (Ok c, t')"
  shows "settled c"
proof -
  obtain src w where "load_or_init (x_toml_config x) (x_toml_legacy x) src = Ok (c, w)"
    using assms(2) unfolding load_config_def
    by (elim andthen_OkE lift_res_OkE) (auto simp: ret_def elim!: andthen_OkE split: prod.splits)
  then show ?thesis using assms(1) loaded_settled unfolding codec_law_def by blast
qed

lemma load_written:
  assumes "codec_law x" and "settled c" and "x_toml_write x c = Some s"
    and "w_files (tm_world t) (pa_config_file paths) = Some s"
  shows "load_config x paths t = (Ok c, t)"
  using assms(1,3,4) settled_reloads [where encode = "x_toml_write x", OF _ assms(2,3)]
  by (auto simp: codec_law_def load_config_def read_config_file_def read_text_def on_machine_def run_simps)


text \<open>A codec that knows two configurations: the default, and the one with the brain switched off.\<close>

definition quiet_config :: app_config where
  "quiet_config = snd (config_set ''brain.enabled'' ''false'' default_config)"

definition plain_view :: legacy_view where
  "plain_view = \<lparr>lv_webchat = None, lv_web_enabled = None, lv_web_listen = None\<rparr>"

definition setting_outside :: outside where
  "setting_outside = \<lparr>x_env = sample_env, x_host = sample_host, x_connects = (\<lambda>_ _. False), x_takes = (\<lambda>_. 0),
     x_reply = (\<lambda>_ _. Inl ''unavailable''),
     x_toml_config = (\<lambda>s. if s = ''a'' then Some default_config else if s = ''b'' then Some quiet_config else None),
     x_toml_legacy = (\<lambda>s. if s = ''a'' \<or> s = ''b'' then Some plain_view else None),
     x_toml_write = (\<lambda>c. if c = default_config then Some ''a'' else if c = quiet_config then Some ''b'' else None),
     x_toml_json = (\<lambda>_. None), x_bind = (\<lambda>_. True), x_spawn = (\<lambda>_. True), x_pid = 7, x_unix_time = 0\<rparr>"

lemma quiet_set: "config_set ''brain.enabled'' ''false'' default_config = (Ok (), quiet_config)"
  by (simp add: quiet_config_def config_set_def set_table_def assign_bool_def parse_bool_def modify_def)

lemma quiet_differs: "quiet_config \<noteq> default_config"
proof -
  have "\<not> bc_enabled (cfg_brain quiet_config)"
    by (simp add: quiet_config_def config_set_def set_table_def assign_bool_def parse_bool_def modify_def)
  moreover have "bc_enabled (cfg_brain default_config)" by (simp add: default_config_def default_brain_def)
  ultimately show ?thesis by auto
qed

lemma utf8_letters: "from_utf8 ''a'' = Some ''a''" "from_utf8 ''b'' = Some ''b''"
  by (code_simp, code_simp)

lemma setting_codec: "codec_law setting_outside"
proof -
  have "settled quiet_config" unfolding quiet_config_def
    by (rule settled_set [OF settled_default]) (simp add: starts_with_def)
  with settled_default show ?thesis
    by (auto simp: codec_law_def toml_law_def setting_outside_def plain_view_def settled_def utf8_letters split: if_splits)
qed


end
