(* ===== verification/Startup_Sample.thy ===== *)
theory Startup_Sample
  imports Cli_Config_Facts "HOL-Library.Countable"
begin

text \<open>
  A start that succeeds, for the witnesses of the theorems about processes: on a machine whose cipher
  never fails the bootstrap seeds the brain of an empty store, and the gateway answers.
\<close>

section \<open>Actions that cannot fail\<close>

text \<open>Run while the connection is free, they succeed, and leave the connection, files and relations as they are.\<close>

definition smooth :: "'a io \<Rightarrow> bool" where
  "smooth m \<longleftrightarrow> (\<forall>w. \<not> w_locked w \<longrightarrow> (\<exists>a w'. m w = (Ok a, w') \<and> \<not> w_locked w' \<and> w_files w' = w_files w \<and>
     t_relations (w_db w') = t_relations (w_db w)))"

named_theorems smooth_intros \<open>rules that derive that an action cannot fail\<close>

lemma smoothE:
  assumes "smooth m" and "\<not> w_locked w"
  obtains a w' where "m w = (Ok a, w')" "\<not> w_locked w'" "w_files w' = w_files w" "t_relations (w_db w') = t_relations (w_db w)"
  using assms unfolding smooth_def by blast

lemma smooth_andthen [smooth_intros]:
  assumes "smooth m" and "\<And>a. smooth (f a)"
  shows "smooth (andthen m f)"
  unfolding smooth_def
proof (intro allI impI)
  fix w :: world
  assume "\<not> w_locked w"
  with assms(1) obtain a w1 where m: "m w = (Ok a, w1)" "\<not> w_locked w1" "w_files w1 = w_files w"
      "t_relations (w_db w1) = t_relations (w_db w)" by (rule smoothE)
  obtain b w2 where "f a w1 = (Ok b, w2)" "\<not> w_locked w2" "w_files w2 = w_files w1"
      "t_relations (w_db w2) = t_relations (w_db w1)" by (rule smoothE [OF assms(2) m(2)])
  with m show "\<exists>b w2. andthen m f w = (Ok b, w2) \<and> \<not> w_locked w2 \<and> w_files w2 = w_files w \<and>
      t_relations (w_db w2) = t_relations (w_db w)" by (simp add: run_simps)
qed

lemma smooth_basic [smooth_intros]:
  "smooth (ret a)" "smooth (utc_now E)" "smooth (random_bytes E k)"
  by (simp_all add: smooth_def run_simps)

lemma smooth_dated [smooth_intros]:
  "(\<And>now d. t_relations (g now d) = t_relations d) \<Longrightarrow>
     smooth (with_conn (andthen (utc_now E) (\<lambda>now. andthen (sql_exec (g now)) (\<lambda>_. ret a))))"
  by (simp add: smooth_def run_simps)

lemma smooth_exec [smooth_intros]: "(\<And>d. t_relations (f d) = t_relations d) \<Longrightarrow> smooth (with_conn (sql_exec f))"
  by (simp add: smooth_def run_simps)

lemma smooth_lift [smooth_intros]: "r = Ok a \<Longrightarrow> smooth (lift_res r)"
  by (simp add: smooth_def run_simps)

lemma smooth_context [smooth_intros]: "smooth m \<Longrightarrow> smooth (context_act ctx m)"
  by (fastforce simp: smooth_def context_act_def)

lemma smooth_for_each [smooth_intros]: "(\<And>x. x \<in> set xs \<Longrightarrow> smooth (f x)) \<Longrightarrow> smooth (for_each f xs)"
  by (induction xs) (auto intro: smooth_intros)

section \<open>Seeding the brain\<close>

text \<open>The cipher always gives a ciphertext.\<close>

definition sealing :: "env \<Rightarrow> bool" where
  "sealing E \<longleftrightarrow> (\<forall>key nonce plaintext. \<exists>ct. E_seal E key nonce plaintext = Some ct)"

lemma smooth_seal [smooth_intros]: "sealing E \<Longrightarrow> smooth (seal_text E em content)"
proof -
  assume "sealing E"
  then have lift: "smooth (lift_res (of_option (Msg ''encryption failed'') (E_seal E (em_key em) nonce content)))" for nonce
    by (auto simp: sealing_def smooth_def run_simps)
  then have "smooth (encrypt_text E em content)"
    unfolding encrypt_text_def encrypt_bytes_def
    by (cases "em_enabled em") (simp_all add: smooth_andthen smooth_basic lift)
  then show ?thesis by (auto simp: seal_text_def intro: smooth_intros)
qed

lemma smooth_projection [smooth_intros]: "sealing E \<Longrightarrow> smooth (upsert_projection E bm ns key content metadata)"
  unfolding upsert_projection_def upsert_memory_def
  by (intro smooth_intros; simp)

lemma smooth_entity [smooth_intros]:
  "sealing E \<Longrightarrow> validate_entity (eu_kind u) (eu_subtype u) = Ok () \<Longrightarrow> smooth (upsert_entity E bm u)"
  unfolding upsert_entity_def encrypt_payload_def Let_def
  by (intro smooth_intros; simp)

lemma baseline_valid: "u \<in> set (baseline_entities E bm) \<Longrightarrow> validate_entity (eu_kind u) (eu_subtype u) = Ok ()"
  by (auto simp: baseline_entities_def Let_def validate_entity_def validate_entity_kind_def validate_environment_subtype_def
      entity_kinds_def environment_subtypes_def)

text \<open>The relations of the baseline go into a table whose rows have other identifiers.\<close>

lemma relation_inserted:
  assumes "\<not> w_locked w" and "validate_relation_kind kind = Ok ()"
    and "\<forall>r \<in> set (t_relations (w_db w)). relation_key r \<noteq> (kind, a, b) \<and> rr_relation_id r \<noteq> relation_id_of E kind a b"
  shows "\<exists>rec row w'. upsert_relation E kind a b metadata c archived w = (Ok rec, w') \<and> \<not> w_locked w' \<and> w_files w' = w_files w \<and>
    t_relations (w_db w') = t_relations (w_db w) @ [row] \<and> relation_key row = (kind, a, b) \<and>
    rr_relation_id row = relation_id_of E kind a b"
proof -
  have "\<not> has_key relation_key (kind, a, b) (t_relations (w_db w))"
    "\<not> has_key rr_relation_id (relation_id_of E kind a b) (t_relations (w_db w))"
    using assms(3) by (auto simp: has_key_iff)
  with assms(1,2) show ?thesis
    by (simp add: upsert_relation_def run_simps Let_def upsert_unique_def upsert_row_def insert_row_def relation_key_def)
qed

definition triple_id :: "env \<Rightarrow> string \<times> string \<times> string \<times> f64 \<Rightarrow> string" where
  "triple_id E = (\<lambda>(kind, a, b, c). relation_id_of E kind a b)"

lemma relations_inserted:
  assumes "\<not> w_locked w" and "\<forall>(kind, a, b, c) \<in> set rs. validate_relation_kind kind = Ok ()"
    and "distinct (map (triple_id E) rs)"
    and "\<forall>r \<in> set (t_relations (w_db w)). (\<forall>kind a b c. relation_key r = (kind, a, b) \<longrightarrow> rr_relation_id r = triple_id E (kind, a, b, c)) \<and>
      rr_relation_id r \<notin> (triple_id E) ` set rs"
  shows "\<exists>w'. for_each (\<lambda>(kind, a, b, c). andthen (upsert_relation E kind a b metadata c archived) (\<lambda>_. ret ())) rs w = (Ok (), w') \<and>
    \<not> w_locked w' \<and> w_files w' = w_files w"
  using assms
proof (induction rs arbitrary: w)
  case (Cons x rs)
  obtain kind a b c where x: "x = (kind, a, b, c)" by (cases x)
  have "\<forall>r \<in> set (t_relations (w_db w)). relation_key r \<noteq> (kind, a, b) \<and> rr_relation_id r \<noteq> relation_id_of E kind a b"
    using Cons.prems(4) x by (auto simp: triple_id_def)
  from relation_inserted [OF Cons.prems(1) _ this, of metadata c archived] Cons.prems(2) x
  obtain rec row w1 where step: "upsert_relation E kind a b metadata c archived w = (Ok rec, w1)" and w1: "\<not> w_locked w1"
      "w_files w1 = w_files w" "t_relations (w_db w1) = t_relations (w_db w) @ [row]" "relation_key row = (kind, a, b)"
      "rr_relation_id row = relation_id_of E kind a b" by auto
  have ids: "triple_id E (kind, a, b, d) = rr_relation_id row" for d using w1(5) by (simp add: triple_id_def)
  let ?one = "\<lambda>(kind, a, b, c). andthen (upsert_relation E kind a b metadata c archived) (\<lambda>_. ret ())"
  have one: "?one x w = (Ok (), w1)" using step by (simp add: x run_simps)
  have "\<exists>w'. for_each ?one rs w1 = (Ok (), w') \<and>
      \<not> w_locked w' \<and> w_files w' = w_files w1"
    by (rule Cons.IH) (use Cons.prems x w1 ids in auto)
  with one w1 show ?case by (simp only: for_each.simps andthen_def one prod.case res.case)
qed (simp add: run_simps)

lemma baseline_seeded:
  assumes "\<not> w_locked w" and "sealing E" and "t_relations (w_db w) = []"
    and "distinct (map (triple_id E) (baseline_relations bm))"
  shows "\<exists>w'. ensure_baseline_context E bm w = (Ok (), w') \<and> \<not> w_locked w' \<and> w_files w' = w_files w"
proof -
  have "smooth (for_each (\<lambda>u. andthen (upsert_entity E bm u) (\<lambda>_. ret ())) (baseline_entities E bm))"
    by (intro smooth_intros assms(2) baseline_valid)
  then obtain u w1 where s1: "for_each (\<lambda>u. andthen (upsert_entity E bm u) (\<lambda>_. ret ())) (baseline_entities E bm) w = (Ok u, w1)"
      "\<not> w_locked w1" "w_files w1 = w_files w" "t_relations (w_db w1) = t_relations (w_db w)"
    by (rule smoothE [OF _ assms(1)])
  have "\<forall>(kind, a, b, c) \<in> set (baseline_relations bm). validate_relation_kind kind = Ok ()"
    by (simp add: baseline_relations_def validate_relation_kind_def relation_kinds_def)
  from relations_inserted [OF s1(2) this assms(4), of "source_json E ''brain:baseline''" False] assms(3) s1
  show ?thesis by (auto simp: ensure_baseline_context_def run_simps)
qed

text \<open>
  A bootstrap with a readable capability matrix and a readable key: it succeeds if the cipher never
  fails, and leaves the files as they are.
\<close>

lemma bootstrap_succeeds:
  assumes "\<not> w_locked w" and "sealing E" and "t_relations (w_db w) = []"
    and "\<And>em. distinct (map (triple_id E) (baseline_relations (make_brain E config paths em)))"
    and "fst (load_capability_matrix E (resolve_path E (sc_matrix_path (sb_capabilities (cfg_sandbox config)))) w) = Ok matrix"
    and "w_files w (key_file_path E config paths) = Some raw" and "from_utf8 raw = Some key"
    and "E_b64_decode E (trim key) \<noteq> None"
  shows "\<exists>en w'. bootstrap E config paths w = (Ok en, w') \<and> w_files w' = w_files w \<and> en_paths en = paths"
proof -
  have same: "snd (load_capability_matrix E p w) = w" for p
    by (cases "read_text p w") (auto simp: load_capability_matrix_def read_text_def run_simps decode_bytes_def of_option_def split: option.splits)
  then have tools: "load_capability_matrix E (resolve_path E (sc_matrix_path (sb_capabilities (cfg_sandbox config)))) w = (Ok matrix, w)"
    using assms(5) by (metis prod.collapse)
  have "load_or_init_key E (key_file_path E config paths) w = (Ok (derive_key_from_material E (the (E_b64_decode E (trim key)))), w)"
    using assms(6-8) by (auto simp: load_or_init_key_def read_text_def run_simps decode_bytes_def)
  moreover have "\<exists>hardware. detect_hardware_attestation E config w1 = (Ok hardware, w1)" for w1
    by (auto simp: detect_hardware_attestation_def Let_def run_simps intro: exI [of _ False])
  then obtain hardware where "detect_hardware_attestation E config (w\<lparr>w_draws := Suc (w_draws w)\<rparr>) =
      (Ok hardware, w\<lparr>w_draws := Suc (w_draws w)\<rparr>)" by blast
  ultimately obtain em w1 where em: "load_or_init_encryption E config paths w = (Ok em, w1)" "\<not> w_locked w1" "w_files w1 = w_files w"
      "w_db w1 = w_db w"
    using assms(1)
    by (simp add: load_or_init_encryption_def generate_keypair_def run_simps Let_def)
  obtain w2 where "ensure_baseline_context E (make_brain E config paths em) w1 = (Ok (), w2)" "w_files w2 = w_files w1"
    using baseline_seeded [OF em(2) assms(2) _ assms(4)] assms(3) em(4) by auto
  with em show ?thesis
    by (simp add: bootstrap_def new_tool_executor_def context_act_def tools new_brain_def Let_def run_simps make_engine_def)
qed

section \<open>A machine\<close>

definition sample_project :: project_dirs where
  "sample_project = \<lparr>pd_config_dir = ''/c'', pd_data_dir = ''/d'', pd_state_dir = None, pd_cache_dir = ''/s''\<rparr>"

definition sample_paths :: openpinch_paths where
  "sample_paths = (case discover (Some sample_project) of Ok p \<Rightarrow> p | _ \<Rightarrow> demo_paths)"

definition sample_status :: runtime_status where
  "sample_status = \<lparr>rs_status = ''running'', rs_version = [], rs_runtime_endpoint = [], rs_gateway_endpoint = [],
     rs_enabled_connectors = [], rs_available_model_backends = [], rs_uptime_seconds = 0, rs_started_at = 0, rs_data_dir = [],
     rs_log_file = [], rs_vector_memory_backend = [], rs_encryption_state = [], rs_audit_mode = [], rs_attestation_state = []\<rparr>"

definition sample_host_state :: desktop_host_state where
  "sample_host_state = running_state setting_outside sample_config sample_paths (''unix://'' @ pa_runtime_socket sample_paths)"

definition host_matrix :: json where
  "host_matrix = json_obj [(''version'', JStr ''1''), (''default_capabilities'', JArr []), (''subjects'', JObj [])]"

text \<open>
  A JSON codec that reads back whatever it wrote: a value is written as its number, in tally marks. The
  clock stands still, and the gateway answers the first connection only.
\<close>

instance json :: countable
  by countable_datatype

definition host_env :: env where
  "host_env = sample_env\<lparr>E_sha256 := take 2, E_yaml_parse := (\<lambda>_. Some host_matrix),
     E_json_pretty := (\<lambda>j. replicate (to_nat j) (CHR ''1'')), E_json_parse := (\<lambda>s. Some (from_nat (length s))),
     E_time := (\<lambda>_. 0), E_parse_time := (\<lambda>_. Some 0)\<rparr>"

definition host_outside :: outside where
  "host_outside = setting_outside\<lparr>x_env := host_env, x_connects := (\<lambda>n _. n = 0),
     x_reply := (\<lambda>_ _. Inr (Status_Reply sample_status))\<rparr>"

text \<open>Every file is there, but that of a host.\<close>

definition host_terminal :: terminal where
  "host_terminal = sample_terminal (\<lambda>p. if p = desktop_host_state_file sample_paths then None else Some ''p'')"

lemma sample_paths: "discover (Some sample_project) = Ok sample_paths"
  by (simp add: sample_paths_def discover_def Let_def)

lemma utf8_p: "from_utf8 ''p'' = Some ''p''"
  by code_simp

lemma host_env_fields:
  "E_yaml_parse host_env = (\<lambda>_. Some host_matrix)" "E_cwd host_env = Some ''/work''"
  "E_json_parse host_env (E_json_pretty host_env j) = Some j" "E_parse_time host_env = (\<lambda>_. Some 0)" "E_time host_env = (\<lambda>_. 0)"
  by (simp_all add: host_env_def sample_env_def demo_env_def)

text \<open>The configurations the machine can start with: security and sandbox are the default ones.\<close>

definition usual :: "app_config \<Rightarrow> bool" where
  "usual config \<longleftrightarrow> cfg_security config = default_security \<and> cfg_sandbox config = default_sandbox"

lemma usual_samples: "usual sample_config" "usual default_config"
  by (simp_all add: usual_def sample_config_def default_config_def)

lemma usual_files:
  assumes "usual config"
  shows "key_file_path E config sample_paths = ''/d/keys/runtime.key''"
    and "resolve_path host_env (sc_matrix_path (sb_capabilities (cfg_sandbox config))) = ''/work/skills/policies/default.yaml''"
proof -
  have "pa_data_dir sample_paths = ''/d''" by code_simp
  then show "key_file_path E config sample_paths = ''/d/keys/runtime.key''"
    using assms by (simp add: usual_def key_file_path_def default_security_def default_encryption_def
        path_join_def path_is_absolute_def starts_with_def ends_with_def)
  show "resolve_path host_env (sc_matrix_path (sb_capabilities (cfg_sandbox config))) = ''/work/skills/policies/default.yaml''"
    using assms by (simp add: usual_def resolve_path_def current_dir_or_def host_env_def sample_env_def demo_env_def
        default_sandbox_def default_sandbox_capabilities_def path_join_def path_is_absolute_def starts_with_def ends_with_def)
qed

lemma host_state_file: "desktop_host_state_file sample_paths = ''/s/runtime/desktop-host.json''"
  by code_simp

text \<open>What a boot needs of the machine.\<close>

definition bootable :: "world \<Rightarrow> bool" where
  "bootable w \<longleftrightarrow> \<not> w_locked w \<and> t_relations (w_db w) = [] \<and> w_files w ''/d/keys/runtime.key'' = Some ''p'' \<and>
     w_files w ''/work/skills/policies/default.yaml'' = Some ''p''"

lemma sample_bootstrap:
  assumes "bootable w" and "usual config"
  shows "\<exists>en w'. bootstrap host_env config sample_paths w = (Ok en, w') \<and> w_files w' = w_files w \<and>
     en_paths en = sample_paths"
proof (rule bootstrap_succeeds)
  show "\<not> w_locked w" "t_relations (w_db w) = []" using assms(1) by (simp_all add: bootable_def)
  show "sealing host_env" by (simp add: sealing_def host_env_def sample_env_def)
  show "distinct (map (triple_id host_env) (baseline_relations (make_brain host_env config sample_paths em)))" for em
    by (simp add: baseline_relations_def triple_id_def relation_id_of_def prompt_hash_def host_env_def) code_simp
  have "matrix_of_json host_matrix \<noteq> None" by code_simp
  then show "fst (load_capability_matrix host_env (resolve_path host_env (sc_matrix_path (sb_capabilities (cfg_sandbox config))))
      w) = Ok (the (matrix_of_json host_matrix))"
    using assms(1) by (auto simp: load_capability_matrix_def read_text_def run_simps usual_files [OF assms(2)] bootable_def
        decode_bytes_def utf8_p host_env_fields)
  show "w_files w (key_file_path host_env config sample_paths) = Some ''p''"
    using assms(1) by (simp add: bootable_def usual_files [OF assms(2)])
  show "from_utf8 ''p'' = Some ''p''" by (rule utf8_p)
  show "E_b64_decode host_env (trim ''p'') \<noteq> None" by (simp add: host_env_def sample_env_def)
qed

text \<open>The gateway answers the first question, so the boot succeeds and the host watches.\<close>

lemma sample_wait:
  assumes "tm_connects t = 0"
  shows "wait_for_gateway host_outside ep ms t = (Ok (), t\<lparr>tm_connects := Suc (tm_connects t), tm_sent := tm_sent t @ [Get_Status]\<rparr>)"
proof -
  have "fetch_gateway_status host_outside ep t =
      (Ok sample_status, t\<lparr>tm_connects := Suc (tm_connects t), tm_sent := tm_sent t @ [Get_Status]\<rparr>)"
    using assms by (simp add: fetch_gateway_status_def connect_def in_context_def call_gateway_def run_simps host_outside_def status_of_def)
  then show ?thesis by (simp add: wait_for_gateway_def)
qed

lemma sample_boot:
  assumes "bootable (tm_world t)" and "tm_connects t = 0" and "usual config"
  shows "\<exists>t'. boot_runtime_sidecars host_outside config sample_paths t =
     (Ok (''unix://'' @ pa_runtime_socket sample_paths), t') \<and> tm_connects t' = 1 \<and>
     w_files (tm_world t') ''/c/config.toml'' = w_files (tm_world t) ''/c/config.toml''"
proof -
  have files: "''/c/config.toml'' \<noteq> pa_runtime_socket sample_paths" "''/c/config.toml'' \<noteq> pa_runtime_state_file sample_paths"
    by code_simp+
  have x: "x_env host_outside = host_env" "x_bind host_outside = (\<lambda>_. True)" "x_spawn host_outside = (\<lambda>_. True)"
    by (simp_all add: host_outside_def setting_outside_def)
  from sample_bootstrap [OF assms(1,3)] assms(2) show ?thesis
    by (auto simp: sample_wait boot_runtime_sidecars_def run_simps on_machine_def start_private_rpc_def write_runtime_state_def
        engine_status_def spawn_gateway_def Let_def x files host_env_fields)
qed

lemma sample_host_starts:
  "\<exists>t. start_desktop_host host_outside sample_config sample_paths False host_terminal = (Ok (Watching sample_host_state), t)"
proof -
  have none: "w_files (tm_world host_terminal) (desktop_host_state_file sample_paths) = None"
    by (simp add: host_terminal_def sample_terminal_def)
  then have "healthy_desktop_host host_outside sample_paths host_terminal = (Ok None, host_terminal)"
    by (simp add: healthy_desktop_host_def load_desktop_host_state_def run_simps attempt_run)
  moreover obtain t1 where removed: "remove_host_files sample_paths host_terminal = (Ok (), t1)" "bootable (tm_world t1)" "tm_connects t1 = 0"
  proof -
    have "desktop_shutdown_file sample_paths = ''/s/runtime/desktop-host.shutdown''" by code_simp
    then show ?thesis using that
      by (simp add: remove_host_files_def run_simps on_machine_def bootable_def host_state_file host_terminal_def sample_terminal_def
          boot_world_def)
  qed
  moreover obtain t2 where "boot_runtime_sidecars host_outside sample_config sample_paths t1 =
      (Ok (''unix://'' @ pa_runtime_socket sample_paths), t2)"
    using sample_boot [OF removed(2,3) usual_samples(1)] by blast
  moreover have "running_state host_outside sample_config sample_paths (''unix://'' @ pa_runtime_socket sample_paths) = sample_host_state"
    by (simp add: running_state_def now_unix_timestamp_def sample_host_state_def host_outside_def setting_outside_def)
  ultimately show ?thesis
    by (simp add: start_desktop_host_def andthen_run Let_def)
       (simp add: run_simps on_machine_def write_desktop_host_state_def emit_def)
qed

lemma sample_start:
  "\<exists>t. start_runtime host_outside sample_config sample_paths True False host_terminal = (Ok (), t) \<and> tm_connects t = 1"
proof -
  have "bootable (tm_world host_terminal)" "tm_connects host_terminal = 0"
    by (simp_all add: bootable_def host_state_file host_terminal_def sample_terminal_def boot_world_def)
  from sample_boot [OF this usual_samples(1)] show ?thesis
    by (auto simp: start_runtime_def run_simps shutdown_runtime_sidecars_def shutdown_handle_def on_machine_def)
qed

end
