(* ===== verification/Startup_Facts.thy ===== *)
theory Startup_Facts
  imports Startup_Sample
begin

text \<open>
  The life of the processes: what a start leaves running, and the desktop host - how it ends, what it
  leaves behind, how it is stopped by another process.
\<close>

section \<open>Starting and stopping\<close>

text \<open>What runs or lies around of the runtime: the gateway's process, the engine's server and its socket.\<close>

definition nothing_left :: "openpinch_paths \<Rightarrow> terminal \<Rightarrow> bool" where
  "nothing_left paths t \<longleftrightarrow> \<not> tm_gateway t \<and> \<not> tm_engine t \<and> w_files (tm_world t) (pa_runtime_socket paths) = None"

lemma shutdown_run:
  "shutdown_runtime_sidecars paths t =
     (Ok (), t\<lparr>tm_gateway := False, tm_engine := False,
        tm_world := (tm_world t)\<lparr>w_files := (w_files (tm_world t))(pa_runtime_socket paths := None)\<rparr>\<rparr>)"
  by (simp add: shutdown_runtime_sidecars_def shutdown_handle_def on_machine_def run_simps)

lemma shutdown_leaves_nothing:
  "shutdown_runtime_sidecars paths t = (r, t') \<Longrightarrow> r = Ok () \<and> nothing_left paths t' \<and> tm_out t' = tm_out t"
  by (auto simp: shutdown_run nothing_left_def)

text \<open>A sequence either ran its first step and went on, or stopped there.\<close>

lemma andthenE:
  assumes "andthen m f s = (r, s')"
  obtains (Next) a s1 where "m s = (Ok a, s1)" "f a s1 = (r, s')"
    | (Stop) q where "m s = (q, s')" "\<not> is_ok q" "\<not> is_ok r"
  using assms by (cases "m s"; cases "fst (m s)") (auto simp: run_simps)

text \<open>\<open>on_machine\<close> leaves the processes alone.\<close>

definition same_processes :: "terminal \<Rightarrow> terminal \<Rightarrow> bool" where
  "same_processes t t' \<longleftrightarrow> tm_gateway t' = tm_gateway t \<and> tm_engine t' = tm_engine t \<and> tm_spawned t' = tm_spawned t"

lemma on_machine_processes: "on_machine m t = (r, t') \<Longrightarrow> same_processes t t'"
  by (auto simp: on_machine_def same_processes_def split: prod.splits)

lemma emit_effect:
  "emit x json v fallback t = (r, t') \<Longrightarrow> r = Ok () \<and> tm_world t' = tm_world t \<and> same_processes t t'"
  by (auto simp: emit_def run_simps same_processes_def split: if_splits)

text \<open>If the gateway's process was started at all, the socket is bound and the engine's server runs.\<close>

lemma spawn_outcome:
  "spawn_gateway x config paths ep t = (r, t') \<Longrightarrow> tm_engine t' = tm_engine t \<and> tm_world t' = tm_world t \<and>
     (if is_ok r then tm_gateway t' else tm_gateway t' = tm_gateway t \<and> tm_spawned t' = tm_spawned t)"
  by (auto simp: spawn_gateway_def run_simps on_machine_def of_option_def Let_def split: option.splits if_splits)

lemma rpc_outcome:
  "start_private_rpc x paths t = (r, t') \<Longrightarrow> tm_spawned t' = tm_spawned t \<and> tm_gateway t' = tm_gateway t \<and>
     (is_ok r \<longrightarrow> tm_engine t' \<and> w_files (tm_world t') (pa_runtime_socket paths) \<noteq> None)"
  by (auto simp: start_private_rpc_def run_simps on_machine_def Let_def split: if_splits)

lemma state_outcome:
  "on_machine (write_runtime_state E en listen ep) t = (r, t') \<Longrightarrow> same_processes t t' \<and> is_ok r \<and>
     (w_files (tm_world t) p \<noteq> None \<longrightarrow> w_files (tm_world t') p \<noteq> None)"
  by (auto simp: write_runtime_state_def engine_status_def run_simps on_machine_def same_processes_def)

lemma wait_outcome: "wait_for_gateway x ep timeout t = (r, t') \<Longrightarrow> returns r \<and> same_but_calls t t'"
  using wait_from_bounded [of x ep timeout 0 t] unfolding wait_for_gateway_def by simp

text \<open>
  A boot either stops before it starts the gateway, or everything runs, whether it succeeds or not. (As it
  returns; the server is a task of the process and ends with it, the gateway is a process of its own.)
\<close>

definition booted :: "openpinch_paths \<Rightarrow> terminal \<Rightarrow> bool" where
  "booted paths t \<longleftrightarrow> tm_gateway t \<and> tm_engine t \<and> w_files (tm_world t) (pa_runtime_socket paths) \<noteq> None"

lemma boot_outcome:
  assumes "boot_runtime_sidecars x config paths t = (r, t')"
  shows "(tm_spawned t' = tm_spawned t \<and> tm_gateway t' = tm_gateway t \<and> \<not> is_ok r) \<or> booted paths t'"
  using assms unfolding boot_runtime_sidecars_def Let_def
proof (cases rule: andthenE)
  case (Next en t1)
  note same1 = on_machine_processes [OF Next(1)]
  from Next(2) show ?thesis
  proof (cases rule: andthenE)
    case rpc: (Next ep t2)
    from rpc(2) show ?thesis
    proof (cases rule: andthenE)
      case state: (Next u t3)
      note s3 = state_outcome [OF state(1), of "pa_runtime_socket paths"]
      from state(2) show ?thesis
      proof (cases rule: andthenE)
        case spawn: (Next v t4)
        from spawn(2) have "same_but_calls t4 t'"
          by (cases rule: andthenE) (auto dest!: wait_outcome simp: ret_def)
        then show ?thesis using spawn_outcome [OF spawn(1)] rpc_outcome [OF rpc(1)] s3
          by (simp add: booted_def same_but_calls_def same_processes_def)
      qed (use same1 rpc_outcome [OF rpc(1)] s3 in \<open>auto dest!: spawn_outcome simp: same_processes_def\<close>)
    qed (auto dest: state_outcome)
  qed (use same1 in \<open>auto dest!: rpc_outcome simp: same_processes_def\<close>)
qed (auto dest!: on_machine_processes simp: same_processes_def)

text \<open>A gateway that never accepts a connection makes the wait fail.\<close>

lemma wait_unreachable:
  "(\<forall>n. \<not> x_connects x n (''http://'' @ ep)) \<Longrightarrow> wait_from x ep timeout elapsed t = (r, t') \<Longrightarrow> \<not> is_ok r"
proof (induction x ep timeout elapsed t arbitrary: r t' rule: wait_from.induct)
  case (1 x ep timeout elapsed t)
  have "fetch_gateway_status x ep t =
      (Err (Msg (''failed to connect to gateway at '' @ ep)), t\<lparr>tm_connects := Suc (tm_connects t)\<rparr>)"
    using "1.prems"(1) by (simp add: fetch_gateway_status_def run_simps)
  with "1.prems" "1.IH" show ?case by (auto split: if_splits)
qed

lemma boot_unreachable:
  assumes "\<forall>n. \<not> x_connects x n (gateway_address config)" and "boot_runtime_sidecars x config paths t = (r, t')"
  shows "\<not> is_ok r"
proof
  assume "is_ok r"
  with assms(2) obtain t4 t5 where "wait_for_gateway x (g_listen_address (cfg_gateway config)) 5000 t4 = (Ok (), t5)"
    unfolding boot_runtime_sidecars_def Let_def by (auto elim!: andthenE)
  with assms(1) show False
    using wait_unreachable [of x "g_listen_address (cfg_gateway config)"]
    by (fastforce simp: wait_for_gateway_def gateway_address_def)
qed



lemma path_join_inject:
  "\<not> path_is_absolute p \<Longrightarrow> \<not> path_is_absolute q \<Longrightarrow> path_join b p = path_join b q \<longleftrightarrow> p = q"
  by (simp add: path_join_def)

section \<open>What a run leaves to be read\<close>

text \<open>The laws of \<open>serde_json\<close> and \<open>chrono\<close> that the state file rests on: what is written is read back, and the clock stays in range.\<close>

definition state_codec :: "env \<Rightarrow> bool" where
  "state_codec E \<longleftrightarrow> (\<forall>s. E_json_parse E (E_json_pretty E (status_json E s)) = Some (status_json E s)) \<and>
     (\<forall>n. E_parse_time E (serde_time E (E_time E n)) = Some (E_time E n)) \<and>
     (\<forall>m n. \<bar>num_seconds (E_time E n - E_time E m)\<bar> < 2 ^ 63)"

lemma bootstrap_engine:
  "bootstrap E config paths w = (Ok en, w') \<Longrightarrow> en_paths en = paths \<and> (\<exists>n. en_started_at en = E_time E n)"
  by (auto simp: bootstrap_def make_engine_def utc_now_def ret_def elim!: andthenE)

text \<open>After a boot the state file tells the endpoints.\<close>

definition tells :: "env \<Rightarrow> openpinch_paths \<Rightarrow> string \<Rightarrow> terminal \<Rightarrow> bool" where
  "tells E paths gateway t \<longleftrightarrow> (\<exists>s. fst (load_runtime_status E paths (tm_world t)) = Ok s \<and> rs_gateway_endpoint s = gateway \<and>
     rs_runtime_endpoint s = ''unix://'' @ pa_runtime_socket paths \<and> rs_log_file s = pa_log_file paths)"

lemma tells_files:
  "tells E paths gateway t \<Longrightarrow> w_files (tm_world t') (pa_runtime_state_file paths) = w_files (tm_world t) (pa_runtime_state_file paths) \<Longrightarrow>
     tells E paths gateway t'"
  by (auto simp: tells_def load_runtime_status_def run_simps split: option.splits)

lemma written_tells:
  assumes "bootstrap E config paths w = (Ok en, w')" and "state_codec E" and "en_paths en = paths"
    and "on_machine (write_runtime_state E en gateway (''unix://'' @ pa_runtime_socket paths)) t = (Ok u, t')"
  shows "tells E paths gateway t'"
proof -
  obtain n where "en_started_at en = E_time E n" using bootstrap_engine [OF assms(1)] by blast
  with assms(2-) show ?thesis
    by (auto simp: tells_def load_runtime_status_def write_runtime_state_def engine_status_def on_machine_def run_simps
        state_codec_def status_file.read_back storable_status_def)
qed

lemma boot_tells:
  assumes "boot_runtime_sidecars x config paths t = (Ok ep, t')" and "state_codec (x_env x)"
  shows "tells (x_env x) paths (g_listen_address (cfg_gateway config)) t'"
  using assms(1) unfolding boot_runtime_sidecars_def Let_def
proof (cases rule: andthenE)
  case (Next en t1)
  then have boot: "\<exists>w'. bootstrap (x_env x) config paths (tm_world t) = (Ok en, w')"
    by (auto simp: on_machine_def split: prod.splits)
  from Next(2) show ?thesis
  proof (cases rule: andthenE)
    case rpc: (Next ep' t2)
    then have ep: "ep' = ''unix://'' @ pa_runtime_socket paths"
      by (auto simp: start_private_rpc_def run_simps on_machine_def Let_def split: if_splits)
    from rpc(2) show ?thesis
    proof (cases rule: andthenE)
      case state: (Next u t3)
      then have told: "tells (x_env x) paths (g_listen_address (cfg_gateway config)) t3"
        using boot bootstrap_engine written_tells [OF _ assms(2)] ep by blast
      from state(2) show ?thesis
      proof (cases rule: andthenE)
        case spawn: (Next v t4)
        from spawn(2) have "same_but_calls t4 t'"
          by (cases rule: andthenE) (auto dest!: wait_outcome simp: ret_def)
        with spawn_outcome [OF spawn(1)] show ?thesis by (intro tells_files [OF told]) (simp add: same_but_calls_def)
      qed simp
    qed simp
  qed simp
qed simp

lemma run_tells:
  assumes "start_runtime x config paths foreground json t = (Ok (), t')" and "state_codec (x_env x)"
    and "pa_runtime_state_file paths \<noteq> pa_runtime_socket paths"
  shows "tells (x_env x) paths (g_listen_address (cfg_gateway config)) t'"
  using assms(1) unfolding start_runtime_def
proof (cases rule: andthenE)
  case (Next ep t1)
  note told = boot_tells [OF Next(1) assms(2)]
  from Next(2) show ?thesis
  proof (cases rule: andthenE)
    case inner: (Next u t2)
    have "tm_world t2 = tm_world t1" using inner(1) by (cases foreground) (auto simp: ret_def dest!: emit_effect)
    with inner(2) assms(3) show ?thesis by (intro tells_files [OF told]) (auto simp: shutdown_run)
  qed simp
qed simp

text \<open>C17.
  The runtime's state outlives its run: after a \<open>start\<close> that succeeded and ended, with the gateway gone,
  \<open>status\<close> succeeds and prints the gateway as unavailable and the endpoints and the log of that run.
\<close>

theorem last_run_remembered:
  assumes "discover project = Ok paths" and "start_runtime x config paths foreground json t0 = (Ok (), t)"
    and "state_codec (x_env x)" and "\<forall>n \<ge> tm_connects t. \<not> x_connects x n (gateway_address config)"
  shows "\<exists>t'. show_status x config paths False t = (Ok (), t') \<and> tm_out t' = tm_out t @
    [join nl [''status: gateway unavailable'', ''last known runtime: unix://'' @ pa_runtime_socket paths,
       ''last known gateway: '' @ g_listen_address (cfg_gateway config), ''log file: '' @ pa_log_file paths]]"
proof -
  have "pa_runtime_state_file paths \<noteq> pa_runtime_socket paths"
    using assms(1) by (auto simp: discover_def Let_def path_join_inject path_is_absolute_def starts_with_def split: option.splits)
  from run_tells [OF assms(2,3) this] obtain s where s: "load_runtime_status (x_env x) paths (tm_world t) = (Ok s, tm_world t)"
      "rs_gateway_endpoint s = g_listen_address (cfg_gateway config)" "rs_runtime_endpoint s = ''unix://'' @ pa_runtime_socket paths"
      "rs_log_file s = pa_log_file paths"
    by (auto simp: tells_def load_runtime_status_def run_simps split: option.splits)
  have "fetch_gateway_status x (g_listen_address (cfg_gateway config)) t =
      (Err (Msg (''failed to connect to gateway at '' @ g_listen_address (cfg_gateway config))), t\<lparr>tm_connects := Suc (tm_connects t)\<rparr>)"
    using assms(4) by (simp add: fetch_gateway_status_def connect_def gateway_address_def run_simps)
  with s show ?thesis
    by (simp add: show_status_def attempt_run run_simps in_context_def on_machine_def emit_def println_def cached_text_def)
qed

theorem last_run_remembered_witness:
  "\<exists>t t'. start_runtime host_outside sample_config sample_paths True False host_terminal = (Ok (), t) \<and>
     show_status host_outside sample_config sample_paths False t = (Ok (), t')"
proof -
  obtain t where t: "start_runtime host_outside sample_config sample_paths True False host_terminal = (Ok (), t)" "tm_connects t = 1"
    using sample_start by blast
  have "state_codec (x_env host_outside)"
    by (simp add: state_codec_def host_outside_def host_env_fields num_seconds_def)
  moreover have "\<forall>n \<ge> tm_connects t. \<not> x_connects host_outside n (gateway_address sample_config)"
    by (simp add: t(2) host_outside_def)
  ultimately show ?thesis using last_run_remembered [OF sample_paths t(1)] t(1) by blast
qed

section \<open>The desktop host\<close>

text \<open>The files of the runtime directory are apart.\<close>

lemma host_paths:
  assumes "discover project = Ok paths"
  shows "desktop_host_state_file paths \<noteq> desktop_shutdown_file paths"
    and "desktop_host_state_file paths \<noteq> pa_runtime_socket paths"
    and "desktop_shutdown_file paths \<noteq> pa_runtime_socket paths"
proof -
  obtain dir where "pa_runtime_dir paths = dir" "pa_runtime_socket paths = path_join dir ''engine.sock''"
    using assms by (auto simp: discover_def Let_def split: option.splits)
  then show "desktop_host_state_file paths \<noteq> desktop_shutdown_file paths"
    "desktop_host_state_file paths \<noteq> pa_runtime_socket paths" "desktop_shutdown_file paths \<noteq> pa_runtime_socket paths"
    by (simp_all add: desktop_host_state_file_def desktop_shutdown_file_def path_join_inject path_is_absolute_def starts_with_def)
qed

text \<open>What holds of a host that watches, and what it leaves when it has ended, well or because the gateway died.\<close>

definition state_written :: "outside \<Rightarrow> openpinch_paths \<Rightarrow> desktop_host_state \<Rightarrow> terminal \<Rightarrow> bool" where
  "state_written x paths s t \<longleftrightarrow>
     w_files (tm_world t) (desktop_host_state_file paths) = Some (E_json_pretty (x_env x) (host_state_json s))"

definition no_host_files :: "openpinch_paths \<Rightarrow> terminal \<Rightarrow> bool" where
  "no_host_files paths t \<longleftrightarrow> w_files (tm_world t) (desktop_host_state_file paths) = None \<and>
     w_files (tm_world t) (desktop_shutdown_file paths) = None"

definition serving :: "openpinch_paths \<Rightarrow> terminal \<Rightarrow> bool" where
  "serving paths t \<longleftrightarrow> tm_engine t \<and> w_files (tm_world t) (pa_runtime_socket paths) \<noteq> None"

fun host_ok :: "outside \<Rightarrow> openpinch_paths \<Rightarrow> desktop_host_state \<Rightarrow> terminal \<times> host_phase \<Rightarrow> bool" where
  "host_ok x paths s (t, Watching s') \<longleftrightarrow> s' = s \<and> serving paths t \<and> state_written x paths s t"
| "host_ok x paths s (t, Host_Done r) \<longleftrightarrow>
     (if is_ok r then nothing_left paths t \<and> no_host_files paths t
      else (\<exists>e. r = Err e) \<and> serving paths t \<and> \<not> tm_gateway t \<and> state_written x paths (gateway_exited s) t)"

lemma started_host_ok:
  assumes "discover project = Ok paths" and "start_desktop_host x config paths json_output t0 = (Ok (Watching s), t)"
  shows "host_ok x paths s (t, Watching s)"
  using assms(2) unfolding start_desktop_host_def
proof (cases rule: andthenE)
  case (Next running t1)
  then have none: "running = None" by (auto simp: ret_def elim!: andthenE split: option.splits)
  from Next(2) [unfolded none option.case] show ?thesis
  proof (cases rule: andthenE)
    case removed: (Next u t2)
    from removed(2) show ?thesis
    proof (cases rule: andthenE)
      case booted: (Next endpoint t3)
      note b = boot_outcome [OF booted(1)]
      from booted(2) have "s = running_state x config paths endpoint"
          "tm_engine t = tm_engine t3"
          "w_files (tm_world t) = (w_files (tm_world t3))(desktop_host_state_file paths \<mapsto> E_json_pretty (x_env x) (host_state_json s))"
        by (auto simp: Let_def run_simps on_machine_def write_desktop_host_state_def emit_def split: if_splits)
      with b host_paths [OF assms(1)] show ?thesis by (auto simp: serving_def booted_def state_written_def)
    qed simp
  qed simp
qed simp

lemma close_host_run:
  assumes "discover project = Ok paths"
  shows "\<exists>t'. close_host paths t = (Ok (), t') \<and> nothing_left paths t' \<and> no_host_files paths t'"
  using host_paths [OF assms]
  by (auto simp: close_host_def remove_host_files_def run_simps on_machine_def shutdown_run nothing_left_def no_host_files_def)

text \<open>The commands other processes run: they leave the processes and, but for the request to stop, the files.\<close>

lemma await_removal_run: "await_removal n p t = (Ok (), t)"
  by (induction n) (simp_all add: run_simps on_machine_def)

lemma health_effect:
  assumes "show_desktop_health x paths json_output t = (r, t')"
  shows "tm_world t' = tm_world t \<and> same_processes t t'"
proof -
  have load: "on_machine (load_desktop_host_state E paths) t1 = (q, t2) \<Longrightarrow> t2 = t1" for E q t1 t2
    by (auto simp: load_desktop_host_state_def on_machine_def run_simps split: option.splits)
  show ?thesis using assms unfolding show_desktop_health_def
    by (auto elim!: andthenE simp: attempt_run Let_def same_processes_def same_but_calls_def
        dest!: load wait_outcome emit_effect split: prod.splits res.splits sum.splits)
qed

lemma second_host_effect:
  assumes "start_desktop_host x config paths json_output t = (Ok (Host_Done r), t')"
  shows "tm_world t' = tm_world t \<and> same_processes t t'"
proof -
  have load: "on_machine (load_desktop_host_state E paths) t1 = (q, t2) \<Longrightarrow> t2 = t1" for E q t1 t2
    by (auto simp: load_desktop_host_state_def on_machine_def run_simps split: option.splits)
  have healthy: "healthy_desktop_host x paths t = (Ok (Some s), t1) \<Longrightarrow> same_but_calls t t1" for s t1
    unfolding healthy_desktop_host_def
    by (auto elim!: andthenE simp: attempt_run ret_def same_but_calls_def dest!: load wait_outcome
        split: prod.splits res.splits sum.splits)
  show ?thesis using assms unfolding start_desktop_host_def
  proof (cases rule: andthenE)
    case (Next running t1)
    then obtain s where "running = Some s" by (auto simp: ret_def Let_def elim!: andthenE split: option.splits)
    with Next show ?thesis
      by (auto simp: ret_def same_but_calls_def same_processes_def elim!: andthenE dest!: healthy emit_effect)
  qed simp
qed

text \<open>What a request to stop does: it is written if the state's file can be read, and refused otherwise.\<close>

definition readable_state :: "outside \<Rightarrow> openpinch_paths \<Rightarrow> terminal \<Rightarrow> bool" where
  "readable_state x paths t \<longleftrightarrow> is_ok (fst (load_desktop_host_state (x_env x) paths (tm_world t)))"

lemma shutdown_effect:
  assumes "shutdown_desktop_host x paths json_output t = (r, t')"
  shows "same_processes t t' \<and> (if readable_state x paths t
     then r = Ok () \<and> w_files (tm_world t') = (w_files (tm_world t))(desktop_shutdown_file paths \<mapsto> ''shutdown'')
     else \<not> is_ok r \<and> tm_world t' = tm_world t)"
proof -
  have load: "snd (load_desktop_host_state (x_env x) paths w) = w" for w
    by (auto simp: load_desktop_host_state_def run_simps split: option.splits)
  obtain q where q: "load_desktop_host_state (x_env x) paths (tm_world t) = (q, tm_world t)"
    using load [of "tm_world t"] by (cases "load_desktop_host_state (x_env x) paths (tm_world t)") simp
  show ?thesis
  proof (cases q)
    case (Ok s)
    with q assms show ?thesis unfolding shutdown_desktop_host_def
      by (auto simp: run_simps in_context_def on_machine_def await_removal_run readable_state_def same_processes_def dest!: emit_effect)
  qed (use q assms in \<open>auto simp: shutdown_desktop_host_def run_simps in_context_def on_machine_def readable_state_def
      same_processes_def\<close>)
qed

lemma gone_unreadable: "no_host_files paths t \<Longrightarrow> \<not> readable_state x paths t"
  by (simp add: no_host_files_def readable_state_def load_desktop_host_state_def run_simps)

lemma host_ok_files:
  assumes "host_ok x paths s (t, p)" and "tm_engine t' = tm_engine t" and "tm_gateway t' \<longrightarrow> tm_gateway t"
    and "w_files (tm_world t') (pa_runtime_socket paths) = w_files (tm_world t) (pa_runtime_socket paths)"
    and "w_files (tm_world t') (desktop_host_state_file paths) = w_files (tm_world t) (desktop_host_state_file paths)"
    and "w_files (tm_world t) (desktop_host_state_file paths) = None \<longrightarrow>
      w_files (tm_world t') (desktop_shutdown_file paths) = w_files (tm_world t) (desktop_shutdown_file paths)"
  shows "host_ok x paths s (t', p)"
  using assms
  by (cases p) (auto simp: serving_def state_written_def nothing_left_def no_host_files_def split: if_splits)

lemma tick_ok:
  assumes "discover project = Ok paths" and "host_ok x paths s (t, Watching s)"
  shows "host_ok x paths s (host_tick x paths status s t)"
proof (cases "w_files (tm_world t) (desktop_shutdown_file paths) = None")
  case True
  then show ?thesis using assms(2) host_paths [OF assms(1)]
    by (auto simp: host_tick_def on_machine_def write_desktop_host_state_def run_simps serving_def state_written_def)
next
  case False
  then show ?thesis using close_host_run [OF assms(1), of t] by (auto simp: host_tick_def)
qed

lemma step_ok:
  assumes paths: "discover project = Ok paths" and "host_step x paths c c'" and "host_ok x paths s c"
  shows "host_ok x paths s c'"
  using assms(2,3)
proof cases
  case (Signal t r t' s')
  then show ?thesis using close_host_run [OF paths, of t] by auto
next
  case (Tick status s' t)
  then show ?thesis using tick_ok [OF paths, of x s t status] assms(3) by auto
next
  case (Gateway_Exit t p)
  then show ?thesis using assms(3) by (auto intro: host_ok_files)
next
  case (Shutdown_Request json_output t r t' p)
  note e = shutdown_effect [OF Shutdown_Request(3)]
  have "w_files (tm_world t) (desktop_host_state_file paths) = None \<longrightarrow> \<not> readable_state x paths t"
    by (simp add: readable_state_def load_desktop_host_state_def run_simps)
  then show ?thesis unfolding Shutdown_Request(2)
    using e host_paths [OF paths] assms(3) [unfolded Shutdown_Request(1)]
    by (intro host_ok_files [of x paths s t p t']) (auto simp: same_processes_def split: if_splits)
next
  case (Health_Request json_output t r t' p)
  then show ?thesis using health_effect [OF Health_Request(3)] assms(3)
    by (auto simp: same_processes_def intro: host_ok_files)
next
  case (Second_Host config json_output t r t' p)
  then show ?thesis using second_host_effect [OF Second_Host(3)] assms(3)
    by (auto simp: same_processes_def intro: host_ok_files)
qed

lemma steps_ok:
  assumes "discover project = Ok paths" and "(host_step x paths)\<^sup>*\<^sup>* c c'" and "host_ok x paths s c"
  shows "host_ok x paths s c'"
  using assms(2,3) by (induction rule: rtranclp_induct) (auto intro: step_ok [OF assms(1)])



text \<open>What the host writes is read back, if \<open>serde_json\<close> reads what it wrote; a process id is a \<open>u32\<close>.\<close>

definition host_codec :: "env \<Rightarrow> desktop_host_state \<Rightarrow> bool" where
  "host_codec E s \<longleftrightarrow> dh_host_pid s < 2 ^ 32 \<and>
     E_json_parse E (E_json_pretty E (host_state_json s)) = Some (host_state_json s)"

lemma written_readable: "host_codec (x_env x) s \<Longrightarrow> state_written x paths s t \<Longrightarrow> readable_state x paths t"
  by (simp add: host_codec_def state_written_def readable_state_def load_desktop_host_state_def run_simps host_file.read_back)



end
