(* ===== verification/Gateway_Bridge.thy ===== *)
theory Gateway_Bridge
  imports Terminal
begin

text \<open>
  The gateway's client of the engine (\<open>gateway/internal/enginebridge/bridge.go\<close>): the Go structs, their
  copies from the engine's messages and (from \<open>gateway/internal/server/server.go\<close>) into the gateway's
  messages, and one function per method of the engine's service. The transport is a parameter: what a
  request does to the engine behind it, and its answer or the text of the error. A Go map of strings is
  its entries in key order.
\<close>

section \<open>The structs and their copies\<close>

record go_memory_record =
  gmem_key :: string
  gmem_namespace :: string
  gmem_content :: string
  gmem_metadata_json :: string
  gmem_score :: f64
  gmem_created_at :: string

definition decode_memory_record :: "proto_memory_record \<Rightarrow> go_memory_record" where
  "decode_memory_record m = \<lparr>
     gmem_key = pmr_key m, gmem_namespace = pmr_namespace m, gmem_content = pmr_content m,
     gmem_metadata_json = pmr_metadata_json m, gmem_score = pmr_score m, gmem_created_at = pmr_created_at m\<rparr>"

definition proto_memory_record_message :: "go_memory_record \<Rightarrow> proto_memory_record" where
  "proto_memory_record_message r = \<lparr>
     pmr_key = gmem_key r, pmr_namespace = gmem_namespace r, pmr_content = gmem_content r,
     pmr_metadata_json = gmem_metadata_json r, pmr_score = gmem_score r, pmr_created_at = gmem_created_at r\<rparr>"

record go_session_record =
  gses_id :: string
  gses_connector :: string
  gses_channel_id :: string
  gses_participant :: string
  gses_session_type :: string
  gses_title :: string
  gses_status :: string
  gses_reply_mode :: string
  gses_queue_mode :: string
  gses_model_profile :: string
  gses_mention_only :: bool
  gses_pending_pairing :: bool
  gses_last_message_preview :: string
  gses_message_count :: "32 word"
  gses_created_at :: string
  gses_updated_at :: string

definition decode_session_record :: "proto_session \<Rightarrow> go_session_record" where
  "decode_session_record m = \<lparr>
     gses_id = pse_id m, gses_connector = pse_connector m, gses_channel_id = pse_channel_id m,
     gses_participant = pse_participant m, gses_session_type = pse_session_type m, gses_title = pse_title m,
     gses_status = pse_status m, gses_reply_mode = pse_reply_mode m, gses_queue_mode = pse_queue_mode m,
     gses_model_profile = pse_model_profile m, gses_mention_only = pse_mention_only m,
     gses_pending_pairing = pse_pending_pairing m, gses_last_message_preview = pse_last_message_preview m,
     gses_message_count = pse_message_count m, gses_created_at = pse_created_at m, gses_updated_at = pse_updated_at m\<rparr>"

definition proto_session_record_message :: "go_session_record \<Rightarrow> proto_session" where
  "proto_session_record_message r = \<lparr>
     pse_id = gses_id r, pse_connector = gses_connector r, pse_channel_id = gses_channel_id r,
     pse_participant = gses_participant r, pse_session_type = gses_session_type r, pse_title = gses_title r,
     pse_status = gses_status r, pse_reply_mode = gses_reply_mode r, pse_queue_mode = gses_queue_mode r,
     pse_model_profile = gses_model_profile r, pse_mention_only = gses_mention_only r,
     pse_pending_pairing = gses_pending_pairing r, pse_last_message_preview = gses_last_message_preview r,
     pse_message_count = gses_message_count r, pse_created_at = gses_created_at r, pse_updated_at = gses_updated_at r\<rparr>"

record go_session_message =
  gsmg_id :: string
  gsmg_session_id :: string
  gsmg_connector :: string
  gsmg_role :: string
  gsmg_sender :: string
  gsmg_body :: string
  gsmg_metadata_json :: string
  gsmg_created_at :: string

definition decode_session_message :: "proto_session_message_record \<Rightarrow> go_session_message" where
  "decode_session_message m = \<lparr>
     gsmg_id = psm_id m, gsmg_session_id = psm_session_id m, gsmg_connector = psm_connector m, gsmg_role = psm_role m,
     gsmg_sender = psm_sender m, gsmg_body = psm_body m, gsmg_metadata_json = psm_metadata_json m,
     gsmg_created_at = psm_created_at m\<rparr>"

definition proto_session_message_message :: "go_session_message \<Rightarrow> proto_session_message_record" where
  "proto_session_message_message r = \<lparr>
     psm_id = gsmg_id r, psm_session_id = gsmg_session_id r, psm_connector = gsmg_connector r, psm_role = gsmg_role r,
     psm_sender = gsmg_sender r, psm_body = gsmg_body r, psm_metadata_json = gsmg_metadata_json r,
     psm_created_at = gsmg_created_at r\<rparr>"

record go_pairing_record =
  gpar_id :: string
  gpar_connector :: string
  gpar_channel_id :: string
  gpar_sender :: string
  gpar_session_id :: string
  gpar_status :: string
  gpar_reason :: string
  gpar_created_at :: string
  gpar_updated_at :: string

definition decode_pairing_record :: "proto_pairing \<Rightarrow> go_pairing_record" where
  "decode_pairing_record m = \<lparr>
     gpar_id = ppa_id m, gpar_connector = ppa_connector m, gpar_channel_id = ppa_channel_id m, gpar_sender = ppa_sender m,
     gpar_session_id = ppa_session_id m, gpar_status = ppa_status m, gpar_reason = ppa_reason m,
     gpar_created_at = ppa_created_at m, gpar_updated_at = ppa_updated_at m\<rparr>"

definition proto_pairing_record_message :: "go_pairing_record \<Rightarrow> proto_pairing" where
  "proto_pairing_record_message r = \<lparr>
     ppa_id = gpar_id r, ppa_connector = gpar_connector r, ppa_channel_id = gpar_channel_id r, ppa_sender = gpar_sender r,
     ppa_session_id = gpar_session_id r, ppa_status = gpar_status r, ppa_reason = gpar_reason r,
     ppa_created_at = gpar_created_at r, ppa_updated_at = gpar_updated_at r\<rparr>"

record go_doctor_finding =
  gdf_id :: string
  gdf_component :: string
  gdf_severity :: string
  gdf_status :: string
  gdf_summary :: string
  gdf_detail :: string

definition decode_doctor_finding :: "doctor_finding \<Rightarrow> go_doctor_finding" where
  "decode_doctor_finding m = \<lparr>
     gdf_id = df_id m, gdf_component = df_component m, gdf_severity = df_severity m, gdf_status = df_status m,
     gdf_summary = df_summary m, gdf_detail = df_detail m\<rparr>"

definition proto_doctor_finding_message :: "go_doctor_finding \<Rightarrow> doctor_finding" where
  "proto_doctor_finding_message r = \<lparr>
     df_id = gdf_id r, df_component = gdf_component r, df_severity = gdf_severity r, df_status = gdf_status r,
     df_summary = gdf_summary r, df_detail = gdf_detail r\<rparr>"

record go_model_profile =
  gmp_name :: string
  gmp_provider_order :: "string list"
  gmp_mode :: string
  gmp_timeout_seconds :: nat
  gmp_retry_budget :: nat
  gmp_hosted :: bool
  gmp_auth_mode :: string
  gmp_default_profile :: bool

definition decode_model_profile :: "model_profile_record \<Rightarrow> go_model_profile" where
  "decode_model_profile m = \<lparr>
     gmp_name = mpr_name m, gmp_provider_order = mpr_provider_order m, gmp_mode = mpr_mode m,
     gmp_timeout_seconds = mpr_timeout_seconds m, gmp_retry_budget = mpr_retry_budget m, gmp_hosted = mpr_hosted m,
     gmp_auth_mode = mpr_auth_mode m, gmp_default_profile = mpr_default_profile m\<rparr>"

definition proto_model_profile_message :: "go_model_profile \<Rightarrow> model_profile_record" where
  "proto_model_profile_message r = \<lparr>
     mpr_name = gmp_name r, mpr_provider_order = gmp_provider_order r, mpr_mode = gmp_mode r,
     mpr_timeout_seconds = gmp_timeout_seconds r, mpr_retry_budget = gmp_retry_budget r, mpr_hosted = gmp_hosted r,
     mpr_auth_mode = gmp_auth_mode r, mpr_default_profile = gmp_default_profile r\<rparr>"

record go_brain_entity =
  gbe_id :: string
  gbe_kind :: string
  gbe_subtype :: string
  gbe_title :: string
  gbe_content :: string
  gbe_scope_json :: string
  gbe_links_json :: string
  gbe_salience :: f64
  gbe_confidence :: f64
  gbe_archived :: bool
  gbe_created_at :: string
  gbe_updated_at :: string

definition decode_brain_entity :: "proto_entity \<Rightarrow> go_brain_entity" where
  "decode_brain_entity m = \<lparr>
     gbe_id = pen_id m, gbe_kind = pen_kind m, gbe_subtype = pen_subtype m, gbe_title = pen_title m,
     gbe_content = pen_content m, gbe_scope_json = pen_scope_json m, gbe_links_json = pen_links_json m,
     gbe_salience = pen_salience m, gbe_confidence = pen_confidence m, gbe_archived = pen_archived m,
     gbe_created_at = pen_created_at m, gbe_updated_at = pen_updated_at m\<rparr>"

definition proto_brain_entity_message :: "go_brain_entity \<Rightarrow> proto_entity" where
  "proto_brain_entity_message r = \<lparr>
     pen_id = gbe_id r, pen_kind = gbe_kind r, pen_subtype = gbe_subtype r, pen_title = gbe_title r,
     pen_content = gbe_content r, pen_scope_json = gbe_scope_json r, pen_links_json = gbe_links_json r,
     pen_salience = gbe_salience r, pen_confidence = gbe_confidence r, pen_archived = gbe_archived r,
     pen_created_at = gbe_created_at r, pen_updated_at = gbe_updated_at r\<rparr>"

record go_brain_fact =
  gbf_id :: string
  gbf_entity_id :: string
  gbf_content :: string
  gbf_scope_json :: string
  gbf_salience :: f64
  gbf_confidence :: f64
  gbf_archived :: bool
  gbf_created_at :: string
  gbf_updated_at :: string

definition decode_brain_fact :: "proto_fact \<Rightarrow> go_brain_fact" where
  "decode_brain_fact m = \<lparr>
     gbf_id = pfa_id m, gbf_entity_id = pfa_entity_id m, gbf_content = pfa_content m, gbf_scope_json = pfa_scope_json m,
     gbf_salience = pfa_salience m, gbf_confidence = pfa_confidence m, gbf_archived = pfa_archived m,
     gbf_created_at = pfa_created_at m, gbf_updated_at = pfa_updated_at m\<rparr>"

definition proto_brain_fact_message :: "go_brain_fact \<Rightarrow> proto_fact" where
  "proto_brain_fact_message r = \<lparr>
     pfa_id = gbf_id r, pfa_entity_id = gbf_entity_id r, pfa_content = gbf_content r, pfa_scope_json = gbf_scope_json r,
     pfa_salience = gbf_salience r, pfa_confidence = gbf_confidence r, pfa_archived = gbf_archived r,
     pfa_created_at = gbf_created_at r, pfa_updated_at = gbf_updated_at r\<rparr>"

record go_brain_relation =
  gbr_id :: string
  gbr_kind :: string
  gbr_from_id :: string
  gbr_to_id :: string
  gbr_metadata_json :: string
  gbr_confidence :: f64
  gbr_created_at :: string
  gbr_updated_at :: string

definition decode_brain_relation :: "proto_relation \<Rightarrow> go_brain_relation" where
  "decode_brain_relation m = \<lparr>
     gbr_id = prl_id m, gbr_kind = prl_kind m, gbr_from_id = prl_from_id m, gbr_to_id = prl_to_id m,
     gbr_metadata_json = prl_metadata_json m, gbr_confidence = prl_confidence m, gbr_created_at = prl_created_at m,
     gbr_updated_at = prl_updated_at m\<rparr>"

definition proto_brain_relation_message :: "go_brain_relation \<Rightarrow> proto_relation" where
  "proto_brain_relation_message r = \<lparr>
     prl_id = gbr_id r, prl_kind = gbr_kind r, prl_from_id = gbr_from_id r, prl_to_id = gbr_to_id r,
     prl_metadata_json = gbr_metadata_json r, prl_confidence = gbr_confidence r, prl_created_at = gbr_created_at r,
     prl_updated_at = gbr_updated_at r\<rparr>"

record go_brain_task =
  gbt_id :: string
  gbt_title :: string
  gbt_summary :: string
  gbt_status :: string
  gbt_priority :: string
  gbt_due_at :: string
  gbt_scope_json :: string
  gbt_links_json :: string
  gbt_salience :: f64
  gbt_confidence :: f64
  gbt_archived :: bool
  gbt_created_at :: string
  gbt_updated_at :: string

definition decode_brain_task :: "proto_task \<Rightarrow> go_brain_task" where
  "decode_brain_task m = \<lparr>
     gbt_id = ptk_id m, gbt_title = ptk_title m, gbt_summary = ptk_summary m, gbt_status = ptk_status m,
     gbt_priority = ptk_priority m, gbt_due_at = ptk_due_at m, gbt_scope_json = ptk_scope_json m,
     gbt_links_json = ptk_links_json m, gbt_salience = ptk_salience m, gbt_confidence = ptk_confidence m,
     gbt_archived = ptk_archived m, gbt_created_at = ptk_created_at m, gbt_updated_at = ptk_updated_at m\<rparr>"

definition proto_brain_task_message :: "go_brain_task \<Rightarrow> proto_task" where
  "proto_brain_task_message r = \<lparr>
     ptk_id = gbt_id r, ptk_title = gbt_title r, ptk_summary = gbt_summary r, ptk_status = gbt_status r,
     ptk_priority = gbt_priority r, ptk_due_at = gbt_due_at r, ptk_scope_json = gbt_scope_json r,
     ptk_links_json = gbt_links_json r, ptk_salience = gbt_salience r, ptk_confidence = gbt_confidence r,
     ptk_archived = gbt_archived r, ptk_created_at = gbt_created_at r, ptk_updated_at = gbt_updated_at r\<rparr>"

record go_brain_suggestion =
  gbs_id :: string
  gbs_task_id :: string
  gbs_summary :: string
  gbs_reason :: string
  gbs_score :: f64
  gbs_context_json :: string

definition decode_brain_suggestion :: "brain_suggestion_record \<Rightarrow> go_brain_suggestion" where
  "decode_brain_suggestion m = \<lparr>
     gbs_id = bs_id m, gbs_task_id = bs_task_id m, gbs_summary = bs_summary m, gbs_reason = bs_reason m,
     gbs_score = bs_score m, gbs_context_json = bs_context_json m\<rparr>"

definition proto_brain_suggestion_message :: "go_brain_suggestion \<Rightarrow> brain_suggestion_record" where
  "proto_brain_suggestion_message r = \<lparr>
     bs_id = gbs_id r, bs_task_id = gbs_task_id r, bs_summary = gbs_summary r, bs_reason = gbs_reason r,
     bs_score = gbs_score r, bs_context_json = gbs_context_json r\<rparr>"

record go_audit_event =
  gae_id :: string
  gae_category :: string
  gae_severity :: string
  gae_summary :: string
  gae_anomaly_score :: f64
  gae_payload_json :: string
  gae_created_at :: string

definition decode_audit_event :: "proto_event \<Rightarrow> go_audit_event" where
  "decode_audit_event m = \<lparr>
     gae_id = pev_id m, gae_category = pev_category m, gae_severity = pev_severity m, gae_summary = pev_summary m,
     gae_anomaly_score = pev_anomaly_score m, gae_payload_json = pev_payload_json m, gae_created_at = pev_created_at m\<rparr>"

definition proto_audit_event_message :: "go_audit_event \<Rightarrow> proto_event" where
  "proto_audit_event_message r = \<lparr>
     pev_id = gae_id r, pev_category = gae_category r, pev_severity = gae_severity r, pev_summary = gae_summary r,
     pev_anomaly_score = gae_anomaly_score r, pev_payload_json = gae_payload_json r, pev_created_at = gae_created_at r\<rparr>"

record go_execute_result =
  gex_success :: bool
  gex_summary :: string
  gex_data_json :: string
  gex_error :: string
  gex_logs :: "string list"

definition decode_execute_result :: "tool_outcome \<Rightarrow> go_execute_result" where
  "decode_execute_result m = \<lparr>gex_success = to_success m, gex_summary = to_summary m, gex_data_json = to_data_json m,
     gex_error = to_error m, gex_logs = to_logs m\<rparr>"

definition execute_result_message :: "go_execute_result \<Rightarrow> tool_outcome" where
  "execute_result_message r = \<lparr>to_success = gex_success r, to_summary = gex_summary r, to_data_json = gex_data_json r,
     to_error = gex_error r, to_logs = gex_logs r\<rparr>"

record go_message =
  gom_connector :: string
  gom_channel_id :: string
  gom_sender :: string
  gom_body :: string
  gom_metadata_json :: string

record go_message_result =
  gmr_accepted :: bool
  gmr_message_id :: string
  gmr_reply :: string
  gmr_session_id :: string
  gmr_pairing_id :: string
  gmr_delivery_state :: string

record go_health_result =
  ghr_status :: string
  ghr_missing_prerequisites :: "string list"
  ghr_sandbox_backend :: string
  ghr_vector_memory_backend :: string
  ghr_encryption_state :: string
  ghr_audit_mode :: string

record go_session_detail =
  gsd_session :: "go_session_record option"
  gsd_messages :: "go_session_message list"

record go_outbound_result =
  gor_accepted :: bool
  gor_message_id :: string
  gor_session_id :: string
  gor_status :: string
  gor_detail :: string

record go_doctor_report =
  gdr_status :: string
  gdr_findings :: "go_doctor_finding list"

record go_brain_remember_result =
  gbm_stored :: bool
  gbm_entity :: "go_brain_entity option"
  gbm_task :: "go_brain_task option"
  gbm_digest :: string

record go_brain_recall_result =
  gbc_summary :: string
  gbc_entities :: "go_brain_entity list"
  gbc_facts :: "go_brain_fact list"
  gbc_relations :: "go_brain_relation list"
  gbc_tasks :: "go_brain_task list"

record go_brain_suggest_result =
  gbg_summary :: string
  gbg_suggestions :: "go_brain_suggestion list"

record go_brain_task_list_result =
  gbl_summary :: string
  gbl_tasks :: "go_brain_task list"

record go_brain_forget_result =
  gbo_forgotten :: bool
  gbo_mode :: string
  gbo_target_id :: string

record go_attestation_result =
  gat_status :: string
  gat_subject :: string
  gat_platform :: string
  gat_hardware_backed :: bool
  gat_nonce :: string
  gat_public_key :: string
  gat_measurements :: "(string, string) btree"

record go_queue_receipt =
  gqr_accepted :: bool
  gqr_task_id :: string
  gqr_queue :: string
  gqr_message :: string

record go_policy_report =
  gpo_subject :: string
  gpo_allowed_capabilities :: "string list"
  gpo_denied_capabilities :: "string list"
  gpo_source :: string

record go_agent_message =
  gam_sender :: string
  gam_recipient :: string
  gam_body :: string
  gam_metadata_json :: string
  gam_encrypted_body :: string

record go_agent_protocol_result =
  gap_accepted :: bool
  gap_protocol_id :: string
  gap_transcript_json :: string
  gap_findings :: "string list"

section \<open>The calls\<close>

type_synonym 'e conn = "rpc_request \<Rightarrow> ('e, rpc_response) act"

text \<open>\<open>invoke\<close> fills the message of the method's response type; another one would not decode.\<close>

definition invoke :: "'e conn \<Rightarrow> rpc_request \<Rightarrow> (rpc_response \<Rightarrow> 'a option) \<Rightarrow> ('e, 'a) act" where
  "invoke conn req decode = andthen (conn req) (\<lambda>r. lift_res (of_option (Msg ''failed to decode the response'') (decode r)))"

definition bridge_run_tool :: "'e conn \<Rightarrow> string \<Rightarrow> string \<Rightarrow> bool \<Rightarrow> string \<Rightarrow> ('e, go_execute_result) act" where
  "bridge_run_tool conn target arguments_json allow_network priority =
     invoke conn (Run_Tool target arguments_json allow_network priority)
     (\<lambda>r. case r of Execute_Response m \<Rightarrow> Some (decode_execute_result m) | _ \<Rightarrow> None)"

definition bridge_run_skill :: "'e conn \<Rightarrow> string \<Rightarrow> string \<Rightarrow> ('e, go_execute_result) act" where
  "bridge_run_skill conn skill_id arguments_json = invoke conn (Run_Skill skill_id arguments_json)
     (\<lambda>r. case r of Execute_Response m \<Rightarrow> Some (decode_execute_result m) | _ \<Rightarrow> None)"

definition bridge_deliver_message :: "'e conn \<Rightarrow> go_message \<Rightarrow> ('e, go_message_result) act" where
  "bridge_deliver_message conn message =
     invoke conn (Deliver_Message (Some \<lparr>me_connector = gom_connector message, me_channel_id = gom_channel_id message,
       me_sender = gom_sender message, me_body = gom_body message, me_metadata_json = gom_metadata_json message\<rparr>))
     (\<lambda>r. case r of Submit_Message_Response accepted message_id reply session_id pairing_id delivery_state \<Rightarrow>
         Some \<lparr>gmr_accepted = accepted, gmr_message_id = message_id, gmr_reply = reply, gmr_session_id = session_id,
           gmr_pairing_id = pairing_id, gmr_delivery_state = delivery_state\<rparr>
       | _ \<Rightarrow> None)"

definition bridge_health :: "'e conn \<Rightarrow> ('e, go_health_result) act" where
  "bridge_health conn = invoke conn Health (\<lambda>r. case r of Health_Response m \<Rightarrow>
       Some \<lparr>ghr_status = hr_status m, ghr_missing_prerequisites = hr_missing_prerequisites m,
         ghr_sandbox_backend = hr_sandbox_backend m, ghr_vector_memory_backend = hr_vector_memory_backend m,
         ghr_encryption_state = hr_encryption_state m, ghr_audit_mode = hr_audit_mode m\<rparr>
     | _ \<Rightarrow> None)"

definition bridge_query_memory ::
  "'e conn \<Rightarrow> string \<Rightarrow> string \<Rightarrow> nat \<Rightarrow> string \<Rightarrow> ('e, go_memory_record list \<times> string) act" where
  "bridge_query_memory conn namespace query limit filter_json = invoke conn (Query_Memory namespace query limit filter_json)
     (\<lambda>r. case r of Memory_Query_Response records backend \<Rightarrow> Some (map decode_memory_record records, backend) | _ \<Rightarrow> None)"

definition bridge_upsert_memory ::
  "'e conn \<Rightarrow> string \<Rightarrow> string \<Rightarrow> string \<Rightarrow> string \<Rightarrow> ('e, bool \<times> string \<times> string) act" where
  "bridge_upsert_memory conn namespace key content metadata_json =
     invoke conn (Upsert_Memory namespace key content metadata_json)
     (\<lambda>r. case r of Memory_Upsert_Response stored backend digest \<Rightarrow> Some (stored, backend, digest) | _ \<Rightarrow> None)"

definition bridge_list_sessions ::
  "'e conn \<Rightarrow> string \<Rightarrow> string \<Rightarrow> bool \<Rightarrow> nat \<Rightarrow> ('e, go_session_record list \<times> string) act" where
  "bridge_list_sessions conn connector_name st include_archived limit =
     invoke conn (List_Sessions connector_name st include_archived limit)
     (\<lambda>r. case r of Session_List_Response sessions summary \<Rightarrow> Some (map decode_session_record sessions, summary) | _ \<Rightarrow> None)"

definition bridge_get_session :: "'e conn \<Rightarrow> string \<Rightarrow> nat \<Rightarrow> ('e, go_session_detail) act" where
  "bridge_get_session conn session_id limit = invoke conn (Get_Session session_id limit)
     (\<lambda>r. case r of Session_Response session messages \<Rightarrow>
         Some \<lparr>gsd_session = map_option decode_session_record session, gsd_messages = map decode_session_message messages\<rparr>
       | _ \<Rightarrow> None)"

definition bridge_prune_sessions :: "'e conn \<Rightarrow> 32 word \<Rightarrow> bool \<Rightarrow> ('e, 32 word) act" where
  "bridge_prune_sessions conn older_than_hours archive_only = invoke conn (Prune_Sessions older_than_hours archive_only)
     (\<lambda>r. case r of Session_Prune_Response pruned \<Rightarrow> Some pruned | _ \<Rightarrow> None)"

definition bridge_list_pairings :: "'e conn \<Rightarrow> string \<Rightarrow> string \<Rightarrow> nat \<Rightarrow> ('e, go_pairing_record list) act" where
  "bridge_list_pairings conn st connector_name limit = invoke conn (List_Pairings st connector_name limit)
     (\<lambda>r. case r of Pairing_List_Response pairings \<Rightarrow> Some (map decode_pairing_record pairings) | _ \<Rightarrow> None)"

definition bridge_update_pairing :: "'e conn \<Rightarrow> string \<Rightarrow> string \<Rightarrow> string \<Rightarrow> ('e, go_pairing_record) act" where
  "bridge_update_pairing conn pairing_id action pairing_note =
     andthen (invoke conn (Update_Pairing \<lparr>pu_pairing_id = pairing_id, pu_action = action, pu_note = pairing_note\<rparr>)
       (\<lambda>r. case r of Pairing_Update_Response updated pairing \<Rightarrow> Some pairing | _ \<Rightarrow> None)) (\<lambda>pairing. case pairing of
     None \<Rightarrow> fail (Msg ''pairing update response missing pairing'')
   | Some p \<Rightarrow> ret (decode_pairing_record p))"

definition bridge_record_outbound_message ::
  "'e conn \<Rightarrow> string \<Rightarrow> string \<Rightarrow> string \<Rightarrow> string \<Rightarrow> string \<Rightarrow> string \<Rightarrow> ('e, go_outbound_result) act" where
  "bridge_record_outbound_message conn connector_name channel_id sender body metadata_json session_id =
     invoke conn (Record_Outbound_Message \<lparr>om_connector = connector_name, om_channel_id = channel_id, om_sender = sender,
       om_body = body, om_metadata_json = metadata_json, om_session_id = session_id\<rparr>)
     (\<lambda>r. case r of Channel_Message_Response m \<Rightarrow> Some \<lparr>gor_accepted = omr_accepted m, gor_message_id = omr_message_id m,
         gor_session_id = omr_session_id m, gor_status = omr_status m, gor_detail = omr_detail m\<rparr>
       | _ \<Rightarrow> None)"

definition bridge_get_doctor_report :: "'e conn \<Rightarrow> bool \<Rightarrow> bool \<Rightarrow> bool \<Rightarrow> ('e, go_doctor_report) act" where
  "bridge_get_doctor_report conn include_connectors include_models include_desktop =
     invoke conn (Get_Doctor_Report include_connectors include_models include_desktop include_desktop)
     (\<lambda>r. case r of Doctor_Report_Response m \<Rightarrow>
         Some \<lparr>gdr_status = dr_status m, gdr_findings = map decode_doctor_finding (dr_findings m)\<rparr>
       | _ \<Rightarrow> None)"

definition bridge_list_model_profiles :: "'e conn \<Rightarrow> ('e, go_model_profile list) act" where
  "bridge_list_model_profiles conn = invoke conn List_Model_Profiles
     (\<lambda>r. case r of Model_Profile_List_Response profiles \<Rightarrow> Some (map decode_model_profile profiles) | _ \<Rightarrow> None)"

definition bridge_remember_brain ::
  "'e conn \<Rightarrow> string \<Rightarrow> string \<Rightarrow> string \<Rightarrow> string \<Rightarrow> f64 \<Rightarrow> string \<Rightarrow> string \<Rightarrow> string \<Rightarrow> ('e, go_brain_remember_result) act" where
  "bridge_remember_brain conn kind subtype title content importance scope_json links_json source_ref =
     invoke conn (Remember_Brain \<lparr>br_kind = kind, br_subtype = subtype, br_title = title, br_content = content,
       br_importance = importance, br_scope_json = scope_json, br_links_json = links_json, br_source_ref = source_ref\<rparr>)
     (\<lambda>r. case r of Brain_Remember_Response stored entity task digest \<Rightarrow>
         Some \<lparr>gbm_stored = stored, gbm_entity = map_option decode_brain_entity entity,
           gbm_task = map_option decode_brain_task task, gbm_digest = digest\<rparr>
       | _ \<Rightarrow> None)"

definition bridge_recall_brain :: "'e conn \<Rightarrow> string \<Rightarrow> string \<Rightarrow> nat \<Rightarrow> bool \<Rightarrow> ('e, go_brain_recall_result) act" where
  "bridge_recall_brain conn query scope_json limit include_archived =
     invoke conn (Recall_Brain \<lparr>brq_query = query, brq_scope_json = scope_json, brq_limit = limit,
       brq_include_archived = include_archived\<rparr>)
     (\<lambda>r. case r of Brain_Recall_Response summary entities facts relations tasks \<Rightarrow>
         Some \<lparr>gbc_summary = summary, gbc_entities = map decode_brain_entity entities, gbc_facts = map decode_brain_fact facts,
           gbc_relations = map decode_brain_relation relations, gbc_tasks = map decode_brain_task tasks\<rparr>
       | _ \<Rightarrow> None)"

definition bridge_suggest_brain :: "'e conn \<Rightarrow> string \<Rightarrow> nat \<Rightarrow> ('e, go_brain_suggest_result) act" where
  "bridge_suggest_brain conn scope_json limit =
     invoke conn (Suggest_Brain \<lparr>bsq_scope_json = scope_json, bsq_limit = limit\<rparr>)
     (\<lambda>r. case r of Brain_Suggest_Response summary suggestions \<Rightarrow>
         Some \<lparr>gbg_summary = summary, gbg_suggestions = map decode_brain_suggestion suggestions\<rparr>
       | _ \<Rightarrow> None)"

definition bridge_list_brain_tasks ::
  "'e conn \<Rightarrow> string \<Rightarrow> string list \<Rightarrow> string list \<Rightarrow> string \<Rightarrow> nat \<Rightarrow> ('e, go_brain_task_list_result) act" where
  "bridge_list_brain_tasks conn scope_json statuses priorities due_before limit =
     invoke conn (List_Brain_Tasks scope_json statuses priorities due_before limit)
     (\<lambda>r. case r of Brain_Task_List_Response summary tasks \<Rightarrow>
         Some \<lparr>gbl_summary = summary, gbl_tasks = map decode_brain_task tasks\<rparr>
       | _ \<Rightarrow> None)"

definition bridge_update_brain_task ::
  "'e conn \<Rightarrow> string \<Rightarrow> string \<Rightarrow> string \<Rightarrow> string \<Rightarrow> string \<Rightarrow> string \<Rightarrow> string \<Rightarrow> ('e, go_brain_task) act" where
  "bridge_update_brain_task conn task_id st priority due_at summary links_json source_ref =
     andthen (invoke conn (Update_Brain_Task task_id st priority due_at summary links_json source_ref)
       (\<lambda>r. case r of Brain_Task_Update_Response updated task \<Rightarrow> Some task | _ \<Rightarrow> None)) (\<lambda>task. case task of
     None \<Rightarrow> fail (Msg ''brain task update response missing task'')
   | Some t \<Rightarrow> ret (decode_brain_task t))"

definition bridge_forget_brain :: "'e conn \<Rightarrow> string \<Rightarrow> string \<Rightarrow> string \<Rightarrow> string \<Rightarrow> ('e, go_brain_forget_result) act" where
  "bridge_forget_brain conn target_kind target_id mode reason =
     invoke conn (Forget_Brain \<lparr>bf_target_kind = target_kind, bf_target_id = target_id, bf_mode = mode, bf_reason = reason\<rparr>)
     (\<lambda>r. case r of Brain_Forget_Response m \<Rightarrow>
         Some \<lparr>gbo_forgotten = bfr_forgotten m, gbo_mode = bfr_mode m, gbo_target_id = bfr_target_id m\<rparr>
       | _ \<Rightarrow> None)"

definition bridge_attest_session :: "'e conn \<Rightarrow> string \<Rightarrow> string \<Rightarrow> bool \<Rightarrow> ('e, go_attestation_result) act" where
  "bridge_attest_session conn subject nonce include_hardware = invoke conn (Attest_Session subject nonce include_hardware)
     (\<lambda>r. case r of Attestation_Response m \<Rightarrow> Some \<lparr>gat_status = ar_status m, gat_subject = ar_subject m,
         gat_platform = ar_platform m, gat_hardware_backed = ar_hardware_backed m, gat_nonce = ar_nonce m,
         gat_public_key = ar_public_key m, gat_measurements = ar_measurements m\<rparr>
       | _ \<Rightarrow> None)"

definition bridge_export_audit :: "'e conn \<Rightarrow> string \<Rightarrow> nat \<Rightarrow> ('e, go_audit_event list \<times> string) act" where
  "bridge_export_audit conn sink limit = invoke conn (Export_Audit sink limit)
     (\<lambda>r. case r of Audit_Export_Response exported format events \<Rightarrow> Some (map decode_audit_event events, format) | _ \<Rightarrow> None)"

definition bridge_queue_task ::
  "'e conn \<Rightarrow> string \<Rightarrow> string \<Rightarrow> string \<Rightarrow> string \<Rightarrow> string \<Rightarrow> ('e, go_queue_receipt) act" where
  "bridge_queue_task conn task_id task_type target arguments_json priority =
     invoke conn (Queue_Task task_id task_type target arguments_json priority)
     (\<lambda>r. case r of Queue_Task_Response m \<Rightarrow>
         Some \<lparr>gqr_accepted = qr_accepted m, gqr_task_id = qr_task_id m, gqr_queue = qr_queue m, gqr_message = qr_message m\<rparr>
       | _ \<Rightarrow> None)"

definition bridge_get_policy_report :: "'e conn \<Rightarrow> string \<Rightarrow> string \<Rightarrow> ('e, go_policy_report) act" where
  "bridge_get_policy_report conn subject capability = invoke conn (Get_Policy_Report subject capability)
     (\<lambda>r. case r of Policy_Report_Response m \<Rightarrow> Some \<lparr>gpo_subject = por_subject m,
         gpo_allowed_capabilities = por_allowed_capabilities m, gpo_denied_capabilities = por_denied_capabilities m,
         gpo_source = por_source m\<rparr>
       | _ \<Rightarrow> None)"

definition go_agent_entry :: "go_agent_message \<Rightarrow> agent_message" where
  "go_agent_entry m = \<lparr>am_sender = gam_sender m, am_recipient = gam_recipient m, am_body = gam_body m,
     am_metadata_json = gam_metadata_json m, am_encrypted_body = gam_encrypted_body m\<rparr>"

definition bridge_run_agent_protocol ::
  "'e conn \<Rightarrow> string \<Rightarrow> string \<Rightarrow> go_agent_message list \<Rightarrow> string \<Rightarrow> ('e, go_agent_protocol_result) act" where
  "bridge_run_agent_protocol conn protocol_id initiator messages policy_scope =
     invoke conn (Run_Agent_Protocol protocol_id initiator (map go_agent_entry messages) policy_scope)
     (\<lambda>r. case r of Agent_Protocol_Response m \<Rightarrow> Some \<lparr>gap_accepted = prr_accepted m, gap_protocol_id = prr_protocol_id m,
         gap_transcript_json = prr_transcript_json m, gap_findings = prr_findings m\<rparr>
       | _ \<Rightarrow> None)"

section \<open>No field is lost\<close>

named_theorems copy_simps \<open>a message copied into its struct and back is the message\<close>

lemma message_copies [copy_simps]:
  "proto_memory_record_message (decode_memory_record a) = a" "proto_session_record_message (decode_session_record b) = b"
  "proto_session_message_message (decode_session_message c) = c" "proto_pairing_record_message (decode_pairing_record d) = d"
  "proto_doctor_finding_message (decode_doctor_finding f) = f" "proto_model_profile_message (decode_model_profile g) = g"
  "proto_brain_entity_message (decode_brain_entity h) = h" "proto_brain_fact_message (decode_brain_fact i) = i"
  "proto_brain_relation_message (decode_brain_relation j) = j" "proto_brain_task_message (decode_brain_task k) = k"
  "proto_brain_suggestion_message (decode_brain_suggestion l) = l" "proto_audit_event_message (decode_audit_event m) = m"
  "execute_result_message (decode_execute_result n) = n"
  by (simp_all add: proto_memory_record_message_def decode_memory_record_def proto_session_record_message_def
      decode_session_record_def proto_session_message_message_def decode_session_message_def
      proto_pairing_record_message_def decode_pairing_record_def proto_doctor_finding_message_def decode_doctor_finding_def
      proto_model_profile_message_def decode_model_profile_def proto_brain_entity_message_def decode_brain_entity_def
      proto_brain_fact_message_def decode_brain_fact_def proto_brain_relation_message_def decode_brain_relation_def
      proto_brain_task_message_def decode_brain_task_def proto_brain_suggestion_message_def decode_brain_suggestion_def
      proto_audit_event_message_def decode_audit_event_def execute_result_message_def decode_execute_result_def)

lemma list_copies [copy_simps]:
  "(\<And>a. encode (decode a) = a) \<Longrightarrow> map (\<lambda>a. encode (decode a)) xs = xs"
  "(\<And>a. encode (decode a) = a) \<Longrightarrow> map_option (\<lambda>a. encode (decode a)) y = y"
  by (simp_all add: map_idI option.map_ident)

text \<open>What a call gives when the transport answers or fails.\<close>

lemma invoke_run:
  "conn req s = (Ok r, s') \<Longrightarrow> invoke conn req decode s = (of_option (Msg ''failed to decode the response'') (decode r), s')"
  "conn req s = (Err e, s') \<Longrightarrow> invoke conn req decode s = (Err e, s')"
  by (simp_all add: invoke_def andthen_def lift_res_def)

end
