(* ===== verification/Event_Hub.thy ===== *)
theory Event_Hub
  imports Prelude "HOL-Library.Sublist"
begin

text \<open>
  The gateway's event hub (\<open>gateway/internal/server/events.go\<close>) and the streams that read it
  (\<open>streamDesktopEvents\<close> in \<open>server.go\<close>). The hub's mutex makes each operation of it one step; a stream
  subscribes, reads the history, sends it, and then sends what its channel receives, while any handler
  publishes in between.
\<close>

section \<open>The hub\<close>

record desktop_event =
  de_id :: string
  de_event_type :: string
  de_payload_json :: string
  de_created_at :: string

text \<open>A subscriber's channel is the events waiting in it.\<close>

record event_hub =
  eh_next_id :: nat
  eh_history :: "desktop_event list"
  eh_subs :: "nat \<Rightarrow> desktop_event list option"

definition new_event_hub :: event_hub where
  "new_event_hub = \<lparr>eh_next_id = 0, eh_history = [], eh_subs = (\<lambda>_. None)\<rparr>"

definition remember_event :: "desktop_event \<Rightarrow> desktop_event list \<Rightarrow> desktop_event list" where
  "remember_event e history =
     (let appended = history @ [e] in if length appended > 128 then drop (length appended - 128) appended else appended)"

text \<open>A \<open>select\<close> with a default: an event for a full channel is dropped.\<close>

definition offer_event :: "desktop_event \<Rightarrow> desktop_event list \<Rightarrow> desktop_event list" where
  "offer_event e waiting = (if length waiting < 32 then waiting @ [e] else waiting)"

definition publish_event :: "desktop_event \<Rightarrow> event_hub \<Rightarrow> event_hub" where
  "publish_event e h = h\<lparr>eh_history := remember_event e (eh_history h),
     eh_subs := (\<lambda>i. map_option (offer_event e) (eh_subs h i))\<rparr>"

definition subscribe_events :: "event_hub \<Rightarrow> nat \<times> event_hub" where
  "subscribe_events h = (eh_next_id h, h\<lparr>eh_next_id := Suc (eh_next_id h), eh_subs := (eh_subs h)(eh_next_id h := Some [])\<rparr>)"

definition unsubscribe_events :: "nat \<Rightarrow> event_hub \<Rightarrow> event_hub" where
  "unsubscribe_events i h = h\<lparr>eh_subs := (eh_subs h)(i := None)\<rparr>"

section \<open>The streams\<close>

text \<open>
  A stream of a client: its subscription, what of the history it has still to send (none before it has
  read it), what it has sent. For the specification it also keeps how many events had been published when
  it subscribed and when it read the history, what it took from its channel, and how many events found
  the channel full.
\<close>

record event_stream =
  es_id :: nat
  es_pending :: "desktop_event list option"
  es_sent :: "desktop_event list"
  es_start :: nat
  es_read :: nat
  es_live :: "desktop_event list"
  es_dropped :: nat

text \<open>The hub, the streams by client, and all events ever published.\<close>

record hub_system =
  hs_hub :: event_hub
  hs_streams :: "nat \<Rightarrow> event_stream option"
  hs_log :: "desktop_event list"

definition new_hub_system :: hub_system where
  "new_hub_system = \<lparr>hs_hub = new_event_hub, hs_streams = (\<lambda>_. None), hs_log = []\<rparr>"

text \<open>What an event means for a stream whose channel is full.\<close>

definition note_dropped :: "event_hub \<Rightarrow> event_stream \<Rightarrow> event_stream" where
  "note_dropped h st = (case eh_subs h (es_id st) of
       Some waiting \<Rightarrow> if length waiting < 32 then st else st\<lparr>es_dropped := Suc (es_dropped st)\<rparr>
     | None \<Rightarrow> st)"

inductive hub_step :: "hub_system \<Rightarrow> hub_system \<Rightarrow> bool" where
  Publish: "hub_step s (s\<lparr>hs_hub := publish_event e (hs_hub s),
      hs_streams := (\<lambda>c. map_option (note_dropped (hs_hub s)) (hs_streams s c)), hs_log := hs_log s @ [e]\<rparr>)"
| Open_Stream: "hs_streams s c = None \<Longrightarrow> subscribe_events (hs_hub s) = (i, h) \<Longrightarrow>
    hub_step s (s\<lparr>hs_hub := h, hs_streams := (hs_streams s)(c \<mapsto> \<lparr>es_id = i, es_pending = None, es_sent = [],
      es_start = length (hs_log s), es_read = 0, es_live = [], es_dropped = 0\<rparr>)\<rparr>)"
| Read_History: "hs_streams s c = Some st \<Longrightarrow> es_pending st = None \<Longrightarrow>
    hub_step s (s\<lparr>hs_streams := (hs_streams s)(c \<mapsto> st\<lparr>es_pending := Some (eh_history (hs_hub s)), es_read := length (hs_log s)\<rparr>)\<rparr>)"
| Send_History: "hs_streams s c = Some st \<Longrightarrow> es_pending st = Some (e # rest) \<Longrightarrow>
    hub_step s (s\<lparr>hs_streams := (hs_streams s)(c \<mapsto> st\<lparr>es_pending := Some rest, es_sent := es_sent st @ [e]\<rparr>)\<rparr>)"
| Send_Event: "hs_streams s c = Some st \<Longrightarrow> es_pending st = Some [] \<Longrightarrow> eh_subs (hs_hub s) (es_id st) = Some (e # waiting) \<Longrightarrow>
    hub_step s (s\<lparr>hs_hub := (hs_hub s)\<lparr>eh_subs := (eh_subs (hs_hub s))(es_id st \<mapsto> waiting)\<rparr>,
      hs_streams := (hs_streams s)(c \<mapsto> st\<lparr>es_sent := es_sent st @ [e], es_live := es_live st @ [e]\<rparr>)\<rparr>)"
| Close_Stream: "hs_streams s c = Some st \<Longrightarrow>
    hub_step s (s\<lparr>hs_hub := unsubscribe_events (es_id st) (hs_hub s), hs_streams := (hs_streams s)(c := None)\<rparr>)"

inductive_cases hub_stepE: "hub_step s s'"

section \<open>The history\<close>

definition last_events :: "nat \<Rightarrow> 'a list \<Rightarrow> 'a list" where
  "last_events n xs = drop (length xs - n) xs"

lemma remember_last: "remember_event e (last_events 128 log) = last_events 128 (log @ [e])"
proof (cases "length log < 128")
  case True
  then show ?thesis by (simp add: remember_event_def last_events_def)
next
  case False
  let ?k = "length log - 128"
  have "drop ?k log @ [e] = drop ?k (log @ [e])" by simp
  moreover have "length (drop ?k (log @ [e])) = 129" and "1 + ?k = length (log @ [e]) - 128" using False by simp_all
  ultimately show ?thesis by (simp add: remember_event_def last_events_def Let_def del: drop_append)
qed

section \<open>What a stream has sent\<close>

definition stream_ok :: "event_hub \<Rightarrow> desktop_event list \<Rightarrow> event_stream \<Rightarrow> bool" where
  "stream_ok h log st \<longleftrightarrow> es_start st \<le> length log \<and> es_id st < eh_next_id h \<and>
     (\<exists>waiting. eh_subs h (es_id st) = Some waiting \<and> length waiting \<le> 32 \<and>
        subseq (es_live st @ waiting) (drop (es_start st) log) \<and>
        length (es_live st @ waiting) + es_dropped st = length log - es_start st) \<and>
     (case es_pending st of
        None \<Rightarrow> es_sent st = [] \<and> es_live st = []
      | Some rest \<Rightarrow> es_start st \<le> es_read st \<and> es_read st \<le> length log \<and> (es_live st \<noteq> [] \<longrightarrow> rest = []) \<and>
          es_sent st @ rest = last_events 128 (take (es_read st) log) @ es_live st)"

definition hub_ok :: "hub_system \<Rightarrow> bool" where
  "hub_ok s \<longleftrightarrow> eh_history (hs_hub s) = last_events 128 (hs_log s) \<and>
     (\<forall>c st. hs_streams s c = Some st \<longrightarrow> stream_ok (hs_hub s) (hs_log s) st) \<and>
     (\<forall>c d st su. hs_streams s c = Some st \<longrightarrow> hs_streams s d = Some su \<longrightarrow> es_id st = es_id su \<longrightarrow> c = d)"

lemma note_dropped_same [simp]: "es_id (note_dropped h st) = es_id st"
  by (simp add: note_dropped_def split: option.split)

lemma stream_ok_published:
  assumes "stream_ok h log st"
  shows "stream_ok (publish_event e h) (log @ [e]) (note_dropped h st)"
proof -
  obtain w where w: "eh_subs h (es_id st) = Some w" "length w \<le> 32" "subseq (es_live st @ w) (drop (es_start st) log)"
      "length (es_live st @ w) + es_dropped st = length log - es_start st" and le: "es_start st \<le> length log"
    using assms by (auto simp: stream_ok_def)
  have all: "drop (es_start st) (log @ [e]) = drop (es_start st) log @ [e]" using le by simp
  show ?thesis
  proof (cases "length w < 32")
    case True
    have "subseq ((es_live st @ w) @ [e]) (drop (es_start st) log @ [e])"
      by (rule list_emb_append_mono [OF w(3)]) simp
    with True w all le assms show ?thesis
      by (auto simp: stream_ok_def note_dropped_def publish_event_def offer_event_def split: option.splits)
  next
    case False
    have "subseq (es_live st @ w) (drop (es_start st) log @ [e])" using w(3) by (rule subseq_rev_drop_many)
    with False w all le assms show ?thesis
      by (auto simp: stream_ok_def note_dropped_def publish_event_def offer_event_def split: option.splits)
  qed
qed

text \<open>A step that touches another subscription only.\<close>

lemma stream_ok_frame:
  "stream_ok h log st \<Longrightarrow> eh_subs h' (es_id st) = eh_subs h (es_id st) \<Longrightarrow> eh_next_id h \<le> eh_next_id h' \<Longrightarrow> stream_ok h' log st"
  by (auto simp: stream_ok_def)

lemma hub_okD:
  "hub_ok s \<Longrightarrow> hs_streams s c = Some st \<Longrightarrow> stream_ok (hs_hub s) (hs_log s) st"
  "hub_ok s \<Longrightarrow> hs_streams s c = Some st \<Longrightarrow> hs_streams s d = Some su \<Longrightarrow> c \<noteq> d \<Longrightarrow> es_id st \<noteq> es_id su"
  by (auto simp: hub_ok_def)

lemma hub_okI:
  assumes "eh_history (hs_hub s) = last_events 128 (hs_log s)"
    and "\<And>c st. hs_streams s c = Some st \<Longrightarrow> stream_ok (hs_hub s) (hs_log s) st"
    and "\<And>c d st su. hs_streams s c = Some st \<Longrightarrow> hs_streams s d = Some su \<Longrightarrow> c \<noteq> d \<Longrightarrow> es_id st \<noteq> es_id su"
  shows "hub_ok s"
  using assms unfolding hub_ok_def by blast

text \<open>One stream moves on, its subscription with it; the others do not see it.\<close>

lemma hub_ok_moved:
  assumes ok: "hub_ok s" and c: "hs_streams s c = Some st" and same: "es_id st' = es_id st"
    and moved: "stream_ok h' (hs_log s) st'" and hub: "eh_history h' = eh_history (hs_hub s)" "eh_next_id h' = eh_next_id (hs_hub s)"
      "\<And>i. i \<noteq> es_id st \<Longrightarrow> eh_subs h' i = eh_subs (hs_hub s) i"
  shows "hub_ok (s\<lparr>hs_hub := h', hs_streams := (hs_streams s)(c \<mapsto> st')\<rparr>)"
proof -
  have "stream_ok h' (hs_log s) su" if "hs_streams s d = Some su" "d \<noteq> c" for d su
    by (rule stream_ok_frame [OF hub_okD(1) [OF ok that(1)]])
       (use hub_okD(2) [OF ok that(1) c that(2)] hub in auto)
  then have others: "\<And>d su. hs_streams s d = Some su \<Longrightarrow> d \<noteq> c \<Longrightarrow> stream_ok h' (hs_log s) su" .
  show ?thesis
  proof (rule hub_okI, goal_cases)
    case 1
    show ?case using ok hub(1) by (simp add: hub_ok_def)
  next
    case (2 d su)
    then show ?case using moved others by (simp split: if_splits)
  next
    case (3 d d' su su')
    then show ?case using hub_okD(2) [OF ok, of d su d' su'] hub_okD(2) [OF ok c, of d' su'] hub_okD(2) [OF ok _ c, of d su] same
      by (simp split: if_splits)
  qed
qed

lemma hub_ok_step: "hub_step s s' \<Longrightarrow> hub_ok s \<Longrightarrow> hub_ok s'"
proof (induction rule: hub_step.induct)
  case (Publish s e)
  then have "stream_ok (publish_event e (hs_hub s)) (hs_log s @ [e]) (note_dropped (hs_hub s) st)"
    if "hs_streams s c = Some st" for c st using stream_ok_published hub_okD(1) that by blast
  with Publish show ?case by (auto simp: hub_ok_def publish_event_def remember_last)
next
  case (Open_Stream s c i h)
  have other: "es_id su < eh_next_id (hs_hub s)" if "hs_streams s d = Some su" for d su
    using hub_okD(1) [OF Open_Stream(3) that] by (simp add: stream_ok_def)
  have "stream_ok h (hs_log s) su" if "hs_streams s d = Some su" for d su
    by (rule stream_ok_frame [OF hub_okD(1) [OF Open_Stream(3) that]])
       (use other [OF that] Open_Stream(2) in \<open>auto simp: subscribe_events_def\<close>)
  then have others: "\<And>d su. hs_streams s d = Some su \<Longrightarrow> stream_ok h (hs_log s) su" .
  have h: "i = eh_next_id (hs_hub s)" "h = (hs_hub s)\<lparr>eh_next_id := Suc i, eh_subs := (eh_subs (hs_hub s))(i := Some [])\<rparr>"
    using Open_Stream(2) by (auto simp: subscribe_events_def)
  show ?case
  proof (rule hub_okI, goal_cases)
    case 1
    show ?case using Open_Stream(3) h(2) by (simp add: hub_ok_def)
  next
    case (2 d su)
    show ?case
    proof (cases "d = c")
      case True
      with 2 show ?thesis by (auto simp: stream_ok_def h)
    next
      case False
      with 2 show ?thesis by (simp add: others)
    qed
  next
    case (3 d d' su su')
    then show ?case using hub_okD(2) [OF Open_Stream(3), of d su d' su'] other [of d su] other [of d' su'] h(1)
      by (auto split: if_splits)
  qed
next
  case (Read_History s c st)
  let ?st = "st\<lparr>es_pending := Some (eh_history (hs_hub s)), es_read := length (hs_log s)\<rparr>"
  have "eh_history (hs_hub s) = last_events 128 (hs_log s)" using Read_History(3) unfolding hub_ok_def by blast
  then have "stream_ok (hs_hub s) (hs_log s) ?st"
    using hub_okD(1) [OF Read_History(3,1)] Read_History(2) by (auto simp: stream_ok_def)
  with hub_ok_moved [OF Read_History(3,1) _ _ refl refl, of ?st] show ?case by simp
next
  case (Send_History s c st e rest)
  let ?st = "st\<lparr>es_pending := Some rest, es_sent := es_sent st @ [e]\<rparr>"
  have "stream_ok (hs_hub s) (hs_log s) ?st"
    using hub_okD(1) [OF Send_History(3,1)] Send_History(2) by (auto simp: stream_ok_def)
  with hub_ok_moved [OF Send_History(3,1) _ _ refl refl, of ?st] show ?case by simp
next
  case (Send_Event s c st e waiting)
  let ?st = "st\<lparr>es_sent := es_sent st @ [e], es_live := es_live st @ [e]\<rparr>"
  let ?h = "(hs_hub s)\<lparr>eh_subs := (eh_subs (hs_hub s))(es_id st \<mapsto> waiting)\<rparr>"
  have "stream_ok ?h (hs_log s) ?st"
    using hub_okD(1) [OF Send_Event(4,1)] Send_Event(2,3) by (auto simp: stream_ok_def)
  with hub_ok_moved [OF Send_Event(4,1), of ?st ?h] show ?case by simp
next
  case (Close_Stream s c st)
  have "stream_ok (unsubscribe_events (es_id st) (hs_hub s)) (hs_log s) su" if "hs_streams s d = Some su" "d \<noteq> c" for d su
    by (rule stream_ok_frame [OF hub_okD(1) [OF Close_Stream(2) that(1)]])
       (use hub_okD(2) [OF Close_Stream(2) that(1) Close_Stream(1) that(2)] in \<open>auto simp: unsubscribe_events_def\<close>)
  then have others: "\<And>d su. hs_streams s d = Some su \<Longrightarrow> d \<noteq> c \<Longrightarrow> stream_ok (unsubscribe_events (es_id st) (hs_hub s)) (hs_log s) su" .
  show ?case
  proof (rule hub_okI, goal_cases)
    case 1
    show ?case using Close_Stream(2) by (simp add: hub_ok_def unsubscribe_events_def)
  next
    case (2 d su)
    then show ?case using others by (simp split: if_splits)
  next
    case (3 d d' su su')
    then show ?case using hub_okD(2) [OF Close_Stream(2), of d su d' su'] by (simp split: if_splits)
  qed
qed

lemma hub_ok_reachable: "hub_step\<^sup>*\<^sup>* new_hub_system s \<Longrightarrow> hub_ok s"
proof (induction rule: rtranclp_induct)
  case base
  show ?case by (simp add: hub_ok_def new_hub_system_def new_event_hub_def last_events_def)
qed (rule hub_ok_step)


text \<open>A client subscribes, an event comes, the client reads the history and sends the event twice.\<close>

definition sample_event :: desktop_event where
  "sample_event = \<lparr>de_id = ''ui-1'', de_event_type = ''message.inbound'', de_payload_json = ''{}'', de_created_at = ''now''\<rparr>"

definition one_client :: "desktop_event list \<Rightarrow> desktop_event list \<Rightarrow> event_stream \<Rightarrow> hub_system" where
  "one_client log waiting st = \<lparr>hs_hub = \<lparr>eh_next_id = 1, eh_history = log, eh_subs = [0 \<mapsto> waiting]\<rparr>,
     hs_streams = [0 \<mapsto> st], hs_log = log\<rparr>"

definition first_stream :: "desktop_event list option \<Rightarrow> desktop_event list \<Rightarrow> nat \<Rightarrow> desktop_event list \<Rightarrow> event_stream" where
  "first_stream pending sent rd live = \<lparr>es_id = 0, es_pending = pending, es_sent = sent, es_start = 0, es_read = rd,
     es_live = live, es_dropped = 0\<rparr>"

lemma twice_sent_reachable:
  "hub_step\<^sup>*\<^sup>* new_hub_system (one_client [sample_event] [] (first_stream (Some []) [sample_event, sample_event] 1 [sample_event]))"
proof -
  let ?e = sample_event
  have "hub_step new_hub_system (one_client [] [] (first_stream None [] 0 []))"
    using Open_Stream [of new_hub_system 0]
    by (simp add: new_hub_system_def new_event_hub_def subscribe_events_def one_client_def first_stream_def)
  moreover have "hub_step (one_client [] [] (first_stream None [] 0 [])) (one_client [?e] [?e] (first_stream None [] 0 []))"
    using Publish [of "one_client [] [] (first_stream None [] 0 [])" ?e]
    by (simp add: one_client_def first_stream_def publish_event_def remember_event_def offer_event_def note_dropped_def
        fun_upd_def if_distrib cong: if_cong)
  moreover have "hub_step (one_client [?e] [?e] (first_stream None [] 0 [])) (one_client [?e] [?e] (first_stream (Some [?e]) [] 1 []))"
    using Read_History [of "one_client [?e] [?e] (first_stream None [] 0 [])" 0] by (simp add: one_client_def first_stream_def)
  moreover have "hub_step (one_client [?e] [?e] (first_stream (Some [?e]) [] 1 [])) (one_client [?e] [?e] (first_stream (Some []) [?e] 1 []))"
    using Send_History [of "one_client [?e] [?e] (first_stream (Some [?e]) [] 1 [])" 0 "first_stream (Some [?e]) [] 1 []" ?e "[]"] by (simp add: one_client_def first_stream_def)
  moreover have "hub_step (one_client [?e] [?e] (first_stream (Some []) [?e] 1 [])) (one_client [?e] [] (first_stream (Some []) [?e, ?e] 1 [?e]))"
    using Send_Event [of "one_client [?e] [?e] (first_stream (Some []) [?e] 1 [])" 0 "first_stream (Some []) [?e] 1 []" ?e "[]"] by (simp add: one_client_def first_stream_def)
  ultimately show ?thesis by (meson converse_rtranclp_into_rtranclp rtranclp.rtrancl_refl)
qed


end
