(* ===== verification/Connectors.thy ===== *)
theory Connectors
  imports Gateway_Bridge Event_Hub
begin

text \<open>
  The gateway's connectors (\<open>gateway/internal/connectors\<close>): the registry with Telegram, the desktop and the
  stubs, what each describes and how it sends, and the polling of Telegram. The gateway's configuration
  is what its Go code reads of it; a Go map is its entries in key order, a connector without an entry has
  the zero value, which is \<open>derived_connector\<close>.
\<close>

section \<open>The gateway's configuration and state\<close>

record go_paths =
  gpt_config_file :: string
  gpt_data_dir :: string
  gpt_state_dir :: string
  gpt_runtime_state_file :: string
  gpt_log_file :: string
  gpt_installs_dir :: string

record go_config =
  gc_listen_address :: string
  gc_engine_endpoint :: string
  gc_telegram_bot_token :: string
  gc_telegram_poll_interval_seconds :: nat
  gc_local_http_listen_address :: string
  gc_registry_index :: string
  gc_connectors :: "(string, connector_config) btree"
  gc_attestation_enabled :: bool
  gc_attestation_require_hardware :: bool
  gc_paths :: go_paths

text \<open>
  What the gateway uses of libraries and the world: the texts of gRPC errors and of a call whose handler
  was lost, the clock by its readings, \<open>time.RFC3339\<close>, \<open>json.Marshal\<close>, \<open>strconv.Quote\<close>, and what
  Telegram's server answers to the n-th post: the text of the transport's error, or a status.
\<close>

record go_env =
  gx_error :: "string \<Rightarrow> string \<Rightarrow> string"
  gx_lost :: string
  gx_time :: "nat \<Rightarrow> instant"
  gx_rfc3339 :: "instant \<Rightarrow> string"
  gx_marshal :: "json \<Rightarrow> string"
  gx_quote :: "string \<Rightarrow> string"
  gx_telegram_post :: "nat \<Rightarrow> string \<Rightarrow> int \<Rightarrow> string \<Rightarrow> string + nat"

text \<open>The engine behind the bridge, the event hub, the readings of the clock, the posts made to Telegram.\<close>

record 'e gateway_state =
  gw_engine :: 'e
  gw_hub :: event_hub
  gw_clock :: nat
  gw_posts :: "(int \<times> string) list"

definition on_engine :: "('e, 'a) act \<Rightarrow> ('e gateway_state, 'a) act" where
  "on_engine m = (\<lambda>g. let (r, e) = m (gw_engine g) in (r, g\<lparr>gw_engine := e\<rparr>))"

section \<open>Numbers as text\<close>

text \<open>\<open>strconv.FormatInt(n, 10)\<close> and \<open>strconv.ParseInt(s, 10, 64)\<close> with its error.\<close>

definition format_int :: "int \<Rightarrow> string" where
  "format_int n = (if n < 0 then CHR ''-'' # dec (nat (- n)) else dec (nat n))"

fun go_parse_uint_from :: "nat \<Rightarrow> string \<Rightarrow> string + nat" where
  "go_parse_uint_from n [] = Inr n"
| "go_parse_uint_from n (c # cs) =
     (if \<not> (48 \<le> byte c \<and> byte c \<le> 57) then Inl ''invalid syntax''
      else if n * 10 + (byte c - 48) \<ge> 2 ^ 64 then Inl ''value out of range''
      else go_parse_uint_from (n * 10 + (byte c - 48)) cs)"

definition go_parse_uint :: "string \<Rightarrow> string + nat" where
  "go_parse_uint s = (if s = [] then Inl ''invalid syntax'' else go_parse_uint_from 0 s)"

definition parse_int_reason :: "string \<Rightarrow> string + int" where
  "parse_int_reason s = (
     let neg = (case s of c # _ \<Rightarrow> c = CHR ''-'' | [] \<Rightarrow> False);
         digits = (case s of c # cs \<Rightarrow> if c = CHR ''+'' \<or> c = CHR ''-'' then cs else s | [] \<Rightarrow> [])
     in case go_parse_uint digits of
          Inl e \<Rightarrow> Inl e
        | Inr n \<Rightarrow> if \<not> neg \<and> n \<ge> 2 ^ 63 \<or> neg \<and> n > 2 ^ 63 then Inl ''value out of range''
                   else Inr (if neg then - int n else int n))"

definition parse_int :: "go_env \<Rightarrow> string \<Rightarrow> string + int" where
  "parse_int G s = (case parse_int_reason s of
       Inl e \<Rightarrow> Inl (''strconv.ParseInt: parsing '' @ gx_quote G s @ '': '' @ e)
     | Inr n \<Rightarrow> Inr n)"

section \<open>The connectors\<close>

datatype go_connector = Telegram | Desktop | Stub string string

definition registry_connectors :: "go_connector list" where
  "registry_connectors = [Telegram, Desktop, Stub ''discord'' ''bot'', Stub ''slack'' ''socket-mode'',
     Stub ''whatsapp'' ''cloud-api'', Stub ''signal'' ''signal-cli'', Stub ''matrix'' ''appservice'', Stub ''xmpp'' ''client'',
     Stub ''irc'' ''client'', Stub ''mattermost'' ''websocket'', Stub ''microsoft-teams'' ''graph'', Stub ''rocketchat'' ''rest'',
     Stub ''zulip'' ''rest'', Stub ''google-chat'' ''rest'', Stub ''webex'' ''rest'', Stub ''line'' ''messaging-api'',
     Stub ''viber'' ''bot'', Stub ''smtp'' ''outbound'', Stub ''imap'' ''inbound'', Stub ''twilio-sms'' ''sms'',
     Stub ''twilio-mms'' ''mms'', Stub ''webhook-inbound'' ''http'', Stub ''webhook-outbound'' ''http'']"

fun go_connector_name :: "go_connector \<Rightarrow> string" where
  "go_connector_name Telegram = ''telegram''"
| "go_connector_name Desktop = ''desktop''"
| "go_connector_name (Stub name mode) = name"

definition connector_entry :: "go_config \<Rightarrow> string \<Rightarrow> connector_config" where
  "connector_entry cfg name = (case bt_get (gc_connectors cfg) name of Some c \<Rightarrow> c | None \<Rightarrow> derived_connector)"

definition entry_enabled :: "go_config \<Rightarrow> string \<Rightarrow> bool" where
  "entry_enabled cfg name = (case bt_get (gc_connectors cfg) name of Some c \<Rightarrow> cc_enabled c | None \<Rightarrow> False)"

definition telegram_enabled :: "go_config \<Rightarrow> bool" where
  "telegram_enabled cfg = (gc_telegram_bot_token cfg \<noteq> [])"

fun connector_enabled :: "go_config \<Rightarrow> go_connector \<Rightarrow> bool" where
  "connector_enabled cfg Telegram = telegram_enabled cfg"
| "connector_enabled cfg Desktop = entry_enabled cfg ''desktop''"
| "connector_enabled cfg (Stub name mode) = entry_enabled cfg name"

definition health_for :: "bool \<Rightarrow> bool \<Rightarrow> string" where
  "health_for enabled implemented = (if \<not> enabled then ''disabled'' else if implemented then ''ready'' else ''scaffolded'')"

fun first_non_empty :: "string list \<Rightarrow> string" where
  "first_non_empty [] = []"
| "first_non_empty (v # vs) = (if v \<noteq> [] then v else first_non_empty vs)"

record go_descriptor =
  gdc_name :: string
  gdc_enabled :: bool
  gdc_implemented :: bool
  gdc_mode :: string
  gdc_health :: string
  gdc_allowlist :: "string list"
  gdc_details :: "(string, string) btree"

definition telegram_descriptor :: "go_config \<Rightarrow> go_descriptor" where
  "telegram_descriptor cfg = (let c = connector_entry cfg ''telegram''; enabled = telegram_enabled cfg in
     \<lparr>gdc_name = ''telegram'', gdc_enabled = enabled, gdc_implemented = True,
      gdc_mode = first_non_empty [cc_mode c, ''polling''], gdc_health = health_for enabled True, gdc_allowlist = cc_allowlist c,
      gdc_details = bt_of_list [(''transport'', ''telegram-bot-api''),
        (''poll_interval_seconds'', dec (gc_telegram_poll_interval_seconds cfg))]\<rparr>)"

definition desktop_descriptor :: "go_config \<Rightarrow> go_descriptor" where
  "desktop_descriptor cfg = (let c = connector_entry cfg ''desktop''; enabled = entry_enabled cfg ''desktop'' in
     \<lparr>gdc_name = ''desktop'', gdc_enabled = enabled, gdc_implemented = True,
      gdc_mode = first_non_empty [cc_mode c, ''native''], gdc_health = health_for enabled True, gdc_allowlist = cc_allowlist c,
      gdc_details = bt_of_list [(''transport'', ''local-process''), (''status'', ''ready'')]\<rparr>)"

definition stub_descriptor :: "go_config \<Rightarrow> string \<Rightarrow> string \<Rightarrow> go_descriptor" where
  "stub_descriptor cfg name mode = (let c = connector_entry cfg name in
     \<lparr>gdc_name = name, gdc_enabled = cc_enabled c, gdc_implemented = False,
      gdc_mode = first_non_empty [cc_mode c, mode, ''disabled''], gdc_health = health_for (cc_enabled c) False,
      gdc_allowlist = cc_allowlist c,
      gdc_details = bt_of_list [(''transport'', ''api-first''), (''status'', ''scaffolded'')]\<rparr>)"

fun connector_descriptor :: "go_config \<Rightarrow> go_connector \<Rightarrow> go_descriptor" where
  "connector_descriptor cfg Telegram = telegram_descriptor cfg"
| "connector_descriptor cfg Desktop = desktop_descriptor cfg"
| "connector_descriptor cfg (Stub name mode) = stub_descriptor cfg name mode"

section \<open>Sending\<close>

text \<open>\<open>sendMessage\<close> of Telegram: the status of the response is not looked at.\<close>

definition telegram_send :: "go_env \<Rightarrow> go_config \<Rightarrow> int \<Rightarrow> string \<Rightarrow> ('e gateway_state, unit) act" where
  "telegram_send G cfg chat_id body = (\<lambda>g.
     ((case gx_telegram_post G (length (gw_posts g)) (gc_telegram_bot_token cfg) chat_id body of
         Inl e \<Rightarrow> Err (Msg e)
       | Inr status \<Rightarrow> Ok ()),
      g\<lparr>gw_posts := gw_posts g @ [(chat_id, body)]\<rparr>))"

definition telegram_send_message :: "go_env \<Rightarrow> go_config \<Rightarrow> string \<Rightarrow> string \<Rightarrow> ('e gateway_state, unit) act" where
  "telegram_send_message G cfg channel_id body = (case parse_int G channel_id of
       Inl e \<Rightarrow> fail (Msg e)
     | Inr chat_id \<Rightarrow> telegram_send G cfg chat_id body)"

fun connector_send :: "go_env \<Rightarrow> go_config \<Rightarrow> go_connector \<Rightarrow> string \<Rightarrow> string \<Rightarrow> ('e gateway_state, unit) act" where
  "connector_send G cfg Telegram channel_id body = telegram_send_message G cfg channel_id body"
| "connector_send G cfg Desktop channel_id body = ret ()"
| "connector_send G cfg (Stub name mode) channel_id body = fail (Msg (''connector '' @ name @ '' is not implemented yet''))"

section \<open>The registry\<close>

definition registry_enabled :: "go_config \<Rightarrow> string list" where
  "registry_enabled cfg = map go_connector_name (filter (connector_enabled cfg) registry_connectors)"

definition describe_all :: "go_config \<Rightarrow> go_descriptor list" where
  "describe_all cfg = map (connector_descriptor cfg) registry_connectors"

definition registry_find :: "string \<Rightarrow> go_connector option" where
  "registry_find name = find (\<lambda>c. go_connector_name c = name) registry_connectors"

definition registry_status :: "go_config \<Rightarrow> string \<Rightarrow> go_descriptor option" where
  "registry_status cfg name = map_option (connector_descriptor cfg) (registry_find name)"

definition registry_send :: "go_env \<Rightarrow> go_config \<Rightarrow> string \<Rightarrow> string \<Rightarrow> string \<Rightarrow> ('e gateway_state, unit) act" where
  "registry_send G cfg name channel_id body = (case registry_find name of
       None \<Rightarrow> fail (Msg (''connector '' @ name @ '' not found''))
     | Some c \<Rightarrow>
         if \<not> connector_enabled cfg c then fail (Msg (''connector '' @ name @ '' is disabled''))
         else connector_send G cfg c channel_id body)"

section \<open>Polling Telegram\<close>

record telegram_message =
  tgm_text :: string
  tgm_chat_id :: int
  tgm_username :: string

record telegram_update =
  tgu_update_id :: int
  tgu_message :: "telegram_message option"

text \<open>One update: the offset moves past it before the engine is asked, and whatever the engine answers.\<close>

definition telegram_update_step ::
  "go_env \<Rightarrow> go_config \<Rightarrow> 'e conn \<Rightarrow> telegram_update \<Rightarrow> ('e gateway_state, int) act" where
  "telegram_update_step G cfg conn u = (let offset = tgu_update_id u + 1 in
     case tgu_message u of
       None \<Rightarrow> ret offset
     | Some m \<Rightarrow>
         if tgm_text m = [] then ret offset
         else andthen (attempt (on_engine (bridge_deliver_message conn \<lparr>gom_connector = ''telegram'',
             gom_channel_id = format_int (tgm_chat_id m), gom_sender = tgm_username m, gom_body = tgm_text m,
             gom_metadata_json = ''{}''\<rparr>))) (\<lambda>r. case r of
           Inl e \<Rightarrow> ret offset
         | Inr reply \<Rightarrow>
             if gmr_reply reply = [] then ret offset
             else andthen (ignore_err (telegram_send G cfg (tgm_chat_id m) (gmr_reply reply))) (\<lambda>_. ret offset)))"

text \<open>The updates of one answer to \<open>getUpdates\<close>, from the offset before it.\<close>

fun telegram_round ::
  "go_env \<Rightarrow> go_config \<Rightarrow> 'e conn \<Rightarrow> telegram_update list \<Rightarrow> int \<Rightarrow> ('e gateway_state, int) act" where
  "telegram_round G cfg conn [] offset = ret offset"
| "telegram_round G cfg conn (u # us) offset =
     andthen (telegram_update_step G cfg conn u) (\<lambda>offset'. telegram_round G cfg conn us offset')"

text \<open>
  One round of \<open>Start\<close>, given what \<open>getUpdates\<close> fetched from the offset on: the text of an error, or updates. The
  loop goes on for ever with the offset it returns. The other connectors have nothing to start.
\<close>

definition telegram_poll ::
  "go_env \<Rightarrow> go_config \<Rightarrow> 'e conn \<Rightarrow> string + telegram_update list \<Rightarrow> int \<Rightarrow> ('e gateway_state, int) act" where
  "telegram_poll G cfg conn fetched offset = (case fetched of
       Inl e \<Rightarrow> ret offset
     | Inr updates \<Rightarrow> telegram_round G cfg conn updates offset)"

definition started_connectors :: "go_config \<Rightarrow> go_connector list" where
  "started_connectors cfg = filter (connector_enabled cfg) registry_connectors"

end
