(* ===== verification/Gateway.thy ===== *)
theory Gateway
  imports Connectors
begin

text \<open>
  The gateway's service (\<open>gateway/internal/server/server.go\<close>): one handler per method of
  \<open>GatewayService\<close> that the command line calls. A handler asks the engine through the bridge or the
  registry of connectors, makes the response of the result, and publishes what the user interface is to
  see. A request is served without interruption.
\<close>

section \<open>Status and service\<close>

datatype go_code = Go_Unavailable | Go_Internal | Go_Invalid_Argument | Go_Not_Found | Go_Unimplemented

datatype go_status = Go_Status (gst_code: go_code) (gst_text: string)

record 'e go_service =
  sv_env :: go_env
  sv_cfg :: go_config
  sv_conn :: "'e conn"
  sv_started_at :: instant

type_synonym ('e, 'a) handler = "('e gateway_state, go_status + 'a) act"

text \<open>\<open>if err != nil { return nil, status.Errorf(code, "verb: %v", err) }\<close>, and the response otherwise.\<close>

definition answer_or ::
  "go_code \<Rightarrow> string \<Rightarrow> ('e gateway_state, 'a) act \<Rightarrow> ('a \<Rightarrow> ('e gateway_state, 'b) act) \<Rightarrow> ('e, 'b) handler" where
  "answer_or code verb m f = andthen (attempt m) (\<lambda>r. case r of
       Inl e \<Rightarrow> ret (Inl (Go_Status code (verb @ '': '' @ error_text e)))
     | Inr a \<Rightarrow> andthen (f a) (\<lambda>b. ret (Inr b)))"

text \<open>A handler that forwards to the engine and copies the result.\<close>

definition forward :: "string \<Rightarrow> ('e, 'a) act \<Rightarrow> ('a \<Rightarrow> rpc_response) \<Rightarrow> ('e, gateway_reply) handler" where
  "forward verb m f = answer_or Go_Internal verb (on_engine m) (\<lambda>a. ret (Engine_Reply (f a)))"

text \<open>\<open>EventHub.Publish\<close>: the clock is read twice, before the hub is locked.\<close>

definition go_publish :: "go_env \<Rightarrow> string \<Rightarrow> json \<Rightarrow> ('e gateway_state, unit) act" where
  "go_publish G event_type payload = (\<lambda>g.
     let event = \<lparr>de_id = ''ui-'' @ format_int (gx_time G (gw_clock g)), de_event_type = event_type,
           de_payload_json = gx_marshal G payload, de_created_at = gx_rfc3339 G (gx_time G (Suc (gw_clock g)))\<rparr>
     in (Ok (), g\<lparr>gw_clock := Suc (Suc (gw_clock g)), gw_hub := publish_event event (gw_hub g)\<rparr>))"

section \<open>Status and tools\<close>

definition go_attestation_state :: "go_config \<Rightarrow> string" where
  "go_attestation_state cfg =
     (if gc_attestation_enabled cfg
      then if gc_attestation_require_hardware cfg then ''hardware-required'' else ''enabled''
      else ''disabled'')"

text \<open>\<open>int64(time.Since(t).Seconds())\<close>, and the time \<open>RFC3339\<close> keeps of an instant: its whole seconds.\<close>

definition whole_seconds :: "instant \<Rightarrow> int" where
  "whole_seconds d = (if d < 0 then - ((- d) div 10 ^ 9) else d div 10 ^ 9)"

definition to_the_second :: "instant \<Rightarrow> instant" where
  "to_the_second t = t div 10 ^ 9 * 10 ^ 9"

definition get_status :: "'e go_service \<Rightarrow> ('e, gateway_reply) handler" where
  "get_status sv = answer_or Go_Unavailable ''engine health'' (on_engine (bridge_health (sv_conn sv))) (\<lambda>health g.
     (Ok (Status_Reply \<lparr>rs_status = ghr_status health, rs_version = ''0.2.0'',
        rs_runtime_endpoint = gc_engine_endpoint (sv_cfg sv), rs_gateway_endpoint = gc_listen_address (sv_cfg sv),
        rs_enabled_connectors = registry_enabled (sv_cfg sv), rs_available_model_backends = [''ollama'', ''llamacpp'', ''localai''],
        rs_uptime_seconds = whole_seconds (gx_time (sv_env sv) (gw_clock g) - sv_started_at sv),
        rs_started_at = to_the_second (sv_started_at sv), rs_data_dir = gpt_data_dir (gc_paths (sv_cfg sv)),
        rs_log_file = gpt_log_file (gc_paths (sv_cfg sv)), rs_vector_memory_backend = ghr_vector_memory_backend health,
        rs_encryption_state = ghr_encryption_state health, rs_audit_mode = ghr_audit_mode health,
        rs_attestation_state = go_attestation_state (sv_cfg sv)\<rparr>),
      g\<lparr>gw_clock := Suc (gw_clock g)\<rparr>))"

definition gateway_execute :: "'e go_service \<Rightarrow> string \<Rightarrow> string \<Rightarrow> bool \<Rightarrow> string \<Rightarrow> ('e, gateway_reply) handler" where
  "gateway_execute sv target arguments_json allow_network priority =
     forward ''execute tool'' (bridge_run_tool (sv_conn sv) target arguments_json allow_network priority)
       (\<lambda>r. Execute_Response (execute_result_message r))"

section \<open>Connectors\<close>

definition connector_info_message :: "go_descriptor \<Rightarrow> connector_info" where
  "connector_info_message d = \<lparr>ci_name = gdc_name d, ci_enabled = gdc_enabled d, ci_implemented = gdc_implemented d,
     ci_mode = gdc_mode d, ci_health = gdc_health d, ci_allowlist = gdc_allowlist d, ci_details = gdc_details d\<rparr>"

definition list_connectors :: "'e go_service \<Rightarrow> ('e, gateway_reply) handler" where
  "list_connectors sv = ret (Inr (Connector_List_Reply (map connector_info_message (describe_all (sv_cfg sv)))))"

definition get_connector_status :: "'e go_service \<Rightarrow> string \<Rightarrow> ('e, gateway_reply) handler" where
  "get_connector_status sv name = (case registry_status (sv_cfg sv) name of
       None \<Rightarrow> ret (Inl (Go_Status Go_Not_Found (''connector '' @ name @ '' not found'')))
     | Some d \<Rightarrow> ret (Inr (Connector_Status_Reply (Some (connector_info_message d)))))"

section \<open>Messages\<close>

text \<open>The message is published once the engine has answered, the reply after it.\<close>

definition submit_message :: "'e go_service \<Rightarrow> message_envelope \<Rightarrow> ('e, gateway_reply) handler" where
  "submit_message sv m = answer_or Go_Internal ''deliver message''
     (on_engine (bridge_deliver_message (sv_conn sv) \<lparr>gom_connector = me_connector m, gom_channel_id = me_channel_id m,
       gom_sender = me_sender m, gom_body = me_body m, gom_metadata_json = me_metadata_json m\<rparr>)) (\<lambda>result.
     andthen (go_publish (sv_env sv) ''message.inbound'' (json_obj [(''connector'', JStr (me_connector m)),
       (''channel_id'', JStr (me_channel_id m)), (''sender'', JStr (me_sender m)), (''body'', JStr (me_body m)),
       (''session_id'', JStr (gmr_session_id result)), (''delivery_state'', JStr (gmr_delivery_state result))])) (\<lambda>_.
     andthen (if gmr_reply result = [] then ret ()
       else go_publish (sv_env sv) ''message.reply'' (json_obj [(''connector'', JStr (me_connector m)),
         (''channel_id'', JStr (me_channel_id m)), (''body'', JStr (gmr_reply result)),
         (''session_id'', JStr (gmr_session_id result))])) (\<lambda>_.
     ret (Engine_Reply (Submit_Message_Response (gmr_accepted result) (gmr_message_id result) (gmr_reply result)
       (gmr_session_id result) (gmr_pairing_id result) (gmr_delivery_state result))))))"

text \<open>The connector sends before the engine records.\<close>

definition record_sent_message :: "'e go_service \<Rightarrow> outbound_message \<Rightarrow> ('e, gateway_reply) handler" where
  "record_sent_message sv m = answer_or Go_Internal ''record outbound message''
     (on_engine (bridge_record_outbound_message (sv_conn sv) (om_connector m) (om_channel_id m) (om_sender m) (om_body m)
       (om_metadata_json m) (om_session_id m))) (\<lambda>result.
     andthen (go_publish (sv_env sv) ''message.outbound'' (json_obj [(''connector'', JStr (om_connector m)),
       (''channel_id'', JStr (om_channel_id m)), (''body'', JStr (om_body m)), (''session_id'', JStr (gor_session_id result))])) (\<lambda>_.
     ret (Engine_Reply (Channel_Message_Response \<lparr>omr_accepted = gor_accepted result, omr_message_id = gor_message_id result,
       omr_session_id = gor_session_id result, omr_status = gor_status result, omr_detail = gor_detail result\<rparr>))))"

definition send_channel_message :: "'e go_service \<Rightarrow> outbound_message \<Rightarrow> ('e, gateway_reply) handler" where
  "send_channel_message sv m =
     andthen (attempt (registry_send (sv_env sv) (sv_cfg sv) (om_connector m) (om_channel_id m) (om_body m))) (\<lambda>sent. case sent of
       Inl e \<Rightarrow> ret (Inl (Go_Status Go_Internal (''send connector message: '' @ error_text e)))
     | Inr _ \<Rightarrow> record_sent_message sv m)"

section \<open>The methods the engine's service has as well\<close>

definition gateway_prune_sessions :: "'e go_service \<Rightarrow> 32 word \<Rightarrow> bool \<Rightarrow> ('e, gateway_reply) handler" where
  "gateway_prune_sessions sv older_than_hours archive_only = answer_or Go_Internal ''prune sessions''
     (on_engine (bridge_prune_sessions (sv_conn sv) older_than_hours archive_only)) (\<lambda>pruned.
     andthen (go_publish (sv_env sv) ''session.pruned'' (json_obj [(''pruned'', JNum (of_nat (unat pruned)))])) (\<lambda>_.
     ret (Engine_Reply (Session_Prune_Response pruned))))"

text \<open>A struct without tags is marshalled under the names of its fields.\<close>

definition pairing_payload :: "go_pairing_record \<Rightarrow> json" where
  "pairing_payload p = JObj [(''ID'', JStr (gpar_id p)), (''Connector'', JStr (gpar_connector p)),
     (''ChannelID'', JStr (gpar_channel_id p)), (''Sender'', JStr (gpar_sender p)), (''SessionID'', JStr (gpar_session_id p)),
     (''Status'', JStr (gpar_status p)), (''Reason'', JStr (gpar_reason p)), (''CreatedAt'', JStr (gpar_created_at p)),
     (''UpdatedAt'', JStr (gpar_updated_at p))]"

definition gateway_update_pairing :: "'e go_service \<Rightarrow> pairing_update \<Rightarrow> ('e, gateway_reply) handler" where
  "gateway_update_pairing sv u = answer_or Go_Internal ''update pairing''
     (on_engine (bridge_update_pairing (sv_conn sv) (pu_pairing_id u) (pu_action u) (pu_note u))) (\<lambda>pairing.
     andthen (go_publish (sv_env sv) ''pairing.updated'' (pairing_payload pairing)) (\<lambda>_.
     ret (Engine_Reply (Pairing_Update_Response True (Some (proto_pairing_record_message pairing))))))"

definition gateway_query_memory :: "'e go_service \<Rightarrow> string \<Rightarrow> string \<Rightarrow> nat \<Rightarrow> string \<Rightarrow> ('e, gateway_reply) handler" where
  "gateway_query_memory sv namespace query limit filter_json =
     forward ''query memory'' (bridge_query_memory (sv_conn sv) namespace query limit filter_json)
       (\<lambda>(records, backend). Memory_Query_Response (map proto_memory_record_message records) backend)"

definition gateway_upsert_memory :: "'e go_service \<Rightarrow> string \<Rightarrow> string \<Rightarrow> string \<Rightarrow> string \<Rightarrow> ('e, gateway_reply) handler" where
  "gateway_upsert_memory sv namespace key content metadata_json =
     forward ''upsert memory'' (bridge_upsert_memory (sv_conn sv) namespace key content metadata_json)
       (\<lambda>(stored, backend, digest). Memory_Upsert_Response stored backend digest)"

definition gateway_list_sessions :: "'e go_service \<Rightarrow> string \<Rightarrow> string \<Rightarrow> bool \<Rightarrow> nat \<Rightarrow> ('e, gateway_reply) handler" where
  "gateway_list_sessions sv connector_name st include_archived limit =
     forward ''list sessions'' (bridge_list_sessions (sv_conn sv) connector_name st include_archived limit)
       (\<lambda>(sessions, summary). Session_List_Response (map proto_session_record_message sessions) summary)"

definition gateway_get_session :: "'e go_service \<Rightarrow> string \<Rightarrow> nat \<Rightarrow> ('e, gateway_reply) handler" where
  "gateway_get_session sv session_id limit =
     forward ''get session'' (bridge_get_session (sv_conn sv) session_id limit)
       (\<lambda>detail. Session_Response (map_option proto_session_record_message (gsd_session detail))
         (map proto_session_message_message (gsd_messages detail)))"

definition gateway_list_pairings :: "'e go_service \<Rightarrow> string \<Rightarrow> string \<Rightarrow> nat \<Rightarrow> ('e, gateway_reply) handler" where
  "gateway_list_pairings sv st connector_name limit =
     forward ''list pairings'' (bridge_list_pairings (sv_conn sv) st connector_name limit)
       (\<lambda>pairings. Pairing_List_Response (map proto_pairing_record_message pairings))"

definition gateway_get_doctor_report :: "'e go_service \<Rightarrow> bool \<Rightarrow> bool \<Rightarrow> bool \<Rightarrow> bool \<Rightarrow> ('e, gateway_reply) handler" where
  "gateway_get_doctor_report sv include_connectors include_models include_desktop include_web =
     forward ''get doctor report''
       (bridge_get_doctor_report (sv_conn sv) include_connectors include_models (include_desktop \<or> include_web))
       (\<lambda>report. Doctor_Report_Response \<lparr>dr_status = gdr_status report,
         dr_findings = map proto_doctor_finding_message (gdr_findings report)\<rparr>)"

definition gateway_list_model_profiles :: "'e go_service \<Rightarrow> ('e, gateway_reply) handler" where
  "gateway_list_model_profiles sv = forward ''list model profiles'' (bridge_list_model_profiles (sv_conn sv))
     (\<lambda>profiles. Model_Profile_List_Response (map proto_model_profile_message profiles))"

definition gateway_remember_brain :: "'e go_service \<Rightarrow> brain_remember \<Rightarrow> ('e, gateway_reply) handler" where
  "gateway_remember_brain sv q = forward ''remember brain'' (bridge_remember_brain (sv_conn sv) (br_kind q) (br_subtype q)
       (br_title q) (br_content q) (br_importance q) (br_scope_json q) (br_links_json q) (br_source_ref q))
     (\<lambda>result. Brain_Remember_Response (gbm_stored result) (map_option proto_brain_entity_message (gbm_entity result))
       (map_option proto_brain_task_message (gbm_task result)) (gbm_digest result))"

definition gateway_recall_brain :: "'e go_service \<Rightarrow> brain_recall_query \<Rightarrow> ('e, gateway_reply) handler" where
  "gateway_recall_brain sv q = forward ''recall brain'' (bridge_recall_brain (sv_conn sv) (brq_query q) (brq_scope_json q)
       (brq_limit q) (brq_include_archived q))
     (\<lambda>result. Brain_Recall_Response (gbc_summary result) (map proto_brain_entity_message (gbc_entities result))
       (map proto_brain_fact_message (gbc_facts result)) (map proto_brain_relation_message (gbc_relations result))
       (map proto_brain_task_message (gbc_tasks result)))"

definition gateway_suggest_brain :: "'e go_service \<Rightarrow> brain_suggest_query \<Rightarrow> ('e, gateway_reply) handler" where
  "gateway_suggest_brain sv q =
     forward ''suggest brain'' (bridge_suggest_brain (sv_conn sv) (bsq_scope_json q) (bsq_limit q))
       (\<lambda>result. Brain_Suggest_Response (gbg_summary result) (map proto_brain_suggestion_message (gbg_suggestions result)))"

definition gateway_list_brain_tasks ::
  "'e go_service \<Rightarrow> string \<Rightarrow> string list \<Rightarrow> string list \<Rightarrow> string \<Rightarrow> nat \<Rightarrow> ('e, gateway_reply) handler" where
  "gateway_list_brain_tasks sv scope_json statuses priorities due_before limit =
     forward ''list brain tasks'' (bridge_list_brain_tasks (sv_conn sv) scope_json statuses priorities due_before limit)
       (\<lambda>result. Brain_Task_List_Response (gbl_summary result) (map proto_brain_task_message (gbl_tasks result)))"

definition gateway_update_brain_task ::
  "'e go_service \<Rightarrow> string \<Rightarrow> string \<Rightarrow> string \<Rightarrow> string \<Rightarrow> string \<Rightarrow> string \<Rightarrow> string \<Rightarrow> ('e, gateway_reply) handler" where
  "gateway_update_brain_task sv task_id st priority due_at summary links_json source_ref =
     forward ''update brain task''
       (bridge_update_brain_task (sv_conn sv) task_id st priority due_at summary links_json source_ref)
       (\<lambda>task. Brain_Task_Update_Response True (Some (proto_brain_task_message task)))"

definition gateway_forget_brain :: "'e go_service \<Rightarrow> brain_forget \<Rightarrow> ('e, gateway_reply) handler" where
  "gateway_forget_brain sv q = forward ''forget brain''
     (bridge_forget_brain (sv_conn sv) (bf_target_kind q) (bf_target_id q) (bf_mode q) (bf_reason q))
     (\<lambda>result. Brain_Forget_Response \<lparr>bfr_forgotten = gbo_forgotten result, bfr_mode = gbo_mode result,
       bfr_target_id = gbo_target_id result\<rparr>)"

definition go_agent_message_of :: "agent_message \<Rightarrow> go_agent_message" where
  "go_agent_message_of m = \<lparr>gam_sender = am_sender m, gam_recipient = am_recipient m, gam_body = am_body m,
     gam_metadata_json = am_metadata_json m, gam_encrypted_body = am_encrypted_body m\<rparr>"

definition gateway_run_agent_protocol ::
  "'e go_service \<Rightarrow> string \<Rightarrow> string \<Rightarrow> agent_message list \<Rightarrow> string \<Rightarrow> ('e, gateway_reply) handler" where
  "gateway_run_agent_protocol sv protocol_id initiator messages policy_scope = forward ''run agent protocol''
     (bridge_run_agent_protocol (sv_conn sv) protocol_id initiator (map go_agent_message_of messages) policy_scope)
     (\<lambda>result. Agent_Protocol_Response \<lparr>prr_accepted = gap_accepted result, prr_protocol_id = gap_protocol_id result,
       prr_transcript_json = gap_transcript_json result, prr_findings = gap_findings result\<rparr>)"

definition gateway_attest_session :: "'e go_service \<Rightarrow> string \<Rightarrow> string \<Rightarrow> bool \<Rightarrow> ('e, gateway_reply) handler" where
  "gateway_attest_session sv subject nonce include_hardware =
     forward ''attest session'' (bridge_attest_session (sv_conn sv) subject nonce include_hardware)
     (\<lambda>result. Attestation_Response \<lparr>ar_subject = gat_subject result, ar_status = gat_status result,
       ar_platform = gat_platform result, ar_hardware_backed = gat_hardware_backed result, ar_nonce = gat_nonce result,
       ar_public_key = gat_public_key result, ar_measurements = gat_measurements result\<rparr>)"

definition gateway_export_audit :: "'e go_service \<Rightarrow> string \<Rightarrow> nat \<Rightarrow> ('e, gateway_reply) handler" where
  "gateway_export_audit sv sink limit = forward ''export audit'' (bridge_export_audit (sv_conn sv) sink limit)
     (\<lambda>(events, format). Audit_Export_Response True format (map proto_audit_event_message events))"

definition gateway_queue_task ::
  "'e go_service \<Rightarrow> string \<Rightarrow> string \<Rightarrow> string \<Rightarrow> string \<Rightarrow> string \<Rightarrow> ('e, gateway_reply) handler" where
  "gateway_queue_task sv task_id task_type target arguments_json priority = forward ''queue task''
     (bridge_queue_task (sv_conn sv) task_id task_type target arguments_json priority)
     (\<lambda>receipt. Queue_Task_Response \<lparr>qr_accepted = gqr_accepted receipt, qr_task_id = gqr_task_id receipt,
       qr_queue = gqr_queue receipt, qr_message = gqr_message receipt\<rparr>)"

definition gateway_get_policy_report :: "'e go_service \<Rightarrow> string \<Rightarrow> string \<Rightarrow> ('e, gateway_reply) handler" where
  "gateway_get_policy_report sv subject capability =
     forward ''get policy report'' (bridge_get_policy_report (sv_conn sv) subject capability)
     (\<lambda>report. Policy_Report_Response \<lparr>por_subject = gpo_subject report,
       por_allowed_capabilities = gpo_allowed_capabilities report, por_denied_capabilities = gpo_denied_capabilities report,
       por_source = gpo_source report\<rparr>)"

section \<open>The service\<close>

text \<open>A method the service has not registered.\<close>

definition unimplemented :: "('e, gateway_reply) handler" where
  "unimplemented = ret (Inl (Go_Status Go_Unimplemented ''unknown method''))"

fun gateway_forward :: "'e go_service \<Rightarrow> rpc_request \<Rightarrow> ('e, gateway_reply) handler" where
  "gateway_forward sv (Query_Memory ns query limit flt) = gateway_query_memory sv ns query limit flt"
| "gateway_forward sv (Upsert_Memory ns key content metadata) = gateway_upsert_memory sv ns key content metadata"
| "gateway_forward sv (List_Sessions c st archived limit) = gateway_list_sessions sv c st archived limit"
| "gateway_forward sv (Get_Session sid limit) = gateway_get_session sv sid limit"
| "gateway_forward sv (Prune_Sessions hours archive) = gateway_prune_sessions sv hours archive"
| "gateway_forward sv (List_Pairings st c limit) = gateway_list_pairings sv st c limit"
| "gateway_forward sv (Update_Pairing u) = gateway_update_pairing sv u"
| "gateway_forward sv (Get_Doctor_Report cs ms desktop web) = gateway_get_doctor_report sv cs ms desktop web"
| "gateway_forward sv List_Model_Profiles = gateway_list_model_profiles sv"
| "gateway_forward sv (Remember_Brain q) = gateway_remember_brain sv q"
| "gateway_forward sv (Recall_Brain q) = gateway_recall_brain sv q"
| "gateway_forward sv (Suggest_Brain q) = gateway_suggest_brain sv q"
| "gateway_forward sv (List_Brain_Tasks scope sts prios due limit) = gateway_list_brain_tasks sv scope sts prios due limit"
| "gateway_forward sv (Update_Brain_Task tid st prio due summ links src) = gateway_update_brain_task sv tid st prio due summ links src"
| "gateway_forward sv (Forget_Brain q) = gateway_forget_brain sv q"
| "gateway_forward sv (Run_Agent_Protocol pid initiator ms scope) = gateway_run_agent_protocol sv pid initiator ms scope"
| "gateway_forward sv (Attest_Session subject nonce hardware) = gateway_attest_session sv subject nonce hardware"
| "gateway_forward sv (Export_Audit sink limit) = gateway_export_audit sv sink limit"
| "gateway_forward sv (Queue_Task tid tt tgt args prio) = gateway_queue_task sv tid tt tgt args prio"
| "gateway_forward sv (Get_Policy_Report subject capability) = gateway_get_policy_report sv subject capability"
| "gateway_forward sv (Deliver_Message m) = unimplemented"
| "gateway_forward sv (Run_Tool tool args network prio) = unimplemented"
| "gateway_forward sv (Run_Skill skill args) = unimplemented"
| "gateway_forward sv Health = unimplemented"
| "gateway_forward sv (Record_Outbound_Message om) = unimplemented"

fun gateway_serve :: "'e go_service \<Rightarrow> gateway_call \<Rightarrow> ('e, gateway_reply) handler" where
  "gateway_serve sv Get_Status = get_status sv"
| "gateway_serve sv (Execute target args network priority) = gateway_execute sv target args network priority"
| "gateway_serve sv List_Connectors = list_connectors sv"
| "gateway_serve sv (Get_Connector_Status name) = get_connector_status sv name"
| "gateway_serve sv (Submit_Message m) = submit_message sv m"
| "gateway_serve sv (Send_Channel_Message m) = send_channel_message sv m"
| "gateway_serve sv (Engine_Call req) = gateway_forward sv req"

end
