(* ===== verification/Gateway_Config.thy ===== *)
theory Gateway_Config
  imports Connectors
begin

text \<open>
  How the gateway finds its configuration and its engine (\<open>gateway/internal/config/config.go\<close>, \<open>New\<close> of
  \<open>enginebridge/bridge.go\<close>): the file, the environment variables that override it, the legacy connector.
  Of the configuration there is what the gateway reads; the defaults \<open>Load\<close> fills into sections it never
  reads (desktop, model profiles, failover) are left out. Directories are clean paths.
\<close>

section \<open>Paths\<close>

text \<open>\<open>filepath.Join\<close> of a directory and names, and \<open>filepath.Dir\<close>.\<close>

definition go_join :: "string \<Rightarrow> string list \<Rightarrow> string" where
  "go_join base names = fold (\<lambda>name p. path_join p name) names base"

definition go_dir :: "string \<Rightarrow> string" where
  "go_dir p = (let d = rev (dropWhile (\<lambda>c. c \<noteq> CHR ''/'') (rev p))
     in if d = [] then ''.'' else if d = ''/'' then d else butlast d)"

text \<open>
  What the process finds: \<open>os.Getenv\<close> (empty for unset), the user's directories, the decoder of the
  \<open>go-toml\<close> library, the text of \<open>os.ReadFile\<close>'s error.
\<close>

record go_machine =
  gm_getenv :: "string \<Rightarrow> string"
  gm_user_config_dir :: "string + string"
  gm_user_home_dir :: "string option"
  gm_user_cache_dir :: "string option"
  gm_decode :: "string \<Rightarrow> string + go_config"
  gm_read_error :: "string \<Rightarrow> string"

definition discover_config_path :: "go_machine \<Rightarrow> string + string" where
  "discover_config_path M =
     (if gm_getenv M ''OPENPINCH_CONFIG_PATH'' \<noteq> [] then Inr (gm_getenv M ''OPENPINCH_CONFIG_PATH'')
      else case gm_user_config_dir M of
        Inl e \<Rightarrow> Inl (''config dir: '' @ e)
      | Inr base \<Rightarrow> Inr (go_join base [''openpinch'', ''OpenPinch'', ''config.toml'']))"

definition compute_paths :: "go_machine \<Rightarrow> string \<Rightarrow> go_paths" where
  "compute_paths M config_path =
     (let config_dir = go_dir config_path;
          data_dir = (case gm_user_home_dir M of
            Some home \<Rightarrow> go_join home [''.local'', ''share'', ''openpinch'', ''OpenPinch''] | None \<Rightarrow> config_dir);
          state_dir = (case gm_user_cache_dir M of
            Some base \<Rightarrow> go_join base [''openpinch'', ''OpenPinch''] | None \<Rightarrow> go_join config_dir [''state''])
      in \<lparr>gpt_config_file = config_path, gpt_data_dir = data_dir, gpt_state_dir = state_dir,
          gpt_runtime_state_file = go_join state_dir [''runtime'', ''runtime-state.json''],
          gpt_log_file = go_join state_dir [''logs'', ''openpinch.log''],
          gpt_installs_dir = go_join data_dir [''skills'', ''installed'']\<rparr>)"

section \<open>The legacy connector\<close>

definition migrated_legacy :: "connector_config \<Rightarrow> connector_config" where
  "migrated_legacy legacy = legacy\<lparr>
     cc_mode := (if cc_mode legacy = [] \<or> cc_mode legacy = ''web'' then ''native'' else cc_mode legacy),
     cc_auth_mode := (if cc_auth_mode legacy = [] \<or> cc_auth_mode legacy = ''local-session'' then ''local-process'' else cc_auth_mode legacy),
     cc_deferred := False, cc_pair_dm := False, cc_mention_only := False\<rparr>"

definition go_default_desktop :: connector_config where
  "go_default_desktop = \<lparr>cc_enabled = True, cc_mode = ''native'', cc_endpoint = [], cc_allowlist = [], cc_api_first = True,
     cc_deferred = False, cc_auth_mode = ''local-process'', cc_pair_dm = False, cc_chunk_limit = 1800, cc_mention_only = False\<rparr>"

definition migrate_legacy_connectors :: "(string, connector_config) btree \<Rightarrow> (string, connector_config) btree" where
  "migrate_legacy_connectors cs =
     (let cs1 = (case bt_get cs ''webchat'' of
            Some legacy \<Rightarrow> bt_remove ''webchat'' (bt_insert ''desktop'' (migrated_legacy legacy) cs)
          | None \<Rightarrow> cs)
      in if bt_get cs1 ''desktop'' = None then bt_insert ''desktop'' go_default_desktop cs1 else cs1)"

section \<open>Loading\<close>

text \<open>An environment variable that is set overrides the file.\<close>

definition env_or :: "go_machine \<Rightarrow> string \<Rightarrow> string \<Rightarrow> string" where
  "env_or M name v = (if gm_getenv M name \<noteq> [] then gm_getenv M name else v)"

definition go_load :: "go_machine \<Rightarrow> (string \<Rightarrow> string option) \<Rightarrow> string + go_config" where
  "go_load M files = (case discover_config_path M of
       Inl e \<Rightarrow> Inl e
     | Inr config_path \<Rightarrow> (case files config_path of
         None \<Rightarrow> Inl (''read config: '' @ gm_read_error M config_path)
       | Some raw \<Rightarrow> (case gm_decode M raw of
           Inl e \<Rightarrow> Inl (''parse config: '' @ e)
         | Inr c \<Rightarrow> Inr (c\<lparr>gc_paths := compute_paths M config_path,
             gc_engine_endpoint := env_or M ''OPENPINCH_ENGINE_ENDPOINT'' (gc_engine_endpoint c),
             gc_listen_address := env_or M ''OPENPINCH_GATEWAY_LISTEN_ADDRESS'' (gc_listen_address c),
             gc_telegram_bot_token := env_or M ''OPENPINCH_TELEGRAM_BOT_TOKEN'' (gc_telegram_bot_token c),
             gc_telegram_poll_interval_seconds :=
               (if gc_telegram_poll_interval_seconds c = 0 then 5 else gc_telegram_poll_interval_seconds c),
             gc_local_http_listen_address :=
               (if gc_local_http_listen_address c = [] then ''127.0.0.1:8088'' else gc_local_http_listen_address c),
             gc_connectors := migrate_legacy_connectors (gc_connectors c)\<rparr>))))"

section \<open>The engine's address\<close>

datatype dial_target = Dial_Unix string | Dial_Address string

definition bridge_target :: "string \<Rightarrow> string + dial_target" where
  "bridge_target endpoint =
     (if endpoint = [] then Inl ''engine endpoint is empty''
      else if starts_with endpoint ''unix://'' then Inr (Dial_Unix (drop 7 endpoint))
      else if starts_with endpoint ''tcp://'' then Inr (Dial_Address (drop 6 endpoint))
      else Inr (Dial_Address endpoint))"

section \<open>Both sides migrate alike\<close>

lemma migrated_as_the_engine: "migrated_legacy l = migrate_webchat l"
  by (simp add: migrated_legacy_def migrate_webchat_def Let_def)

end
