(* ===== verification/Gateway_Local.thy ===== *)
theory Gateway_Local
  imports Gateway_Config Gateway Cli
begin

text \<open>
  What the gateway does without the engine: the list of skills, the tail of the log
  (\<open>gateway/internal/server/server.go\<close>) and the scheduled jobs (\<open>gateway/internal/scheduler/scheduler.go\<close>).
\<close>

section \<open>The list of skills\<close>

record go_registry_skill =
  grs_id :: string
  grs_version :: string
  grs_name :: string
  grs_description :: string
  grs_language :: string
  grs_entrypoint :: string

record go_registry_index =
  gri_version :: string
  gri_skills :: "go_registry_skill list"

text \<open>
  The disk as the gateway sees it: the files, what \<open>os.Stat\<close> finds, the working directory, the texts of the
  errors, and \<open>json.Unmarshal\<close> into the index.
\<close>

record go_disk =
  gd_files :: "string \<Rightarrow> string option"
  gd_exists :: "string \<Rightarrow> bool"
  gd_cwd :: "string option"
  gd_open_error :: "string \<Rightarrow> string"
  gd_index :: "string \<Rightarrow> string + go_registry_index"

definition go_resolve_path :: "go_disk \<Rightarrow> string \<Rightarrow> string" where
  "go_resolve_path D path =
     (if path_is_absolute path then path
      else case gd_cwd D of
        None \<Rightarrow> path
      | Some cwd \<Rightarrow> (case find (gd_exists D) [go_join cwd [path], go_join (go_dir cwd) [path], path] of
          Some candidate \<Rightarrow> candidate
        | None \<Rightarrow> go_join cwd [path]))"

definition installed_skill_exists :: "go_disk \<Rightarrow> string \<Rightarrow> string \<Rightarrow> string \<Rightarrow> bool" where
  "installed_skill_exists D installs_dir skill_id version = gd_exists D (go_join installs_dir [skill_id @ ''-'' @ version])"

text \<open>Every entry of the index is listed as verified.\<close>

definition gateway_list_skills :: "go_disk \<Rightarrow> go_config \<Rightarrow> go_status + string \<times> skill_info list" where
  "gateway_list_skills D cfg =
     (let index_path = go_resolve_path D (gc_registry_index cfg) in
      case gd_files D index_path of
        None \<Rightarrow> Inl (Go_Status Go_Internal (''read registry: '' @ gd_open_error D index_path))
      | Some raw \<Rightarrow> (case gd_index D raw of
          Inl e \<Rightarrow> Inl (Go_Status Go_Internal (''parse registry: '' @ e))
        | Inr index \<Rightarrow> Inr (gri_version index, map (\<lambda>s. \<lparr>si_id = grs_id s, si_version = grs_version s, si_name = grs_name s,
            si_description = grs_description s,
            si_installed = installed_skill_exists D (gpt_installs_dir (gc_paths cfg)) (grs_id s) (grs_version s),
            si_verified = True, si_entrypoint = grs_entrypoint s, si_language = grs_language s\<rparr>) (gri_skills index))))"

definition gateway_install_skill :: "string \<Rightarrow> bool \<times> string" where
  "gateway_install_skill source =
     (False, ''gateway install is disabled for '' @ source @ ''; use `openpinch skill install` locally'')"

section \<open>The tail of the log\<close>

text \<open>
  \<open>bufio.Scanner\<close>: lines end at a line feed, a carriage return before it or before the end is dropped, the
  rest after the last line feed counts unless it is empty; a line that does not fit the buffer of 64 KiB is
  an error.
\<close>

definition scan_parts :: "string \<Rightarrow> string list" where
  "scan_parts s = (let parts = split_on CHR 0x0A s in if last parts = [] then butlast parts else parts)"

definition scan_lines :: "string \<Rightarrow> string + string list" where
  "scan_lines s = (if \<exists>part \<in> set (scan_parts s). 65536 \<le> length part then Inl ''bufio.Scanner: token too long''
     else Inr (map without_cr (scan_parts s)))"

definition keep_line :: "nat \<Rightarrow> string list \<Rightarrow> string \<Rightarrow> string list" where
  "keep_line tail kept line = (let k = kept @ [line] in if 0 < tail \<and> tail < length k then tl k else k)"

definition tail_file :: "go_disk \<Rightarrow> string \<Rightarrow> nat \<Rightarrow> string + string list" where
  "tail_file D path tail = (case gd_files D path of
       None \<Rightarrow> Inl (gd_open_error D path)
     | Some s \<Rightarrow> map_sum id (\<lambda>ls. foldl (keep_line tail) [] ls) (scan_lines s))"

text \<open>The lines sent first, and those sent by a round of following after \<open>seen\<close> lines, with the next \<open>seen\<close>.\<close>

definition tail_logs :: "go_disk \<Rightarrow> string \<Rightarrow> nat \<Rightarrow> go_status + string list" where
  "tail_logs D path tail = map_sum (\<lambda>e. Go_Status Go_Internal (''tail logs: '' @ e)) id (tail_file D path tail)"

definition follow_logs :: "go_disk \<Rightarrow> string \<Rightarrow> nat \<Rightarrow> nat \<Rightarrow> go_status + string list \<times> nat" where
  "follow_logs D path tail seen = (case tail_file D path (tail + seen) of
       Inl e \<Rightarrow> Inl (Go_Status Go_Internal (''follow logs: '' @ e))
     | Inr latest \<Rightarrow> Inr (if length latest \<le> seen then ([], seen) else (drop seen latest, length latest)))"

definition last_of :: "nat \<Rightarrow> 'a list \<Rightarrow> 'a list" where
  "last_of n xs = drop (length xs - n) xs"

lemma length_last_of: "length (last_of n xs) = min n (length xs)"
  by (simp add: last_of_def)

lemma kept_lines: "foldl (keep_line tail) [] ls = (if tail = 0 then ls else last_of tail ls)"
proof (induction ls rule: rev_induct)
  case (snoc line ls)
  show ?case
  proof (cases "tail = 0")
    case False
    have "tl (drop (length ls - tail) ls @ [line]) = drop (Suc (length ls) - tail) (ls @ [line])" if "tail \<le> length ls"
    proof -
      from that False have "Suc (length ls) - tail = Suc (length ls - tail)" "length ls - tail < length ls" by auto
      then show ?thesis by (simp add: drop_Suc tl_drop)
    qed
    then show ?thesis using snoc False by (auto simp: keep_line_def Let_def last_of_def)
  qed (use snoc in \<open>simp add: keep_line_def\<close>)
qed (simp add: last_of_def)

lemma tail_file_lines: "gd_files D path = Some s \<Longrightarrow> scan_lines s = Inr ls \<Longrightarrow>
    tail_file D path tail = Inr (if tail = 0 then ls else last_of tail ls)"
  by (simp add: tail_file_def kept_lines)

text \<open>
  Following a log that is asked for as a whole (tail 0) sends nothing after the first time, however it
  grows, unless it was empty; with a tail, a log that has not changed has its last lines sent again.
\<close>

theorem followed_log_stalls:
  assumes "gd_files D path = Some s" and "scan_lines s = Inr ls" and "seen \<noteq> 0"
  shows "follow_logs D path 0 seen = Inr ([], seen)"
  using tail_file_lines [OF assms(1,2)] assms(3) by (simp add: follow_logs_def length_last_of)

theorem followed_tail_repeats:
  assumes "gd_files D path = Some s" and "scan_lines s = Inr ls" and "0 < tail" and "2 * tail \<le> length ls"
  shows "tail_logs D path tail = Inr (last_of tail ls)"
    and "follow_logs D path tail tail = Inr (last_of tail ls, 2 * tail)"
  using tail_file_lines [OF assms(1,2)] assms(3,4)
  by (auto simp: tail_logs_def follow_logs_def last_of_def add.commute)

section \<open>Scheduled jobs\<close>

record cron_job =
  cj_id :: string
  cj_spec :: string
  cj_tool :: string
  cj_arguments :: string

text \<open>
  The \<open>cron\<close> library: its state is a parameter, with what is scheduled in it by the numbers it gives out.
  A specification it cannot parse is an error; a number is not given out twice.
\<close>

record 'c cron =
  cron_add :: "string \<Rightarrow> cron_job \<Rightarrow> 'c \<Rightarrow> (string + nat) \<times> 'c"
  cron_remove :: "nat \<Rightarrow> 'c \<Rightarrow> 'c"
  cron_entries :: "'c \<Rightarrow> nat \<Rightarrow> cron_job option"
  cron_given :: "'c \<Rightarrow> nat set"
  cron_error :: "string \<Rightarrow> string option"

definition cron_law :: "'c cron \<Rightarrow> bool" where
  "cron_law L \<longleftrightarrow>
     (\<forall>spec job c e c'. cron_add L spec job c = (Inl e, c') \<longrightarrow>
        cron_error L spec = Some e \<and> cron_entries L c' = cron_entries L c \<and> cron_given L c' = cron_given L c) \<and>
     (\<forall>spec job c i c'. cron_add L spec job c = (Inr i, c') \<longrightarrow>
        cron_error L spec = None \<and> i \<notin> cron_given L c \<and> cron_given L c' = insert i (cron_given L c) \<and>
        cron_entries L c' = (cron_entries L c)(i \<mapsto> job)) \<and>
     (\<forall>i c. cron_given L (cron_remove L i c) = cron_given L c \<and>
        cron_entries L (cron_remove L i c) = (cron_entries L c)(i := None))"

record 'c scheduler =
  sd_cron :: 'c
  sd_ids :: "string \<Rightarrow> nat option"

definition schedule_entry :: "'c cron \<Rightarrow> string \<Rightarrow> string \<Rightarrow> string \<Rightarrow> string \<Rightarrow> 'c scheduler \<Rightarrow> (string + unit) \<times> 'c scheduler" where
  "schedule_entry L job_id spec tool arguments_json s =
     (let c = (case sd_ids s job_id of Some existing \<Rightarrow> cron_remove L existing (sd_cron s) | None \<Rightarrow> sd_cron s) in
      case cron_add L spec \<lparr>cj_id = job_id, cj_spec = spec, cj_tool = tool, cj_arguments = arguments_json\<rparr> c of
        (Inl e, c') \<Rightarrow> (Inl e, s\<lparr>sd_cron := c'\<rparr>)
      | (Inr entry_id, c') \<Rightarrow> (Inr (), s\<lparr>sd_cron := c', sd_ids := (sd_ids s)(job_id \<mapsto> entry_id)\<rparr>))"

text \<open>What a job does when it is due.\<close>

definition run_cron_job :: "'e conn \<Rightarrow> cron_job \<Rightarrow> ('e gateway_state, unit) act" where
  "run_cron_job conn job = ignore_err (on_engine (bridge_run_tool conn (cj_tool job) (cj_arguments job) False ''autonomy''))"

text \<open>The handler \<open>ScheduleJob\<close>, of a request of job, specification, tool and arguments.\<close>

type_synonym schedule_call = "string \<times> string \<times> string \<times> string"

fun schedule_job :: "'c cron \<Rightarrow> schedule_call \<Rightarrow> 'c scheduler \<Rightarrow> (go_status + bool \<times> string) \<times> 'c scheduler" where
  "schedule_job L (job_id, spec, tool, arguments_json) s = (case schedule_entry L job_id spec tool arguments_json s of
       (Inl e, s') \<Rightarrow> (Inl (Go_Status Go_Invalid_Argument (''schedule job: '' @ e)), s')
     | (Inr _, s') \<Rightarrow> (Inr (True, ''job scheduled''), s'))"

definition schedule_jobs :: "'c cron \<Rightarrow> schedule_call list \<Rightarrow> 'c scheduler \<Rightarrow> 'c scheduler" where
  "schedule_jobs L calls s = fold (\<lambda>call s. snd (schedule_job L call s)) calls s"

definition new_scheduler :: "'c \<Rightarrow> 'c scheduler" where
  "new_scheduler c = \<lparr>sd_cron = c, sd_ids = (\<lambda>_. None)\<rparr>"

section \<open>The table of jobs the scheduler keeps\<close>

text \<open>The specification: one table of jobs; a call replaces the job of its name, or removes it.\<close>

fun table_step :: "(string \<Rightarrow> string option) \<Rightarrow> schedule_call \<Rightarrow> (string \<Rightarrow> cron_job option) \<Rightarrow> string \<Rightarrow> cron_job option" where
  "table_step err (job_id, spec, tool, arguments_json) table = table(job_id :=
     (if err spec = None then Some \<lparr>cj_id = job_id, cj_spec = spec, cj_tool = tool, cj_arguments = arguments_json\<rparr> else None))"

definition refines_table :: "'c cron \<Rightarrow> 'c scheduler \<Rightarrow> (string \<Rightarrow> cron_job option) \<Rightarrow> bool" where
  "refines_table L s table \<longleftrightarrow> ran (sd_ids s) \<subseteq> cron_given L (sd_cron s) \<and> dom (cron_entries L (sd_cron s)) \<subseteq> ran (sd_ids s) \<and>
     inj_on (sd_ids s) (dom (sd_ids s)) \<and>
     (\<forall>job_id. table job_id = Option.bind (sd_ids s job_id) (cron_entries L (sd_cron s)))"

lemma schedule_refines:
  assumes "cron_law L" and "refines_table L s table"
  shows "refines_table L (snd (schedule_job L call s)) (table_step (cron_error L) call table)"
proof -
  obtain job_id spec tool arguments where call: "call = (job_id, spec, tool, arguments)" by (cases call)
  let ?job = "\<lparr>cj_id = job_id, cj_spec = spec, cj_tool = tool, cj_arguments = arguments\<rparr>"
  define c where "c = (case sd_ids s job_id of Some existing \<Rightarrow> cron_remove L existing (sd_cron s) | None \<Rightarrow> sd_cron s)"
  have given: "cron_given L c = cron_given L (sd_cron s)"
    and entries: "cron_entries L c = (case sd_ids s job_id of Some i \<Rightarrow> (cron_entries L (sd_cron s))(i := None) | None \<Rightarrow> cron_entries L (sd_cron s))"
    using assms(1) by (auto simp: c_def cron_law_def split: option.split)
  have ids: "ran (sd_ids s) \<subseteq> cron_given L (sd_cron s)" "dom (cron_entries L (sd_cron s)) \<subseteq> ran (sd_ids s)"
    "inj_on (sd_ids s) (dom (sd_ids s))" and table: "table j = Option.bind (sd_ids s j) (cron_entries L (sd_cron s))" for j
    using assms(2) unfolding refines_table_def by blast+
  have others: "Option.bind (sd_ids s j) (cron_entries L c) = (if j = job_id then None else table j)" for j
    using ids(3) by (auto simp: entries table inj_on_def dom_def split: option.split bind_splits)
  obtain r c' where add: "cron_add L spec ?job c = (r, c')" by (cases "cron_add L spec ?job c")
  show ?thesis
  proof (cases r)
    case (Inl e)
    then have c': "cron_error L spec = Some e" "cron_entries L c' = cron_entries L c" "cron_given L c' = cron_given L c"
      using assms(1) add unfolding cron_law_def by blast+
    have "snd (schedule_job L call s) = s\<lparr>sd_cron := c'\<rparr>"
      using add Inl by (simp add: call schedule_entry_def Let_def c_def [symmetric])
    moreover have "dom (cron_entries L c) \<subseteq> ran (sd_ids s)" using ids(2) by (auto simp: entries split: option.split if_splits)
    ultimately show ?thesis using ids c' given others by (auto simp: refines_table_def call)
  next
    case (Inr i)
    then have c': "cron_error L spec = None" "i \<notin> cron_given L c" "cron_given L c' = insert i (cron_given L c)"
        "cron_entries L c' = (cron_entries L c)(i \<mapsto> ?job)"
      using assms(1) add unfolding cron_law_def by blast+
    have s': "snd (schedule_job L call s) = s\<lparr>sd_cron := c', sd_ids := (sd_ids s)(job_id \<mapsto> i)\<rparr>"
      using add Inr by (simp add: call schedule_entry_def Let_def c_def [symmetric])
    have fresh: "sd_ids s j \<noteq> Some i" for j using ids(1) c'(2) given by (auto simp: ran_def)
    have "ran ((sd_ids s)(job_id \<mapsto> i)) \<subseteq> cron_given L c'" using ids(1) given c'(3) by (auto simp: ran_def)
    moreover have "dom (cron_entries L c') \<subseteq> ran ((sd_ids s)(job_id \<mapsto> i))"
    proof
      fix k assume "k \<in> dom (cron_entries L c')"
      then consider "k = i" | job where "k \<noteq> i" "cron_entries L c k = Some job" by (auto simp: c'(4) split: if_splits)
      then show "k \<in> ran ((sd_ids s)(job_id \<mapsto> i))"
      proof cases
        case 2
        then have "k \<in> dom (cron_entries L (sd_cron s))" and free: "sd_ids s job_id \<noteq> Some k"
          by (auto simp: entries split: option.splits if_splits)
        with ids(2) obtain j where "sd_ids s j = Some k" by (auto simp: ran_def)
        with free have "((sd_ids s)(job_id \<mapsto> i)) j = Some k" by auto
        then show ?thesis by (rule ranI)
      qed (auto simp: ran_def intro!: exI [of _ job_id])
    qed
    moreover have "inj_on ((sd_ids s)(job_id \<mapsto> i)) (dom ((sd_ids s)(job_id \<mapsto> i)))"
      using ids(3) fresh by (auto simp: inj_on_def dom_def)
    moreover have "table_step (cron_error L) call table j = Option.bind (((sd_ids s)(job_id \<mapsto> i)) j) (cron_entries L c')" for j
      using others [of j] fresh [of j] by (auto simp: call c' split: bind_splits)
    ultimately show ?thesis by (simp add: s' refines_table_def)
  qed
qed

definition well_named :: "(string \<Rightarrow> cron_job option) \<Rightarrow> bool" where
  "well_named table \<longleftrightarrow> (\<forall>j job. table j = Some job \<longrightarrow> cj_id job = j)"

lemma table_named: "well_named table \<Longrightarrow> well_named (fold (table_step e) calls table)"
proof (induction calls arbitrary: table)
  case (Cons call calls)
  obtain job_id spec tool arguments where "call = (job_id, spec, tool, arguments)" by (cases call)
  with Cons.prems have "well_named (table_step e call table)" by (simp add: well_named_def)
  then show ?case using Cons.IH by simp
qed simp

lemma schedules_refine:
  "cron_law L \<Longrightarrow> refines_table L s table \<Longrightarrow>
     refines_table L (schedule_jobs L calls s) (fold (table_step (cron_error L)) calls table)"
  by (induction calls arbitrary: s table) (simp_all add: schedule_jobs_def schedule_refines)

text \<open>C25.
  The scheduler refines a table of jobs: after any calls of \<open>ScheduleJob\<close> the cron library runs exactly the jobs
  of the table, each once - for every name the job of its last call, if the specification of that call could
  be parsed, and none otherwise: a call that fails takes away the job that was scheduled before.
\<close>

theorem scheduler_refines_table:
  assumes "cron_law L" and "cron_entries L c = Map.empty"
  shows "(\<forall>job. (\<exists>i. cron_entries L (sd_cron (schedule_jobs L calls (new_scheduler c))) i = Some job) \<longleftrightarrow>
      fold (table_step (cron_error L)) calls (\<lambda>_. None) (cj_id job) = Some job) \<and>
    (\<forall>i j job job'. cron_entries L (sd_cron (schedule_jobs L calls (new_scheduler c))) i = Some job \<longrightarrow>
      cron_entries L (sd_cron (schedule_jobs L calls (new_scheduler c))) j = Some job' \<longrightarrow> cj_id job = cj_id job' \<longrightarrow> i = j)"
proof -
  let ?s = "schedule_jobs L calls (new_scheduler c)" and ?table = "fold (table_step (cron_error L)) calls (\<lambda>_. None)"
  have "refines_table L (new_scheduler c) (\<lambda>_. None)" using assms(2) by (simp add: refines_table_def new_scheduler_def)
  from schedules_refine [OF assms(1) this, of calls] have ref: "refines_table L ?s ?table" .
  have named: "cj_id job = j" if "?table j = Some job" for j job
    using that table_named [of "\<lambda>_. None"] unfolding well_named_def by blast
  have named_entry: "\<exists>j. sd_ids ?s j = Some i \<and> ?table j = Some job" if "cron_entries L (sd_cron ?s) i = Some job" for i job
  proof -
    from that ref obtain j where "sd_ids ?s j = Some i" by (auto simp: refines_table_def ran_def dom_def)
    with that ref show ?thesis by (auto simp: refines_table_def)
  qed
  have "\<exists>i. cron_entries L (sd_cron ?s) i = Some job" if "?table j = Some job" for j job
    using that ref by (auto simp: refines_table_def split: bind_splits)
  then have "(\<exists>i. cron_entries L (sd_cron ?s) i = Some job) \<longleftrightarrow> ?table (cj_id job) = Some job" for job
    using named named_entry by blast
  moreover have "i = j" if "cron_entries L (sd_cron ?s) i = Some job" "cron_entries L (sd_cron ?s) j = Some job'" "cj_id job = cj_id job'"
    for i j job job'
    using named_entry [OF that(1)] named_entry [OF that(2)] named that(3) by (metis option.inject)
  ultimately show ?thesis by blast
qed

text \<open>A cron that counts; it parses the specifications that are not empty.\<close>

definition counting_cron :: "(nat \<times> (nat \<Rightarrow> cron_job option)) cron" where
  "counting_cron = \<lparr>cron_add = (\<lambda>spec job (n, entries). if spec = [] then (Inl ''empty spec'', (n, entries))
       else (Inr n, (Suc n, entries(n \<mapsto> job)))),
     cron_remove = (\<lambda>i (n, entries). (n, entries(i := None))), cron_entries = snd, cron_given = (\<lambda>(n, _). {..<n}),
     cron_error = (\<lambda>spec. if spec = [] then Some ''empty spec'' else None)\<rparr>"

lemma counting_cron_law: "cron_law counting_cron"
  by (auto simp: cron_law_def counting_cron_def split: if_splits)

theorem scheduler_refines_table_witness:
  "\<nexists>i job. cron_entries counting_cron (sd_cron (schedule_jobs counting_cron
       [(''a'', ''@daily'', ''t'', ''{}''), (''a'', [], ''t'', ''{}'')] (new_scheduler (0, Map.empty)))) i = Some job"
proof -
  let ?calls = "[(''a'', ''@daily'', ''t'', ''{}''), (''a'', [], ''t'', ''{}'')]"
  have table: "fold (table_step (cron_error counting_cron)) ?calls (\<lambda>_. None) = (\<lambda>_. None)"
    by (auto simp: counting_cron_def)
  have "cron_entries counting_cron (0, Map.empty) = Map.empty" by (simp add: counting_cron_def)
  from scheduler_refines_table [OF counting_cron_law this, of ?calls] show ?thesis unfolding table by auto
qed

end
