(* ===== verification/Gateway_Facts.thy ===== *)
theory Gateway_Facts
  imports Gateway Cli_Facts
begin

text \<open>
  The gateway in front of the engine: it adds nothing to and loses nothing of what the engine answers,
  and a message for a channel is recorded only when its connector took it.
\<close>

section \<open>What the gateway relies on of its transport\<close>

text \<open>The response that belongs to a request.\<close>

fun response_fits :: "rpc_request \<Rightarrow> rpc_response \<Rightarrow> bool" where
  "response_fits (Query_Memory ns query limit flt) r \<longleftrightarrow> (\<exists>records backend. r = Memory_Query_Response records backend)"
| "response_fits (Upsert_Memory ns key content md) r \<longleftrightarrow> (\<exists>stored backend digest. r = Memory_Upsert_Response stored backend digest)"
| "response_fits (List_Sessions c st archived limit) r \<longleftrightarrow> (\<exists>sessions summary. r = Session_List_Response sessions summary)"
| "response_fits (Get_Session sid limit) r \<longleftrightarrow> (\<exists>session messages. r = Session_Response session messages)"
| "response_fits (Prune_Sessions hours archive) r \<longleftrightarrow> (\<exists>pruned. r = Session_Prune_Response pruned)"
| "response_fits (List_Pairings st c limit) r \<longleftrightarrow> (\<exists>pairings. r = Pairing_List_Response pairings)"
| "response_fits (Update_Pairing u) r \<longleftrightarrow> (\<exists>pairing. r = Pairing_Update_Response True (Some pairing))"
| "response_fits (Get_Doctor_Report cs ms desktop web) r \<longleftrightarrow> (\<exists>report. r = Doctor_Report_Response report)"
| "response_fits List_Model_Profiles r \<longleftrightarrow> (\<exists>profiles. r = Model_Profile_List_Response profiles)"
| "response_fits (Remember_Brain q) r \<longleftrightarrow> (\<exists>stored entity task digest. r = Brain_Remember_Response stored entity task digest)"
| "response_fits (Recall_Brain q) r \<longleftrightarrow> (\<exists>summary entities facts relations tasks. r = Brain_Recall_Response summary entities facts relations tasks)"
| "response_fits (Suggest_Brain q) r \<longleftrightarrow> (\<exists>summary suggestions. r = Brain_Suggest_Response summary suggestions)"
| "response_fits (List_Brain_Tasks scope sts prios due limit) r \<longleftrightarrow> (\<exists>summary tasks. r = Brain_Task_List_Response summary tasks)"
| "response_fits (Update_Brain_Task tid st prio due summ links src) r \<longleftrightarrow> (\<exists>task. r = Brain_Task_Update_Response True (Some task))"
| "response_fits (Forget_Brain q) r \<longleftrightarrow> (\<exists>result. r = Brain_Forget_Response result)"
| "response_fits (Run_Agent_Protocol pid initiator ms scope) r \<longleftrightarrow> (\<exists>result. r = Agent_Protocol_Response result)"
| "response_fits (Attest_Session subject nonce hw) r \<longleftrightarrow> (\<exists>report. r = Attestation_Response report)"
| "response_fits (Export_Audit sink limit) r \<longleftrightarrow> (\<exists>format events. r = Audit_Export_Response True format events)"
| "response_fits (Queue_Task tid tt tgt args prio) r \<longleftrightarrow> (\<exists>receipt. r = Queue_Task_Response receipt)"
| "response_fits (Get_Policy_Report subject capability) r \<longleftrightarrow> (\<exists>report. r = Policy_Report_Response report)"
| "response_fits (Deliver_Message m) r \<longleftrightarrow> (\<exists>accepted i reply sid pid st. r = Submit_Message_Response accepted i reply sid pid st)"
| "response_fits (Run_Tool tool args network prio) r \<longleftrightarrow> (\<exists>outcome. r = Execute_Response outcome)"
| "response_fits (Run_Skill skill args) r \<longleftrightarrow> (\<exists>outcome. r = Execute_Response outcome)"
| "response_fits Health r \<longleftrightarrow> (\<exists>health. r = Health_Response health)"
| "response_fits (Record_Outbound_Message om) r \<longleftrightarrow> (\<exists>result. r = Channel_Message_Response result)"

text \<open>The methods both services have, with the verb of the gateway's errors.\<close>

fun forwarded_as :: "rpc_request \<Rightarrow> string option" where
  "forwarded_as (Query_Memory ns query limit flt) = Some ''query memory''"
| "forwarded_as (Upsert_Memory ns key content md) = Some ''upsert memory''"
| "forwarded_as (List_Sessions c st archived limit) = Some ''list sessions''"
| "forwarded_as (Get_Session sid limit) = Some ''get session''"
| "forwarded_as (Prune_Sessions hours archive) = Some ''prune sessions''"
| "forwarded_as (List_Pairings st c limit) = Some ''list pairings''"
| "forwarded_as (Update_Pairing u) = Some ''update pairing''"
| "forwarded_as (Get_Doctor_Report cs ms desktop web) = Some ''get doctor report''"
| "forwarded_as List_Model_Profiles = Some ''list model profiles''"
| "forwarded_as (Remember_Brain q) = Some ''remember brain''"
| "forwarded_as (Recall_Brain q) = Some ''recall brain''"
| "forwarded_as (Suggest_Brain q) = Some ''suggest brain''"
| "forwarded_as (List_Brain_Tasks scope sts prios due limit) = Some ''list brain tasks''"
| "forwarded_as (Update_Brain_Task tid st prio due summ links src) = Some ''update brain task''"
| "forwarded_as (Forget_Brain q) = Some ''forget brain''"
| "forwarded_as (Run_Agent_Protocol pid initiator ms scope) = Some ''run agent protocol''"
| "forwarded_as (Attest_Session subject nonce hw) = Some ''attest session''"
| "forwarded_as (Export_Audit sink limit) = Some ''export audit''"
| "forwarded_as (Queue_Task tid tt tgt args prio) = Some ''queue task''"
| "forwarded_as (Get_Policy_Report subject capability) = Some ''get policy report''"
| "forwarded_as (Deliver_Message m) = None"
| "forwarded_as (Run_Tool tool args network prio) = None"
| "forwarded_as (Run_Skill skill args) = None"
| "forwarded_as Health = None"
| "forwarded_as (Record_Outbound_Message om) = None"

text \<open>
  The contract of a transport: a call ends with a response or an error, a response is that of the
  request, and the doctor's two flags for the user interface count as one.
\<close>

locale engine_transport =
  fixes conn :: "'e conn"
  assumes ends: "returns (fst (conn req e))"
    and fits: "conn req e = (Ok r, e') \<Longrightarrow> response_fits req r"
    and one_flag: "conn (Get_Doctor_Report cs ms desktop web) = conn (Get_Doctor_Report cs ms (desktop \<or> web) (desktop \<or> web))"
begin

text \<open>What the gateway makes of the transport's answer.\<close>

lemma conn_cases:
  obtains (answered) r e' where "conn req e = (Ok r, e')" "response_fits req r"
  | (failed) x e' where "conn req e = (Err x, e')"
  using ends [of req e] fits [of req e] by (cases "conn req e"; cases "fst (conn req e)") auto

end

section \<open>Running a handler\<close>

lemma on_engine_run [run_simps]: "m (gw_engine g) = (r, e) \<Longrightarrow> on_engine m g = (r, g\<lparr>gw_engine := e\<rparr>)"
  by (simp add: on_engine_def)

lemma answer_or_run:
  "m g = (Ok a, g1) \<Longrightarrow> f a g1 = (Ok b, g2) \<Longrightarrow> answer_or code verb m f g = (Ok (Inr b), g2)"
  "m g = (Err e, g1) \<Longrightarrow> answer_or code verb m f g = (Ok (Inl (Go_Status code (verb @ '': '' @ error_text e))), g1)"
  by (simp_all add: answer_or_def andthen_run attempt_run ret_run)

lemma go_publish_run:
  "\<exists>hub clock. go_publish G ty payload g = (Ok (), g\<lparr>gw_clock := clock, gw_hub := hub\<rparr>)"
  by (simp add: go_publish_def Let_def) blast

text \<open>What a handler has done but for publishing: answered, moved the engine on, posted nothing.\<close>

definition served :: "('e, gateway_reply) handler \<Rightarrow> 'e gateway_state \<Rightarrow> go_status + gateway_reply \<Rightarrow> 'e \<Rightarrow> bool" where
  "served m g a e \<longleftrightarrow> (\<exists>g'. m g = (Ok a, g') \<and> gw_engine g' = e \<and> gw_posts g' = gw_posts g)"

lemma served_forward:
  "m (gw_engine g) = (Ok a, e) \<Longrightarrow> f a = resp \<Longrightarrow> served (forward verb m f) g (Inr (Engine_Reply resp)) e"
  "m (gw_engine g) = (Err x, e) \<Longrightarrow> text = verb @ '': '' @ error_text x \<Longrightarrow>
    served (forward verb m f) g (Inl (Go_Status Go_Internal text)) e"
  by (auto simp: served_def forward_def answer_or_def on_engine_def andthen_run attempt_run ret_run)

text \<open>One that publishes before it answers.\<close>

definition publishes :: "('a \<Rightarrow> ('e gateway_state, 'b) act) \<Rightarrow> 'a \<Rightarrow> 'b \<Rightarrow> bool" where
  "publishes f a b \<longleftrightarrow> (\<forall>g. \<exists>hub clock. f a g = (Ok b, g\<lparr>gw_clock := clock, gw_hub := hub\<rparr>))"

lemma publishes_ret: "f a = b \<Longrightarrow> publishes (\<lambda>a. ret (f a)) a b"
  unfolding publishes_def ret_def
proof
  fix g :: "'x gateway_state"
  assume "f a = b"
  moreover have "g = g\<lparr>gw_clock := gw_clock g, gw_hub := gw_hub g\<rparr>" by simp
  ultimately show "\<exists>hub clock. (Ok (f a), g) = (Ok b, g\<lparr>gw_clock := clock, gw_hub := hub\<rparr>)" by metis
qed

lemma publishes_then:
  fixes f :: "'a \<Rightarrow> ('e gateway_state, 'b) act"
  assumes "publishes f a b"
  shows "publishes (\<lambda>a. andthen (go_publish G ty (p a)) (\<lambda>_. f a)) a b"
  unfolding publishes_def
proof
  fix g :: "'e gateway_state"
  obtain hub clock where p: "go_publish G ty (p a) g = (Ok (), g\<lparr>gw_clock := clock, gw_hub := hub\<rparr>)"
    using go_publish_run [of G ty "p a" g] by blast
  obtain hub' clock' where "f a (g\<lparr>gw_clock := clock, gw_hub := hub\<rparr>) = (Ok b, g\<lparr>gw_clock := clock', gw_hub := hub'\<rparr>)"
    using assms [unfolded publishes_def, rule_format, of "g\<lparr>gw_clock := clock, gw_hub := hub\<rparr>"] by auto
  with p show "\<exists>hub clock. andthen (go_publish G ty (p a)) (\<lambda>_. f a) g = (Ok b, g\<lparr>gw_clock := clock, gw_hub := hub\<rparr>)"
    by (auto simp: andthen_run)
qed

lemma publishes_then_if:
  fixes f :: "'a \<Rightarrow> ('e gateway_state, 'b) act"
  assumes "publishes f a b"
  shows "publishes (\<lambda>a. andthen (if c a then ret () else go_publish G ty (p a)) (\<lambda>_. f a)) a b"
proof (cases "c a")
  case True
  with assms show ?thesis by (simp add: publishes_def andthen_run ret_run)
next
  case False
  with publishes_then [OF assms, of G ty p] show ?thesis by (simp add: publishes_def)
qed

lemma served_publishing:
  "m (gw_engine g) = (Ok a, e) \<Longrightarrow> publishes f a b \<Longrightarrow> served (answer_or code verb (on_engine m) f) g (Inr b) e"
  "m (gw_engine g) = (Err x, e) \<Longrightarrow> text = verb @ '': '' @ error_text x \<Longrightarrow>
    served (answer_or code verb (on_engine m) f) g (Inl (Go_Status code text)) e"
proof -
  assume m: "m (gw_engine g) = (Ok a, e)" and "publishes f a b"
  then obtain hub clock where "f a (g\<lparr>gw_engine := e\<rparr>) = (Ok b, g\<lparr>gw_engine := e, gw_clock := clock, gw_hub := hub\<rparr>)"
    unfolding publishes_def by (metis)
  with m show "served (answer_or code verb (on_engine m) f) g (Inr b) e"
    by (auto simp: served_def answer_or_def on_engine_def andthen_run attempt_run ret_run)
qed (auto simp: served_def answer_or_def on_engine_def andthen_run attempt_run ret_run)

text \<open>An action that leaves a part of the state alone.\<close>

definition leaves :: "('s \<Rightarrow> 'x) \<Rightarrow> ('s, 'a) act \<Rightarrow> bool" where
  "leaves f m \<longleftrightarrow> (\<forall>s. f (snd (m s)) = f s)"

lemma leavesD: "leaves f m \<Longrightarrow> m s = (r, s') \<Longrightarrow> f s' = f s"
  unfolding leaves_def by (metis snd_conv)

lemma leaves_basic: "leaves f (ret a)" "leaves f (fail e)"
  by (simp_all add: leaves_def ret_def fail_def)

lemma leaves_andthen: "leaves f m \<Longrightarrow> (\<And>a. leaves f (k a)) \<Longrightarrow> leaves f (andthen m k)"
  unfolding leaves_def andthen_def by (auto split: prod.split res.split) (metis snd_conv)+

lemma leaves_attempt: "leaves f m \<Longrightarrow> leaves f (attempt m)"
  by (auto simp: leaves_def attempt_def split: prod.split res.split) (metis snd_conv)+

lemma leaves_if: "leaves f m \<Longrightarrow> leaves f n \<Longrightarrow> leaves f (if b then m else n)"
  by simp

lemma leaves_gateway:
  "leaves gw_engine (go_publish G ty payload)" "leaves gw_posts (go_publish G ty payload)"
  "leaves gw_engine (telegram_send G cfg chat body)" "leaves gw_hub (telegram_send G cfg chat body)"
  "leaves gw_posts (on_engine m)" "leaves gw_hub (on_engine m)"
  by (simp_all add: leaves_def go_publish_def telegram_send_def on_engine_def Let_def split_beta)

lemma leaves_connector: "leaves gw_engine (connector_send G cfg c channel body)" "leaves gw_hub (connector_send G cfg c channel body)"
  by (cases c; auto simp: telegram_send_message_def leaves_basic leaves_gateway split: sum.split)+

lemma leaves_registry: "leaves gw_engine (registry_send G cfg name channel body)" "leaves gw_hub (registry_send G cfg name channel body)"
  by (auto simp: registry_send_def leaves_basic leaves_connector split: option.split)

lemmas leaves_intros = leaves_basic leaves_andthen leaves_attempt leaves_if leaves_gateway leaves_registry

section \<open>Sending through a connector\<close>

lemma registry_send_Ok:
  assumes "registry_send G cfg name channel body g = (Ok u, g')"
  shows "name = ''desktop'' \<and> entry_enabled cfg ''desktop'' \<and> g' = g \<or>
    name = ''telegram'' \<and> gc_telegram_bot_token cfg \<noteq> [] \<and> (\<exists>chat st. parse_int_reason channel = Inr chat \<and>
      gx_telegram_post G (length (gw_posts g)) (gc_telegram_bot_token cfg) chat body = Inr st \<and>
      g' = g\<lparr>gw_posts := gw_posts g @ [(chat, body)]\<rparr>)"
proof -
  from assms obtain c where c: "registry_find name = Some c" "connector_enabled cfg c" "connector_send G cfg c channel body g = (Ok u, g')"
    by (auto simp: registry_send_def fail_def split: option.splits if_splits)
  then have "go_connector_name c = name" by (auto simp: registry_find_def find_Some_iff)
  with c show ?thesis
    by (cases c) (auto simp: ret_def fail_def telegram_enabled_def telegram_send_message_def telegram_send_def parse_int_def split: sum.splits)
qed

lemma record_sent_posts: "leaves gw_posts (record_sent_message sv m)"
  unfolding record_sent_message_def answer_or_def
  by (intro leaves_intros) (auto intro!: leaves_intros split: sum.split)

text \<open>C21.
  A message for a channel reaches the engine's records and the user interface only when its connector took
  it: the desktop when it is enabled, Telegram when it has a token, the channel is the number of a chat and
  the post was made - one post, of exactly this text to exactly this chat, whatever status Telegram's
  server answered. The other twenty-one connectors, which are not implemented, and unknown or disabled
  ones leave no trace.
\<close>

theorem outbound_recorded_after_sending:
  assumes "gateway_serve sv (Send_Channel_Message m) g = (a, g')"
    and "gw_engine g' \<noteq> gw_engine g \<or> gw_hub g' \<noteq> gw_hub g"
  shows "om_connector m = ''desktop'' \<and> entry_enabled (sv_cfg sv) ''desktop'' \<and> gw_posts g' = gw_posts g \<or>
    om_connector m = ''telegram'' \<and> gc_telegram_bot_token (sv_cfg sv) \<noteq> [] \<and>
    (\<exists>chat st. parse_int_reason (om_channel_id m) = Inr chat \<and>
      gx_telegram_post (sv_env sv) (length (gw_posts g)) (gc_telegram_bot_token (sv_cfg sv)) chat (om_body m) = Inr st \<and>
      gw_posts g' = gw_posts g @ [(chat, om_body m)])"
proof -
  let ?send = "registry_send (sv_env sv) (sv_cfg sv) (om_connector m) (om_channel_id m) (om_body m)"
  obtain r g1 where sent: "?send g = (r, g1)" by (cases "?send g")
  have same: "gw_engine g1 = gw_engine g" "gw_hub g1 = gw_hub g"
    using leavesD [OF leaves_registry(1) sent] leavesD [OF leaves_registry(2) sent] by simp_all
  show ?thesis
  proof (cases r)
    case (Ok u)
    then have "record_sent_message sv m g1 = (a, g')"
      using assms(1) sent by (simp add: send_channel_message_def andthen_run attempt_run)
    then have "gw_posts g' = gw_posts g1" by (rule leavesD [OF record_sent_posts])
    with registry_send_Ok [OF sent [unfolded Ok]] show ?thesis by auto
  qed (use assms sent same in \<open>auto simp: send_channel_message_def andthen_run attempt_run ret_run\<close>)
qed

text \<open>A gateway whose engine counts the calls and takes every record; Telegram takes every post.\<close>

definition sample_go_env :: go_env where
  "sample_go_env = \<lparr>gx_error = (\<lambda>code desc. code @ '': '' @ desc), gx_lost = ''lost'', gx_time = (\<lambda>n. int n), gx_rfc3339 = (\<lambda>_. ''now''),
     gx_marshal = (\<lambda>_. ''{}''), gx_quote = (\<lambda>s. s), gx_telegram_post = (\<lambda>_ _ _ _. Inr 200)\<rparr>"

definition sample_go_config :: go_config where
  "sample_go_config = \<lparr>gc_listen_address = ''127.0.0.1:50051'', gc_engine_endpoint = ''unix:///e'', gc_telegram_bot_token = ''t'',
     gc_telegram_poll_interval_seconds = 5, gc_local_http_listen_address = [], gc_registry_index = [], gc_connectors = [],
     gc_attestation_enabled = False, gc_attestation_require_hardware = False,
     gc_paths = \<lparr>gpt_config_file = [], gpt_data_dir = [], gpt_state_dir = [], gpt_runtime_state_file = [], gpt_log_file = [],
       gpt_installs_dir = []\<rparr>\<rparr>"

definition sample_service :: "'e conn \<Rightarrow> 'e go_service" where
  "sample_service conn = \<lparr>sv_env = sample_go_env, sv_cfg = sample_go_config, sv_conn = conn, sv_started_at = 0\<rparr>"

definition sample_gateway :: "'e \<Rightarrow> 'e gateway_state" where
  "sample_gateway e = \<lparr>gw_engine = e, gw_hub = new_event_hub, gw_clock = 0, gw_posts = []\<rparr>"

definition counting_conn :: "nat conn" where
  "counting_conn req n = (Ok (Channel_Message_Response \<lparr>omr_accepted = True, omr_message_id = ''m'', omr_session_id = ''s'',
     omr_status = ''sent'', omr_detail = []\<rparr>), Suc n)"

definition sample_outbound :: outbound_message where
  "sample_outbound = \<lparr>om_connector = ''telegram'', om_channel_id = ''-42'', om_sender = ''me'', om_body = ''hi'',
     om_metadata_json = ''{}'', om_session_id = []\<rparr>"

theorem outbound_recorded_after_sending_witness:
  "\<exists>a g'. gateway_serve (sample_service counting_conn) (Send_Channel_Message sample_outbound) (sample_gateway 0) = (a, g') \<and>
     gw_engine g' = 1 \<and> gw_posts g' = [(- 42, ''hi'')]"
proof -
  let ?sv = "sample_service counting_conn"
  have chat: "parse_int_reason ''-42'' = Inr (- 42)" by (simp add: parse_int_reason_def go_parse_uint_def byte_def)
  have find: "registry_find ''telegram'' = Some Telegram" by code_simp
  obtain a g' where run: "gateway_serve ?sv (Send_Channel_Message sample_outbound) (sample_gateway 0) = (a, g')"
    by (cases "gateway_serve ?sv (Send_Channel_Message sample_outbound) (sample_gateway 0)")
  moreover from this have "gw_engine g' = 1"
    by (auto simp: send_channel_message_def registry_send_def find telegram_enabled_def telegram_send_message_def parse_int_def chat telegram_send_def sample_service_def
        sample_outbound_def sample_go_config_def sample_go_env_def sample_gateway_def andthen_run attempt_run ret_run
        record_sent_message_def answer_or_def on_engine_def bridge_record_outbound_message_def invoke_run counting_conn_def
        go_publish_def Let_def)
  ultimately show ?thesis
    using outbound_recorded_after_sending [OF run] chat
    by (auto simp: sample_gateway_def sample_outbound_def)
qed

section \<open>Forwarding\<close>

lemmas gateway_forwards = gateway_query_memory_def gateway_upsert_memory_def gateway_list_sessions_def gateway_get_session_def
  gateway_list_pairings_def gateway_get_doctor_report_def gateway_list_model_profiles_def gateway_remember_brain_def
  gateway_recall_brain_def gateway_suggest_brain_def gateway_list_brain_tasks_def gateway_update_brain_task_def
  gateway_forget_brain_def gateway_run_agent_protocol_def gateway_attest_session_def gateway_export_audit_def
  gateway_queue_task_def gateway_get_policy_report_def gateway_prune_sessions_def gateway_update_pairing_def

lemmas bridge_calls = bridge_query_memory_def bridge_upsert_memory_def bridge_list_sessions_def bridge_get_session_def
  bridge_list_pairings_def bridge_get_doctor_report_def bridge_list_model_profiles_def bridge_remember_brain_def
  bridge_recall_brain_def bridge_suggest_brain_def bridge_list_brain_tasks_def bridge_update_brain_task_def
  bridge_forget_brain_def bridge_run_agent_protocol_def bridge_attest_session_def bridge_export_audit_def
  bridge_queue_task_def bridge_get_policy_report_def bridge_prune_sessions_def bridge_update_pairing_def

lemma agent_copies [copy_simps]: "go_agent_entry (go_agent_message_of m) = m"
  by (simp add: go_agent_entry_def go_agent_message_of_def)

lemma record_copies [copy_simps]:
  "\<lparr>pu_pairing_id = pu_pairing_id a, pu_action = pu_action a, pu_note = pu_note a\<rparr> = a"
  "\<lparr>br_kind = br_kind b, br_subtype = br_subtype b, br_title = br_title b, br_content = br_content b, br_importance = br_importance b,
     br_scope_json = br_scope_json b, br_links_json = br_links_json b, br_source_ref = br_source_ref b\<rparr> = b"
  "\<lparr>brq_query = brq_query c, brq_scope_json = brq_scope_json c, brq_limit = brq_limit c, brq_include_archived = brq_include_archived c\<rparr> = c"
  "\<lparr>bsq_scope_json = bsq_scope_json d, bsq_limit = bsq_limit d\<rparr> = d"
  "\<lparr>bf_target_kind = bf_target_kind f, bf_target_id = bf_target_id f, bf_mode = bf_mode f, bf_reason = bf_reason f\<rparr> = f"
  "\<lparr>om_connector = om_connector h, om_channel_id = om_channel_id h, om_sender = om_sender h, om_body = om_body h,
     om_metadata_json = om_metadata_json h, om_session_id = om_session_id h\<rparr> = h"
  "\<lparr>me_connector = me_connector i, me_channel_id = me_channel_id i, me_sender = me_sender i, me_body = me_body i,
     me_metadata_json = me_metadata_json i\<rparr> = i"
  by simp_all

text \<open>The request the engine gets: the client's, but for the doctor's flags.\<close>

fun bridged :: "rpc_request \<Rightarrow> rpc_request" where
  "bridged (Get_Doctor_Report cs ms desktop web) = Get_Doctor_Report cs ms (desktop \<or> web) (desktop \<or> web)"
| "bridged req = req"

lemma update_pairing_run:
  "conn (Update_Pairing u) e = (Ok (Pairing_Update_Response b (Some p)), e') \<Longrightarrow>
     bridge_update_pairing conn (pu_pairing_id u) (pu_action u) (pu_note u) e = (Ok (decode_pairing_record p), e')"
  "conn (Update_Pairing u) e = (Err x, e') \<Longrightarrow>
     bridge_update_pairing conn (pu_pairing_id u) (pu_action u) (pu_note u) e = (Err x, e')"
  by (simp_all add: bridge_update_pairing_def invoke_run andthen_run ret_run copy_simps)

lemma forward_answered:
  assumes "sv_conn sv (bridged req) (gw_engine g) = (Ok r, e)" and "response_fits req r" and "forwarded_as req = Some verb"
  shows "served (gateway_forward sv req) g (Inr (Engine_Reply r)) e"
proof (cases req)
  case (Prune_Sessions hours archive)
  with assms show ?thesis
    by (auto simp: gateway_forwards bridge_calls invoke_run andthen_run ret_run
        intro!: served_publishing(1) publishes_then publishes_ret)
next
  case (Update_Pairing u)
  with assms show ?thesis
    by (auto simp: gateway_update_pairing_def copy_simps
        intro!: served_publishing(1) [OF update_pairing_run(1)] publishes_then publishes_ret)
qed (use assms in \<open>auto simp: gateway_forwards bridge_calls invoke_run andthen_run ret_run copy_simps comp_def
       option.map_comp option.map_ident intro!: served_forward(1)\<close>)

lemma forward_failed:
  assumes "sv_conn sv (bridged req) (gw_engine g) = (Err x, e)" and "forwarded_as req = Some verb"
  shows "served (gateway_forward sv req) g (Inl (Go_Status Go_Internal (verb @ '': '' @ error_text x))) e"
proof (cases req)
  case (Prune_Sessions hours archive)
  with assms show ?thesis by (auto simp: gateway_forwards bridge_calls invoke_run intro!: served_publishing(2))
next
  case (Update_Pairing u)
  with assms show ?thesis
    by (auto simp: gateway_update_pairing_def intro!: served_publishing(2) [OF update_pairing_run(2)])
qed (use assms in \<open>auto simp: gateway_forwards bridge_calls invoke_run andthen_run copy_simps comp_def intro!: served_forward(2)\<close>)

context engine_transport
begin

lemma bridged_same: "conn (bridged req) = conn req"
  by (cases req) (simp_all add: one_flag [symmetric])

text \<open>Forwarding a request is asking the transport.\<close>

lemma forwarded:
  assumes "sv_conn sv = conn" and "forwarded_as req = Some verb" and "conn req (gw_engine g) = (r, e)"
  shows "served (gateway_forward sv req) g
    (case r of Ok resp \<Rightarrow> Inr (Engine_Reply resp) | Err x \<Rightarrow> Inl (Go_Status Go_Internal (verb @ '': '' @ error_text x))) e"
proof (cases rule: conn_cases [of req "gw_engine g"])
  case (answered resp e')
  with assms(3) have "r = Ok resp" "e' = e" by simp_all
  with answered assms show ?thesis by (simp add: forward_answered bridged_same)
next
  case (failed x e')
  with assms(3) have "r = Err x" "e' = e" by simp_all
  with failed assms show ?thesis using forward_failed [of sv req g x e verb] by (simp add: bridged_same)
qed

end

section \<open>The engine behind the gateway\<close>

text \<open>
  The gRPC connection between the two: a status comes as an error with its code, a handler that never
  ends makes the call run into its ten seconds, one that panics ends it without an answer.
\<close>

definition engine_conn :: "go_env \<Rightarrow> env \<Rightarrow> host \<Rightarrow> engine \<Rightarrow> qsys conn" where
  "engine_conn G E h en req = (\<lambda>s. case serve E h en req s of
     (Ok (Inr resp), s') \<Rightarrow> (Ok resp, s')
   | (Ok (Inl (Invalid_Argument text)), s') \<Rightarrow> (Err (Msg (gx_error G ''InvalidArgument'' text)), s')
   | (Ok (Inl (Internal text)), s') \<Rightarrow> (Err (Msg (gx_error G ''Internal'' text)), s')
   | (Deadlock, s') \<Rightarrow> (Err (Msg (gx_error G ''DeadlineExceeded'' ''context deadline exceeded'')), s')
   | (_, s') \<Rightarrow> (Err (Msg (gx_lost G)), s'))"

lemma respond_fits: "respond m f w = (Ok (Inr r), w') \<Longrightarrow> \<exists>a. r = f a"
  by (auto simp: respond_def ret_def elim!: andthen_OkE split: sum.splits)

lemma on_world_fits: "on_world m s = (Ok a, s') \<Longrightarrow> \<exists>w'. m (q_world s) = (Ok a, w')"
  by (cases "m (q_world s)") (simp add: on_world_def)

lemma on_world_respond: "on_world (respond m f) s = (Ok (Inr r), s') \<Longrightarrow> \<exists>a. r = f a"
  by (drule on_world_fits) (auto dest: respond_fits)

lemma on_world_ret: "on_world (ret a) s = (Ok b, s') \<Longrightarrow> b = a"
  by (simp add: on_world_def ret_def)

lemmas rpc_handlers = rpc_deliver_message_def rpc_run_tool_def rpc_run_skill_def rpc_health_def rpc_query_memory_def
  rpc_upsert_memory_def rpc_list_sessions_def rpc_get_session_def rpc_prune_sessions_def rpc_list_pairings_def
  rpc_update_pairing_def rpc_record_outbound_message_def rpc_get_doctor_report_def rpc_list_model_profiles_def
  rpc_remember_brain_def rpc_recall_brain_def rpc_suggest_brain_def rpc_list_brain_tasks_def rpc_update_brain_task_def
  rpc_forget_brain_def rpc_run_agent_protocol_def rpc_attest_session_def rpc_export_audit_def rpc_get_policy_report_def

lemma serve_fits: "serve E h en req s = (Ok (Inr r), s') \<Longrightarrow> response_fits req r"
proof (cases req)
  case (Deliver_Message m)
  moreover assume "serve E h en req s = (Ok (Inr r), s')"
  ultimately show ?thesis
    by (auto simp: rpc_deliver_message_def dest!: on_world_respond dest: on_world_ret split: option.splits)
next
  case (Queue_Task tid tt tgt args prio)
  moreover assume "serve E h en req s = (Ok (Inr r), s')"
  ultimately show ?thesis
    by (auto simp: rpc_queue_task_def ret_def elim!: andthen_OkE split: sum.splits)
next
  case (Run_Tool tool args network prio)
  moreover assume "serve E h en req s = (Ok (Inr r), s')"
  ultimately show ?thesis
    by (auto simp: rpc_run_tool_def ret_def dest!: on_world_fits elim!: andthen_OkE)
next
  case (Run_Skill skill args)
  moreover assume "serve E h en req s = (Ok (Inr r), s')"
  ultimately show ?thesis
    by (auto simp: rpc_run_skill_def ret_def dest!: on_world_fits elim!: andthen_OkE)
qed (auto simp: rpc_handlers split: prod.splits dest!: on_world_respond on_world_ret)

interpretation bridged_engine: engine_transport "engine_conn G E h en" for G E h en
proof unfold_locales
  show "returns (fst (engine_conn G E h en req e))" for req e
    by (auto simp: engine_conn_def split: prod.split res.split sum.split status.split)
  show "engine_conn G E h en req e = (Ok r, e') \<Longrightarrow> response_fits req r" for req e r e'
    by (auto simp: engine_conn_def split: prod.splits res.splits sum.splits status.splits intro: serve_fits)
  show "engine_conn G E h en (Get_Doctor_Report cs ms desktop web) =
      engine_conn G E h en (Get_Doctor_Report cs ms (desktop \<or> web) (desktop \<or> web))" for cs ms desktop web
    by (simp add: engine_conn_def rpc_get_doctor_report_def fun_eq_iff)
qed

text \<open>C4.
  The gateway is transparent: for each of the twenty methods both services have, the client gets exactly
  the response the engine gives - no field of any record lost or exchanged on its way through the Go
  structs - and the engine is left as by its own handler, which got the client's request. A status of the engine comes
  as an internal error with the method's verb and the engine's text; a handler that blocks becomes a
  deadline error.
\<close>

theorem gateway_transparent:
  assumes "sv_conn sv = engine_conn G E h en" and "forwarded_as req = Some verb"
    and "serve E h en req (gw_engine g) = (r, s')"
  shows "\<exists>g'. gateway_serve sv (Engine_Call req) g = (Ok (case r of
        Ok (Inr resp) \<Rightarrow> Inr (Engine_Reply resp)
      | Ok (Inl (Invalid_Argument text)) \<Rightarrow> Inl (Go_Status Go_Internal (verb @ '': '' @ gx_error G ''InvalidArgument'' text))
      | Ok (Inl (Internal text)) \<Rightarrow> Inl (Go_Status Go_Internal (verb @ '': '' @ gx_error G ''Internal'' text))
      | Deadlock \<Rightarrow> Inl (Go_Status Go_Internal (verb @ '': '' @ gx_error G ''DeadlineExceeded'' ''context deadline exceeded''))
      | _ \<Rightarrow> Inl (Go_Status Go_Internal (verb @ '': '' @ gx_lost G))), g') \<and>
    gw_engine g' = s' \<and> gw_posts g' = gw_posts g"
proof -
  obtain r' where c: "engine_conn G E h en req (gw_engine g) = (r', s')"
    using assms(3) by (cases "engine_conn G E h en req (gw_engine g)")
      (auto simp: engine_conn_def split: res.splits sum.splits status.splits)
  from bridged_engine.forwarded [OF assms(1,2) c] c assms(3) show ?thesis
    by (auto simp: served_def engine_conn_def split: res.splits sum.splits status.splits)
qed

definition sample_transport :: "qsys conn" where
  "sample_transport = engine_conn sample_go_env sample_env sample_host sample_engine"

theorem gateway_transparent_witness:
  "\<exists>r s' g'. serve sample_env sample_host sample_engine List_Model_Profiles (new_queue (engine_queue sample_env sample_engine) boot_world)
       = (Ok (Inr r), s') \<and>
     gateway_serve (sample_service sample_transport) (Engine_Call List_Model_Profiles)
       (sample_gateway (new_queue (engine_queue sample_env sample_engine) boot_world)) = (Ok (Inr (Engine_Reply r)), g') \<and>
     gw_engine g' = s'"
proof -
  let ?s0 = "new_queue (engine_queue sample_env sample_engine) boot_world"
  obtain r s' where served: "serve sample_env sample_host sample_engine List_Model_Profiles ?s0 = (Ok (Inr r), s')"
    by (auto simp: rpc_list_model_profiles_def on_world_def run_simps split: prod.splits)
  have sv: "sv_conn (sample_service sample_transport) = engine_conn sample_go_env sample_env sample_host sample_engine"
    by (simp add: sample_service_def sample_transport_def)
  have "serve sample_env sample_host sample_engine List_Model_Profiles (gw_engine (sample_gateway ?s0)) = (Ok (Inr r), s')"
    using served by (simp only: sample_gateway_def gateway_state.select_convs)
  moreover have "forwarded_as List_Model_Profiles = Some ''list model profiles''" by simp
  ultimately obtain g' where "gateway_serve (sample_service sample_transport) (Engine_Call List_Model_Profiles) (sample_gateway ?s0)
      = (Ok (Inr (Engine_Reply r)), g')" "gw_engine g' = s'"
    using gateway_transparent [OF sv] by fastforce
  with served show ?thesis by blast
qed

end
