(* ===== verification/Gateway_Runs.thy ===== *)
theory Gateway_Runs
  imports Gateway_Facts Service
begin

text \<open>
  The whole runtime at work: the command line asks the gateway, the gateway the engine. \<open>gateway_step\<close> is
  the life of the gateway with the engine behind it - calls, updates from Telegram, steps of the engine's
  queue, in any order.
\<close>

section \<open>What a call does to the engine\<close>

text \<open>The request a call turns into.\<close>

fun engine_request :: "gateway_call \<Rightarrow> rpc_request option" where
  "engine_request Get_Status = Some Health"
| "engine_request (Execute target args network priority) = Some (Run_Tool target args network priority)"
| "engine_request List_Connectors = None"
| "engine_request (Get_Connector_Status name) = None"
| "engine_request (Submit_Message m) = Some (Deliver_Message (Some m))"
| "engine_request (Send_Channel_Message m) = Some (Record_Outbound_Message m)"
| "engine_request (Engine_Call req) = Some req"

lemma invoke_state: "snd (invoke conn req decode e) = snd (conn req e)"
  by (simp add: invoke_def andthen_def lift_res_def split: prod.split res.split)

lemma bridge_states:
  "snd (bridge_health conn e) = snd (conn Health e)"
  "snd (bridge_run_tool conn tool args network priority e) = snd (conn (Run_Tool tool args network priority) e)"
  "snd (bridge_deliver_message conn \<lparr>gom_connector = me_connector m, gom_channel_id = me_channel_id m, gom_sender = me_sender m,
     gom_body = me_body m, gom_metadata_json = me_metadata_json m\<rparr> e) = snd (conn (Deliver_Message (Some m)) e)"
  "snd (bridge_record_outbound_message conn (om_connector o1) (om_channel_id o1) (om_sender o1) (om_body o1) (om_metadata_json o1)
     (om_session_id o1) e) = snd (conn (Record_Outbound_Message o1) e)"
  by (simp_all add: bridge_health_def bridge_run_tool_def bridge_deliver_message_def bridge_record_outbound_message_def
      invoke_state record_copies)

lemma answer_or_state:
  assumes "\<And>a. leaves gw_engine (f a)"
  shows "gw_engine (snd (answer_or code verb (on_engine m) f g)) = snd (m (gw_engine g))"
proof -
  obtain r e where m: "m (gw_engine g) = (r, e)" by (cases "m (gw_engine g)")
  have kept: "gw_engine (snd (andthen (f a) (\<lambda>b. ret (Inr b)) g')) = gw_engine g'" for a g'
    using leaves_andthen [OF assms leaves_basic(1)] unfolding leaves_def by blast
  from m show ?thesis
    by (cases r) (simp_all add: answer_or_def on_engine_def andthen_def attempt_def ret_def kept [unfolded andthen_def ret_def])
qed

lemma submit_state: "gw_engine (snd (submit_message sv m g)) = snd (sv_conn sv (Deliver_Message (Some m)) (gw_engine g))"
  unfolding submit_message_def by (subst answer_or_state) (intro leaves_intros, simp add: bridge_states)

lemma execute_state:
  "gw_engine (snd (gateway_execute sv target args network priority g)) =
     snd (sv_conn sv (Run_Tool target args network priority) (gw_engine g))"
  unfolding gateway_execute_def forward_def by (subst answer_or_state) (intro leaves_intros, simp add: bridge_states)

lemma status_state: "gw_engine (snd (get_status sv g)) = snd (sv_conn sv Health (gw_engine g))"
  unfolding get_status_def by (subst answer_or_state) (auto simp: bridge_states leaves_def)

lemma record_state:
  "gw_engine (snd (record_sent_message sv m g)) = snd (sv_conn sv (Record_Outbound_Message m) (gw_engine g))"
  unfolding record_sent_message_def by (subst answer_or_state) (intro leaves_intros, simp add: bridge_states)

lemma send_channel_state:
  "gw_engine (snd (send_channel_message sv m g)) = gw_engine g \<or>
   gw_engine (snd (send_channel_message sv m g)) = snd (sv_conn sv (Record_Outbound_Message m) (gw_engine g))"
proof -
  let ?send = "attempt (registry_send (sv_env sv) (sv_cfg sv) (om_connector m) (om_channel_id m) (om_body m))"
  obtain r g1 where sent: "?send g = (r, g1)" by (cases "?send g")
  have "gw_engine g1 = gw_engine g"
    using leaves_attempt [OF leaves_registry(1)] sent by (rule leavesD)
  with sent show ?thesis
    by (cases r) (auto simp: send_channel_message_def andthen_run ret_run record_state split: sum.split)
qed

section \<open>The life of the runtime\<close>

text \<open>\<open>bridge_deliver_message\<close> of an update is a delivery of this message.\<close>

definition update_message :: "telegram_message \<Rightarrow> message_envelope" where
  "update_message m = \<lparr>me_connector = ''telegram'', me_channel_id = format_int (tgm_chat_id m), me_sender = tgm_username m,
     me_body = tgm_text m, me_metadata_json = ''{}''\<rparr>"

lemma telegram_ignored: "ignore_err (telegram_send G cfg c y) g = (Ok (), g\<lparr>gw_posts := gw_posts g @ [(c, y)]\<rparr>)"
  by (simp add: ignore_err_def telegram_send_def split: sum.split)

lemma telegram_state:
  "gw_engine (snd (telegram_update_step G cfg conn u g)) = gw_engine g \<or>
   (\<exists>m. tgu_message u = Some m \<and> tgm_text m \<noteq> [] \<and>
      gw_engine (snd (telegram_update_step G cfg conn u g)) = snd (conn (Deliver_Message (Some (update_message m))) (gw_engine g)))"
proof (cases "\<exists>m. tgu_message u = Some m \<and> tgm_text m \<noteq> []")
  case False
  then show ?thesis by (auto simp: telegram_update_step_def ret_def Let_def split: option.split)
next
  case True
  then obtain m where m: "tgu_message u = Some m" "tgm_text m \<noteq> []" by blast
  let ?ask = "bridge_deliver_message conn \<lparr>gom_connector = ''telegram'', gom_channel_id = format_int (tgm_chat_id m),
    gom_sender = tgm_username m, gom_body = tgm_text m, gom_metadata_json = ''{}''\<rparr>"
  obtain r e where ask: "?ask (gw_engine g) = (r, e)" by (cases "?ask (gw_engine g)")
  have "e = snd (?ask (gw_engine g))" using ask by simp
  also have "\<dots> = snd (conn (Deliver_Message (Some (update_message m))) (gw_engine g))"
    by (simp add: bridge_deliver_message_def invoke_state update_message_def)
  finally have e: "e = snd (conn (Deliver_Message (Some (update_message m))) (gw_engine g))" .
  have "gw_engine (snd (telegram_update_step G cfg conn u g)) = e"
    using m ask
    by (cases r) (auto simp: telegram_update_step_def Let_def on_engine_def andthen_run attempt_run ret_run telegram_ignored)
  with m e show ?thesis by blast
qed

text \<open>The calls that can be served: those whose request can be (\<open>Service\<close>).\<close>

definition call_servable :: "env \<Rightarrow> engine \<Rightarrow> store \<Rightarrow> gateway_call \<Rightarrow> bool" where
  "call_servable E en d c = (case engine_request c of None \<Rightarrow> True | Some req \<Rightarrow> servable E en d req)"

definition update_servable :: "env \<Rightarrow> engine \<Rightarrow> store \<Rightarrow> telegram_update \<Rightarrow> bool" where
  "update_servable E en d u = (case tgu_message u of
     None \<Rightarrow> True | Some m \<Rightarrow> tgm_text m = [] \<or> servable E en d (Deliver_Message (Some (update_message m))))"

definition gateway_store :: "qsys gateway_state \<Rightarrow> store" where
  "gateway_store g = w_db (q_world (gw_engine g))"

inductive gateway_step :: "env \<Rightarrow> engine \<Rightarrow> qsys go_service \<Rightarrow> qsys gateway_state \<Rightarrow> qsys gateway_state \<Rightarrow> bool" for E en sv where
  Gateway_Call: "call_servable E en (gateway_store g) c \<Longrightarrow> gateway_serve sv c g = (a, g') \<Longrightarrow> gateway_step E en sv g g'"
| Telegram_Update: "update_servable E en (gateway_store g) u \<Longrightarrow>
    telegram_update_step (sv_env sv) (sv_cfg sv) (sv_conn sv) u g = (a, g') \<Longrightarrow> gateway_step E en sv g g'"
| Engine_Work: "serve_step (engine_queue E en) (gw_engine g) s' \<Longrightarrow> gateway_step E en sv g (g\<lparr>gw_engine := s'\<rparr>)"

lemma call_moves:
  assumes "sv_conn sv = engine_conn G E h en"
  shows "gw_engine (snd (gateway_serve sv c g)) = gw_engine g \<or>
    (\<exists>req. engine_request c = Some req \<and> gw_engine (snd (gateway_serve sv c g)) = snd (engine_conn G E h en req (gw_engine g)))"
proof (cases c)
  case (Engine_Call req)
  show ?thesis
  proof (cases "forwarded_as req")
    case None
    then have "gateway_forward sv req = unimplemented" by (cases req) simp_all
    with Engine_Call show ?thesis by (simp add: unimplemented_def ret_def)
  next
    case (Some verb)
    obtain r e where r: "engine_conn G E h en req (gw_engine g) = (r, e)" by (cases "engine_conn G E h en req (gw_engine g)")
    from bridged_engine.forwarded [OF assms Some r] r Engine_Call show ?thesis by (auto simp: served_def)
  qed
next
  case (Get_Connector_Status name)
  then show ?thesis by (simp add: get_connector_status_def ret_def split: option.split)
next
  case (Send_Channel_Message m)
  with send_channel_state [of sv m g] assms show ?thesis by auto
qed (use assms in \<open>simp_all add: submit_state execute_state status_state list_connectors_def ret_def\<close>)

lemma conn_ready:
  assumes "runtime_laws E en" and "service_ready E en s" and "servable E en (w_db (q_world s)) req"
  shows "service_ready E en (snd (engine_conn G E h en req s))"
proof -
  obtain a s' where "serve E h en req s = (Ok a, s')" "service_ready E en s'" using serve_answers [OF assms] by blast
  then show ?thesis by (cases a) (auto simp: engine_conn_def split: status.split)
qed

lemma call_ready:
  assumes "runtime_laws E en" and "sv_conn sv = engine_conn G E h en" and "service_ready E en (gw_engine g)"
    and "call_servable E en (gateway_store g) c" and "gateway_serve sv c g = (a, g')"
  shows "service_ready E en (gw_engine g')"
  using call_moves [OF assms(2), of c g] conn_ready [OF assms(1,3)] assms(3-5)
  by (auto simp: call_servable_def gateway_store_def)

lemma gateway_steps_ready:
  assumes "runtime_laws E en" and "sv_conn sv = engine_conn G E h en" and "(gateway_step E en sv)\<^sup>*\<^sup>* g g'"
    and "service_ready E en (gw_engine g)"
  shows "service_ready E en (gw_engine g')"
  using assms(3,4)
proof (induction rule: rtranclp_induct)
  case (step g1 g2)
  have ready: "service_ready E en (gw_engine g1)" by (rule step.IH [OF step.prems])
  from step(2) show ?case
  proof cases
    case (Gateway_Call c a)
    then show ?thesis using call_ready [OF assms(1,2) ready] by blast
  next
    case (Telegram_Update u a)
    with telegram_state [of "sv_env sv" "sv_cfg sv" "sv_conn sv" u g1] conn_ready [OF assms(1) ready] ready assms(2)
    show ?thesis by (auto simp: update_servable_def gateway_store_def)
  next
    case (Engine_Work s')
    have "uuid_law E" using assms(1) by (simp add: runtime_laws_def)
    from ready_work [OF this Engine_Work(2) ready] Engine_Work(1) show ?thesis by simp
  qed
qed

section \<open>A message from the command line\<close>

text \<open>What the command line gets from the gateway: the reply, or the text of the status.\<close>

definition gateway_answers :: "(go_status \<Rightarrow> string) \<Rightarrow> 'e go_service \<Rightarrow> 'e gateway_state \<Rightarrow> gateway_call \<Rightarrow> string + gateway_reply" where
  "gateway_answers shown sv g c = (case fst (gateway_serve sv c g) of Ok (Inr reply) \<Rightarrow> Inr reply | Ok (Inl st) \<Rightarrow> Inl (shown st) | _ \<Rightarrow> Inl [])"

lemma deliver_through:
  assumes "runtime_laws E en" and "sv_conn sv = engine_conn G E h en" and "service_ready E en (gw_engine g)"
    and "servable E en (gateway_store g) (Deliver_Message (Some m))"
  shows "\<exists>r g'. gateway_serve sv (Submit_Message m) g = (Ok (Inr (Engine_Reply (Submit_Message_Response (ir_accepted r)
      (ir_message_id r) (ir_reply r) (ir_session_id r) (ir_pairing_id r) (ir_delivery_state r)))), g') \<and> answered r \<and>
    service_ready E en (gw_engine g')"
proof -
  let ?w = "q_world (gw_engine g)"
  obtain r w' where r: "handle_message E en m ?w = (Ok r, w')" "answered r"
    using message_answered [of E ?w en m] assms(1,3,4) by (auto simp: runtime_laws_def service_ready_def gateway_store_def)
  have "rpc_deliver_message E en (Some m) ?w = (Ok (Inr (Submit_Message_Response (ir_accepted r) (ir_message_id r) (ir_reply r)
      (ir_session_id r) (ir_pairing_id r) (ir_delivery_state r))), w')"
    using r(1) by (simp add: rpc_deliver_message_def respond_def andthen_run attempt_run ret_run)
  then have conn: "sv_conn sv (Deliver_Message (Some m)) (gw_engine g) = (Ok (Submit_Message_Response (ir_accepted r)
      (ir_message_id r) (ir_reply r) (ir_session_id r) (ir_pairing_id r) (ir_delivery_state r)), (gw_engine g)\<lparr>q_world := w'\<rparr>)"
    using assms(2) by (simp add: engine_conn_def on_world_def)
  let ?go = "\<lparr>gmr_accepted = ir_accepted r, gmr_message_id = ir_message_id r, gmr_reply = ir_reply r, gmr_session_id = ir_session_id r,
    gmr_pairing_id = ir_pairing_id r, gmr_delivery_state = ir_delivery_state r\<rparr>"
  have bridge: "bridge_deliver_message (sv_conn sv) \<lparr>gom_connector = me_connector m, gom_channel_id = me_channel_id m,
       gom_sender = me_sender m, gom_body = me_body m, gom_metadata_json = me_metadata_json m\<rparr> (gw_engine g)
     = (Ok ?go, (gw_engine g)\<lparr>q_world := w'\<rparr>)"
    using conn by (simp add: bridge_deliver_message_def record_copies invoke_run)
  have "served (submit_message sv m) g (Inr (Engine_Reply (Submit_Message_Response (ir_accepted r) (ir_message_id r) (ir_reply r)
      (ir_session_id r) (ir_pairing_id r) (ir_delivery_state r)))) ((gw_engine g)\<lparr>q_world := w'\<rparr>)"
    unfolding submit_message_def
    by (rule served_publishing(1), rule bridge) (intro publishes_then publishes_then_if publishes_ret, simp)
  then obtain g' where g': "gateway_serve sv (Submit_Message m) g = (Ok (Inr (Engine_Reply (Submit_Message_Response (ir_accepted r)
      (ir_message_id r) (ir_reply r) (ir_session_id r) (ir_pairing_id r) (ir_delivery_state r)))), g')"
    by (auto simp: served_def)
  moreover have "service_ready E en (gw_engine g')"
    by (rule call_ready [OF assms(1-3) _ g']) (use assms(4) in \<open>simp add: call_servable_def\<close>)
  ultimately show ?thesis using r(2) by blast
qed



end
