(* ===== verification/Gateway_Start.thy ===== *)
theory Gateway_Start
  imports Gateway_Config Gateway Startup_Facts
begin

text \<open>
  The gateway the command line starts: what it is configured with, told against the engine that was started
  before it.
\<close>

section \<open>What the two sides read of one file\<close>

text \<open>The gateway's view of the configuration.\<close>

definition go_view :: "app_config \<Rightarrow> go_config" where
  "go_view c = \<lparr>gc_listen_address = g_listen_address (cfg_gateway c), gc_engine_endpoint = g_engine_endpoint (cfg_gateway c),
     gc_telegram_bot_token = g_telegram_bot_token (cfg_gateway c),
     gc_telegram_poll_interval_seconds = g_telegram_poll_interval_seconds (cfg_gateway c),
     gc_local_http_listen_address = gl_listen_address (g_local_http (cfg_gateway c)),
     gc_registry_index = sk_registry_index (cfg_skills c), gc_connectors = cfg_connectors c,
     gc_attestation_enabled = ac_enabled (sec_attestation (cfg_security c)),
     gc_attestation_require_hardware = ac_require_hardware (sec_attestation (cfg_security c)),
     gc_paths = \<lparr>gpt_config_file = [], gpt_data_dir = [], gpt_state_dir = [], gpt_runtime_state_file = [], gpt_log_file = [],
       gpt_installs_dir = []\<rparr>\<rparr>"

text \<open>What the two TOML libraries have in common: one reads what the other has written.\<close>

definition same_toml :: "outside \<Rightarrow> go_machine \<Rightarrow> bool" where
  "same_toml x M \<longleftrightarrow> (\<forall>c s. x_toml_write x c = Some s \<longrightarrow> gm_decode M s = Inr (go_view c))"

text \<open>\<open>Command::env\<close>: a variable of the command, or else of the environment it is started in.\<close>

definition child_env :: "spawn_command \<Rightarrow> (string \<Rightarrow> string) \<Rightarrow> string \<Rightarrow> string" where
  "child_env cmd outer name = (case map_of (sp_env cmd) name of Some v \<Rightarrow> v | None \<Rightarrow> outer name)"

lemma settled_migrates:
  assumes "settled c"
  shows "migrate_legacy_connectors (cfg_connectors c) = cfg_connectors c"
proof -
  have "''desktop'' \<in> fst ` set default_connectors" by code_simp
  then have "bt_get (cfg_connectors c) ''webchat'' = None" "bt_get (cfg_connectors c) ''desktop'' \<noteq> None"
    using assms unfolding settled_def complete_def by blast+
  then show ?thesis by (auto simp: migrate_legacy_connectors_def Let_def)
qed

section \<open>The process that is started\<close>

lemma spawned_command:
  "spawn_gateway x config paths ep t = (Ok u, t') \<Longrightarrow>
     \<exists>binary cwd. tm_spawned t' = tm_spawned t @ [gateway_command x config paths ep binary cwd]"
  by (auto simp: spawn_gateway_def run_simps on_machine_def of_option_def Let_def split: option.splits if_splits) blast

lemma boot_spawned:
  assumes "boot_runtime_sidecars x config paths t = (Ok ep, t')"
  shows "ep = ''unix://'' @ pa_runtime_socket paths \<and>
    (\<exists>binary cwd. tm_spawned t' = tm_spawned t @ [gateway_command x config paths ep binary cwd])"
  using assms unfolding boot_runtime_sidecars_def Let_def
proof (cases rule: andthenE)
  case boot: (Next en t1)
  from boot(2) show ?thesis
  proof (cases rule: andthenE)
    case rpc: (Next ep' t2)
    then have ep': "ep' = ''unix://'' @ pa_runtime_socket paths"
      by (auto simp: start_private_rpc_def run_simps on_machine_def Let_def split: if_splits)
    from rpc(2) show ?thesis
    proof (cases rule: andthenE)
      case state: (Next u t3)
      from state(2) show ?thesis
      proof (cases rule: andthenE)
        case spawn: (Next v t4)
        from spawn(2) have "ep = ep'" "same_but_calls t4 t'"
          by (cases rule: andthenE; auto dest!: wait_outcome simp: ret_def)+
        with spawned_command [OF spawn(1)] on_machine_processes [OF boot(1)] on_machine_processes [OF state(1)]
          rpc_outcome [OF rpc(1)] ep'
        show ?thesis by (auto simp: same_processes_def same_but_calls_def)
      qed simp
    qed simp
  qed simp
qed simp

lemma gateway_environment:
  "child_env (gateway_command x config paths ep binary cwd) outer ''OPENPINCH_CONFIG_PATH'' = pa_config_file paths"
  "child_env (gateway_command x config paths ep binary cwd) outer ''OPENPINCH_ENGINE_ENDPOINT'' = ep"
  "child_env (gateway_command x config paths ep binary cwd) outer ''OPENPINCH_GATEWAY_LISTEN_ADDRESS'' = g_listen_address (cfg_gateway config)"
  by (simp_all add: child_env_def gateway_command_def Let_def)


definition sample_machine :: go_machine where
  "sample_machine = \<lparr>gm_getenv = (\<lambda>_. []), gm_user_config_dir = Inr ''/c'', gm_user_home_dir = Some ''/h'',
     gm_user_cache_dir = Some ''/k'',
     gm_decode = (\<lambda>s. if s = ''a'' then Inr (go_view default_config) else if s = ''b'' then Inr (go_view quiet_config) else Inl []),
     gm_read_error = (\<lambda>_. [])\<rparr>"

lemma sample_toml: "same_toml host_outside sample_machine"
  by (simp add: same_toml_def host_outside_def setting_outside_def sample_machine_def)


end
