(* ===== verification/Spec2Isabelle.thy ===== *)
theory Spec2Isabelle
  imports Config_Facts Sessions Brain_Facts Policy Orchestrator Skills Tools Protocol Queue Sandbox Engine Engine_Ops Engine_Facts Engine_Progress Rpc Rpc_Facts Service
    Providers Providers_Facts Terminal Cli Desktop_Host Cli_Facts Cli_Safe Cli_Config_Facts Startup_Sample Startup_Facts
    Gateway_Bridge Event_Hub Connectors Gateway Gateway_Config Gateway_Local Gateway_Facts Gateway_Runs Gateway_Start
begin

text \<open>
  OpenPinch is a local runtime for an assistant. A gateway process (Go) receives messages from
  connectors and calls the engine (Rust) through a private RPC service; the engine resolves the
  session, asks for pairing where it must, ingests the message into a long-term memory (the brain),
  asks a model for a reply through three caches and a list of providers, and records everything in one
  SQLite database. Tools and signed skills run in a sandbox under a capability matrix, directly or
  through a priority queue. The command line starts engine and gateway and asks the gateway. This
  development models the Rust part - the engine crate, the common, tools and sandbox crates below it, and
  the command line above - and the Go gateway between them, so that a message can be followed from the
  command line to the answer. Paths are relative to \<open>src/core/crates\<close>, but for \<open>src/cli/src/main.rs\<close> and
  those that begin with \<open>gateway\<close>, which are relative to \<open>src\<close>.

  \<^bold>\<open>The theories.\<close>

  \<^item> \<open>Prelude\<close>: actions over a state with four ways to end (a value, an error, a panic, a mutex that is
    never released), their composition, and the rules all components share. \<open>Rust_Str\<close>: \<open>str\<close> as UTF-8
    bytes. \<open>BTree_Map\<close>: \<open>BTreeMap\<close> as a sorted list, behind the locale \<open>ordered_map\<close>. \<open>Sql_Table\<close>: the SQL
    statements over a list of rows, behind the locale \<open>upsert_table\<close>.
  \<^item> \<open>Types\<close>, \<open>Config\<close>, \<open>Config_Ops\<close>, \<open>Paths\<close>, \<open>Policy\<close>, \<open>Skills\<close>: the common crate (\<open>types.rs\<close>, \<open>config.rs\<close>,
    \<open>paths.rs\<close>, \<open>policy.rs\<close>, \<open>skill.rs\<close>), \<open>Skills\<close> with the \<open>SkillManager\<close> of \<open>tools/src/lib.rs\<close>.
    \<open>Encryption\<close>: \<open>crypto.rs\<close> and the engine's \<open>EncryptionManager\<close>.
  \<^item> \<open>World\<close>: the state. \<open>w_db\<close> holds the tables of \<open>StateStore\<close>, \<open>w_locked\<close> its connection mutex,
    \<open>w_files\<close> the files; the clock and the source of UUIDs advance with every reading; \<open>w_calls\<close> and
    \<open>w_runs\<close> record what providers and sandbox were asked. The record \<open>env\<close> holds what is outside the
    repository. \<open>Demo\<close> is a concrete instance for the witnesses.
  \<^item> \<open>Text\<close>, \<open>Store\<close>, \<open>Sessions\<close>, \<open>Brain_Store\<close>, \<open>Brain_Ops\<close>, \<open>Orchestrator\<close>, \<open>Protocol\<close>, \<open>Queue\<close>: the parts
    of \<open>engine/src/lib.rs\<close> below the runtime. \<open>Providers\<close>: the three kinds of model providers over HTTP
    (\<open>engine/src/providers\<close>), in the place of the parameter \<open>E_generate\<close>. \<open>Tools\<close> and \<open>Sandbox\<close>:
    the crates of these names.
  \<^item> \<open>Engine\<close>, \<open>Engine_Ops\<close>: \<open>EngineRuntime\<close>. \<open>Rpc\<close>: \<open>RuntimeRpcService\<close>, one handler per method of
    \<open>EngineRuntimeService\<close> in \<open>proto/openpinch.proto\<close>; \<open>serve\<close> dispatches, \<open>service_step\<close> is the life of
    the service, requests and the steps of the queue's worker in any order.
  \<^item> \<open>Terminal\<close>: what a command acts on - the \<open>world\<close>, what is printed, the requests sent to the gateway, the
    processes - and the functions of \<open>engine/src/lib.rs\<close> about it (\<open>start_private_rpc\<close>, \<open>fetch_gateway_status\<close>,
    \<open>wait_for_gateway\<close>, \<open>load_runtime_status\<close>, \<open>EngineHandle::shutdown\<close>). The record \<open>outside\<close> extends \<open>env\<close> by
    the answers of the gateway, the TOML codec and the operating system's processes. \<open>Cli\<close>: every command of
    \<open>main.rs\<close>, one \<open>handle_\<close> function each as in the code; \<open>run_cli\<close> is \<open>main\<close> from the parsed arguments on.
    \<open>Desktop_Host\<close>: the desktop host, its life as the step relation \<open>host_step\<close> of signals, ticks of its
    timer, the death of its gateway and the commands other processes run.
  \<^item> \<open>Gateway_Bridge\<close>: the gateway's client of the engine (\<open>gateway/internal/enginebridge\<close>): one function per
    method, the Go structs and their copies from and into messages. The connection is a parameter (\<open>conn\<close>),
    described by the locale \<open>engine_transport\<close> and interpreted on the modelled service (\<open>engine_conn\<close>).
    \<open>Event_Hub\<close>: \<open>gateway/internal/server/events.go\<close> and the streams that read it, as the step relation
    \<open>hub_step\<close>. \<open>Connectors\<close>: \<open>gateway/internal/connectors\<close>, with the gateway's state. \<open>Gateway\<close>: the handlers
    of \<open>gateway/internal/server/server.go\<close>; \<open>gateway_serve\<close> dispatches on the same \<open>gateway_call\<close> the command
    line sends. \<open>Gateway_Config\<close>: \<open>gateway/internal/config\<close>. \<open>Gateway_Local\<close>: the handlers that do not need the
    engine, and \<open>gateway/internal/scheduler\<close>.
  \<^item> \<open>Gateway_Facts\<close>, \<open>Gateway_Runs\<close>, \<open>Gateway_Start\<close>: the gateway in front of the engine, the whole runtime as
    the step relation \<open>gateway_step\<close> with the command line on top, and the gateway a start spawns.
  \<^item> \<open>Brain_Facts\<close>, \<open>Engine_Facts\<close>, \<open>Engine_Progress\<close>, \<open>Rpc_Facts\<close>, \<open>Service\<close>, \<open>Providers_Facts\<close>, \<open>Cli_Facts\<close>,
    \<open>Cli_Safe\<close>, \<open>Cli_Config_Facts\<close>, \<open>Startup_Facts\<close>: the theorems that need several components. \<open>Startup_Sample\<close> is a
    machine on which a start succeeds, for their witnesses. The others stand in the theory of their component.

  \<^bold>\<open>What is shown.\<close> Lock discipline and absence of panics are \<open>safe\<close> (partial) and \<open>completes\<close> or \<open>settles\<close>
  (total: the action returns); the fields of the store an action leaves alone and the properties it keeps
  are \<open>keeps\<close>. With them: the tables of the brain stay valid and every operation of it returns
  (\<open>Brain_Facts\<close>); counters of sessions agree with their messages (\<open>Sessions\<close>); messages that need no
  pairing are always answered and those that need it hang (\<open>Engine_Progress\<close>, \<open>Engine_Facts\<close>); the store
  stays well-formed and the service never stops along every sequence of requests and steps (\<open>Rpc_Facts\<close>,
  \<open>Service\<close>). Under every interleaving the queue loses no task and drains (\<open>Queue\<close>), its four buckets
  refine one list by priority. A reply comes from the service that was asked (\<open>Providers_Facts\<close>). Sealed
  payloads open, policy decisions partition the request, the sandbox gets permitted commands only,
  installation installs what was verified, the Firecracker guest is started last. Every command returns
  (\<open>Cli_Safe\<close>). A setting survives the restart, what a run leaves on file is what \<open>status\<close> prints, waiting
  for the gateway is bounded, and whatever happens to a desktop host it serves while it watches and leaves
  nothing behind when it ends well (\<open>Cli_Facts\<close>, \<open>Cli_Config_Facts\<close>, \<open>Startup_Facts\<close>). The gateway hands on
  requests and answers unchanged and records a channel message only when it was sent (\<open>Gateway_Facts\<close>); its
  streams send every event that did not find a full channel (\<open>Event_Hub\<close>); its scheduler refines a table of
  jobs (\<open>Gateway_Local\<close>); a started gateway reads the configuration of the command line and dials its engine
  (\<open>Gateway_Start\<close>); and end to end, a posted message is answered however long the runtime has been at
  work (\<open>Gateway_Runs\<close>). Several theorems
  state what the code does where that is not what it means to do; they are listed as findings beside the
  development.

  \<^bold>\<open>Conventions.\<close> A \<open>DateTime\<close> is its nanoseconds as an integer, an \<open>f64\<close> a rational number (rounding is
  not modelled), \<open>usize\<close> a number, except where it wraps (the queue's depth, counters of 32 bits). Stored
  RFC 3339 times are kept as instants; their order as text is the order in time, all having one offset.
  SQLite statements succeed except where they violate a key. The connection mutex is not reentrant: to
  take it twice is the outcome \<open>Deadlock\<close>, and the world keeps it locked. \<open>tokio::join!\<close> runs the draft
  first. A request is served without interruption by another request; the queue is modelled with its true
  interleaving, the body of a task, which uses only the locked store, being one step. A handler of the
  gateway is one step as well, but its event hub and streams are interleaved as they are in the code; the ten
  seconds the gateway gives a call run out only for a handler that blocks. The loop of the
  Firecracker backend that waits for the socket is bounded by 100 rounds in the code and so in the model;
  the wait for the gateway ends by the measure of the time left, since a round sleeps 250 ms; the desktop
  shutdown looks twenty times, as in the code; no other fuel is used.
  Error texts leave out random temporary paths. Files are written without error.

  \<^bold>\<open>Not modelled.\<close> Argument parsing (\<open>clap\<close>: commands start from their parsed arguments) and
  the set-up of the log writer; \<open>logs --follow\<close> never returns and is modelled round by round. The transport
  below the RPC service and the gateway's service, with its TLS credentials and the signals of
  \<open>gateway/cmd/gateway/main.go\<close>; reflection over the message descriptors (\<open>gateway/pkg/pb\<close>). Telegram's
  server and the cron library are parameters; of the gateway's configuration there is what its code
  reads. Other processes touch the files of a desktop host only
  by its own commands. What the model services answer is a parameter. AES-GCM, X25519, Ed25519, SHA-256,
  Base64, zstd, tar and the TOML, YAML and JSON codecs are parameters; what is used of them is stated as named laws
  (\<open>cipher_law\<close>, \<open>base64_law\<close>, \<open>blob_json_law\<close> and others), and the witnesses have instances. Creation of
  directories and tables. The Flutter UI, the operator, the scripts and generated code.
\<close>

end
